(* ===== verification/Prelude.thy ===== *)
theory Prelude
  imports Main
    "HOL-Library.AList"
    "HOL-Library.Char_ord"
    "HOL-Library.List_Lexorder"
    "HOL-Library.Product_Lexorder"
    "HOL-Library.Sublist"
begin

text \<open>
  Shared vocabulary of the development.

  \<^item> Go's \<^verbatim>\<open>int\<close>, \<^verbatim>\<open>int64\<close> and \<^verbatim>\<open>time.Duration\<close> are \<open>int\<close>; the 64-bit range and the
    wrap-around are written out (\<open>in_int64\<close>, \<open>wrap64\<close>) where the code can leave it.
  \<^item> \<^verbatim>\<open>time.Time\<close> is an instant in nanoseconds after Go's zero time, so \<open>IsZero\<close> is
    \<open>t = 0\<close>; \<^verbatim>\<open>Time.Sub\<close> saturates at the ends of the \<^verbatim>\<open>Duration\<close> range.
  \<^item> A Go \<^verbatim>\<open>map[K]V\<close> is an association list with distinct keys. The list order stands for
    the iteration order, which Go leaves open: the theorems show that what the program
    computes does not depend on it. The interface of such maps is the locale \<open>gomap\<close>.
\<close>

named_theorems go_simps \<open>evaluation rules for the modelled part of the Go library\<close>
named_theorems inv_intros \<open>preservation of the components' invariants\<close>

section \<open>Integers, durations and instants\<close>

type_synonym duration = int
type_synonym time = int

definition maxInt64 :: int where "maxInt64 = 9223372036854775807"
definition minInt64 :: int where "minInt64 = -9223372036854775808"

definition in_int64 :: "int \<Rightarrow> bool" where
  "in_int64 x \<longleftrightarrow> minInt64 \<le> x \<and> x \<le> maxInt64"

text \<open>Two's complement wrap-around of a 64-bit result.\<close>

definition wrap64 :: "int \<Rightarrow> int" where
  "wrap64 x = (x + 9223372036854775808) mod 18446744073709551616 - 9223372036854775808"

definition Nanosecond :: duration where "Nanosecond = 1"
definition Millisecond :: duration where "Millisecond = 1000000"
definition Second :: duration where "Second = 1000000000"
definition Minute :: duration where "Minute = 60000000000"
definition Hour :: duration where "Hour = 3600000000000"

lemmas duration_defs [go_simps] =
  Nanosecond_def Millisecond_def Second_def Minute_def Hour_def

lemma wrap64_id: "in_int64 x \<Longrightarrow> wrap64 x = x"
  by (simp add: wrap64_def in_int64_def minInt64_def maxInt64_def)

lemma wrap64_in_int64 [simp]: "in_int64 (wrap64 x)"
proof -
  have "0 \<le> (x + 9223372036854775808) mod 18446744073709551616"
    and "(x + 9223372036854775808) mod 18446744073709551616 < 18446744073709551616"
    by simp_all
  then show ?thesis
    unfolding wrap64_def in_int64_def minInt64_def maxInt64_def by linarith
qed

text \<open>\<^verbatim>\<open>Time.Sub\<close>: the difference, saturated to the \<^verbatim>\<open>Duration\<close> range.\<close>

definition time_Sub :: "time \<Rightarrow> time \<Rightarrow> duration" where
  "time_Sub t u = max minInt64 (min maxInt64 (t - u))"

definition IsZero :: "time \<Rightarrow> bool" where
  "IsZero t \<longleftrightarrow> t = 0"

lemma time_Sub_gt:
  assumes "0 \<le> d" "d < maxInt64"
  shows "d < time_Sub t u \<longleftrightarrow> d < t - u"
  using assms by (auto simp: time_Sub_def minInt64_def maxInt64_def)

text \<open>Go's \<^verbatim>\<open>/\<close> on integers truncates towards zero.\<close>

definition go_div :: "int \<Rightarrow> int \<Rightarrow> int" where
  "go_div a b = sgn a * sgn b * (\<bar>a\<bar> div \<bar>b\<bar>)"

definition go_mod :: "int \<Rightarrow> int \<Rightarrow> int" where
  "go_mod a b = a - b * go_div a b"

section \<open>Go maps\<close>

type_synonym ('k, 'v) go_map = "('k \<times> 'v) list"

abbreviation gm_get :: "('k, 'v) go_map \<Rightarrow> 'k \<Rightarrow> 'v option" where
  "gm_get m k \<equiv> map_of m k"

abbreviation gm_put :: "'k \<Rightarrow> 'v \<Rightarrow> ('k, 'v) go_map \<Rightarrow> ('k, 'v) go_map" where
  "gm_put k v m \<equiv> AList.update k v m"

definition gm_del :: "'k \<Rightarrow> ('k, 'v) go_map \<Rightarrow> ('k, 'v) go_map" where
  "gm_del k m = filter (\<lambda>p. fst p \<noteq> k) m"

abbreviation gm_keys :: "('k, 'v) go_map \<Rightarrow> 'k list" where
  "gm_keys m \<equiv> map fst m"

definition gm_ok :: "('k, 'v) go_map \<Rightarrow> bool" where
  "gm_ok m \<longleftrightarrow> distinct (map fst m)"

text \<open>The contract of a finite map: what a lookup returns after every write.\<close>

locale gomap =
  fixes get :: "'m \<Rightarrow> 'k \<Rightarrow> 'v option"
    and put :: "'k \<Rightarrow> 'v \<Rightarrow> 'm \<Rightarrow> 'm"
    and del :: "'k \<Rightarrow> 'm \<Rightarrow> 'm"
    and ok :: "'m \<Rightarrow> bool"
  assumes get_put: "get (put k v m) = (get m)(k \<mapsto> v)"
    and get_del: "get (del k m) = (get m)(k := None)"
    and ok_put: "ok m \<Longrightarrow> ok (put k v m)"
    and ok_del: "ok m \<Longrightarrow> ok (del k m)"
begin

lemma put_put: "get (put k v (put k w m)) = get (put k v m)"
  by (simp add: get_put)

lemma del_put: "get (del k (put k v m)) = get (del k m)"
  by (simp add: get_put get_del)

lemma put_commute: "k \<noteq> l \<Longrightarrow> get (put k v (put l w m)) = get (put l w (put k v m))"
  by (simp add: get_put fun_upd_twist)

end

lemma gm_get_del [simp]: "gm_get (gm_del k m) = (gm_get m)(k := None)"
  by (rule ext, induction m) (auto simp: gm_del_def)

lemma gm_ok_put [simp]: "gm_ok m \<Longrightarrow> gm_ok (gm_put k v m)"
  by (simp add: gm_ok_def distinct_update)

lemma gm_ok_del [simp]: "gm_ok m \<Longrightarrow> gm_ok (gm_del k m)"
  by (simp add: gm_ok_def gm_del_def distinct_map_filter)

lemma gm_ok_Nil [simp]: "gm_ok []"
  by (simp add: gm_ok_def)

interpretation gm: gomap map_of AList.update gm_del gm_ok
  by unfold_locales (simp_all add: update_conv')

lemma gm_ok_filter [simp]: "gm_ok m \<Longrightarrow> gm_ok (filter P m)"
  by (simp add: gm_ok_def distinct_map_filter)

lemma gm_get_in: "gm_ok m \<Longrightarrow> gm_get m k = Some v \<longleftrightarrow> (k, v) \<in> set m"
  by (simp add: gm_ok_def)

lemma gm_get_filter:
  assumes "gm_ok m"
  shows "gm_get (filter P m) k =
    (case gm_get m k of None \<Rightarrow> None | Some v \<Rightarrow> if P (k, v) then Some v else None)"
proof (cases "gm_get m k")
  case None
  then have "\<forall>v. (k, v) \<notin> set m" by (auto simp: map_of_eq_None_iff image_iff)
  then have "gm_get (filter P m) k = None" by (auto simp: map_of_eq_None_iff)
  with None show ?thesis by simp
next
  case (Some v)
  have ok: "gm_ok (filter P m)" using assms by simp
  have "gm_get (filter P m) k = Some v \<longleftrightarrow> P (k, v)"
    using Some assms by (simp add: gm_get_in [OF ok] gm_get_in)
  moreover have "gm_get (filter P m) k = Some w \<Longrightarrow> w = v" for w
    using Some assms gm_get_in [OF ok, of k w] gm_get_in [OF assms, of k w] by simp
  ultimately show ?thesis
    using Some by (cases "gm_get (filter P m) k") auto
qed

text \<open>
  Entries of a map may be updated in place through a pointer: \<open>gm_adjust k f\<close> is
  \<^verbatim>\<open>if e, ok := m[k]; ok { *e = f(*e) }\<close>.
\<close>

definition gm_adjust :: "'k \<Rightarrow> ('v \<Rightarrow> 'v) \<Rightarrow> ('k, 'v) go_map \<Rightarrow> ('k, 'v) go_map" where
  "gm_adjust k f m = (case gm_get m k of None \<Rightarrow> m | Some v \<Rightarrow> gm_put k (f v) m)"

lemma gm_get_adjust:
  "gm_get (gm_adjust k f m) l = (if l = k then map_option f (gm_get m k) else gm_get m l)"
  by (simp add: gm_adjust_def update_conv' split: option.split)

lemma gm_ok_adjust [simp]: "gm_ok m \<Longrightarrow> gm_ok (gm_adjust k f m)"
  by (simp add: gm_adjust_def split: option.split)

lemma gm_keys_put_present: "k \<in> set (gm_keys m) \<Longrightarrow> gm_keys (gm_put k v m) = gm_keys m"
  by (induction m) auto

lemma gm_keys_adjust [simp]: "gm_keys (gm_adjust k f m) = gm_keys m"
proof (cases "gm_get m k")
  case (Some v)
  then have "k \<in> set (gm_keys m)" by (metis domI dom_map_of_conv_image_fst list.set_map)
  with Some show ?thesis by (simp add: gm_adjust_def gm_keys_put_present)
qed (simp add: gm_adjust_def)

lemma gm_length_adjust [simp]: "length (gm_adjust k f m) = length m"
  by (metis gm_keys_adjust length_map)

lemma gm_length_filter_card:
  assumes "gm_ok m" shows "length m = card (dom (gm_get m))"
proof -
  have "dom (gm_get m) = set (gm_keys m)" by (simp add: dom_map_of_conv_image_fst)
  moreover have "length m = card (set (gm_keys m))"
    using assms distinct_card [of "gm_keys m"] by (simp add: gm_ok_def)
  ultimately show ?thesis by simp
qed

section \<open>Lists\<close>

lemma sorted_list_of_set_map_of:
  assumes "gm_ok m" shows "sort (gm_keys m) = sorted_list_of_set (dom (gm_get m))"
proof -
  have "dom (gm_get m) = set (gm_keys m)" by (simp add: dom_map_of_conv_image_fst)
  then show ?thesis
    using assms sorted_list_of_set_sort_remdups [of "gm_keys m"]
    by (simp add: gm_ok_def distinct_remdups_id)
qed

text \<open>The last element that satisfies a predicate, found by a downward index loop.\<close>

fun last_index :: "('a \<Rightarrow> bool) \<Rightarrow> 'a list \<Rightarrow> nat option" where
  "last_index P [] = None"
| "last_index P (x # xs) =
     (case last_index P xs of Some i \<Rightarrow> Some (Suc i) | None \<Rightarrow> if P x then Some 0 else None)"

lemma last_index_None: "last_index P xs = None \<longleftrightarrow> (\<forall>x\<in>set xs. \<not> P x)"
  by (induction xs) (auto split: option.splits)

lemma last_index_Some:
  "last_index P xs = Some i \<Longrightarrow> i < length xs \<and> P (xs ! i) \<and> (\<forall>x\<in>set (drop (Suc i) xs). \<not> P x)"
  by (induction xs arbitrary: i) (auto simp: last_index_None split: option.splits if_splits)

end
