(* ===== verification/Go_Strings.thy ===== *)
theory Go_Strings
  imports Prelude
begin

text \<open>
  The part of Go's \<^verbatim>\<open>strings\<close>, \<^verbatim>\<open>strconv\<close>, \<^verbatim>\<open>unicode/utf8\<close> and \<^verbatim>\<open>time\<close> packages that the program
  uses. A Go \<^verbatim>\<open>string\<close> is a list of bytes, here a \<open>string\<close> whose \<open>char\<close>s are the bytes, and
  Go's byte-wise \<open><\<close> is the lexicographic order on them. A rune is represented by its UTF-8
  encoding: \<open>rune_chunks\<close> cuts a string the way \<^verbatim>\<open>for _, r := range s\<close> does, an invalid byte being
  a chunk of its own, and \<open>runes\<close> replaces such a byte by the encoding of U+FFFD, as a
  conversion to \<^verbatim>\<open>[]rune\<close> does.
\<close>

section \<open>UTF-8\<close>

type_synonym rune = string

abbreviation byte :: "char \<Rightarrow> nat" where "byte c \<equiv> of_char c"

definition is_cont :: "char \<Rightarrow> bool" where
  "is_cont c \<longleftrightarrow> 128 \<le> byte c \<and> byte c \<le> 191"

text \<open>
  The width \<^verbatim>\<open>utf8.DecodeRuneInString\<close> reports for the first rune: the accept ranges of its
  second byte depend on the first; anything malformed is one byte wide.
\<close>

definition second_ok :: "nat \<Rightarrow> char \<Rightarrow> bool" where
  "second_ok b c \<longleftrightarrow>
     (if b = 224 then 160 \<le> byte c \<and> byte c \<le> 191
      else if b = 237 then 128 \<le> byte c \<and> byte c \<le> 159
      else if b = 240 then 144 \<le> byte c \<and> byte c \<le> 191
      else if b = 244 then 128 \<le> byte c \<and> byte c \<le> 143
      else is_cont c)"

definition rune_width :: "char \<Rightarrow> string \<Rightarrow> nat" where
  "rune_width c s =
     (let b = byte c in
      if b < 194 then 1
      else if b < 224 then (case s of c1 # _ \<Rightarrow> if second_ok b c1 then 2 else 1 | _ \<Rightarrow> 1)
      else if b < 240 then
        (case s of c1 # c2 # _ \<Rightarrow> if second_ok b c1 \<and> is_cont c2 then 3 else 1 | _ \<Rightarrow> 1)
      else if b < 245 then
        (case s of c1 # c2 # c3 # _ \<Rightarrow>
           if second_ok b c1 \<and> is_cont c2 \<and> is_cont c3 then 4 else 1 | _ \<Rightarrow> 1)
      else 1)"

function rune_chunks :: "string \<Rightarrow> string list" where
  "rune_chunks [] = []"
| "rune_chunks (c # s) =
     (let n = rune_width c s - 1 in (c # take n s) # rune_chunks (drop n s))"
  by pat_completeness auto
termination
  by (relation "measure length") auto

definition RuneError :: rune where
  "RuneError = [CHR 0xEF, CHR 0xBF, CHR 0xBD]"

text \<open>A one-byte chunk that is not ASCII is a decoding error.\<close>

definition norm_rune :: "string \<Rightarrow> rune" where
  "norm_rune c = (case c of [b] \<Rightarrow> if byte b < 128 then c else RuneError | _ \<Rightarrow> c)"

definition runes :: "string \<Rightarrow> rune list" where
  "runes s = map norm_rune (rune_chunks s)"

definition RuneCountInString :: "string \<Rightarrow> nat" where
  "RuneCountInString s = length (rune_chunks s)"

definition string_of_runes :: "rune list \<Rightarrow> string" where
  "string_of_runes rs = concat rs"

text \<open>Well-formed encodings: what \<open>runes\<close> produces.\<close>

definition valid_rune :: "rune \<Rightarrow> bool" where
  "valid_rune r \<longleftrightarrow> (case r of [] \<Rightarrow> False | c # s \<Rightarrow>
     rune_width c s = length r \<and> (s = [] \<longrightarrow> byte c < 128))"

definition ascii :: "string \<Rightarrow> bool" where
  "ascii s \<longleftrightarrow> (\<forall>c\<in>set s. byte c < 128)"

lemma ascii_simps [simp]:
  "ascii []" "ascii (c # s) \<longleftrightarrow> byte c < 128 \<and> ascii s" "ascii (s @ t) \<longleftrightarrow> ascii s \<and> ascii t"
  by (auto simp: ascii_def)

lemma concat_rune_chunks [simp]: "concat (rune_chunks s) = s"
  by (induction s rule: rune_chunks.induct) (simp_all add: Let_def)

lemma rune_chunks_nonempty: "[] \<notin> set (rune_chunks s)"
  by (induction s rule: rune_chunks.induct) (auto simp: Let_def)

lemma rune_width_ascii: "byte c < 128 \<Longrightarrow> rune_width c s = 1"
  by (simp add: rune_width_def)

lemma rune_chunks_Cons_ascii [simp]: "byte c < 128 \<Longrightarrow> rune_chunks (c # s) = [c] # rune_chunks s"
  by (simp add: rune_width_ascii)

declare rune_chunks.simps(2) [simp del]

lemma rune_chunks_ascii: "ascii s \<Longrightarrow> rune_chunks s = map (\<lambda>c. [c]) s"
  by (induction s) (simp_all add: ascii_def)

text \<open>Decoding a well-formed rune looks at its own bytes only.\<close>

lemma rune_width_append:
  assumes "valid_rune (c # s)" shows "rune_width c (s @ t) = Suc (length s)"
  using assms
  by (cases s rule: remdups_adj.cases; cases "tl (tl s)")
    (auto simp: valid_rune_def rune_width_def Let_def split: if_splits list.splits)

lemma rune_chunks_valid_append:
  assumes "valid_rune r" shows "rune_chunks (r @ t) = r # rune_chunks t"
proof -
  obtain c s where r: "r = c # s" using assms by (cases r) (auto simp: valid_rune_def)
  then show ?thesis
    using rune_width_append [of c s t] assms by (simp add: rune_chunks.simps(2) Let_def)
qed

lemma rune_chunks_concat:
  "\<forall>r\<in>set rs. valid_rune r \<Longrightarrow> rune_chunks (concat rs) = rs"
  by (induction rs) (simp_all add: rune_chunks_valid_append)

lemma norm_rune_valid: "valid_rune r \<Longrightarrow> norm_rune r = r"
  by (auto simp: norm_rune_def valid_rune_def split: list.splits)

lemma valid_RuneError: "valid_rune RuneError"
  by (simp add: valid_rune_def RuneError_def rune_width_def second_ok_def is_cont_def)

lemma rune_width_le: "rune_width c s \<le> Suc (length s)"
  by (auto simp: rune_width_def Let_def split: list.splits)

lemma rune_width_pos: "0 < rune_width c s"
  by (auto simp: rune_width_def Let_def split: list.splits)

lemma rune_width_take: "rune_width c (take (rune_width c s - 1) s) = rune_width c s"
  by (auto simp: rune_width_def Let_def split: list.splits)

lemma valid_norm_chunk:
  "valid_rune (norm_rune (c # take (rune_width c s - 1) s))"
proof (cases "rune_width c s - 1 = 0 \<or> s = []")
  case True
  then have "norm_rune (c # take (rune_width c s - 1) s) = (if byte c < 128 then [c] else RuneError)"
    by (auto simp: norm_rune_def)
  then show ?thesis using valid_RuneError by (simp add: valid_rune_def rune_width_ascii)
next
  case False
  then obtain a l where al: "take (rune_width c s - 1) s = a # l" by (cases s) (auto simp: take_Cons' split: if_splits)
  have len: "length (take (rune_width c s - 1) s) = rune_width c s - 1"
    using rune_width_le [of c s] by simp
  then have "Suc (Suc (length l)) = rune_width c s"
    using al rune_width_pos [of c s] by (metis Suc_diff_1 Suc_eq_plus1 diff_Suc_1 length_Cons)
  then have "valid_rune (c # take (rune_width c s - 1) s)"
    using rune_width_take [of c s] al by (simp add: valid_rune_def)
  then show ?thesis by (simp add: norm_rune_valid)
qed

lemma valid_runes: "r \<in> set (runes s) \<Longrightarrow> valid_rune r"
proof (induction s rule: rune_chunks.induct)
  case (2 c s)
  then show ?case
    using valid_norm_chunk [of c s] by (auto simp: runes_def rune_chunks.simps(2) Let_def)
qed (simp add: runes_def)

lemma runes_string_of_runes:
  assumes "\<forall>r\<in>set rs. valid_rune r" shows "runes (string_of_runes rs) = rs"
  using assms by (simp add: runes_def string_of_runes_def rune_chunks_concat norm_rune_valid map_idI)

lemma length_runes [simp]: "length (runes s) = RuneCountInString s"
  by (simp add: runes_def RuneCountInString_def)

section \<open>White space\<close>

text \<open>The runes for which \<^verbatim>\<open>unicode.IsSpace\<close> holds, by their encodings.\<close>

definition space_runes :: "rune list" where
  "space_runes =
     [[CHR 0x20], [CHR 0x0A], [CHR 0x09], [CHR 0x0D], [CHR 0x0B], [CHR 0x0C],
      [CHR 0xC2, CHR 0x85], [CHR 0xC2, CHR 0xA0], [CHR 0xE1, CHR 0x9A, CHR 0x80],
      [CHR 0xE2, CHR 0x80, CHR 0x80], [CHR 0xE2, CHR 0x80, CHR 0x81],
      [CHR 0xE2, CHR 0x80, CHR 0x82], [CHR 0xE2, CHR 0x80, CHR 0x83],
      [CHR 0xE2, CHR 0x80, CHR 0x84], [CHR 0xE2, CHR 0x80, CHR 0x85],
      [CHR 0xE2, CHR 0x80, CHR 0x86], [CHR 0xE2, CHR 0x80, CHR 0x87],
      [CHR 0xE2, CHR 0x80, CHR 0x88], [CHR 0xE2, CHR 0x80, CHR 0x89],
      [CHR 0xE2, CHR 0x80, CHR 0x8A], [CHR 0xE2, CHR 0x80, CHR 0xA8],
      [CHR 0xE2, CHR 0x80, CHR 0xA9], [CHR 0xE2, CHR 0x80, CHR 0xAF],
      [CHR 0xE2, CHR 0x81, CHR 0x9F], [CHR 0xE3, CHR 0x80, CHR 0x80]]"

definition IsSpace :: "rune \<Rightarrow> bool" where
  "IsSpace r \<longleftrightarrow> r \<in> set space_runes"

definition trim_both :: "('a \<Rightarrow> bool) \<Rightarrow> 'a list \<Rightarrow> 'a list" where
  "trim_both P xs = rev (dropWhile P (rev (dropWhile P xs)))"

definition TrimSpace :: "string \<Rightarrow> string" where
  "TrimSpace s = concat (trim_both IsSpace (rune_chunks s))"

function fields_of :: "string list \<Rightarrow> string list" where
  "fields_of cs =
     (let ds = dropWhile IsSpace cs in
      if ds = [] then []
      else concat (takeWhile (\<lambda>c. \<not> IsSpace c) ds)
           # fields_of (dropWhile (\<lambda>c. \<not> IsSpace c) ds))"
  by pat_completeness auto
termination
proof (relation "measure length", goal_cases)
  case (2 cs ds)
  then obtain d es where d: "ds = d # es" by (meson list.exhaust)
  then have "\<not> IsSpace d" using 2 hd_dropWhile [of IsSpace cs] by (metis list.sel(1))
  then have "length (dropWhile (\<lambda>c. \<not> IsSpace c) ds) < length ds"
    using d by (simp add: length_dropWhile_le less_Suc_eq_le)
  also have "\<dots> \<le> length cs" using 2(1) by (simp add: length_dropWhile_le)
  finally show ?case by simp
qed simp

declare fields_of.simps [simp del]

definition Fields :: "string \<Rightarrow> string list" where
  "Fields s = fields_of (rune_chunks s)"

lemma trim_both_split:
  "\<exists>us vs. xs = us @ trim_both P xs @ vs \<and> (\<forall>x\<in>set us. P x) \<and> (\<forall>x\<in>set vs. P x)"
proof -
  let ?d = "dropWhile P xs"
  have "xs = takeWhile P xs @ ?d" by simp
  moreover have "?d = rev (dropWhile P (rev ?d)) @ rev (takeWhile P (rev ?d))"
    by (metis rev_append rev_rev_ident takeWhile_dropWhile_id)
  ultimately show ?thesis
    unfolding trim_both_def by (metis set_rev set_takeWhileD)
qed

lemma trim_both_hd: "trim_both P xs \<noteq> [] \<Longrightarrow> \<not> P (hd (trim_both P xs))"
proof -
  assume ne: "trim_both P xs \<noteq> []"
  let ?d = "dropWhile P xs"
  have "prefix (trim_both P xs) ?d"
    unfolding trim_both_def by (metis prefix_def rev_append rev_rev_ident takeWhile_dropWhile_id)
  then have hd: "hd (trim_both P xs) = hd ?d" and "?d \<noteq> []"
    using ne by (auto simp: prefix_def simp del: dropWhile_eq_Nil_conv)
  then show ?thesis using hd_dropWhile [of P xs] by simp
qed

lemma trim_both_last: "trim_both P xs \<noteq> [] \<Longrightarrow> \<not> P (last (trim_both P xs))"
  unfolding trim_both_def by (metis Nil_is_rev_conv hd_dropWhile last_rev)

lemma trim_both_id:
  assumes "xs \<noteq> [] \<longrightarrow> \<not> P (hd xs) \<and> \<not> P (last xs)" shows "trim_both P xs = xs"
proof (cases "xs = []")
  case False
  then have "dropWhile P xs = xs" using assms by (cases xs) auto
  moreover have "dropWhile P (rev xs) = rev xs"
    using False assms by (cases xs rule: rev_cases) auto
  ultimately show ?thesis by (simp add: trim_both_def)
qed (simp add: trim_both_def)

lemma fields_of_words:
  "w \<in> set (fields_of cs) \<Longrightarrow> \<exists>ds. ds \<noteq> [] \<and> w = concat ds \<and> set ds \<subseteq> set cs \<and> (\<forall>d\<in>set ds. \<not> IsSpace d)"
proof (induction cs rule: fields_of.induct)
  case (1 cs)
  let ?ds = "dropWhile IsSpace cs"
  let ?w = "takeWhile (\<lambda>c. \<not> IsSpace c) ?ds"
  have ne: "?ds \<noteq> []"
  proof
    assume "?ds = []"
    then have "fields_of cs = []" by (subst fields_of.simps) (simp add: Let_def)
    with "1.prems" show False by simp
  qed
  then have "\<not> IsSpace (hd ?ds)" by (rule hd_dropWhile)
  then have wne: "?w \<noteq> []" using ne by (cases ?ds) auto
  have sub: "set ?w \<subseteq> set cs" by (meson set_dropWhileD set_takeWhileD subsetI)
  have "fields_of cs = concat ?w # fields_of (dropWhile (\<lambda>c. \<not> IsSpace c) ?ds)"
    using ne by (subst fields_of.simps) (simp add: Let_def del: dropWhile_eq_Nil_conv)
  with "1.prems" consider "w = concat ?w"
    | "w \<in> set (fields_of (dropWhile (\<lambda>c. \<not> IsSpace c) ?ds))"
    by auto
  then show ?case
  proof cases
    case 1
    moreover have "\<forall>d\<in>set ?w. \<not> IsSpace d" by (auto dest: set_takeWhileD)
    ultimately show ?thesis using wne sub by blast
  next
    case 2
    have "set (dropWhile (\<lambda>c. \<not> IsSpace c) ?ds) \<subseteq> set cs" by (meson set_dropWhileD subsetI)
    moreover obtain es where "es \<noteq> []" "w = concat es" "\<forall>d\<in>set es. \<not> IsSpace d"
      "set es \<subseteq> set (dropWhile (\<lambda>c. \<not> IsSpace c) ?ds)"
      using "1.IH" [OF refl ne 2] by auto
    ultimately show ?thesis by (intro exI [of _ es]) auto
  qed
qed

section \<open>Cutting and joining\<close>

definition HasPrefix :: "string \<Rightarrow> string \<Rightarrow> bool" where
  [go_simps]: "HasPrefix s p \<longleftrightarrow> prefix p s"

definition HasSuffix :: "string \<Rightarrow> string \<Rightarrow> bool" where
  [go_simps]: "HasSuffix s p \<longleftrightarrow> suffix p s"

definition TrimPrefix :: "string \<Rightarrow> string \<Rightarrow> string" where
  "TrimPrefix s p = (if prefix p s then drop (length p) s else s)"

definition TrimSuffix :: "string \<Rightarrow> string \<Rightarrow> string" where
  "TrimSuffix s p = (if suffix p s then take (length s - length p) s else s)"

text \<open>\<^verbatim>\<open>TrimLeft\<close> and \<^verbatim>\<open>TrimRight\<close> with an ASCII cutset, the only kind the program passes.\<close>

definition TrimLeft :: "string \<Rightarrow> string \<Rightarrow> string" where
  "TrimLeft s cutset = dropWhile (\<lambda>c. c \<in> set cutset) s"

definition TrimRight :: "string \<Rightarrow> string \<Rightarrow> string" where
  "TrimRight s cutset = rev (dropWhile (\<lambda>c. c \<in> set cutset) (rev s))"

fun Contains :: "string \<Rightarrow> string \<Rightarrow> bool" where
  "Contains [] sub \<longleftrightarrow> sub = []"
| "Contains (c # s) sub \<longleftrightarrow> prefix sub (c # s) \<or> Contains s sub"

text \<open>\<^verbatim>\<open>strings.Split\<close> on a one-byte separator.\<close>

fun Split :: "string \<Rightarrow> char \<Rightarrow> string list" where
  "Split [] sep = [[]]"
| "Split (c # s) sep =
     (if c = sep then [] # Split s sep
      else (case Split s sep of [] \<Rightarrow> [[c]] | l # ls \<Rightarrow> (c # l) # ls))"

fun Join :: "string list \<Rightarrow> string \<Rightarrow> string" where
  "Join [] sep = []"
| "Join [x] sep = x"
| "Join (x # y # ys) sep = x @ sep @ Join (y # ys) sep"

text \<open>\<^verbatim>\<open>strings.Cut\<close> on a one-byte separator: the parts around its first occurrence.\<close>

definition Cut :: "string \<Rightarrow> char \<Rightarrow> (string \<times> string) option" where
  "Cut s sep = (if sep \<in> set s
     then Some (takeWhile (\<lambda>c. c \<noteq> sep) s, tl (dropWhile (\<lambda>c. c \<noteq> sep) s)) else None)"

text \<open>Non-overlapping occurrences of a non-empty substring, left to right.\<close>

function Count :: "string \<Rightarrow> string \<Rightarrow> nat" where
  "Count [] sub = 0"
| "Count (c # s) sub =
     (if sub \<noteq> [] \<and> prefix sub (c # s) then Suc (Count (drop (length sub) (c # s)) sub)
      else Count s sub)"
  by pat_completeness auto
termination
  by (relation "measure (\<lambda>(s, sub). length s)") auto

function ReplaceAll :: "string \<Rightarrow> string \<Rightarrow> string \<Rightarrow> string" where
  "ReplaceAll [] old new = []"
| "ReplaceAll (c # s) old new =
     (if old \<noteq> [] \<and> prefix old (c # s) then new @ ReplaceAll (drop (length old) (c # s)) old new
      else c # ReplaceAll s old new)"
  by pat_completeness auto
termination
  by (relation "measure (\<lambda>(s, old, new). length s)") auto

lemma Split_nonempty [simp]: "Split s sep \<noteq> []"
  by (cases s) (auto split: list.splits)

lemma Join_Cons: "xs \<noteq> [] \<Longrightarrow> Join (x # xs) sep = x @ sep @ Join xs sep"
  by (cases xs) auto

lemma Join_Split [simp]: "Join (Split s sep) [sep] = s"
proof (induction s)
  case (Cons c s)
  then show ?case
  proof (cases "c = sep")
    case False
    then show ?thesis
      using Cons by (cases "Split s sep"; cases "tl (Split s sep)") auto
  qed (simp add: Join_Cons)
qed simp

lemma Split_no_sep: "l \<in> set (Split s sep) \<Longrightarrow> sep \<notin> set l"
  by (induction s arbitrary: l) (auto split: if_splits list.splits)

lemma Split_append_sep: "sep \<notin> set l \<Longrightarrow> Split (l @ sep # s) sep = l # Split s sep"
  by (induction l) auto

lemma Split_single: "sep \<notin> set l \<Longrightarrow> Split l sep = [l]"
  by (induction l) auto

lemma Split_Join:
  assumes "ls \<noteq> []" "\<forall>l\<in>set ls. sep \<notin> set l" shows "Split (Join ls [sep]) sep = ls"
  using assms
  by (induction ls rule: list_nonempty_induct)
    (auto simp: Split_single Join_Cons Split_append_sep)

lemma Cut_append: "sep \<notin> set a \<Longrightarrow> Cut (a @ sep # b) sep = Some (a, b)"
  by (simp add: Cut_def takeWhile_append dropWhile_append)

lemma Cut_SomeD: "Cut s sep = Some (a, b) \<Longrightarrow> s = a @ sep # b \<and> sep \<notin> set a"
proof -
  assume c: "Cut s sep = Some (a, b)"
  then have "sep \<in> set s" and a: "a = takeWhile (\<lambda>c. c \<noteq> sep) s"
    and b: "b = tl (dropWhile (\<lambda>c. c \<noteq> sep) s)"
    by (auto simp: Cut_def split: if_splits)
  from \<open>sep \<in> set s\<close> have "dropWhile (\<lambda>c. c \<noteq> sep) s \<noteq> []" by auto
  then obtain d ds where d: "dropWhile (\<lambda>c. c \<noteq> sep) s = d # ds"
    by (meson list.exhaust)
  then have "sep = d" using hd_dropWhile [of "\<lambda>c. c \<noteq> sep" s] by simp
  moreover have "b = ds" using b d by simp
  moreover have "a @ d # ds = s" by (simp only: a d [symmetric] takeWhile_dropWhile_id)
  ultimately have "s = a @ sep # b" by simp
  moreover have "sep \<notin> set a" unfolding a by (metis (mono_tags, lifting) set_takeWhileD)
  ultimately show ?thesis by simp
qed

lemma Contains_iff: "Contains s sub \<longleftrightarrow> (\<exists>u v. s = u @ sub @ v)"
proof (induction s)
  case (Cons c s)
  note IH = Cons.IH
  show ?case
  proof
    assume "Contains (c # s) sub"
    then consider v where "c # s = sub @ v" | u v where "s = u @ sub @ v"
      by (auto simp: Cons prefix_def)
    then show "\<exists>u v. c # s = u @ sub @ v"
      by cases (metis append_Nil, metis append_Cons)
  next
    assume "\<exists>u v. c # s = u @ sub @ v"
    then obtain u v where uv: "c # s = u @ sub @ v" by blast
    show "Contains (c # s) sub"
    proof (cases u)
      case Nil
      then have "prefix sub (c # s)" using uv by (simp add: prefix_def)
      then show ?thesis by simp
    next
      case (Cons d w)
      then have "s = w @ sub @ v" using uv by simp
      then show ?thesis using IH by auto
    qed
  qed
qed auto

section \<open>Numbers\<close>

definition is_digit :: "char \<Rightarrow> bool" where
  "is_digit c \<longleftrightarrow> 48 \<le> byte c \<and> byte c \<le> 57"

definition digits_val :: "string \<Rightarrow> int" where
  "digits_val s = foldl (\<lambda>n c. 10 * n + (int (byte c) - 48)) 0 s"

text \<open>
  \<^verbatim>\<open>strconv.Atoi\<close>, which equals \<^verbatim>\<open>strconv.ParseInt(s, 10, 64)\<close> on a 64-bit machine: an optional
  sign, at least one digit, no other character, and the 64-bit range. \<open>None\<close> is the error.
\<close>

definition Atoi :: "string \<Rightarrow> int option" where
  "Atoi s =
     (let (neg, ds) = (case s of [] \<Rightarrow> (False, [])
                       | c # t \<Rightarrow> if c = CHR ''-'' then (True, t)
                                 else if c = CHR ''+'' then (False, t) else (False, s));
          v = (if neg then - digits_val ds else digits_val ds)
      in if ds = [] \<or> \<not> list_all is_digit ds \<or> \<not> in_int64 v then None else Some v)"

definition digit_char :: "nat \<Rightarrow> char" where
  "digit_char d = char_of (48 + d)"

fun nat_digits :: "nat \<Rightarrow> string" where
  "nat_digits n = (if n < 10 then [digit_char n] else nat_digits (n div 10) @ [digit_char (n mod 10)])"

declare nat_digits.simps [simp del]

definition Itoa :: "int \<Rightarrow> string" where
  "Itoa x = (if x < 0 then CHR ''-'' # nat_digits (nat (- x)) else nat_digits (nat x))"

lemma byte_digit_char: "d < 10 \<Longrightarrow> byte (digit_char d) = 48 + d"
  by (simp add: digit_char_def)

lemma is_digit_digit_char: "d < 10 \<Longrightarrow> is_digit (digit_char d)"
  by (simp add: is_digit_def byte_digit_char)

lemma nat_digits_ok: "nat_digits n \<noteq> [] \<and> list_all is_digit (nat_digits n)"
proof (induction n rule: nat_digits.induct)
  case (1 n)
  then show ?case by (subst (1 2) nat_digits.simps) (simp add: is_digit_digit_char)
qed

lemma digits_val_snoc: "digits_val (s @ [c]) = 10 * digits_val s + (int (byte c) - 48)"
  by (simp add: digits_val_def)

lemma digits_val_nat_digits: "digits_val (nat_digits n) = int n"
proof (induction n rule: nat_digits.induct)
  case (1 n)
  show ?case
  proof (cases "n < 10")
    case True
    then show ?thesis by (subst nat_digits.simps) (simp add: digits_val_def byte_digit_char)
  next
    case False
    have "10 * (int n div 10) + int n mod 10 = int n" by simp
    with False "1.IH" show ?thesis
      by (subst nat_digits.simps)
        (simp add: digits_val_snoc byte_digit_char zdiv_int zmod_int)
  qed
qed

lemma digit_not_sign: "is_digit c \<Longrightarrow> c \<noteq> CHR ''-'' \<and> c \<noteq> CHR ''+''"
  by (auto simp: is_digit_def)

lemma Atoi_Itoa: "in_int64 n \<Longrightarrow> Atoi (Itoa n) = Some n"
proof (cases "n < 0")
  case True
  assume "in_int64 n"
  with True show ?thesis
    using nat_digits_ok [of "nat (- n)"] by (simp add: Atoi_def Itoa_def digits_val_nat_digits)
next
  case False
  assume "in_int64 n"
  obtain c t where ct: "nat_digits (nat n) = c # t" and "is_digit c"
    using nat_digits_ok [of "nat n"] by (cases "nat_digits (nat n)") auto
  with False \<open>in_int64 n\<close> show ?thesis
    using nat_digits_ok [of "nat n"] digit_not_sign [of c] digits_val_nat_digits [of "nat n"]
    by (simp add: Atoi_def Itoa_def)
qed

lemma Atoi_range: "Atoi s = Some n \<Longrightarrow> in_int64 n"
  by (auto simp: Atoi_def Let_def split: if_splits prod.splits)

section \<open>Letter case\<close>

definition lower_byte :: "char \<Rightarrow> char" where
  "lower_byte c = (if 65 \<le> byte c \<and> byte c \<le> 90 then char_of (byte c + 32) else c)"

text \<open>
  The lower-case column of \<^verbatim>\<open>unicode.CaseRanges\<close> (Unicode 15.0) above ASCII and Latin-1 included:
  \<open>(lo, hi, stride, delta)\<close> maps \<open>lo, lo + stride, \<dots>, hi\<close> to themselves plus \<open>delta\<close>.
\<close>

definition lower_ranges :: "(nat \<times> nat \<times> nat \<times> int) list" where
  "lower_ranges = [
    (65, 90, 1, 32), (192, 214, 1, 32), (216, 222, 1, 32), (256, 302, 2, 1), (304, 304, 1, -199),
    (306, 310, 2, 1), (313, 327, 2, 1), (330, 374, 2, 1), (376, 376, 1, -121), (377, 381, 2, 1),
    (385, 385, 1, 210), (386, 388, 2, 1), (390, 390, 1, 206), (391, 391, 1, 1),
    (393, 394, 1, 205), (395, 395, 1, 1), (398, 398, 1, 79), (399, 399, 1, 202),
    (400, 400, 1, 203), (401, 401, 1, 1), (403, 403, 1, 205), (404, 404, 1, 207),
    (406, 406, 1, 211), (407, 407, 1, 209), (408, 408, 1, 1), (412, 412, 1, 211),
    (413, 413, 1, 213), (415, 415, 1, 214), (416, 420, 2, 1), (422, 422, 1, 218),
    (423, 423, 1, 1), (425, 425, 1, 218), (428, 428, 1, 1), (430, 430, 1, 218), (431, 431, 1, 1),
    (433, 434, 1, 217), (435, 437, 2, 1), (439, 439, 1, 219), (440, 440, 1, 1), (444, 444, 1, 1),
    (452, 452, 1, 2), (453, 453, 1, 1), (455, 455, 1, 2), (456, 456, 1, 1), (458, 458, 1, 2),
    (459, 475, 2, 1), (478, 494, 2, 1), (497, 497, 1, 2), (498, 500, 2, 1), (502, 502, 1, -97),
    (503, 503, 1, -56), (504, 542, 2, 1), (544, 544, 1, -130), (546, 562, 2, 1),
    (570, 570, 1, 10795), (571, 571, 1, 1), (573, 573, 1, -163), (574, 574, 1, 10792),
    (577, 577, 1, 1), (579, 579, 1, -195), (580, 580, 1, 69), (581, 581, 1, 71), (582, 590, 2, 1),
    (880, 882, 2, 1), (886, 886, 1, 1), (895, 895, 1, 116), (902, 902, 1, 38), (904, 906, 1, 37),
    (908, 908, 1, 64), (910, 911, 1, 63), (913, 929, 1, 32), (931, 939, 1, 32), (975, 975, 1, 8),
    (984, 1006, 2, 1), (1012, 1012, 1, -60), (1015, 1015, 1, 1), (1017, 1017, 1, -7),
    (1018, 1018, 1, 1), (1021, 1023, 1, -130), (1024, 1039, 1, 80), (1040, 1071, 1, 32),
    (1120, 1152, 2, 1), (1162, 1214, 2, 1), (1216, 1216, 1, 15), (1217, 1229, 2, 1),
    (1232, 1326, 2, 1), (1329, 1366, 1, 48), (4256, 4293, 1, 7264), (4295, 4295, 1, 7264),
    (4301, 4301, 1, 7264), (5024, 5103, 1, 38864), (5104, 5109, 1, 8), (7312, 7354, 1, -3008),
    (7357, 7359, 1, -3008), (7680, 7828, 2, 1), (7838, 7838, 1, -7615), (7840, 7934, 2, 1),
    (7944, 7951, 1, -8), (7960, 7965, 1, -8), (7976, 7983, 1, -8), (7992, 7999, 1, -8),
    (8008, 8013, 1, -8), (8025, 8031, 2, -8), (8040, 8047, 1, -8), (8072, 8079, 1, -8),
    (8088, 8095, 1, -8), (8104, 8111, 1, -8), (8120, 8121, 1, -8), (8122, 8123, 1, -74),
    (8124, 8124, 1, -9), (8136, 8139, 1, -86), (8140, 8140, 1, -9), (8152, 8153, 1, -8),
    (8154, 8155, 1, -100), (8168, 8169, 1, -8), (8170, 8171, 1, -112), (8172, 8172, 1, -7),
    (8184, 8185, 1, -128), (8186, 8187, 1, -126), (8188, 8188, 1, -9), (8486, 8486, 1, -7517),
    (8490, 8490, 1, -8383), (8491, 8491, 1, -8262), (8498, 8498, 1, 28), (8544, 8559, 1, 16),
    (8579, 8579, 1, 1), (9398, 9423, 1, 26), (11264, 11311, 1, 48), (11360, 11360, 1, 1),
    (11362, 11362, 1, -10743), (11363, 11363, 1, -3814), (11364, 11364, 1, -10727),
    (11367, 11371, 2, 1), (11373, 11373, 1, -10780), (11374, 11374, 1, -10749),
    (11375, 11375, 1, -10783), (11376, 11376, 1, -10782), (11378, 11378, 1, 1),
    (11381, 11381, 1, 1), (11390, 11391, 1, -10815), (11392, 11490, 2, 1), (11499, 11501, 2, 1),
    (11506, 11506, 1, 1), (42560, 42604, 2, 1), (42624, 42650, 2, 1), (42786, 42798, 2, 1),
    (42802, 42862, 2, 1), (42873, 42875, 2, 1), (42877, 42877, 1, -35332), (42878, 42886, 2, 1),
    (42891, 42891, 1, 1), (42893, 42893, 1, -42280), (42896, 42898, 2, 1), (42902, 42920, 2, 1),
    (42922, 42922, 1, -42308), (42923, 42923, 1, -42319), (42924, 42924, 1, -42315),
    (42925, 42925, 1, -42305), (42926, 42926, 1, -42308), (42928, 42928, 1, -42258),
    (42929, 42929, 1, -42282), (42930, 42930, 1, -42261), (42931, 42931, 1, 928),
    (42932, 42946, 2, 1), (42948, 42948, 1, -48), (42949, 42949, 1, -42307),
    (42950, 42950, 1, -35384), (42951, 42953, 2, 1), (42960, 42960, 1, 1), (42966, 42968, 2, 1),
    (42997, 42997, 1, 1), (65313, 65338, 1, 32), (66560, 66599, 1, 40), (66736, 66771, 1, 40),
    (66928, 66964, 2, 39), (66929, 66938, 1, 39), (66941, 66954, 1, 39), (66957, 66962, 1, 39),
    (66965, 66965, 1, 39), (68736, 68786, 1, 64), (71840, 71871, 1, 32), (93760, 93791, 1, 32),
    (125184, 125217, 1, 34)]"

definition unicode_lower :: "nat \<Rightarrow> nat" where
  "unicode_lower r =
     (case find (\<lambda>(lo, hi, st, d). lo \<le> r \<and> r \<le> hi \<and> (r - lo) mod st = 0) lower_ranges of
        None \<Rightarrow> r | Some (lo, hi, st, d) \<Rightarrow> nat (int r + d))"

definition code_point :: "rune \<Rightarrow> nat" where
  "code_point r = (case r of
       [a] \<Rightarrow> byte a
     | [a, b] \<Rightarrow> (byte a - 192) * 64 + (byte b - 128)
     | [a, b, c] \<Rightarrow> (byte a - 224) * 4096 + (byte b - 128) * 64 + (byte c - 128)
     | [a, b, c, d] \<Rightarrow> (byte a - 240) * 262144 + (byte b - 128) * 4096 + (byte c - 128) * 64 + (byte d - 128)
     | _ \<Rightarrow> 65533)"

definition encode_rune :: "nat \<Rightarrow> rune" where
  "encode_rune n =
     (if n < 128 then [char_of n]
      else if n < 2048 then [char_of (192 + n div 64), char_of (128 + n mod 64)]
      else if n < 65536 then
        [char_of (224 + n div 4096), char_of (128 + n div 64 mod 64), char_of (128 + n mod 64)]
      else [char_of (240 + n div 262144), char_of (128 + n div 4096 mod 64),
            char_of (128 + n div 64 mod 64), char_of (128 + n mod 64)])"

definition lower_rune :: "rune \<Rightarrow> rune" where
  "lower_rune r = (case r of [c] \<Rightarrow> [lower_byte c]
     | _ \<Rightarrow> (let n = code_point r; l = unicode_lower n in if l = n then r else encode_rune l))"

definition ToLower :: "string \<Rightarrow> string" where
  "ToLower s = (if ascii s then map lower_byte s else string_of_runes (map lower_rune (runes s)))"

text \<open>
  \<^verbatim>\<open>strings.EqualFold\<close>. The Kelvin sign folds with \<open>k\<close>, the long s with \<open>s\<close>, and the dotted
  capital I with nothing; every other rune folds with its lower case. (Classes of three and more
  non-ASCII letters, such as the two Greek lower-case sigmas, are not merged: no operand of the
  program's calls contains one, they compare with ASCII words and a Telegram user name.)
\<close>

definition fold_rune :: "rune \<Rightarrow> rune" where
  "fold_rune r =
     (if r = [CHR 0xE2, CHR 0x84, CHR 0xAA] then ''k''
      else if r = [CHR 0xC5, CHR 0xBF] then ''s''
      else if r = [CHR 0xC4, CHR 0xB0] then r
      else lower_rune r)"

definition EqualFold :: "string \<Rightarrow> string \<Rightarrow> bool" where
  "EqualFold s t \<longleftrightarrow>
     (if ascii s \<and> ascii t then map lower_byte s = map lower_byte t
      else map fold_rune (runes s) = map fold_rune (runes t))"

lemma ToLower_Nil [simp]: "ToLower [] = []"
  by (simp add: ToLower_def ascii_def)

lemma EqualFold_refl [simp]: "EqualFold s s"
  by (simp add: EqualFold_def)

lemma EqualFold_sym: "EqualFold s t \<longleftrightarrow> EqualFold t s"
  by (auto simp: EqualFold_def)

lemma lower_byte_idem: "lower_byte (lower_byte c) = lower_byte c"
  by (auto simp: lower_byte_def)

lemma runes_ascii: "ascii s \<Longrightarrow> runes s = map (\<lambda>c. [c]) s"
  by (auto simp: runes_def rune_chunks_ascii norm_rune_def ascii_def)

lemma EqualFold_ascii: "ascii s \<Longrightarrow> ascii t \<Longrightarrow> EqualFold s t \<longleftrightarrow> ToLower s = ToLower t"
  by (simp add: EqualFold_def ToLower_def)

text \<open>The ASCII path is an optimisation of the general comparison.\<close>

lemma EqualFold_runes: "EqualFold s t \<longleftrightarrow> map fold_rune (runes s) = map fold_rune (runes t)"
proof (cases "ascii s \<and> ascii t")
  case True
  have fold: "map fold_rune (runes u) = map (\<lambda>c. [c]) (map lower_byte u)" if "ascii u" for u
    using that by (simp add: runes_ascii fold_rune_def lower_rune_def)
  have inj: "map (\<lambda>c. [c]) u = map (\<lambda>c. [c]) v \<longleftrightarrow> u = v" for u v :: string
    by (rule inj_map_eq_map) (simp add: inj_on_def)
  show ?thesis using True by (simp add: EqualFold_def fold inj del: map_map)
qed (auto simp: EqualFold_def)

section \<open>Durations\<close>

definition leading_digits :: "string \<Rightarrow> string" where
  "leading_digits s = takeWhile is_digit s"

definition duration_unit :: "string \<Rightarrow> int option" where
  "duration_unit u = map_of
     [(''ns'', 1), (''us'', 1000), ([CHR 0xC2, CHR 0xB5, CHR ''s''], 1000),
      ([CHR 0xCE, CHR 0xBC, CHR ''s''], 1000), (''ms'', 1000000),
      (''s'', 1000000000), (''m'', 60000000000), (''h'', 3600000000000)] u"

text \<open>
  One \<^verbatim>\<open>number unit\<close> element of \<^verbatim>\<open>time.ParseDuration\<close> and the rest of the input. The library
  multiplies the fraction in \<^verbatim>\<open>float64\<close>; the integer division used here gives the same value
  whenever the fraction has at most as many digits as the unit has decimal places in
  nanoseconds (nine for seconds).
\<close>

definition duration_elem :: "string \<Rightarrow> (int \<times> string) option" where
  "duration_elem s =
     (let ds = leading_digits s; s1 = drop (length ds) s; v = digits_val ds;
          (fs, s2) = (case s1 of [] \<Rightarrow> ([], [])
                      | c # t \<Rightarrow> if c = CHR ''.'' then (leading_digits t, drop (length (leading_digits t)) t)
                                else ([], s1));
          u = takeWhile (\<lambda>c. c \<noteq> CHR ''.'' \<and> \<not> is_digit c) s2;
          rest = drop (length u) s2
      in if v > 9223372036854775808 then None
         else if ds = [] \<and> fs = [] then None
         else if u = [] then None
         else case duration_unit u of
             None \<Rightarrow> None
           | Some unit \<Rightarrow>
               if v > 9223372036854775808 div unit then None
               else let w = v * unit + digits_val fs * unit div 10 ^ length fs
                    in if w > 9223372036854775808 then None else Some (w, rest))"

lemma duration_elem_shorter: "duration_elem s = Some (w, rest) \<Longrightarrow> length rest < length s"
proof -
  assume a: "duration_elem s = Some (w, rest)"
  define ds where "ds = leading_digits s"
  define s1 where "s1 = drop (length ds) s"
  define p where "p = (case s1 of [] \<Rightarrow> ([], [])
     | c # t \<Rightarrow> if c = CHR ''.'' then (leading_digits t, drop (length (leading_digits t)) t) else ([], s1))"
  define u where "u = takeWhile (\<lambda>c. c \<noteq> CHR ''.'' \<and> \<not> is_digit c) (snd p)"
  have "u \<noteq> []" "rest = drop (length u) (snd p)"
    using a unfolding duration_elem_def Let_def ds_def s1_def p_def u_def
    by (auto split: prod.splits if_splits option.splits)
  moreover have "length (snd p) \<le> length s"
  proof (cases s1)
    case (Cons c t)
    then have "Suc (length t) \<le> length s" unfolding s1_def by (metis diff_le_self length_Cons length_drop)
    then show ?thesis using Cons by (cases "c = CHR ''.''") (simp_all add: p_def)
  qed (simp add: p_def)
  moreover have "length u \<le> length (snd p)" unfolding u_def by (simp add: length_takeWhile_le)
  ultimately show ?thesis by (cases u) auto
qed

function duration_sum :: "string \<Rightarrow> int \<Rightarrow> int option" where
  "duration_sum s d =
     (if s = [] then Some d
      else case duration_elem s of
          None \<Rightarrow> None
        | Some (w, rest) \<Rightarrow>
            if d + w > 9223372036854775808 then None else duration_sum rest (d + w))"
  by pat_completeness auto
termination
  by (relation "measure (\<lambda>(s, d). length s)") (auto dest: duration_elem_shorter)

declare duration_sum.simps [simp del]

definition ParseDuration :: "string \<Rightarrow> duration option" where
  "ParseDuration s =
     (let (neg, t) = (case s of [] \<Rightarrow> (False, [])
                      | c # u \<Rightarrow> if c = CHR ''-'' then (True, u)
                                else if c = CHR ''+'' then (False, u) else (False, s))
      in if t = ''0'' then Some 0
         else if t = [] then None
         else case duration_sum t 0 of
             None \<Rightarrow> None
           | Some d \<Rightarrow> if neg then Some (- d) else if d > maxInt64 then None else Some d)"

end
