(* ===== verification/Agents.thy ===== *)
theory Agents
  imports Go_Strings
begin

text \<open>
  Statuses, agents and topics: \<^verbatim>\<open>internal/domain/status.go\<close>, \<^verbatim>\<open>agent.go\<close>, \<^verbatim>\<open>topic.go\<close>. A status is a Go
  string type, and a stored mapping may carry any string, so it stays a string here; the six
  constants are abbreviations.
\<close>

section \<open>Status\<close>

type_synonym Status = string

abbreviation (input) StatusWorking :: Status where "StatusWorking \<equiv> ''working''"
abbreviation (input) StatusIdle :: Status where "StatusIdle \<equiv> ''idle''"
abbreviation (input) StatusBlocked :: Status where "StatusBlocked \<equiv> ''blocked''"
abbreviation (input) StatusDone :: Status where "StatusDone \<equiv> ''done''"
abbreviation (input) StatusUnknown :: Status where "StatusUnknown \<equiv> ''unknown''"
abbreviation (input) StatusExited :: Status where "StatusExited \<equiv> ''exited''"

definition displayNameMaxRunes :: nat where "displayNameMaxRunes = 128"

text \<open>The gear with its variation selector, the sleeping face, both question marks, the check
  mark and the finish flag, in UTF-8.\<close>

definition legacyPrefixes :: "string list" where
  "legacyPrefixes =
     [[CHR 0xE2, CHR 0x9A, CHR 0x99, CHR 0xEF, CHR 0xB8, CHR 0x8F],
      [CHR 0xF0, CHR 0x9F, CHR 0x92, CHR 0xA4],
      [CHR 0xE2, CHR 0x9D, CHR 0x93],
      [CHR 0xE2, CHR 0x9C, CHR 0x85],
      [CHR 0xE2, CHR 0x9D, CHR 0x94],
      [CHR 0xF0, CHR 0x9F, CHR 0x8F, CHR 0x81]]"

definition ParseStatus :: "string \<Rightarrow> Status" where
  "ParseStatus s =
     (if s = StatusWorking \<or> s = StatusIdle \<or> s = StatusBlocked \<or> s = StatusDone \<or> s = StatusUnknown
      then s else StatusUnknown)"

definition Live :: "Status \<Rightarrow> bool" where
  "Live s \<longleftrightarrow> s \<noteq> StatusExited"

definition Emoji :: "Status \<Rightarrow> string" where
  "Emoji s =
     (if s = StatusWorking then [CHR 0xE2, CHR 0x9A, CHR 0xA1]
      else if s = StatusIdle then [CHR 0xE2, CHR 0x9C, CHR 0x85]
      else if s = StatusBlocked then [CHR 0xE2, CHR 0x9D, CHR 0x93]
      else if s = StatusDone then [CHR 0xF0, CHR 0x9F, CHR 0x8F, CHR 0x86]
      else if s = StatusExited then [CHR 0xF0, CHR 0x9F, CHR 0x8F, CHR 0x81]
      else [CHR 0xF0, CHR 0x9F, CHR 0x91, CHR 0x80])"

definition ReadyForInput :: "Status \<Rightarrow> bool" where
  "ReadyForInput s \<longleftrightarrow> s = StatusIdle \<or> s = StatusDone"

definition DisplayName :: "string \<Rightarrow> string" where
  "DisplayName label =
     (if RuneCountInString label \<le> displayNameMaxRunes then label
      else string_of_runes (take displayNameMaxRunes (runes label)))"

definition StripPrefix :: "string \<Rightarrow> string" where
  "StripPrefix name =
     (case find (\<lambda>p. HasPrefix name p) legacyPrefixes of
        Some p \<Rightarrow> TrimLeft (drop (length p) name) [CHR '' '', CHR 0x09]
      | None \<Rightarrow> name)"

section \<open>Agents\<close>

record Key =
  PaneID :: string
  TerminalID :: string

definition Key_String :: "Key \<Rightarrow> string" where
  "Key_String k = PaneID k @ ''/'' @ TerminalID k"

record Agent =
  ag_Key :: Key
  ag_WorkspaceID :: string
  ag_WorkspaceLabel :: string
  ag_TabID :: string
  ag_TabLabel :: string
  ag_Kind :: string
  ag_Name :: string
  ag_Title :: string
  ag_Status :: Status
  ag_Revision :: int
  ag_StateChangeSeq :: int
  ag_Focused :: bool
  ag_Cwd :: string

text \<open>A middle dot between spaces.\<close>

definition labelSeparator :: string where
  "labelSeparator = [CHR '' '', CHR 0xC2, CHR 0xB7, CHR '' '']"

definition Agent_Label :: "Agent \<Rightarrow> string" where
  "Agent_Label a =
     (let ws = (if ag_WorkspaceLabel a = [] then ag_WorkspaceID a else ag_WorkspaceLabel a);
          who0 = ag_Name a;
          who1 = (if who0 = [] then ag_TabLabel a else who0);
          who = (if who1 = [] then ag_Kind a else who1)
      in if ws = [] then who
         else if who = [] then ws
         else ws @ labelSeparator @ who)"

record Workspace =
  ws_ID :: string
  ws_Label :: string

section \<open>Topics\<close>

record Topic =
  tp_ThreadID :: int
  tp_Name :: string
  tp_IconEmojiID :: string
  tp_Closed :: bool

record TopicPatch =
  pt_Name :: "string option"
  pt_Status :: "Status option"

definition TopicPatch_Empty :: "TopicPatch \<Rightarrow> bool" where
  "TopicPatch_Empty p \<longleftrightarrow> pt_Name p = None \<and> pt_Status p = None"

section \<open>Lemmas\<close>

lemma Live_ParseStatus [simp]: "Live (ParseStatus s)"
  by (simp add: Live_def ParseStatus_def)

lemma DisplayName_count: "RuneCountInString (DisplayName label) \<le> displayNameMaxRunes"
proof (cases "RuneCountInString label \<le> displayNameMaxRunes")
  case False
  let ?rs = "take displayNameMaxRunes (runes label)"
  have "\<forall>r\<in>set ?rs. valid_rune r" using valid_runes by (meson in_set_takeD)
  then have "runes (string_of_runes ?rs) = ?rs" by (rule runes_string_of_runes)
  then have "RuneCountInString (string_of_runes ?rs) = length ?rs" by (metis length_runes)
  with False show ?thesis by (simp add: DisplayName_def)
qed (simp add: DisplayName_def)

lemma DisplayName_idem: "DisplayName (DisplayName label) = DisplayName label"
  using DisplayName_count [of label] by (simp add: DisplayName_def [of "DisplayName label"])

text \<open>
  a topic name never exceeds Telegram's limit of 128 runes: whatever the label, valid UTF-8 or
  not, \<open>DisplayName\<close> yields at most 128 runes, leaves a label that fits as it is, cuts a longer
  one to exactly its first 128 runes, and is idempotent.
\<close>

theorem DisplayName_clamps:
  "RuneCountInString (DisplayName label) = min (RuneCountInString label) displayNameMaxRunes
   \<and> runes (DisplayName label) = take displayNameMaxRunes (runes label)
   \<and> DisplayName (DisplayName label) = DisplayName label"
proof (cases "RuneCountInString label \<le> displayNameMaxRunes")
  case True
  then show ?thesis by (simp add: DisplayName_def)
next
  case False
  let ?rs = "take displayNameMaxRunes (runes label)"
  have "\<forall>r\<in>set ?rs. valid_rune r" using valid_runes by (meson in_set_takeD)
  then have rs: "runes (DisplayName label) = ?rs"
    using False by (simp add: DisplayName_def runes_string_of_runes)
  then have "RuneCountInString (DisplayName label) = length ?rs" by (metis length_runes)
  then show ?thesis using rs False by (simp add: DisplayName_idem)
qed

end
