(* ===== verification/Errors.thy ===== *)
theory Errors
  imports Go_Strings
begin

text \<open>
  The sentinel errors of \<^verbatim>\<open>internal/domain/errors.go\<close> and the two of Go's \<^verbatim>\<open>context\<close> package. The program branches on errors with
  \<^verbatim>\<open>errors.Is\<close> only, so an error value is the sentinel it wraps; the text around it is left out.
  \<open>OtherError\<close> stands for any error that wraps none of them (a transport failure). A fallible
  function returns \<open>error + 'a\<close>, one that returns only an error \<open>error option\<close> (\<open>None\<close> is \<^verbatim>\<open>nil\<close>).
\<close>

datatype error =
    ErrNotConfigured | ErrAgentGone | ErrTopicGone | ErrTopicClosed | ErrTopicMuted | ErrForbidden
  | ErrMessageGone | ErrBotUnauthorized | ErrPollerConflict | ErrChatMigrated int | ErrDisconnected
  | ErrAlreadyRunning | ErrNotRunning | ErrUnsupportedPlatform | ErrControlUnavailable
  | ErrUnknownOption | ErrInvalidOption | ErrDuplicateIcon | ErrIdleUnsupported | ErrNoReply
  | ErrFileTooBig | ErrNotRepository | ErrGitMissing | ErrInvalidObserver
  | CtxCanceled | CtxDeadlineExceeded | OtherError string

definition isChatMigrated :: "error \<Rightarrow> bool" where
  "isChatMigrated e \<longleftrightarrow> (case e of ErrChatMigrated _ \<Rightarrow> True | _ \<Rightarrow> False)"

type_synonym 'a result = "error + 'a"

text \<open>
  \<open>failureReason\<close> of \<^verbatim>\<open>internal/app/inbound.go\<close>: an error in one line; \<open>text_of\<close> is \<^verbatim>\<open>err.Error()\<close>.
\<close>

definition failureReason :: "(error \<Rightarrow> string) \<Rightarrow> error \<Rightarrow> string" where
  "failureReason text_of e =
     (if e = ErrAgentGone then ''agent is gone''
      else if e = ErrDisconnected then ''herdr is unreachable''
      else let t = text_of e
           in TrimSpace (case Cut t (CHR 0x0A) of None \<Rightarrow> t | Some (line, _) \<Rightarrow> line))"

end
