(* ===== verification/Ports.thy ===== *)
theory Ports
  imports Agents Errors
begin

text \<open>
  The values that cross the ports of the application, \<^verbatim>\<open>internal/domain/ports.go\<close>. The ports themselves are
  parameters of the components that use them. Byte slices are strings.
\<close>

datatype ScreenSource = ScreenVisible | ScreenRecent | ScreenDetection

record Screen =
  sc_Text :: string
  sc_Revision :: int
  sc_Truncated :: bool

record TurnMeta =
  tm_Model :: string
  tm_Started :: time
  tm_Ended :: time
  tm_Files :: "string list"
  tm_OutputTokens :: int

record Reply =
  rp_Text :: string
  rp_Source :: string
  rp_Age :: duration
  rp_Written :: time
  rp_Meta :: TurnMeta

record Button =
  bt_Text :: string
  bt_Data :: string
  bt_Row :: int

record Outgoing =
  og_ThreadID :: int
  og_Text :: string
  og_Code :: bool
  og_HTML :: bool
  og_Markdown :: bool
  og_MaxParts :: int
  og_ReplyTo :: int
  og_Notify :: bool
  og_Buttons :: "Button list"
  og_ForceReply :: bool
  og_Footer :: string
  og_Fold :: int

text \<open>\<^verbatim>\<open>Outgoing{ThreadID: thread, Text: text}\<close>.\<close>

definition text_message :: "int \<Rightarrow> string \<Rightarrow> Outgoing" where
  "text_message thread txt =
     \<lparr>og_ThreadID = thread, og_Text = txt, og_Code = False, og_HTML = False, og_Markdown = False,
      og_MaxParts = 0, og_ReplyTo = 0, og_Notify = False, og_Buttons = [], og_ForceReply = False,
      og_Footer = [], og_Fold = 0\<rparr>"

record Document =
  dc_ThreadID :: int
  dc_Name :: string
  dc_Data :: string
  dc_Caption :: string
  dc_ReplyTo :: int

record Rights =
  IsForum :: bool
  IsAdmin :: bool
  CanManageTopics :: bool
  CanDeleteMessages :: bool
  CanPinMessages :: bool

record GitResult =
  gr_Output :: string
  gr_Truncated :: bool

end
