(* ===== verification/Topic_Mapping.thy ===== *)
theory Topic_Mapping
  imports Agents
begin

text \<open>
  The mapping from agents to forum topics, \<^verbatim>\<open>internal/domain/mapping.go\<close>: what the daemon last wrote
  to Telegram for every agent. \<^verbatim>\<open>Topics\<close> is keyed by \<^verbatim>\<open>Key.String()\<close>; a mapping loaded from a file may
  hold any string as a key, which is why \<open>ParseKey\<close> is partial and the listing operations skip
  keys that do not parse. Methods that mutate the receiver return the new mapping.
\<close>

section \<open>Data\<close>

record TopicEntry =
  te_ThreadID :: int
  te_Name :: string
  te_Status :: Status
  te_Closed :: bool
  te_Muted :: bool
  te_UpdatedAt :: time

definition TopicEntry_Label :: "TopicEntry \<Rightarrow> string" where
  "TopicEntry_Label e = StripPrefix (te_Name e)"

record Mapping =
  mp_Version :: int
  mp_ChatID :: int
  mp_Topics :: "(string, TopicEntry) go_map"
  mp_Dashboard :: int

definition MappingVersion :: int where "MappingVersion = 1"

definition NewMapping :: "int \<Rightarrow> Mapping" where
  "NewMapping chatID =
     \<lparr>mp_Version = MappingVersion, mp_ChatID = chatID, mp_Topics = [], mp_Dashboard = 0\<rparr>"

section \<open>Operations\<close>

definition ParseKey :: "string \<Rightarrow> Key option" where
  "ParseKey s = (case Cut s (CHR ''/'') of
       None \<Rightarrow> None
     | Some (pane, term) \<Rightarrow>
         if pane = [] \<or> term = [] then None else Some \<lparr>PaneID = pane, TerminalID = term\<rparr>)"

definition Desired :: "Agent \<Rightarrow> string \<times> Status" where
  "Desired a = (DisplayName (Agent_Label a), ag_Status a)"

definition TopicFor :: "Mapping \<Rightarrow> Key \<Rightarrow> TopicEntry option" where
  "TopicFor m k = gm_get (mp_Topics m) (Key_String k)"

definition sortedKeys :: "Mapping \<Rightarrow> string list" where
  "sortedKeys m = sort (gm_keys (mp_Topics m))"

definition newer :: "Mapping \<Rightarrow> string \<Rightarrow> string \<Rightarrow> bool" where
  "newer m a b = (case (gm_get (mp_Topics m) a, gm_get (mp_Topics m) b) of
       (Some ea, Some eb) \<Rightarrow>
         if te_UpdatedAt ea \<noteq> te_UpdatedAt eb then te_UpdatedAt ea > te_UpdatedAt eb
         else Live (te_Status ea) \<and> \<not> Live (te_Status eb)
     | _ \<Rightarrow> False)"

definition Keys :: "Mapping \<Rightarrow> Key list" where
  "Keys m = List.map_filter ParseKey (sortedKeys m)"

text \<open>The loop of \<open>KeyForThread\<close> over the sorted keys; \<open>best = []\<close> means none yet.\<close>

fun best_for_thread :: "Mapping \<Rightarrow> int \<Rightarrow> string \<Rightarrow> string list \<Rightarrow> string" where
  "best_for_thread m t best [] = best"
| "best_for_thread m t best (key # keys) =
     (if map_option te_ThreadID (gm_get (mp_Topics m) key) \<noteq> Some t then best_for_thread m t best keys
      else if best = [] \<or> newer m key best then best_for_thread m t key keys
      else best_for_thread m t best keys)"

definition KeyForThread :: "Mapping \<Rightarrow> int \<Rightarrow> Key option" where
  "KeyForThread m t =
     (let best = best_for_thread m t [] (sortedKeys m)
      in if best = [] then None else ParseKey best)"

definition adjust_entry :: "Mapping \<Rightarrow> Key \<Rightarrow> (TopicEntry \<Rightarrow> TopicEntry) \<Rightarrow> Mapping" where
  "adjust_entry m k f = m\<lparr>mp_Topics := gm_adjust (Key_String k) f (mp_Topics m)\<rparr>"

definition setMuted :: "Mapping \<Rightarrow> Key \<Rightarrow> bool \<Rightarrow> time \<Rightarrow> Mapping" where
  "setMuted m k muted now = adjust_entry m k (\<lambda>e. e\<lparr>te_Muted := muted, te_UpdatedAt := now\<rparr>)"

definition Mute :: "Mapping \<Rightarrow> Key \<Rightarrow> time \<Rightarrow> Mapping" where
  "Mute m k now = setMuted m k True now"

definition Unmute :: "Mapping \<Rightarrow> Key \<Rightarrow> time \<Rightarrow> Mapping" where
  "Unmute m k now = setMuted m k False now"

definition Link :: "Mapping \<Rightarrow> Key \<Rightarrow> Topic \<Rightarrow> Agent \<Rightarrow> time \<Rightarrow> Mapping" where
  "Link m k t a now =
     (let (name, status) = Desired a;
          name' = (if tp_Name t \<noteq> [] then tp_Name t else name)
      in m\<lparr>mp_Topics := gm_put (Key_String k)
            \<lparr>te_ThreadID = tp_ThreadID t, te_Name = name', te_Status = status,
             te_Closed = tp_Closed t, te_Muted = False, te_UpdatedAt = now\<rparr> (mp_Topics m)\<rparr>)"

text \<open>\<open>None\<close> is the \<^verbatim>\<open>false\<close> result: nothing to change.\<close>

definition Diff :: "Mapping \<Rightarrow> Key \<Rightarrow> Agent \<Rightarrow> TopicPatch option" where
  "Diff m k a = (case TopicFor m k of
       None \<Rightarrow> None
     | Some e \<Rightarrow>
         if \<not> Live (te_Status e) then None
         else let (name, status) = Desired a;
                  p0 = \<lparr>pt_Name = None, pt_Status = None\<rparr>;
                  p1 = (if name \<noteq> te_Name e then \<lparr>pt_Name = Some name, pt_Status = Some status\<rparr> else p0);
                  p = (if status \<noteq> te_Status e then p1\<lparr>pt_Status := Some status\<rparr> else p1)
              in if TopicPatch_Empty p then None else Some p)"

definition Apply :: "Mapping \<Rightarrow> Key \<Rightarrow> TopicPatch \<Rightarrow> time \<Rightarrow> Mapping" where
  "Apply m k p now = adjust_entry m k (\<lambda>e.
     let e1 = (case pt_Name p of Some n \<Rightarrow> e\<lparr>te_Name := n\<rparr> | None \<Rightarrow> e);
         e2 = (case pt_Status p of Some s \<Rightarrow> e1\<lparr>te_Status := s\<rparr> | None \<Rightarrow> e1)
     in e2\<lparr>te_UpdatedAt := now\<rparr>)"

definition MarkExited :: "Mapping \<Rightarrow> Key \<Rightarrow> time \<Rightarrow> Mapping" where
  "MarkExited m k now = adjust_entry m k (\<lambda>e. e\<lparr>te_Status := StatusExited, te_UpdatedAt := now\<rparr>)"

definition MarkClosed :: "Mapping \<Rightarrow> Key \<Rightarrow> time \<Rightarrow> Mapping" where
  "MarkClosed m k now = adjust_entry m k (\<lambda>e. e\<lparr>te_Closed := True, te_UpdatedAt := now\<rparr>)"

definition MarkReopened :: "Mapping \<Rightarrow> Key \<Rightarrow> time \<Rightarrow> Mapping" where
  "MarkReopened m k now = adjust_entry m k (\<lambda>e. e\<lparr>te_Closed := False, te_UpdatedAt := now\<rparr>)"

definition Forget :: "Mapping \<Rightarrow> Key \<Rightarrow> Mapping" where
  "Forget m k = m\<lparr>mp_Topics := gm_del (Key_String k) (mp_Topics m)\<rparr>"

definition Orphans :: "Mapping \<Rightarrow> Key list \<Rightarrow> Key list" where
  "Orphans m live = filter (\<lambda>k. case TopicFor m k of
       None \<Rightarrow> False
     | Some e \<Rightarrow> Live (te_Status e) \<and> \<not> te_Muted e \<and> k \<notin> set live) (Keys m)"

definition Unclosed :: "Mapping \<Rightarrow> Key list" where
  "Unclosed m = filter (\<lambda>k. case TopicFor m k of
       None \<Rightarrow> False
     | Some e \<Rightarrow> \<not> Live (te_Status e) \<and> \<not> te_Closed e \<and> \<not> te_Muted e) (Keys m)"

text \<open>The exited entries with their age keys, oldest first, ties broken by the key.\<close>

definition exited_by_age :: "(string, TopicEntry) go_map \<Rightarrow> (time \<times> string) list" where
  "exited_by_age ts =
     sort (map (\<lambda>(key, e). (te_UpdatedAt e, key)) (filter (\<lambda>(key, e). \<not> Live (te_Status e)) ts))"

fun prune_loop :: "nat \<Rightarrow> (string, TopicEntry) go_map \<Rightarrow> (time \<times> string) list \<Rightarrow> nat
    \<Rightarrow> (string, TopicEntry) go_map \<times> nat" where
  "prune_loop maxEntries ts [] removed = (ts, removed)"
| "prune_loop maxEntries ts ((at, key) # rest) removed =
     (if length ts \<le> maxEntries then (ts, removed)
      else prune_loop maxEntries (gm_del key ts) rest (Suc removed))"

definition Prune :: "Mapping \<Rightarrow> int \<Rightarrow> Mapping \<times> nat" where
  "Prune m maxEntries =
     (if maxEntries \<le> 0 \<or> int (length (mp_Topics m)) \<le> maxEntries then (m, 0)
      else let (ts, n) = prune_loop (nat maxEntries) (mp_Topics m) (exited_by_age (mp_Topics m)) 0
           in (m\<lparr>mp_Topics := ts\<rparr>, n))"

definition stale_entry :: "time \<Rightarrow> duration \<Rightarrow> TopicEntry \<Rightarrow> bool" where
  "stale_entry now maxAge e \<longleftrightarrow>
     \<not> (Live (te_Status e) \<or> \<not> te_Closed e \<or> time_Sub now (te_UpdatedAt e) \<le> maxAge)"

definition updated_at :: "Mapping \<Rightarrow> Key \<Rightarrow> time" where
  "updated_at m k = (case TopicFor m k of Some e \<Rightarrow> te_UpdatedAt e | None \<Rightarrow> 0)"

definition Stale :: "Mapping \<Rightarrow> time \<Rightarrow> duration \<Rightarrow> Key list" where
  "Stale m now maxAge =
     sort_key (\<lambda>k. (updated_at m k, Key_String k))
       (filter (\<lambda>k. case TopicFor m k of None \<Rightarrow> False | Some e \<Rightarrow> stale_entry now maxAge e) (Keys m))"

definition Counts :: "Mapping \<Rightarrow> nat \<times> nat \<times> nat" where
  "Counts m = foldl (\<lambda>(live, exited, muted) (key, e).
       ((if Live (te_Status e) then Suc live else live),
        (if Live (te_Status e) then exited else Suc exited),
        (if te_Muted e then Suc muted else muted))) (0, 0, 0) (mp_Topics m)"

fun best_threads :: "Mapping \<Rightarrow> (int, string) go_map \<Rightarrow> string list \<Rightarrow> (int, string) go_map" where
  "best_threads m best [] = best"
| "best_threads m best (key # keys) =
     (case gm_get (mp_Topics m) key of
        None \<Rightarrow> best_threads m best keys
      | Some e \<Rightarrow>
          (case gm_get best (te_ThreadID e) of
             None \<Rightarrow> best_threads m (gm_put (te_ThreadID e) key best) keys
           | Some cur \<Rightarrow>
               if newer m key cur then best_threads m (gm_put (te_ThreadID e) key best) keys
               else best_threads m best keys))"

definition DedupeThreads :: "Mapping \<Rightarrow> Mapping \<times> nat" where
  "DedupeThreads m =
     (let best = best_threads m [] (sortedKeys m);
          ts = filter (\<lambda>(key, e). gm_get best (te_ThreadID e) = Some key) (mp_Topics m)
      in (m\<lparr>mp_Topics := ts\<rparr>, length (mp_Topics m) - length ts))"

section \<open>The invariant\<close>

text \<open>Keys of a Go map are distinct.\<close>

definition mapping_ok :: "Mapping \<Rightarrow> bool" where
  "mapping_ok m \<longleftrightarrow> gm_ok (mp_Topics m)"

text \<open>A key as Herdr produces it: both ids non-empty and no slash in the pane id.\<close>

definition key_ok :: "Key \<Rightarrow> bool" where
  "key_ok k \<longleftrightarrow> PaneID k \<noteq> [] \<and> TerminalID k \<noteq> [] \<and> CHR ''/'' \<notin> set (PaneID k)"

section \<open>Keys\<close>

lemma ParseKey_String: "key_ok k \<Longrightarrow> ParseKey (Key_String k) = Some k"
  by (cases k) (auto simp: ParseKey_def Key_String_def key_ok_def Cut_append)

lemma ParseKey_SomeD: "ParseKey s = Some k \<Longrightarrow> Key_String k = s \<and> key_ok k"
  by (auto simp: ParseKey_def Key_String_def key_ok_def dest: Cut_SomeD
      split: option.splits if_splits prod.splits)

lemma Key_String_inj: "key_ok k \<Longrightarrow> key_ok l \<Longrightarrow> Key_String k = Key_String l \<longleftrightarrow> k = l"
  by (metis ParseKey_String option.inject)

lemma ParseKey_inj: "inj_on ParseKey {s. ParseKey s \<noteq> None}"
  by (rule inj_onI) (metis (mono_tags, lifting) ParseKey_SomeD mem_Collect_eq not_None_eq)

lemma set_sortedKeys: "set (sortedKeys m) = dom (gm_get (mp_Topics m))"
  by (simp add: sortedKeys_def dom_map_of_conv_image_fst)

lemma distinct_sortedKeys: "mapping_ok m \<Longrightarrow> distinct (sortedKeys m)"
  by (simp add: sortedKeys_def mapping_ok_def gm_ok_def)

lemma sortedKeys_cong:
  assumes "mapping_ok m" "mapping_ok n" "gm_get (mp_Topics m) = gm_get (mp_Topics n)"
  shows "sortedKeys m = sortedKeys n"
  using assms by (simp add: sortedKeys_def mapping_ok_def sorted_list_of_set_map_of)

lemma map_filter_conv: "List.map_filter f xs = map (the \<circ> f) (filter (\<lambda>x. f x \<noteq> None) xs)"
  by (simp add: List.map_filter_def)

lemma map_String_Keys: "map Key_String (Keys m) = filter (\<lambda>s. ParseKey s \<noteq> None) (sortedKeys m)"
proof -
  have "Key_String (the (ParseKey s)) = s" if "ParseKey s \<noteq> None" for s
    using that ParseKey_SomeD by fastforce
  then show ?thesis by (auto simp: Keys_def map_filter_conv intro!: map_idI)
qed

lemma set_Keys: "set (Keys m) = {k. key_ok k \<and> TopicFor m k \<noteq> None}"
proof -
  have "k \<in> set (Keys m) \<longleftrightarrow> (\<exists>s\<in>set (sortedKeys m). ParseKey s = Some k)" for k
    by (auto simp: Keys_def map_filter_conv image_iff)
  also have "(\<exists>s\<in>set (sortedKeys m). ParseKey s = Some k) \<longleftrightarrow> key_ok k \<and> TopicFor m k \<noteq> None" for k
    unfolding set_sortedKeys TopicFor_def
    by (auto dest: ParseKey_SomeD intro!: bexI [of _ "Key_String k"] simp: ParseKey_String)
  finally show ?thesis by blast
qed

lemma sorted_Keys: "sorted (map Key_String (Keys m))"
  by (simp add: map_String_Keys sortedKeys_def sorted_filter [where f = "\<lambda>x. x", simplified])

lemma distinct_Keys: "mapping_ok m \<Longrightarrow> distinct (Keys m)"
  using distinct_sortedKeys [of m] map_String_Keys [of m]
  by (metis distinct_filter distinct_map)

section \<open>Lookups after writes\<close>

lemma TopicFor_adjust_entry:
  "TopicFor (adjust_entry m k f) l =
     (if Key_String l = Key_String k then map_option f (TopicFor m k) else TopicFor m l)"
  by (simp add: TopicFor_def adjust_entry_def gm_get_adjust)

lemma TopicFor_Link:
  "TopicFor (Link m k t a now) l =
     (if Key_String l = Key_String k
      then Some \<lparr>te_ThreadID = tp_ThreadID t,
             te_Name = (if tp_Name t \<noteq> [] then tp_Name t else fst (Desired a)),
             te_Status = snd (Desired a), te_Closed = tp_Closed t, te_Muted = False,
             te_UpdatedAt = now\<rparr>
      else TopicFor m l)"
  by (simp add: TopicFor_def Link_def Desired_def gm.get_put)

lemma TopicFor_Forget:
  "TopicFor (Forget m k) l = (if Key_String l = Key_String k then None else TopicFor m l)"
  by (simp add: TopicFor_def Forget_def)

lemmas entry_update_defs = setMuted_def Mute_def Unmute_def Apply_def MarkExited_def
  MarkClosed_def MarkReopened_def

lemmas TopicFor_simps = entry_update_defs TopicFor_adjust_entry TopicFor_Link TopicFor_Forget

lemma mapping_ok_adjust_entry [inv_intros]: "mapping_ok m \<Longrightarrow> mapping_ok (adjust_entry m k f)"
  by (simp add: mapping_ok_def adjust_entry_def)

lemma mapping_ok_Link [inv_intros]: "mapping_ok m \<Longrightarrow> mapping_ok (Link m k t a now)"
  by (simp add: mapping_ok_def Link_def Desired_def)

lemma mapping_ok_Forget [inv_intros]: "mapping_ok m \<Longrightarrow> mapping_ok (Forget m k)"
  by (simp add: mapping_ok_def Forget_def)

lemma mapping_ok_NewMapping [inv_intros]: "mapping_ok (NewMapping c)"
  by (simp add: mapping_ok_def NewMapping_def)

lemma mapping_ok_Mute [inv_intros]: "mapping_ok m \<Longrightarrow> mapping_ok (Mute m k now)"
  and mapping_ok_Unmute [inv_intros]: "mapping_ok m \<Longrightarrow> mapping_ok (Unmute m k now)"
  and mapping_ok_Apply [inv_intros]: "mapping_ok m \<Longrightarrow> mapping_ok (Apply m k p now)"
  and mapping_ok_MarkExited [inv_intros]: "mapping_ok m \<Longrightarrow> mapping_ok (MarkExited m k now)"
  and mapping_ok_MarkClosed [inv_intros]: "mapping_ok m \<Longrightarrow> mapping_ok (MarkClosed m k now)"
  and mapping_ok_MarkReopened [inv_intros]: "mapping_ok m \<Longrightarrow> mapping_ok (MarkReopened m k now)"
  by (simp_all add: entry_update_defs mapping_ok_adjust_entry)

lemma mapping_ok_DedupeThreads [inv_intros]: "mapping_ok m \<Longrightarrow> mapping_ok (fst (DedupeThreads m))"
  by (simp add: mapping_ok_def DedupeThreads_def Let_def)

lemma gm_ok_prune_loop: "gm_ok ts \<Longrightarrow> gm_ok (fst (prune_loop n ts xs r))"
  by (induction n ts xs r rule: prune_loop.induct) auto

lemma mapping_ok_Prune [inv_intros]: "mapping_ok m \<Longrightarrow> mapping_ok (fst (Prune m n))"
  using gm_ok_prune_loop by (auto simp: mapping_ok_def Prune_def Let_def split: prod.splits)
    (metis fst_conv)

section \<open>Diff and Apply\<close>

lemma Diff_None_iff:
  "Diff m k a = None \<longleftrightarrow> (case TopicFor m k of
       None \<Rightarrow> True
     | Some e \<Rightarrow> Live (te_Status e) \<longrightarrow> (te_Name e, te_Status e) = Desired a)"
  by (auto simp: Diff_def Desired_def TopicPatch_Empty_def Let_def split: option.splits if_splits)

lemma Diff_Some:
  assumes "Diff m k a = Some p"
  shows "\<exists>e. TopicFor m k = Some e \<and> Live (te_Status e) \<and>
     (pt_Name p = None \<or> pt_Name p = Some (fst (Desired a))) \<and>
     (pt_Name p = None \<longleftrightarrow> te_Name e = fst (Desired a)) \<and>
     pt_Status p = Some (snd (Desired a))"
  using assms
  by (auto simp: Diff_def Desired_def TopicPatch_Empty_def Let_def split: option.splits if_splits)

text \<open>
  the mapping keeps exactly what the file format stores: a key round-trips through its string
  form whenever it is well formed (non-empty ids, no slash in the pane id), the string of a parsed
  key is the string that was parsed, and a key that is not well formed never comes back.
\<close>

theorem ParseKey_roundtrip:
  "(ParseKey (Key_String k) = Some k \<longleftrightarrow> key_ok k)
   \<and> (ParseKey s = Some l \<longrightarrow> Key_String l = s)"
  using ParseKey_String ParseKey_SomeD by blast

theorem ParseKey_roundtrip_witness:
  "key_ok \<lparr>PaneID = ''w1-2'', TerminalID = ''t/9''\<rparr>
   \<and> ParseKey ''w1-2/t/9'' = Some \<lparr>PaneID = ''w1-2'', TerminalID = ''t/9''\<rparr>"
proof -
  let ?k = "\<lparr>PaneID = ''w1-2'', TerminalID = ''t/9''\<rparr>"
  have ok: "key_ok ?k" by (simp add: key_ok_def)
  then have "ParseKey (Key_String ?k) = Some ?k" using ParseKey_roundtrip [of ?k "[]" ?k] by blast
  with ok show ?thesis by (simp add: Key_String_def)
qed

text \<open>
  C34: one accepted edit brings a topic in line with its agent. When \<open>Diff\<close> reports a patch, the
  topic is live and the patch is minimal (it carries the name only when the name differs, and
  always the agent's status); after \<open>Apply\<close> records it the entry holds the desired name and
  status, its thread, closed and muted flags are untouched, every other entry is unchanged, and
  \<open>Diff\<close> reports nothing more.
\<close>

theorem Diff_Apply_converges:
  assumes "Diff m k a = Some p"
  shows "\<exists>e e'. TopicFor m k = Some e \<and> Live (te_Status e)
     \<and> (pt_Name p = None \<longleftrightarrow> te_Name e = fst (Desired a))
     \<and> TopicFor (Apply m k p now) k = Some e'
     \<and> (te_Name e', te_Status e') = Desired a \<and> te_UpdatedAt e' = now
     \<and> (te_ThreadID e', te_Closed e', te_Muted e') = (te_ThreadID e, te_Closed e, te_Muted e)
     \<and> (\<forall>l. Key_String l \<noteq> Key_String k \<longrightarrow> TopicFor (Apply m k p now) l = TopicFor m l)
     \<and> Diff (Apply m k p now) k a = None"
proof -
  obtain e where e: "TopicFor m k = Some e" "Live (te_Status e)"
    and p: "pt_Name p = None \<or> pt_Name p = Some (fst (Desired a))"
      "pt_Name p = None \<longleftrightarrow> te_Name e = fst (Desired a)" "pt_Status p = Some (snd (Desired a))"
    using Diff_Some [OF assms] by (elim exE conjE)
  define e' where "e' = e\<lparr>te_Name := fst (Desired a), te_Status := snd (Desired a), te_UpdatedAt := now\<rparr>"
  have e': "TopicFor (Apply m k p now) k = Some e'"
    using e p by (cases e) (auto simp: TopicFor_simps e'_def)
  have "Diff (Apply m k p now) k a = None"
    by (simp add: Diff_None_iff e') (simp add: e'_def)
  moreover have "\<forall>l. Key_String l \<noteq> Key_String k \<longrightarrow> TopicFor (Apply m k p now) l = TopicFor m l"
    by (simp add: TopicFor_simps)
  ultimately show ?thesis
    using e p(2) e' by (intro exI [of _ e] exI [of _ e']) (simp add: e'_def)
qed

theorem Diff_Apply_converges_witness:
  "\<exists>m k a p. Diff m k a = Some p \<and> Diff (Apply m k p 9) k a = None"
proof -
  let ?k = "\<lparr>PaneID = ''p1'', TerminalID = ''t1''\<rparr>"
  let ?a = "\<lparr>ag_Key = ?k, ag_WorkspaceID = ''w1'', ag_WorkspaceLabel = [], ag_TabID = [],
     ag_TabLabel = [], ag_Kind = ''claude'', ag_Name = ''bob'', ag_Title = [], ag_Status = StatusDone,
     ag_Revision = 0, ag_StateChangeSeq = 0, ag_Focused = False, ag_Cwd = []\<rparr>"
  let ?e = "\<lparr>te_ThreadID = 7, te_Name = ''x'', te_Status = StatusIdle, te_Closed = False,
     te_Muted = False, te_UpdatedAt = 3\<rparr>"
  let ?m = "\<lparr>mp_Version = 1, mp_ChatID = -100, mp_Topics = [(''p1/t1'', ?e)], mp_Dashboard = 0\<rparr>"
  have t: "TopicFor ?m ?k = Some ?e" by (simp add: TopicFor_def Key_String_def)
  have "Diff ?m ?k ?a \<noteq> None" by (simp add: Diff_None_iff t Live_def Desired_def)
  then obtain p where "Diff ?m ?k ?a = Some p" by blast
  with Diff_Apply_converges [OF this] show ?thesis by blast
qed

section \<open>Pruning\<close>

lemma length_gm_del: "gm_ok ts \<Longrightarrow> key \<in> set (gm_keys ts) \<Longrightarrow> Suc (length (gm_del key ts)) = length ts"
proof (induction ts)
  case (Cons p ts)
  show ?case
  proof (cases "fst p = key")
    case True
    then have "filter (\<lambda>q. fst q \<noteq> key) ts = ts"
      using Cons.prems(1) by (auto simp: gm_ok_def filter_id_conv image_iff)
    then show ?thesis using True by (simp add: gm_del_def)
  next
    case False
    with Cons show ?thesis by (auto simp: gm_del_def gm_ok_def)
  qed
qed simp

lemma prune_loop_eq:
  assumes "gm_ok ts" "distinct (map snd xs)" "set (map snd xs) \<subseteq> set (gm_keys ts)"
  shows "prune_loop n ts xs r =
    (filter (\<lambda>p. fst p \<notin> set (map snd (take (length ts - n) xs))) ts,
     r + min (length xs) (length ts - n))"
  using assms
proof (induction n ts xs r rule: prune_loop.induct)
  case (2 n ts at key rest r)
  show ?case
  proof (cases "length ts \<le> n")
    case False
    have len: "Suc (length (gm_del key ts)) = length ts" using 2 by (intro length_gm_del) auto
    then have cnt: "length ts - n = Suc (length (gm_del key ts) - n)" using False by simp
    have sub: "set (map snd rest) \<subseteq> set (gm_keys (gm_del key ts))"
    proof
      fix k assume "k \<in> set (map snd rest)"
      then have "k \<in> set (gm_keys ts)" "k \<noteq> key" using 2(3,4) by (auto simp: image_iff)
      then show "k \<in> set (gm_keys (gm_del key ts))" by (auto simp: gm_del_def)
    qed
    show ?thesis
      using "2.IH" [OF False _ _ sub] 2(2,3) False
      by (simp add: cnt) (simp add: gm_del_def conj_commute)
  qed simp
qed simp

lemma exited_by_age_keys:
  "set (map snd (exited_by_age ts)) = {k. \<exists>e. (k, e) \<in> set ts \<and> \<not> Live (te_Status e)}"
  by (force simp: exited_by_age_def)

lemma exited_by_age_mem:
  "(t, k) \<in> set (exited_by_age ts) \<longleftrightarrow> (\<exists>e. (k, e) \<in> set ts \<and> \<not> Live (te_Status e) \<and> t = te_UpdatedAt e)"
  by (force simp: exited_by_age_def)

lemma distinct_exited_by_age: "gm_ok ts \<Longrightarrow> distinct (map snd (exited_by_age ts))"
proof -
  assume ok: "gm_ok ts"
  let ?xs = "map (\<lambda>(key, e). (te_UpdatedAt e, key)) (filter (\<lambda>(key, e). \<not> Live (te_Status e)) ts)"
  have "map snd ?xs = map fst (filter (\<lambda>(key, e). \<not> Live (te_Status e)) ts)" by auto
  moreover have "distinct \<dots>" using gm_ok_filter [OF ok] by (simp add: gm_ok_def)
  ultimately have "distinct (map snd ?xs)" by (simp only:)
  then have "inj_on snd (set ?xs)" "distinct ?xs" by (simp_all only: distinct_map)
  then show ?thesis by (simp add: exited_by_age_def distinct_map)
qed

lemma sorted_take_less:
  assumes "sorted xs" "distinct xs" "x \<in> set (take j xs)" "y \<in> set xs" "y \<notin> set (take j xs)"
  shows "x < (y :: 'a::linorder)"
proof -
  have "y \<in> set (drop j xs)" using assms(4,5) by (metis Un_iff append_take_drop_id set_append)
  moreover have "sorted (take j xs @ drop j xs)" using assms(1) by simp
  ultimately have "x \<le> y" using assms(3) by (simp add: sorted_append del: append_take_drop_id)
  moreover have "x \<noteq> y" using assms(3,5) by blast
  ultimately show ?thesis by simp
qed

text \<open>The keys \<open>Prune\<close> drops when the mapping is over its cap.\<close>

definition pruned :: "(string, TopicEntry) go_map \<Rightarrow> nat \<Rightarrow> string set" where
  "pruned ts cap = set (map snd (take (length ts - cap) (exited_by_age ts)))"

lemma pruned_exited:
  assumes "gm_ok ts" "k \<in> pruned ts cap"
  shows "\<exists>e. gm_get ts k = Some e \<and> \<not> Live (te_Status e) \<and>
    (te_UpdatedAt e, k) \<in> set (take (length ts - cap) (exited_by_age ts))"
proof -
  obtain t where t: "(t, k) \<in> set (take (length ts - cap) (exited_by_age ts))"
    using assms(2) by (auto simp: pruned_def)
  then have "(t, k) \<in> set (exited_by_age ts)" by (rule in_set_takeD)
  then show ?thesis using t assms(1) by (auto simp: exited_by_age_mem gm_get_in)
qed

lemma pruned_subset: "gm_ok ts \<Longrightarrow> pruned ts cap \<subseteq> set (gm_keys ts)"
  using pruned_exited by (metis domI dom_map_of_conv_image_fst list.set_map subsetI)

lemma card_pruned:
  assumes "gm_ok ts"
  shows "card (pruned ts cap) = min (length (exited_by_age ts)) (length ts - cap)"
proof -
  have "distinct (map snd (take (length ts - cap) (exited_by_age ts)))"
    using distinct_exited_by_age [OF assms] by (metis distinct_take take_map)
  then show ?thesis by (simp only: pruned_def distinct_card) simp
qed

lemma Prune_over_cap:
  assumes "gm_ok (mp_Topics m)" "0 < cap" "cap < int (length (mp_Topics m))"
  shows "Prune m cap =
    (m\<lparr>mp_Topics := filter (\<lambda>p. fst p \<notin> pruned (mp_Topics m) (nat cap)) (mp_Topics m)\<rparr>,
     card (pruned (mp_Topics m) (nat cap)))"
proof -
  let ?ts = "mp_Topics m" and ?xs = "exited_by_age (mp_Topics m)"
  have "set (map snd ?xs) \<subseteq> set (gm_keys ?ts)"
    unfolding exited_by_age_keys by (force simp: image_iff)
  then show ?thesis
    using prune_loop_eq [OF assms(1) distinct_exited_by_age [OF assms(1)]] assms
      card_pruned [OF assms(1), of "nat cap"]
    by (simp add: Prune_def pruned_def)
qed

lemma length_unpruned:
  assumes "gm_ok ts"
  shows "length (filter (\<lambda>p. fst p \<notin> pruned ts cap) ts) + card (pruned ts cap) = length ts"
proof -
  let ?ts' = "filter (\<lambda>p. fst p \<notin> pruned ts cap) ts"
  have "set (gm_keys ?ts') = set (gm_keys ts) - pruned ts cap" by auto
  then have "card (set (gm_keys ?ts')) = card (set (gm_keys ts)) - card (pruned ts cap)"
    using pruned_subset [OF assms] by (simp add: card_Diff_subset finite_subset pruned_def)
  moreover have "card (pruned ts cap) \<le> card (set (gm_keys ts))"
    using pruned_subset [OF assms] by (simp add: card_mono)
  moreover have "card (set (gm_keys ?ts')) = length ?ts'" "card (set (gm_keys ts)) = length ts"
    using distinct_card [of "gm_keys ?ts'"] distinct_card [of "gm_keys ts"] assms gm_ok_filter [OF assms]
    by (simp_all add: gm_ok_def)
  ultimately show ?thesis by linarith
qed

lemma pruned_oldest:
  assumes "gm_ok ts" "gm_get ts k = Some e" "k \<in> pruned ts cap"
    and "gm_get ts k' = Some e'" "k' \<notin> pruned ts cap" "\<not> Live (te_Status e')"
  shows "(te_UpdatedAt e, k) < (te_UpdatedAt e', k')"
proof (rule sorted_take_less)
  let ?xs = "exited_by_age ts"
  show "sorted ?xs" by (simp add: exited_by_age_def)
  show "distinct ?xs" using distinct_exited_by_age [OF assms(1)] by (simp add: distinct_map)
  show "(te_UpdatedAt e, k) \<in> set (take (length ts - cap) ?xs)"
    using pruned_exited [OF assms(1,3)] assms(2) by auto
  show "(te_UpdatedAt e', k') \<in> set ?xs"
    using assms(1,4,6) by (auto simp: exited_by_age_mem gm_get_in)
  show "(te_UpdatedAt e', k') \<notin> set (take (length ts - cap) ?xs)"
    using assms(5) by (force simp: pruned_def)
qed

lemma pruned_all:
  assumes "gm_ok ts" "length (exited_by_age ts) \<le> length ts - cap"
    and "gm_get ts k = Some e" "k \<notin> pruned ts cap"
  shows "Live (te_Status e)"
  using assms by (auto simp: pruned_def gm_get_in exited_by_age_mem image_iff) (metis exited_by_age_mem snd_conv)

lemma Prune_facts:
  assumes "mapping_ok m" "0 < maxEntries"
  defines "ts \<equiv> mp_Topics m" and "ts' \<equiv> mp_Topics (fst (Prune m maxEntries))"
  shows "length ts' + snd (Prune m maxEntries) = length ts
    \<and> (\<forall>k e. gm_get ts' k = Some e \<longrightarrow> gm_get ts k = Some e)
    \<and> (\<forall>k e. gm_get ts k = Some e \<and> Live (te_Status e) \<longrightarrow> gm_get ts' k = Some e)
    \<and> (int (length ts') \<le> maxEntries \<or> (\<forall>k e. gm_get ts' k = Some e \<longrightarrow> Live (te_Status e)))
    \<and> min (int (length ts)) maxEntries \<le> int (length ts')
    \<and> (\<forall>k e k' e'. gm_get ts k = Some e \<and> gm_get ts' k = None \<and>
         gm_get ts' k' = Some e' \<and> \<not> Live (te_Status e') \<longrightarrow>
         (te_UpdatedAt e, k) < (te_UpdatedAt e', k'))"
proof (cases "int (length ts) \<le> maxEntries")
  case True
  then have "Prune m maxEntries = (m, 0)" by (simp add: Prune_def ts_def)
  then have "ts' = ts" "snd (Prune m maxEntries) = 0" by (simp_all add: ts_def ts'_def)
  then show ?thesis using True by auto
next
  case False
  define D where "D = pruned ts (nat maxEntries)"
  have ok: "gm_ok ts" using assms(1) by (simp add: mapping_ok_def ts_def)
  have ts': "ts' = filter (\<lambda>p. fst p \<notin> D) ts" and n: "snd (Prune m maxEntries) = card D"
    using Prune_over_cap [of m maxEntries] False ok assms(2) by (simp_all add: ts_def ts'_def D_def)
  have len: "length ts' + card D = length ts"
    using length_unpruned [OF ok] by (simp add: ts' D_def)
  have get': "gm_get ts' k = (if k \<in> D then None else gm_get ts k)" for k
    unfolding ts' using gm_get_filter [OF ok, of "\<lambda>p. fst p \<notin> D" k] by (simp split: option.splits)
  have card: "card D = min (length (exited_by_age ts)) (length ts - nat maxEntries)"
    using card_pruned [OF ok] by (simp add: D_def)
  have cap: "int (length ts') \<le> maxEntries \<or> (\<forall>k e. gm_get ts' k = Some e \<longrightarrow> Live (te_Status e))"
  proof (cases "length ts - nat maxEntries \<le> length (exited_by_age ts)")
    case True
    then have "card D = length ts - nat maxEntries" using card by simp
    then have "int (length ts') \<le> maxEntries" using len False assms(2) by linarith
    then show ?thesis ..
  next
    case False
    then have "length (exited_by_age ts) \<le> length ts - nat maxEntries" by simp
    from pruned_all [OF ok this] show ?thesis using get' by (auto simp: D_def split: if_splits)
  qed
  have "\<forall>k e. gm_get ts k = Some e \<and> Live (te_Status e) \<longrightarrow> gm_get ts' k = Some e"
    using get' pruned_exited [OF ok] by (fastforce simp: D_def)
  moreover have "\<forall>k e k' e'. gm_get ts k = Some e \<and> gm_get ts' k = None \<and>
      gm_get ts' k' = Some e' \<and> \<not> Live (te_Status e') \<longrightarrow> (te_UpdatedAt e, k) < (te_UpdatedAt e', k')"
    using get' pruned_oldest [OF ok] by (metis D_def option.distinct(1))
  moreover have "min (int (length ts)) maxEntries \<le> int (length ts')"
    using len card False assms(2) by simp
  ultimately show ?thesis using len n get' cap by (auto split: if_splits)
qed

text \<open>
  pruning keeps the mapping under its cap by forgetting only exited agents, oldest first. For
  a positive cap: the count returned is the number of entries dropped, nothing is changed or
  invented, no live entry is lost, the size ends at or under the cap unless only live entries are
  left, it never drops below the cap, and every dropped entry is older (ties by key) than every
  exited entry that stays.
\<close>

theorem Prune_correct:
  assumes "mapping_ok m" "0 < maxEntries"
  defines "ts \<equiv> mp_Topics m" and "ts' \<equiv> mp_Topics (fst (Prune m maxEntries))"
  shows "length ts' + snd (Prune m maxEntries) = length ts
    \<and> (\<forall>k e. gm_get ts' k = Some e \<longrightarrow> gm_get ts k = Some e)
    \<and> (\<forall>k e. gm_get ts k = Some e \<and> Live (te_Status e) \<longrightarrow> gm_get ts' k = Some e)
    \<and> (int (length ts') \<le> maxEntries \<or> (\<forall>k e. gm_get ts' k = Some e \<longrightarrow> Live (te_Status e)))
    \<and> min (int (length ts)) maxEntries \<le> int (length ts')
    \<and> (\<forall>k e k' e'. gm_get ts k = Some e \<and> gm_get ts' k = None \<and>
         gm_get ts' k' = Some e' \<and> \<not> Live (te_Status e') \<longrightarrow>
         (te_UpdatedAt e, k) < (te_UpdatedAt e', k'))"
  using Prune_facts [OF assms(1,2)] unfolding ts_def ts'_def .

theorem Prune_correct_witness:
  "\<exists>m. mapping_ok m \<and> (0::int) < 1 \<and> length (mp_Topics m) = 2
     \<and> length (mp_Topics (fst (Prune m 1))) + snd (Prune m 1) = 2"
proof -
  let ?e = "\<lparr>te_ThreadID = 7, te_Name = ''x'', te_Status = StatusExited, te_Closed = True,
     te_Muted = False, te_UpdatedAt = 3\<rparr>"
  let ?m = "\<lparr>mp_Version = 1, mp_ChatID = -100,
     mp_Topics = [(''p1/t1'', ?e), (''p2/t2'', ?e\<lparr>te_Status := StatusIdle\<rparr>)], mp_Dashboard = 0\<rparr>"
  have ok: "mapping_ok ?m" by (simp add: mapping_ok_def gm_ok_def)
  from Prune_correct [OF ok, of 1] ok show ?thesis by (intro exI [of _ ?m]) simp
qed

section \<open>One topic per thread\<close>

text \<open>\<open>newer\<close> is the strict order by time of the last write, live entries winning ties.\<close>

definition entry_rank :: "TopicEntry \<Rightarrow> time \<times> bool" where
  "entry_rank e = (te_UpdatedAt e, Live (te_Status e))"

lemma newer_rank:
  assumes "gm_get (mp_Topics m) a = Some ea" "gm_get (mp_Topics m) b = Some eb"
  shows "newer m a b \<longleftrightarrow> entry_rank eb < entry_rank ea"
  using assms by (auto simp: newer_def entry_rank_def less_prod_def)

text \<open>\<open>best_of m P t k\<close>: among the keys \<open>P\<close> of thread \<open>t\<close>, \<open>k\<close> has the greatest rank.\<close>

definition best_of :: "Mapping \<Rightarrow> string set \<Rightarrow> int \<Rightarrow> string \<Rightarrow> bool" where
  "best_of m P t k \<longleftrightarrow> k \<in> P \<and> (\<exists>e. gm_get (mp_Topics m) k = Some e \<and> te_ThreadID e = t \<and>
     (\<forall>l\<in>P. \<forall>d. gm_get (mp_Topics m) l = Some d \<and> te_ThreadID d = t \<longrightarrow> entry_rank d \<le> entry_rank e))"

definition best_inv :: "Mapping \<Rightarrow> string set \<Rightarrow> (int, string) go_map \<Rightarrow> bool" where
  "best_inv m P best \<longleftrightarrow> (\<forall>t. case gm_get best t of
       None \<Rightarrow> (\<forall>l\<in>P. \<forall>d. gm_get (mp_Topics m) l = Some d \<longrightarrow> te_ThreadID d \<noteq> t)
     | Some k \<Rightarrow> best_of m P t k)"

lemma best_invD:
  "best_inv m P best \<Longrightarrow> (case gm_get best t of
       None \<Rightarrow> (\<forall>l\<in>P. \<forall>d. gm_get (mp_Topics m) l = Some d \<longrightarrow> te_ThreadID d \<noteq> t)
     | Some k \<Rightarrow> best_of m P t k)"
  by (simp add: best_inv_def)

lemma best_of_insert_other:
  "best_of m P t k \<Longrightarrow> gm_get (mp_Topics m) l = Some d \<Longrightarrow> te_ThreadID d \<noteq> t \<Longrightarrow> best_of m (insert l P) t k"
  by (auto simp: best_of_def)

lemma best_of_insert_beaten:
  "best_of m P t k \<Longrightarrow> gm_get (mp_Topics m) l = Some d \<Longrightarrow> \<not> newer m l k \<Longrightarrow> best_of m (insert l P) t k"
  by (auto simp: best_of_def newer_rank not_less)

lemma best_of_insert_newer:
  assumes "best_of m P t k" "gm_get (mp_Topics m) l = Some d" "te_ThreadID d = t" "newer m l k"
  shows "best_of m (insert l P) t l"
proof -
  obtain e where e: "gm_get (mp_Topics m) k = Some e" and
    le: "\<forall>l\<in>P. \<forall>d. gm_get (mp_Topics m) l = Some d \<and> te_ThreadID d = t \<longrightarrow> entry_rank d \<le> entry_rank e"
    using assms(1) by (auto simp: best_of_def)
  have "entry_rank e \<le> entry_rank d" using assms(2,4) e by (simp add: newer_rank)
  then show ?thesis using assms(2,3) le by (auto simp: best_of_def intro: order_trans)
qed

lemma best_inv_put:
  assumes "best_inv m P best" "gm_get (mp_Topics m) key = Some e" "best_of m (insert key P) (te_ThreadID e) key"
  shows "best_inv m (insert key P) (gm_put (te_ThreadID e) key best)"
  unfolding best_inv_def
proof
  fix t
  show "case gm_get (gm_put (te_ThreadID e) key best) t of
      None \<Rightarrow> \<forall>l\<in>insert key P. \<forall>d. gm_get (mp_Topics m) l = Some d \<longrightarrow> te_ThreadID d \<noteq> t
    | Some k \<Rightarrow> best_of m (insert key P) t k"
    using best_invD [OF assms(1), of t] assms(2,3) best_of_insert_other [of m P t _ key e]
    by (cases "t = te_ThreadID e"; cases "gm_get best t") (auto simp: gm.get_put)
qed

lemma best_inv_skip:
  assumes "best_inv m P best" "gm_get (mp_Topics m) key = Some e"
    and "gm_get best (te_ThreadID e) = Some cur" "\<not> newer m key cur"
  shows "best_inv m (insert key P) best"
  unfolding best_inv_def
proof
  fix t
  show "case gm_get best t of
      None \<Rightarrow> \<forall>l\<in>insert key P. \<forall>d. gm_get (mp_Topics m) l = Some d \<longrightarrow> te_ThreadID d \<noteq> t
    | Some k \<Rightarrow> best_of m (insert key P) t k"
    using best_invD [OF assms(1), of t] assms(2-4) best_of_insert_other [of m P t _ key e]
      best_of_insert_beaten [of m P t _ key e]
    by (cases "t = te_ThreadID e"; cases "gm_get best t") auto
qed

lemma best_threads_inv:
  assumes "best_inv m P best" "set keys \<subseteq> dom (gm_get (mp_Topics m))"
  shows "best_inv m (P \<union> set keys) (best_threads m best keys)"
  using assms
proof (induction keys arbitrary: P best)
  case (Cons key keys)
  then obtain e where e: "gm_get (mp_Topics m) key = Some e" by auto
  have sub: "set keys \<subseteq> dom (gm_get (mp_Topics m))" using Cons.prems(2) by simp
  show ?case
  proof (cases "gm_get best (te_ThreadID e)")
    case None
    have "best_of m (insert key P) (te_ThreadID e) key"
      using best_invD [OF Cons.prems(1), of "te_ThreadID e"] e None by (auto simp: best_of_def)
    then show ?thesis
      using Cons.IH [OF best_inv_put [OF Cons.prems(1) e] sub] e None by simp
  next
    case (Some cur)
    have cur: "best_of m P (te_ThreadID e) cur"
      using best_invD [OF Cons.prems(1), of "te_ThreadID e"] Some by simp
    show ?thesis
    proof (cases "newer m key cur")
      case True
      then show ?thesis
        using Cons.IH [OF best_inv_put [OF Cons.prems(1) e] sub] best_of_insert_newer [OF cur e]
          e Some by simp
    next
      case False
      then show ?thesis
        using Cons.IH [OF best_inv_skip [OF Cons.prems(1) e Some False] sub] e Some by simp
    qed
  qed
qed simp

lemma best_threads_spec:
  "best_inv m (dom (gm_get (mp_Topics m))) (best_threads m [] (sortedKeys m))"
  using best_threads_inv [of m "{}" "[]" "sortedKeys m"]
  by (simp add: set_sortedKeys best_inv_def)

definition opt_key :: "string option \<Rightarrow> string" where
  "opt_key k = (case k of None \<Rightarrow> [] | Some s \<Rightarrow> s)"

text \<open>The loop of \<open>KeyForThread\<close> computes the same choice as the one of \<open>DedupeThreads\<close>.\<close>

lemma best_for_thread_eq:
  assumes "[] \<notin> set keys" "gm_get best t \<noteq> Some []" "set keys \<subseteq> dom (gm_get (mp_Topics m))"
  shows "best_for_thread m t (opt_key (gm_get best t)) keys = opt_key (gm_get (best_threads m best keys) t)"
  using assms
proof (induction keys arbitrary: best)
  case (Cons key keys)
  then obtain e where e: "gm_get (mp_Topics m) key = Some e" by auto
  show ?case
  proof (cases "te_ThreadID e = t")
    case False
    then have put: "gm_get (gm_put (te_ThreadID e) key best) t = gm_get best t" by (simp add: gm.get_put)
    show ?thesis
      using Cons.IH [of best] Cons.IH [of "gm_put (te_ThreadID e) key best"] Cons.prems False e put
      by (simp split: option.splits)
  next
    case True
    then have put: "gm_get (gm_put t key best) t = Some key" by (simp add: gm.get_put)
    have kne: "key \<noteq> []" using Cons.prems(1) by auto
    show ?thesis
      using Cons.IH [of best] Cons.IH [of "gm_put t key best"] Cons.prems True e put kne
      by (cases "gm_get best t") (simp_all add: opt_key_def)
  qed
qed simp

lemma KeyForThread_best:
  assumes "gm_get (mp_Topics m) [] = None"
  shows "KeyForThread m t = Option.bind (gm_get (best_threads m [] (sortedKeys m)) t) ParseKey"
proof -
  let ?B = "best_threads m [] (sortedKeys m)"
  have "[] \<notin> set (sortedKeys m)" using assms by (auto simp: set_sortedKeys)
  then have eq: "best_for_thread m t [] (sortedKeys m) = opt_key (gm_get ?B t)"
    using best_for_thread_eq [of "sortedKeys m" "[]" t m] by (simp add: set_sortedKeys opt_key_def)
  have "gm_get ?B t \<noteq> Some []"
    using best_invD [OF best_threads_spec [of m], of t] assms by (auto simp: best_of_def)
  then show ?thesis
    by (cases "gm_get ?B t") (auto simp: KeyForThread_def eq Let_def opt_key_def)
qed

abbreviation thread_best :: "Mapping \<Rightarrow> int \<Rightarrow> string option" where
  "thread_best m t \<equiv> gm_get (best_threads m [] (sortedKeys m)) t"

lemma thread_best_Some:
  assumes "thread_best m t = Some k"
  obtains e where "gm_get (mp_Topics m) k = Some e" "te_ThreadID e = t"
    "\<And>l d. gm_get (mp_Topics m) l = Some d \<Longrightarrow> te_ThreadID d = t \<Longrightarrow> entry_rank d \<le> entry_rank e"
  using best_invD [OF best_threads_spec [of m], of t] assms by (auto simp: best_of_def dom_def)

lemma thread_best_None:
  "thread_best m t = None \<Longrightarrow> gm_get (mp_Topics m) l = Some d \<Longrightarrow> te_ThreadID d \<noteq> t"
  using best_invD [OF best_threads_spec [of m], of t] by (auto simp: dom_def)

lemma DedupeThreads_get:
  assumes "mapping_ok m"
  shows "gm_get (mp_Topics (fst (DedupeThreads m))) k = (case gm_get (mp_Topics m) k of
     None \<Rightarrow> None | Some e \<Rightarrow> if thread_best m (te_ThreadID e) = Some k then Some e else None)"
  using assms gm_get_filter [of "mp_Topics m" _ k]
  by (simp add: DedupeThreads_def Let_def mapping_ok_def split: option.split)

lemma thread_best_dedupe:
  assumes "mapping_ok m"
  shows "thread_best (fst (DedupeThreads m)) t = thread_best m t"
proof (cases "thread_best m t")
  case None
  have "thread_best (fst (DedupeThreads m)) t \<noteq> Some k" for k
  proof
    assume "thread_best (fst (DedupeThreads m)) t = Some k"
    then obtain e where "gm_get (mp_Topics (fst (DedupeThreads m))) k = Some e" "te_ThreadID e = t"
      by (rule thread_best_Some)
    then have "gm_get (mp_Topics m) k = Some e" "te_ThreadID e = t"
      by (auto simp: DedupeThreads_get [OF assms] split: option.splits if_splits)
    with thread_best_None [OF None] show False by blast
  qed
  with None show ?thesis by (cases "thread_best (fst (DedupeThreads m)) t") auto
next
  case (Some k)
  then obtain e where e: "gm_get (mp_Topics m) k = Some e" "te_ThreadID e = t"
    by (rule thread_best_Some)
  then have kept: "gm_get (mp_Topics (fst (DedupeThreads m))) k = Some e"
    using Some by (simp add: DedupeThreads_get [OF assms])
  have "thread_best (fst (DedupeThreads m)) t \<noteq> None"
    using thread_best_None [of "fst (DedupeThreads m)" t k e] kept e(2) by auto
  then obtain k' where k': "thread_best (fst (DedupeThreads m)) t = Some k'" by (meson not_None_eq)
  then obtain e' where "gm_get (mp_Topics (fst (DedupeThreads m))) k' = Some e'" "te_ThreadID e' = t"
    by (rule thread_best_Some)
  then have "thread_best m t = Some k'"
    by (auto simp: DedupeThreads_get [OF assms] split: option.splits if_splits)
  with k' show ?thesis by simp
qed

text \<open>
  \<open>DedupeThreads\<close> leaves one entry per Telegram thread. What stays is unchanged, no two
  remaining entries share a thread, the count returned is the number removed, and for every
  entry of the old mapping an entry of the same thread remains that was written later, or at
  the same time with a live entry winning the tie. Looking a thread up gives the same agent
  before and after.
\<close>

theorem DedupeThreads_correct:
  assumes "mapping_ok m" "gm_get (mp_Topics m) [] = None"
  defines "ts \<equiv> mp_Topics m" and "ts' \<equiv> mp_Topics (fst (DedupeThreads m))"
  shows "(\<forall>k e. gm_get ts' k = Some e \<longrightarrow> gm_get ts k = Some e)
    \<and> (\<forall>k e l d. gm_get ts' k = Some e \<and> gm_get ts' l = Some d \<and> te_ThreadID e = te_ThreadID d \<longrightarrow> k = l)
    \<and> length ts' + snd (DedupeThreads m) = length ts
    \<and> (\<forall>k e. gm_get ts k = Some e \<longrightarrow> (\<exists>l d. gm_get ts' l = Some d \<and> te_ThreadID d = te_ThreadID e
         \<and> (te_UpdatedAt e < te_UpdatedAt d
            \<or> te_UpdatedAt e = te_UpdatedAt d \<and> (Live (te_Status e) \<longrightarrow> Live (te_Status d)))))
    \<and> KeyForThread (fst (DedupeThreads m)) t = KeyForThread m t"
proof -
  have get': "gm_get ts' k = (case gm_get ts k of None \<Rightarrow> None
      | Some e \<Rightarrow> if thread_best m (te_ThreadID e) = Some k then Some e else None)" for k
    using DedupeThreads_get [OF assms(1)] by (simp add: ts_def ts'_def)
  have best: "\<exists>l d. gm_get ts' l = Some d \<and> te_ThreadID d = te_ThreadID e \<and> entry_rank e \<le> entry_rank d"
    if "gm_get ts k = Some e" for k e
  proof -
    have "thread_best m (te_ThreadID e) \<noteq> None"
      using that thread_best_None [of m "te_ThreadID e" k e] by (auto simp: ts_def)
    then obtain l where l: "thread_best m (te_ThreadID e) = Some l" by (meson not_None_eq)
    then obtain d where d: "gm_get ts l = Some d" "te_ThreadID d = te_ThreadID e"
      and le: "\<And>l' d'. gm_get ts l' = Some d' \<Longrightarrow> te_ThreadID d' = te_ThreadID e \<Longrightarrow> entry_rank d' \<le> entry_rank d"
      unfolding ts_def by (elim thread_best_Some) blast
    with l le [OF that refl] show ?thesis using get' by (intro exI [of _ l] exI [of _ d]) simp
  qed
  have "gm_get (mp_Topics (fst (DedupeThreads m))) [] = None"
    using get' [of "[]"] assms(2) by (simp add: ts_def ts'_def)
  then have "KeyForThread (fst (DedupeThreads m)) t = KeyForThread m t"
    using assms(1,2) by (simp add: KeyForThread_best thread_best_dedupe)
  moreover have "length ts' + snd (DedupeThreads m) = length ts"
    by (simp add: ts_def ts'_def DedupeThreads_def Let_def)
  moreover have "\<forall>k e l d. gm_get ts' k = Some e \<and> gm_get ts' l = Some d \<and> te_ThreadID e = te_ThreadID d \<longrightarrow> k = l"
    using get' by (auto split: option.splits if_splits)
  moreover have "\<forall>k e. gm_get ts k = Some e \<longrightarrow> (\<exists>l d. gm_get ts' l = Some d \<and> te_ThreadID d = te_ThreadID e
         \<and> (te_UpdatedAt e < te_UpdatedAt d
            \<or> te_UpdatedAt e = te_UpdatedAt d \<and> (Live (te_Status e) \<longrightarrow> Live (te_Status d))))"
    using best by (fastforce simp: entry_rank_def less_eq_prod_def)
  moreover have "\<forall>k e. gm_get ts' k = Some e \<longrightarrow> gm_get ts k = Some e"
    using get' by (auto split: option.splits if_splits)
  ultimately show ?thesis by blast
qed

theorem DedupeThreads_correct_witness:
  "\<exists>m. mapping_ok m \<and> gm_get (mp_Topics m) [] = None
     \<and> KeyForThread (fst (DedupeThreads m)) 7 = KeyForThread m 7
     \<and> KeyForThread m 7 = Some \<lparr>PaneID = ''p2'', TerminalID = ''t2''\<rparr>"
proof -
  let ?e = "\<lparr>te_ThreadID = 7, te_Name = ''x'', te_Status = StatusExited, te_Closed = True,
     te_Muted = False, te_UpdatedAt = 3\<rparr>"
  let ?m = "\<lparr>mp_Version = 1, mp_ChatID = -100,
     mp_Topics = [(''p1/t1'', ?e), (''p2/t2'', ?e\<lparr>te_Status := StatusIdle\<rparr>)], mp_Dashboard = 0\<rparr>"
  have ok: "mapping_ok ?m" by (simp add: mapping_ok_def gm_ok_def)
  have none: "gm_get (mp_Topics ?m) [] = None" by simp
  have "KeyForThread ?m 7 = Some \<lparr>PaneID = ''p2'', TerminalID = ''t2''\<rparr>" by code_simp
  with DedupeThreads_correct [OF ok none, of 7] ok none show ?thesis by blast
qed

section \<open>Listings\<close>

text \<open>
  the stale-topic sweep sees exactly the closed topics of exited agents that have been
  untouched for longer than the age, each once, oldest first with ties by key; a live agent or
  an open topic is never listed.
\<close>

theorem Stale_correct:
  assumes "mapping_ok m" "0 \<le> maxAge" "maxAge < maxInt64"
  shows "set (Stale m now maxAge) =
      {k. key_ok k \<and> (\<exists>e. TopicFor m k = Some e \<and> \<not> Live (te_Status e) \<and> te_Closed e
            \<and> maxAge < now - te_UpdatedAt e)}
    \<and> distinct (Stale m now maxAge)
    \<and> sorted (map (\<lambda>k. (updated_at m k, Key_String k)) (Stale m now maxAge))"
  using assms distinct_Keys [OF assms(1)]
  by (auto simp: Stale_def set_Keys stale_entry_def time_Sub_gt [OF assms(2,3), unfolded not_le [symmetric]]
      not_le time_Sub_gt split: option.splits)

theorem Stale_correct_witness:
  "\<exists>m. mapping_ok m \<and> \<lparr>PaneID = ''p1'', TerminalID = ''t1''\<rparr> \<in> set (Stale m 100 5)"
proof -
  let ?e = "\<lparr>te_ThreadID = 7, te_Name = ''x'', te_Status = StatusExited, te_Closed = True,
     te_Muted = False, te_UpdatedAt = 3\<rparr>"
  let ?m = "\<lparr>mp_Version = 1, mp_ChatID = -100, mp_Topics = [(''p1/t1'', ?e)], mp_Dashboard = 0\<rparr>"
  have ok: "mapping_ok ?m" by (simp add: mapping_ok_def gm_ok_def)
  show ?thesis
    using Stale_correct [OF ok, of 5 100] ok
    by (intro exI [of _ ?m])
      (simp add: maxInt64_def key_ok_def TopicFor_def Key_String_def Live_def)
qed

end
