(* ===== verification/Topic_View.thy ===== *)
theory Topic_View
  imports Topic_Mapping
begin

text \<open>
  The read model of the mapping, \<^verbatim>\<open>internal/app/topicview.go\<close>: the copy other goroutines consult. The
  reconciler publishes it as a whole under a lock, so a reader sees one published copy.
\<close>

record TopicView =
  tv_entries :: "(Key, TopicEntry) go_map"
  tv_byThread :: "(int, Key) go_map"

definition newTopicView :: TopicView where
  "newTopicView = \<lparr>tv_entries = [], tv_byThread = []\<rparr>"

text \<open>The loop of \<open>publish\<close> over the keys.\<close>

fun publish_loop :: "Mapping \<Rightarrow> Key list \<Rightarrow> TopicView \<Rightarrow> TopicView" where
  "publish_loop m [] v = v"
| "publish_loop m (key # keys) v =
     (case TopicFor m key of
        None \<Rightarrow> publish_loop m keys v
      | Some e \<Rightarrow>
          (let v1 = v\<lparr>tv_entries := gm_put key e (tv_entries v)\<rparr>;
               v2 = (case gm_get (tv_byThread v1) (te_ThreadID e) of
                       Some _ \<Rightarrow> v1
                     | None \<Rightarrow>
                         (case KeyForThread m (te_ThreadID e) of
                            Some k \<Rightarrow> v1\<lparr>tv_byThread := gm_put (te_ThreadID e) k (tv_byThread v1)\<rparr>
                          | None \<Rightarrow> v1))
           in publish_loop m keys v2))"

definition publish :: "Mapping \<Rightarrow> TopicView" where
  "publish m = publish_loop m (Keys m) newTopicView"

definition View_Entry :: "TopicView \<Rightarrow> Key \<Rightarrow> TopicEntry option" where
  "View_Entry v key = gm_get (tv_entries v) key"

definition View_KeyForThread :: "TopicView \<Rightarrow> int \<Rightarrow> Key option" where
  "View_KeyForThread v t = gm_get (tv_byThread v) t"

section \<open>What a reader sees\<close>

lemma publish_loop_spec:
  "gm_get (tv_entries (publish_loop m keys v)) k =
     (if k \<in> set keys \<and> TopicFor m k \<noteq> None then TopicFor m k else gm_get (tv_entries v) k)"
  by (induction m keys v rule: publish_loop.induct) (auto simp: Let_def update_conv' split: option.splits)

lemma publish_loop_thread:
  "gm_get (tv_byThread (publish_loop m keys v)) t =
     (if gm_get (tv_byThread v) t = None \<and> (\<exists>k\<in>set keys. map_option te_ThreadID (TopicFor m k) = Some t)
      then KeyForThread m t else gm_get (tv_byThread v) t)"
  by (induction m keys v rule: publish_loop.induct) (auto simp: Let_def update_conv' split: option.splits)

lemma best_for_thread_member:
  "best_for_thread m t best keys = best
   \<or> map_option te_ThreadID (gm_get (mp_Topics m) (best_for_thread m t best keys)) = Some t"
  by (induction m t best keys rule: best_for_thread.induct) (auto split: if_splits)

lemma KeyForThread_Some:
  assumes "KeyForThread m t = Some k"
  shows "key_ok k \<and> map_option te_ThreadID (TopicFor m k) = Some t"
proof -
  let ?b = "best_for_thread m t [] (sortedKeys m)"
  have b: "?b \<noteq> []" "ParseKey ?b = Some k" using assms by (auto simp: KeyForThread_def Let_def split: if_splits)
  then have "map_option te_ThreadID (gm_get (mp_Topics m) ?b) = Some t"
    using best_for_thread_member [of m t "[]" "sortedKeys m"] by simp
  with ParseKey_SomeD [OF b(2)] show ?thesis by (simp add: TopicFor_def)
qed

text \<open>
  a published view answers like the mapping it was taken from: for every agent the very entry, and for
  every thread the very key that the mapping's own lookups give.
\<close>

theorem publish_correct:
  "View_Entry (publish m) key = (if key_ok key then TopicFor m key else None)
   \<and> View_KeyForThread (publish m) t = KeyForThread m t"
proof -
  have "View_KeyForThread (publish m) t = KeyForThread m t"
  proof (cases "KeyForThread m t")
    case (Some k)
    then have "k \<in> set (Keys m) \<and> map_option te_ThreadID (TopicFor m k) = Some t"
      using KeyForThread_Some [OF Some] by (auto simp: set_Keys)
    with Some show ?thesis
      by (auto simp: View_KeyForThread_def publish_def publish_loop_thread newTopicView_def)
  qed (simp add: View_KeyForThread_def publish_def publish_loop_thread newTopicView_def)
  then show ?thesis
    by (simp add: View_Entry_def publish_def publish_loop_spec set_Keys newTopicView_def)
qed

end
