(* ===== verification/Options.thy ===== *)
theory Options
  imports Agents Errors "HOL-Library.Sublist"
begin

text \<open>
  The registry of the operator's options and the bag of their values
  (\<^verbatim>\<open>internal/domain/options.go\<close>): lookup, validation, sanitising, the typed accessors and the
  status icons. A row of the registry carries its key, grp, kind, default, choice list and
  validator; its title and description, which only the panel shows, are left out. \<^verbatim>\<open>int\<close> and
  \<^verbatim>\<open>time.Duration\<close> are 64 bits wide, so the products of the accessors wrap.
\<close>

section \<open>The registry\<close>

datatype OptionKind = KindBool | KindChoice | KindText

record OptionSpec =
  os_Key :: string
  os_Group :: string
  os_Kind :: OptionKind
  os_Default :: string
  os_Choices :: string
  os_Validate :: "(string \<Rightarrow> error option) option"

abbreviation (input) OptionSyncEnabled :: string where "OptionSyncEnabled \<equiv> ''sync.enabled''"
abbreviation (input) OptionSyncDashboard :: string where "OptionSyncDashboard \<equiv> ''sync.dashboard''"
abbreviation (input) OptionRedact :: string where "OptionRedact \<equiv> ''privacy.redact''"
abbreviation (input) OptionDeleteAfterDays :: string where "OptionDeleteAfterDays \<equiv> ''topics.delete_after_days''"
abbreviation (input) OptionNoticeDelay :: string where "OptionNoticeDelay \<equiv> ''topics.notice_delay''"
abbreviation (input) ChoiceSourceNotice :: string where "ChoiceSourceNotice \<equiv> ''notice''"
abbreviation (input) OptionQuietEnabled :: string where "OptionQuietEnabled \<equiv> ''quiet.enabled''"
abbreviation (input) OptionQuietIdleMinutes :: string where "OptionQuietIdleMinutes \<equiv> ''quiet.idle_minutes''"
abbreviation (input) OptionQuietTopics :: string where "OptionQuietTopics \<equiv> ''quiet.topics''"
abbreviation (input) OptionQuietPosts :: string where "OptionQuietPosts \<equiv> ''quiet.posts''"
abbreviation (input) OptionQuietReannounce :: string where "OptionQuietReannounce \<equiv> ''quiet.reannounce''"
abbreviation (input) ChoiceSourceIcons :: string where "ChoiceSourceIcons \<equiv> ''icons''"
abbreviation (input) ChoiceSourceDays :: string where "ChoiceSourceDays \<equiv> ''days''"
abbreviation (input) ChoiceSourceMinutes :: string where "ChoiceSourceMinutes \<equiv> ''minutes''"
abbreviation (input) ChoiceSourcePosts :: string where "ChoiceSourcePosts \<equiv> ''posts''"
abbreviation (input) OptionPostsDone :: string where "OptionPostsDone \<equiv> ''posts.done''"
abbreviation (input) OptionPostsMeta :: string where "OptionPostsMeta \<equiv> ''posts.meta''"
abbreviation (input) OptionPostsFold :: string where "OptionPostsFold \<equiv> ''posts.fold''"
abbreviation (input) ChoiceSourceLines :: string where "ChoiceSourceLines \<equiv> ''lines''"
abbreviation (input) OptionPostsChrome :: string where "OptionPostsChrome \<equiv> ''posts.chrome''"
abbreviation (input) ChoiceSourceDone :: string where "ChoiceSourceDone \<equiv> ''done''"
abbreviation (input) OptionPostsReactions :: string where "OptionPostsReactions \<equiv> ''posts.reactions''"
abbreviation (input) OptionPostsPager :: string where "OptionPostsPager \<equiv> ''posts.pager''"
abbreviation (input) OptionPostsBlockedDelay :: string where "OptionPostsBlockedDelay \<equiv> ''posts.blocked_delay''"
abbreviation (input) OptionPostsMinSeconds :: string where "OptionPostsMinSeconds \<equiv> ''posts.min_seconds''"
abbreviation (input) ChoiceSourceSeconds :: string where "ChoiceSourceSeconds \<equiv> ''seconds''"
abbreviation (input) OptionInboxEnabled :: string where "OptionInboxEnabled \<equiv> ''inbox.enabled''"
abbreviation (input) OptionInboxMaxMB :: string where "OptionInboxMaxMB \<equiv> ''inbox.max_mb''"
abbreviation (input) OptionInboxDeleteAfterDays :: string where "OptionInboxDeleteAfterDays \<equiv> ''inbox.delete_after_days''"
abbreviation (input) ChoiceSourceMegabytes :: string where "ChoiceSourceMegabytes \<equiv> ''megabytes''"
abbreviation (input) GroupSync :: string where "GroupSync \<equiv> ''sync''"
abbreviation (input) GroupQuiet :: string where "GroupQuiet \<equiv> ''quiet''"
abbreviation (input) GroupPosts :: string where "GroupPosts \<equiv> ''posts''"
abbreviation (input) GroupInbox :: string where "GroupInbox \<equiv> ''inbox''"
abbreviation (input) GroupAppearance :: string where "GroupAppearance \<equiv> ''appearance''"
abbreviation (input) GroupPrivacy :: string where "GroupPrivacy \<equiv> ''privacy''"
abbreviation (input) GroupTopics :: string where "GroupTopics \<equiv> ''topics''"

definition iconKeyPrefix :: string where "iconKeyPrefix = ''icons.''"

type_synonym DoneMode = string
abbreviation (input) DoneScreen :: DoneMode where "DoneScreen \<equiv> ''screen''"
abbreviation (input) DoneReply :: DoneMode where "DoneReply \<equiv> ''reply''"
abbreviation (input) DoneFormatted :: DoneMode where "DoneFormatted \<equiv> ''formatted''"

type_synonym PostsMode = string
abbreviation (input) PostsSilent :: PostsMode where "PostsSilent \<equiv> ''silent''"
abbreviation (input) PostsHeld :: PostsMode where "PostsHeld \<equiv> ''held''"
abbreviation (input) PostsNormal :: PostsMode where "PostsNormal \<equiv> ''normal''"

text \<open>The names of the groups, in display order.\<close>

definition OptionGroupSpecs :: "string list" where
  "OptionGroupSpecs = [GroupSync, GroupQuiet, GroupPosts, GroupInbox, GroupAppearance, GroupPrivacy, GroupTopics]"

definition iconStatuses :: "Status list" where
  "iconStatuses = [StatusWorking, StatusIdle, StatusBlocked, StatusDone, StatusUnknown, StatusExited]"

definition maxDeleteAfterDays :: int where "maxDeleteAfterDays = 3650"
definition maxIdleMinutes :: int where "maxIdleMinutes = 1440"
definition defaultQuietIdle :: duration where "defaultQuietIdle = 3 * Minute"
definition maxSeconds :: int where "maxSeconds = 3600"
definition maxLines :: int where "maxLines = 1000"
definition defaultFoldAfter :: int where "defaultFoldAfter = 20"
definition maxInboxMB :: int where "maxInboxMB = 20"

text \<open>The five validators check a decimal number against a range.\<close>

definition count_between :: "int \<Rightarrow> int \<Rightarrow> string \<Rightarrow> error option" where
  "count_between lo hi value =
     (case Atoi (TrimSpace value) of
        None \<Rightarrow> Some ErrInvalidOption
      | Some n \<Rightarrow> if n < lo \<or> n > hi then Some ErrInvalidOption else None)"

definition validateDays :: "string \<Rightarrow> error option" where
  "validateDays = count_between 0 maxDeleteAfterDays"

definition validateMinutes :: "string \<Rightarrow> error option" where
  "validateMinutes = count_between 1 maxIdleMinutes"

definition validateMegabytes :: "string \<Rightarrow> error option" where
  "validateMegabytes = count_between 1 maxInboxMB"

definition validateSeconds :: "string \<Rightarrow> error option" where
  "validateSeconds = count_between 0 maxSeconds"

definition validateLines :: "string \<Rightarrow> error option" where
  "validateLines = count_between 0 maxLines"

definition IconKey :: "Status \<Rightarrow> string" where
  "IconKey st = iconKeyPrefix @ st"

definition bool_spec :: "string \<Rightarrow> string \<Rightarrow> string \<Rightarrow> OptionSpec" where
  "bool_spec key grp dflt = \<lparr>os_Key = key, os_Group = grp, os_Kind = KindBool, os_Default = dflt,
     os_Choices = [], os_Validate = None\<rparr>"

definition choice_spec :: "string \<Rightarrow> string \<Rightarrow> string \<Rightarrow> string \<Rightarrow> (string \<Rightarrow> error option) option \<Rightarrow> OptionSpec" where
  "choice_spec key grp dflt choices valid = \<lparr>os_Key = key, os_Group = grp, os_Kind = KindChoice,
     os_Default = dflt, os_Choices = choices, os_Validate = valid\<rparr>"

definition OptionSpecs :: "OptionSpec list" where
  "OptionSpecs =
     [bool_spec OptionSyncEnabled GroupSync ''true'',
      bool_spec OptionSyncDashboard GroupSync ''true'',
      bool_spec OptionQuietEnabled GroupQuiet ''false'',
      choice_spec OptionQuietIdleMinutes GroupQuiet ''3'' ChoiceSourceMinutes (Some validateMinutes),
      bool_spec OptionQuietTopics GroupQuiet ''true'',
      choice_spec OptionQuietPosts GroupQuiet PostsSilent ChoiceSourcePosts None,
      bool_spec OptionQuietReannounce GroupQuiet ''true'',
      choice_spec OptionPostsDone GroupPosts DoneScreen ChoiceSourceDone None,
      bool_spec OptionPostsMeta GroupPosts ''true'',
      choice_spec OptionPostsFold GroupPosts ''20'' ChoiceSourceLines (Some validateLines),
      bool_spec OptionPostsChrome GroupPosts ''true'',
      bool_spec OptionPostsReactions GroupPosts ''false'',
      bool_spec OptionPostsPager GroupPosts ''true'',
      choice_spec OptionPostsBlockedDelay GroupPosts ''0'' ChoiceSourceSeconds (Some validateSeconds),
      choice_spec OptionPostsMinSeconds GroupPosts ''0'' ChoiceSourceSeconds (Some validateSeconds),
      bool_spec OptionInboxEnabled GroupInbox ''true'',
      choice_spec OptionInboxMaxMB GroupInbox ''20'' ChoiceSourceMegabytes (Some validateMegabytes),
      choice_spec OptionInboxDeleteAfterDays GroupInbox ''7'' ChoiceSourceDays (Some validateDays)]
     @ map (\<lambda>st. choice_spec (IconKey st) GroupAppearance (Emoji st) ChoiceSourceIcons None) iconStatuses
     @ [bool_spec OptionRedact GroupPrivacy ''true'',
        choice_spec OptionDeleteAfterDays GroupTopics ''30'' ChoiceSourceDays (Some validateDays),
        choice_spec OptionNoticeDelay GroupTopics ''20'' ChoiceSourceNotice (Some validateSeconds)]"

section \<open>Choice lists and their words\<close>

definition StaticChoices :: "string \<Rightarrow> string list option" where
  "StaticChoices name =
     (if name = ChoiceSourceMegabytes then Some [''5'', ''10'', ''20'']
      else if name = ChoiceSourceDays then Some [''0'', ''7'', ''14'', ''30'', ''60'', ''90'']
      else if name = ChoiceSourceMinutes then Some [''1'', ''2'', ''3'', ''5'', ''10'', ''15'']
      else if name = ChoiceSourcePosts then Some [PostsSilent, PostsHeld, PostsNormal]
      else if name = ChoiceSourceDone then Some [DoneScreen, DoneReply, DoneFormatted]
      else if name = ChoiceSourceSeconds then Some [''0'', ''5'', ''10'', ''30'', ''60'', ''120'']
      else if name = ChoiceSourceNotice then Some [''0'', ''10'', ''20'', ''30'', ''60'', ''120'']
      else if name = ChoiceSourceLines then Some [''0'', ''10'', ''20'', ''40'']
      else None)"

definition postsWord :: "string \<Rightarrow> string" where
  "postsWord value =
     (let w = TrimSpace value
      in if w = PostsSilent then ''Silent'' else if w = PostsHeld then ''Held''
         else if w = PostsNormal then ''Normal'' else value)"

definition doneWord :: "string \<Rightarrow> string" where
  "doneWord value =
     (let w = TrimSpace value
      in if w = DoneScreen then ''Screen'' else if w = DoneReply then ''Reply''
         else if w = DoneFormatted then ''Formatted'' else value)"

definition ChoiceLabel :: "OptionSpec \<Rightarrow> string \<Rightarrow> string" where
  "ChoiceLabel spec value =
     (let c = os_Choices spec; num = Atoi (TrimSpace value) in
      if c = ChoiceSourceLines then
        (case num of None \<Rightarrow> value | Some n \<Rightarrow> if n = 0 then ''Off'' else Itoa n @ '' lines'')
      else if c = ChoiceSourceNotice then
        (case num of None \<Rightarrow> value | Some n \<Rightarrow> if n = 0 then ''Keep'' else Itoa n @ '' s'')
      else if c = ChoiceSourceMegabytes then
        (case num of None \<Rightarrow> value | Some n \<Rightarrow> Itoa n @ '' MB'')
      else if c = ChoiceSourceDays then
        (case num of None \<Rightarrow> value | Some n \<Rightarrow> if n = 0 then ''Off'' else if n = 1 then ''1 day'' else Itoa n @ '' days'')
      else if c = ChoiceSourceMinutes then
        (case num of None \<Rightarrow> value | Some n \<Rightarrow> Itoa n @ '' min'')
      else if c = ChoiceSourceSeconds then
        (case num of None \<Rightarrow> value | Some n \<Rightarrow> if n = 0 then ''Off'' else Itoa n @ '' s'')
      else if c = ChoiceSourcePosts then postsWord value
      else if c = ChoiceSourceDone then doneWord value
      else value)"

definition ChoiceButton :: "OptionSpec \<Rightarrow> string \<Rightarrow> string" where
  "ChoiceButton spec value =
     (let c = os_Choices spec; num = Atoi (TrimSpace value) in
      if c = ChoiceSourceLines then
        (case num of None \<Rightarrow> value | Some n \<Rightarrow> if n = 0 then ''Off'' else Itoa n)
      else if c = ChoiceSourceNotice then
        (case num of None \<Rightarrow> value | Some n \<Rightarrow> if n = 0 then ''Keep'' else Itoa n @ ''s'')
      else if c = ChoiceSourceMegabytes then
        (case num of None \<Rightarrow> value | Some n \<Rightarrow> Itoa n @ ''MB'')
      else if c = ChoiceSourceDays then
        (case num of None \<Rightarrow> value | Some n \<Rightarrow> if n = 0 then ''Off'' else Itoa n @ ''d'')
      else if c = ChoiceSourceMinutes then
        (case num of None \<Rightarrow> value | Some n \<Rightarrow> Itoa n @ ''m'')
      else if c = ChoiceSourceSeconds then
        (case num of None \<Rightarrow> value | Some n \<Rightarrow> if n = 0 then ''Off'' else Itoa n @ ''s'')
      else if c = ChoiceSourcePosts then postsWord value
      else if c = ChoiceSourceDone then doneWord value
      else value)"

definition OptionsInGroup :: "string \<Rightarrow> OptionSpec list" where
  "OptionsInGroup grp = filter (\<lambda>s. os_Group s = grp) OptionSpecs"

definition LookupOption :: "string \<Rightarrow> OptionSpec option" where
  "LookupOption key = find (\<lambda>s. os_Key s = key) OptionSpecs"

definition LookupOptionGroup :: "string \<Rightarrow> string option" where
  "LookupOptionGroup name = find (\<lambda>g. g = name) OptionGroupSpecs"

definition StatusOfIconKey :: "string \<Rightarrow> Status option" where
  "StatusOfIconKey key =
     (if \<not> HasPrefix key iconKeyPrefix then None
      else let st = TrimPrefix key iconKeyPrefix in find (\<lambda>known. st = known) iconStatuses)"

section \<open>The value bag\<close>

record Options =
  op_values :: "(string, string) go_map"

definition DefaultOptions :: Options where
  "DefaultOptions = \<lparr>op_values = []\<rparr>"

definition Options_String :: "Options \<Rightarrow> string \<Rightarrow> string" where
  "Options_String o' key =
     (case gm_get (op_values o') key of
        Some v \<Rightarrow> v
      | None \<Rightarrow> (case LookupOption key of None \<Rightarrow> [] | Some spec \<Rightarrow> os_Default spec))"

definition Options_Bool :: "Options \<Rightarrow> string \<Rightarrow> bool" where
  "Options_Bool o' key \<longleftrightarrow> Options_String o' key = ''true''"

definition With :: "Options \<Rightarrow> string \<Rightarrow> string \<Rightarrow> Options result" where
  "With o' key value =
     (case LookupOption key of
        None \<Rightarrow> Inl ErrUnknownOption
      | Some spec \<Rightarrow>
          if os_Kind spec = KindBool \<and> value \<noteq> ''true'' \<and> value \<noteq> ''false'' then Inl ErrInvalidOption
          else Inr \<lparr>op_values = gm_put key value (op_values o')\<rparr>)"

definition Values :: "Options \<Rightarrow> (string, string) go_map" where
  "Values o' = map (\<lambda>s. (os_Key s, Options_String o' (os_Key s))) OptionSpecs"

definition IsDefault :: "Options \<Rightarrow> string \<Rightarrow> bool" where
  "IsDefault o' key \<longleftrightarrow>
     (case LookupOption key of None \<Rightarrow> False | Some spec \<Rightarrow> Options_String o' key = os_Default spec)"

section \<open>Typed accessors\<close>

definition SyncEnabled :: "Options \<Rightarrow> bool" where "SyncEnabled o' = Options_Bool o' OptionSyncEnabled"
definition DashboardEnabled :: "Options \<Rightarrow> bool" where "DashboardEnabled o' = Options_Bool o' OptionSyncDashboard"
definition PagerEnabled :: "Options \<Rightarrow> bool" where "PagerEnabled o' = Options_Bool o' OptionPostsPager"
definition RedactEnabled :: "Options \<Rightarrow> bool" where "RedactEnabled o' = Options_Bool o' OptionRedact"
definition InboxEnabled :: "Options \<Rightarrow> bool" where "InboxEnabled o' = Options_Bool o' OptionInboxEnabled"
definition QuietEnabled :: "Options \<Rightarrow> bool" where "QuietEnabled o' = Options_Bool o' OptionQuietEnabled"
definition QuietTopics :: "Options \<Rightarrow> bool" where "QuietTopics o' = Options_Bool o' OptionQuietTopics"
definition QuietReannounce :: "Options \<Rightarrow> bool" where "QuietReannounce o' = Options_Bool o' OptionQuietReannounce"
definition PostsReactions :: "Options \<Rightarrow> bool" where "PostsReactions o' = Options_Bool o' OptionPostsReactions"
definition PostsChrome :: "Options \<Rightarrow> bool" where "PostsChrome o' = Options_Bool o' OptionPostsChrome"
definition PostsMeta :: "Options \<Rightarrow> bool" where "PostsMeta o' = Options_Bool o' OptionPostsMeta"

text \<open>\<^verbatim>\<open>strconv.Atoi(strings.TrimSpace(o.String(key)))\<close>\<close>

definition option_int :: "Options \<Rightarrow> string \<Rightarrow> int option" where
  "option_int o' key = Atoi (TrimSpace (Options_String o' key))"

definition days :: "int \<Rightarrow> duration" where
  "days n = wrap64 (wrap64 (n * 24) * Hour)"

definition DeleteAfter :: "Options \<Rightarrow> duration" where
  "DeleteAfter o' =
     (case option_int o' OptionDeleteAfterDays of None \<Rightarrow> 0 | Some n \<Rightarrow> if n \<le> 0 then 0 else days n)"

definition InboxMaxBytes :: "Options \<Rightarrow> int" where
  "InboxMaxBytes o' =
     (let n = (case option_int o' OptionInboxMaxMB of
                 None \<Rightarrow> maxInboxMB
               | Some n \<Rightarrow> if n < 1 \<or> n > maxInboxMB then maxInboxMB else n)
      in wrap64 (wrap64 (n * 1024) * 1024))"

definition InboxDeleteAfter :: "Options \<Rightarrow> duration" where
  "InboxDeleteAfter o' =
     (case option_int o' OptionInboxDeleteAfterDays of None \<Rightarrow> 0 | Some n \<Rightarrow> if n \<le> 0 then 0 else days n)"

definition QuietIdle :: "Options \<Rightarrow> duration" where
  "QuietIdle o' =
     (case option_int o' OptionQuietIdleMinutes of
        None \<Rightarrow> defaultQuietIdle
      | Some n \<Rightarrow> if n < 1 then defaultQuietIdle else wrap64 (n * Minute))"

definition QuietPosts :: "Options \<Rightarrow> PostsMode" where
  "QuietPosts o' =
     (let m = TrimSpace (Options_String o' OptionQuietPosts)
      in if m = PostsSilent \<or> m = PostsHeld \<or> m = PostsNormal then m else PostsSilent)"

definition PostsDone :: "Options \<Rightarrow> DoneMode" where
  "PostsDone o' =
     (let m = TrimSpace (Options_String o' OptionPostsDone)
      in if m = DoneScreen \<or> m = DoneReply \<or> m = DoneFormatted then m else DoneScreen)"

definition seconds :: "Options \<Rightarrow> string \<Rightarrow> duration" where
  "seconds o' key =
     (case option_int o' key of None \<Rightarrow> 0 | Some n \<Rightarrow> if n \<le> 0 then 0 else wrap64 (n * Second))"

definition BlockedDelay :: "Options \<Rightarrow> duration" where
  "BlockedDelay o' = seconds o' OptionPostsBlockedDelay"

definition MinTurn :: "Options \<Rightarrow> duration" where
  "MinTurn o' = seconds o' OptionPostsMinSeconds"

definition FoldAfter :: "Options \<Rightarrow> int" where
  "FoldAfter o' =
     (case option_int o' OptionPostsFold of
        None \<Rightarrow> defaultFoldAfter
      | Some n \<Rightarrow> if n < 0 \<or> n > maxLines then defaultFoldAfter else n)"

text \<open>
  The fallback of \<open>NoticeDelay\<close> reads the default of the registry and ignores the error of
  \<^verbatim>\<open>Atoi\<close>, whose value is then 0.
\<close>

definition notice_fallback :: int where
  "notice_fallback =
     (case LookupOption OptionNoticeDelay of
        None \<Rightarrow> 0 | Some spec \<Rightarrow> (case Atoi (os_Default spec) of None \<Rightarrow> 0 | Some n \<Rightarrow> n))"

definition NoticeDelay :: "Options \<Rightarrow> duration \<times> bool" where
  "NoticeDelay o' =
     (let n = (case option_int o' OptionNoticeDelay of
                 None \<Rightarrow> notice_fallback
               | Some n \<Rightarrow> if n < 0 then notice_fallback else n)
      in if n = 0 then (0, False) else (wrap64 (n * Second), True))"

section \<open>Status icons\<close>

record StatusIcons =
  si_Working :: string
  si_Idle :: string
  si_Blocked :: string
  si_Done :: string
  si_Unknown :: string
  si_Exited :: string

definition StatusIcons_of :: "Options \<Rightarrow> StatusIcons" where
  "StatusIcons_of o' =
     \<lparr>si_Working = Options_String o' (IconKey StatusWorking),
      si_Idle = Options_String o' (IconKey StatusIdle),
      si_Blocked = Options_String o' (IconKey StatusBlocked),
      si_Done = Options_String o' (IconKey StatusDone),
      si_Unknown = Options_String o' (IconKey StatusUnknown),
      si_Exited = Options_String o' (IconKey StatusExited)\<rparr>"

definition DefaultStatusIcons :: StatusIcons where
  "DefaultStatusIcons = StatusIcons_of DefaultOptions"

definition For :: "StatusIcons \<Rightarrow> Status \<Rightarrow> string" where
  "For s st =
     (if st = StatusWorking then si_Working s
      else if st = StatusIdle then si_Idle s
      else if st = StatusBlocked then si_Blocked s
      else if st = StatusDone then si_Done s
      else if st = StatusExited then si_Exited s
      else si_Unknown s)"

text \<open>The variation selector U+FE0F.\<close>

definition emojiKey :: "string \<Rightarrow> string" where
  "emojiKey e = ReplaceAll e [CHR 0xEF, CHR 0xB8, CHR 0x8F] []"

fun duplicate_loop :: "StatusIcons \<Rightarrow> Status list \<Rightarrow> (string, Status) go_map \<Rightarrow> (Status \<times> Status) option" where
  "duplicate_loop s [] seen = None"
| "duplicate_loop s (st # sts) seen =
     (let key = emojiKey (For s st)
      in if key = [] then duplicate_loop s sts seen
         else case gm_get seen key of
                Some prev \<Rightarrow> Some (prev, st)
              | None \<Rightarrow> duplicate_loop s sts (gm_put key st seen))"

definition Duplicate :: "StatusIcons \<Rightarrow> (Status \<times> Status) option" where
  "Duplicate s = duplicate_loop s iconStatuses []"

definition UsedBy :: "StatusIcons \<Rightarrow> string \<Rightarrow> Status option" where
  "UsedBy s emoji =
     (let want = emojiKey emoji
      in if want = [] then None else find (\<lambda>st. emojiKey (For s st) = want) iconStatuses)"

section \<open>Validation\<close>

text \<open>A choice source is a function, or \<^verbatim>\<open>nil\<close>.\<close>

type_synonym ChoiceSource = "(string \<Rightarrow> string list) option"

definition containsEmoji :: "string list \<Rightarrow> string \<Rightarrow> bool" where
  "containsEmoji xs v \<longleftrightarrow> (let want = emojiKey v in list_ex (\<lambda>e. emojiKey e = want) xs)"

text \<open>The body of the loop of \<open>ValidateOptions\<close>.\<close>

definition validate_value :: "OptionSpec \<Rightarrow> string \<Rightarrow> ChoiceSource \<Rightarrow> error option" where
  "validate_value spec v choices =
     (case os_Kind spec of
        KindBool \<Rightarrow> if v \<noteq> ''true'' \<and> v \<noteq> ''false'' then Some ErrInvalidOption else None
      | KindChoice \<Rightarrow>
          if v = [] then Some ErrInvalidOption
          else (case os_Validate spec of
                  Some f \<Rightarrow> f v
                | None \<Rightarrow>
                    let xs = (case StaticChoices (os_Choices spec) of
                                Some l \<Rightarrow> l
                              | None \<Rightarrow> (case choices of Some f \<Rightarrow> f (os_Choices spec) | None \<Rightarrow> []))
                    in if xs \<noteq> [] \<and> \<not> containsEmoji xs v then Some ErrInvalidOption else None)
      | KindText \<Rightarrow> if TrimSpace v = [] then Some ErrInvalidOption else None)"

fun validate_specs :: "OptionSpec list \<Rightarrow> Options \<Rightarrow> ChoiceSource \<Rightarrow> error option" where
  "validate_specs [] o' choices = None"
| "validate_specs (spec # specs) o' choices =
     (case validate_value spec (Options_String o' (os_Key spec)) choices of
        Some e \<Rightarrow> Some e
      | None \<Rightarrow> validate_specs specs o' choices)"

definition ValidateOptions :: "Options \<Rightarrow> ChoiceSource \<Rightarrow> error option" where
  "ValidateOptions o' choices =
     (case validate_specs OptionSpecs o' choices of
        Some e \<Rightarrow> Some e
      | None \<Rightarrow> (case Duplicate (StatusIcons_of o') of Some _ \<Rightarrow> Some ErrDuplicateIcon | None \<Rightarrow> None))"

fun sanitize_loop :: "OptionSpec list \<Rightarrow> Options \<Rightarrow> ChoiceSource \<Rightarrow> Options \<Rightarrow> string list \<Rightarrow> Options \<times> string list" where
  "sanitize_loop [] o' choices clean dropped = (clean, dropped)"
| "sanitize_loop (spec # specs) o' choices clean dropped =
     (let value = Options_String o' (os_Key spec)
      in if value = os_Default spec then sanitize_loop specs o' choices clean dropped
         else case With clean (os_Key spec) value of
                Inl _ \<Rightarrow> sanitize_loop specs o' choices clean (dropped @ [os_Key spec])
              | Inr next' \<Rightarrow>
                  (case ValidateOptions next' choices of
                     Some _ \<Rightarrow> sanitize_loop specs o' choices clean (dropped @ [os_Key spec])
                   | None \<Rightarrow> sanitize_loop specs o' choices next' dropped))"

definition SanitizeOptions :: "Options \<Rightarrow> ChoiceSource \<Rightarrow> Options \<times> string list" where
  "SanitizeOptions o' choices = sanitize_loop OptionSpecs o' choices DefaultOptions []"

section \<open>The registry is consistent\<close>

text \<open>
  the registry. Keys are unique, every row belongs to a listed group and every default passes its
  own check, so a fresh installation is valid whatever the icon list (when none is known); icon
  keys and statuses correspond.
\<close>

theorem OptionSpecs_consistent:
  "distinct (map os_Key OptionSpecs)
   \<and> list_all (\<lambda>s. LookupOptionGroup (os_Group s) = Some (os_Group s)) OptionSpecs
   \<and> ValidateOptions DefaultOptions None = None
   \<and> list_all (\<lambda>st. StatusOfIconKey (IconKey st) = Some st) iconStatuses"
  by (intro conjI; code_simp)

lemma keys_distinct: "distinct (map os_Key OptionSpecs)"
  by code_simp

lemma find_key:
  "distinct (map os_Key specs) \<Longrightarrow> find (\<lambda>s. os_Key s = key) specs = Some spec \<longleftrightarrow> spec \<in> set specs \<and> os_Key spec = key"
  by (induction specs) (auto simp: rev_image_eqI)

lemma LookupOption_Some: "LookupOption key = Some spec \<longleftrightarrow> spec \<in> set OptionSpecs \<and> os_Key spec = key"
  unfolding LookupOption_def by (rule find_key [OF keys_distinct])

lemma LookupOption_key [simp]: "spec \<in> set OptionSpecs \<Longrightarrow> LookupOption (os_Key spec) = Some spec"
  by (simp add: LookupOption_Some)

section \<open>Setting and reading values\<close>

text \<open>
  setting one option. \<open>With\<close> changes the value of its key and of no other, refuses a key outside
  the registry and, for a checkbox, anything but true and false.
\<close>

theorem With_String:
  "case With o' key value of
     Inr o2 \<Rightarrow> LookupOption key \<noteq> None
       \<and> Options_String o2 = (Options_String o') (key := value)
   | Inl e \<Rightarrow> (LookupOption key = None \<and> e = ErrUnknownOption)
       \<or> (map_option os_Kind (LookupOption key) = Some KindBool \<and> value \<notin> {''true'', ''false''} \<and> e = ErrInvalidOption)"
  by (auto simp: With_def Options_String_def fun_eq_iff update_conv' split: option.split sum.split)

lemma With_Inr:
  "With o' key value = Inr o2 \<Longrightarrow> op_values o2 = gm_put key value (op_values o')"
  by (auto simp: With_def split: option.splits if_splits)

lemma String_With: "With o' key value = Inr o2 \<Longrightarrow> Options_String o2 k = (if k = key then value else Options_String o' k)"
  by (auto dest: With_Inr simp: Options_String_def update_conv')

section \<open>What validation guarantees\<close>

lemma validate_specs_None:
  "validate_specs specs o' choices = None
   \<longleftrightarrow> (\<forall>spec\<in>set specs. validate_value spec (Options_String o' (os_Key spec)) choices = None)"
  by (induction specs) (auto split: option.split)

lemma ValidateOptions_None:
  "ValidateOptions o' choices = None \<longleftrightarrow>
   (\<forall>spec\<in>set OptionSpecs. validate_value spec (Options_String o' (os_Key spec)) choices = None)
   \<and> Duplicate (StatusIcons_of o') = None"
  by (auto simp: ValidateOptions_def validate_specs_None [symmetric] split: option.split)

lemma count_between_None: "count_between lo hi v = None \<longleftrightarrow> (\<exists>n. Atoi (TrimSpace v) = Some n \<and> lo \<le> n \<and> n \<le> hi)"
  by (auto simp: count_between_def split: option.split)

lemma validated_count:
  assumes "ValidateOptions o' choices = None"
    and "choice_spec key grp dflt cs (Some (count_between lo hi)) \<in> set OptionSpecs"
  obtains n where "option_int o' key = Some n" "lo \<le> n" "n \<le> hi"
proof -
  have "validate_value (choice_spec key grp dflt cs (Some (count_between lo hi))) (Options_String o' key) choices = None"
    using assms(1) bspec [OF conjunct1 [OF assms(1) [unfolded ValidateOptions_None]] assms(2)] by (simp add: choice_spec_def)
  then show thesis
    by (auto simp: validate_value_def choice_spec_def count_between_None option_int_def split: if_splits intro: that)
qed

lemmas validators = validateDays_def validateMinutes_def validateMegabytes_def validateSeconds_def validateLines_def

lemma wrap_small: "\<bar>x\<bar> \<le> 1000000000000000000 \<Longrightarrow> wrap64 x = x"
  by (rule wrap64_id) (simp add: in_int64_def minInt64_def maxInt64_def abs_le_iff)

lemma days_exact: "0 \<le> n \<Longrightarrow> n \<le> 3650 \<Longrightarrow> days n = n * 24 * Hour"
  by (simp add: days_def wrap_small Hour_def)

text \<open>
  valid options give exact values. Once \<open>ValidateOptions\<close> accepts, every numeric accessor returns
  the number stored under its key in its unit, inside the documented range and without overflow.
\<close>

theorem validated_accessors:
  assumes "ValidateOptions o' choices = None"
  shows "(\<exists>n. option_int o' OptionDeleteAfterDays = Some n \<and> 0 \<le> n \<and> n \<le> 3650 \<and> DeleteAfter o' = n * 24 * Hour)
   \<and> (\<exists>n. option_int o' OptionInboxDeleteAfterDays = Some n \<and> 0 \<le> n \<and> n \<le> 3650 \<and> InboxDeleteAfter o' = n * 24 * Hour)
   \<and> (\<exists>n. option_int o' OptionQuietIdleMinutes = Some n \<and> 1 \<le> n \<and> n \<le> 1440 \<and> QuietIdle o' = n * Minute)
   \<and> (\<exists>n. option_int o' OptionPostsBlockedDelay = Some n \<and> 0 \<le> n \<and> n \<le> 3600 \<and> BlockedDelay o' = n * Second)
   \<and> (\<exists>n. option_int o' OptionPostsMinSeconds = Some n \<and> 0 \<le> n \<and> n \<le> 3600 \<and> MinTurn o' = n * Second)
   \<and> (\<exists>n. option_int o' OptionInboxMaxMB = Some n \<and> 1 \<le> n \<and> n \<le> 20 \<and> InboxMaxBytes o' = n * 1048576)
   \<and> (\<exists>n. option_int o' OptionPostsFold = Some n \<and> 0 \<le> n \<and> n \<le> 1000 \<and> FoldAfter o' = n)
   \<and> (\<exists>n. option_int o' OptionNoticeDelay = Some n \<and> 0 \<le> n \<and> n \<le> 3600 \<and> NoticeDelay o' = (n * Second, n \<noteq> 0))"
proof (intro conjI)
  note count = validated_count [OF assms]
  show "\<exists>n. option_int o' OptionDeleteAfterDays = Some n \<and> 0 \<le> n \<and> n \<le> 3650 \<and> DeleteAfter o' = n * 24 * Hour"
    by (rule count [of OptionDeleteAfterDays GroupTopics "''30''" ChoiceSourceDays 0 maxDeleteAfterDays])
      (auto simp: OptionSpecs_def validators DeleteAfter_def maxDeleteAfterDays_def days_exact)
  show "\<exists>n. option_int o' OptionInboxDeleteAfterDays = Some n \<and> 0 \<le> n \<and> n \<le> 3650 \<and> InboxDeleteAfter o' = n * 24 * Hour"
    by (rule count [of OptionInboxDeleteAfterDays GroupInbox "''7''" ChoiceSourceDays 0 maxDeleteAfterDays])
      (auto simp: OptionSpecs_def validators InboxDeleteAfter_def maxDeleteAfterDays_def days_exact)
  show "\<exists>n. option_int o' OptionQuietIdleMinutes = Some n \<and> 1 \<le> n \<and> n \<le> 1440 \<and> QuietIdle o' = n * Minute"
    by (rule count [of OptionQuietIdleMinutes GroupQuiet "''3''" ChoiceSourceMinutes 1 maxIdleMinutes])
      (auto simp: OptionSpecs_def validators QuietIdle_def maxIdleMinutes_def wrap_small Minute_def)
  show "\<exists>n. option_int o' OptionPostsBlockedDelay = Some n \<and> 0 \<le> n \<and> n \<le> 3600 \<and> BlockedDelay o' = n * Second"
    by (rule count [of OptionPostsBlockedDelay GroupPosts "''0''" ChoiceSourceSeconds 0 maxSeconds])
      (auto simp: OptionSpecs_def validators BlockedDelay_def seconds_def maxSeconds_def wrap_small Second_def)
  show "\<exists>n. option_int o' OptionPostsMinSeconds = Some n \<and> 0 \<le> n \<and> n \<le> 3600 \<and> MinTurn o' = n * Second"
    by (rule count [of OptionPostsMinSeconds GroupPosts "''0''" ChoiceSourceSeconds 0 maxSeconds])
      (auto simp: OptionSpecs_def validators MinTurn_def seconds_def maxSeconds_def wrap_small Second_def)
  show "\<exists>n. option_int o' OptionInboxMaxMB = Some n \<and> 1 \<le> n \<and> n \<le> 20 \<and> InboxMaxBytes o' = n * 1048576"
    by (rule count [of OptionInboxMaxMB GroupInbox "''20''" ChoiceSourceMegabytes 1 maxInboxMB])
      (auto simp: OptionSpecs_def validators InboxMaxBytes_def maxInboxMB_def wrap_small)
  show "\<exists>n. option_int o' OptionPostsFold = Some n \<and> 0 \<le> n \<and> n \<le> 1000 \<and> FoldAfter o' = n"
    by (rule count [of OptionPostsFold GroupPosts "''20''" ChoiceSourceLines 0 maxLines])
      (auto simp: OptionSpecs_def validators FoldAfter_def maxLines_def)
  show "\<exists>n. option_int o' OptionNoticeDelay = Some n \<and> 0 \<le> n \<and> n \<le> 3600 \<and> NoticeDelay o' = (n * Second, n \<noteq> 0)"
    by (rule count [of OptionNoticeDelay GroupTopics "''20''" ChoiceSourceNotice 0 maxSeconds])
      (auto simp: OptionSpecs_def validators NoticeDelay_def maxSeconds_def wrap_small Second_def)
qed


theorem validated_accessors_witness:
  "(\<exists>n. option_int DefaultOptions OptionDeleteAfterDays = Some n \<and> 0 \<le> n \<and> n \<le> 3650 \<and> DeleteAfter DefaultOptions = n * 24 * Hour)
   \<and> (\<exists>n. option_int DefaultOptions OptionInboxDeleteAfterDays = Some n \<and> 0 \<le> n \<and> n \<le> 3650 \<and> InboxDeleteAfter DefaultOptions = n * 24 * Hour)
   \<and> (\<exists>n. option_int DefaultOptions OptionQuietIdleMinutes = Some n \<and> 1 \<le> n \<and> n \<le> 1440 \<and> QuietIdle DefaultOptions = n * Minute)
   \<and> (\<exists>n. option_int DefaultOptions OptionPostsBlockedDelay = Some n \<and> 0 \<le> n \<and> n \<le> 3600 \<and> BlockedDelay DefaultOptions = n * Second)
   \<and> (\<exists>n. option_int DefaultOptions OptionPostsMinSeconds = Some n \<and> 0 \<le> n \<and> n \<le> 3600 \<and> MinTurn DefaultOptions = n * Second)
   \<and> (\<exists>n. option_int DefaultOptions OptionInboxMaxMB = Some n \<and> 1 \<le> n \<and> n \<le> 20 \<and> InboxMaxBytes DefaultOptions = n * 1048576)
   \<and> (\<exists>n. option_int DefaultOptions OptionPostsFold = Some n \<and> 0 \<le> n \<and> n \<le> 1000 \<and> FoldAfter DefaultOptions = n)
   \<and> (\<exists>n. option_int DefaultOptions OptionNoticeDelay = Some n \<and> 0 \<le> n \<and> n \<le> 3600 \<and> NoticeDelay DefaultOptions = (n * Second, n \<noteq> 0))"
proof (rule validated_accessors)
  show "ValidateOptions DefaultOptions None = None" by code_simp
qed

section \<open>Statuses can be told apart\<close>

lemma duplicate_loop_None:
  "duplicate_loop s sts seen = None \<longleftrightarrow>
   distinct (filter (\<lambda>k. k \<noteq> []) (map (\<lambda>st. emojiKey (For s st)) sts))
   \<and> (\<forall>st\<in>set sts. emojiKey (For s st) \<noteq> [] \<longrightarrow> gm_get seen (emojiKey (For s st)) = None)"
proof (induction sts arbitrary: seen)
  case (Cons st sts)
  show ?case
  proof (cases "emojiKey (For s st) = []")
    case True
    then show ?thesis using Cons.IH [of seen] by simp
  next
    case False
    then show ?thesis
      using Cons.IH [of "gm_put (emojiKey (For s st)) st seen"]
      by (cases "gm_get seen (emojiKey (For s st))") (auto simp: Let_def update_conv' image_iff)
  qed
qed simp

lemma find_distinct_key:
  "distinct (filter (\<lambda>k. k \<noteq> []) (map f xs)) \<Longrightarrow> x \<in> set xs \<Longrightarrow> f x \<noteq> [] \<Longrightarrow> find (\<lambda>y. f y = f x) xs = Some x"
  by (induction xs) (auto simp: image_iff split: if_splits)

text \<open>
  statuses can be told apart by their icon. In valid options every status icon, with or without the
  variation selector, identifies its status: \<open>UsedBy\<close> finds it back.
\<close>

theorem icons_identify_status:
  "ValidateOptions o' choices = None \<Longrightarrow> st \<in> set iconStatuses \<Longrightarrow> emojiKey (For (StatusIcons_of o') st) \<noteq> []
   \<Longrightarrow> UsedBy (StatusIcons_of o') (For (StatusIcons_of o') st) = Some st"
  unfolding ValidateOptions_None Duplicate_def duplicate_loop_None UsedBy_def Let_def
  using find_distinct_key [of "\<lambda>st. emojiKey (For (StatusIcons_of o') st)" iconStatuses st] by simp

theorem icons_identify_status_witness:
  "UsedBy (StatusIcons_of DefaultOptions) (For (StatusIcons_of DefaultOptions) ''blocked'') = Some ''blocked''"
proof (rule icons_identify_status)
  show "ValidateOptions DefaultOptions None = None" by code_simp
  show "''blocked'' \<in> set iconStatuses" by code_simp
  show "emojiKey (For (StatusIcons_of DefaultOptions) ''blocked'') \<noteq> []" by code_simp
qed

section \<open>Sanitising\<close>

lemma subseq_subset: "subseq xs ys \<Longrightarrow> set xs \<subseteq> set ys"
  by (induction rule: list_emb.induct) auto

lemma sanitize_loop_spec:
  assumes "sanitize_loop specs o' choices clean dropped = (clean', dropped')"
    and "ValidateOptions clean choices = None" "set specs \<subseteq> set OptionSpecs" "distinct (map os_Key specs)"
    and "\<forall>spec\<in>set specs. gm_get (op_values clean) (os_Key spec) = None"
  shows "ValidateOptions clean' choices = None
    \<and> (\<exists>ds. dropped' = dropped @ ds \<and> subseq ds (map os_Key specs)
        \<and> (\<forall>spec\<in>set specs. Options_String clean' (os_Key spec) =
              (if os_Key spec \<in> set ds then os_Default spec else Options_String o' (os_Key spec))
            \<and> (os_Key spec \<in> set ds \<longrightarrow> Options_String o' (os_Key spec) \<noteq> os_Default spec)))
    \<and> (\<forall>k. k \<notin> os_Key ` set specs \<longrightarrow> Options_String clean' k = Options_String clean k)"
  using assms
proof (induction specs arbitrary: clean dropped)
  case Nil
  then show ?case by simp
next
  case (Cons spec specs)
  let ?v = "Options_String o' (os_Key spec)" and ?k = "os_Key spec"
  have spec: "LookupOption ?k = Some spec" and fresh: "?k \<notin> os_Key ` set specs"
    and unset: "Options_String clean ?k = os_Default spec"
    using Cons.prems by (auto simp: Options_String_def)
  have subs: "set specs \<subseteq> set OptionSpecs" "distinct (map os_Key specs)" using Cons.prems by simp_all
  show ?case
  proof (cases "\<exists>next'. With clean ?k ?v = Inr next' \<and> ValidateOptions next' choices = None \<and> ?v \<noteq> os_Default spec")
    case True
    then obtain nx where nx: "With clean ?k ?v = Inr nx" "ValidateOptions nx choices = None" "?v \<noteq> os_Default spec" by blast
    have run: "sanitize_loop specs o' choices nx dropped = (clean', dropped')"
      using Cons.prems(1) nx by (simp add: Let_def)
    have "\<forall>s\<in>set specs. gm_get (op_values nx) (os_Key s) = None"
      using Cons.prems(5) fresh With_Inr [OF nx(1)] by (auto simp: update_conv' image_iff)
    note ih = Cons.IH [OF run nx(2) subs(1) subs(2) this]
    obtain ds where ds: "ValidateOptions clean' choices = None" "dropped' = dropped @ ds" "subseq ds (map os_Key specs)"
      "\<forall>spec\<in>set specs. Options_String clean' (os_Key spec) =
              (if os_Key spec \<in> set ds then os_Default spec else Options_String o' (os_Key spec))
            \<and> (os_Key spec \<in> set ds \<longrightarrow> Options_String o' (os_Key spec) \<noteq> os_Default spec)"
      "\<forall>k. k \<notin> os_Key ` set specs \<longrightarrow> Options_String clean' k = Options_String nx k"
      using ih by (elim conjE exE) (rule that; assumption)
    have notin: "?k \<notin> set ds" using subseq_subset [OF ds(3)] fresh by auto
    have "subseq ds (map os_Key (spec # specs))" using list_emb_Cons [OF ds(3), of "os_Key spec"] by simp
    moreover have "Options_String clean' ?k = ?v" using ds(5) fresh String_With [OF nx(1)] by simp
    moreover have "Options_String clean' k = Options_String clean k" if "k \<notin> os_Key ` set (spec # specs)" for k
      using that ds(5) String_With [OF nx(1)] by auto
    ultimately show ?thesis
      using ds(1,2,4) notin by (intro conjI exI [of _ ds]) auto
  next
    case False
    define ds0 where "ds0 = (if ?v = os_Default spec then [] else [?k])"
    have run: "sanitize_loop specs o' choices clean (dropped @ ds0) = (clean', dropped')"
      using Cons.prems(1) False by (auto simp: Let_def ds0_def split: sum.splits option.splits if_splits)
    have "\<forall>s\<in>set specs. gm_get (op_values clean) (os_Key s) = None" using Cons.prems(5) by simp
    note ih = Cons.IH [OF run Cons.prems(2) subs(1) subs(2) this]
    obtain ds where ds: "ValidateOptions clean' choices = None" "dropped' = dropped @ ds0 @ ds" "subseq ds (map os_Key specs)"
      "\<forall>spec\<in>set specs. Options_String clean' (os_Key spec) =
              (if os_Key spec \<in> set ds then os_Default spec else Options_String o' (os_Key spec))
            \<and> (os_Key spec \<in> set ds \<longrightarrow> Options_String o' (os_Key spec) \<noteq> os_Default spec)"
      "\<forall>k. k \<notin> os_Key ` set specs \<longrightarrow> Options_String clean' k = Options_String clean k"
      using ih by (elim conjE exE) (rule that; (assumption | simp))
    have notin: "?k \<notin> set ds" using subseq_subset [OF ds(3)] fresh by auto
    have "subseq (ds0 @ ds) (map os_Key (spec # specs))"
      using ds(3) list_emb_Cons [OF ds(3), of "os_Key spec"] by (simp add: ds0_def)
    moreover have "Options_String clean' ?k = os_Default spec" using ds(5) fresh unset by simp
    ultimately show ?thesis
      using ds fresh notin by (intro conjI exI [of _ "ds0 @ ds"]) (auto simp: ds0_def)
  qed
qed

text \<open>
  sanitising hand-edited options. When the defaults are acceptable, the result is always valid; an
  option keeps its value or, if its key is reported as dropped, falls back to its default; only keys
  with a value of their own are reported, in registry order.
\<close>

theorem SanitizeOptions_valid:
  assumes "ValidateOptions DefaultOptions choices = None"
  shows "let (clean, dropped) = SanitizeOptions o' choices in
     ValidateOptions clean choices = None
     \<and> subseq dropped (map os_Key OptionSpecs)
     \<and> (\<forall>spec\<in>set OptionSpecs. Options_String clean (os_Key spec) =
          (if os_Key spec \<in> set dropped then os_Default spec else Options_String o' (os_Key spec)))
     \<and> (\<forall>spec\<in>set OptionSpecs. os_Key spec \<in> set dropped \<longrightarrow> Options_String o' (os_Key spec) \<noteq> os_Default spec)"
proof -
  obtain clean dropped where run: "SanitizeOptions o' choices = (clean, dropped)" by fastforce
  have none: "\<forall>spec\<in>set OptionSpecs. gm_get (op_values DefaultOptions) (os_Key spec) = None"
    by (simp add: DefaultOptions_def)
  from sanitize_loop_spec [OF run [unfolded SanitizeOptions_def] assms order_refl keys_distinct none]
  show ?thesis by (auto simp: run)
qed

theorem SanitizeOptions_valid_witness:
  "let (clean, dropped) = SanitizeOptions \<lparr>op_values = [(''posts.fold'', ''x''), (''quiet.posts'', ''held'')]\<rparr> None in
     ValidateOptions clean None = None
     \<and> subseq dropped (map os_Key OptionSpecs)
     \<and> (\<forall>spec\<in>set OptionSpecs. Options_String clean (os_Key spec) =
          (if os_Key spec \<in> set dropped then os_Default spec
           else Options_String \<lparr>op_values = [(''posts.fold'', ''x''), (''quiet.posts'', ''held'')]\<rparr> (os_Key spec)))
     \<and> (\<forall>spec\<in>set OptionSpecs. os_Key spec \<in> set dropped \<longrightarrow>
          Options_String \<lparr>op_values = [(''posts.fold'', ''x''), (''quiet.posts'', ''held'')]\<rparr> (os_Key spec) \<noteq> os_Default spec)"
proof (rule SanitizeOptions_valid)
  show "ValidateOptions DefaultOptions None = None" by code_simp
qed

text \<open>
  sanitising is not the identity on valid options. Two statuses whose icons were exchanged, each
  showing the other's default, are valid, yet both keys are dropped, because each value is tried
  against the default of the other.
\<close>

theorem SanitizeOptions_drops_swap:
  "let swapped = \<lparr>op_values = [(IconKey StatusWorking, Emoji StatusIdle), (IconKey StatusIdle, Emoji StatusWorking)]\<rparr>
   in ValidateOptions swapped None = None
      \<and> SanitizeOptions swapped None = (DefaultOptions, [IconKey StatusWorking, IconKey StatusIdle])"
  by code_simp

end
