(* ===== verification/App_Options.thy ===== *)
theory App_Options
  imports Options
begin

text \<open>
  The options in force (\<^verbatim>\<open>internal/app/options.go\<close>): \<open>Set\<close> and \<open>Reset\<close> validate, save, swap and run
  the change hooks. The store's \<^verbatim>\<open>Save\<close> is a parameter that answers with its error (\<open>None\<close> a nil store);
  a hook is a prefix and the number of its registration, and the calls made are returned in order.
  The mutex makes each operation one step.
\<close>

record OptionsService =
  sv_cur :: Options
  sv_hooks :: "(string \<times> nat) list"

type_synonym save_fun = "(Options \<Rightarrow> error option) option"
type_synonym hook_call = "nat \<times> string \<times> Options"

text \<open>What an operation did besides changing the state: its error, the values saved, the hook calls.\<close>

record SetResult =
  sr_err :: "error option"
  sr_saved :: "Options list"
  sr_calls :: "hook_call list"

definition NewOptions :: "Options \<Rightarrow> OptionsService" where
  "NewOptions cur = \<lparr>sv_cur = cur, sv_hooks = []\<rparr>"

definition Options_Choices :: "ChoiceSource \<Rightarrow> string \<Rightarrow> string list" where
  "Options_Choices choices name =
     (case StaticChoices name of Some l \<Rightarrow> l
      | None \<Rightarrow> (case choices of None \<Rightarrow> [] | Some f \<Rightarrow> f name))"

definition OnChange :: "string \<Rightarrow> nat \<Rightarrow> OptionsService \<Rightarrow> OptionsService" where
  "OnChange pre fn sv = sv\<lparr>sv_hooks := sv_hooks sv @ [(pre, fn)]\<rparr>"

definition Options_save :: "save_fun \<Rightarrow> Options \<Rightarrow> error option \<times> Options list" where
  "Options_save store next' =
     (case store of None \<Rightarrow> (None, [])
      | Some f \<Rightarrow> (case f next' of Some e \<Rightarrow> (Some e, []) | None \<Rightarrow> (None, [next'])))"

definition hasPrefix :: "string \<Rightarrow> string \<Rightarrow> bool" where
  "hasPrefix s p \<longleftrightarrow> length s \<ge> length p \<and> take (length p) s = p"

definition hooksFor :: "string \<Rightarrow> OptionsService \<Rightarrow> (string \<times> nat) list" where
  "hooksFor key sv = filter (\<lambda>h. hasPrefix key (fst h)) (sv_hooks sv)"

definition runHooks :: "(string \<times> nat) list \<Rightarrow> string list \<Rightarrow> Options \<Rightarrow> hook_call list" where
  "runHooks hooks keys cur =
     concat (map (\<lambda>key. map (\<lambda>h. (snd h, key, cur)) (filter (\<lambda>h. hasPrefix key (fst h)) hooks)) keys)"

definition Options_Set :: "ChoiceSource \<Rightarrow> save_fun \<Rightarrow> string \<Rightarrow> string \<Rightarrow> OptionsService \<Rightarrow> SetResult \<times> OptionsService" where
  "Options_Set choices store key value sv =
     (if Options_String (sv_cur sv) key = value \<and> LookupOption key \<noteq> None
      then (\<lparr>sr_err = None, sr_saved = [], sr_calls = []\<rparr>, sv)
      else case With (sv_cur sv) key value of
        Inl e \<Rightarrow> (\<lparr>sr_err = Some e, sr_saved = [], sr_calls = []\<rparr>, sv)
      | Inr next' \<Rightarrow>
          (case ValidateOptions next' choices of
             Some e \<Rightarrow> (\<lparr>sr_err = Some e, sr_saved = [], sr_calls = []\<rparr>, sv)
           | None \<Rightarrow>
               (case Options_save store next' of
                  (Some e, saved) \<Rightarrow> (\<lparr>sr_err = Some e, sr_saved = saved, sr_calls = []\<rparr>, sv)
                | (None, saved) \<Rightarrow>
                    (\<lparr>sr_err = None, sr_saved = saved, sr_calls = runHooks (hooksFor key sv) [key] next'\<rparr>,
                     sv\<lparr>sv_cur := next'\<rparr>))))"

text \<open>The loop of \<open>Reset\<close>: the keys of a group that are not at their default are set to it.\<close>

fun reset_loop :: "OptionSpec list \<Rightarrow> Options \<Rightarrow> string list \<Rightarrow> (Options \<times> string list) result" where
  "reset_loop [] next' keys = Inr (next', keys)"
| "reset_loop (spec # specs) next' keys =
     (if Options_String next' (os_Key spec) = os_Default spec then reset_loop specs next' keys
      else case With next' (os_Key spec) (os_Default spec) of
             Inl e \<Rightarrow> Inl e
           | Inr next2 \<Rightarrow> reset_loop specs next2 (keys @ [os_Key spec]))"

definition Options_Reset :: "ChoiceSource \<Rightarrow> save_fun \<Rightarrow> string \<Rightarrow> OptionsService \<Rightarrow> bool \<times> SetResult \<times> OptionsService" where
  "Options_Reset choices store grp sv =
     (case reset_loop (OptionsInGroup grp) (sv_cur sv) [] of
        Inl e \<Rightarrow> (False, \<lparr>sr_err = Some e, sr_saved = [], sr_calls = []\<rparr>, sv)
      | Inr (next', keys) \<Rightarrow>
          if keys = [] then (False, \<lparr>sr_err = None, sr_saved = [], sr_calls = []\<rparr>, sv)
          else (case ValidateOptions next' choices of
             Some e \<Rightarrow> (False, \<lparr>sr_err = Some e, sr_saved = [], sr_calls = []\<rparr>, sv)
           | None \<Rightarrow>
               (case Options_save store next' of
                  (Some e, saved) \<Rightarrow> (False, \<lparr>sr_err = Some e, sr_saved = saved, sr_calls = []\<rparr>, sv)
                | (None, saved) \<Rightarrow>
                    (True, \<lparr>sr_err = None, sr_saved = saved, sr_calls = runHooks (sv_hooks sv) keys next'\<rparr>,
                     sv\<lparr>sv_cur := next'\<rparr>))))"

section \<open>The interface to the bag of values\<close>

text \<open>
  All the service relies on: a successful set changes the value read under its key and no other.
  Setting a list of keys one after the other is then an update by each of them.
\<close>

locale option_bag =
  fixes get :: "'o \<Rightarrow> string \<Rightarrow> string" and set_key :: "'o \<Rightarrow> string \<Rightarrow> string \<Rightarrow> error + 'o"
  assumes get_set: "set_key b k v = Inr b' \<Longrightarrow> get b' = (get b)(k := v)"
begin

primrec set_all :: "(string \<times> string) list \<Rightarrow> 'o \<Rightarrow> error + 'o" where
  "set_all [] b = Inr b"
| "set_all (kv # kvs) b = (case set_key b (fst kv) (snd kv) of Inl e \<Rightarrow> Inl e | Inr b2 \<Rightarrow> set_all kvs b2)"

lemma get_set_all: "set_all kvs b = Inr b' \<Longrightarrow> get b' = fold (\<lambda>(k, v) f. f(k := v)) kvs (get b)"
  by (induction kvs arbitrary: b) (auto simp: get_set split: sum.splits)

lemma get_set_all_other: "set_all kvs b = Inr b' \<Longrightarrow> k \<notin> fst ` set kvs \<Longrightarrow> get b' k = get b k"
  by (induction kvs arbitrary: b) (auto simp: get_set split: sum.splits)

lemma get_set_all_in:
  "set_all kvs b = Inr b' \<Longrightarrow> distinct (map fst kvs) \<Longrightarrow> (k, v) \<in> set kvs \<Longrightarrow> get b' k = v"
proof (induction kvs arbitrary: b)
  case (Cons kv kvs)
  obtain b2 where b2: "set_key b (fst kv) (snd kv) = Inr b2" "set_all kvs b2 = Inr b'"
    using Cons.prems(1) by (auto split: sum.splits)
  show ?case
  proof (cases "(k, v) = kv")
    case True
    then have "get b2 k = v" using get_set [OF b2(1)] by auto
    moreover have "k \<notin> fst ` set kvs" using Cons.prems(2) True by force
    ultimately show ?thesis using get_set_all_other [OF b2(2)] by simp
  next
    case False
    then show ?thesis using Cons.IH [OF b2(2)] Cons.prems by auto
  qed
qed simp

end

interpretation bag: option_bag Options_String With
  by unfold_locales (auto simp: String_With)

section \<open>Setting one option\<close>

lemma save_result:
  assumes "Options_save store next' = (e, saved)"
  shows "saved = (if e \<noteq> None \<or> store = None then [] else [next'])"
proof (cases store)
  case (Some f)
  then show ?thesis using assms by (auto simp: Options_save_def dest: sym split: option.splits)
qed (use assms in \<open>simp add: Options_save_def\<close>)

text \<open>
  C37: setting an option is all or nothing. On an error nothing changes: not the value in force, not the
  file, and no hook runs. Otherwise the new bag differs from the old one in that key only, is valid
  whenever it is a change, is what was saved, and exactly the hooks whose prefix matches ran once
  with it, in the order of registration.
\<close>

theorem Options_Set_atomic:
  "let (r, sv') = Options_Set choices store key value sv in
   (if sr_err r \<noteq> None then sv' = sv \<and> sr_saved r = [] \<and> sr_calls r = []
    else sv_hooks sv' = sv_hooks sv
       \<and> Options_String (sv_cur sv') = (Options_String (sv_cur sv)) (key := value)
       \<and> (if Options_String (sv_cur sv) key = value
          then sv' = sv \<and> sr_saved r = [] \<and> sr_calls r = []
          else ValidateOptions (sv_cur sv') choices = None
             \<and> sr_saved r = (if store = None then [] else [sv_cur sv'])
             \<and> sr_calls r = map (\<lambda>h. (snd h, key, sv_cur sv')) (filter (\<lambda>h. hasPrefix key (fst h)) (sv_hooks sv))))"
proof (cases "Options_String (sv_cur sv) key = value \<and> LookupOption key \<noteq> None")
  case True
  then show ?thesis by (auto simp: Options_Set_def)
next
  case False
  show ?thesis
  proof (cases "With (sv_cur sv) key value")
    case (Inl e)
    then show ?thesis using False by (auto simp: Options_Set_def)
  next
    case (Inr next')
    then have "LookupOption key \<noteq> None" by (auto simp: With_def split: option.splits)
    then have diff: "Options_String (sv_cur sv) key \<noteq> value" using False by simp
    obtain e saved where s: "Options_save store next' = (e, saved)" by fastforce
    show ?thesis
      using False Inr s save_result [OF s] diff bag.get_set [OF Inr]
      by (cases "ValidateOptions next' choices"; cases e)
        (simp_all add: Options_Set_def hooksFor_def runHooks_def)
  qed
qed

section \<open>Resetting a group\<close>

lemma reset_loop_spec:
  "reset_loop specs b keys = Inr (b', keys') \<Longrightarrow> set specs \<subseteq> set OptionSpecs \<Longrightarrow> distinct (map os_Key specs) \<Longrightarrow>
   keys' = keys @ map os_Key (filter (\<lambda>s. Options_String b (os_Key s) \<noteq> os_Default s) specs)
   \<and> (\<forall>k. Options_String b' k = (if k \<in> os_Key ` set specs
          then os_Default (the (LookupOption k)) else Options_String b k))"
proof (induction specs arbitrary: b keys)
  case (Cons spec specs)
  have look: "LookupOption (os_Key spec) = Some spec" and fresh: "os_Key spec \<notin> os_Key ` set specs"
    using Cons.prems by auto
  show ?case
  proof (cases "Options_String b (os_Key spec) = os_Default spec")
    case True
    then show ?thesis using Cons.IH [of b keys] Cons.prems look fresh by auto
  next
    case False
    then obtain b2 where b2: "With b (os_Key spec) (os_Default spec) = Inr b2"
        "reset_loop specs b2 (keys @ [os_Key spec]) = Inr (b', keys')"
      using Cons.prems(1) by (auto split: sum.splits)
    have same: "Options_String b2 (os_Key s) = Options_String b (os_Key s)" if "s \<in> set specs" for s
      using String_With [OF b2(1)] that fresh by (auto simp: image_iff)
    have "filter (\<lambda>s. Options_String b2 (os_Key s) \<noteq> os_Default s) specs
        = filter (\<lambda>s. Options_String b (os_Key s) \<noteq> os_Default s) specs"
      by (rule filter_cong) (simp_all add: same)
    then show ?thesis
      using Cons.IH [OF b2(2)] Cons.prems False look fresh String_With [OF b2(1)] by auto
  qed
qed simp

lemma defaults_settable: "list_all (\<lambda>s. case With DefaultOptions (os_Key s) (os_Default s) of Inr _ \<Rightarrow> True | Inl _ \<Rightarrow> False) OptionSpecs"
  by code_simp

lemma With_default_ok:
  assumes "spec \<in> set OptionSpecs" shows "\<exists>b'. With b (os_Key spec) (os_Default spec) = Inr b'"
  using assms defaults_settable
  by (auto simp: list_all_iff With_def split: sum.splits if_splits option.splits)

lemma reset_loop_total: "set specs \<subseteq> set OptionSpecs \<Longrightarrow> \<exists>r. reset_loop specs b keys = Inr r"
proof (induction specs arbitrary: b keys)
  case (Cons spec specs)
  have "\<exists>b'. With b (os_Key spec) (os_Default spec) = Inr b'" using Cons.prems by (intro With_default_ok) simp
  then obtain b' where "With b (os_Key spec) (os_Default spec) = Inr b'" ..
  then show ?case using Cons by simp
qed simp

lemma OptionsInGroup_sub: "set (OptionsInGroup g) \<subseteq> set OptionSpecs" "distinct (map os_Key (OptionsInGroup g))"
  using keys_distinct by (auto simp: OptionsInGroup_def distinct_map inj_on_def)

text \<open>
  resetting a group. It reports a change exactly when it swapped the options; then every option of
  the group is at its default, every other keeps its value, the result is valid and saved once, and
  for each key that differed the matching hooks ran. Otherwise nothing changed and nothing ran.
\<close>

theorem Options_Reset_group:
  "let (changed, r, sv') = Options_Reset choices store grp sv;
       keys = map os_Key (filter (\<lambda>s. Options_String (sv_cur sv) (os_Key s) \<noteq> os_Default s) (OptionsInGroup grp))
   in if changed
      then (\<forall>k. Options_String (sv_cur sv') k = (if k \<in> os_Key ` set (OptionsInGroup grp)
              then os_Default (the (LookupOption k)) else Options_String (sv_cur sv) k))
        \<and> ValidateOptions (sv_cur sv') choices = None \<and> sr_err r = None \<and> keys \<noteq> []
        \<and> sr_saved r = (if store = None then [] else [sv_cur sv'])
        \<and> sr_calls r = runHooks (sv_hooks sv) keys (sv_cur sv')
      else sv' = sv \<and> sr_saved r = [] \<and> sr_calls r = [] \<and> (sr_err r = None) = (keys = [])"
proof -
  obtain b' keys' where run: "reset_loop (OptionsInGroup grp) (sv_cur sv) [] = Inr (b', keys')"
    using reset_loop_total [OF OptionsInGroup_sub(1)] by fastforce
  note spec = reset_loop_spec [OF run OptionsInGroup_sub]
  obtain e saved where s: "Options_save store b' = (e, saved)" by fastforce
  show ?thesis
  proof (cases "keys' = []")
    case True
    then show ?thesis using run spec by (simp add: Options_Reset_def Let_def)
  next
    case False
    then show ?thesis using run spec s save_result [OF s]
      by (cases "ValidateOptions b' choices"; cases e) (simp_all add: Options_Reset_def Let_def)
  qed
qed

end
