(* ===== verification/Presence.thy ===== *)
theory Presence
  imports App_Options
begin

text \<open>
  Presence at the desk and quiet mode (\<^verbatim>\<open>internal/domain/presence.go\<close>, \<^verbatim>\<open>internal/app/presence.go\<close>).
  The tracker is a record; the options in force, the clock and the answer of the idle source are
  arguments of each operation. The one-place channel \<^verbatim>\<open>changes\<close> is an option, the value waiting in it.
\<close>

section \<open>The snapshot\<close>

record PresenceState =
  ps_Enabled :: bool
  ps_Supported :: bool
  ps_AtDesk :: bool
  ps_ManualAway :: bool
  ps_Until :: time
  ps_Quiet :: bool

definition Word :: "PresenceState \<Rightarrow> string" where
  "Word s =
     (if \<not> ps_Enabled s \<or> \<not> ps_Supported s then ''off''
      else if ps_ManualAway s then ''away-manual''
      else if ps_Quiet s then ''on''
      else ''away'')"

section \<open>The tracker\<close>

record Presence =
  pr_atDesk :: bool
  pr_sampled :: bool
  pr_unsupported :: bool
  pr_failing :: bool
  pr_manualAway :: bool
  pr_manualUntil :: time
  pr_quiet :: bool
  pr_changes :: "bool option"

text \<open>The argument says whether there is an idle source.\<close>

definition NewPresence :: "bool \<Rightarrow> Presence" where
  "NewPresence hasIdle = \<lparr>pr_atDesk = False, pr_sampled = False, pr_unsupported = (\<not> hasIdle), pr_failing = False,
     pr_manualAway = False, pr_manualUntil = 0, pr_quiet = False, pr_changes = None\<rparr>"

definition Presence_state :: "Options \<Rightarrow> Presence \<Rightarrow> PresenceState" where
  "Presence_state o' p = \<lparr>ps_Enabled = QuietEnabled o', ps_Supported = (\<not> pr_unsupported p),
     ps_AtDesk = (pr_sampled p \<and> pr_atDesk p), ps_ManualAway = pr_manualAway p,
     ps_Until = pr_manualUntil p, ps_Quiet = pr_quiet p\<rparr>"

text \<open>\<open>recompute\<close> empties the channel and puts the new value in: the latest wins.\<close>

definition recompute :: "Options \<Rightarrow> Presence \<Rightarrow> Presence" where
  "recompute o' p =
     (let quiet = (QuietEnabled o' \<and> \<not> pr_unsupported p \<and> pr_sampled p \<and> pr_atDesk p \<and> \<not> pr_manualAway p)
      in if quiet = pr_quiet p then p else p\<lparr>pr_quiet := quiet, pr_changes := Some quiet\<rparr>)"

definition sample :: "Options \<Rightarrow> duration result \<Rightarrow> Presence \<Rightarrow> Presence" where
  "sample o' idle p =
     (if pr_unsupported p then p
      else case idle of
        Inl e \<Rightarrow> if e = ErrIdleUnsupported
                 then p\<lparr>pr_unsupported := True, pr_atDesk := False, pr_sampled := True\<rparr>
                 else p\<lparr>pr_failing := True\<rparr>
      | Inr d \<Rightarrow> p\<lparr>pr_failing := False, pr_atDesk := (d < QuietIdle o'), pr_sampled := True\<rparr>)"

definition expire :: "time \<Rightarrow> Presence \<Rightarrow> Presence" where
  "expire now p =
     (if pr_manualAway p \<and> \<not> IsZero (pr_manualUntil p) \<and> \<not> now < pr_manualUntil p
      then p\<lparr>pr_manualAway := False, pr_manualUntil := 0\<rparr> else p)"

definition Poll :: "Options \<Rightarrow> time \<Rightarrow> duration result \<Rightarrow> Presence \<Rightarrow> Presence" where
  "Poll o' now idle p = recompute o' (sample o' idle (expire now p))"

definition Away :: "Options \<Rightarrow> time \<Rightarrow> duration \<Rightarrow> Presence \<Rightarrow> PresenceState \<times> Presence" where
  "Away o' now d p =
     (let p' = recompute o' (p\<lparr>pr_manualAway := True, pr_manualUntil := (if d > 0 then now + d else 0)\<rparr>)
      in (Presence_state o' p', p'))"

definition Here :: "Options \<Rightarrow> Presence \<Rightarrow> PresenceState \<times> Presence" where
  "Here o' p =
     (let p' = recompute o' (p\<lparr>pr_manualAway := False, pr_manualUntil := 0\<rparr>)
      in (Presence_state o' p', p'))"

definition Recompute :: "Options \<Rightarrow> Presence \<Rightarrow> Presence" where
  "Recompute o' p = recompute o' p"

section \<open>The tracker and the daemon loop\<close>

text \<open>
  The tracker beside its only reader: the options in force, which change with a \<open>Recompute\<close> of their
  hook, and the last value the daemon loop took from the channel.
\<close>

record World =
  wo_opts :: Options
  wo_pres :: Presence
  wo_seen :: bool

inductive step :: "World \<Rightarrow> World \<Rightarrow> bool" where
  poll: "step w (w\<lparr>wo_pres := Poll (wo_opts w) now idle (wo_pres w)\<rparr>)"
| away: "step w (w\<lparr>wo_pres := snd (Away (wo_opts w) now d (wo_pres w))\<rparr>)"
| here: "step w (w\<lparr>wo_pres := snd (Here (wo_opts w) (wo_pres w))\<rparr>)"
| options: "step w (w\<lparr>wo_opts := o', wo_pres := Recompute o' (wo_pres w)\<rparr>)"
| receive: "pr_changes (wo_pres w) = Some v \<Longrightarrow>
    step w (w\<lparr>wo_seen := v, wo_pres := (wo_pres w)\<lparr>pr_changes := None\<rparr>\<rparr>)"

inductive_cases stepE: "step w w'"

definition initial :: "Options \<Rightarrow> bool \<Rightarrow> World" where
  "initial o' hasIdle = \<lparr>wo_opts = o', wo_pres = NewPresence hasIdle, wo_seen = False\<rparr>"

lemma recompute_frame [simp]:
  "pr_atDesk (recompute o' p) = pr_atDesk p" "pr_sampled (recompute o' p) = pr_sampled p"
  "pr_unsupported (recompute o' p) = pr_unsupported p" "pr_manualAway (recompute o' p) = pr_manualAway p"
  "pr_manualUntil (recompute o' p) = pr_manualUntil p" "pr_failing (recompute o' p) = pr_failing p"
  by (simp_all add: recompute_def Let_def)

lemma recompute_quiet [simp]:
  "pr_quiet (recompute o' p) \<longleftrightarrow>
   QuietEnabled o' \<and> \<not> pr_unsupported p \<and> pr_sampled p \<and> pr_atDesk p \<and> \<not> pr_manualAway p"
  by (auto simp: recompute_def Let_def)

lemma recompute_changes:
  "pr_changes (recompute o' p) = (if pr_quiet (recompute o' p) = pr_quiet p then pr_changes p else Some (pr_quiet (recompute o' p)))"
  by (auto simp: recompute_def Let_def)

lemma sample_frame [simp]:
  "pr_quiet (sample o' idle p) = pr_quiet p" "pr_changes (sample o' idle p) = pr_changes p"
  "pr_manualAway (sample o' idle p) = pr_manualAway p" "pr_manualUntil (sample o' idle p) = pr_manualUntil p"
  by (simp_all add: sample_def split: sum.split)

lemma expire_frame [simp]:
  "pr_quiet (expire now p) = pr_quiet p" "pr_changes (expire now p) = pr_changes p"
  "pr_unsupported (expire now p) = pr_unsupported p" "pr_sampled (expire now p) = pr_sampled p"
  "pr_atDesk (expire now p) = pr_atDesk p"
  by (simp_all add: expire_def)

lemma sample_unsupported: "pr_unsupported p \<Longrightarrow> sample o' idle p = p"
  by (simp add: sample_def)

text \<open>The effective flag is up to date, and the reader has seen it or will.\<close>

definition flag_ok :: "World \<Rightarrow> bool" where
  "flag_ok w \<longleftrightarrow>
     (let p = wo_pres w in
      (pr_quiet p \<longleftrightarrow> QuietEnabled (wo_opts w) \<and> \<not> pr_unsupported p \<and> pr_sampled p \<and> pr_atDesk p \<and> \<not> pr_manualAway p))"

definition told_ok :: "World \<Rightarrow> bool" where
  "told_ok w \<longleftrightarrow> (case pr_changes (wo_pres w) of Some v \<Rightarrow> v | None \<Rightarrow> wo_seen w) = pr_quiet (wo_pres w)"

lemma told_recompute:
  "told_ok w \<Longrightarrow> pr_quiet p = pr_quiet (wo_pres w) \<Longrightarrow> pr_changes p = pr_changes (wo_pres w) \<Longrightarrow>
   told_ok (w\<lparr>wo_pres := recompute o' p\<rparr>)"
  by (auto simp: told_ok_def recompute_changes split: option.splits simp del: recompute_quiet)

lemma told_opts [simp]: "told_ok (w\<lparr>wo_opts := o', wo_pres := p\<rparr>) = told_ok (w\<lparr>wo_pres := p\<rparr>)"
  by (simp add: told_ok_def split: option.split)

lemma step_flag_ok: "step w w' \<Longrightarrow> flag_ok w \<Longrightarrow> flag_ok w'"
  by (elim stepE) (auto simp: flag_ok_def Let_def Poll_def Away_def Here_def Recompute_def)

lemma step_told_ok: "step w w' \<Longrightarrow> told_ok w \<Longrightarrow> told_ok w'"
proof (elim stepE)
  fix v assume "told_ok w" "w' = w\<lparr>wo_seen := v, wo_pres := (wo_pres w)\<lparr>pr_changes := None\<rparr>\<rparr>"
    "pr_changes (wo_pres w) = Some v"
  then show "told_ok w'" by (simp add: told_ok_def)
qed (simp_all add: Poll_def Away_def Here_def Recompute_def Let_def told_recompute)

lemma world_ok:
  assumes "step\<^sup>*\<^sup>* (initial o' hasIdle) w" shows "flag_ok w \<and> told_ok w"
  using assms
proof (induction rule: rtranclp_induct)
  case base
  then show ?case by (simp add: flag_ok_def told_ok_def initial_def NewPresence_def)
next
  case (step w w')
  then show ?case using step_flag_ok step_told_ok by blast
qed


text \<open>
  no flip is lost. Whatever the order of polls, commands, option changes and deliveries, the value
  waiting in the channel, or else the last one delivered, is the flag in force: a loop that drains the
  channel always ends up acting on the latest state.
\<close>

theorem changes_deliver_latest:
  "step\<^sup>*\<^sup>* (initial o' hasIdle) w \<Longrightarrow>
   (case pr_changes (wo_pres w) of Some v \<Rightarrow> v | None \<Rightarrow> wo_seen w) = pr_quiet (wo_pres w)"
  using world_ok [of o' hasIdle w] by (simp add: told_ok_def)

definition quiet_opts :: Options where
  "quiet_opts = \<lparr>op_values = [(''quiet.enabled'', ''true'')]\<rparr>"

definition at_desk_world :: World where
  "at_desk_world = (initial quiet_opts True)\<lparr>wo_pres := Poll quiet_opts 5 (Inr 0) (NewPresence True)\<rparr>"

lemma at_desk_reachable: "step\<^sup>*\<^sup>* (initial quiet_opts True) at_desk_world"
  using step.poll [of "initial quiet_opts True" 5 "Inr 0"]
  by (intro r_into_rtranclp) (simp add: at_desk_world_def initial_def)


theorem changes_deliver_latest_witness:
  "(case pr_changes (wo_pres at_desk_world) of Some v \<Rightarrow> v | None \<Rightarrow> wo_seen at_desk_world) = pr_quiet (wo_pres at_desk_world)
   \<and> pr_changes (wo_pres at_desk_world) = Some True"
proof
  show "pr_changes (wo_pres at_desk_world) = Some True" by code_simp
qed (rule changes_deliver_latest [OF at_desk_reachable])

section \<open>A timed absence\<close>

text \<open>Polls at given times with given answers of the idle source.\<close>

definition polls :: "Options \<Rightarrow> (time \<times> duration result) list \<Rightarrow> Presence \<Rightarrow> Presence" where
  "polls o' xs p = fold (\<lambda>(now, idle) p. Poll o' now idle p) xs p"

lemma polls_simps [simp]: "polls o' [] p = p" "polls o' ((t, i) # xs) p = polls o' xs (Poll o' t i p)"
  by (simp_all add: polls_def)

lemma Poll_before:
  "pr_manualAway p \<Longrightarrow> t < pr_manualUntil p \<Longrightarrow>
   pr_manualAway (Poll o' t i p) \<and> pr_manualUntil (Poll o' t i p) = pr_manualUntil p \<and> \<not> pr_quiet (Poll o' t i p)"
  by (simp add: Poll_def expire_def)

lemma polls_before:
  "list_all (\<lambda>x. fst x < until) xs \<Longrightarrow> pr_manualAway p \<and> pr_manualUntil p = until \<and> \<not> pr_quiet p \<Longrightarrow>
   pr_manualAway (polls o' xs p) \<and> pr_manualUntil (polls o' xs p) = until \<and> \<not> pr_quiet (polls o' xs p)"
proof (induction xs arbitrary: p)
  case (Cons x xs)
  then show ?case using Poll_before [of p "fst x" o' "snd x"] by (cases x) simp
qed simp

text \<open>
  a timed absence lasts exactly as long as asked. After \<^verbatim>\<open>/away d\<close> no poll before the deadline
  brings quiet mode back, whatever the idle source says; the first poll at or after it clears the
  override, and the automatic verdict rules again.
\<close>

theorem Away_until_deadline:
  assumes "0 < d" "0 < now" "list_all (\<lambda>x. fst x < now + d) xs" "now + d \<le> t"
  shows "let p1 = polls o' xs (snd (Away o' now d p)); p2 = Poll o' t idle p1 in
    \<not> pr_quiet p1 \<and> pr_manualAway p1 \<and> \<not> pr_manualAway p2 \<and> pr_manualUntil p2 = 0
    \<and> pr_quiet p2 = (QuietEnabled o' \<and> \<not> pr_unsupported p2 \<and> pr_sampled p2 \<and> pr_atDesk p2)"
proof -
  have "pr_manualAway (snd (Away o' now d p)) \<and> pr_manualUntil (snd (Away o' now d p)) = now + d
    \<and> \<not> pr_quiet (snd (Away o' now d p))"
    using assms(1) by (simp_all add: Away_def Let_def)
  from polls_before [OF assms(3) this, of o'] show ?thesis
    using assms by (simp add: Let_def Poll_def expire_def IsZero_def)
qed

theorem Away_until_deadline_witness:
  "let p1 = polls quiet_opts [(20, Inr 0)] (snd (Away quiet_opts 10 100 (NewPresence True)));
       p2 = Poll quiet_opts 110 (Inr 0) p1 in
    \<not> pr_quiet p1 \<and> pr_manualAway p1 \<and> \<not> pr_manualAway p2 \<and> pr_manualUntil p2 = 0
    \<and> pr_quiet p2 = (QuietEnabled quiet_opts \<and> \<not> pr_unsupported p2 \<and> pr_sampled p2 \<and> pr_atDesk p2)"
  using Away_until_deadline [of 100 10 "[(20, Inr 0)]" 110 quiet_opts "NewPresence True" "Inr 0"] by simp

end
