(* ===== verification/Config.thy ===== *)
theory Config
  imports Errors
begin

text \<open>
  The configuration and the roles of its users (\<^verbatim>\<open>internal/domain/config.go\<close>). Telegram ids are
  \<^verbatim>\<open>int64\<close> values that are only compared, so they are integers.
\<close>

definition ConfigVersion :: int where "ConfigVersion = 1"

record Config =
  cf_Version :: int
  cf_BotToken :: string
  cf_BotUsername :: string
  cf_ChatID :: int
  cf_ChatTitle :: string
  cf_OperatorIDs :: "int list"
  cf_ObserverIDs :: "int list"
  cf_LogLevel :: string
  cf_ConfiguredAt :: time

datatype Role = RoleStranger | RoleObserver | RoleOperator

definition Role_String :: "Role \<Rightarrow> string" where
  "Role_String r = (case r of RoleOperator \<Rightarrow> ''operator'' | RoleObserver \<Rightarrow> ''observer'' | RoleStranger \<Rightarrow> ''stranger'')"

definition IsOperator :: "Config \<Rightarrow> int \<Rightarrow> bool" where
  "IsOperator c id' \<longleftrightarrow> list_ex (\<lambda>x. x = id') (cf_OperatorIDs c)"

definition IsObserver :: "Config \<Rightarrow> int \<Rightarrow> bool" where
  "IsObserver c id' \<longleftrightarrow> list_ex (\<lambda>x. x = id') (cf_ObserverIDs c)"

definition Role_of :: "Config \<Rightarrow> int \<Rightarrow> Role" where
  "Role_of c id' = (if IsOperator c id' then RoleOperator else if IsObserver c id' then RoleObserver else RoleStranger)"

definition WithObserver :: "Config \<Rightarrow> int \<Rightarrow> Config result" where
  "WithObserver c id' =
     (if id' \<le> 0 then Inl ErrInvalidObserver
      else if IsOperator c id' then Inl ErrInvalidObserver
      else if IsObserver c id' then Inl ErrInvalidObserver
      else Inr (c\<lparr>cf_ObserverIDs := cf_ObserverIDs c @ [id']\<rparr>))"

definition WithoutObserver :: "Config \<Rightarrow> int \<Rightarrow> Config result" where
  "WithoutObserver c id' =
     (if \<not> IsObserver c id' then Inl ErrInvalidObserver
      else Inr (c\<lparr>cf_ObserverIDs := filter (\<lambda>ob. ob \<noteq> id') (cf_ObserverIDs c)\<rparr>))"

definition Config_Validate :: "Config \<Rightarrow> error option" where
  "Config_Validate c =
     (if cf_Version c \<noteq> ConfigVersion then Some ErrNotConfigured
      else if cf_BotToken c = [] then Some ErrNotConfigured
      else if cf_ChatID c \<ge> 0 then Some ErrNotConfigured
      else if cf_OperatorIDs c = [] then Some ErrNotConfigured
      else None)"

section \<open>Managing observers\<close>

lemma IsOperator_iff [simp]: "IsOperator c i \<longleftrightarrow> i \<in> set (cf_OperatorIDs c)"
  by (auto simp: IsOperator_def list_ex_iff)

lemma IsObserver_iff [simp]: "IsObserver c i \<longleftrightarrow> i \<in> set (cf_ObserverIDs c)"
  by (auto simp: IsObserver_def list_ex_iff)

text \<open>Managed observers are positive, distinct and never operators.\<close>

definition observers_ok :: "Config \<Rightarrow> bool" where
  "observers_ok c \<longleftrightarrow> distinct (cf_ObserverIDs c)
     \<and> list_all (\<lambda>i. 0 < i \<and> i \<notin> set (cf_OperatorIDs c)) (cf_ObserverIDs c)"

inductive observer_edit :: "Config \<Rightarrow> Config \<Rightarrow> bool" where
  add: "WithObserver c i = Inr c' \<Longrightarrow> observer_edit c c'"
| remove: "WithoutObserver c i = Inr c' \<Longrightarrow> observer_edit c c'"

inductive_cases observer_editE: "observer_edit c c'"

lemma WithObserver_Inr: "WithObserver c i = Inr c' \<longleftrightarrow>
   0 < i \<and> i \<notin> set (cf_OperatorIDs c) \<and> i \<notin> set (cf_ObserverIDs c) \<and> c' = c\<lparr>cf_ObserverIDs := cf_ObserverIDs c @ [i]\<rparr>"
  by (auto simp: WithObserver_def)

lemma WithoutObserver_Inr: "WithoutObserver c i = Inr c' \<longleftrightarrow>
   i \<in> set (cf_ObserverIDs c) \<and> c' = c\<lparr>cf_ObserverIDs := filter (\<lambda>ob. ob \<noteq> i) (cf_ObserverIDs c)\<rparr>"
  by (auto simp: WithoutObserver_def)

lemma observer_edit_keeps:
  "observer_edit c c' \<Longrightarrow> observers_ok c \<Longrightarrow>
   observers_ok c' \<and> cf_OperatorIDs c' = cf_OperatorIDs c \<and> Config_Validate c' = Config_Validate c"
  by (elim observer_editE)
    (auto simp: WithObserver_Inr WithoutObserver_Inr observers_ok_def list_all_iff Config_Validate_def)

text \<open>
  editing the observers. Whatever sequence of additions and removals is accepted, the observers
  stay distinct, positive and apart from the operators, the operators and the validity of the
  configuration are untouched, and nobody becomes or ceases to be an operator.
\<close>

theorem observer_edits_safe:
  assumes "observer_edit\<^sup>*\<^sup>* c c'" and "observers_ok c"
  shows "observers_ok c' \<and> Config_Validate c' = Config_Validate c
         \<and> (\<forall>u. (Role_of c' u = RoleOperator) = (Role_of c u = RoleOperator))"
proof -
  have "observers_ok c' \<and> cf_OperatorIDs c' = cf_OperatorIDs c \<and> Config_Validate c' = Config_Validate c"
    using assms by (induction rule: rtranclp_induct) (auto dest: observer_edit_keeps)
  then show ?thesis by (simp add: Role_of_def)
qed

definition sample_config :: Config where
  "sample_config = \<lparr>cf_Version = 1, cf_BotToken = ''t'', cf_BotUsername = ''b'', cf_ChatID = -1, cf_ChatTitle = ''g'',
     cf_OperatorIDs = [7], cf_ObserverIDs = [], cf_LogLevel = ''info'', cf_ConfiguredAt = 0\<rparr>"

theorem observer_edits_safe_witness:
  "let c' = sample_config\<lparr>cf_ObserverIDs := [9]\<rparr>
   in observers_ok c' \<and> Config_Validate c' = Config_Validate sample_config
      \<and> (\<forall>u. (Role_of c' u = RoleOperator) = (Role_of sample_config u = RoleOperator))"
proof -
  have "observer_edit sample_config (sample_config\<lparr>cf_ObserverIDs := [9]\<rparr>)"
    by (rule observer_edit.add [of _ 9]) (simp add: WithObserver_Inr sample_config_def)
  then have "observer_edit\<^sup>*\<^sup>* sample_config (sample_config\<lparr>cf_ObserverIDs := [9]\<rparr>)" by blast
  moreover have "observers_ok sample_config" by (simp add: observers_ok_def sample_config_def)
  ultimately show ?thesis
    unfolding Let_def by (rule observer_edits_safe)
qed

lemma filter_absent: "i \<notin> set xs \<Longrightarrow> filter (\<lambda>ob. ob \<noteq> i) xs = xs"
  by (induction xs) auto

text \<open>
  an observer that was added can be removed again, which gives back the configuration, and one
  added is an observer from then on; adding someone who already has a role is refused.
\<close>

theorem WithObserver_roundtrip:
  "case WithObserver c i of
     Inr c' \<Rightarrow> Role_of c i = RoleStranger \<and> Role_of c' i = RoleObserver \<and> WithoutObserver c' i = Inr c
   | Inl e \<Rightarrow> e = ErrInvalidObserver \<and> (i \<le> 0 \<or> Role_of c i \<in> {RoleOperator, RoleObserver})"
  by (auto simp: WithObserver_def WithoutObserver_def Role_of_def filter_absent split: sum.split)

end
