(* ===== verification/Machine.thy ===== *)
theory Machine
  imports Ports Topic_View Options Presence Config
begin

text \<open>
  What the bridge goroutine sees of the rest of the program and of the machine: the ports of
  \<^verbatim>\<open>internal/domain/ports.go\<close> it calls, the registry and the topic view it looks into, the options and the quiet
  flag it reads. Each is a function on a world of an arbitrary type, so other goroutines may change what is read
  between any two calls. A port that may be \<^verbatim>\<open>nil\<close> is an option.
  The last five fields are functions of the outside that have no state: the hash of a text, the wording of a time (in
  the zone of the clock) and of an error, \<^verbatim>\<open>strconv.Quote\<close>, and whether Unicode counts a rune as a letter or a digit.
\<close>

record Tab =
  tab_ID :: string
  tab_RootPaneID :: string

record 'w Machine =
  mc_Now :: "'w \<Rightarrow> time \<times> 'w"
  mc_agent :: "'w \<Rightarrow> Key \<Rightarrow> Agent option"
  mc_live :: "'w \<Rightarrow> Agent list"
  mc_topics :: "'w \<Rightarrow> TopicView"
  mc_options :: "'w \<Rightarrow> Options"
  mc_quiet :: "'w \<Rightarrow> bool"
  mc_ReadScreen :: "string \<Rightarrow> ScreenSource \<Rightarrow> int \<Rightarrow> 'w \<Rightarrow> Screen result \<times> 'w"
  mc_Prompt :: "string \<Rightarrow> string \<Rightarrow> 'w \<Rightarrow> error option \<times> 'w"
  mc_SendKeys :: "string \<Rightarrow> string list \<Rightarrow> 'w \<Rightarrow> error option \<times> 'w"
  mc_Focus :: "string \<Rightarrow> 'w \<Rightarrow> error option \<times> 'w"
  mc_ClosePane :: "string \<Rightarrow> 'w \<Rightarrow> error option \<times> 'w"
  mc_ListWorkspaces :: "'w \<Rightarrow> Workspace list result \<times> 'w"
  mc_CreateTab :: "string \<Rightarrow> 'w \<Rightarrow> Tab result \<times> 'w"
  mc_StartAgent :: "string \<Rightarrow> string \<Rightarrow> string \<Rightarrow> duration \<Rightarrow> 'w \<Rightarrow> Agent result \<times> 'w"
  mc_Send :: "Outgoing \<Rightarrow> 'w \<Rightarrow> int result \<times> 'w"
  mc_SendDirect :: "int \<Rightarrow> Outgoing \<Rightarrow> 'w \<Rightarrow> int result \<times> 'w"
  mc_EditText :: "int \<Rightarrow> string \<Rightarrow> bool \<Rightarrow> Button list \<Rightarrow> 'w \<Rightarrow> error option \<times> 'w"
  mc_EditButtons :: "int \<Rightarrow> Button list \<Rightarrow> 'w \<Rightarrow> error option \<times> 'w"
  mc_AnswerButton :: "string \<Rightarrow> string \<Rightarrow> 'w \<Rightarrow> error option \<times> 'w"
  mc_SendDocument :: "Document \<Rightarrow> 'w \<Rightarrow> error option \<times> 'w"
  mc_React :: "int \<Rightarrow> int \<Rightarrow> string \<Rightarrow> 'w \<Rightarrow> error option \<times> 'w"
  mc_Download :: "string \<Rightarrow> int \<Rightarrow> 'w \<Rightarrow> string result \<times> 'w"
  mc_SetAccess :: "int list \<Rightarrow> int list \<Rightarrow> 'w \<Rightarrow> 'w"
  mc_LastReply :: "(Agent \<Rightarrow> 'w \<Rightarrow> Reply result \<times> 'w) option"
  mc_git :: "(string \<Rightarrow> string list \<Rightarrow> 'w \<Rightarrow> GitResult result \<times> 'w) option"
  mc_inbox :: "(string \<Rightarrow> string \<Rightarrow> 'w \<Rightarrow> string result \<times> 'w) option"
  mc_SaveConfig :: "(Config \<Rightarrow> 'w \<Rightarrow> error option \<times> 'w) option"
  mc_SetOption :: "string \<Rightarrow> string \<Rightarrow> 'w \<Rightarrow> error option \<times> 'w"
  mc_ResetOptions :: "string \<Rightarrow> 'w \<Rightarrow> bool result \<times> 'w"
  mc_Choices :: "'w \<Rightarrow> string \<Rightarrow> string list"
  mc_Away :: "duration \<Rightarrow> int \<Rightarrow> 'w \<Rightarrow> PresenceState \<times> 'w"
  mc_Here :: "int \<Rightarrow> 'w \<Rightarrow> PresenceState \<times> 'w"
  mc_presence :: "'w \<Rightarrow> PresenceState"
  mc_since :: "'w \<Rightarrow> (Key, time) go_map"
  mc_hash :: "string \<Rightarrow> string"
  mc_Format :: "string \<Rightarrow> time \<Rightarrow> string"
  mc_ErrorText :: "error \<Rightarrow> string"
  mc_Quote :: "string \<Rightarrow> string"
  mc_letter :: "rune \<Rightarrow> bool"

section \<open>Chaining calls\<close>

text \<open>\<^verbatim>\<open>if err := first; err != nil { return err }; second\<close>.\<close>

definition and_then :: "error option \<times> 's \<Rightarrow> ('s \<Rightarrow> error option \<times> 's) \<Rightarrow> error option \<times> 's" where
  "and_then x k = (case x of (Some e, s) \<Rightarrow> (Some e, s) | (None, s) \<Rightarrow> k s)"

lemma and_then_None [simp]: "and_then (None, s) k = k s"
  by (simp add: and_then_def)

lemma and_then_Some [simp]: "and_then (Some e, s) k = (Some e, s)"
  by (simp add: and_then_def)

text \<open>\<open>isFatal\<close> of \<^verbatim>\<open>internal/app/daemon.go\<close>: the errors that end the daemon.\<close>

definition isFatal :: "error \<Rightarrow> bool" where
  "isFatal e \<longleftrightarrow> e \<in> {ErrBotUnauthorized, ErrPollerConflict, ErrForbidden}"

text \<open>\<open>absorb\<close>, \<open>absorbEdit\<close>, \<open>answer\<close> and \<open>sendFailed\<close> share one policy: only a fatal error is returned.\<close>

definition only_fatal :: "error option \<Rightarrow> error option" where
  "only_fatal err = (case err of Some e \<Rightarrow> if isFatal e then Some e else None | None \<Rightarrow> None)"

lemma only_fatal_simps [simp]:
  "only_fatal None = None" "only_fatal (Some e) = (if isFatal e then Some e else None)"
  by (simp_all add: only_fatal_def)

lemma only_fatal_fatal: "only_fatal x = Some e \<Longrightarrow> isFatal e"
  by (auto simp: only_fatal_def split: option.splits if_splits)

text \<open>Reading a map of strings; a missing key is the empty string.\<close>

definition gm_string :: "('k, string) go_map \<Rightarrow> 'k \<Rightarrow> string" where
  "gm_string m k = (case gm_get m k of None \<Rightarrow> [] | Some s \<Rightarrow> s)"

text \<open>The error of a call that returns a value.\<close>

definition error_of :: "'a result \<Rightarrow> error option" where
  "error_of x = (case x of Inl e \<Rightarrow> Some e | Inr _ \<Rightarrow> None)"

lemma error_of_simps [simp]: "error_of (Inl e) = Some e" "error_of (Inr x) = None"
  by (simp_all add: error_of_def)

end
