(* ===== verification/Command.thy ===== *)
theory Command
  imports Agents
begin

text \<open>
  Operator commands: \<^verbatim>\<open>internal/domain/command.go\<close>. Text typed in a topic or in General becomes a
  \<open>Command\<close>: \<open>ParseCommand\<close> reads slash words, \<open>ShortReply\<close> the one-key answers to a dialog, and
  \<open>Route\<close> decides what a topic message means for an agent in a given status. A Go result pair
  \<^verbatim>\<open>(v, false)\<close> or an error is \<open>None\<close>.
\<close>

section \<open>Data\<close>

datatype CommandKind = CmdPrompt | CmdKeys | CmdScreen | CmdFocus | CmdStatus | CmdHelp | CmdOptions
  | CmdAway | CmdHere | CmdForward | CmdStop | CmdInterrupt | CmdClose | CmdNew | CmdGit
  | CmdObservers | CmdUnknown

abbreviation (input) KeyEscape :: string where "KeyEscape \<equiv> ''esc''"
abbreviation (input) KeyInterrupt :: string where "KeyInterrupt \<equiv> ''ctrl+c''"

definition DefaultAgentKind :: string where "DefaultAgentKind = ''claude''"

definition AgentKinds :: "string list" where
  "AgentKinds =
     [''pi'', ''claude'', ''codex'', ''gemini'', ''cursor'', ''devin'', ''agy'', ''cline'',
      ''omp'', ''mastracode'', ''opencode'', ''copilot'', ''kimi'', ''kiro'', ''droid'',
      ''amp'', ''grok'', ''hermes'', ''kilo'', ''qodercli'', ''maki'']"

datatype MatchResult = MatchNone | MatchOne | MatchMany

definition MaxScreenLines :: int where "MaxScreenLines = 200"

text \<open>\<^verbatim>\<open>ForwardPost\<close> is a string type whose zero value is the empty string.\<close>

type_synonym ForwardPost = string
abbreviation (input) ForwardPostNone :: ForwardPost where "ForwardPostNone \<equiv> ''none''"
abbreviation (input) ForwardPostTail :: ForwardPost where "ForwardPostTail \<equiv> ''tail''"
abbreviation (input) ForwardPostScreen :: ForwardPost where "ForwardPostScreen \<equiv> ''screen''"

record ForwardRule =
  fr_Post :: ForwardPost
  fr_Dismiss :: bool

datatype ObserverAction = ObserverList | ObserverAdd | ObserverRemove

record ObserversSpec =
  ob_Action :: ObserverAction
  ob_ID :: int

record GitSpec =
  gs_Sub :: string
  gs_Args :: "string list"

record Command =
  cm_Kind :: CommandKind
  cm_Text :: string
  cm_Keys :: "string list"
  cm_Lines :: int
  cm_All :: bool
  cm_Forward :: ForwardRule
  cm_Away :: duration
  cm_Workspace :: string
  cm_AgentKind :: string
  cm_Git :: GitSpec
  cm_Observers :: ObserversSpec

text \<open>\<^verbatim>\<open>Command{Kind: k}\<close>, every other field at its zero value.\<close>

definition Command_of :: "CommandKind \<Rightarrow> Command" where
  "Command_of k = \<lparr>cm_Kind = k, cm_Text = [], cm_Keys = [], cm_Lines = 0, cm_All = False,
     cm_Forward = \<lparr>fr_Post = [], fr_Dismiss = False\<rparr>, cm_Away = 0, cm_Workspace = [],
     cm_AgentKind = [], cm_Git = \<lparr>gs_Sub = [], gs_Args = []\<rparr>,
     cm_Observers = \<lparr>ob_Action = ObserverList, ob_ID = 0\<rparr>\<rparr>"

definition unknownCommand :: "string \<Rightarrow> Command" where
  "unknownCommand text = (Command_of CmdUnknown)\<lparr>cm_Text := text\<rparr>"

section \<open>Workspaces\<close>

definition IsAgentKind :: "string \<Rightarrow> bool" where
  "IsAgentKind s \<longleftrightarrow> list_ex (\<lambda>k. EqualFold k s) AgentKinds"

definition workspace_name :: "Workspace \<Rightarrow> string" where
  "workspace_name ws =
     (let name = ToLower (TrimSpace (ws_Label ws))
      in if name = [] then ToLower (ws_ID ws) else name)"

definition MatchWorkspaces :: "string \<Rightarrow> Workspace list \<Rightarrow> Workspace list" where
  "MatchWorkspaces label workspaces =
     (let want = ToLower (TrimSpace label)
      in if want = [] then []
         else let exact = filter (\<lambda>ws. workspace_name ws = want) workspaces;
                  prefixed = filter (\<lambda>ws. workspace_name ws \<noteq> want
                                        \<and> HasPrefix (workspace_name ws) want) workspaces
              in if length exact > 0 then exact else prefixed)"

definition MatchWorkspace :: "string \<Rightarrow> Workspace list \<Rightarrow> Workspace \<times> MatchResult" where
  "MatchWorkspace label workspaces =
     (case MatchWorkspaces label workspaces of
        [] \<Rightarrow> (\<lparr>ws_ID = [], ws_Label = []\<rparr>, MatchNone)
      | [ws] \<Rightarrow> (ws, MatchOne)
      | _ \<Rightarrow> (\<lparr>ws_ID = [], ws_Label = []\<rparr>, MatchMany))"

section \<open>Forwarded commands and overlays\<close>

definition forwardRules :: "(string, ForwardRule) go_map" where
  "forwardRules =
     [(''clear'', \<lparr>fr_Post = ForwardPostTail, fr_Dismiss = False\<rparr>),
      (''compact'', \<lparr>fr_Post = ForwardPostNone, fr_Dismiss = False\<rparr>),
      (''usage'', \<lparr>fr_Post = ForwardPostScreen, fr_Dismiss = True\<rparr>),
      (''model'', \<lparr>fr_Post = ForwardPostScreen, fr_Dismiss = True\<rparr>)]"

definition forwardRuleFor :: "string \<Rightarrow> bool \<Rightarrow> ForwardRule option" where
  "forwardRuleFor word hasArgs =
     (case gm_get forwardRules word of
        None \<Rightarrow> None
      | Some rule \<Rightarrow>
          if word = ''model'' \<and> hasArgs then Some \<lparr>fr_Post = ForwardPostTail, fr_Dismiss = False\<rparr>
          else Some rule)"

definition ForwardWords :: "string list" where
  "ForwardWords = sort (gm_keys forwardRules)"

definition overlayRuleMinRunes :: nat where "overlayRuleMinRunes = 8"

text \<open>U+2594, the upper one-eighth block.\<close>

definition overlayRune :: rune where
  "overlayRune = [CHR 0xE2, CHR 0x96, CHR 0x94]"

definition isOverlayRule :: "string \<Rightarrow> bool" where
  "isOverlayRule line \<longleftrightarrow>
     (let rs = runes (TrimSpace line)
      in list_all (\<lambda>r. r = overlayRune) rs \<and> overlayRuleMinRunes \<le> length rs)"

definition CutOverlay :: "string \<Rightarrow> string" where
  "CutOverlay text =
     (let lines = Split text (CHR 0x0A)
      in case last_index isOverlayRule lines of
           Some i \<Rightarrow> Join (drop (Suc i) lines) [CHR 0x0A]
         | None \<Rightarrow> text)"

section \<open>Command arguments\<close>

definition parseObservers :: "string list \<Rightarrow> Command" where
  "parseObservers args =
     (if args = [] then Command_of CmdObservers
      else let unknown = unknownCommand (''/observers '' @ Join args '' '')
           in case args of
               [act, idtext] \<Rightarrow>
                 (case Atoi idtext of
                    None \<Rightarrow> unknown
                  | Some i \<Rightarrow>
                      if i \<le> 0 then unknown
                      else if ToLower act = ''add'' then
                        (Command_of CmdObservers)\<lparr>cm_Observers := \<lparr>ob_Action = ObserverAdd, ob_ID = i\<rparr>\<rparr>
                      else if ToLower act = ''remove'' then
                        (Command_of CmdObservers)\<lparr>cm_Observers := \<lparr>ob_Action = ObserverRemove, ob_ID = i\<rparr>\<rparr>
                      else unknown)
             | _ \<Rightarrow> unknown)"

definition GitLogDefault :: int where "GitLogDefault = 10"
definition GitLogMax :: int where "GitLogMax = 50"

definition ParseGit :: "string list \<Rightarrow> GitSpec option" where
  "ParseGit args =
     (case args of
        [] \<Rightarrow> None
      | sub # opts \<Rightarrow>
          if ToLower sub = ''status'' then
            (if opts = [] then Some \<lparr>gs_Sub = ''status'', gs_Args = [''status'', ''--short'', ''--branch'']\<rparr>
             else None)
          else if ToLower sub = ''diff'' then
            (case opts of
               [] \<Rightarrow> Some \<lparr>gs_Sub = ''diff'', gs_Args = [''diff'', ''HEAD'']\<rparr>
             | [o1] \<Rightarrow> if EqualFold o1 ''staged''
                 then Some \<lparr>gs_Sub = ''diff'', gs_Args = [''diff'', ''--cached'']\<rparr> else None
             | _ \<Rightarrow> None)
          else if ToLower sub = ''log'' then
            (let logSpec = (\<lambda>n. Some \<lparr>gs_Sub = ''log'',
                     gs_Args = [''log'', ''--oneline'', ''--decorate'', ''-n'', Itoa n]\<rparr>)
             in case opts of
                  [] \<Rightarrow> logSpec GitLogDefault
                | [o1] \<Rightarrow> (case Atoi o1 of None \<Rightarrow> None | Some v \<Rightarrow> logSpec (min (max v 1) GitLogMax))
                | _ \<Rightarrow> None)
          else None)"

definition MinAway :: duration where "MinAway = Minute"
definition MaxAway :: duration where "MaxAway = 7 * 24 * Hour"

definition shortReplies :: "(string, string) go_map" where
  "shortReplies =
     [(''y'', ''y''), (''yes'', ''y''), (''n'', ''n''), (''no'', ''n''), (''enter'', ''enter''),
      (''ok'', ''enter''), (''esc'', KeyEscape), (''escape'', KeyEscape)]"

definition bareCommand :: "CommandKind \<Rightarrow> string \<Rightarrow> string list \<Rightarrow> Command" where
  "bareCommand kind word args =
     (if length args > 0 then unknownCommand (''/'' @ word @ '' '' @ Join args '' '')
      else Command_of kind)"

definition parseNew :: "string list \<Rightarrow> Command" where
  "parseNew args =
     (if args = [] then Command_of CmdNew
      else if IsAgentKind (last args) then
        (Command_of CmdNew)\<lparr>cm_AgentKind := ToLower (last args), cm_Workspace := Join (butlast args) '' ''\<rparr>
      else (Command_of CmdNew)\<lparr>cm_AgentKind := DefaultAgentKind, cm_Workspace := Join args '' ''\<rparr>)"

definition parseAway :: "string list \<Rightarrow> Command" where
  "parseAway args =
     (if args = [] then Command_of CmdAway
      else let unknown = unknownCommand (''/away '' @ Join args '' '')
           in if length args > 1 then unknown
              else case ParseDuration (ToLower (hd args)) of
                  None \<Rightarrow> unknown
                | Some d \<Rightarrow> if d < MinAway \<or> d > MaxAway then unknown
                           else (Command_of CmdAway)\<lparr>cm_Away := d\<rparr>)"

definition parseScreen :: "string list \<Rightarrow> Command" where
  "parseScreen args =
     (case args of
        [] \<Rightarrow> Command_of CmdScreen
      | a # others \<Rightarrow>
          if EqualFold a ''all'' then
            (if others \<noteq> [] then unknownCommand (''/screen '' @ Join args '' '')
             else (Command_of CmdScreen)\<lparr>cm_All := True\<rparr>)
          else case Atoi a of
              None \<Rightarrow> unknownCommand (''/screen '' @ a)
            | Some n \<Rightarrow>
                let n1 = (if n < 1 then 1 else n);
                    n2 = (if n1 > MaxScreenLines then MaxScreenLines else n1)
                in (Command_of CmdScreen)\<lparr>cm_Lines := n2\<rparr>)"

section \<open>Parsing and routing\<close>

text \<open>The \<^verbatim>\<open>switch word\<close> of \<open>ParseCommand\<close> with the forwarded commands after it.\<close>

definition dispatchWord :: "string \<Rightarrow> string list \<Rightarrow> string \<Rightarrow> Command" where
  "dispatchWord word args rest =
     (if word = ''screen'' then parseScreen args
      else if word = ''keys'' then
        (if args = [] then unknownCommand ''/keys'' else (Command_of CmdKeys)\<lparr>cm_Keys := args\<rparr>)
      else if word = ''focus'' then Command_of CmdFocus
      else if word = ''status'' then Command_of CmdStatus
      else if word = ''help'' then Command_of CmdHelp
      else if word = ''options'' then Command_of CmdOptions
      else if word = ''away'' then parseAway args
      else if word = ''here'' then bareCommand CmdHere word args
      else if word = ''stop'' then bareCommand CmdStop word args
      else if word = ''interrupt'' then bareCommand CmdInterrupt word args
      else if word = ''close'' then bareCommand CmdClose word args
      else if word = ''new'' then parseNew args
      else if word = ''git'' then
        (Command_of CmdGit)\<lparr>cm_Git := (case ParseGit args of Some spec \<Rightarrow> spec
                                     | None \<Rightarrow> \<lparr>gs_Sub = [], gs_Args = []\<rparr>)\<rparr>
      else if word = ''observers'' then parseObservers args
      else case forwardRuleFor word (rest \<noteq> []) of
          Some rule \<Rightarrow>
            (Command_of CmdForward)\<lparr>cm_Text := ''/'' @ word @ (if rest \<noteq> [] then '' '' @ rest else []),
                                   cm_Forward := rule\<rparr>
        | None \<Rightarrow> unknownCommand (''/'' @ word))"

text \<open>
  A slash text has a first field, so the empty case (an index panic in Go) cannot happen; see
  \<open>Fields_slash\<close>.
\<close>

definition ParseCommand :: "string \<Rightarrow> string \<Rightarrow> Command" where
  "ParseCommand text botUsername =
     (let trimmed = TrimSpace text
      in if \<not> HasPrefix trimmed ''/'' then (Command_of CmdPrompt)\<lparr>cm_Text := text\<rparr>
         else case Fields trimmed of
             [] \<Rightarrow> unknownCommand []
           | f0 # args \<Rightarrow>
               let word0 = TrimPrefix f0 ''/'';
                   rest = TrimSpace (TrimPrefix trimmed f0)
               in case Cut word0 (CHR ''@'') of
                    Some (word1, suf) \<Rightarrow>
                      if botUsername \<noteq> [] \<and> \<not> EqualFold suf botUsername
                      then unknownCommand (''/'' @ word1 @ ''@'' @ suf)
                      else dispatchWord (ToLower word1) args rest
                  | None \<Rightarrow> dispatchWord (ToLower word0) args rest)"

definition ShortReply :: "string \<Rightarrow> string list option" where
  "ShortReply text =
     (let t = ToLower (TrimSpace text)
      in if length t = 1 \<and> 49 \<le> byte (hd t) \<and> byte (hd t) \<le> 57 then Some [t]
         else case gm_get shortReplies t of
             Some key \<Rightarrow> Some [key]
           | None \<Rightarrow> None)"

definition Route :: "string \<Rightarrow> string \<Rightarrow> Status \<Rightarrow> Command" where
  "Route text botUsername status =
     (if HasPrefix (TrimSpace text) ''/'' then ParseCommand text botUsername
      else if status = StatusBlocked then
        (case ShortReply text of
           Some keys \<Rightarrow> (Command_of CmdKeys)\<lparr>cm_Keys := keys\<rparr>
         | None \<Rightarrow> (Command_of CmdPrompt)\<lparr>cm_Text := text\<rparr>)
      else (Command_of CmdPrompt)\<lparr>cm_Text := text\<rparr>)"

section \<open>Words and fields\<close>

definition plain_word :: "string \<Rightarrow> bool" where
  "plain_word w \<longleftrightarrow> w \<noteq> [] \<and> ascii w \<and> (\<forall>c\<in>set w. \<not> IsSpace [c])"

definition git_allowed :: "GitSpec \<Rightarrow> bool" where
  "git_allowed g \<longleftrightarrow> gs_Args g \<in> {[''status'', ''--short'', ''--branch''], [''diff'', ''HEAD''], [''diff'', ''--cached'']}
     \<or> (\<exists>n. 1 \<le> n \<and> n \<le> GitLogMax \<and> gs_Args g = [''log'', ''--oneline'', ''--decorate'', ''-n'', Itoa n])"

text \<open>What every parsed command promises to the code that executes it.\<close>

definition command_ok :: "Command \<Rightarrow> bool" where
  "command_ok c \<longleftrightarrow> (case cm_Kind c of
       CmdKeys \<Rightarrow> cm_Keys c \<noteq> []
     | CmdScreen \<Rightarrow> 0 \<le> cm_Lines c \<and> cm_Lines c \<le> MaxScreenLines \<and> (cm_All c \<longrightarrow> cm_Lines c = 0)
     | CmdAway \<Rightarrow> cm_Away c = 0 \<or> MinAway \<le> cm_Away c \<and> cm_Away c \<le> MaxAway
     | CmdObservers \<Rightarrow> ob_Action (cm_Observers c) = ObserverList \<or> 0 < ob_ID (cm_Observers c)
     | CmdGit \<Rightarrow> gs_Args (cm_Git c) = [] \<or> git_allowed (cm_Git c)
     | CmdForward \<Rightarrow> (\<exists>w\<in>set ForwardWords. \<exists>rest. cm_Text c = ''/'' @ w @ rest
          \<and> (rest = [] \<or> hd rest = CHR '' '')) \<and> fr_Post (cm_Forward c) \<noteq> []
     | CmdNew \<Rightarrow> cm_AgentKind c = [] \<longrightarrow> cm_Workspace c = []
     | _ \<Rightarrow> True)"

lemma not_IsSpace_slash: "\<not> IsSpace [CHR ''/'']"
  by (simp add: IsSpace_def space_runes_def)

lemma IsSpace_blank: "IsSpace [CHR '' '']"
  by (simp add: IsSpace_def space_runes_def)

lemma Fields_nonempty:
  assumes "c \<in> set (rune_chunks s)" "\<not> IsSpace c" shows "Fields s \<noteq> []"
  using assms unfolding Fields_def by (subst fields_of.simps) (auto simp: Let_def)

lemma Fields_slash: "HasPrefix s ''/'' \<Longrightarrow> Fields s \<noteq> []"
  by (rule Fields_nonempty [of "[CHR ''/'']"]) (auto simp: HasPrefix_def prefix_def not_IsSpace_slash)

lemma fields_of_skip: "IsSpace c \<Longrightarrow> fields_of (c # cs) = fields_of cs"
  by (subst (1 2) fields_of.simps) simp

lemma fields_of_word:
  assumes "cs \<noteq> []" "\<forall>c\<in>set cs. \<not> IsSpace c" "ds = [] \<or> IsSpace (hd ds)"
  shows "fields_of (cs @ ds) = concat cs # fields_of ds"
proof -
  have drop: "dropWhile IsSpace (cs @ ds) = cs @ ds" using assms by (cases cs) auto
  have tw: "takeWhile (\<lambda>c. \<not> IsSpace c) (cs @ ds) = cs" "dropWhile (\<lambda>c. \<not> IsSpace c) (cs @ ds) = ds"
    using assms by (cases ds; simp add: takeWhile_append2 dropWhile_append2)+
  show ?thesis using assms(1) by (subst fields_of.simps) (simp add: Let_def drop tw)
qed

lemma ascii_Join: "\<forall>w\<in>set ws. ascii w \<Longrightarrow> ascii (Join ws '' '')"
  by (induction ws rule: induct_list012) simp_all

lemma fields_Join:
  "\<forall>w\<in>set ws. plain_word w \<Longrightarrow> fields_of (map (\<lambda>c. [c]) (Join ws '' '')) = ws"
proof (induction ws rule: induct_list012)
  case 1
  then show ?case by (subst fields_of.simps) simp
next
  case (2 w)
  then have "fields_of (map (\<lambda>c. [c]) w @ []) = concat (map (\<lambda>c. [c]) w) # fields_of []"
    by (intro fields_of_word) (auto simp: plain_word_def)
  moreover have "fields_of [] = []" by (subst fields_of.simps) simp
  ultimately show ?case by simp
next
  case (3 w v ws)
  let ?rest = "[CHR '' ''] # map (\<lambda>c. [c]) (Join (v # ws) '' '')"
  have "fields_of (map (\<lambda>c. [c]) w @ ?rest) = concat (map (\<lambda>c. [c]) w) # fields_of ?rest"
    using 3(3) by (intro fields_of_word) (auto simp: plain_word_def IsSpace_blank)
  moreover have "fields_of ?rest = v # ws" using 3 by (simp add: fields_of_skip IsSpace_blank)
  ultimately show ?case by simp
qed

lemma Fields_Join: "\<forall>w\<in>set ws. plain_word w \<Longrightarrow> Fields (Join ws '' '') = ws"
  using fields_Join [of ws] ascii_Join [of ws]
  by (simp add: Fields_def rune_chunks_ascii plain_word_def)

lemma Join_hd_last:
  assumes "ws \<noteq> []" "\<forall>w\<in>set ws. w \<noteq> []"
  shows "Join ws sep \<noteq> [] \<and> hd (Join ws sep) = hd (hd ws) \<and> last (Join ws sep) = last (last ws)"
  using assms by (induction ws rule: induct_list012) auto

lemma TrimSpace_Join:
  assumes "ws \<noteq> []" "\<forall>w\<in>set ws. plain_word w" shows "TrimSpace (Join ws '' '') = Join ws '' ''"
proof -
  let ?s = "Join ws '' ''"
  have asc: "rune_chunks ?s = map (\<lambda>c. [c]) ?s"
    using assms by (intro rune_chunks_ascii ascii_Join) (simp add: plain_word_def)
  have hl: "?s \<noteq> []" "hd ?s = hd (hd ws)" "last ?s = last (last ws)"
    using Join_hd_last [of ws "'' ''"] assms by (simp_all add: plain_word_def)
  moreover have "plain_word (hd ws)" "plain_word (last ws)" using assms by simp_all
  ultimately have "\<not> IsSpace [hd ?s]" "\<not> IsSpace [last ?s]"
    by (simp_all add: plain_word_def)
  then have "trim_both IsSpace (map (\<lambda>c. [c]) ?s) = map (\<lambda>c. [c]) ?s"
    using hl(1) by (intro trim_both_id) (simp add: hd_map last_map)
  then show ?thesis by (simp add: TrimSpace_def asc)
qed

section \<open>Properties\<close>

lemmas command_defs = Command_of_def unknownCommand_def command_ok_def

lemma git_allowed_log:
  "1 \<le> n \<Longrightarrow> n \<le> GitLogMax \<Longrightarrow>
   git_allowed \<lparr>gs_Sub = s, gs_Args = [''log'', ''--oneline'', ''--decorate'', ''-n'', Itoa n]\<rparr>"
  by (auto simp: git_allowed_def)

lemma git_allowed_fixed:
  "git_allowed \<lparr>gs_Sub = s, gs_Args = [''status'', ''--short'', ''--branch'']\<rparr>"
  "git_allowed \<lparr>gs_Sub = s, gs_Args = [''diff'', ''HEAD'']\<rparr>"
  "git_allowed \<lparr>gs_Sub = s, gs_Args = [''diff'', ''--cached'']\<rparr>"
  by (simp_all add: git_allowed_def)

lemma ParseGit_allowed: "ParseGit args = Some g \<Longrightarrow> git_allowed g"
  by (auto simp: ParseGit_def Let_def git_allowed_fixed GitLogDefault_def GitLogMax_def
      split: list.splits if_splits option.splits intro!: git_allowed_log)

lemma ToLower_eq_Nil: "ToLower s = [] \<longleftrightarrow> s = []"
proof
  assume l: "ToLower s = []"
  show "s = []"
  proof (cases s)
    case (Cons c t)
    have "lower_rune r \<noteq> []" if "valid_rune r" for r
      using that by (auto simp: lower_rune_def encode_rune_def Let_def valid_rune_def split: list.splits)
    moreover have "runes s \<noteq> []" by (simp add: runes_def Cons rune_chunks.simps(2) Let_def)
    ultimately have "string_of_runes (map lower_rune (runes s)) \<noteq> []"
      using valid_runes [of "hd (runes s)" s] by (cases "runes s") (auto simp: string_of_runes_def)
    with l Cons show ?thesis by (simp add: ToLower_def split: if_splits)
  qed
qed simp

lemma IsAgentKind_Nil: "\<not> IsAgentKind []"
  by code_simp

lemma forwardRuleFor_Some:
  "forwardRuleFor w b = Some r \<Longrightarrow> w \<in> set ForwardWords \<and> fr_Post r \<noteq> []"
  by (auto simp: forwardRuleFor_def ForwardWords_def forwardRules_def split: if_splits)

lemma parseScreen_ok: "command_ok (parseScreen args)"
  by (simp add: parseScreen_def command_defs MaxScreenLines_def Let_def split: list.split option.split)

lemma parseAway_ok: "command_ok (parseAway args)"
  by (simp add: parseAway_def command_defs Let_def split: option.split)

lemma parseObservers_ok: "command_ok (parseObservers args)"
  by (simp add: parseObservers_def command_defs Let_def split: list.split option.split)

lemma parseNew_ok: "command_ok (parseNew args)"
  using IsAgentKind_Nil
  by (auto simp: parseNew_def command_defs DefaultAgentKind_def ToLower_eq_Nil)

lemma bareCommand_ok: "kind \<in> {CmdHere, CmdStop, CmdInterrupt, CmdClose} \<Longrightarrow> command_ok (bareCommand kind w args)"
  by (auto simp: bareCommand_def command_defs)

lemmas parse_args_ok = parseScreen_ok parseAway_ok parseObservers_ok parseNew_ok bareCommand_ok

lemma command_ok_git: "command_ok ((Command_of CmdGit)\<lparr>cm_Git := (case ParseGit args of Some spec \<Rightarrow> spec
    | None \<Rightarrow> \<lparr>gs_Sub = [], gs_Args = []\<rparr>)\<rparr>)"
  using ParseGit_allowed by (auto simp: command_defs split: option.split)

lemma command_ok_forward:
  "forwardRuleFor word True = Some r \<Longrightarrow>
   command_ok ((Command_of CmdForward)\<lparr>cm_Text := CHR ''/'' # word @ CHR '' '' # rest, cm_Forward := r\<rparr>)"
  "forwardRuleFor word False = Some r \<Longrightarrow>
   command_ok ((Command_of CmdForward)\<lparr>cm_Text := CHR ''/'' # word, cm_Forward := r\<rparr>)"
proof -
  assume r: "forwardRuleFor word True = Some r"
  have "\<exists>w\<in>set ForwardWords. \<exists>t. word @ CHR '' '' # rest = w @ t \<and> (t = [] \<or> hd t = CHR '' '')"
    using forwardRuleFor_Some [OF r] by (intro bexI [of _ word] exI [of _ "CHR '' '' # rest"]) simp_all
  then show "command_ok ((Command_of CmdForward)\<lparr>cm_Text := CHR ''/'' # word @ CHR '' '' # rest, cm_Forward := r\<rparr>)"
    using forwardRuleFor_Some [OF r] by (simp add: command_defs)
next
  assume r: "forwardRuleFor word False = Some r"
  have "\<exists>w\<in>set ForwardWords. \<exists>t. word = w @ t \<and> (t = [] \<or> hd t = CHR '' '')"
    using forwardRuleFor_Some [OF r] by (intro bexI [of _ word] exI [of _ "[]"]) simp_all
  then show "command_ok ((Command_of CmdForward)\<lparr>cm_Text := CHR ''/'' # word, cm_Forward := r\<rparr>)"
    using forwardRuleFor_Some [OF r] by (simp add: command_defs)
qed

lemma command_ok_plain:
  "command_ok (unknownCommand t)" "command_ok (Command_of CmdFocus)" "command_ok (Command_of CmdStatus)"
  "command_ok (Command_of CmdHelp)" "command_ok (Command_of CmdOptions)"
  "args \<noteq> [] \<Longrightarrow> command_ok ((Command_of CmdKeys)\<lparr>cm_Keys := args\<rparr>)"
  "command_ok ((Command_of CmdPrompt)\<lparr>cm_Text := t\<rparr>)"
  by (simp_all add: command_defs)

lemma dispatchWord_ok: "command_ok (dispatchWord word args rest)"
  by (cases "rest = []")
    (simp_all add: dispatchWord_def parse_args_ok command_ok_git command_ok_forward command_ok_plain
      split: option.split)

lemma ParseCommand_ok: "command_ok (ParseCommand text botName)"
  unfolding ParseCommand_def
  by (simp add: dispatchWord_ok command_ok_plain Let_def split: list.split option.split prod.split)

text \<open>
  whatever an operator types, the command that comes out respects the limits the rest of the
  daemon relies on: a key command has keys, a screen request is between 0 and 200 lines, an away
  period is unlimited or between one minute and seven days, an observer id is positive, a git
  command line is one of the allow-listed ones, and a forwarded line begins with one of the four
  forwarded words and carries a follow-up rule.
\<close>

theorem Route_command_ok: "command_ok (Route text botName status)"
proof (cases "HasPrefix (TrimSpace text) ''/''")
  case True
  then show ?thesis by (simp add: Route_def ParseCommand_ok)
next
  case False
  then show ?thesis
    by (auto simp: Route_def ShortReply_def command_defs Let_def split: option.split)
qed

lemma kind_simps [simp]:
  "cm_Kind (Command_of k) = k" "cm_Kind (unknownCommand t) = CmdUnknown"
  by (simp_all add: Command_of_def unknownCommand_def)

lemma parse_not_prompt:
  "cm_Kind (parseScreen args) \<noteq> CmdPrompt" "cm_Kind (parseAway args) \<noteq> CmdPrompt"
  "cm_Kind (parseObservers args) \<noteq> CmdPrompt" "cm_Kind (parseNew args) \<noteq> CmdPrompt"
  "k \<noteq> CmdPrompt \<Longrightarrow> cm_Kind (bareCommand k w args) \<noteq> CmdPrompt"
  by (simp_all add: parseScreen_def parseAway_def parseObservers_def parseNew_def bareCommand_def
      Let_def split: option.split list.split)

lemma dispatchWord_not_prompt: "cm_Kind (dispatchWord word args rest) \<noteq> CmdPrompt"
  by (simp add: dispatchWord_def parse_not_prompt split: option.split)

text \<open>
  text reaches an agent as a prompt exactly as typed or not at all. A message that starts with a
  slash is never a prompt, so a mistyped command is never typed into the agent; any other message
  is a prompt with the unchanged text, except that a short reply to a blocked agent becomes the
  key press it stands for.
\<close>

theorem Route_prompt_exact:
  "(cm_Kind (Route text botName status) = CmdPrompt \<longleftrightarrow>
      \<not> HasPrefix (TrimSpace text) ''/'' \<and> (status = StatusBlocked \<longrightarrow> ShortReply text = None))
   \<and> (cm_Kind (Route text botName status) = CmdPrompt \<longrightarrow> cm_Text (Route text botName status) = text)"
proof -
  have "cm_Kind (ParseCommand text botName) \<noteq> CmdPrompt" if "HasPrefix (TrimSpace text) ''/''"
    using that dispatchWord_not_prompt
    by (simp add: ParseCommand_def Let_def split: list.split option.split prod.split)
  then show ?thesis by (simp add: Route_def Command_of_def split: option.split)
qed

theorem Route_prompt_exact_witness:
  "cm_Kind (Route ''fix it'' ''bot'' StatusBlocked) = CmdPrompt
   \<and> cm_Text (Route ''fix it'' ''bot'' StatusBlocked) = ''fix it''"
proof -
  have "\<not> HasPrefix (TrimSpace ''fix it'') ''/''" "ShortReply ''fix it'' = None" by code_simp+
  then show ?thesis using Route_prompt_exact [of "''fix it''" "''bot''" StatusBlocked] by simp
qed

text \<open>
  the key list of \<^verbatim>\<open>/keys\<close> survives the trip from the phone: for key names without white
  space, joining them after the slash word and parsing the message yields exactly these keys, in
  this order, whatever the botName is called and however the agent's status stands.
\<close>

theorem keys_roundtrip:
  assumes "ks \<noteq> []" "\<forall>k\<in>set ks. plain_word k"
  shows "Route (Join (''/keys'' # ks) '' '') botName status = (Command_of CmdKeys)\<lparr>cm_Keys := ks\<rparr>"
proof -
  let ?s = "Join (''/keys'' # ks) '' ''"
  have kw: "plain_word ''/keys''" by code_simp
  have trim: "TrimSpace ?s = ?s" and fields: "Fields ?s = ''/keys'' # ks"
    using assms kw by (simp_all add: TrimSpace_Join Fields_Join)
  have pre: "HasPrefix ?s ''/''" using assms(1) by (simp add: HasPrefix_def Join_Cons)
  have word: "TrimPrefix ''/keys'' ''/'' = ''keys''" "Cut ''keys'' (CHR ''@'') = None" "ToLower ''keys'' = ''keys''"
    by code_simp+
  show ?thesis
    using assms(1) by (simp add: Route_def ParseCommand_def trim fields pre word dispatchWord_def Let_def)
qed

theorem keys_roundtrip_witness:
  "Route (Join [''/keys'', ''ctrl+c'', ''enter''] '' '') ''bot'' StatusIdle
     = (Command_of CmdKeys)\<lparr>cm_Keys := [''ctrl+c'', ''enter'']\<rparr>"
proof -
  have ok: "\<forall>k\<in>set [''ctrl+c'', ''enter'']. plain_word k" by code_simp
  show ?thesis using keys_roundtrip [OF _ ok, of "''bot''" StatusIdle] by simp
qed

end
