(* ===== verification/Dialog.thy ===== *)
theory Dialog
  imports Command
begin

text \<open>
  Reading an agent's screen: the numbered dialog at its bottom (\<^verbatim>\<open>internal/domain/choice.go\<close>) and the
  input frame below it (\<^verbatim>\<open>internal/domain/chrome.go\<close>). The two regular expressions of \<^verbatim>\<open>choice.go\<close>
  are written out as matchers; both are anchored and deterministic, so leftmost-first matching is
  plain descent.
\<close>

section \<open>Data\<close>

record Choice =
  ch_Number :: nat
  ch_Label :: string

definition MaxChoiceButtons :: nat where "MaxChoiceButtons = 5"
definition minChoices :: nat where "minChoices = 2"
definition choiceRuleMinRunes :: nat where "choiceRuleMinRunes = 8"

record Dialog =
  dl_Choices :: "Choice list"
  dl_Multi :: bool
  dl_TextEntry :: nat
  dl_TextLabel :: string
  dl_Cursor :: nat
  dl_SubmitRow :: nat

definition zeroDialog :: Dialog where
  "zeroDialog = \<lparr>dl_Choices = [], dl_Multi = False, dl_TextEntry = 0, dl_TextLabel = [],
     dl_Cursor = 0, dl_SubmitRow = 0\<rparr>"

abbreviation (input) KeyEnter :: string where "KeyEnter \<equiv> ''enter''"
abbreviation (input) KeyDown :: string where "KeyDown \<equiv> ''down''"
abbreviation (input) KeyUp :: string where "KeyUp \<equiv> ''up''"

definition submitLabel :: string where "submitLabel = ''Submit''"

text \<open>The two loops of \<open>SubmitKeys\<close>: down while above the submit row, up while below it.\<close>

function down_keys :: "nat \<Rightarrow> nat \<Rightarrow> string list \<times> nat" where
  "down_keys cursor row =
     (if cursor < row then (let (ks, c) = down_keys (Suc cursor) row in (KeyDown # ks, c))
      else ([], cursor))"
  by pat_completeness auto
termination by (relation "measure (\<lambda>(c, r). r - c)") auto

function up_keys :: "nat \<Rightarrow> nat \<Rightarrow> string list" where
  "up_keys cursor row = (if row < cursor then KeyUp # up_keys (cursor - 1) row else [])"
  by pat_completeness auto
termination by (relation "measure (\<lambda>(c, r). c - r)") auto

declare down_keys.simps [simp del] up_keys.simps [simp del]

definition SubmitKeys :: "Dialog \<Rightarrow> string list" where
  "SubmitKeys d =
     (if dl_SubmitRow d = 0 then [KeyEnter]
      else let cursor = (if dl_Cursor d = 0 then 1 else dl_Cursor d);
               (downs, cursor') = down_keys cursor (dl_SubmitRow d)
           in downs @ up_keys cursor' (dl_SubmitRow d) @ [KeyEnter])"

section \<open>Lines of a dialog\<close>

abbreviation (input) ServiceTypeSomething :: string where "ServiceTypeSomething \<equiv> ''Type something''"
abbreviation (input) ServiceChatAboutThis :: string where "ServiceChatAboutThis \<equiv> ''Chat about this''"

definition choiceServiceLabels :: "string list" where
  "choiceServiceLabels = [ServiceTypeSomething, ServiceChatAboutThis]"

text \<open>The regular expression class \<^verbatim>\<open>\s\<close>: tab, newline, form feed, carriage return, space.\<close>

definition re_space :: "char \<Rightarrow> bool" where
  "re_space c \<longleftrightarrow> c \<in> {CHR 0x09, CHR 0x0A, CHR 0x0C, CHR 0x0D, CHR '' ''}"

text \<open>The heavy right-pointing angle U+276F of the cursor.\<close>

definition cursorRune :: string where
  "cursorRune = [CHR 0xE2, CHR 0x9D, CHR 0xAF]"

definition boxRunes :: "rune list" where
  "boxRunes = [[CHR 0xE2, CHR 0x98, CHR 0x90], [CHR 0xE2, CHR 0x98, CHR 0x91], [CHR 0xE2, CHR 0x98, CHR 0x92]]"

definition box_inner :: "rune \<Rightarrow> bool" where
  "box_inner r \<longleftrightarrow> r \<noteq> ''['' \<and> r \<noteq> '']'' \<and> \<not> (\<exists>c. r = [c] \<and> re_space c)"

text \<open>\<open>checkboxGlyph\<close> up to its \<^verbatim>\<open>\s+\<close>: the runes after the glyph, \<open>None\<close> without one.\<close>

definition after_glyph :: "rune list \<Rightarrow> rune list option" where
  "after_glyph rs =
     (case rs of
        a # b # c # d # rest \<Rightarrow>
          if a = ''['' \<and> box_inner b \<and> box_inner c \<and> d = '']'' then Some rest
          else if a = ''['' \<and> (box_inner b \<or> b = '' '') \<and> c = '']'' then Some (d # rest)
          else if a \<in> set boxRunes then Some (b # c # d # rest) else None
      | a # b # c # rest \<Rightarrow>
          if a = ''['' \<and> (box_inner b \<or> b = '' '') \<and> c = '']'' then Some rest
          else if a \<in> set boxRunes then Some (b # c # rest) else None
      | a # rest \<Rightarrow> if a \<in> set boxRunes then Some rest else None
      | [] \<Rightarrow> None)"

definition checkboxGlyph :: "string \<Rightarrow> string option" where
  "checkboxGlyph label =
     (case after_glyph (rune_chunks label) of
        None \<Rightarrow> None
      | Some rest \<Rightarrow>
          (let s = concat rest
           in if s \<noteq> [] \<and> re_space (hd s) then Some (dropWhile re_space s) else None))"

definition stripCheckbox :: "string \<Rightarrow> string" where
  "stripCheckbox label = (case checkboxGlyph label of Some rest \<Rightarrow> TrimSpace rest | None \<Rightarrow> label)"

definition hasCheckbox :: "string \<Rightarrow> bool" where
  "hasCheckbox label \<longleftrightarrow> stripCheckbox label \<noteq> label"

text \<open>\<open>choiceItem\<close>: the digit and the text of a numbered line.\<close>

definition choiceItem :: "string \<Rightarrow> (char \<times> string) option" where
  "choiceItem line =
     (let s1 = dropWhile re_space line;
          s2 = (if prefix cursorRune s1 then dropWhile re_space (drop (length cursorRune) s1) else s1)
      in case s2 of
           d # dot # sp # t \<Rightarrow>
             if 49 \<le> byte d \<and> byte d \<le> 57 \<and> dot = CHR ''.'' \<and> re_space sp
             then let lab = dropWhile re_space t
                  in if lab = [] \<or> CHR 0x0A \<in> set lab then None else Some (d, lab)
             else None
         | _ \<Rightarrow> None)"

definition parseChoiceLine :: "string \<Rightarrow> (nat \<times> string) option" where
  "parseChoiceLine line =
     (case choiceItem (TrimRight line [CHR '' '', CHR 0x09, CHR 0x0D]) of
        None \<Rightarrow> None
      | Some (d, lab) \<Rightarrow> Some (byte d - 48, TrimSpace lab))"

definition hasCursor :: "string \<Rightarrow> bool" where
  "hasCursor line \<longleftrightarrow> HasPrefix (TrimLeft line [CHR '' '', CHR 0x09]) cursorRune"

definition isSubmitRow :: "string \<Rightarrow> bool" where
  "isSubmitRow line \<longleftrightarrow>
     (let trimmed = TrimSpace line
      in trimmed = submitLabel
         \<or> (TrimSpace (TrimPrefix trimmed cursorRune) = submitLabel \<and> HasPrefix trimmed cursorRune))"

text \<open>Horizontal rules: U+2500, U+2594, U+2501, U+2550.\<close>

definition ruleRunes :: "rune list" where
  "ruleRunes = [[CHR 0xE2, CHR 0x94, CHR 0x80], overlayRune,
                [CHR 0xE2, CHR 0x94, CHR 0x81], [CHR 0xE2, CHR 0x95, CHR 0x90]]"

definition isChoiceRule :: "string \<Rightarrow> bool" where
  "isChoiceRule trimmed \<longleftrightarrow>
     choiceRuleMinRunes \<le> RuneCountInString trimmed \<and> list_all (\<lambda>r. r \<in> set ruleRunes) (runes trimmed)"

definition isChoiceFiller :: "string \<Rightarrow> bool" where
  "isChoiceFiller line \<longleftrightarrow>
     (let trimmed = TrimSpace line
      in trimmed = [] \<or> isChoiceRule trimmed \<or> HasPrefix line ''  '' \<or> Contains trimmed labelSeparator
         \<or> HasPrefix trimmed ''Enter '' \<or> HasPrefix trimmed ''Esc '')"

section \<open>The dialog\<close>

definition serviceRank :: "string \<Rightarrow> nat option" where
  "serviceRank label = (if label = ServiceTypeSomething then Some 0
     else if label = ServiceChatAboutThis then Some 1 else None)"

definition allCheckboxes :: "Choice list \<Rightarrow> bool" where
  "allCheckboxes choices \<longleftrightarrow> list_all (\<lambda>c. hasCheckbox (ch_Label c)) choices \<and> length choices > 0"

text \<open>
  The loop over the lines from the first item on: the items so far, the row counter, the cursor row
  and the submit row; \<open>None\<close> when a line makes the block no dialog.
\<close>

fun scan_lines :: "string list \<Rightarrow> Choice list \<Rightarrow> nat \<Rightarrow> nat \<Rightarrow> nat \<Rightarrow> (Choice list \<times> nat \<times> nat) option" where
  "scan_lines [] items rows cursor submitRow = Some (items, cursor, submitRow)"
| "scan_lines (line # rest) items rows cursor submitRow =
     (case parseChoiceLine line of
        Some (n, label) \<Rightarrow>
          if n \<noteq> length items + 1 then None
          else scan_lines rest (items @ [\<lparr>ch_Number = n, ch_Label = label\<rparr>]) (Suc rows)
                 (if hasCursor line then Suc rows else cursor) submitRow
      | None \<Rightarrow>
          if isSubmitRow line
          then scan_lines rest items (Suc rows) (if hasCursor line then Suc rows else cursor) (Suc rows)
          else if \<not> isChoiceFiller line then None
          else scan_lines rest items rows cursor submitRow)"

text \<open>The loop that drops the service entries and remembers the preferred free-text entry.\<close>

fun split_service :: "Choice list \<Rightarrow> nat \<Rightarrow> Dialog \<Rightarrow> Dialog" where
  "split_service [] bestRank d = d"
| "split_service (c # cs) bestRank d =
     (let plain = TrimSuffix (stripCheckbox (ch_Label c)) ''.''
      in case serviceRank plain of
           Some rank \<Rightarrow>
             if rank < bestRank
             then split_service cs rank (d\<lparr>dl_TextEntry := ch_Number c, dl_TextLabel := plain\<rparr>)
             else split_service cs bestRank d
         | None \<Rightarrow> split_service cs bestRank (d\<lparr>dl_Choices := dl_Choices d @ [c]\<rparr>))"

definition ParseDialog :: "string \<Rightarrow> Dialog" where
  "ParseDialog screen =
     (let lines = Split (ReplaceAll screen [CHR 0x0D, CHR 0x0A] [CHR 0x0A]) (CHR 0x0A)
      in case last_index (\<lambda>l. map_option fst (parseChoiceLine l) = Some 1) lines of
           None \<Rightarrow> zeroDialog
         | Some start \<Rightarrow>
             (case scan_lines (drop start lines) [] 0 0 0 of
                None \<Rightarrow> zeroDialog
              | Some (items, cursor, submitRow) \<Rightarrow>
                  let d = split_service items (length choiceServiceLabels)
                            (zeroDialog\<lparr>dl_Cursor := cursor, dl_SubmitRow := submitRow\<rparr>)
                  in if length (dl_Choices d) < minChoices \<or> length (dl_Choices d) > MaxChoiceButtons
                     then zeroDialog
                     else d\<lparr>dl_Multi := allCheckboxes (dl_Choices d)\<rparr>))"

definition ParseChoices :: "string \<Rightarrow> Choice list" where
  "ParseChoices screen = dl_Choices (ParseDialog screen)"

section \<open>The input frame\<close>

definition chromeRuleMinRunes :: nat where "chromeRuleMinRunes = 8"
definition chromeShortcutsHint :: string where "chromeShortcutsHint = ''? for shortcuts''"
definition chromeCycleHint :: string where "chromeCycleHint = ''shift+tab to cycle''"
definition chromeStatusSeparators :: nat where "chromeStatusSeparators = 2"

text \<open>Two U+23F5 and a space, two U+25B6 and a space, U+23F8 and a space.\<close>

definition chromeHintPrefixes :: "string list" where
  "chromeHintPrefixes =
     [[CHR 0xE2, CHR 0x8F, CHR 0xB5, CHR 0xE2, CHR 0x8F, CHR 0xB5, CHR '' ''],
      [CHR 0xE2, CHR 0x96, CHR 0xB6, CHR 0xE2, CHR 0x96, CHR 0xB6, CHR '' ''],
      [CHR 0xE2, CHR 0x8F, CHR 0xB8, CHR '' '']]"

definition isChromeHint :: "string \<Rightarrow> bool" where
  "isChromeHint line \<longleftrightarrow>
     (let trimmed = TrimSpace line
      in trimmed = chromeShortcutsHint \<or> Contains trimmed chromeCycleHint
         \<or> list_ex (\<lambda>p. HasPrefix trimmed p) chromeHintPrefixes)"

text \<open>Cells separated by U+2502 or a vertical bar between spaces.\<close>

definition isChromeStatus :: "string \<Rightarrow> bool" where
  "isChromeStatus line \<longleftrightarrow>
     (let trimmed = TrimSpace line
      in Count trimmed [CHR '' '', CHR 0xE2, CHR 0x94, CHR 0x82, CHR '' ''] + Count trimmed '' | ''
         \<ge> chromeStatusSeparators)"

definition isChromePromptRow :: "string \<Rightarrow> bool" where
  "isChromePromptRow line \<longleftrightarrow> TrimSpace line = cursorRune"

definition isChromeRule :: "string \<Rightarrow> bool" where
  "isChromeRule line \<longleftrightarrow>
     (let trimmed = TrimSpace line
      in chromeRuleMinRunes \<le> RuneCountInString trimmed
         \<and> list_all (\<lambda>r. r = [CHR 0xE2, CHR 0x94, CHR 0x80]) (runes trimmed))"

definition isChromeBox :: "string list \<Rightarrow> nat \<Rightarrow> bool" where
  "isChromeBox lines e \<longleftrightarrow>
     3 \<le> e \<and> isChromeRule (lines ! (e - 3)) \<and> isChromePromptRow (lines ! (e - 2))
     \<and> isChromeRule (lines ! (e - 1))"

text \<open>The downward index loop \<^verbatim>\<open>for i > 0 && p(lines[i-1]) { i-- }\<close>.\<close>

fun walk_up :: "(string \<Rightarrow> bool) \<Rightarrow> string list \<Rightarrow> nat \<Rightarrow> nat" where
  "walk_up P lines 0 = 0"
| "walk_up P lines (Suc i) = (if P (lines ! i) then walk_up P lines i else Suc i)"

definition CutChrome :: "string \<Rightarrow> string \<times> nat" where
  "CutChrome text =
     (if text = [] then (text, 0)
      else let lines = Split text (CHR 0x0A);
               e = walk_up (\<lambda>l. TrimSpace l = []) lines (length lines);
               cut0 = walk_up isChromeHint lines e;
               hints = e - cut0;
               status = (cut0 > 0 \<and> isChromeStatus (lines ! (cut0 - 1)));
               boxTop = (if status then cut0 - 1 else cut0);
               box = isChromeBox lines boxTop;
               cut = (if box then boxTop - 3 else if status \<and> hints > 0 then boxTop else cut0);
               removed = e - cut
           in if removed = 0 then (text, 0) else (Join (take cut lines) [CHR 0x0A], removed))"

section \<open>Driving the dialog\<close>

text \<open>What the arrow keys do to the highlighted row.\<close>

definition press :: "nat \<Rightarrow> string \<Rightarrow> nat" where
  "press row k = (if k = KeyDown then Suc row else if k = KeyUp then row - 1 else row)"

lemma down_keys_spec:
  "down_keys c r = (replicate (r - c) KeyDown, max c r)"
  by (induction c r rule: down_keys.induct)
    (subst down_keys.simps, auto simp: Suc_diff_Suc [symmetric] simp del: Suc_diff_Suc)

lemma up_keys_spec: "up_keys c r = replicate (c - r) KeyUp"
proof (induction c r rule: up_keys.induct)
  case (1 c r)
  then show ?case
    by (cases "r < c"; subst up_keys.simps) (simp_all flip: replicate_Suc add: Suc_diff_Suc)
qed

lemma foldl_press_down: "foldl press r (replicate n KeyDown) = r + n"
  by (induction n arbitrary: r) (simp_all add: press_def)

lemma foldl_press_up: "foldl press r (replicate n KeyUp) = r - n"
  by (induction n arbitrary: r) (simp_all add: press_def)

lemma SubmitKeys_eq:
  "dl_SubmitRow d \<noteq> 0 \<Longrightarrow>
   SubmitKeys d =
     replicate (dl_SubmitRow d - max 1 (dl_Cursor d)) KeyDown
     @ replicate (max 1 (dl_Cursor d) - dl_SubmitRow d) KeyUp @ [KeyEnter]"
  by (cases "dl_Cursor d = 0") (auto simp: SubmitKeys_def Let_def down_keys_spec up_keys_spec max_def)

text \<open>
  submitting a multi-select dialog. The keys end in one Enter, pressed with the highlight on the
  submit row; before it there are only arrow keys, as few as the distance between the two rows, and
  a cursor that was not seen counts as the first row. Without a submit row Enter alone is sent.
\<close>

theorem SubmitKeys_reaches_submit:
  "let start = (if dl_Cursor d = 0 then 1 else dl_Cursor d); row = dl_SubmitRow d; keys = SubmitKeys d
   in last keys = KeyEnter
      \<and> KeyEnter \<notin> set (butlast keys)
      \<and> foldl press start (butlast keys) = (if row = 0 then start else row)
      \<and> length (butlast keys) = (if row = 0 then 0 else (row - start) + (start - row))"
proof (cases "dl_SubmitRow d = 0")
  case True
  then show ?thesis by (simp add: SubmitKeys_def)
next
  case False
  then show ?thesis
    by (cases "dl_Cursor d = 0")
      (auto simp: SubmitKeys_eq butlast_append foldl_press_down foldl_press_up max_def Let_def)
qed

section \<open>What a dialog is made of\<close>

text \<open>
  A dialog the screen shows: two to five choices, numbered upwards within 1 to 9, the free-text
  entry apart from them and one of the two service entries, and the multi-select flag exactly
  when every choice carries a checkbox.
\<close>

definition dialog_ok :: "Dialog \<Rightarrow> bool" where
  "dialog_ok d \<longleftrightarrow>
     minChoices \<le> length (dl_Choices d) \<and> length (dl_Choices d) \<le> MaxChoiceButtons
     \<and> sorted_wrt (<) (map ch_Number (dl_Choices d))
     \<and> list_all (\<lambda>c. 1 \<le> ch_Number c \<and> ch_Number c \<le> 9) (dl_Choices d)
     \<and> dl_TextEntry d \<le> 9 \<and> dl_TextEntry d \<notin> set (map ch_Number (dl_Choices d))
     \<and> (if dl_TextEntry d = 0 then dl_TextLabel d = [] else dl_TextLabel d \<in> set choiceServiceLabels)
     \<and> dl_Multi d = list_all (\<lambda>c. hasCheckbox (ch_Label c)) (dl_Choices d)"

lemma parseChoiceLine_range: "parseChoiceLine l = Some (n, lab) \<Longrightarrow> 1 \<le> n \<and> n \<le> 9"
  by (auto simp: parseChoiceLine_def choiceItem_def Let_def split: option.splits list.splits if_splits)

definition items_ok :: "Choice list \<Rightarrow> bool" where
  "items_ok cs \<longleftrightarrow> map ch_Number cs = [1..<Suc (length cs)] \<and> length cs \<le> 9"

lemma items_ok_snoc:
  "items_ok cs \<Longrightarrow> Suc (length cs) \<le> 9 \<Longrightarrow> items_ok (cs @ [\<lparr>ch_Number = Suc (length cs), ch_Label = l\<rparr>])"
  by (simp add: items_ok_def)

lemma scan_lines_items:
  "scan_lines ls items rows cur sub = Some (items', cur', sub') \<Longrightarrow> items_ok items \<Longrightarrow> items_ok items'"
proof (induction ls arbitrary: items rows cur sub)
  case (Cons line rest)
  show ?case
  proof (cases "parseChoiceLine line")
    case None
    then show ?thesis using Cons.prems by (auto split: if_splits intro: Cons.IH)
  next
    case (Some p)
    obtain n lab where p: "p = (n, lab)" by (cases p)
    have n: "n = Suc (length items)" and rest: "scan_lines rest (items @ [\<lparr>ch_Number = n, ch_Label = lab\<rparr>]) (Suc rows)
        (if hasCursor line then Suc rows else cur) sub = Some (items', cur', sub')"
      using Cons.prems(1) Some p by (simp_all split: if_splits)
    have "Suc (length items) \<le> 9" using parseChoiceLine_range Some p n by blast
    then show ?thesis
      using Cons.IH [OF rest] items_ok_snoc [OF Cons.prems(2)] n by simp
  qed
qed simp

text \<open>The cursor and the submit row stay within the rows counted.\<close>

lemma scan_lines_rows:
  "scan_lines ls items rows cur sub = Some (items', cur', sub') \<Longrightarrow> cur \<le> rows \<Longrightarrow> sub \<le> rows
   \<Longrightarrow> cur' \<le> rows + length ls \<and> sub' \<le> rows + length ls"
proof (induction ls arbitrary: items rows cur sub)
  case (Cons line rest)
  show ?case
  proof (cases "parseChoiceLine line")
    case None
    then show ?thesis
      using Cons.prems Cons.IH [of items "Suc rows" "Suc rows" "Suc rows"]
        Cons.IH [of items "Suc rows" cur "Suc rows"] Cons.IH [of items rows cur sub]
      by (simp split: if_splits)
  next
    case (Some p)
    then show ?thesis
      using Cons.prems Cons.IH [of "items @ [\<lparr>ch_Number = fst p, ch_Label = snd p\<rparr>]" "Suc rows" "Suc rows" sub]
        Cons.IH [of "items @ [\<lparr>ch_Number = fst p, ch_Label = snd p\<rparr>]" "Suc rows" cur sub]
      by (cases p) (simp split: if_splits)
  qed
qed simp

text \<open>What the service loop keeps, drops and remembers.\<close>

definition is_service :: "Choice \<Rightarrow> bool" where
  "is_service c \<longleftrightarrow> serviceRank (TrimSuffix (stripCheckbox (ch_Label c)) ''.'') \<noteq> None"

lemma split_service_choices:
  "dl_Choices (split_service cs r d) = dl_Choices d @ filter (\<lambda>c. \<not> is_service c) cs"
  by (induction cs r d rule: split_service.induct)
    (auto simp: Let_def is_service_def split: option.splits)

lemma serviceRank_label: "serviceRank l = Some r \<Longrightarrow> l \<in> set choiceServiceLabels"
  by (auto simp: serviceRank_def choiceServiceLabels_def split: if_splits)

lemma split_service_text:
  "let d' = split_service cs r d in
   (dl_TextEntry d' = dl_TextEntry d \<and> dl_TextLabel d' = dl_TextLabel d)
   \<or> (\<exists>c\<in>set cs. is_service c \<and> dl_TextEntry d' = ch_Number c \<and> dl_TextLabel d' \<in> set choiceServiceLabels)"
proof (induction cs arbitrary: r d)
  case (Cons c cs)
  show ?case
  proof (cases "serviceRank (TrimSuffix (stripCheckbox (ch_Label c)) ''.'')")
    case None
    then show ?thesis using Cons.IH [of r "d\<lparr>dl_Choices := dl_Choices d @ [c]\<rparr>"] by (auto simp: Let_def)
  next
    case (Some rank)
    have svc: "is_service c" using Some by (simp add: is_service_def)
    show ?thesis
      using Cons.IH [of rank "d\<lparr>dl_TextEntry := ch_Number c, dl_TextLabel := TrimSuffix (stripCheckbox (ch_Label c)) ''.''\<rparr>"]
        Cons.IH [of r d] Some svc serviceRank_label [OF Some]
      by (auto simp: Let_def)
  qed
qed simp

lemma split_service_frame:
  "dl_Multi (split_service cs r d) = dl_Multi d \<and> dl_Cursor (split_service cs r d) = dl_Cursor d
   \<and> dl_SubmitRow (split_service cs r d) = dl_SubmitRow d"
  by (induction cs r d rule: split_service.induct) (auto simp: Let_def split: option.splits)

lemma items_ok_distinct:
  assumes "items_ok cs" shows "distinct (map ch_Number cs)"
proof -
  have "map ch_Number cs = [1..<Suc (length cs)]" using assms by (simp add: items_ok_def)
  then show ?thesis by simp
qed

lemma items_ok_range:
  assumes "items_ok cs" "c \<in> set cs" shows "1 \<le> ch_Number c \<and> ch_Number c \<le> 9"
proof -
  have "ch_Number c \<in> set [1..<Suc (length cs)]"
    using assms unfolding items_ok_def by (metis image_eqI set_map)
  then show ?thesis using assms by (auto simp: items_ok_def)
qed

lemma items_ok_sorted: "items_ok cs \<Longrightarrow> sorted_wrt (<) (map ch_Number (filter P cs))"
proof -
  assume ok: "items_ok cs"
  have "sorted_wrt (<) (map ch_Number cs)"
    using ok by (metis items_ok_def sorted_wrt_upt)
  then show ?thesis by (simp add: sorted_wrt_map sorted_wrt_filter)
qed

lemma split_service_ok:
  assumes items: "items_ok cs"
    and d: "d = split_service cs (length choiceServiceLabels) (zeroDialog\<lparr>dl_Cursor := cu, dl_SubmitRow := su\<rparr>)"
    and n: "minChoices \<le> length (dl_Choices d)" "length (dl_Choices d) \<le> MaxChoiceButtons"
  shows "dialog_ok (d\<lparr>dl_Multi := allCheckboxes (dl_Choices d)\<rparr>)"
proof -
  have ch: "dl_Choices d = filter (\<lambda>c. \<not> is_service c) cs"
    unfolding d by (simp add: split_service_choices zeroDialog_def)
  have txtE: "dl_TextEntry d = 0 \<and> dl_TextLabel d = []
      \<or> (\<exists>c\<in>set cs. is_service c \<and> dl_TextEntry d = ch_Number c \<and> dl_TextLabel d \<in> set choiceServiceLabels)"
    using split_service_text [of cs "length choiceServiceLabels" "zeroDialog\<lparr>dl_Cursor := cu, dl_SubmitRow := su\<rparr>"]
    unfolding d by (simp add: Let_def zeroDialog_def)
  have apart: "ch_Number c \<notin> ch_Number ` set (filter (\<lambda>c. \<not> is_service c) cs)" if "c \<in> set cs" "is_service c" for c
    using that items_ok_distinct [OF items] by (auto simp: distinct_map inj_on_def)
  have "0 \<notin> ch_Number ` set (dl_Choices d)"
    using items_ok_range [OF items] by (fastforce simp: ch)
  then have entry: "dl_TextEntry d \<le> 9 \<and> dl_TextEntry d \<notin> set (map ch_Number (dl_Choices d))
      \<and> (if dl_TextEntry d = 0 then dl_TextLabel d = [] else dl_TextLabel d \<in> set choiceServiceLabels)"
    using txtE apart items_ok_range [OF items] by (fastforce simp: ch)
  have pos: "0 < length (dl_Choices d)" using n(1) unfolding minChoices_def by linarith
  then have multi: "allCheckboxes (dl_Choices d) = list_all (\<lambda>c. hasCheckbox (ch_Label c)) (dl_Choices d)"
    by (simp add: allCheckboxes_def)
  have range: "list_all (\<lambda>c. 1 \<le> ch_Number c \<and> ch_Number c \<le> 9) (dl_Choices d)"
    using items_ok_range [OF items] by (simp add: ch list_all_iff)
  have "sorted_wrt (<) (map ch_Number (dl_Choices d))"
    using items_ok_sorted [OF items] by (simp add: ch)
  with n entry multi range show ?thesis by (simp add: dialog_ok_def)
qed

lemma ParseDialog_cases:
  "ParseDialog screen = zeroDialog
   \<or> (dialog_ok (ParseDialog screen)
      \<and> dl_Cursor (ParseDialog screen) \<le> length (Split (ReplaceAll screen [CHR 0x0D, CHR 0x0A] [CHR 0x0A]) (CHR 0x0A))
      \<and> dl_SubmitRow (ParseDialog screen) \<le> length (Split (ReplaceAll screen [CHR 0x0D, CHR 0x0A] [CHR 0x0A]) (CHR 0x0A)))"
proof -
  define ls where "ls = Split (ReplaceAll screen [CHR 0x0D, CHR 0x0A] [CHR 0x0A]) (CHR 0x0A)"
  show ?thesis
  proof (cases "last_index (\<lambda>l. map_option fst (parseChoiceLine l) = Some 1) ls")
    case None
    then show ?thesis by (simp add: ParseDialog_def ls_def)
  next
    case (Some start)
    show ?thesis
    proof (cases "scan_lines (drop start ls) [] 0 0 0")
      case None
      then show ?thesis using Some by (simp add: ParseDialog_def ls_def)
    next
      case scan: (Some res)
      obtain items cu su where res: "res = (items, cu, su)" by (cases res)
      define d where
        "d = split_service items (length choiceServiceLabels) (zeroDialog\<lparr>dl_Cursor := cu, dl_SubmitRow := su\<rparr>)"
      have eq: "ParseDialog screen =
          (if length (dl_Choices d) < minChoices \<or> length (dl_Choices d) > MaxChoiceButtons
           then zeroDialog else d\<lparr>dl_Multi := allCheckboxes (dl_Choices d)\<rparr>)"
        using Some scan by (simp add: ParseDialog_def ls_def res d_def Let_def)
      have items: "items_ok items"
        using scan_lines_items [OF scan [unfolded res]] by (simp add: items_ok_def)
      have "cu \<le> length ls \<and> su \<le> length ls"
        using scan_lines_rows [OF scan [unfolded res]] by auto
      then have "dl_Cursor d \<le> length ls" "dl_SubmitRow d \<le> length ls"
        by (simp_all add: d_def split_service_frame)
      then show ?thesis
        using split_service_ok [OF items d_def] by (auto simp: eq ls_def)
    qed
  qed
qed

text \<open>
  what \<open>ParseDialog\<close> returns. Whatever the screen holds, the answer is either no dialog at all or
  a well-formed one, whose buttons can be told apart by their numbers and never include the
  free-text entry; the submit row and the cursor are rows of the screen.
\<close>

theorem ParseDialog_well_formed:
  "ParseDialog screen = zeroDialog
   \<or> (dialog_ok (ParseDialog screen)
      \<and> dl_Cursor (ParseDialog screen) \<le> length (Split (ReplaceAll screen [CHR 0x0D, CHR 0x0A] [CHR 0x0A]) (CHR 0x0A))
      \<and> dl_SubmitRow (ParseDialog screen) \<le> length (Split (ReplaceAll screen [CHR 0x0D, CHR 0x0A] [CHR 0x0A]) (CHR 0x0A)))"
  by (rule ParseDialog_cases)

section \<open>A menu on the screen is found\<close>

text \<open>A menu as an agent draws it: a cursor mark on one row, two blanks on the others.\<close>

definition menu_line :: "nat \<Rightarrow> nat \<Rightarrow> string \<Rightarrow> string" where
  "menu_line cur n label = (if n = cur then cursorRune @ '' '' else ''  '') @ digit_char n # ''. '' @ label"

fun menu_lines :: "nat \<Rightarrow> nat \<Rightarrow> string list \<Rightarrow> string list" where
  "menu_lines cur n [] = []"
| "menu_lines cur n (l # ls) = menu_line cur n l # menu_lines cur (Suc n) ls"

fun menu_choices :: "nat \<Rightarrow> string list \<Rightarrow> Choice list" where
  "menu_choices n [] = []"
| "menu_choices n (l # ls) = \<lparr>ch_Number = n, ch_Label = l\<rparr> # menu_choices (Suc n) ls"

definition plain_label :: "string \<Rightarrow> bool" where
  "plain_label l \<longleftrightarrow> l \<noteq> [] \<and> list_all (\<lambda>c. 32 \<le> byte c) l \<and> hd l \<noteq> CHR '' '' \<and> last l \<noteq> CHR '' ''
     \<and> TrimSpace l = l \<and> serviceRank (TrimSuffix (stripCheckbox l) ''.'') = None"

lemma re_space_byte: "re_space c \<Longrightarrow> byte c \<le> 32"
  by (auto simp: re_space_def)

lemma re_space_blank [simp]: "re_space (CHR '' '')"
  by (simp add: re_space_def)

lemma digit_not_space: "1 \<le> n \<Longrightarrow> n \<le> 9 \<Longrightarrow> \<not> re_space (digit_char n)"
  using byte_digit_char [of n] re_space_byte [of "digit_char n"] by auto

lemma digit_not_cursor: "1 \<le> n \<Longrightarrow> n \<le> 9 \<Longrightarrow> digit_char n \<noteq> CHR 0xE2"
  using byte_digit_char [of n] by auto

lemma not_re_space_cursor: "\<not> re_space (CHR 0xE2)"
  by (simp add: re_space_def)

lemma plain_label_not_space:
  assumes "plain_label l" shows "\<not> re_space (hd l)"
proof
  assume "re_space (hd l)"
  moreover have "hd l \<in> set l" "hd l \<noteq> CHR '' ''" using assms by (simp_all add: plain_label_def)
  moreover have "32 \<le> byte (hd l)" using assms calculation(2) by (auto simp: plain_label_def list_all_iff)
  ultimately show False by (auto simp: re_space_def)
qed

lemma menu_trim:
  assumes "plain_label l"
  shows "TrimRight (menu_line cur n l) [CHR '' '', CHR 0x09, CHR 0x0D] = menu_line cur n l"
proof -
  have "last (menu_line cur n l) = last l" "menu_line cur n l \<noteq> []"
    using assms by (simp_all add: menu_line_def plain_label_def)
  moreover have "last l \<in> set l" using assms by (simp add: plain_label_def)
  then have "32 \<le> byte (last l)" using assms by (auto simp: plain_label_def list_all_iff)
  then have "last l \<notin> set [CHR '' '', CHR 0x09, CHR 0x0D]"
    using assms by (auto simp: plain_label_def)
  ultimately show ?thesis
    by (cases "menu_line cur n l" rule: rev_cases) (simp_all add: TrimRight_def)
qed

lemma menu_line_parsed:
  assumes l: "plain_label l" and n: "1 \<le> n" "n \<le> 9"
  shows "parseChoiceLine (menu_line cur n l) = Some (n, l)"
proof -
  have lab: "dropWhile re_space l = l" "l \<noteq> []" "CHR 0x0A \<notin> set l"
    using plain_label_not_space [OF l] l
    by (cases l; auto simp: plain_label_def list_all_iff)+
  have b: "byte (digit_char n) = 48 + n" using n by (simp add: byte_digit_char)
  have "choiceItem (menu_line cur n l) = Some (digit_char n, l)"
    using lab b n digit_not_space [OF n] digit_not_cursor [OF n]
    by (cases "n = cur") (simp_all add: choiceItem_def menu_line_def cursorRune_def not_re_space_cursor
        del: dropWhile_eq_Nil_conv)
  then show ?thesis
    using l b by (simp add: parseChoiceLine_def menu_trim plain_label_def)
qed

lemma menu_line_cursor:
  assumes "1 \<le> n" "n \<le> 9" shows "hasCursor (menu_line cur n l) \<longleftrightarrow> n = cur"
proof -
  have "byte (digit_char n) = 48 + n" using assms by (simp add: byte_digit_char)
  then have "digit_char n \<noteq> CHR '' ''" "digit_char n \<noteq> CHR 0x09" "digit_char n \<noteq> CHR 0xE2"
    using assms by auto
  then show ?thesis
    by (auto simp: hasCursor_def menu_line_def TrimLeft_def HasPrefix_def cursorRune_def)
qed

lemma scan_menu:
  "list_all plain_label ls \<Longrightarrow> length items + length ls \<le> 9 \<Longrightarrow>
   scan_lines (menu_lines cur (Suc (length items)) ls) items (length items) c 0 =
     Some (items @ menu_choices (Suc (length items)) ls,
           if length items < cur \<and> cur \<le> length items + length ls then cur else c, 0)"
proof (induction ls arbitrary: items c)
  case (Cons l ls)
  then show ?case
    using Cons.IH [of "items @ [\<lparr>ch_Number = Suc (length items), ch_Label = l\<rparr>]"]
    by (auto simp: menu_line_parsed menu_line_cursor)
qed simp

lemma ReplaceAll_absent: "c \<notin> set s \<Longrightarrow> ReplaceAll s (c # old) new = s"
  by (induction s) auto

lemma set_Join: "set (Join ls sep) \<subseteq> (\<Union>l\<in>set ls. set l) \<union> set sep"
  by (induction ls sep rule: Join.induct) auto

lemma menu_line_clean:
  assumes "plain_label l" "1 \<le> n" "n \<le> 9"
  shows "CHR 0x0A \<notin> set (menu_line cur n l) \<and> CHR 0x0D \<notin> set (menu_line cur n l)"
proof -
  have "byte (digit_char n) = 48 + n" using assms by (simp add: byte_digit_char)
  then have "digit_char n \<noteq> CHR 0x0A" "digit_char n \<noteq> CHR 0x0D" using assms by auto
  moreover have "CHR 0x0A \<notin> set l" "CHR 0x0D \<notin> set l"
    using assms by (auto simp: plain_label_def list_all_iff)
  ultimately show ?thesis by (auto simp: menu_line_def cursorRune_def)
qed

lemma menu_lines_clean:
  "list_all plain_label ls \<Longrightarrow> 1 \<le> n \<Longrightarrow> n + length ls \<le> 10 \<Longrightarrow>
   \<forall>l\<in>set (menu_lines cur n ls). CHR 0x0A \<notin> set l \<and> CHR 0x0D \<notin> set l"
proof (induction ls arbitrary: n)
  case (Cons l ls)
  then show ?case using Cons.IH [of "Suc n"] by (simp add: menu_line_clean)
qed simp

lemma last_index_append_hit:
  "P x \<Longrightarrow> \<forall>y\<in>set ys. \<not> P y \<Longrightarrow> last_index P (xs @ x # ys) = Some (length xs)"
proof (induction xs)
  case Nil
  then have "last_index P ys = None" by (simp add: last_index_None)
  with Nil show ?case by simp
qed simp

lemma menu_lines_not_first:
  "list_all plain_label ls \<Longrightarrow> 2 \<le> n \<Longrightarrow> n + length ls \<le> 10 \<Longrightarrow>
   \<forall>l\<in>set (menu_lines cur n ls). map_option fst (parseChoiceLine l) \<noteq> Some 1"
proof (induction ls arbitrary: n)
  case (Cons l ls)
  then show ?case using Cons.IH [of "Suc n"] by (simp add: menu_line_parsed)
qed simp

lemma menu_choices_simps [simp]:
  "length (menu_choices n ls) = length ls"
  "map ch_Label (menu_choices n ls) = ls"
  by (induction ls arbitrary: n) simp_all

lemma menu_choices_plain: "list_all plain_label ls \<Longrightarrow> filter (\<lambda>c. \<not> is_service c) (menu_choices n ls) = menu_choices n ls"
  by (induction ls arbitrary: n) (simp_all add: is_service_def plain_label_def)

lemma split_service_plain:
  "list_all plain_label ls \<Longrightarrow>
   split_service (menu_choices n ls) r d = d\<lparr>dl_Choices := dl_Choices d @ menu_choices n ls\<rparr>"
proof (induction ls arbitrary: n d)
  case (Cons l ls)
  then show ?case by (simp add: plain_label_def Let_def)
qed simp

lemma menu_checkboxes:
  "ls \<noteq> [] \<Longrightarrow> allCheckboxes (menu_choices n ls) = list_all hasCheckbox ls"
proof -
  assume "ls \<noteq> []"
  moreover have "list_all (\<lambda>c. hasCheckbox (ch_Label c)) (menu_choices n ls) = list_all hasCheckbox (map ch_Label (menu_choices n ls))"
    unfolding list.pred_map comp_def ..
  ultimately show ?thesis by (simp add: allCheckboxes_def)
qed

text \<open>
  C40: a menu at the bottom of the screen is found. Below any text (a second menu included), two to
  five numbered lines with plain labels, at most one of them marked by the cursor, are read back as
  exactly those choices, in order, with the row of the cursor.
\<close>

theorem ParseDialog_finds_menu:
  assumes earlier: "\<forall>l\<in>set earlier. CHR 0x0A \<notin> set l \<and> CHR 0x0D \<notin> set l"
    and labels: "list_all plain_label labels" "minChoices \<le> length labels" "length labels \<le> MaxChoiceButtons"
    and cur: "cur \<le> length labels"
  shows "ParseDialog (Join (earlier @ menu_lines cur 1 labels) [CHR 0x0A]) =
    \<lparr>dl_Choices = menu_choices 1 labels, dl_Multi = list_all hasCheckbox labels, dl_TextEntry = 0,
     dl_TextLabel = [], dl_Cursor = cur, dl_SubmitRow = 0\<rparr>"
proof -
  obtain l ls where l: "labels = l # ls" using labels by (cases labels) (auto simp: minChoices_def)
  have ne: "labels \<noteq> []" by (simp add: l)
  have len: "length labels \<le> 5" using labels by (simp add: MaxChoiceButtons_def)
  have clean: "\<forall>l\<in>set (earlier @ menu_lines cur 1 labels). CHR 0x0A \<notin> set l \<and> CHR 0x0D \<notin> set l"
    using earlier menu_lines_clean [OF labels(1), of 1 cur] len by auto
  then have "CHR 0x0D \<notin> set (Join (earlier @ menu_lines cur 1 labels) [CHR 0x0A])"
    using set_Join [of "earlier @ menu_lines cur 1 labels" "[CHR 0x0A]"] by auto
  then have lines: "Split (ReplaceAll (Join (earlier @ menu_lines cur 1 labels) [CHR 0x0A]) [CHR 0x0D, CHR 0x0A] [CHR 0x0A]) (CHR 0x0A)
      = earlier @ menu_lines cur 1 labels"
    using clean l by (simp add: ReplaceAll_absent Split_Join)
  have start: "last_index (\<lambda>l. map_option fst (parseChoiceLine l) = Some 1) (earlier @ menu_lines cur 1 labels) = Some (length earlier)"
    using labels(1) len menu_lines_not_first [of ls 2 cur]
    by (simp add: l last_index_append_hit menu_line_parsed numeral_2_eq_2)
  have scan: "scan_lines (menu_lines cur 1 labels) [] 0 0 0 = Some (menu_choices 1 labels, cur, 0)"
    using scan_menu [OF labels(1), of "[]" cur 0] len cur by auto
  show ?thesis
    unfolding ParseDialog_def lines Let_def start
    using labels ne
    by (simp add: scan split_service_plain zeroDialog_def menu_checkboxes del: One_nat_def)
qed

theorem ParseDialog_finds_menu_witness:
  "ParseDialog (Join ([''1. old'', ''Proceed?''] @ menu_lines 2 1 [''Yes'', ''No'']) [CHR 0x0A]) =
    \<lparr>dl_Choices = menu_choices 1 [''Yes'', ''No''], dl_Multi = list_all hasCheckbox [''Yes'', ''No''],
     dl_TextEntry = 0, dl_TextLabel = [], dl_Cursor = 2, dl_SubmitRow = 0\<rparr>"
proof (rule ParseDialog_finds_menu)
  show "\<forall>l\<in>set [''1. old'', ''Proceed?'']. CHR 0x0A \<notin> set l \<and> CHR 0x0D \<notin> set l" by code_simp
  show "list_all plain_label [''Yes'', ''No'']" by code_simp
  show "minChoices \<le> length [''Yes'', ''No'']" by code_simp
  show "length [''Yes'', ''No''] \<le> MaxChoiceButtons" by code_simp
  show "2 \<le> length [''Yes'', ''No'']" by simp
qed

section \<open>What the frame cut removes\<close>

lemma walk_up_spec:
  "n \<le> length xs \<Longrightarrow>
   walk_up P xs n \<le> n \<and> (\<forall>i. walk_up P xs n \<le> i \<and> i < n \<longrightarrow> P (xs ! i))
   \<and> (0 < walk_up P xs n \<longrightarrow> \<not> P (xs ! (walk_up P xs n - 1)))"
  by (induction n) (auto simp: less_Suc_eq)

lemma walk_up_le: "walk_up P xs n \<le> n"
  by (induction n) auto

lemma walk_up_stretch:
  assumes "n \<le> length xs" shows "list_all P (take (n - walk_up P xs n) (drop (walk_up P xs n) xs))"
  using walk_up_spec [OF assms, of P] assms by (auto simp: list_all_length)

text \<open>The bottom of the screen as the frame has it: the box, a status line, hint lines.\<close>

definition is_frame :: "string list \<Rightarrow> string list \<Rightarrow> string list \<Rightarrow> bool" where
  "is_frame box status hints \<longleftrightarrow>
     (box = [] \<or> (\<exists>a b c. box = [a, b, c] \<and> isChromeRule a \<and> isChromePromptRow b \<and> isChromeRule c))
     \<and> length status \<le> 1 \<and> list_all isChromeStatus status
     \<and> list_all isChromeHint hints \<and> (box = [] \<longrightarrow> hints \<noteq> [])"

lemma take_three: "3 \<le> n \<Longrightarrow> n \<le> length xs \<Longrightarrow> take 3 (drop (n - 3) xs) = [xs ! (n - 3), xs ! (n - 2), xs ! (n - 1)]"
  by (rule nth_equalityI) (auto simp: less_Suc_eq numeral_3_eq_3 nth_Cons' numeral_2_eq_2 Suc_diff_Suc)

lemma split_at: "a \<le> b \<Longrightarrow> drop a xs = take (b - a) (drop a xs) @ drop b xs"
  by (metis append_take_drop_id drop_drop le_add_diff_inverse2)

text \<open>
  cutting the input frame. Nothing but the frame goes: either the text comes back untouched, or
  its lines are the lines kept, then the frame (the boxed prompt, one status line, the hints, in this
  order, and never a status line alone), then blank lines; the count is the number of frame lines.
\<close>

theorem CutChrome_removes_frame:
  "CutChrome text = (text, 0)
   \<or> (\<exists>kept box status hints blank. Split text (CHR 0x0A) = kept @ box @ status @ hints @ blank
        \<and> is_frame box status hints \<and> list_all (\<lambda>l. TrimSpace l = []) blank
        \<and> CutChrome text = (Join kept [CHR 0x0A], length box + length status + length hints))"
proof (cases "CutChrome text = (text, 0)")
  case False
  define ls where "ls = Split text (CHR 0x0A)"
  define e where "e = walk_up (\<lambda>l. TrimSpace l = []) ls (length ls)"
  define c where "c = walk_up isChromeHint ls e"
  define st where "st = (c > 0 \<and> isChromeStatus (ls ! (c - 1)))"
  define t where "t = (if st then c - 1 else c)"
  define bx where "bx = isChromeBox ls t"
  define cut where "cut = (if bx then t - 3 else if st \<and> e - c > 0 then t else c)"
  have eq: "CutChrome text = (if text = [] \<or> e - cut = 0 then (text, 0) else (Join (take cut ls) [CHR 0x0A], e - cut))"
    unfolding CutChrome_def Let_def
    by (simp only: ls_def [symmetric] e_def [symmetric] c_def [symmetric] st_def [symmetric]
        t_def [symmetric] bx_def [symmetric] cut_def [symmetric]) simp
  have le: "e \<le> length ls" "c \<le> e" "t \<le> c" by (simp_all add: e_def c_def t_def walk_up_le)
  have cutt: "cut \<le> t \<or> (\<not> bx \<and> \<not> (st \<and> e - c > 0) \<and> cut = c)" by (auto simp: cut_def)
  have pos: "cut < e" using False eq by (auto split: if_splits)
  have tt: "bx \<or> (st \<and> e - c > 0) \<or> (\<not> st \<and> t = c)" "cut \<le> t"
    using pos le by (auto simp: cut_def t_def split: if_splits)
  have blank: "list_all (\<lambda>l. TrimSpace l = []) (drop e ls)"
    using walk_up_stretch [of "length ls" ls "\<lambda>l. TrimSpace l = []"] by (simp add: e_def)
  have hints: "list_all isChromeHint (take (e - c) (drop c ls))"
    using walk_up_stretch [OF le(1), of isChromeHint] by (simp add: c_def)
  have status: "length (take (c - t) (drop t ls)) \<le> 1" "list_all isChromeStatus (take (c - t) (drop t ls))"
    using le by (auto simp: t_def st_def take_Suc_conv_app_nth list_all_length)
  have box: "take (t - cut) (drop cut ls) = [] \<or>
      (\<exists>a b d. take (t - cut) (drop cut ls) = [a, b, d] \<and> isChromeRule a \<and> isChromePromptRow b \<and> isChromeRule d)"
  proof (cases bx)
    case True
    then have three: "3 \<le> t" by (simp add: bx_def isChromeBox_def)
    have "take (t - cut) (drop cut ls) = [ls ! (t - 3), ls ! (t - 2), ls ! (t - 1)]"
      using True three le take_three [of t ls] by (simp add: cut_def)
    then show ?thesis using True by (auto simp: bx_def isChromeBox_def)
  next
    case False
    then have "cut = t" using tt by (auto simp: cut_def)
    then show ?thesis by simp
  qed
  have three: "bx \<Longrightarrow> 3 \<le> t" by (simp add: bx_def isChromeBox_def)
  have "is_frame (take (t - cut) (drop cut ls)) (take (c - t) (drop t ls)) (take (e - c) (drop c ls))"
    using box status hints pos le tt three by (auto simp: is_frame_def cut_def split: if_splits)
  moreover have "ls = take cut ls @ take (t - cut) (drop cut ls) @ take (c - t) (drop t ls) @ take (e - c) (drop c ls) @ drop e ls"
    using split_at [of cut t ls] split_at [of t c ls] split_at [of c e ls] tt(2) le by simp
  moreover have "CutChrome text = (Join (take cut ls) [CHR 0x0A], length (take (t - cut) (drop cut ls))
      + length (take (c - t) (drop t ls)) + length (take (e - c) (drop c ls)))"
    using False eq le tt(2) by (auto split: if_splits)
  ultimately show ?thesis using blank unfolding ls_def [symmetric] by blast
qed blast

end
