(* ===== verification/Posts.thy ===== *)
theory Posts
  imports Dialog Ports
begin

text \<open>
  The texts of posts: the pure functions of \<^verbatim>\<open>internal/app/outbound.go\<close> and \<^verbatim>\<open>links.go\<close> that turn a screen into a
  post, a dialog into buttons and a pressed button back into a choice, and the summary line of a turn,
  \<^verbatim>\<open>internal/domain/turnmeta.go\<close>.
\<close>

section \<open>Symbols\<close>

definition middleDot :: string where "middleDot = [CHR '' '', CHR 0xC2, CHR 0xB7, CHR '' '']"
definition ellipsis :: string where "ellipsis = [CHR 0xE2, CHR 0x80, CHR 0xA6]"
definition checkMark :: string where "checkMark = [CHR 0xE2, CHR 0x9C, CHR 0x94]"
definition whiteCheck :: string where "whiteCheck = [CHR 0xE2, CHR 0x9C, CHR 0x85]"
definition pencil :: string where "pencil = [CHR 0xE2, CHR 0x9C, CHR 0x8F, CHR 0xEF, CHR 0xB8, CHR 0x8F]"
definition questionMark :: string where "questionMark = [CHR 0xE2, CHR 0x9D, CHR 0x93]"
definition warningSign :: string where "warningSign = [CHR 0xE2, CHR 0x9A, CHR 0xA0, CHR 0xEF, CHR 0xB8, CHR 0x8F]"
definition stopwatch :: string where "stopwatch = [CHR 0xE2, CHR 0x8F, CHR 0xB1]"
definition upArrow :: string where "upArrow = [CHR 0xE2, CHR 0x86, CHR 0x91]"
definition keycapMarks :: string where "keycapMarks = [CHR 0xEF, CHR 0xB8, CHR 0x8F, CHR 0xE2, CHR 0x83, CHR 0xA3]"

abbreviation (input) NL :: char where "NL \<equiv> CHR 0x0A"

lemmas symbol_defs = middleDot_def ellipsis_def checkMark_def whiteCheck_def pencil_def questionMark_def
  warningSign_def stopwatch_def upArrow_def keycapMarks_def

section \<open>Screens\<close>

text \<open>\<^verbatim>\<open>html.EscapeString\<close> of Go's library.\<close>

definition html_char :: "char \<Rightarrow> string" where
  "html_char c =
     (if c = CHR ''&'' then ''&amp;'' else if c = CHR 0x27 then ''&#39;'' else if c = CHR ''<'' then ''&lt;''
      else if c = CHR ''>'' then ''&gt;'' else if c = CHR 0x22 then ''&#34;'' else [c])"

definition EscapeString :: "string \<Rightarrow> string" where
  "EscapeString s = concat (map html_char s)"

definition preHTML :: "string \<Rightarrow> string" where
  "preHTML s = ''<pre>'' @ EscapeString s @ ''</pre>''"

definition screenLines :: "string \<Rightarrow> string list" where
  "screenLines s = map (\<lambda>l. TrimRight l [CHR '' '', CHR 0x09, CHR 0x0D]) (Split (ReplaceAll s [CHR 0x0D, NL] [NL]) NL)"

definition trimScreen :: "string \<Rightarrow> string" where
  "trimScreen s = Join (trim_both (\<lambda>l. l = []) (screenLines s)) [NL]"

definition cleanScreen :: "string \<Rightarrow> bool \<Rightarrow> string \<times> nat" where
  "cleanScreen s chrome =
     (let t = trimScreen s
      in if \<not> chrome then (t, 0)
         else let (c, n) = CutChrome t in if n = 0 then (t, 0) else (trimScreen c, n))"

definition lastLines :: "string \<Rightarrow> nat \<Rightarrow> string" where
  "lastLines s n =
     (let lines = screenLines (TrimSpace s)
      in trimScreen (Join (if length lines > n then drop (length lines - n) lines else lines) [NL]))"

text \<open>\<^verbatim>\<open>strings.Count(text, "\n") + 1\<close>.\<close>

definition line_count :: "string \<Rightarrow> nat" where
  "line_count s = Count s [NL] + 1"

definition betterCapture :: "string \<Rightarrow> string \<Rightarrow> string \<times> bool" where
  "betterCapture first second =
     (let a = length (ParseChoices first); b = length (ParseChoices second)
      in if b > a then (second, True)
         else if a > b then (first, False)
         else if length second > length first then (second, True)
         else (first, False))"

section \<open>Buttons\<close>

definition choiceLabelRunes :: nat where "choiceLabelRunes = 60"
definition typingHeadRunes :: nat where "typingHeadRunes = 30"
definition pagerLines :: nat where "pagerLines = 6"

definition submitData :: string where "submitData = ''enter''"
definition textEntryPrefix :: string where "textEntryPrefix = ''t:''"
definition doneData :: string where "doneData = ''done''"

definition button :: "string \<Rightarrow> string \<Rightarrow> Button" where
  "button label data = \<lparr>bt_Text = label, bt_Data = data, bt_Row = 0\<rparr>"

definition keycap :: "nat \<Rightarrow> string" where
  "keycap n = Itoa (int n) @ keycapMarks"

definition cutLabel :: "string \<Rightarrow> string" where
  "cutLabel label =
     (if RuneCountInString label \<le> choiceLabelRunes then label
      else TrimSpace (string_of_runes (take (choiceLabelRunes - 1) (runes label))) @ ellipsis)"

definition headOf :: "string \<Rightarrow> nat \<Rightarrow> string" where
  "headOf s n =
     (let t = Join (Fields s) '' ''
      in if RuneCountInString t \<le> n then t
         else TrimSpace (string_of_runes (take (n - 1) (runes t))) @ ellipsis)"

definition choiceButtons :: "Dialog \<Rightarrow> Button list" where
  "choiceButtons d =
     (if dl_Choices d = [] then []
      else map (\<lambda>c. button (keycap (ch_Number c) @ '' '' @ cutLabel (ch_Label c)) (Itoa (int (ch_Number c)))) (dl_Choices d)
           @ (if dl_Multi d then [button (checkMark @ '' Submit'') submitData] else [])
           @ (if dl_TextEntry d > 0
              then [button (pencil @ '' '' @ dl_TextLabel d) (textEntryPrefix @ Itoa (int (dl_TextEntry d)))] else []))"

datatype pressKind = pressUnknown | pressDigit | pressSubmit | pressText

definition pressKindOf :: "string \<Rightarrow> pressKind \<times> nat" where
  "pressKindOf data =
     (if data = submitData then (pressSubmit, 0)
      else let (kind, d) = (if HasPrefix data textEntryPrefix then (pressText, TrimPrefix data textEntryPrefix)
                            else (pressDigit, data))
           in case Atoi d of
                None \<Rightarrow> (pressUnknown, 0)
              | Some n \<Rightarrow> if n < 1 \<or> n > 9 then (pressUnknown, 0) else (kind, nat n))"

section \<open>Links and the pager\<close>

definition topicLink :: "int \<Rightarrow> int \<Rightarrow> string" where
  "topicLink chatID threadID =
     (let i = (if chatID < 0 then wrap64 (- chatID) else chatID)
      in ''https://t.me/c/'' @ TrimPrefix (Itoa i) ''100'' @ ''/'' @ Itoa threadID)"

definition messageLink :: "int \<Rightarrow> int \<Rightarrow> int \<Rightarrow> string" where
  "messageLink chatID threadID messageID = topicLink chatID threadID @ ''/'' @ Itoa messageID"

definition pagerText :: "string \<Rightarrow> string \<Rightarrow> Dialog \<Rightarrow> string \<Rightarrow> string" where
  "pagerText label screen d link =
     questionMark @ '' <b>'' @ EscapeString label @ ''</b> is waiting for you'' @ [NL]
     @ (if dl_Choices d \<noteq> []
        then concat (map (\<lambda>c. Itoa (int (ch_Number c)) @ ''. '' @ EscapeString (ch_Label c) @ [NL]) (dl_Choices d))
        else (let t = lastLines screen pagerLines
              in if t \<noteq> [] then ''<pre>'' @ EscapeString t @ ''</pre>'' @ [NL] else []))
     @ ''<a href='' @ [CHR 0x22] @ link @ [CHR 0x22] @ ''>open the topic</a>''"

section \<open>The summary line of a turn\<close>

definition tm_Duration :: "TurnMeta \<Rightarrow> duration option" where
  "tm_Duration m =
     (if IsZero (tm_Started m) \<or> IsZero (tm_Ended m) \<or> \<not> tm_Ended m > tm_Started m then None
      else Some (time_Sub (tm_Ended m) (tm_Started m)))"

text \<open>\<^verbatim>\<open>Duration.Round\<close> of a duration that is not negative.\<close>

definition duration_Round :: "duration \<Rightarrow> duration \<Rightarrow> duration" where
  "duration_Round d m =
     (let r = d mod m
      in if 2 * r < m then d - r else if d + m - r \<le> maxInt64 then d + m - r else maxInt64)"

definition formatTurnDuration :: "duration \<Rightarrow> string" where
  "formatTurnDuration d =
     (if d < Minute then Itoa (go_div (duration_Round d Second) Second) @ '' s''
      else let m = max 1 (go_div (duration_Round d Minute) Minute)
           in if m < 60 then Itoa m @ '' min''
              else if m mod 60 > 0 then Itoa (m div 60) @ '' h '' @ Itoa (m mod 60) @ '' min''
              else Itoa (m div 60) @ '' h'')"

text \<open>
  \<^verbatim>\<open>%.1f\<close> of \<open>float64(n)/1000\<close> for \<open>1000 \<le> n < 16000\<close>: the quotient rounded to the 53 bits of a double, then that
  double rounded to tenths, both to the nearest, ties to even.
\<close>

definition round_even :: "int \<Rightarrow> int \<Rightarrow> int" where
  "round_even a b =
     (let q = a div b; r = a mod b
      in if 2 * r < b \<or> (2 * r = b \<and> even q) then q else q + 1)"

definition double_shift :: "int \<Rightarrow> nat" where
  "double_shift n = (if n < 2000 then 52 else if n < 4000 then 51 else if n < 8000 then 50 else 49)"

definition thousands_tenths :: "int \<Rightarrow> int" where
  "thousands_tenths n =
     (let s = double_shift n in round_even (10 * round_even (n * 2 ^ s) 1000) (2 ^ s))"

definition formatTokens :: "int \<Rightarrow> string" where
  "formatTokens n =
     (if n < 1000 then Itoa n
      else if n < 9950 then Itoa (thousands_tenths n div 10) @ ''.'' @ Itoa (thousands_tenths n mod 10) @ ''k''
      else Itoa ((n + 500) div 1000) @ ''k'')"

definition isDateSegment :: "string \<Rightarrow> bool" where
  "isDateSegment s \<longleftrightarrow> length s = 8 \<and> list_all is_digit s"

definition ShortModel :: "string \<Rightarrow> string" where
  "ShortModel model =
     (let m = TrimPrefix (TrimSpace model) ''claude-''
      in case last_index (\<lambda>c. c = CHR ''-'') m of
           Some i \<Rightarrow> if i > 0 \<and> isDateSegment (drop (Suc i) m) then take i m else m
         | None \<Rightarrow> m)"

definition meta_parts :: "TurnMeta \<Rightarrow> string list" where
  "meta_parts m =
     (case tm_Duration m of Some d \<Rightarrow> [stopwatch @ '' '' @ formatTurnDuration d] | None \<Rightarrow> [])
     @ (let model = ShortModel (tm_Model m) in if model \<noteq> [] then [model] else [])
     @ (let n = length (tm_Files m)
        in if n = 1 then [pencil @ '' 1 file''] else if n > 1 then [pencil @ '' '' @ Itoa (int n) @ '' files''] else [])
     @ (if tm_OutputTokens m > 0 then [upArrow @ '' '' @ formatTokens (tm_OutputTokens m) @ '' tokens''] else [])"

definition TurnMeta_Line :: "TurnMeta \<Rightarrow> string" where
  "TurnMeta_Line m = Join (meta_parts m) middleDot"

section \<open>Buttons and presses\<close>

lemma Itoa_digit: "n < 10 \<Longrightarrow> Itoa (int n) = [digit_char n]"
  by (simp add: Itoa_def nat_digits.simps)

lemma Itoa_digit_press:
  assumes "1 \<le> n" "n \<le> 9" shows "pressKindOf (Itoa (int n)) = (pressDigit, n)"
    and "pressKindOf (textEntryPrefix @ Itoa (int n)) = (pressText, n)"
proof -
  have a: "Atoi (Itoa (int n)) = Some (int n)" using assms by (intro Atoi_Itoa) (simp add: in_int64_def minInt64_def maxInt64_def)
  have d: "is_digit (digit_char n)" using assms by (simp add: is_digit_digit_char)
  have "digit_char n \<noteq> CHR ''t''" using d by (auto simp: is_digit_def)
  then show "pressKindOf (Itoa (int n)) = (pressDigit, n)"
    using assms a by (simp add: pressKindOf_def submitData_def textEntryPrefix_def HasPrefix_def Itoa_digit)
  show "pressKindOf (textEntryPrefix @ Itoa (int n)) = (pressText, n)"
    using assms a by (simp add: pressKindOf_def submitData_def textEntryPrefix_def HasPrefix_def TrimPrefix_def)
qed

lemma pressKindOf_submit: "pressKindOf submitData = (pressSubmit, 0)"
  by (simp add: pressKindOf_def)

text \<open>What a press can stand for.\<close>

definition press_meanings :: "Dialog \<Rightarrow> (pressKind \<times> nat) list" where
  "press_meanings d =
     (if dl_Choices d = [] then []
      else map (\<lambda>c. (pressDigit, ch_Number c)) (dl_Choices d)
           @ (if dl_Multi d then [(pressSubmit, 0)] else [])
           @ (if dl_TextEntry d > 0 then [(pressText, dl_TextEntry d)] else []))"

lemma buttons_press_ok:
  assumes "dialog_ok d"
  shows "map (\<lambda>b. pressKindOf (bt_Data b)) (choiceButtons d) = press_meanings d"
proof -
  have "1 \<le> ch_Number c \<and> ch_Number c \<le> 9" if "c \<in> set (dl_Choices d)" for c
    using assms that by (auto simp: dialog_ok_def list_all_iff)
  moreover have "dl_TextEntry d \<le> 9" using assms by (simp add: dialog_ok_def)
  ultimately show ?thesis
    by (auto simp: choiceButtons_def press_meanings_def button_def pressKindOf_submit Itoa_digit_press)
qed

text \<open>
  a press is read back as the button it was drawn for. The keyboard under the post of any screen carries, in
  order, the digits of the options, the submit row of a multi-select dialog and the free-text entry; the callback
  data of each button is decoded by \<open>pressKindOf\<close> to exactly its option, and no two buttons of a keyboard share
  their data.
\<close>

theorem buttons_press_roundtrip:
  "map (\<lambda>b. pressKindOf (bt_Data b)) (choiceButtons (ParseDialog screen)) = press_meanings (ParseDialog screen)
   \<and> distinct (map bt_Data (choiceButtons (ParseDialog screen)))"
proof (cases "dialog_ok (ParseDialog screen)")
  case True
  then have eq: "map (\<lambda>b. pressKindOf (bt_Data b)) (choiceButtons (ParseDialog screen)) = press_meanings (ParseDialog screen)"
    by (rule buttons_press_ok)
  have "sorted_wrt (<) (map ch_Number (dl_Choices (ParseDialog screen)))" using True by (simp add: dialog_ok_def)
  then have "distinct (map ch_Number (dl_Choices (ParseDialog screen)))" by (simp add: strict_sorted_iff)
  then have "distinct (press_meanings (ParseDialog screen))"
    by (auto simp: press_meanings_def distinct_map inj_on_def)
  then have "distinct (map (\<lambda>b. pressKindOf (bt_Data b)) (choiceButtons (ParseDialog screen)))" by (simp add: eq)
  then have "distinct (map bt_Data (choiceButtons (ParseDialog screen)))"
    by (auto simp: distinct_map inj_on_def)
  with eq show ?thesis by simp
next
  case False
  then have "ParseDialog screen = zeroDialog" using ParseDialog_cases [of screen] by blast
  then show ?thesis by (simp add: choiceButtons_def press_meanings_def zeroDialog_def)
qed

end
