(* ===== verification/History.thy ===== *)
theory History
  imports Go_Strings
begin

text \<open>
  The output of one agent accumulated from screen snapshots (\<^verbatim>\<open>internal/domain/history.go\<close>). The
  aggregate is a record passed through the operations; \<^verbatim>\<open>Append\<close> returns the new state beside its
  three results, its deferred function included.
\<close>

section \<open>State and operations\<close>

definition HistoryLiveLines :: nat where "HistoryLiveLines = 8"
definition HistoryAnchorWindow :: nat where "HistoryAnchorWindow = 6"
definition HistoryAnchorLines :: nat where "HistoryAnchorLines = 3"
definition HistoryMaxLines :: nat where "HistoryMaxLines = 2000"
definition HistoryMaxBytes :: int where "HistoryMaxBytes = 262144"

text \<open>The ellipsis U+2026.\<close>

definition HistoryGapMarker :: string where
  "HistoryGapMarker = [CHR 0xE2, CHR 0x80, CHR 0xA6]"

record History =
  hs_committed :: "string list"
  hs_bytes :: int
  hs_prev :: "string list"
  hs_tail :: "string list"
  hs_mark :: int
  hs_truncated :: bool

definition NewHistory :: History where
  "NewHistory = \<lparr>hs_committed = [], hs_bytes = 0, hs_prev = [], hs_tail = [], hs_mark = -1, hs_truncated = False\<rparr>"

definition splitLive :: "string list \<Rightarrow> string list \<times> string list" where
  "splitLive lines =
     (if length lines \<le> HistoryLiveLines then ([], lines)
      else let c = length lines - HistoryLiveLines in (take c lines, drop c lines))"

text \<open>The counting loop of \<open>aligned\<close>: the lines with text and those of them that are equal.\<close>

definition anchor_text :: "string list \<Rightarrow> nat \<Rightarrow> nat list" where
  "anchor_text overlap window = filter (\<lambda>i. TrimSpace (overlap ! i) \<noteq> []) [0..<window]"

definition aligned :: "string list \<Rightarrow> string list \<Rightarrow> bool" where
  "aligned overlap stab =
     (let window = (if length overlap > HistoryAnchorWindow then HistoryAnchorWindow else length overlap);
          txt = length (anchor_text overlap window);
          hits = length (filter (\<lambda>i. overlap ! i = stab ! i) (anchor_text overlap window))
      in if txt = 0 then False
         else let need = (if txt < HistoryAnchorLines then txt else HistoryAnchorLines) in hits \<ge> need)"

definition line_bytes :: "string list \<Rightarrow> int" where
  "line_bytes ls = (\<Sum>l\<leftarrow>ls. int (length l) + 1)"

definition commit :: "string list \<Rightarrow> History \<Rightarrow> History" where
  "commit lines h = h\<lparr>hs_bytes := hs_bytes h + line_bytes lines, hs_committed := hs_committed h @ lines\<rparr>"

definition cut :: "nat \<Rightarrow> History \<Rightarrow> History" where
  "cut n h = h\<lparr>hs_bytes := hs_bytes h - line_bytes (drop n (hs_committed h)),
               hs_committed := take n (hs_committed h)\<rparr>"

text \<open>The loop of \<open>trim\<close>: how many lines go from the front, and the bytes left.\<close>

fun trim_loop :: "string list \<Rightarrow> int \<Rightarrow> nat \<times> int" where
  "trim_loop [] bytes = (0, bytes)"
| "trim_loop (l # ls) bytes =
     (if length (l # ls) > HistoryMaxLines \<or> bytes > HistoryMaxBytes
      then let (d, b) = trim_loop ls (bytes - (int (length l) + 1)) in (Suc d, b)
      else (0, bytes))"

definition trim :: "History \<Rightarrow> History" where
  "trim h =
     (let (dropped, bytes) = trim_loop (hs_committed h) (hs_bytes h)
      in if dropped = 0 then h
         else let h1 = h\<lparr>hs_committed := drop dropped (hs_committed h), hs_bytes := bytes\<rparr>
              in if hs_mark h \<ge> 0
                 then let m = hs_mark h - int dropped
                      in if m < 0 then h1\<lparr>hs_mark := 0, hs_truncated := True\<rparr> else h1\<lparr>hs_mark := m\<rparr>
                 else h1\<lparr>hs_truncated := True\<rparr>)"

text \<open>The search of \<open>Append\<close> for the first shift whose overlap is aligned with the new screen.\<close>

fun find_shift :: "string list \<Rightarrow> string list \<Rightarrow> nat \<Rightarrow> (nat \<times> string list) option" where
  "find_shift [] stab shift = None"
| "find_shift (p # ps) stab shift =
     (if length (p # ps) > length stab then find_shift ps stab (Suc shift)
      else if \<not> aligned (p # ps) stab then find_shift ps stab (Suc shift)
      else Some (shift, p # ps))"

record AppendResult =
  ar_added :: nat
  ar_shift :: nat
  ar_gap :: bool

definition Append :: "string list \<Rightarrow> History \<Rightarrow> AppendResult \<times> History" where
  "Append lines h0 =
     (let (stab, tla) = splitLive lines; h = h0\<lparr>hs_tail := tla\<rparr>
      in if length stab = 0 then (\<lparr>ar_added = 0, ar_shift = 0, ar_gap = False\<rparr>, h)
         else let deferred = (\<lambda>h. trim (h\<lparr>hs_prev := stab\<rparr>))
              in if length (hs_prev h) = 0
                 then (\<lparr>ar_added = length stab, ar_shift = 0, ar_gap = False\<rparr>, deferred (commit stab h))
                 else case find_shift (hs_prev h) stab 0 of
                   Some (shift, overlap) \<Rightarrow>
                     let keep0 = int (length (hs_committed h)) - int (length overlap);
                         keep = (if keep0 < 0 then 0 else nat keep0);
                         skip = (if keep0 < 0 then nat (- keep0) else 0)
                     in (\<lparr>ar_added = length stab - length overlap, ar_shift = shift, ar_gap = False\<rparr>,
                         deferred (commit (drop skip stab) (cut keep h)))
                 | None \<Rightarrow>
                     (\<lparr>ar_added = length stab, ar_shift = length (hs_prev h), ar_gap = True\<rparr>,
                      deferred (commit stab (commit [HistoryGapMarker] h))))"

definition Mark :: "History \<Rightarrow> History" where
  "Mark h = h\<lparr>hs_mark := int (length (hs_committed h)), hs_truncated := False\<rparr>"

definition Marked :: "History \<Rightarrow> bool" where
  "Marked h \<longleftrightarrow> hs_mark h \<ge> 0"

definition Len :: "History \<Rightarrow> nat" where
  "Len h = length (hs_committed h)"

definition CommittedTail :: "int \<Rightarrow> History \<Rightarrow> string list" where
  "CommittedTail n h =
     (if n \<le> 0 then []
      else let m = (if n > int (length (hs_committed h)) then length (hs_committed h) else nat n)
           in drop (length (hs_committed h) - m) (hs_committed h))"

definition Lines :: "History \<Rightarrow> string list" where
  "Lines h =
     (let start0 = (if hs_mark h > 0 then nat (hs_mark h) else 0);
          start = (if start0 > length (hs_committed h) then length (hs_committed h) else start0)
      in (if hs_truncated h then [HistoryGapMarker] else []) @ drop start (hs_committed h) @ hs_tail h)"

section \<open>The caps\<close>

lemma line_bytes_simps [simp]:
  "line_bytes [] = 0" "line_bytes (l # ls) = int (length l) + 1 + line_bytes ls"
  "line_bytes (xs @ ys) = line_bytes xs + line_bytes ys"
  by (simp_all add: line_bytes_def)

lemma line_bytes_nonneg: "0 \<le> line_bytes ls"
  by (induction ls) auto

lemma trim_loop_spec:
  "trim_loop ls b = (d, b') \<Longrightarrow>
   d \<le> length ls \<and> b' = b - line_bytes (take d ls)
   \<and> (d < length ls \<longrightarrow> length ls - d \<le> HistoryMaxLines \<and> b' \<le> HistoryMaxBytes)
   \<and> (\<forall>k<d. length ls - k > HistoryMaxLines \<or> b - line_bytes (take k ls) > HistoryMaxBytes)"
proof (induction ls arbitrary: b d b')
  case (Cons l ls)
  show ?case
  proof (cases "length (l # ls) > HistoryMaxLines \<or> b > HistoryMaxBytes")
    case True
    then obtain d0 where d0: "trim_loop ls (b - (int (length l) + 1)) = (d0, b')" "d = Suc d0"
      using Cons.prems by (auto split: prod.splits)
    have "\<forall>k<d. length (l # ls) - k > HistoryMaxLines \<or> b - line_bytes (take k (l # ls)) > HistoryMaxBytes"
    proof (intro allI impI)
      fix k assume "k < d"
      then show "length (l # ls) - k > HistoryMaxLines \<or> b - line_bytes (take k (l # ls)) > HistoryMaxBytes"
        using Cons.IH [OF d0(1)] True d0(2) by (cases k) (auto simp: algebra_simps)
    qed
    then show ?thesis using Cons.IH [OF d0(1)] d0(2) by auto
  next
    case False
    then show ?thesis using Cons.prems by auto
  qed
qed auto

text \<open>The well-formedness of a history between two operations.\<close>

definition hist_ok :: "History \<Rightarrow> bool" where
  "hist_ok h \<longleftrightarrow> hs_bytes h = line_bytes (hs_committed h)
     \<and> -1 \<le> hs_mark h \<and> hs_mark h \<le> int (length (hs_committed h))
     \<and> length (hs_committed h) \<le> HistoryMaxLines \<and> hs_bytes h \<le> HistoryMaxBytes"

text \<open>The same without the caps: what holds before \<open>trim\<close>.\<close>

definition hist_pre :: "History \<Rightarrow> bool" where
  "hist_pre h \<longleftrightarrow> hs_bytes h = line_bytes (hs_committed h)
     \<and> -1 \<le> hs_mark h \<and> hs_mark h \<le> int (length (hs_committed h))"

lemma trim_ok [inv_intros]:
  assumes "hist_pre h" shows "hist_ok (trim h)"
proof -
  obtain d b where db: "trim_loop (hs_committed h) (hs_bytes h) = (d, b)" by fastforce
  note spec = trim_loop_spec [OF db]
  have lb: "b = line_bytes (drop d (hs_committed h))"
    using spec assms line_bytes_simps(3) [of "take d (hs_committed h)" "drop d (hs_committed h)"]
    by (simp add: hist_pre_def)
  have caps: "length (hs_committed h) - d \<le> HistoryMaxLines" "b \<le> HistoryMaxBytes"
    using spec lb by (cases "d < length (hs_committed h)"; simp add: HistoryMaxBytes_def)+
  show ?thesis
  proof (cases "d = 0")
    case True
    then show ?thesis using assms db caps lb by (simp add: trim_def hist_ok_def hist_pre_def)
  next
    case False
    then show ?thesis using assms db caps lb spec
      by (auto simp: trim_def hist_ok_def hist_pre_def Let_def)
  qed
qed

lemma commit_pre [inv_intros]: "hist_pre h \<Longrightarrow> hist_pre (commit ls h)"
  by (simp add: hist_pre_def commit_def)

lemma find_shift_Some:
  "find_shift ps stab s = Some (s', ov) \<Longrightarrow>
   s \<le> s' \<and> s' - s < length ps \<and> ov = drop (s' - s) ps \<and> length ov \<le> length stab \<and> aligned ov stab"
proof (induction ps arbitrary: s)
  case (Cons p ps)
  show ?case
  proof (cases "length (p # ps) > length stab \<or> \<not> aligned (p # ps) stab")
    case True
    then have "find_shift ps stab (Suc s) = Some (s', ov)" using Cons.prems by (auto split: if_splits)
    note ih = Cons.IH [OF this]
    then obtain k where "s' = Suc s + k" using le_Suc_ex by blast
    then show ?thesis using ih by auto
  next
    case False
    then show ?thesis using Cons.prems by auto
  qed
qed simp

text \<open>Replacing the overlap by its fresh version keeps the index of the mark meaningful.\<close>

lemma replace_pre [inv_intros]:
  assumes "hist_pre h" "n \<le> length (hs_committed h)" "length (hs_committed h) \<le> n + length ls"
  shows "hist_pre (commit ls (cut n h))"
  using assms line_bytes_simps(3) [of "take n (hs_committed h)" "drop n (hs_committed h)"]
  by (simp add: hist_pre_def commit_def cut_def)

lemma hist_ok_pre: "hist_ok h \<Longrightarrow> hist_pre h"
  by (simp add: hist_ok_def hist_pre_def)

lemma hist_pre_fields [simp]: "hist_pre (h\<lparr>hs_prev := p\<rparr>) = hist_pre h" "hist_pre (h\<lparr>hs_tail := t\<rparr>) = hist_pre h"
  by (simp_all add: hist_pre_def)

lemma splitLive_length: "splitLive ls = (st, tla) \<Longrightarrow> ls = st @ tla \<and> (st \<noteq> [] \<longrightarrow> length tla = HistoryLiveLines)"
  by (auto simp: splitLive_def Let_def split: if_splits)

text \<open>The state after \<open>Append\<close>, by the branch the code takes.\<close>

lemma Append_state:
  assumes "splitLive ls = (st, tla)" "st \<noteq> []"
  shows "snd (Append ls h) = trim ((case (if hs_prev h = [] then None else find_shift (hs_prev h) st 0) of
      Some (s, ov) \<Rightarrow> commit (drop (length ov - length (hs_committed h)) st)
                        (cut (length (hs_committed h) - length ov) (h\<lparr>hs_tail := tla\<rparr>))
    | None \<Rightarrow> if hs_prev h = [] then commit st (h\<lparr>hs_tail := tla\<rparr>)
              else commit st (commit [HistoryGapMarker] (h\<lparr>hs_tail := tla\<rparr>)))\<lparr>hs_prev := st\<rparr>)"
  using assms by (auto simp: Append_def Let_def nat_diff_distrib split: option.splits prod.splits)

lemma Append_ok [inv_intros]:
  assumes "hist_ok h" shows "hist_ok (snd (Append ls h))"
proof -
  obtain st tla where sp: "splitLive ls = (st, tla)" by fastforce
  show ?thesis
  proof (cases "st = []")
    case True
    then show ?thesis using assms sp by (simp add: Append_def hist_ok_def)
  next
    case False
    have pre: "hist_pre (h\<lparr>hs_tail := tla\<rparr>)" using hist_ok_pre [OF assms] by simp
    have "hist_pre (commit (drop (length ov - length (hs_committed h)) st)
            (cut (length (hs_committed h) - length ov) (h\<lparr>hs_tail := tla\<rparr>)))"
      if "find_shift (hs_prev h) st 0 = Some (s, ov)" for s ov
      using find_shift_Some [OF that] by (intro replace_pre pre) auto
    then show ?thesis unfolding Append_state [OF sp False]
      using commit_pre [OF pre] commit_pre [OF commit_pre [OF pre]]
      by (auto intro!: trim_ok split: option.splits)
  qed
qed

lemma Mark_ok [inv_intros]: "hist_ok h \<Longrightarrow> hist_ok (Mark h)"
  by (simp add: hist_ok_def Mark_def)

lemma NewHistory_ok [inv_intros]: "hist_ok NewHistory"
  by (simp add: NewHistory_def hist_ok_def HistoryMaxBytes_def)

text \<open>A history is only ever made by \<open>NewHistory\<close> and changed by \<open>Append\<close> and \<open>Mark\<close>.\<close>

inductive history_reachable :: "History \<Rightarrow> bool" where
  new: "history_reachable NewHistory"
| append: "history_reachable h \<Longrightarrow> history_reachable (snd (Append ls h))"
| mark: "history_reachable h \<Longrightarrow> history_reachable (Mark h)"

lemma reachable_ok: "history_reachable h \<Longrightarrow> hist_ok h"
  by (induction rule: history_reachable.induct) (auto intro: inv_intros)

text \<open>
  a history never outgrows its caps. After any sequence of snapshots and marks the byte counter
  is the size of the committed lines, both caps hold and the mark points into the committed lines
  (or at their end), so that slicing from it never goes out of range.
\<close>

theorem history_bounded:
  "history_reachable h \<Longrightarrow>
   hs_bytes h = (\<Sum>l\<leftarrow>hs_committed h. int (length l) + 1)
   \<and> length (hs_committed h) \<le> 2000 \<and> hs_bytes h \<le> 262144
   \<and> -1 \<le> hs_mark h \<and> hs_mark h \<le> int (length (hs_committed h))"
  using reachable_ok [of h] by (simp add: hist_ok_def HistoryMaxLines_def HistoryMaxBytes_def line_bytes_def)

theorem history_bounded_witness:
  "let h = Mark (snd (Append (replicate 9 ''x'') NewHistory))
   in hs_bytes h = (\<Sum>l\<leftarrow>hs_committed h. int (length l) + 1)
   \<and> length (hs_committed h) \<le> 2000 \<and> hs_bytes h \<le> 262144
   \<and> -1 \<le> hs_mark h \<and> hs_mark h \<le> int (length (hs_committed h))"
  unfolding Let_def by (rule history_bounded) (intro history_reachable.intros)

section \<open>No line after the mark is lost silently\<close>

text \<open>
  the caps drop the shortest possible front, and never silently. After \<open>trim\<close> either the visible
  lines are the same as before, or they start with the gap marker and continue with a tail of the
  old ones; one line fewer dropped would leave a cap exceeded.
\<close>

theorem trim_signals_loss:
  assumes "hist_pre h" "\<not> hs_truncated h"
  shows "\<exists>n. hs_committed (trim h) = drop n (hs_committed h) \<and> n \<le> length (hs_committed h)
     \<and> (Lines (trim h) = Lines h \<or> (\<exists>k\<le>length (Lines h). Lines (trim h) = HistoryGapMarker # drop k (Lines h)))
     \<and> (0 < n \<longrightarrow> length (hs_committed h) - (n - 1) > HistoryMaxLines
                 \<or> line_bytes (drop (n - 1) (hs_committed h)) > HistoryMaxBytes)"
proof -
  obtain d b where db: "trim_loop (hs_committed h) (hs_bytes h) = (d, b)" by fastforce
  note spec = trim_loop_spec [OF db]
  let ?c = "hs_committed h"
  have least: "0 < d \<longrightarrow> length ?c - (d - 1) > HistoryMaxLines \<or> line_bytes (drop (d - 1) ?c) > HistoryMaxBytes"
  proof
    assume d: "0 < d"
    have "hs_bytes h - line_bytes (take (d - 1) ?c) = line_bytes (drop (d - 1) ?c)"
      using assms(1) line_bytes_simps(3) [of "take (d - 1) ?c" "drop (d - 1) ?c"] by (simp add: hist_pre_def)
    moreover have "d - 1 < d" using d by simp
    ultimately show "length ?c - (d - 1) > HistoryMaxLines \<or> line_bytes (drop (d - 1) ?c) > HistoryMaxBytes"
      using spec by metis
  qed
  have com: "hs_committed (trim h) = drop d ?c"
    using db by (simp add: trim_def Let_def)
  define st where "st = nat (max 0 (hs_mark h))"
  have stle: "st \<le> length ?c" using assms(1) by (auto simp: st_def hist_pre_def)
  have vis: "Lines h = drop st ?c @ hs_tail h"
    using assms stle by (auto simp: Lines_def st_def Let_def)
  have "Lines (trim h) = Lines h \<or> (\<exists>k\<le>length (Lines h). Lines (trim h) = HistoryGapMarker # drop k (Lines h))"
  proof (cases "d = 0 \<or> int d \<le> hs_mark h")
    case True
    then have "Lines (trim h) = Lines h"
      using db assms spec by (auto simp: trim_def Lines_def Let_def hist_pre_def nat_diff_distrib)
    then show ?thesis ..
  next
    case False
    then have dgt: "0 < d" "st < d \<or> hs_mark h < 0" "st \<le> d" by (auto simp: st_def)
    have "Lines (trim h) = HistoryGapMarker # drop d ?c @ hs_tail h"
      using db False spec by (auto simp: trim_def Lines_def Let_def)
    also have "\<dots> = HistoryGapMarker # drop (d - st) (Lines h)"
      using spec stle dgt by (simp add: vis)
    finally have eq: "Lines (trim h) = HistoryGapMarker # drop (d - st) (Lines h)" .
    have "d - st \<le> length (Lines h)" using spec stle unfolding vis by simp linarith
    then show ?thesis using eq by blast
  qed
  with com least spec show ?thesis by blast
qed

theorem trim_signals_loss_witness:
  "\<exists>n. hs_committed (trim (commit [''a''] NewHistory)) = drop n [''a''] \<and> n \<le> length [''a'']
     \<and> (Lines (trim (commit [''a''] NewHistory)) = Lines (commit [''a''] NewHistory)
        \<or> (\<exists>k\<le>length (Lines (commit [''a''] NewHistory)).
             Lines (trim (commit [''a''] NewHistory)) = HistoryGapMarker # drop k (Lines (commit [''a''] NewHistory))))
     \<and> (0 < n \<longrightarrow> length [''a''] - (n - 1) > HistoryMaxLines \<or> line_bytes (drop (n - 1) [''a'']) > HistoryMaxBytes)"
  using trim_signals_loss [of "commit [''a''] NewHistory"]
  by (simp add: hist_pre_def commit_def NewHistory_def)

section \<open>Scrolling output is accumulated exactly\<close>

text \<open>Lines \<open>a\<close> to \<open>a + n - 1\<close> of an output.\<close>

definition window :: "string list \<Rightarrow> nat \<Rightarrow> nat \<Rightarrow> string list" where
  "window T a n = take n (drop a T)"

lemma window_simps [simp]:
  "a + n \<le> length T \<Longrightarrow> length (window T a n) = n"
  "a + n \<le> length T \<Longrightarrow> i < n \<Longrightarrow> window T a n ! i = T ! (a + i)"
  by (simp_all add: window_def)

lemma window_drop: "drop k (window T a n) = window T (a + k) (n - k)"
  by (simp add: window_def drop_take add.commute)

lemma window_append: "a \<le> b \<Longrightarrow> b \<le> c \<Longrightarrow> window T a (b - a) @ window T b (c - b) = window T a (c - a)"
proof -
  assume "a \<le> b" "b \<le> c"
  then have "window T a ((b - a) + (c - b)) = window T a (b - a) @ window T b (c - b)"
    unfolding window_def take_add by simp
  then show ?thesis using \<open>a \<le> b\<close> \<open>b \<le> c\<close> by simp
qed

lemma window_Cons: "a + Suc n \<le> length T \<Longrightarrow> window T a (Suc n) = T ! a # window T (Suc a) n"
  by (simp add: window_def Cons_nth_drop_Suc [symmetric])

definition clear_text :: "string list \<Rightarrow> bool" where
  "clear_text T \<longleftrightarrow> distinct T \<and> list_all (\<lambda>l. TrimSpace l \<noteq> []) T"

lemma aligned_window:
  assumes T: "clear_text T" and n: "0 < n" "n \<le> m" "a + n \<le> length T" "b + m \<le> length T"
  shows "aligned (window T a n) (window T b m) \<longleftrightarrow> a = b"
proof -
  define w where "w = (if n > HistoryAnchorWindow then HistoryAnchorWindow else n)"
  have w: "0 < w" "w \<le> n" using n by (auto simp: w_def HistoryAnchorWindow_def)
  have texts: "anchor_text (window T a n) w = [0..<w]"
    using T n w by (auto simp: anchor_text_def clear_text_def list_all_length filter_id_conv)
  have same: "window T a n ! i = window T b m ! i \<longleftrightarrow> a = b" if "i < w" for i
    using T n w that by (simp add: clear_text_def nth_eq_iff_index_eq)
  have hits: "filter (\<lambda>i. window T a n ! i = window T b m ! i) [0..<w] = (if a = b then [0..<w] else [])"
    using same by (auto simp: filter_id_conv filter_empty_conv)
  have "aligned (window T a n) (window T b m) \<longleftrightarrow>
      (if w < HistoryAnchorLines then w else HistoryAnchorLines) \<le> length (if a = b then [0..<w] else [])"
    unfolding aligned_def Let_def window_simps(1) [OF n(3)] w_def [symmetric] texts hits using w(1) by simp
  then show ?thesis using w by (auto simp: HistoryAnchorLines_def)
qed

lemma find_shift_window:
  assumes T: "clear_text T"
  shows "b + m \<le> length T \<Longrightarrow> a \<le> b \<Longrightarrow> b < a + n \<Longrightarrow> a + n \<le> b + m \<Longrightarrow>
   find_shift (window T a n) (window T b m) s = Some (s + (b - a), window T b (a + n - b))"
proof (induction "b - a" arbitrary: a n s)
  case 0
  then have "a = b" "0 < n" "n \<le> m" by auto
  then obtain k where "n = Suc k" by (cases n) auto
  then show ?case
    using 0 \<open>a = b\<close> aligned_window [OF T \<open>0 < n\<close> \<open>n \<le> m\<close>, of b b] by (simp add: window_Cons)
next
  case (Suc d)
  then obtain k where n: "n = Suc k" by (cases n) auto
  have step: "find_shift (window T a n) (window T b m) s = find_shift (window T (Suc a) k) (window T b m) (Suc s)"
  proof (cases "length (window T a n) > length (window T b m)")
    case True
    then show ?thesis using Suc n by (simp add: window_Cons)
  next
    case False
    then have "n \<le> m" using Suc by simp
    then have "\<not> aligned (window T a n) (window T b m)"
      using Suc n aligned_window [OF T, of n m a b] by auto
    then show ?thesis using Suc n False by (simp add: window_Cons)
  qed
  have "find_shift (window T (Suc a) k) (window T b m) (Suc s) = Some (Suc s + (b - Suc a), window T b (Suc a + k - b))"
    using Suc n by (intro Suc.hyps(1)) auto
  then show ?case using step Suc n by simp
qed

lemma trim_loop_id: "length ls \<le> HistoryMaxLines \<Longrightarrow> b \<le> HistoryMaxBytes \<Longrightarrow> trim_loop ls b = (0, b)"
  by (cases ls) auto

lemma trim_id: "length (hs_committed h) \<le> HistoryMaxLines \<Longrightarrow> hs_bytes h \<le> HistoryMaxBytes \<Longrightarrow> trim h = h"
  by (simp add: trim_def trim_loop_id)

lemma line_bytes_window: "line_bytes (window T a n) \<le> line_bytes T"
proof -
  have "T = take a T @ window T a n @ drop n (drop a T)"
    unfolding window_def by (simp only: append_take_drop_id)
  then have "line_bytes T = line_bytes (take a T) + (line_bytes (window T a n) + line_bytes (drop n (drop a T)))"
    by (metis line_bytes_simps(3))
  then show ?thesis using line_bytes_nonneg [of "take a T"] line_bytes_nonneg [of "drop n (drop a T)"] by linarith
qed

text \<open>A history that holds an output from line \<open>o'\<close> up to the end of the last window.\<close>

definition holds_output :: "string list \<Rightarrow> nat \<Rightarrow> nat \<Rightarrow> nat \<Rightarrow> History \<Rightarrow> bool" where
  "holds_output T o' a n h \<longleftrightarrow> o' \<le> a \<and> 0 < n \<and> a + n \<le> length T
     \<and> hs_committed h = window T o' (a + n - o') \<and> hs_prev h = window T a n
     \<and> hs_bytes h = line_bytes (hs_committed h) \<and> hs_mark h = -1 \<and> \<not> hs_truncated h"

lemma splitLive_screen: "st \<noteq> [] \<Longrightarrow> length live = HistoryLiveLines \<Longrightarrow> splitLive (st @ live) = (st, live)"
  by (simp add: splitLive_def)

lemma window_take: "k \<le> n \<Longrightarrow> take k (window T a n) = window T a k"
  by (simp add: window_def min_def)

lemma Append_window:
  assumes T: "clear_text T" "length T \<le> HistoryMaxLines" "line_bytes T \<le> HistoryMaxBytes"
    and h: "holds_output T o' a n h"
    and w: "a \<le> b" "b < a + n" "a + n \<le> b + m" "b + m \<le> length T"
    and live: "length live = HistoryLiveLines"
  shows "Append (window T b m @ live) h =
      (\<lparr>ar_added = b + m - (a + n), ar_shift = b - a, ar_gap = False\<rparr>,
       h\<lparr>hs_committed := window T o' (b + m - o'), hs_bytes := line_bytes (window T o' (b + m - o')),
         hs_prev := window T b m, hs_tail := live\<rparr>)"
proof -
  have h': "o' \<le> a" "0 < n" "hs_committed h = window T o' (a + n - o')" "hs_prev h = window T a n"
      "hs_bytes h = line_bytes (hs_committed h)"
    using h by (simp_all add: holds_output_def)
  have ne: "window T b m \<noteq> []" "window T a n \<noteq> []" using w h' by (auto simp: window_def)
  have len: "length (window T o' (a + n - o')) = a + n - o'" using h' w by simp
  have cutc: "take (b - o') (window T o' (a + n - o')) @ window T b m = window T o' (b + m - o')"
    using window_append [of o' b "b + m" T] h' w by (simp add: window_take)
  have bytes: "line_bytes (window T o' (a + n - o')) - line_bytes (drop (b - o') (window T o' (a + n - o')))
      + line_bytes (window T b m) = line_bytes (window T o' (b + m - o'))"
    using line_bytes_simps(3) [of "take (b - o') (window T o' (a + n - o'))" "drop (b - o') (window T o' (a + n - o'))"]
      line_bytes_simps(3) [of "take (b - o') (window T o' (a + n - o'))" "window T b m"] cutc
    by simp
  have trimmed: "trim (h\<lparr>hs_committed := window T o' (b + m - o'), hs_bytes := line_bytes (window T o' (b + m - o')),
         hs_prev := window T b m, hs_tail := live\<rparr>) = h\<lparr>hs_committed := window T o' (b + m - o'),
         hs_bytes := line_bytes (window T o' (b + m - o')), hs_prev := window T b m, hs_tail := live\<rparr>"
    using T line_bytes_window [of T o' "b + m - o'"] h' w by (intro trim_id) simp_all
  have keep: "nat (int (a + n - o') - int (a + n - b)) = b - o'" "\<not> int (a + n - o') - int (a + n - b) < 0"
    using h' w by auto
  have eq: "h\<lparr>hs_tail := live, hs_bytes := x, hs_committed := y, hs_prev := z\<rparr>
      = h\<lparr>hs_committed := y, hs_bytes := x, hs_prev := z, hs_tail := live\<rparr>" for x y z
    by (cases h) simp
  show ?thesis
    using ne h' w len keep splitLive_screen [OF ne(1) live] find_shift_window [OF T(1) w(4,1,2,3), of 0] cutc bytes trimmed
    by (simp add: Append_def Let_def commit_def cut_def eq add.commute)
qed

lemma Append_first:
  assumes T: "length T \<le> HistoryMaxLines" "line_bytes T \<le> HistoryMaxBytes"
    and w: "0 < n" "a + n \<le> length T" and live: "length live = HistoryLiveLines"
  shows "snd (Append (window T a n @ live) NewHistory) =
     NewHistory\<lparr>hs_committed := window T a n, hs_bytes := line_bytes (window T a n), hs_prev := window T a n, hs_tail := live\<rparr>"
proof -
  have ne: "window T a n \<noteq> []" using w by (auto simp: window_def)
  have "trim (NewHistory\<lparr>hs_committed := window T a n, hs_bytes := line_bytes (window T a n), hs_prev := window T a n, hs_tail := live\<rparr>)
      = NewHistory\<lparr>hs_committed := window T a n, hs_bytes := line_bytes (window T a n), hs_prev := window T a n, hs_tail := live\<rparr>"
    using T line_bytes_window [of T a n] w by (intro trim_id) simp_all
  then show ?thesis
    using ne splitLive_screen [OF ne live] by (simp add: Append_def commit_def NewHistory_def)
qed

text \<open>
  A sequence of screens over an output: each shows a stretch of it above the live lines, starting
  no earlier than the last one, within it, and reaching at least as far.
\<close>

fun scrolls :: "string list \<Rightarrow> nat \<Rightarrow> nat \<Rightarrow> (nat \<times> nat \<times> string list) list \<Rightarrow> bool" where
  "scrolls T a n [] = True"
| "scrolls T a n ((b, m, live) # ws) =
     (a \<le> b \<and> b < a + n \<and> a + n \<le> b + m \<and> b + m \<le> length T \<and> length live = HistoryLiveLines \<and> scrolls T b m ws)"

fun last_end :: "nat \<Rightarrow> (nat \<times> nat \<times> string list) list \<Rightarrow> nat" where
  "last_end e [] = e"
| "last_end e ((b, m, live) # ws) = last_end (b + m) ws"

definition show_screens :: "string list \<Rightarrow> (nat \<times> nat \<times> string list) list \<Rightarrow> History \<Rightarrow> History" where
  "show_screens T ws h = fold (\<lambda>(b, m, live) h. snd (Append (window T b m @ live) h)) ws h"

lemma show_screens_output:
  assumes T: "clear_text T" "length T \<le> HistoryMaxLines" "line_bytes T \<le> HistoryMaxBytes"
  shows "holds_output T o' a n h \<Longrightarrow> scrolls T a n ws \<Longrightarrow>
    hs_committed (show_screens T ws h) = window T o' (last_end (a + n) ws - o')
    \<and> hs_tail (show_screens T ws h) = (if ws = [] then hs_tail h else snd (snd (last ws)))
    \<and> hs_mark (show_screens T ws h) = -1 \<and> \<not> hs_truncated (show_screens T ws h)"
proof (induction ws arbitrary: a n h)
  case Nil
  then show ?case by (simp add: show_screens_def holds_output_def)
next
  case (Cons w ws)
  obtain b m live where w: "w = (b, m, live)" by (cases w)
  define h' where "h' = snd (Append (window T b m @ live) h)"
  have s: "a \<le> b" "b < a + n" "a + n \<le> b + m" "b + m \<le> length T" "length live = HistoryLiveLines" "scrolls T b m ws"
    using Cons.prems w by simp_all
  have h': "holds_output T o' b m h'" "hs_tail h' = live"
    using Append_window [OF T Cons.prems(1) s(1-5)] s Cons.prems(1)
    by (auto simp: h'_def holds_output_def)
  show ?case using Cons.IH [OF h'(1) s(6)] h'(2)
    by (simp add: show_screens_def w h'_def [symmetric])
qed

text \<open>
  C35: scrolling output is accumulated exactly. When an agent prints an output of different, non-blank
  lines that fits the caps, and every screen overlaps the one before, the history holds the output
  from the first line seen to the last one above the live lines: no line is lost, repeated or out
  of order, and no gap is reported, however the bottom of the screen is redrawn.
\<close>

theorem Append_accumulates_output:
  assumes "clear_text T" "length T \<le> HistoryMaxLines" "line_bytes T \<le> HistoryMaxBytes"
    and "0 < n" "a + n \<le> length T" "length live = HistoryLiveLines" "scrolls T a n ws"
  shows "Lines (show_screens T ((a, n, live) # ws) NewHistory) =
    window T a (last_end (a + n) ws - a) @ snd (snd (last ((a, n, live) # ws)))"
proof -
  define h where "h = snd (Append (window T a n @ live) NewHistory)"
  have h: "holds_output T a a n h" "hs_tail h = live"
    using Append_first [OF assms(2-6)] assms(4,5) by (auto simp: h_def holds_output_def NewHistory_def)
  have "show_screens T ((a, n, live) # ws) NewHistory = show_screens T ws h"
    by (simp add: show_screens_def h_def)
  then show ?thesis
    using show_screens_output [OF assms(1-3) h(1) assms(7)] h(2) by (simp add: Lines_def)
qed

theorem Append_accumulates_output_witness:
  "Lines (show_screens [''a'', ''b'', ''c'', ''d''] [(0, 3, replicate 8 ''> _''), (1, 3, replicate 8 [])] NewHistory) =
   window [''a'', ''b'', ''c'', ''d''] 0 4 @ replicate 8 []"
proof -
  have "clear_text [''a'', ''b'', ''c'', ''d'']" by code_simp
  moreover have "line_bytes [''a'', ''b'', ''c'', ''d''] \<le> HistoryMaxBytes" by code_simp
  ultimately show ?thesis
    using Append_accumulates_output [of "[''a'', ''b'', ''c'', ''d'']" 3 0 "replicate 8 ''> _''" "[(1, 3, replicate 8 [])]"]
    by (simp add: HistoryMaxLines_def HistoryLiveLines_def)
qed

end
