(* ===== verification/Registry.thy ===== *)
theory Registry
  imports Agents Errors "HOL-Library.Multiset"
begin

text \<open>
  The registry of live agents (\<^verbatim>\<open>internal/app/registry.go\<close>) and the Herdr event it folds
  (\<^verbatim>\<open>internal/domain/events.go\<close>): snapshots, immediate status and pane updates, and the loop that
  decides when a snapshot is due. What \<^verbatim>\<open>ListAgents\<close> answers and the clock are arguments. The order of
  an association list stands for the order in which a Go map is ranged over.
\<close>

section \<open>Events\<close>

type_synonym HerdrEventKind = string

abbreviation (input) PaneAgentDetected :: HerdrEventKind where "PaneAgentDetected \<equiv> ''pane.agent_detected''"
abbreviation (input) PaneAgentStatusChanged :: HerdrEventKind where "PaneAgentStatusChanged \<equiv> ''pane.agent_status_changed''"
abbreviation (input) PaneClosed :: HerdrEventKind where "PaneClosed \<equiv> ''pane.closed''"
abbreviation (input) PaneExited :: HerdrEventKind where "PaneExited \<equiv> ''pane.exited''"
abbreviation (input) PaneUpdated :: HerdrEventKind where "PaneUpdated \<equiv> ''pane.updated''"
abbreviation (input) TabRenamed :: HerdrEventKind where "TabRenamed \<equiv> ''tab.renamed''"
abbreviation (input) WorkspaceRenamed :: HerdrEventKind where "WorkspaceRenamed \<equiv> ''workspace.renamed''"
abbreviation (input) StreamReset :: HerdrEventKind where "StreamReset \<equiv> ''stream.reset''"

record HerdrEvent =
  he_Kind :: HerdrEventKind
  he_PaneID :: string
  he_WorkspaceID :: string
  he_TabID :: string
  he_Agent :: "Agent option"
  he_Label :: string
  he_FinalStatus :: "Status option"
  he_Released :: bool

datatype AgentEventKind = AgentAppeared | AgentChanged | AgentGone

record AgentEvent =
  ae_Kind :: AgentEventKind
  ae_Agent :: Agent

section \<open>State and operations\<close>

record Registry =
  rg_agents :: "(Key, Agent) go_map"
  rg_byPane :: "(string, Key) go_map"
  rg_lastOK :: time
  rg_lastErr :: "error option"
  rg_lastErrAt :: time
  rg_request :: bool

definition NewRegistry :: Registry where
  "NewRegistry = \<lparr>rg_agents = [], rg_byPane = [], rg_lastOK = 0, rg_lastErr = None, rg_lastErrAt = 0, rg_request = False\<rparr>"

definition differs :: "Agent \<Rightarrow> Agent \<Rightarrow> bool" where
  "differs a b \<longleftrightarrow> Agent_Label a \<noteq> Agent_Label b \<or> ag_Status a \<noteq> ag_Status b"

definition exited :: "Agent \<Rightarrow> Agent" where
  "exited a = a\<lparr>ag_Status := StatusExited\<rparr>"

definition sortEvents :: "AgentEvent list \<Rightarrow> AgentEvent list" where
  "sortEvents evs = sort_key (\<lambda>e. Key_String (ag_Key (ae_Agent e))) evs"

definition Registry_Live :: "Registry \<Rightarrow> Agent list" where
  "Registry_Live r = sort_key (\<lambda>a. Key_String (ag_Key a)) (map snd (rg_agents r))"

definition Registry_Agent :: "Registry \<Rightarrow> Key \<Rightarrow> Agent option" where
  "Registry_Agent r key = gm_get (rg_agents r) key"

record Health =
  hl_LastOK :: time
  hl_LastErr :: "error option"
  hl_LastErrAt :: time

definition Registry_Health :: "Registry \<Rightarrow> Health" where
  "Registry_Health r = \<lparr>hl_LastOK = rg_lastOK r, hl_LastErr = rg_lastErr r, hl_LastErrAt = rg_lastErrAt r\<rparr>"

definition RequestSnapshot :: "Registry \<Rightarrow> Registry" where
  "RequestSnapshot r = r\<lparr>rg_request := True\<rparr>"

definition next_agents :: "Agent list \<Rightarrow> (Key, Agent) go_map" where
  "next_agents agents = fold (\<lambda>a m. gm_put (ag_Key a) a m) (filter (\<lambda>a. ag_Kind a \<noteq> []) agents) []"

definition gone_events :: "(Key, Agent) go_map \<Rightarrow> (Key, Agent) go_map \<Rightarrow> AgentEvent list" where
  "gone_events old nxt =
     map (\<lambda>(key, a). \<lparr>ae_Kind = AgentGone, ae_Agent = exited a\<rparr>) (filter (\<lambda>(key, a). gm_get nxt key = None) old)"

definition appeared_events :: "(Key, Agent) go_map \<Rightarrow> (Key, Agent) go_map \<Rightarrow> AgentEvent list" where
  "appeared_events old nxt =
     map (\<lambda>(key, a). \<lparr>ae_Kind = AgentAppeared, ae_Agent = a\<rparr>) (filter (\<lambda>(key, a). gm_get old key = None) nxt)"

definition changed_events :: "(Key, Agent) go_map \<Rightarrow> (Key, Agent) go_map \<Rightarrow> AgentEvent list" where
  "changed_events old nxt =
     map (\<lambda>(key, a). \<lparr>ae_Kind = AgentChanged, ae_Agent = a\<rparr>)
       (filter (\<lambda>(key, a). case gm_get old key of None \<Rightarrow> False | Some b \<Rightarrow> differs b a) nxt)"

definition applySnapshot :: "Agent list \<Rightarrow> time \<Rightarrow> Registry \<Rightarrow> AgentEvent list \<times> string list \<times> Registry" where
  "applySnapshot agents now r =
     (let nxt = next_agents agents; old = rg_agents r
      in (sortEvents (gone_events old nxt) @ sortEvents (appeared_events old nxt) @ sortEvents (changed_events old nxt),
          sort (map (\<lambda>key. PaneID key) (gm_keys nxt)),
          r\<lparr>rg_lastOK := now, rg_lastErr := None, rg_agents := nxt,
            rg_byPane := fold (\<lambda>key m. gm_put (PaneID key) key m) (gm_keys nxt) []\<rparr>))"

text \<open>The events, the panes to watch (\<open>None\<close> when the listing failed) and the registry.\<close>

definition Snapshot :: "Agent list result \<Rightarrow> time \<Rightarrow> Registry \<Rightarrow> AgentEvent list \<times> string list option \<times> Registry" where
  "Snapshot listed now r =
     (case listed of
        Inl e \<Rightarrow> ([], None, r\<lparr>rg_lastErr := Some e, rg_lastErrAt := now\<rparr>)
      | Inr agents \<Rightarrow> (let (evs, panes, r') = applySnapshot agents now r in (evs, Some panes, r')))"

definition applyStatus :: "HerdrEvent \<Rightarrow> Registry \<Rightarrow> (AgentEvent list \<times> bool) \<times> Registry" where
  "applyStatus ev r =
     (case (gm_get (rg_byPane r) (he_PaneID ev), he_Agent ev) of
        (Some key, Some ea) \<Rightarrow>
          (case gm_get (rg_agents r) key of
             None \<Rightarrow> (([], True), r)
           | Some old \<Rightarrow>
               let a0 = old\<lparr>ag_Status := ag_Status ea\<rparr>;
                   a = (if ag_Title ea \<noteq> [] then a0\<lparr>ag_Title := ag_Title ea\<rparr> else a0);
                   r' = r\<lparr>rg_agents := gm_put key a (rg_agents r)\<rparr>
               in if \<not> differs old a then (([], False), r')
                  else (([\<lparr>ae_Kind = AgentChanged, ae_Agent = a\<rparr>], False), r'))
      | _ \<Rightarrow> (([], True), r))"

definition applyUpdate :: "HerdrEvent \<Rightarrow> Registry \<Rightarrow> (AgentEvent list \<times> bool) \<times> Registry" where
  "applyUpdate ev r =
     (case he_Agent ev of
        None \<Rightarrow> (([], False), r)
      | Some a0 \<Rightarrow>
          if ag_Kind a0 = [] then (([], False), r)
          else (case gm_get (rg_agents r) (ag_Key a0) of
            None \<Rightarrow> (([], True), r)
          | Some old \<Rightarrow>
              let a1 = (if ag_WorkspaceLabel a0 = [] then a0\<lparr>ag_WorkspaceLabel := ag_WorkspaceLabel old\<rparr> else a0);
                  a2 = (if ag_TabLabel a1 = [] then a1\<lparr>ag_TabLabel := ag_TabLabel old\<rparr> else a1);
                  a3 = a2\<lparr>ag_Name := ag_Name old\<rparr>;
                  a = (if ag_Cwd a3 = [] then a3\<lparr>ag_Cwd := ag_Cwd old\<rparr> else a3);
                  r' = r\<lparr>rg_agents := gm_put (ag_Key a) a (rg_agents r)\<rparr>
              in if \<not> differs old a then (([], False), r')
                 else (([\<lparr>ae_Kind = AgentChanged, ae_Agent = a\<rparr>], False), r')))"

definition structural_kinds :: "HerdrEventKind list" where
  "structural_kinds = [StreamReset, PaneAgentDetected, PaneClosed, PaneExited, TabRenamed, WorkspaceRenamed]"

definition Registry_Apply :: "HerdrEvent \<Rightarrow> Registry \<Rightarrow> (AgentEvent list \<times> bool) \<times> Registry" where
  "Registry_Apply ev r =
     (if he_Kind ev = PaneAgentStatusChanged then applyStatus ev r
      else if he_Kind ev = PaneUpdated then applyUpdate ev r
      else if he_Kind ev \<in> set structural_kinds then (([], True), r)
      else (([], False), r))"

section \<open>The loop\<close>

text \<open>
  What one turn of \<^verbatim>\<open>Run\<close> can receive: a socket event, its coalescing timer, its interval timer or a
  request. The state of the loop is the registry and whether the coalescing timer is armed; each turn
  gets the answer of \<^verbatim>\<open>ListAgents\<close> and the time, in case it takes a snapshot, and yields the events
  delivered.
\<close>

datatype RunInput = InEvent HerdrEvent | InCoalesce | InTick | InRequest

definition take_snapshot :: "Agent list result \<Rightarrow> time \<Rightarrow> Registry \<Rightarrow> AgentEvent list \<times> bool \<times> Registry" where
  "take_snapshot listed now r = (let (evs, panes, r') = Snapshot listed now r in (evs, False, r'))"

definition Run_turn :: "RunInput \<Rightarrow> Agent list result \<Rightarrow> time \<Rightarrow> bool \<times> Registry \<Rightarrow> AgentEvent list \<times> bool \<times> Registry" where
  "Run_turn input listed now st =
     (let (armed, r) = st in
      case input of
        InEvent ev \<Rightarrow>
          (let ((evs, structural), r1) = Registry_Apply ev r
           in if he_Kind ev = StreamReset
              then (let (evs2, armed2, r2) = take_snapshot listed now r1 in (evs @ evs2, armed2, r2))
              else (evs, armed \<or> structural, r1))
      | InCoalesce \<Rightarrow> if armed then take_snapshot listed now r else ([], armed, r)
      | InTick \<Rightarrow> take_snapshot listed now r
      | InRequest \<Rightarrow> if rg_request r then take_snapshot listed now (r\<lparr>rg_request := False\<rparr>) else ([], armed, r))"

section \<open>Invariants\<close>

text \<open>Every agent sits under its own key, and every pane points to a live agent in it.\<close>

definition keyed :: "(Key, Agent) go_map \<Rightarrow> bool" where
  "keyed m \<longleftrightarrow> gm_ok m \<and> (\<forall>k a. gm_get m k = Some a \<longrightarrow> ag_Key a = k)"

definition panes_ok :: "(Key, Agent) go_map \<Rightarrow> (string, Key) go_map \<Rightarrow> bool" where
  "panes_ok m ps \<longleftrightarrow> (\<forall>p k. gm_get ps p = Some k \<longrightarrow> PaneID k = p \<and> k \<in> dom (gm_get m))"

definition registry_ok :: "Registry \<Rightarrow> bool" where
  "registry_ok r \<longleftrightarrow> keyed (rg_agents r) \<and> panes_ok (rg_agents r) (rg_byPane r)"

lemma keyedD: "keyed m \<Longrightarrow> gm_get m k = Some a \<Longrightarrow> ag_Key a = k"
  by (simp add: keyed_def)

lemma keyed_put: "keyed m \<Longrightarrow> ag_Key a = k \<Longrightarrow> keyed (gm_put k a m)"
  unfolding keyed_def update_conv' by (metis fun_upd_apply gm_ok_put option.inject)

lemma keyed_fold: "keyed m \<Longrightarrow> keyed (fold (\<lambda>a m. gm_put (ag_Key a) a m) as m)"
  by (induction as arbitrary: m) (simp_all add: keyed_put)

lemma next_agents_keyed: "keyed (next_agents as)"
  unfolding next_agents_def by (rule keyed_fold) (simp add: keyed_def)

lemma panes_fold:
  "panes_ok m ps \<Longrightarrow> set ks \<subseteq> dom (gm_get m) \<Longrightarrow> panes_ok m (fold (\<lambda>key ps. gm_put (PaneID key) key ps) ks ps)"
proof (induction ks arbitrary: ps)
  case (Cons k ks)
  have "panes_ok m (gm_put (PaneID k) k ps)"
    using Cons.prems unfolding panes_ok_def update_conv' by auto
  then show ?case using Cons.IH Cons.prems by simp
qed simp

lemma panes_put: "panes_ok m ps \<Longrightarrow> panes_ok (gm_put k a m) ps"
  unfolding panes_ok_def update_conv' dom_fun_upd by simp

lemma applySnapshot_ok [inv_intros]: "registry_ok (snd (snd (applySnapshot as now r)))"
proof -
  have "panes_ok (next_agents as) []" by (simp add: panes_ok_def)
  moreover have "set (gm_keys (next_agents as)) \<subseteq> dom (gm_get (next_agents as))"
    by (simp add: dom_map_of_conv_image_fst)
  ultimately show ?thesis
    using panes_fold next_agents_keyed by (simp add: registry_ok_def applySnapshot_def Let_def)
qed

lemma applyStatus_ok [inv_intros]: "registry_ok r \<Longrightarrow> registry_ok (snd (applyStatus ev r))"
  by (auto simp: applyStatus_def registry_ok_def Let_def split: option.split intro!: keyed_put panes_put dest: keyedD)

lemma applyUpdate_ok [inv_intros]: "registry_ok r \<Longrightarrow> registry_ok (snd (applyUpdate ev r))"
  by (auto simp: applyUpdate_def registry_ok_def Let_def split: option.split intro!: keyed_put panes_put)

lemma Registry_Apply_ok [inv_intros]: "registry_ok r \<Longrightarrow> registry_ok (snd (Registry_Apply ev r))"
  by (simp add: Registry_Apply_def applyStatus_ok applyUpdate_ok)

section \<open>The stream of events\<close>

text \<open>
  A consumer that folds the events: for every agent it was told about, the label and the status.
\<close>

type_synonym view = "Key \<Rightarrow> (string \<times> Status) option"

definition shown :: "Agent \<Rightarrow> string \<times> Status" where
  "shown a = (Agent_Label a, ag_Status a)"

definition see :: "AgentEvent \<Rightarrow> view \<Rightarrow> view" where
  "see e v = (case ae_Kind e of
     AgentGone \<Rightarrow> v(ag_Key (ae_Agent e) := None)
   | _ \<Rightarrow> v(ag_Key (ae_Agent e) \<mapsto> shown (ae_Agent e)))"

definition truth :: "Registry \<Rightarrow> view" where
  "truth r = (\<lambda>k. map_option shown (gm_get (rg_agents r) k))"

lemma differs_shown: "differs a b \<longleftrightarrow> shown a \<noteq> shown b"
  by (simp add: differs_def shown_def)

text \<open>Folding events about different agents does not depend on their order.\<close>

definition verdict :: "AgentEvent \<Rightarrow> (string \<times> Status) option" where
  "verdict e = (case ae_Kind e of AgentGone \<Rightarrow> None | _ \<Rightarrow> Some (shown (ae_Agent e)))"

lemma see_verdict: "see e v = v(ag_Key (ae_Agent e) := verdict e)"
  by (simp add: see_def verdict_def split: AgentEventKind.split)

lemma fold_see:
  "distinct (map (\<lambda>e. ag_Key (ae_Agent e)) evs) \<Longrightarrow>
   fold see evs v k = (case find (\<lambda>e. ag_Key (ae_Agent e) = k) evs of Some e \<Rightarrow> verdict e | None \<Rightarrow> v k)"
proof (induction evs arbitrary: v)
  case (Cons e evs)
  have "ag_Key (ae_Agent e) = k \<Longrightarrow> find (\<lambda>e. ag_Key (ae_Agent e) = k) evs = None"
    using Cons.prems by (auto simp: find_None_iff image_iff)
  then show ?case using Cons by (auto simp: see_verdict split: option.split)
qed simp

lemma find_event:
  assumes "distinct (map (\<lambda>e. ag_Key (ae_Agent e)) evs)"
  shows "find (\<lambda>e. ag_Key (ae_Agent e) = k) evs = Some e \<longleftrightarrow> e \<in> set evs \<and> ag_Key (ae_Agent e) = k"
  using assms by (induction evs) (auto simp: rev_image_eqI)

lemma sortEvents_set [simp]: "set (sortEvents evs) = set evs"
  by (simp add: sortEvents_def)

lemma sortEvents_distinct [simp]: "distinct (map f (sortEvents evs)) = distinct (map f evs)"
  by (metis mset_map mset_eq_imp_distinct_iff mset_sort sortEvents_def)

lemma gone_iff:
  "gm_ok old \<Longrightarrow> e \<in> set (gone_events old nxt) \<longleftrightarrow>
   (\<exists>k a. gm_get old k = Some a \<and> gm_get nxt k = None \<and> e = \<lparr>ae_Kind = AgentGone, ae_Agent = exited a\<rparr>)"
  by (auto simp: gone_events_def gm_get_in image_iff)

lemma appeared_iff:
  "gm_ok nxt \<Longrightarrow> e \<in> set (appeared_events old nxt) \<longleftrightarrow>
   (\<exists>k a. gm_get nxt k = Some a \<and> gm_get old k = None \<and> e = \<lparr>ae_Kind = AgentAppeared, ae_Agent = a\<rparr>)"
  by (auto simp: appeared_events_def gm_get_in image_iff)

lemma changed_iff:
  "gm_ok nxt \<Longrightarrow> e \<in> set (changed_events old nxt) \<longleftrightarrow>
   (\<exists>k a b. gm_get nxt k = Some a \<and> gm_get old k = Some b \<and> differs b a \<and> e = \<lparr>ae_Kind = AgentChanged, ae_Agent = a\<rparr>)"
  by (fastforce simp: changed_events_def gm_get_in image_iff split: option.splits)

lemma distinct_events:
  assumes "keyed m" "\<forall>p\<in>set (filter P m). ag_Key (ae_Agent (f p)) = fst p"
  shows "distinct (map (\<lambda>e. ag_Key (ae_Agent e)) (map f (filter P m)))"
proof -
  have "map (\<lambda>e. ag_Key (ae_Agent e)) (map f (filter P m)) = map fst (filter P m)"
    using assms(2) by simp
  moreover have "distinct (map fst (filter P m))"
    using assms(1) gm_ok_filter [of m P] by (simp add: keyed_def gm_ok_def)
  ultimately show ?thesis by (simp only:)
qed

lemma keyed_in: "keyed m \<Longrightarrow> (k, a) \<in> set m \<Longrightarrow> ag_Key a = k"
  using keyedD gm_get_in by (metis keyed_def)

lemma events_distinct:
  assumes "keyed old" "keyed nxt"
  shows "distinct (map (\<lambda>e. ag_Key (ae_Agent e)) (gone_events old nxt @ appeared_events old nxt @ changed_events old nxt))"
proof -
  have g: "distinct (map (\<lambda>e. ag_Key (ae_Agent e)) (gone_events old nxt))"
    unfolding gone_events_def by (rule distinct_events [OF assms(1)]) (auto simp: exited_def keyed_in [OF assms(1)])
  have a: "distinct (map (\<lambda>e. ag_Key (ae_Agent e)) (appeared_events old nxt))"
    unfolding appeared_events_def by (rule distinct_events [OF assms(2)]) (auto simp: keyed_in [OF assms(2)])
  have c: "distinct (map (\<lambda>e. ag_Key (ae_Agent e)) (changed_events old nxt))"
    unfolding changed_events_def by (rule distinct_events [OF assms(2)]) (auto simp: keyed_in [OF assms(2)])
  have ok: "gm_ok old" "gm_ok nxt" using assms by (simp_all add: keyed_def)
  let ?K = "\<lambda>e. ag_Key (ae_Agent e)"
  have "?K ` set (gone_events old nxt) \<subseteq> {k. gm_get nxt k = None}"
    using keyedD [OF assms(1)] by (auto simp: gone_iff [OF ok(1)] exited_def)
  moreover have "?K ` set (appeared_events old nxt) \<subseteq> {k. gm_get nxt k \<noteq> None \<and> gm_get old k = None}"
    using keyedD [OF assms(2)] by (auto simp: appeared_iff [OF ok(2)])
  moreover have "?K ` set (changed_events old nxt) \<subseteq> {k. gm_get nxt k \<noteq> None \<and> gm_get old k \<noteq> None}"
    using keyedD [OF assms(2)] by (auto simp: changed_iff [OF ok(2)])
  ultimately have "?K ` set (gone_events old nxt) \<inter> (?K ` set (appeared_events old nxt) \<union> ?K ` set (changed_events old nxt)) = {}"
    "?K ` set (appeared_events old nxt) \<inter> ?K ` set (changed_events old nxt) = {}"
    by blast+
  then show ?thesis using g a c by (simp add: Int_Un_distrib)
qed

lemma gone_key:
  assumes "keyed old" "gm_get old k = Some b"
  shows "(\<exists>a. gm_get nxt k = Some a) \<or> (\<exists>e\<in>set (gone_events old nxt). ag_Key (ae_Agent e) = k)"
proof (cases "gm_get nxt k")
  case None
  then have "\<lparr>ae_Kind = AgentGone, ae_Agent = exited b\<rparr> \<in> set (gone_events old nxt)"
    using assms gone_iff by (auto simp: keyed_def)
  then show ?thesis using keyedD [OF assms] by (intro disjI2 bexI) (simp_all add: exited_def)
qed simp

lemma appeared_key:
  assumes "keyed nxt" "gm_get nxt k = Some a" "gm_get old k = None"
  shows "\<exists>e\<in>set (appeared_events old nxt). ag_Key (ae_Agent e) = k"
proof -
  have "\<lparr>ae_Kind = AgentAppeared, ae_Agent = a\<rparr> \<in> set (appeared_events old nxt)"
    using assms appeared_iff by (auto simp: keyed_def)
  then show ?thesis using keyedD [OF assms(1,2)] by (intro bexI) simp_all
qed

lemma changed_key:
  assumes "keyed nxt" "gm_get nxt k = Some a" "gm_get old k = Some b"
  shows "\<not> differs b a \<or> (\<exists>e\<in>set (changed_events old nxt). ag_Key (ae_Agent e) = k)"
proof (cases "differs b a")
  case True
  then have "\<lparr>ae_Kind = AgentChanged, ae_Agent = a\<rparr> \<in> set (changed_events old nxt)"
    using assms changed_iff [of nxt _ old] by (auto simp: keyed_def)
  then show ?thesis using keyedD [OF assms(1,2)] by (intro disjI2 bexI) simp_all
qed simp

lemma snapshot_truth:
  assumes "registry_ok r"
  shows "fold see (fst (applySnapshot as now r)) (truth r) = truth (snd (snd (applySnapshot as now r)))"
proof
  fix k
  let ?old = "rg_agents r" and ?nxt = "next_agents as"
  have old: "keyed ?old" and nxt: "keyed ?nxt" using assms next_agents_keyed by (simp_all add: registry_ok_def)
  have ok: "gm_ok ?old" "gm_ok ?nxt" using old nxt by (simp_all add: keyed_def)
  define evs where "evs = fst (applySnapshot as now r)"
  have set_evs: "set evs = set (gone_events ?old ?nxt) \<union> set (appeared_events ?old ?nxt) \<union> set (changed_events ?old ?nxt)"
    by (auto simp: evs_def applySnapshot_def Let_def)
  have dist: "distinct (map (\<lambda>e. ag_Key (ae_Agent e)) evs)"
    using events_distinct [OF old nxt] by (auto simp: evs_def applySnapshot_def Let_def)
  have after: "truth (snd (snd (applySnapshot as now r))) k = map_option shown (gm_get ?nxt k)"
    by (simp add: truth_def applySnapshot_def Let_def)
  show "fold see (fst (applySnapshot as now r)) (truth r) k = truth (snd (snd (applySnapshot as now r))) k"
  proof (cases "find (\<lambda>e. ag_Key (ae_Agent e) = k) evs")
    case None
    then have no: "\<forall>e\<in>set evs. ag_Key (ae_Agent e) \<noteq> k" by (auto simp: find_None_iff)
    have "map_option shown (gm_get ?old k) = map_option shown (gm_get ?nxt k)"
    proof (cases "gm_get ?old k")
      case o: None
      have "gm_get ?nxt k = None"
      proof (rule ccontr)
        assume "gm_get ?nxt k \<noteq> None"
        then obtain a where "gm_get ?nxt k = Some a" by blast
        from appeared_key [OF nxt this o] show False using no unfolding set_evs by blast
      qed
      then show ?thesis using o by simp
    next
      case (Some b)
      then obtain a where a: "gm_get ?nxt k = Some a"
        using no gone_key [OF old Some, of ?nxt] unfolding set_evs by blast
      then have "\<not> differs b a"
        using no changed_key [OF nxt a Some] unfolding set_evs by blast
      then show ?thesis using Some a by (simp add: differs_shown)
    qed
    then show ?thesis using None fold_see [OF dist, of "truth r" k] after by (simp add: evs_def truth_def)
  next
    case (Some e)
    then have e: "e \<in> set evs" "ag_Key (ae_Agent e) = k" using find_event [OF dist] by auto
    then have "verdict e = map_option shown (gm_get ?nxt k)"
      using keyedD [OF old] keyedD [OF nxt]
      by (auto simp: set_evs gone_iff [OF ok(1)] appeared_iff [OF ok(2)] changed_iff [OF ok(2)] verdict_def exited_def)
    then show ?thesis using Some fold_see [OF dist, of "truth r" k] after by (simp add: evs_def)
  qed
qed

lemma apply_truth:
  assumes "registry_ok r"
  shows "fold see (fst (fst (Registry_Apply ev r))) (truth r) = truth (snd (Registry_Apply ev r))"
proof -
  have "fold see (fst (fst (applyStatus ev r))) (truth r) = truth (snd (applyStatus ev r))"
  proof (cases "gm_get (rg_byPane r) (he_PaneID ev)")
    case (Some k)
    show ?thesis
    proof (cases "he_Agent ev = None \<or> gm_get (rg_agents r) k = None")
      case False
      then obtain old ea where o: "gm_get (rg_agents r) k = Some old" "he_Agent ev = Some ea" by auto
      then have "ag_Key old = k" using assms keyedD by (auto simp: registry_ok_def)
      then show ?thesis using o Some
        by (auto simp: applyStatus_def Let_def truth_def see_def differs_shown fun_eq_iff update_conv')
    qed (cases "he_Agent ev"; auto simp: applyStatus_def Some)
  qed (simp add: applyStatus_def)
  moreover have "fold see (fst (fst (applyUpdate ev r))) (truth r) = truth (snd (applyUpdate ev r))"
    by (auto simp: applyUpdate_def Let_def truth_def see_def differs_shown fun_eq_iff update_conv' split: option.split)
  ultimately show ?thesis by (simp add: Registry_Apply_def)
qed

lemma Snapshot_truth:
  "registry_ok r \<Longrightarrow> Snapshot listed now r = (evs, panes, r') \<Longrightarrow> registry_ok r' \<and> fold see evs (truth r) = truth r'"
proof (cases listed)
  case (Inl e)
  then show "registry_ok r \<Longrightarrow> Snapshot listed now r = (evs, panes, r') \<Longrightarrow> ?thesis"
    by (auto simp: Snapshot_def registry_ok_def truth_def)
next
  case (Inr as)
  then show "registry_ok r \<Longrightarrow> Snapshot listed now r = (evs, panes, r') \<Longrightarrow> ?thesis"
    using snapshot_truth [of r as now] applySnapshot_ok [of as now r]
    by (auto simp: Snapshot_def split: prod.splits)
qed

lemma take_snapshot_truth:
  "registry_ok r \<Longrightarrow> take_snapshot listed now r = (evs, armed', r') \<Longrightarrow> registry_ok r' \<and> fold see evs (truth r) = truth r'"
  by (auto simp: take_snapshot_def split: prod.splits dest: Snapshot_truth)

lemma Run_turn_truth:
  assumes "registry_ok r" "Run_turn input listed now (armed, r) = (evs, armed', r')"
  shows "registry_ok r' \<and> fold see evs (truth r) = truth r'"
proof (cases input)
  case (InEvent ev)
  obtain evs1 s r1 where ap: "Registry_Apply ev r = ((evs1, s), r1)" by (metis prod.collapse)
  have one: "registry_ok r1" "fold see evs1 (truth r) = truth r1"
    using Registry_Apply_ok [OF assms(1), of ev] apply_truth [OF assms(1), of ev] by (simp_all add: ap)
  show ?thesis
  proof (cases "he_Kind ev = StreamReset")
    case True
    obtain evs2 a2 r2 where sn: "take_snapshot listed now r1 = (evs2, a2, r2)" by (metis prod_cases3)
    have "evs = evs1 @ evs2" "r' = r2"
      using assms(2) InEvent ap sn True by (auto simp: Run_turn_def)
    then show ?thesis using take_snapshot_truth [OF one(1) sn] one(2) by simp
  next
    case False
    then have "evs = evs1" "r' = r1" using assms(2) InEvent ap by (auto simp: Run_turn_def)
    then show ?thesis using one by simp
  qed
next
  case InRequest
  have "registry_ok (r\<lparr>rg_request := False\<rparr>)" "truth (r\<lparr>rg_request := False\<rparr>) = truth r"
    using assms(1) by (simp_all add: registry_ok_def truth_def)
  then show ?thesis using assms InRequest take_snapshot_truth [of "r\<lparr>rg_request := False\<rparr>"]
    by (auto simp: Run_turn_def split: if_splits)
qed (use assms take_snapshot_truth in \<open>auto simp: Run_turn_def split: if_splits\<close>)

text \<open>The running loop: its state, and everything it delivered so far.\<close>

inductive running :: "bool \<times> Registry \<Rightarrow> AgentEvent list \<Rightarrow> bool" where
  start: "running (False, NewRegistry) []"
| turn: "running st evs \<Longrightarrow> Run_turn input listed now st = (new', st') \<Longrightarrow> running st' (evs @ new')"
| request: "running (armed, r) evs \<Longrightarrow> running (armed, RequestSnapshot r) evs"

lemma running_truth: "running st evs \<Longrightarrow> registry_ok (snd st) \<and> fold see evs (\<lambda>k. None) = truth (snd st)"
proof (induction rule: running.induct)
  case start
  then show ?case by (simp add: registry_ok_def keyed_def panes_ok_def truth_def NewRegistry_def)
next
  case (turn st evs input listed now new' st')
  obtain armed r armed' r' where st: "st = (armed, r)" "st' = (armed', r')" by (metis prod.collapse)
  then show ?case using turn Run_turn_truth [of r input listed now armed new' armed' r'] by simp
next
  case (request armed r evs)
  then show ?case by (simp add: RequestSnapshot_def registry_ok_def truth_def)
qed

text \<open>
  C32: the event stream tells the whole truth. Whatever socket events, timers, requests and listings
  (failed ones too) the loop went through, a consumer that folds the delivered events knows exactly
  the live agents, each with its current label and status; every pane entry points to a live agent.
\<close>

theorem event_stream_exact:
  "running (armed, r) evs \<Longrightarrow>
   (\<forall>k. fold see evs (\<lambda>k. None) k = map_option (\<lambda>a. (Agent_Label a, ag_Status a)) (Registry_Agent r k))
   \<and> (\<forall>p k. gm_get (rg_byPane r) p = Some k \<longrightarrow> PaneID k = p \<and> Registry_Agent r k \<noteq> None)"
  using running_truth [of "(armed, r)" evs]
  by (auto simp: registry_ok_def panes_ok_def truth_def Registry_Agent_def shown_def [abs_def] comp_def)

definition sample_agent :: "string \<Rightarrow> Status \<Rightarrow> Agent" where
  "sample_agent pane st = \<lparr>ag_Key = \<lparr>PaneID = pane, TerminalID = ''t''\<rparr>, ag_WorkspaceID = ''w'', ag_WorkspaceLabel = ''ws'',
     ag_TabID = ''tab'', ag_TabLabel = ''Tab'', ag_Kind = ''claude'', ag_Name = [], ag_Title = [], ag_Status = st,
     ag_Revision = 0, ag_StateChangeSeq = 0, ag_Focused = False, ag_Cwd = []\<rparr>"

theorem event_stream_exact_witness:
  "let (evs, armed, r) = Run_turn InTick (Inr [sample_agent ''p1'' ''idle'']) 5 (False, NewRegistry) in
   (\<forall>k. fold see evs (\<lambda>k. None) k = map_option (\<lambda>a. (Agent_Label a, ag_Status a)) (Registry_Agent r k))
   \<and> (\<forall>p k. gm_get (rg_byPane r) p = Some k \<longrightarrow> PaneID k = p \<and> Registry_Agent r k \<noteq> None)"
proof -
  obtain evs armed r where run: "Run_turn InTick (Inr [sample_agent ''p1'' ''idle'']) 5 (False, NewRegistry) = (evs, armed, r)"
    by (metis prod_cases3)
  have "running (armed, r) ([] @ evs)" by (rule running.turn [OF running.start run])
  then show ?thesis using event_stream_exact [of armed r evs] by (simp add: run)
qed

section \<open>A snapshot\<close>

lemma next_agents_snoc:
  "next_agents (as @ [a]) = (if ag_Kind a = [] then next_agents as else gm_put (ag_Key a) a (next_agents as))"
  by (simp add: next_agents_def)

lemma next_agents_get: "gm_get (next_agents as) k = find (\<lambda>a. ag_Kind a \<noteq> [] \<and> ag_Key a = k) (rev as)"
proof (induction as rule: rev_induct)
  case Nil
  then show ?case by (simp add: next_agents_def)
next
  case (snoc a as)
  then show ?case by (auto simp: next_agents_snoc update_conv')
qed

text \<open>
  a snapshot is the source of truth. Afterwards the registry holds exactly the listed agents that
  have a kind, the last one listed under each key; the events come as those that went, then those
  that appeared, then those that changed, each group by key, and no agent has two events.
\<close>

theorem applySnapshot_exact:
  assumes "registry_ok r"
  shows "let (evs, panes, r') = applySnapshot agents now r in
     (\<forall>k. Registry_Agent r' k = find (\<lambda>a. ag_Kind a \<noteq> [] \<and> ag_Key a = k) (rev agents))
     \<and> sorted panes \<and> set panes = PaneID ` dom (Registry_Agent r')
     \<and> distinct (map (\<lambda>e. ag_Key (ae_Agent e)) evs)
     \<and> (\<exists>gone appeared changed. evs = gone @ appeared @ changed
          \<and> list_all (\<lambda>e. ae_Kind e = AgentGone \<and> ag_Status (ae_Agent e) = StatusExited) gone
          \<and> list_all (\<lambda>e. ae_Kind e = AgentAppeared) appeared \<and> list_all (\<lambda>e. ae_Kind e = AgentChanged) changed
          \<and> sorted (map (\<lambda>e. Key_String (ag_Key (ae_Agent e))) gone)
          \<and> sorted (map (\<lambda>e. Key_String (ag_Key (ae_Agent e))) appeared)
          \<and> sorted (map (\<lambda>e. Key_String (ag_Key (ae_Agent e))) changed))"
proof -
  let ?old = "rg_agents r" and ?nxt = "next_agents agents"
  let ?g = "sortEvents (gone_events ?old ?nxt)" and ?a = "sortEvents (appeared_events ?old ?nxt)"
    and ?c = "sortEvents (changed_events ?old ?nxt)"
  have kinds: "list_all (\<lambda>e. ae_Kind e = AgentGone \<and> ag_Status (ae_Agent e) = StatusExited) ?g"
      "list_all (\<lambda>e. ae_Kind e = AgentAppeared) ?a" "list_all (\<lambda>e. ae_Kind e = AgentChanged) ?c"
    by (auto simp: list_all_iff gone_events_def appeared_events_def changed_events_def exited_def)
  have dist: "distinct (map (\<lambda>e. ag_Key (ae_Agent e)) (?g @ ?a @ ?c))"
    using events_distinct [of ?old ?nxt] assms next_agents_keyed by (auto simp: registry_ok_def)
  have panes: "set (gm_keys ?nxt) = dom (gm_get ?nxt)" by (simp add: dom_map_of_conv_image_fst)
  have ord: "sorted (map (\<lambda>e. Key_String (ag_Key (ae_Agent e))) (sortEvents x))" for x
    by (simp add: sortEvents_def)
  define ps where "ps = sort (map PaneID (gm_keys ?nxt))"
  obtain r' where run: "applySnapshot agents now r = (?g @ ?a @ ?c, ps, r')" and agents: "rg_agents r' = ?nxt"
    by (simp add: applySnapshot_def Let_def ps_def)
  have get: "Registry_Agent r' = gm_get ?nxt" by (simp add: fun_eq_iff Registry_Agent_def agents)
  have ps: "sorted ps" "set ps = PaneID ` dom (gm_get ?nxt)" by (simp_all add: ps_def panes [symmetric] image_image)
  show ?thesis
    unfolding run Let_def prod.case get
  proof (intro conjI ps dist allI next_agents_get)
    show "\<exists>gone appeared changed. ?g @ ?a @ ?c = gone @ appeared @ changed
          \<and> list_all (\<lambda>e. ae_Kind e = AgentGone \<and> ag_Status (ae_Agent e) = StatusExited) gone
          \<and> list_all (\<lambda>e. ae_Kind e = AgentAppeared) appeared \<and> list_all (\<lambda>e. ae_Kind e = AgentChanged) changed
          \<and> sorted (map (\<lambda>e. Key_String (ag_Key (ae_Agent e))) gone)
          \<and> sorted (map (\<lambda>e. Key_String (ag_Key (ae_Agent e))) appeared)
          \<and> sorted (map (\<lambda>e. Key_String (ag_Key (ae_Agent e))) changed)"
      by (rule exI [of _ ?g], rule exI [of _ ?a], rule exI [of _ ?c]) (intro conjI refl kinds ord)
  qed
qed

theorem applySnapshot_exact_witness:
  "let (evs, panes, r') = applySnapshot [sample_agent ''p1'' ''idle''] 5 NewRegistry in
     (\<forall>k. Registry_Agent r' k = find (\<lambda>a. ag_Kind a \<noteq> [] \<and> ag_Key a = k) (rev [sample_agent ''p1'' ''idle'']))
     \<and> sorted panes \<and> set panes = PaneID ` dom (Registry_Agent r')
     \<and> distinct (map (\<lambda>e. ag_Key (ae_Agent e)) evs)
     \<and> (\<exists>gone appeared changed. evs = gone @ appeared @ changed
          \<and> list_all (\<lambda>e. ae_Kind e = AgentGone \<and> ag_Status (ae_Agent e) = StatusExited) gone
          \<and> list_all (\<lambda>e. ae_Kind e = AgentAppeared) appeared \<and> list_all (\<lambda>e. ae_Kind e = AgentChanged) changed
          \<and> sorted (map (\<lambda>e. Key_String (ag_Key (ae_Agent e))) gone)
          \<and> sorted (map (\<lambda>e. Key_String (ag_Key (ae_Agent e))) appeared)
          \<and> sorted (map (\<lambda>e. Key_String (ag_Key (ae_Agent e))) changed))"
proof (rule applySnapshot_exact)
  show "registry_ok NewRegistry" by (simp add: registry_ok_def keyed_def panes_ok_def NewRegistry_def)
qed

end
