(* ===== verification/Capture.thy ===== *)
theory Capture
  imports Machine Posts History Registry
begin

text \<open>
  The capture of working agents' output, \<^verbatim>\<open>internal/app/capture.go\<close>: snapshots merged into a history per agent,
  marks from the registry's events. The lock makes \<open>Observe\<close>, the merge of a tick and \<open>Since\<close> atomic, so they are
  the operations; the world is threaded through as in the other components. What \<open>Publish\<close> submits to the bridge
  is returned.
\<close>

definition captureInterval :: duration where "captureInterval = 1 * Second"
definition captureGrace :: duration where "captureGrace = 3 * Second"
definition captureMarkMinAway :: duration where "captureMarkMinAway = 5 * Second"
definition captureReadTimeout :: duration where "captureReadTimeout = 5 * Second"
definition captureLines :: int where "captureLines = 400"

record Capture =
  cp_hist :: "(Key, History) go_map"
  cp_last :: "(Key, string) go_map"
  cp_status :: "(Key, Status) go_map"
  cp_left :: "(Key, time) go_map"
  cp_Interval :: duration
  cp_Grace :: duration
  cp_MinAway :: duration
  cp_ReadTimeout :: duration

definition NewCapture :: Capture where
  "NewCapture =
     \<lparr>cp_hist = [], cp_last = [], cp_status = [], cp_left = [], cp_Interval = captureInterval, cp_Grace = captureGrace,
      cp_MinAway = captureMarkMinAway, cp_ReadTimeout = captureReadTimeout\<rparr>"

definition cp_history :: "Key \<Rightarrow> Capture \<Rightarrow> History \<times> Capture" where
  "cp_history key c =
     (case gm_get (cp_hist c) key of
        Some h \<Rightarrow> (h, c)
      | None \<Rightarrow> (NewHistory, c\<lparr>cp_hist := gm_put key NewHistory (cp_hist c)\<rparr>))"

definition cp_forget :: "Key \<Rightarrow> Capture \<Rightarrow> Capture" where
  "cp_forget key c =
     c\<lparr>cp_hist := gm_del key (cp_hist c), cp_last := gm_del key (cp_last c), cp_status := gm_del key (cp_status c),
       cp_left := gm_del key (cp_left c)\<rparr>"

text \<open>A transition into working. The clock is read only when the agent was seen to leave working.\<close>

definition cp_working :: "'w Machine \<Rightarrow> Key \<Rightarrow> bool \<Rightarrow> Capture \<Rightarrow> 'w \<Rightarrow> Capture \<times> 'w" where
  "cp_working g key known c w =
     (let (away, c1, w1) =
            (case gm_get (cp_left c) key of
               None \<Rightarrow> (cp_MinAway c, c, w)
             | Some at \<Rightarrow>
                 (let (now, w') = mc_Now g w
                  in (time_Sub now at, c\<lparr>cp_left := gm_del key (cp_left c)\<rparr>, w')))
      in if known \<and> away < cp_MinAway c1 then (c1, w1)
         else (let (h, c2) = cp_history key c1
               in (c2\<lparr>cp_hist := gm_put key (Mark h) (cp_hist c2)\<rparr>, w1)))"

definition Capture_Observe :: "'w Machine \<Rightarrow> AgentEvent \<Rightarrow> Capture \<Rightarrow> 'w \<Rightarrow> Capture \<times> 'w" where
  "Capture_Observe g ev c w =
     (let key = ag_Key (ae_Agent ev); cur = ag_Status (ae_Agent ev)
      in if ae_Kind ev = AgentGone then (cp_forget key c, w)
         else let prev = gm_get (cp_status c) key; c1 = c\<lparr>cp_status := gm_put key cur (cp_status c)\<rparr>
              in if cur = StatusWorking \<and> prev \<noteq> Some StatusWorking then cp_working g key (prev \<noteq> None) c1 w
                 else if prev = Some StatusWorking \<and> cur \<noteq> StatusWorking
                 then (let (now, w') = mc_Now g w in (c1\<lparr>cp_left := gm_put key now (cp_left c1)\<rparr>, w'))
                 else (c1, w))"

definition inGrace :: "Key \<Rightarrow> time \<Rightarrow> Capture \<Rightarrow> bool" where
  "inGrace key now c =
     (case gm_get (cp_left c) key of None \<Rightarrow> False | Some at \<Rightarrow> time_Sub now at \<le> cp_Grace c)"

definition cp_read :: "'w Machine \<Rightarrow> Key \<Rightarrow> 'w \<Rightarrow> Screen result \<times> 'w" where
  "cp_read g key w = mc_ReadScreen g (PaneID key) ScreenRecent captureLines w"

text \<open>The merged lines, \<open>[]\<close> for an unchanged screen.\<close>

definition merge :: "'w Machine \<Rightarrow> Key \<Rightarrow> Screen \<Rightarrow> Capture \<Rightarrow> string list \<times> Capture" where
  "merge g key screen c =
     (let (h, c1) = cp_history key c; hash = mc_hash g (sc_Text screen)
      in if gm_string (cp_last c1) key = hash then ([], c1)
         else let (res, h') = Append (screenLines (sc_Text screen)) h;
                  lines = CommittedTail (int (ar_added res)) h'
              in (if ar_gap res then HistoryGapMarker # lines else lines,
                  c1\<lparr>cp_hist := gm_put key h' (cp_hist c1), cp_last := gm_put key hash (cp_last c1)\<rparr>))"

definition capture_agent :: "'w Machine \<Rightarrow> Key \<Rightarrow> Capture \<Rightarrow> 'w \<Rightarrow> string list \<times> Capture \<times> 'w" where
  "capture_agent g key c w =
     (case cp_read g key w of
        (Inl e, w') \<Rightarrow> ([], c, w')
      | (Inr screen, w') \<Rightarrow> (let (lines, c') = merge g key screen c in (lines, c', w')))"

text \<open>One tick: the live agents in order, what is published for each.\<close>

fun tick_loop :: "'w Machine \<Rightarrow> time \<Rightarrow> Agent list \<Rightarrow> Capture \<Rightarrow> 'w \<Rightarrow> (Key \<times> string list) list \<times> Capture \<times> 'w" where
  "tick_loop g now [] c w = ([], c, w)"
| "tick_loop g now (a # as) c w =
     (if ag_Status a \<noteq> StatusWorking \<and> \<not> inGrace (ag_Key a) now c then tick_loop g now as c w
      else let (lines, c1, w1) = capture_agent g (ag_Key a) c w;
               (rest, c2, w2) = tick_loop g now as c1 w1
           in (if lines \<noteq> [] then (ag_Key a, lines) # rest else rest, c2, w2))"

definition tick :: "'w Machine \<Rightarrow> Capture \<Rightarrow> 'w \<Rightarrow> (Key \<times> string list) list \<times> Capture \<times> 'w" where
  "tick g c w = (let (now, w1) = mc_Now g w in tick_loop g now (mc_live g w1) c w1)"

text \<open>\<open>Since\<close>: the lines after the mark and whether there is one, and what is published.\<close>

definition Since :: "'w Machine \<Rightarrow> Key \<Rightarrow> Capture \<Rightarrow> 'w \<Rightarrow> (string list \<times> bool \<times> string list) result \<times> Capture \<times> 'w" where
  "Since g key c w =
     (case cp_read g key w of
        (Inl e, w') \<Rightarrow> (Inl e, c, w')
      | (Inr screen, w') \<Rightarrow>
          (let (added, c') = merge g key screen c; h = the (gm_get (cp_hist c') key)
           in (Inr (Lines h, Marked h, added), c', w')))"

end
