(* ===== verification/Debouncer.thy ===== *)
theory Debouncer
  imports Topic_Mapping "HOL-Library.Multiset"
begin

text \<open>
  The debouncer of topic edits, \<^verbatim>\<open>internal/app/debounce.go\<close>: \<open>Schedule\<close> (re)starts a trailing timer per
  agent and the key is delivered when it fires. A cancel channel is its number, in the order of
  creation; every \<open>ScheduleAfter\<close> leaves one goroutine behind, which waits for its timer or its cancel
  channel, and both may be ready at once. A goroutine that won its key first gives up the entry and then
  sends the key, which blocks while the channel is full; between the two the key is in \<open>db_sending\<close>.
\<close>

section \<open>State and operations\<close>

record Debouncer =
  db_delay :: duration
  db_pending :: "(Key, nat) go_map"
  db_due :: "Key list"
  db_next :: nat
  db_closed :: "nat list"
  db_timers :: "(nat, Key \<times> time) go_map"
  db_sending :: "Key list"

definition due_cap :: nat where "due_cap = 256"

definition newDebouncer :: "duration \<Rightarrow> Debouncer" where
  "newDebouncer delay =
     \<lparr>db_delay = delay, db_pending = [], db_due = [], db_next = 0, db_closed = [], db_timers = [], db_sending = []\<rparr>"

text \<open>The timer is \<^verbatim>\<open>clock.After(delay)\<close>, taken at time \<open>now\<close>.\<close>

definition ScheduleAfter :: "Key \<Rightarrow> duration \<Rightarrow> time \<Rightarrow> Debouncer \<Rightarrow> Debouncer" where
  "ScheduleAfter key delay now d =
     (let d1 = (case gm_get (db_pending d) key of
                  Some cancel \<Rightarrow> d\<lparr>db_closed := cancel # db_closed d\<rparr>
                | None \<Rightarrow> d);
          cancel = db_next d1
      in d1\<lparr>db_next := Suc cancel, db_pending := gm_put key cancel (db_pending d1),
            db_timers := gm_put cancel (key, now + delay) (db_timers d1)\<rparr>)"

definition Schedule :: "Key \<Rightarrow> time \<Rightarrow> Debouncer \<Rightarrow> Debouncer" where
  "Schedule key now d = ScheduleAfter key (db_delay d) now d"

definition Cancel :: "Key \<Rightarrow> Debouncer \<Rightarrow> bool \<times> Debouncer" where
  "Cancel key d =
     (case gm_get (db_pending d) key of
        None \<Rightarrow> (False, d)
      | Some cancel \<Rightarrow>
          (True, d\<lparr>db_closed := cancel # db_closed d, db_pending := gm_del key (db_pending d)\<rparr>))"

definition sortKeys :: "Key list \<Rightarrow> Key list" where
  "sortKeys keys = sort_key Key_String keys"

definition Drain :: "Debouncer \<Rightarrow> Key list \<times> Debouncer" where
  "Drain d =
     (sortKeys (gm_keys (db_pending d)),
      d\<lparr>db_closed := map snd (db_pending d) @ db_closed d, db_pending := []\<rparr>)"

definition Pending :: "Debouncer \<Rightarrow> nat" where
  "Pending d = length (db_pending d)"

text \<open>The goroutine of \<open>ScheduleAfter\<close> after its timer fired.\<close>

definition timer_fired :: "nat \<Rightarrow> Key \<Rightarrow> Debouncer \<Rightarrow> Debouncer" where
  "timer_fired cancel key d =
     (let d1 = d\<lparr>db_timers := gm_del cancel (db_timers d)\<rparr>
      in if gm_get (db_pending d1) key \<noteq> Some cancel then d1
         else d1\<lparr>db_pending := gm_del key (db_pending d1), db_sending := key # db_sending d1\<rparr>)"

section \<open>Interleavings\<close>

text \<open>One step: a call of the owner, a goroutine waking up, a send, or the owner receiving a key.\<close>

datatype db_action =
    ASchedule Key duration time | ACancel Key | ADrain
  | ATimer nat time | AQuit nat | ASend Key | AReceive Key

inductive db_step :: "Debouncer \<Rightarrow> db_action \<Rightarrow> Debouncer \<Rightarrow> bool" where
  schedule: "db_step d (ASchedule key delay now) (ScheduleAfter key delay now d)"
| cancel: "db_step d (ACancel key) (snd (Cancel key d))"
| drain: "db_step d ADrain (snd (Drain d))"
| timer: "gm_get (db_timers d) c = Some (key, at) \<Longrightarrow> at \<le> now \<Longrightarrow> db_step d (ATimer c now) (timer_fired c key d)"
| quit: "gm_get (db_timers d) c = Some (key, at) \<Longrightarrow> c \<in> set (db_closed d)
    \<Longrightarrow> db_step d (AQuit c) (d\<lparr>db_timers := gm_del c (db_timers d)\<rparr>)"
| send: "key \<in> set (db_sending d) \<Longrightarrow> length (db_due d) < due_cap
    \<Longrightarrow> db_step d (ASend key) (d\<lparr>db_sending := remove1 key (db_sending d), db_due := db_due d @ [key]\<rparr>)"
| receive: "db_due d = key # keys \<Longrightarrow> db_step d (AReceive key) (d\<lparr>db_due := keys\<rparr>)"

inductive_cases step_elims: "db_step d a d'"

inductive db_reachable :: "Debouncer \<Rightarrow> bool" where
  start: "db_reachable (newDebouncer delay)"
| run: "db_reachable d \<Longrightarrow> db_step d a d' \<Longrightarrow> db_reachable d'"

section \<open>The abstract debouncer\<close>

text \<open>
  What the owner relies on: per key at most one deadline. Scheduling replaces it, cancelling and draining
  drop it, and only a deadline that has passed delivers its key, once.
\<close>

type_synonym deadlines = "Key \<Rightarrow> time option"

definition spec_step :: "deadlines \<Rightarrow> db_action \<Rightarrow> deadlines \<Rightarrow> Key multiset \<Rightarrow> bool" where
  "spec_step D a D' out \<longleftrightarrow>
     (case a of
        ASchedule key delay now \<Rightarrow> D' = D(key \<mapsto> now + delay) \<and> out = {#}
      | ACancel key \<Rightarrow> D' = D(key := None) \<and> out = {#}
      | ADrain \<Rightarrow> D' = (\<lambda>_. None) \<and> out = {#}
      | ATimer c now \<Rightarrow> D' = D \<and> out = {#}
          \<or> (\<exists>key at. D key = Some at \<and> at \<le> now \<and> D' = D(key := None) \<and> out = {#key#})
      | _ \<Rightarrow> D' = D \<and> out = {#})"

definition deadline_of :: "Debouncer \<Rightarrow> deadlines" where
  "deadline_of d key =
     (case gm_get (db_pending d) key of
        None \<Rightarrow> None
      | Some c \<Rightarrow> map_option snd (gm_get (db_timers d) c))"

text \<open>The keys on their way to the owner, and those a step hands over.\<close>

definition in_flight :: "Debouncer \<Rightarrow> Key multiset" where
  "in_flight d = mset (db_sending d) + mset (db_due d)"

definition received :: "db_action \<Rightarrow> Key multiset" where
  "received a = (case a of AReceive key \<Rightarrow> {#key#} | _ \<Rightarrow> {#})"

section \<open>The invariant\<close>

definition db_ok :: "Debouncer \<Rightarrow> bool" where
  "db_ok d \<longleftrightarrow> gm_ok (db_pending d)
     \<and> (\<forall>key c. gm_get (db_pending d) key = Some c \<longrightarrow>
          (\<exists>at. gm_get (db_timers d) c = Some (key, at)) \<and> c \<notin> set (db_closed d))
     \<and> (\<forall>c x. gm_get (db_timers d) c = Some x \<longrightarrow> c < db_next d)
     \<and> (\<forall>c\<in>set (db_closed d). c < db_next d)"

lemma db_ok_pending:
  "db_ok d \<Longrightarrow> gm_get (db_pending d) key = Some c \<Longrightarrow>
     (\<exists>at. gm_get (db_timers d) c = Some (key, at)) \<and> c \<notin> set (db_closed d) \<and> c < db_next d"
  unfolding db_ok_def by blast

lemma db_ok_inj:
  assumes "db_ok d" "gm_get (db_pending d) k = Some c" "gm_get (db_pending d) l = Some c"
  shows "k = l"
proof -
  obtain at bt where "gm_get (db_timers d) c = Some (k, at)" "gm_get (db_timers d) c = Some (l, bt)"
    using db_ok_pending assms by blast
  then show ?thesis by simp
qed

lemma db_ok_new [inv_intros]: "db_ok (newDebouncer delay)"
  by (simp add: db_ok_def newDebouncer_def)

lemma db_ok_schedule [inv_intros]:
  assumes "db_ok d" shows "db_ok (ScheduleAfter key delay now d)"
proof -
  note old = db_ok_pending [OF assms] and inj = db_ok_inj [OF assms]
  have lt: "gm_get (db_timers d) c = Some x \<Longrightarrow> c < db_next d" "c \<in> set (db_closed d) \<Longrightarrow> c < db_next d" for c x
    using assms by (auto simp: db_ok_def)
  show ?thesis
    unfolding db_ok_def
  proof (intro conjI allI impI ballI)
    show "gm_ok (db_pending (ScheduleAfter key delay now d))"
      using assms by (simp add: db_ok_def ScheduleAfter_def Let_def split: option.split)
    fix k c assume "gm_get (db_pending (ScheduleAfter key delay now d)) k = Some c"
    then have k: "k = key \<and> c = db_next d \<or> k \<noteq> key \<and> gm_get (db_pending d) k = Some c"
      by (auto simp: ScheduleAfter_def Let_def update_conv' split: option.splits if_splits)
    then show "\<exists>at. gm_get (db_timers (ScheduleAfter key delay now d)) c = Some (k, at)"
      using old [of k c] by (auto simp: ScheduleAfter_def Let_def update_conv' split: option.splits)
    show "c \<notin> set (db_closed (ScheduleAfter key delay now d))"
      using k old [of k c] inj [of k c key] lt(2) [of c] old [of key c]
      by (auto simp: ScheduleAfter_def Let_def split: option.splits)
  next
    fix c x assume "gm_get (db_timers (ScheduleAfter key delay now d)) c = Some x"
    then show "c < db_next (ScheduleAfter key delay now d)"
      using lt(1) [of c x] by (auto simp: ScheduleAfter_def Let_def update_conv' split: option.splits if_splits)
  next
    fix c assume "c \<in> set (db_closed (ScheduleAfter key delay now d))"
    then show "c < db_next (ScheduleAfter key delay now d)"
      using lt(2) [of c] old [of key c] by (auto simp: ScheduleAfter_def Let_def split: option.splits)
  qed
qed

text \<open>Giving up entries and goroutines keeps the invariant when a goroutine goes only without its entry.\<close>

lemma db_ok_less:
  assumes "db_ok d" "gm_ok (db_pending d')" "db_next d' = db_next d"
    and p: "\<And>k c. gm_get (db_pending d') k = Some c \<Longrightarrow>
      gm_get (db_pending d) k = Some c \<and> gm_get (db_timers d') c = gm_get (db_timers d) c
      \<and> (c \<in> set (db_closed d') \<longrightarrow> c \<in> set (db_closed d))"
    and t: "\<And>c x. gm_get (db_timers d') c = Some x \<Longrightarrow> gm_get (db_timers d) c = Some x"
    and c: "\<And>c. c \<in> set (db_closed d') \<Longrightarrow> c < db_next d"
  shows "db_ok d'"
proof -
  have "(\<exists>at. gm_get (db_timers d') c = Some (k, at)) \<and> c \<notin> set (db_closed d')"
    if "gm_get (db_pending d') k = Some c" for k c
    using p [OF that] db_ok_pending [OF assms(1), of k c] by auto
  moreover have "c < db_next d" if "gm_get (db_timers d') c = Some x" for c x
    using t [OF that] assms(1) unfolding db_ok_def by blast
  ultimately show ?thesis using assms(2,3) c unfolding db_ok_def by simp
qed

lemma closed_less: "db_ok d \<Longrightarrow> c \<in> set (db_closed d) \<Longrightarrow> c < db_next d"
  unfolding db_ok_def by blast

lemma pending_ok: "db_ok d \<Longrightarrow> gm_ok (db_pending d)"
  unfolding db_ok_def by blast

lemma db_ok_cancel [inv_intros]:
  assumes "db_ok d" shows "db_ok (snd (Cancel key d))"
proof (cases "gm_get (db_pending d) key")
  case (Some c)
  have other: "k \<noteq> key \<Longrightarrow> gm_get (db_pending d) k \<noteq> Some c" for k
    using db_ok_inj [OF assms _ Some] by blast
  show ?thesis
    by (rule db_ok_less [OF assms])
      (use Some other pending_ok [OF assms] closed_less [OF assms] db_ok_pending [OF assms Some] in
        \<open>auto simp: Cancel_def split: if_splits\<close>)
qed (use assms in \<open>simp add: Cancel_def\<close>)

lemma db_ok_drain [inv_intros]:
  assumes "db_ok d" shows "db_ok (snd (Drain d))"
proof -
  have "gm_ok (db_pending d)" using assms by (simp add: db_ok_def)
  then have "c < db_next d" if "(k, c) \<in> set (db_pending d)" for k c
    using db_ok_pending [OF assms, of k c] that by (simp add: gm_get_in)
  then show ?thesis using assms by (auto simp: db_ok_def Drain_def)
qed

lemma db_ok_timer [inv_intros]:
  assumes "db_ok d" "gm_get (db_timers d) c = Some (key, at)" shows "db_ok (timer_fired c key d)"
proof (rule db_ok_less [OF assms(1)])
  fix k e assume e: "gm_get (db_pending (timer_fired c key d)) k = Some e"
  then have old: "gm_get (db_pending d) k = Some e" and ne: "\<not> (k = key \<and> e = c)"
    by (auto simp: timer_fired_def Let_def split: if_splits)
  then have "e \<noteq> c" using db_ok_pending [OF assms(1) old] assms(2) by auto
  with old show "gm_get (db_pending d) k = Some e
      \<and> gm_get (db_timers (timer_fired c key d)) e = gm_get (db_timers d) e
      \<and> (e \<in> set (db_closed (timer_fired c key d)) \<longrightarrow> e \<in> set (db_closed d))"
    by (simp add: timer_fired_def Let_def)
qed (use pending_ok [OF assms(1)] closed_less [OF assms(1)] in \<open>auto simp: timer_fired_def Let_def split: if_splits\<close>)

lemma db_ok_step:
  assumes "db_step d a d'" "db_ok d" shows "db_ok d'"
  using assms
proof (cases rule: db_step.cases)
  case (quit c key at)
  then have "\<forall>k. gm_get (db_pending d) k \<noteq> Some c" using db_ok_pending [OF assms(2)] by blast
  with quit assms(2) show ?thesis by (auto simp: db_ok_def)
next
  case (send key)
  with assms(2) show ?thesis by (simp add: db_ok_def)
next
  case (receive key keys)
  with assms(2) show ?thesis by (simp add: db_ok_def)
qed (use assms(2) in \<open>simp_all add: inv_intros\<close>)

lemma db_ok_reachable: "db_reachable d \<Longrightarrow> db_ok d"
  by (induction rule: db_reachable.induct) (auto intro: inv_intros db_ok_step)

section \<open>Properties\<close>

lemma deadline_of_cong:
  assumes "db_pending d' = db_pending d" "\<And>k c. gm_get (db_pending d) k = Some c \<Longrightarrow>
    gm_get (db_timers d') c = gm_get (db_timers d) c"
  shows "deadline_of d' = deadline_of d"
  by (rule ext) (simp add: deadline_of_def assms split: option.split)

lemma deadline_of_schedule:
  assumes "db_ok d"
  shows "deadline_of (ScheduleAfter key delay now d) = (deadline_of d)(key \<mapsto> now + delay)"
proof
  fix k
  have "gm_get (db_pending d) k \<noteq> Some (db_next d)"
    using db_ok_pending [OF assms, of k "db_next d"] by blast
  then show "deadline_of (ScheduleAfter key delay now d) k = ((deadline_of d)(key \<mapsto> now + delay)) k"
    by (simp add: deadline_of_def ScheduleAfter_def Let_def update_conv' split: option.split)
qed

lemma deadline_of_cancel: "deadline_of (snd (Cancel key d)) = (deadline_of d)(key := None)"
  by (rule ext) (simp add: deadline_of_def Cancel_def split: option.split)

lemma deadline_of_drain: "deadline_of (snd (Drain d)) = (\<lambda>_. None)"
  by (rule ext) (simp add: deadline_of_def Drain_def)

lemma deadline_of_timer:
  assumes "db_ok d" "gm_get (db_timers d) c = Some (key, at)"
  shows "deadline_of (timer_fired c key d) =
    (if gm_get (db_pending d) key = Some c then (deadline_of d)(key := None) else deadline_of d)"
proof -
  have other: "e \<noteq> c" if "gm_get (db_pending d) k = Some e" "k \<noteq> key" for k e
    using db_ok_pending [OF assms(1) that(1)] assms(2) that(2) by auto
  have mine: "e \<noteq> c" if "gm_get (db_pending d) k = Some e" "gm_get (db_pending d) key \<noteq> Some c" for k e
    using other [OF that(1)] that by (cases "k = key") auto
  show ?thesis
    by (rule ext) (auto simp: deadline_of_def timer_fired_def Let_def dest: other mine split: option.split)
qed

lemma deadline_of_Some:
  "db_ok d \<Longrightarrow> deadline_of d key = Some at \<Longrightarrow>
     \<exists>c. gm_get (db_pending d) key = Some c \<and> gm_get (db_timers d) c = Some (key, at)"
  using db_ok_pending [of d key] by (fastforce simp: deadline_of_def split: option.splits)

lemma in_flight_calls:
  "in_flight (ScheduleAfter key delay now d) = in_flight d" "in_flight (snd (Cancel key d)) = in_flight d"
  "in_flight (snd (Drain d)) = in_flight d"
  by (auto simp: in_flight_def ScheduleAfter_def Cancel_def Drain_def Let_def split: option.split)

lemma in_flight_timer:
  "in_flight (timer_fired c key d) =
     in_flight d + (if gm_get (db_pending d) key = Some c then {#key#} else {#})"
  by (simp add: in_flight_def timer_fired_def Let_def)

text \<open>
  C27: the debouncer refines one deadline per key, in every interleaving of the owner with the timer
  goroutines: a timer that was re-armed, cancelled or drained delivers nothing even if it fires at the same
  moment, a key is handed over only after the delay of its last \<open>Schedule\<close> has passed and then exactly
  once, and no key is lost on the way to the owner.
\<close>

theorem debouncer_refines:
  assumes "db_reachable d" "db_step d a d'"
  shows "\<exists>out. spec_step (deadline_of d) a (deadline_of d') out
    \<and> in_flight d' + received a = in_flight d + out"
proof -
  have ok: "db_ok d" using assms(1) by (rule db_ok_reachable)
  from assms(2) show ?thesis
  proof (cases rule: db_step.cases)
    case (timer c key at now)
    show ?thesis
    proof (cases "gm_get (db_pending d) key = Some c")
      case True
      then have "deadline_of d key = Some at" using timer by (simp add: deadline_of_def)
      with True timer show ?thesis
        by (auto simp: spec_step_def received_def deadline_of_timer [OF ok] in_flight_timer intro!: exI [of _ "{#key#}"])
    qed (use timer in \<open>auto simp: spec_step_def received_def deadline_of_timer [OF ok] in_flight_timer\<close>)
  next
    case (quit c key at)
    then have "deadline_of d' = deadline_of d"
      using db_ok_pending [OF ok] by (intro deadline_of_cong) auto
    with quit show ?thesis by (simp add: spec_step_def received_def in_flight_def)
  next
    case (send key)
    then have "deadline_of d' = deadline_of d" by (intro deadline_of_cong) auto
    with send show ?thesis by (simp add: spec_step_def received_def in_flight_def)
  next
    case (receive key keys)
    then have "deadline_of d' = deadline_of d" by (intro deadline_of_cong) auto
    with receive show ?thesis by (simp add: spec_step_def received_def in_flight_def)
  qed (auto simp: spec_step_def received_def deadline_of_schedule [OF ok] deadline_of_cancel
      deadline_of_drain in_flight_calls)
qed

theorem debouncer_refines_witness:
  "let key = \<lparr>PaneID = ''p1'', TerminalID = ''t1''\<rparr>;
       d = ScheduleAfter key 3 11 (ScheduleAfter key 3 10 (newDebouncer 3))
   in \<exists>out. spec_step (deadline_of d) (ATimer 0 13) (deadline_of (timer_fired 0 key d)) out
      \<and> in_flight (timer_fired 0 key d) + received (ATimer 0 13) = in_flight d + out"
proof -
  let ?key = "\<lparr>PaneID = ''p1'', TerminalID = ''t1''\<rparr>"
  let ?d = "ScheduleAfter ?key 3 11 (ScheduleAfter ?key 3 10 (newDebouncer 3))"
  have "db_reachable ?d"
    by (rule db_reachable.run [OF db_reachable.run [OF db_reachable.start db_step.schedule] db_step.schedule])
  moreover have "db_step ?d (ATimer 0 13) (timer_fired 0 ?key ?d)"
    by (rule db_step.timer [of _ _ _ 13]) (simp_all add: ScheduleAfter_def newDebouncer_def)
  ultimately show ?thesis unfolding Let_def by (rule debouncer_refines)
qed

text \<open>
  C28: a deadline is met and \<open>Drain\<close> hands over what is armed: the goroutine of an armed key can deliver it
  from its deadline on, whatever else happened, and a drain returns exactly the armed keys in the order of
  their names, after which nothing is armed.
\<close>

theorem debouncer_delivers:
  assumes "db_reachable d"
  shows "(\<forall>key at now. deadline_of d key = Some at \<and> at \<le> now \<longrightarrow>
      (\<exists>c d'. db_step d (ATimer c now) d' \<and> deadline_of d' key = None \<and> in_flight d' = in_flight d + {#key#}))
    \<and> set (fst (Drain d)) = dom (deadline_of d) \<and> distinct (fst (Drain d))
    \<and> sorted (map Key_String (fst (Drain d))) \<and> Pending d = card (dom (deadline_of d))
    \<and> Pending (snd (Drain d)) = 0"
proof -
  have ok: "db_ok d" using assms by (rule db_ok_reachable)
  have "\<exists>c d'. db_step d (ATimer c now) d' \<and> deadline_of d' key = None \<and> in_flight d' = in_flight d + {#key#}"
    if armed: "deadline_of d key = Some at" and late: "at \<le> now" for key at now
  proof -
    obtain c where c: "gm_get (db_pending d) key = Some c" "gm_get (db_timers d) c = Some (key, at)"
      using deadline_of_Some [OF ok armed] by blast
    have "db_step d (ATimer c now) (timer_fired c key d)" using c(2) late by (rule db_step.timer)
    then show ?thesis
      using c by (auto simp: deadline_of_timer [OF ok] in_flight_timer intro!: exI [of _ c] exI [of _ "timer_fired c key d"])
  qed
  moreover have "dom (deadline_of d) = set (gm_keys (db_pending d))"
  proof -
    have "deadline_of d key = None \<longleftrightarrow> gm_get (db_pending d) key = None" for key
      using db_ok_pending [OF ok, of key] by (auto simp: deadline_of_def split: option.split)
    then show ?thesis by (simp add: dom_def flip: dom_map_of_conv_image_fst)
  qed
  moreover have "distinct (gm_keys (db_pending d))" using ok by (simp add: db_ok_def gm_ok_def)
  moreover have "length (db_pending d) = card (set (gm_keys (db_pending d)))"
    using calculation(3) by (metis distinct_card length_map)
  ultimately show ?thesis
    by (simp add: Drain_def sortKeys_def Pending_def del: set_map)
qed

theorem debouncer_delivers_witness:
  "let key = \<lparr>PaneID = ''p1'', TerminalID = ''t1''\<rparr>;
       d = ScheduleAfter key 3 11 (ScheduleAfter key 3 10 (newDebouncer 3))
   in (\<exists>c d'. db_step d (ATimer c 14) d' \<and> deadline_of d' key = None \<and> in_flight d' = in_flight d + {#key#})
      \<and> Pending d = 1 \<and> fst (Drain d) = [key]"
proof -
  let ?key = "\<lparr>PaneID = ''p1'', TerminalID = ''t1''\<rparr>"
  let ?d = "ScheduleAfter ?key 3 11 (ScheduleAfter ?key 3 10 (newDebouncer 3))"
  have "db_reachable ?d"
    by (rule db_reachable.run [OF db_reachable.run [OF db_reachable.start db_step.schedule] db_step.schedule])
  note props = debouncer_delivers [OF this]
  have "deadline_of ?d ?key = Some 14" by (simp add: deadline_of_def ScheduleAfter_def newDebouncer_def)
  then have "\<exists>c d'. db_step ?d (ATimer c 14) d' \<and> deadline_of d' ?key = None \<and> in_flight d' = in_flight ?d + {#?key#}"
    by (rule props [THEN conjunct1, rule_format, OF conjI]) simp
  moreover have "Pending ?d = 1" "fst (Drain ?d) = [?key]"
    by (simp_all add: Pending_def Drain_def sortKeys_def ScheduleAfter_def newDebouncer_def)
  ultimately show ?thesis unfolding Let_def by blast
qed

end
