(* ===== verification/Outbound.thy ===== *)
theory Outbound
  imports Capture Debouncer
begin

text \<open>
  The poster of screens and questions, \<^verbatim>\<open>internal/app/outbound.go\<close>. It runs on the bridge goroutine: every
  definition below is one call on it, from the state before to the state after with the error it returns. The
  state holds what Go keeps in the struct; \<open>ob_world\<close> is everything it talks to. The options are read from the
  registry of the program (the \<open>nil\<close> registry of some tests is left out); \<open>ob_presence\<close> says whether \<open>SetPresence\<close>
  has wired quiet mode.
\<close>

section \<open>State\<close>

definition screenSettle :: duration where "screenSettle = 1500 * Millisecond"
definition blockedLines :: int where "blockedLines = 25"
definition doneLines :: int where "doneLines = 12"
definition replyMaxParts :: int where "replyMaxParts = 5"
definition turnSettle :: duration where "turnSettle = 5 * Second"
definition typingTimeout :: duration where "typingTimeout = 10 * Minute"
definition screenAllInlineRunes :: nat where "screenAllInlineRunes = 12000"

definition reactionTaken :: string where "reactionTaken = [CHR 0xF0, CHR 0x9F, CHR 0x91, CHR 0x80]"
definition reactionDone :: string where "reactionDone = [CHR 0xF0, CHR 0x9F, CHR 0x91, CHR 0x8C]"

record pendingCapture =
  pc_text :: string
  pc_seq :: int

record keyboard =
  kb_messageID :: int
  kb_choices :: "Choice list"
  kb_multi :: bool
  kb_textEntry :: nat
  kb_textLabel :: string
  kb_cursor :: nat
  kb_submitRow :: nat
  kb_waiting :: bool

record typingWait =
  tw_threadID :: int
  tw_messageID :: int
  tw_until :: time

record turn =
  tn_threadID :: int
  tn_messageID :: int
  tn_started :: time
  tn_reacted :: bool
  tn_ended :: bool

definition zero_turn :: turn where
  "zero_turn = \<lparr>tn_threadID = 0, tn_messageID = 0, tn_started = 0, tn_reacted = False, tn_ended = False\<rparr>"

record 'w Outbound =
  ob_chatID :: int
  ob_operators :: "int list"
  ob_pagerReachable :: bool
  ob_presence :: bool
  ob_capture :: Capture
  ob_deb :: Debouncer
  ob_lastPosted :: "(Key, string) go_map"
  ob_keyboards :: "(Key, keyboard) go_map"
  ob_announced :: "(Key, bool) go_map"
  ob_turns :: "(Key, turn) go_map"
  ob_turnDeb :: Debouncer
  ob_captures :: "(Key, pendingCapture) go_map"
  ob_refresh :: "(Key, int) go_map"
  ob_typing :: "(Key, typingWait) go_map"
  ob_world :: 'w

definition newOutbound :: "int \<Rightarrow> int list \<Rightarrow> Capture \<Rightarrow> 'w \<Rightarrow> 'w Outbound" where
  "newOutbound chatID operators capture w =
     \<lparr>ob_chatID = chatID, ob_operators = operators, ob_pagerReachable = False, ob_presence = False,
      ob_capture = capture, ob_deb = newDebouncer screenSettle, ob_lastPosted = [], ob_keyboards = [],
      ob_announced = [], ob_turns = [], ob_turnDeb = newDebouncer turnSettle, ob_captures = [], ob_refresh = [],
      ob_typing = [], ob_world = w\<rparr>"

section \<open>Reading the switches\<close>

abbreviation ob_options :: "'w Machine \<Rightarrow> 'w Outbound \<Rightarrow> Options" where
  "ob_options g o' \<equiv> mc_options g (ob_world o')"

abbreviation ob_paused :: "'w Machine \<Rightarrow> 'w Outbound \<Rightarrow> bool" where
  "ob_paused g o' \<equiv> \<not> SyncEnabled (ob_options g o')"

abbreviation ob_agent :: "'w Machine \<Rightarrow> 'w Outbound \<Rightarrow> Key \<Rightarrow> Agent option" where
  "ob_agent g o' \<equiv> mc_agent g (ob_world o')"

abbreviation ob_entry :: "'w Machine \<Rightarrow> 'w Outbound \<Rightarrow> Key \<Rightarrow> TopicEntry option" where
  "ob_entry g o' \<equiv> View_Entry (mc_topics g (ob_world o'))"

definition ob_quiet :: "'w Machine \<Rightarrow> 'w Outbound \<Rightarrow> bool" where
  "ob_quiet g o' \<longleftrightarrow> ob_presence o' \<and> mc_quiet g (ob_world o')"

definition ob_posts :: "'w Machine \<Rightarrow> 'w Outbound \<Rightarrow> PostsMode" where
  "ob_posts g o' = (if ob_presence o' then QuietPosts (ob_options g o') else PostsNormal)"

definition ob_reannounce :: "'w Machine \<Rightarrow> 'w Outbound \<Rightarrow> bool" where
  "ob_reannounce g o' \<longleftrightarrow> ob_presence o' \<and> QuietReannounce (ob_options g o')"

definition paging :: "'w Machine \<Rightarrow> 'w Outbound \<Rightarrow> bool" where
  "paging g o' \<longleftrightarrow> PagerEnabled (ob_options g o') \<and> ob_pagerReachable o' \<and> ob_operators o' \<noteq> []"

definition SetPagerReachable :: "bool \<Rightarrow> 'w Outbound \<Rightarrow> 'w Outbound" where
  "SetPagerReachable ok o' = o'\<lparr>ob_pagerReachable := ok\<rparr>"

definition Outbound_SetPresence :: "'w Outbound \<Rightarrow> 'w Outbound" where
  "Outbound_SetPresence o' = o'\<lparr>ob_presence := True\<rparr>"

definition ob_clean :: "'w Machine \<Rightarrow> 'w Outbound \<Rightarrow> string \<Rightarrow> string" where
  "ob_clean g o' s = fst (cleanScreen s (PostsChrome (ob_options g o')))"

section \<open>Calls\<close>

text \<open>A call on the world, and the clock.\<close>

definition ob_call :: "('w \<Rightarrow> 'r \<times> 'w) \<Rightarrow> 'w Outbound \<Rightarrow> 'r \<times> 'w Outbound" where
  "ob_call call o' = (let (x, w) = call (ob_world o') in (x, o'\<lparr>ob_world := w\<rparr>))"

definition ob_now :: "'w Machine \<Rightarrow> 'w Outbound \<Rightarrow> time \<times> 'w Outbound" where
  "ob_now g o' = ob_call (mc_Now g) o'"

definition ob_Schedule :: "'w Machine \<Rightarrow> Key \<Rightarrow> 'w Outbound \<Rightarrow> 'w Outbound" where
  "ob_Schedule g key o' = (let (now, o1) = ob_now g o' in o1\<lparr>ob_deb := Schedule key now (ob_deb o1)\<rparr>)"

definition ob_ScheduleAfter :: "'w Machine \<Rightarrow> Key \<Rightarrow> duration \<Rightarrow> 'w Outbound \<Rightarrow> 'w Outbound" where
  "ob_ScheduleAfter g key delay o' =
     (let (now, o1) = ob_now g o' in o1\<lparr>ob_deb := ScheduleAfter key delay now (ob_deb o1)\<rparr>)"

definition ob_Cancel :: "Key \<Rightarrow> 'w Outbound \<Rightarrow> 'w Outbound" where
  "ob_Cancel key o' = o'\<lparr>ob_deb := snd (Cancel key (ob_deb o'))\<rparr>"

definition turn_Schedule :: "'w Machine \<Rightarrow> Key \<Rightarrow> 'w Outbound \<Rightarrow> 'w Outbound" where
  "turn_Schedule g key o' = (let (now, o1) = ob_now g o' in o1\<lparr>ob_turnDeb := Schedule key now (ob_turnDeb o1)\<rparr>)"

definition turn_Cancel :: "Key \<Rightarrow> 'w Outbound \<Rightarrow> 'w Outbound" where
  "turn_Cancel key o' = o'\<lparr>ob_turnDeb := snd (Cancel key (ob_turnDeb o'))\<rparr>"

text \<open>\<open>absorbEdit\<close> around an edit, and \<open>answer\<close>.\<close>

definition absorbEdit :: "('w \<Rightarrow> error option \<times> 'w) \<Rightarrow> 'w Outbound \<Rightarrow> error option \<times> 'w Outbound" where
  "absorbEdit call o' = (let (err, o1) = ob_call call o' in (only_fatal err, o1))"

definition answer :: "'w Machine \<Rightarrow> string \<Rightarrow> string \<Rightarrow> 'w Outbound \<Rightarrow> error option \<times> 'w Outbound" where
  "answer g callbackID toast o' =
     (let (err, o1) = ob_call (mc_AnswerButton g callbackID toast) o' in (only_fatal err, o1))"

definition react :: "'w Machine \<Rightarrow> turn \<Rightarrow> string \<Rightarrow> 'w Outbound \<Rightarrow> error option \<times> 'w Outbound" where
  "react g t emoji o' =
     (let (err, o1) = ob_call (mc_React g (tn_threadID t) (tn_messageID t) emoji) o' in (only_fatal err, o1))"

definition sendFailed :: "error \<Rightarrow> error option" where
  "sendFailed e = only_fatal (Some e)"

section \<open>Turns and their reactions\<close>

definition PromptSent :: "'w Machine \<Rightarrow> Key \<Rightarrow> int \<Rightarrow> int \<Rightarrow> 'w Outbound \<Rightarrow> error option \<times> 'w Outbound" where
  "PromptSent g key threadID messageID o' =
     (let t = zero_turn\<lparr>tn_threadID := threadID, tn_messageID := messageID\<rparr>;
          (t1, o1) =
            (if map_option ag_Status (ob_agent g o' key) = Some StatusWorking
             then let (now, o1) = ob_now g o' in (t\<lparr>tn_started := now\<rparr>, o1) else (t, o'));
          o2 = turn_Cancel key o1
      in if PostsReactions (ob_options g o2)
         then and_then (react g t1 reactionTaken o2)
                (\<lambda>o3. (None, o3\<lparr>ob_turns := gm_put key (t1\<lparr>tn_reacted := True\<rparr>) (ob_turns o3)\<rparr>))
         else (None, o2\<lparr>ob_turns := gm_put key t1 (ob_turns o2)\<rparr>))"

text \<open>\<open>observeTurn\<close> for an agent that is working: a turn whose \<open>done\<close> was seen is dropped, a new one opened.\<close>

definition turn_working :: "'w Machine \<Rightarrow> Key \<Rightarrow> 'w Outbound \<Rightarrow> 'w Outbound" where
  "turn_working g key o' =
     (let o1 = turn_Cancel key o'
      in case gm_get (ob_turns o1) key of
           Some t \<Rightarrow>
             if tn_ended t
             then (let (now, o2) = ob_now g o1
                   in o2\<lparr>ob_turns := gm_put key (zero_turn\<lparr>tn_started := now\<rparr>) (ob_turns o2)\<rparr>)
             else if IsZero (tn_started t)
             then (let (now, o2) = ob_now g o1 in o2\<lparr>ob_turns := gm_put key (t\<lparr>tn_started := now\<rparr>) (ob_turns o2)\<rparr>)
             else o1
         | None \<Rightarrow>
             (let (now, o2) = ob_now g o1
              in o2\<lparr>ob_turns := gm_put key (zero_turn\<lparr>tn_started := now\<rparr>) (ob_turns o2)\<rparr>))"

definition observeTurn :: "'w Machine \<Rightarrow> AgentEvent \<Rightarrow> 'w Outbound \<Rightarrow> 'w Outbound" where
  "observeTurn g ev o' =
     (let key = ag_Key (ae_Agent ev); st = ag_Status (ae_Agent ev)
      in if ae_Kind ev = AgentGone then turn_Cancel key (o'\<lparr>ob_turns := gm_del key (ob_turns o')\<rparr>)
         else if st = StatusWorking then turn_working g key o'
         else if st = StatusIdle
         then (if gm_get (ob_turns o') key \<noteq> None then turn_Schedule g key o' else o')
         else if st = StatusDone
         then (let o1 = turn_Cancel key o'
               in case gm_get (ob_turns o1) key of
                    Some t \<Rightarrow> o1\<lparr>ob_turns := gm_put key (t\<lparr>tn_ended := True\<rparr>) (ob_turns o1)\<rparr>
                  | None \<Rightarrow> o1)
         else turn_Cancel key o')"

definition finishTurn :: "'w Machine \<Rightarrow> turn \<Rightarrow> 'w Outbound \<Rightarrow> error option \<times> 'w Outbound" where
  "finishTurn g t o' =
     (if \<not> tn_reacted t \<or> \<not> PostsReactions (ob_options g o') then (None, o') else react g t reactionDone o')"

definition EndTurn :: "'w Machine \<Rightarrow> Key \<Rightarrow> 'w Outbound \<Rightarrow> error option \<times> 'w Outbound" where
  "EndTurn g key o' =
     (case gm_get (ob_turns o') key of
        None \<Rightarrow> (None, o')
      | Some t \<Rightarrow>
          if map_option ag_Status (ob_agent g o' key) \<noteq> Some StatusIdle then (None, o')
          else finishTurn g t (o'\<lparr>ob_turns := gm_del key (ob_turns o')\<rparr>))"

section \<open>Keyboards and free text\<close>

definition endTyping :: "Key \<Rightarrow> 'w Outbound \<Rightarrow> 'w Outbound" where
  "endTyping key o' = o'\<lparr>ob_typing := gm_del key (ob_typing o')\<rparr>"

definition retire :: "'w Machine \<Rightarrow> Key \<Rightarrow> 'w Outbound \<Rightarrow> error option \<times> 'w Outbound" where
  "retire g key o' =
     (case gm_get (ob_keyboards o') key of
        None \<Rightarrow> (None, o')
      | Some kb \<Rightarrow>
          (let o1 = o'\<lparr>ob_keyboards := gm_del key (ob_keyboards o'), ob_refresh := gm_del key (ob_refresh o')\<rparr>;
               o2 = (if kb_waiting kb then endTyping key o1 else o1)
           in absorbEdit (mc_EditButtons g (kb_messageID kb) []) o2))"

text \<open>One inert button with the outcome.\<close>

definition markTyping :: "'w Machine \<Rightarrow> Key \<Rightarrow> typingWait \<Rightarrow> string \<Rightarrow> 'w Outbound \<Rightarrow> error option \<times> 'w Outbound" where
  "markTyping g key wt label o' =
     (let o1 = (case gm_get (ob_keyboards o') key of
                  Some kb \<Rightarrow> if kb_messageID kb = tw_messageID wt then o'\<lparr>ob_keyboards := gm_del key (ob_keyboards o')\<rparr> else o'
                | None \<Rightarrow> o')
      in absorbEdit (mc_EditButtons g (tw_messageID wt) [button label doneData]) o1)"

text \<open>\<open>TakeTyping\<close> logs the error of an expired wait's edit, fatal or not, and drops it.\<close>

definition TakeTyping :: "'w Machine \<Rightarrow> Key \<Rightarrow> 'w Outbound \<Rightarrow> typingWait option \<times> 'w Outbound" where
  "TakeTyping g key o' =
     (case gm_get (ob_typing o') key of
        None \<Rightarrow> (None, o')
      | Some wt \<Rightarrow>
          (let (now, o1) = ob_now g o'
           in if now > tw_until wt
              then (None, snd (markTyping g key wt (pencil @ '' expired'') (endTyping key o1)))
              else (Some wt, endTyping key o1)))"

definition TypingDone :: "'w Machine \<Rightarrow> Key \<Rightarrow> typingWait \<Rightarrow> string \<Rightarrow> 'w Outbound \<Rightarrow> error option \<times> 'w Outbound" where
  "TypingDone g key wt typed o' =
     markTyping g key wt (whiteCheck @ '' '' @ pencil @ middleDot @ headOf typed typingHeadRunes) o'"

definition CancelTyping :: "'w Machine \<Rightarrow> Key \<Rightarrow> 'w Outbound \<Rightarrow> error option \<times> 'w Outbound" where
  "CancelTyping g key o' =
     (case gm_get (ob_typing o') key of
        None \<Rightarrow> (None, o')
      | Some wt \<Rightarrow> markTyping g key wt (pencil @ '' cancelled'') (endTyping key o'))"

section \<open>Observing the registry\<close>

text \<open>A blocked agent, new or changed, or a done one: what schedules a screen.\<close>

definition worth_posting :: "AgentEvent \<Rightarrow> bool" where
  "worth_posting ev \<longleftrightarrow>
     ae_Kind ev = AgentAppeared \<and> ag_Status (ae_Agent ev) = StatusBlocked
     \<or> ae_Kind ev = AgentChanged \<and> ag_Status (ae_Agent ev) \<in> {StatusBlocked, StatusDone}"

definition Outbound_Observe :: "'w Machine \<Rightarrow> AgentEvent \<Rightarrow> 'w Outbound \<Rightarrow> 'w Outbound" where
  "Outbound_Observe g ev o' =
     (let key = ag_Key (ae_Agent ev);
          o1 = observeTurn g ev o';
          o2 = (if ag_Status (ae_Agent ev) \<noteq> StatusBlocked \<or> ae_Kind ev = AgentGone
                then o1\<lparr>ob_announced := gm_del key (ob_announced o1), ob_captures := gm_del key (ob_captures o1)\<rparr> else o1)
      in if ae_Kind ev = AgentGone then ob_Cancel key o2
         else if worth_posting ev
         then (if map_option pc_seq (gm_get (ob_captures o2) key) = Some (ag_StateChangeSeq (ae_Agent ev)) then o2
               else ob_Schedule g key o2)
         else if gm_get (ob_refresh o2) key \<noteq> None then o2
         else ob_Cancel key o2)"

definition Outbound_Forget :: "'w Machine \<Rightarrow> Key \<Rightarrow> 'w Outbound \<Rightarrow> error option \<times> 'w Outbound" where
  "Outbound_Forget g key o' =
     (let o1 = turn_Cancel key (ob_Cancel key o')
      in retire g key (endTyping key
           (o1\<lparr>ob_lastPosted := gm_del key (ob_lastPosted o1), ob_announced := gm_del key (ob_announced o1),
               ob_turns := gm_del key (ob_turns o1), ob_captures := gm_del key (ob_captures o1),
               ob_refresh := gm_del key (ob_refresh o1)\<rparr>)))"

section \<open>Reading the screen of a question\<close>

definition ob_ReadScreen :: "'w Machine \<Rightarrow> Key \<Rightarrow> ScreenSource \<Rightarrow> int \<Rightarrow> 'w Outbound \<Rightarrow> Screen result \<times> 'w Outbound" where
  "ob_ReadScreen g key source lines o' = ob_call (mc_ReadScreen g (PaneID key) source lines) o'"

text \<open>\<open>refreshKeyboard\<close>: the flag says that the message was redrawn or that nothing else should happen.\<close>

definition refreshKeyboard :: "'w Machine \<Rightarrow> Key \<Rightarrow> int \<Rightarrow> 'w Outbound \<Rightarrow> (bool \<times> error option) \<times> 'w Outbound" where
  "refreshKeyboard g key msgID o' =
     (case gm_get (ob_keyboards o') key of
        None \<Rightarrow> ((False, None), o')
      | Some kb \<Rightarrow>
          if kb_messageID kb \<noteq> msgID then ((False, None), o')
          else (case ob_ReadScreen g key ScreenDetection blockedLines o' of
                  (Inl e, o1) \<Rightarrow> ((True, None), o1)
                | (Inr screen, o1) \<Rightarrow>
                    (let t = ob_clean g o1 (sc_Text screen); d = ParseDialog t
                     in if \<not> dl_Multi d then ((False, None), o1)
                        else let kb' = kb\<lparr>kb_choices := dl_Choices d, kb_textEntry := dl_TextEntry d,
                                          kb_textLabel := dl_TextLabel d, kb_cursor := dl_Cursor d,
                                          kb_submitRow := dl_SubmitRow d\<rparr>;
                                 o2 = o1\<lparr>ob_keyboards := gm_put key kb' (ob_keyboards o1),
                                         ob_lastPosted := gm_put key (mc_hash g t) (ob_lastPosted o1)\<rparr>;
                                 (err, o3) = absorbEdit (mc_EditText g msgID (preHTML t) True (choiceButtons d)) o2
                             in ((True, err), o3))))"

definition ob_submitKeys :: "'w Machine \<Rightarrow> Key \<Rightarrow> keyboard \<Rightarrow> 'w Outbound \<Rightarrow> string list \<times> 'w Outbound" where
  "ob_submitKeys g key kb o' =
     (let d0 = zeroDialog\<lparr>dl_Cursor := kb_cursor kb, dl_SubmitRow := kb_submitRow kb\<rparr>
      in case ob_ReadScreen g key ScreenDetection blockedLines o' of
           (Inl e, o1) \<Rightarrow> (SubmitKeys d0, o1)
         | (Inr screen, o1) \<Rightarrow>
             (let shown = ParseDialog (ob_clean g o1 (sc_Text screen))
              in (SubmitKeys (if dl_Multi shown then shown else d0), o1)))"

definition dialogStillOpen :: "'w Machine \<Rightarrow> Key \<Rightarrow> keyboard \<Rightarrow> Status \<Rightarrow> 'w Outbound \<Rightarrow> bool \<times> 'w Outbound" where
  "dialogStillOpen g key kb st o' =
     (if st \<noteq> StatusWorking then (False, o')
      else case ob_ReadScreen g key ScreenDetection blockedLines o' of
             (Inl e, o1) \<Rightarrow> (False, o1)
           | (Inr screen, o1) \<Rightarrow>
               (let d = ParseDialog (ob_clean g o1 (sc_Text screen))
                in (length (dl_Choices d) > 0 \<and> length (dl_Choices d) = length (kb_choices kb)
                    \<and> dl_Multi d = kb_multi kb \<and> dl_TextEntry d = kb_textEntry kb, o1)))"

text \<open>\<open>delayedCapture\<close>: \<open>None\<close> while the post has to wait.\<close>

definition delayedCapture :: "'w Machine \<Rightarrow> Key \<Rightarrow> Agent \<Rightarrow> int \<Rightarrow> duration \<Rightarrow> 'w Outbound \<Rightarrow> string option \<times> 'w Outbound" where
  "delayedCapture g key a lines delay o' =
     (case ob_ReadScreen g key ScreenDetection lines o' of
        (Inl e, o1) \<Rightarrow> (None, o1)
      | (Inr screen, o1) \<Rightarrow>
          (let t = ob_clean g o1 (sc_Text screen)
           in case gm_get (ob_captures o1) key of
                Some p \<Rightarrow>
                  if pc_seq p \<noteq> ag_StateChangeSeq a
                  then (None, ob_ScheduleAfter g key delay
                                (o1\<lparr>ob_captures := gm_put key \<lparr>pc_text = t, pc_seq = ag_StateChangeSeq a\<rparr> (ob_captures o1)\<rparr>))
                  else (Some (fst (betterCapture (pc_text p) t)), o1\<lparr>ob_captures := gm_del key (ob_captures o1)\<rparr>)
              | None \<Rightarrow>
                  (None, ob_ScheduleAfter g key delay
                           (o1\<lparr>ob_captures := gm_put key \<lparr>pc_text = t, pc_seq = ag_StateChangeSeq a\<rparr> (ob_captures o1)\<rparr>))))"

section \<open>The pager\<close>

text \<open>What came of the sends: the operators reached, how many chats are closed, a fatal error.\<close>

fun page_loop :: "'w Machine \<Rightarrow> Outgoing \<Rightarrow> int list \<Rightarrow> nat \<Rightarrow> nat \<Rightarrow> 'w Outbound \<Rightarrow> (nat \<times> nat \<times> error option) \<times> 'w Outbound" where
  "page_loop g out [] reached closed o' = ((reached, closed, None), o')"
| "page_loop g out (op # ops) reached closed o' =
     (case ob_call (mc_SendDirect g op out) o' of
        (Inr i, o1) \<Rightarrow> page_loop g out ops (Suc reached) closed o1
      | (Inl e, o1) \<Rightarrow>
          if e = ErrBotUnauthorized \<or> e = ErrPollerConflict then ((reached, closed, Some e), o1)
          else if e = ErrForbidden then page_loop g out ops reached (Suc closed) o1
          else page_loop g out ops reached closed o1)"

definition pagerNotice :: string where
  "pagerNotice = warningSign @ '' questions will ring in the topics: the bot cannot write to your private chat (open the bot and press Start)''"

definition page :: "'w Machine \<Rightarrow> Agent \<Rightarrow> int \<Rightarrow> int \<Rightarrow> string \<Rightarrow> Dialog \<Rightarrow> 'w Outbound \<Rightarrow> (bool \<times> error option) \<times> 'w Outbound" where
  "page g a threadID messageID screen dialog o' =
     (let out = (text_message 0 (pagerText (Agent_Label a) screen dialog (messageLink (ob_chatID o') threadID messageID)))
                  \<lparr>og_HTML := True, og_Notify := True\<rparr>;
          ((reached, closed, err), o1) = page_loop g out (ob_operators o') 0 0 o'
      in case err of
           Some e \<Rightarrow> ((reached > 0, Some e), o1)
         | None \<Rightarrow>
             if reached > 0 then ((True, None), o1)
             else if closed < length (ob_operators o1) then ((False, None), o1)
             else ((False, None),
                   snd (ob_call (mc_Send g (text_message 0 pagerNotice)) (o1\<lparr>ob_pagerReachable := False\<rparr>))))"

section \<open>Posting\<close>

text \<open>
  \<open>fire\<close> in the order of the code. First a \<open>done\<close> status ends the turn; \<open>fire_post\<close> then decides whether there
  is something to post, \<open>fire_text\<close> obtains the text, and \<open>fire_send\<close> sends it. A skip is \<open>None\<close> without a call.
\<close>

text \<open>The last reply of the transcript, refused when it was written before the turn started.\<close>

definition last_reply :: "'w Machine \<Rightarrow> Agent \<Rightarrow> turn option \<Rightarrow> 'w Outbound \<Rightarrow> Reply result \<times> 'w Outbound" where
  "last_reply g a t o' =
     (case mc_LastReply g of
        None \<Rightarrow> (Inl ErrNoReply, o')
      | Some LastReply \<Rightarrow>
          (case ob_call (LastReply a) o' of
             (Inl e, o1) \<Rightarrow> (Inl e, o1)
           | (Inr r, o1) \<Rightarrow>
               (case t of
                  Some t' \<Rightarrow> if \<not> IsZero (tn_started t') \<and> \<not> IsZero (rp_Written r) \<and> rp_Written r < tn_started t'
                             then (Inl ErrNoReply, o1) else (Inr r, o1)
                | None \<Rightarrow> (Inr r, o1))))"

record post =
  po_text :: string
  po_mode :: DoneMode
  po_footer :: string

text \<open>The text of a post; \<open>None\<close> when the screen could not be read.\<close>

definition fire_text :: "'w Machine \<Rightarrow> Key \<Rightarrow> Agent \<Rightarrow> turn option \<Rightarrow> int \<Rightarrow> DoneMode \<Rightarrow> 'w Outbound \<Rightarrow> post option \<times> 'w Outbound" where
  "fire_text g key a t lines mode o' =
     (let wantMeta = (ag_Status a = StatusDone \<and> PostsMeta (ob_options g o') \<and> mc_LastReply g \<noteq> None);
          (p, o1) =
            (if mode \<noteq> DoneScreen \<or> wantMeta
             then case last_reply g a t o' of
                    (Inl e, o1) \<Rightarrow> (\<lparr>po_text = [], po_mode = DoneScreen, po_footer = []\<rparr>, o1)
                  | (Inr r, o1) \<Rightarrow>
                      (\<lparr>po_text = (if mode \<noteq> DoneScreen then TrimSpace (rp_Text r) else []), po_mode = mode,
                        po_footer = (if wantMeta then TurnMeta_Line (rp_Meta r) else [])\<rparr>, o1)
             else (\<lparr>po_text = [], po_mode = mode, po_footer = []\<rparr>, o'))
      in if po_mode p = DoneScreen
         then case ob_ReadScreen g key ScreenDetection lines o1 of
                (Inl e, o2) \<Rightarrow> (None, o2)
              | (Inr screen, o2) \<Rightarrow> (Some (p\<lparr>po_text := ob_clean g o2 (sc_Text screen)\<rparr>), o2)
         else (Some p, o1))"

definition fire_message :: "'w Machine \<Rightarrow> TopicEntry \<Rightarrow> post \<Rightarrow> bool \<Rightarrow> Button list \<Rightarrow> 'w Outbound \<Rightarrow> Outgoing" where
  "fire_message g entry p notify buttons o' =
     (text_message (te_ThreadID entry) (po_text p))
       \<lparr>og_Code := po_mode p \<noteq> DoneFormatted, og_Markdown := po_mode p = DoneFormatted, og_Notify := notify,
        og_Footer := po_footer p, og_Buttons := buttons,
        og_MaxParts := (if po_mode p \<noteq> DoneScreen then replyMaxParts else 0),
        og_Fold := (if po_mode p \<noteq> DoneScreen then FoldAfter (ob_options g o') else 0)\<rparr>"

definition new_keyboard :: "int \<Rightarrow> Dialog \<Rightarrow> keyboard" where
  "new_keyboard i d =
     \<lparr>kb_messageID = i, kb_choices = dl_Choices d, kb_multi = dl_Multi d, kb_textEntry = dl_TextEntry d,
      kb_textLabel = dl_TextLabel d, kb_cursor = dl_Cursor d, kb_submitRow = dl_SubmitRow d, kb_waiting = False\<rparr>"

text \<open>The post is out under message id \<open>i\<close>: the keyboard is kept, and the question rings.\<close>

definition sent :: "'w Machine \<Rightarrow> Key \<Rightarrow> Agent \<Rightarrow> TopicEntry \<Rightarrow> post \<Rightarrow> bool \<Rightarrow> bool \<Rightarrow> Dialog \<Rightarrow> int \<Rightarrow> 'w Outbound \<Rightarrow> error option \<times> 'w Outbound" where
  "sent g key a entry p notify paged dialog i o' =
     (let o1 = o'\<lparr>ob_lastPosted := gm_put key (mc_hash g (po_text p)) (ob_lastPosted o')\<rparr>;
          o2 = (if choiceButtons dialog \<noteq> []
                then o1\<lparr>ob_keyboards := gm_put key (new_keyboard i dialog) (ob_keyboards o1)\<rparr> else o1);
          announce = (\<lambda>o'. o'\<lparr>ob_announced := gm_put key True (ob_announced o')\<rparr>)
      in if paged
         then let ((rang, err), o3) = page g a (te_ThreadID entry) i (po_text p) dialog o2
              in (err, if err = None \<and> rang then announce o3 else o3)
         else (None, if notify \<and> ag_Status a = StatusBlocked then announce o2 else o2))"

text \<open>The earlier keyboard is gone: the post with its buttons.\<close>

definition send_post :: "'w Machine \<Rightarrow> Key \<Rightarrow> Agent \<Rightarrow> TopicEntry \<Rightarrow> post \<Rightarrow> bool \<Rightarrow> 'w Outbound \<Rightarrow> error option \<times> 'w Outbound" where
  "send_post g key a entry p notify o' =
     (let blocked = (ag_Status a = StatusBlocked);
          dialog = (if blocked then ParseDialog (po_text p) else zeroDialog);
          paged = (notify \<and> blocked \<and> paging g o')
      in case ob_call (mc_Send g (fire_message g entry p (notify \<and> \<not> paged) (choiceButtons dialog) o')) o' of
           (Inl e, o1) \<Rightarrow> (sendFailed e, o1)
         | (Inr i, o1) \<Rightarrow> sent g key a entry p notify paged dialog i o1)"

definition fire_send :: "'w Machine \<Rightarrow> Key \<Rightarrow> Agent \<Rightarrow> TopicEntry \<Rightarrow> post \<Rightarrow> bool \<Rightarrow> bool \<Rightarrow> 'w Outbound \<Rightarrow> error option \<times> 'w Outbound" where
  "fire_send g key a entry p notify force o' =
     (if po_text p = [] then (None, o')
      else if gm_string (ob_lastPosted o') key = mc_hash g (po_text p) \<and> \<not> force then (None, o')
      else and_then (retire g key o') (send_post g key a entry p notify))"

text \<open>Whether a post rings: \<open>None\<close> when it is held.\<close>

definition post_notify :: "'w Machine \<Rightarrow> Agent \<Rightarrow> bool \<Rightarrow> 'w Outbound \<Rightarrow> bool option" where
  "post_notify g a force o' =
     (if force then Some True
      else if ob_quiet g o'
      then (if ob_posts g o' = PostsHeld then None
            else Some (if ob_posts g o' = PostsSilent then False else ag_Status a = StatusBlocked))
      else Some (ag_Status a = StatusBlocked))"

text \<open>From the mode of the post on; a blocked agent's first capture may wait for a second one.\<close>

definition fire_ready :: "'w Machine \<Rightarrow> Key \<Rightarrow> Agent \<Rightarrow> turn option \<Rightarrow> int \<Rightarrow> TopicEntry \<Rightarrow> bool \<Rightarrow> bool \<Rightarrow> 'w Outbound \<Rightarrow> error option \<times> 'w Outbound" where
  "fire_ready g key a t lines entry notify force o' =
     (let blocked = (ag_Status a = StatusBlocked);
          mode0 = (if ag_Status a = StatusDone then PostsDone (ob_options g o') else DoneScreen);
          mode = (if mode0 \<noteq> DoneScreen \<and> mc_LastReply g = None then DoneScreen else mode0);
          delay = BlockedDelay (ob_options g o')
      in if blocked \<and> \<not> force \<and> delay > 0
         then (case delayedCapture g key a lines delay o' of
                 (None, o1) \<Rightarrow> (None, o1)
               | (Some chosen, o1) \<Rightarrow>
                   fire_send g key a entry \<lparr>po_text = chosen, po_mode = mode, po_footer = []\<rparr> notify force o1)
         else let o1 = (if blocked \<and> force then o'\<lparr>ob_captures := gm_del key (ob_captures o')\<rparr> else o')
              in case fire_text g key a t lines mode o1 of
                   (None, o2) \<Rightarrow> (None, o2)
                 | (Some p, o2) \<Rightarrow> fire_send g key a entry p notify force o2)"

text \<open>A \<open>done\<close> post of a turn shorter than the configured minimum is skipped; the clock is read only then.\<close>

definition short_turn :: "'w Machine \<Rightarrow> Agent \<Rightarrow> turn option \<Rightarrow> 'w Outbound \<Rightarrow> bool \<times> 'w Outbound" where
  "short_turn g a t o' =
     (case t of
        Some t' \<Rightarrow>
          if ag_Status a = StatusDone \<and> MinTurn (ob_options g o') > 0 \<and> \<not> IsZero (tn_started t')
          then (let minTurn = MinTurn (ob_options g o'); (now, o1) = ob_now g o'
                in (time_Sub now (tn_started t') < minTurn, o1))
          else (False, o')
      | None \<Rightarrow> (False, o'))"

definition fire_post :: "'w Machine \<Rightarrow> Key \<Rightarrow> Agent \<Rightarrow> turn option \<Rightarrow> bool \<Rightarrow> 'w Outbound \<Rightarrow> error option \<times> 'w Outbound" where
  "fire_post g key a t force o' =
     (if ag_Status a \<noteq> StatusBlocked \<and> ag_Status a \<noteq> StatusDone
      then (None, o'\<lparr>ob_captures := gm_del key (ob_captures o')\<rparr>)
      else let lines = (if ag_Status a = StatusBlocked then blockedLines else doneLines);
               (short, o1) = short_turn g a t o'
           in if short then (None, o1)
              else case ob_entry g o1 key of
                     None \<Rightarrow> (None, o1)
                   | Some entry \<Rightarrow>
                       if \<not> Live (te_Status entry) \<or> te_Muted entry then (None, o1)
                       else case post_notify g a force o1 of
                              None \<Rightarrow> (None, o1)
                            | Some notify \<Rightarrow> fire_ready g key a t lines entry notify force o1)"

text \<open>A pending redraw of a toggled keyboard comes before the post.\<close>

definition fire_refresh :: "'w Machine \<Rightarrow> Key \<Rightarrow> Agent \<Rightarrow> turn option \<Rightarrow> bool \<Rightarrow> 'w Outbound \<Rightarrow> error option \<times> 'w Outbound" where
  "fire_refresh g key a t force o' =
     (if ob_paused g o' then (None, o')
      else case gm_get (ob_refresh o') key of
             Some msgID \<Rightarrow>
               if force then fire_post g key a t force o'
               else (case refreshKeyboard g key msgID (o'\<lparr>ob_refresh := gm_del key (ob_refresh o')\<rparr>) of
                       ((redrawn, err), o1) \<Rightarrow>
                         if redrawn \<or> err \<noteq> None then (err, o1) else fire_post g key a t force o1)
           | None \<Rightarrow> fire_post g key a t force o')"

definition fire :: "'w Machine \<Rightarrow> Key \<Rightarrow> bool \<Rightarrow> 'w Outbound \<Rightarrow> error option \<times> 'w Outbound" where
  "fire g key force o' =
     (case ob_agent g o' key of
        None \<Rightarrow> (None, o')
      | Some a \<Rightarrow>
          (case (if ag_Status a = StatusDone then gm_get (ob_turns o') key else None) of
             Some t \<Rightarrow>
               and_then (finishTurn g t (turn_Cancel key (o'\<lparr>ob_turns := gm_del key (ob_turns o')\<rparr>)))
                 (\<lambda>o1. fire_refresh g key a (Some t) force o1)
           | None \<Rightarrow> fire_refresh g key a None force o'))"

definition Outbound_Fire :: "'w Machine \<Rightarrow> Key \<Rightarrow> 'w Outbound \<Rightarrow> error option \<times> 'w Outbound" where
  "Outbound_Fire g key o' = fire g key False o'"

text \<open>When quiet mode ends: every blocked agent whose question never rang is posted again with a sound.\<close>

fun catch_up_loop :: "'w Machine \<Rightarrow> Agent list \<Rightarrow> 'w Outbound \<Rightarrow> error option \<times> 'w Outbound" where
  "catch_up_loop g [] o' = (None, o')"
| "catch_up_loop g (a # as) o' =
     (let key = ag_Key a
      in if ag_Status a \<noteq> StatusBlocked then catch_up_loop g as o'
         else if gm_get (ob_announced o') key = Some True then catch_up_loop g as o'
         else if gm_string (ob_lastPosted o') key \<noteq> [] \<and> \<not> ob_reannounce g o' then catch_up_loop g as o'
         else and_then (fire g key True o') (catch_up_loop g as))"

definition CatchUp :: "'w Machine \<Rightarrow> 'w Outbound \<Rightarrow> error option \<times> 'w Outbound" where
  "CatchUp g o' = catch_up_loop g (mc_live g (ob_world o')) o'"

definition Outbound_Live :: "'w Machine \<Rightarrow> Key \<Rightarrow> string list \<Rightarrow> 'w Outbound \<Rightarrow> error option \<times> 'w Outbound" where
  "Outbound_Live g key lines o' =
     (if ob_paused g o' then (None, o')
      else case ob_entry g o' key of
             None \<Rightarrow> (None, o')
           | Some entry \<Rightarrow>
               if \<not> Live (te_Status entry) \<or> te_Muted entry then (None, o')
               else let t = ob_clean g o' (Join lines [NL])
                    in if t = [] then (None, o')
                       else case ob_call (mc_Send g ((text_message (te_ThreadID entry) t)\<lparr>og_Code := True\<rparr>)) o' of
                              (Inr i, o1) \<Rightarrow> (None, o1)
                            | (Inl e, o1) \<Rightarrow> (sendFailed e, o1))"

section \<open>Pressed buttons\<close>

record ButtonPressed =
  bp_CallbackID :: string
  bp_ThreadID :: int
  bp_MessageID :: int
  bp_FromID :: int
  bp_Data :: string

definition stale :: "'w Machine \<Rightarrow> ButtonPressed \<Rightarrow> string \<Rightarrow> 'w Outbound \<Rightarrow> error option \<times> 'w Outbound" where
  "stale g ev toast o' =
     and_then (absorbEdit (mc_EditButtons g (bp_MessageID ev) []) o') (answer g (bp_CallbackID ev) toast)"

definition pressedText :: "'w Machine \<Rightarrow> Key \<Rightarrow> keyboard \<Rightarrow> ButtonPressed \<Rightarrow> 'w Outbound \<Rightarrow> error option \<times> 'w Outbound" where
  "pressedText g key kb ev o' =
     (let o1 = o'\<lparr>ob_keyboards := gm_put key (kb\<lparr>kb_waiting := True\<rparr>) (ob_keyboards o')\<rparr>;
          (now, o2) = ob_now g o1;
          wt = \<lparr>tw_threadID = bp_ThreadID ev, tw_messageID = bp_MessageID ev, tw_until = now + typingTimeout\<rparr>;
          o3 = o2\<lparr>ob_typing := gm_put key wt (ob_typing o2)\<rparr>
      in and_then (absorbEdit (mc_EditButtons g (bp_MessageID ev) [button (pencil @ '' waiting for your text'') doneData]) o3)
          (\<lambda>o4. and_then (answer g (bp_CallbackID ev) ''now send the text'' o4)
          (\<lambda>o5. let (x, o6) = ob_call (mc_Send g ((text_message (bp_ThreadID ev)
                         (pencil @ '' '' @ kb_textLabel kb @ '': send the text as your next message''))
                         \<lparr>og_ReplyTo := bp_MessageID ev, og_ForceReply := True\<rparr>)) o5
                in (only_fatal (error_of x), o6))))"

text \<open>The follow-up question starts from a fresh first capture.\<close>

definition press_done :: "'w Machine \<Rightarrow> Key \<Rightarrow> 'w Outbound \<Rightarrow> error option \<times> 'w Outbound" where
  "press_done g key o' = (None, ob_Schedule g key (o'\<lparr>ob_captures := gm_del key (ob_captures o')\<rparr>))"

text \<open>The label on the pressed button; of options with the same number the last one counts.\<close>

definition pressed_label :: "keyboard \<Rightarrow> string \<Rightarrow> nat \<Rightarrow> string" where
  "pressed_label kb data n =
     fold (\<lambda>c label. if ch_Number c = n then cutLabel (ch_Label c) else label) (kb_choices kb) data"

text \<open>After the keys reached the agent.\<close>

definition pressed :: "'w Machine \<Rightarrow> Key \<Rightarrow> keyboard \<Rightarrow> pressKind \<Rightarrow> nat \<Rightarrow> ButtonPressed \<Rightarrow> 'w Outbound \<Rightarrow> error option \<times> 'w Outbound" where
  "pressed g key kb kind n ev o' =
     (case kind of
        pressText \<Rightarrow> pressedText g key kb ev o'
      | pressSubmit \<Rightarrow>
          and_then (absorbEdit (mc_EditButtons g (bp_MessageID ev) [button (whiteCheck @ '' submitted'') doneData])
                     (o'\<lparr>ob_keyboards := gm_del key (ob_keyboards o'), ob_refresh := gm_del key (ob_refresh o')\<rparr>))
            (\<lambda>o1. and_then (answer g (bp_CallbackID ev) ''submitted'' o1) (press_done g key))
      | _ \<Rightarrow>
          if kb_multi kb
          then and_then (answer g (bp_CallbackID ev) (''toggled: '' @ bp_Data ev)
                          (o'\<lparr>ob_refresh := gm_put key (bp_MessageID ev) (ob_refresh o')\<rparr>))
                 (\<lambda>o1. (None, ob_Schedule g key o1))
          else and_then (absorbEdit (mc_EditButtons g (bp_MessageID ev)
                            [button (whiteCheck @ '' '' @ bp_Data ev @ middleDot @ pressed_label kb (bp_Data ev) n) doneData])
                          (o'\<lparr>ob_keyboards := gm_del key (ob_keyboards o')\<rparr>))
                 (\<lambda>o1. and_then (answer g (bp_CallbackID ev) (''sent: '' @ bp_Data ev) o1) (press_done g key)))"

text \<open>The press of an offered button whose agent still waits: the keys, then the outcome.\<close>

definition press_keys :: "'w Machine \<Rightarrow> Key \<Rightarrow> keyboard \<Rightarrow> pressKind \<Rightarrow> nat \<Rightarrow> ButtonPressed \<Rightarrow> 'w Outbound \<Rightarrow> error option \<times> 'w Outbound" where
  "press_keys g key kb kind n ev o' =
     (let (keys, o1) = (case kind of
                          pressText \<Rightarrow> ([Itoa (int n)], o')
                        | pressSubmit \<Rightarrow> ob_submitKeys g key kb o'
                        | _ \<Rightarrow> ([bp_Data ev], o'))
      in case ob_call (mc_SendKeys g (PaneID key) keys) o1 of
           (Some e, o2) \<Rightarrow>
             and_then (retire g key o2)
               (answer g (bp_CallbackID ev) (warningSign @ '' '' @ failureReason (mc_ErrorText g) e))
         | (None, o2) \<Rightarrow> pressed g key kb kind n ev o2)"

definition offered :: "keyboard \<Rightarrow> pressKind \<Rightarrow> nat \<Rightarrow> bool" where
  "offered kb kind n \<longleftrightarrow>
     \<not> (kind = pressSubmit \<and> \<not> kb_multi kb \<or> kind = pressText \<and> (kb_textEntry kb = 0 \<or> n \<noteq> kb_textEntry kb) \<or> kb_waiting kb)"

definition Press :: "'w Machine \<Rightarrow> ButtonPressed \<Rightarrow> 'w Outbound \<Rightarrow> error option \<times> 'w Outbound" where
  "Press g ev o' =
     (case View_KeyForThread (mc_topics g (ob_world o')) (bp_ThreadID ev) of
        None \<Rightarrow> stale g ev ''topic is not mapped'' o'
      | Some key \<Rightarrow>
          if bp_Data ev = doneData then answer g (bp_CallbackID ev) ''already answered'' o'
          else let (kind, n) = pressKindOf (bp_Data ev)
               in if kind = pressUnknown then stale g ev ''unknown button'' o'
                  else (case gm_get (ob_keyboards o') key of
                    None \<Rightarrow> stale g ev ''not the latest question'' o'
                  | Some kb \<Rightarrow>
                      if kb_messageID kb \<noteq> bp_MessageID ev then stale g ev ''not the latest question'' o'
                      else if \<not> offered kb kind n then stale g ev ''unknown button'' o'
                      else (case ob_agent g o' key of
                        None \<Rightarrow> and_then (retire g key o') (answer g (bp_CallbackID ev) ''agent has exited'')
                      | Some a \<Rightarrow>
                          if ag_Status a = StatusBlocked then press_keys g key kb kind n ev o'
                          else (case dialogStillOpen g key kb (ag_Status a) o' of
                                  (False, o1) \<Rightarrow>
                                    and_then (retire g key o1) (answer g (bp_CallbackID ev) ''agent is not waiting anymore'')
                                | (True, o1) \<Rightarrow> press_keys g key kb kind n ev o1))))"

section \<open>Screens on request\<close>

definition Outbound_Screen :: "'w Machine \<Rightarrow> Key \<Rightarrow> int \<Rightarrow> 'w Outbound \<Rightarrow> error option \<times> 'w Outbound" where
  "Outbound_Screen g key lines o' =
     (case ob_entry g o' key of
        None \<Rightarrow> (Some (OtherError ''no topic''), o')
      | Some entry \<Rightarrow>
          (case ob_ReadScreen g key ScreenVisible lines o' of
             (Inl e, o1) \<Rightarrow> (Some e, o1)
           | (Inr screen, o1) \<Rightarrow>
               (let t = ob_clean g o1 (sc_Text screen);
                    (x, o2) = ob_call (mc_Send g ((text_message (te_ThreadID entry)
                                (if t = [] then ''(screen is empty)'' else t))\<lparr>og_Code := True\<rparr>)) o1
                in (error_of x, o2))))"

text \<open>\<open>ScreenAll\<close>: the captured output, as messages or as a document. What \<open>Since\<close> publishes is submitted to the bridge.\<close>

definition ScreenAll :: "'w Machine \<Rightarrow> Key \<Rightarrow> 'w Outbound \<Rightarrow> (error option \<times> (Key \<times> string list) list) \<times> 'w Outbound" where
  "ScreenAll g key o' =
     (case ob_entry g o' key of
        None \<Rightarrow> ((Some (OtherError ''no topic''), []), o')
      | Some entry \<Rightarrow>
          (case Since g key (ob_capture o') (ob_world o') of
             (Inl e, c, w) \<Rightarrow> ((Some e, []), o'\<lparr>ob_capture := c, ob_world := w\<rparr>)
           | (Inr (lines, marked, added), c, w) \<Rightarrow>
               (let o1 = o'\<lparr>ob_capture := c, ob_world := w\<rparr>;
                    published = (if added = [] then [] else [(key, added)]);
                    t = ob_clean g o1 (Join lines [NL])
                in if t = []
                   then let (x, o2) = ob_call (mc_Send g (text_message (te_ThreadID entry) ''(no output since your last message)'')) o1
                        in ((error_of x, published), o2)
                   else let t1 = (if marked then t else ''(history starts at daemon start)'' @ [NL] @ t);
                            since = (if marked then ''your last message'' else ''daemon start'')
                        in if RuneCountInString t1 > screenAllInlineRunes
                           then let (now, o2) = ob_now g o1;
                                    doc = \<lparr>dc_ThreadID = te_ThreadID entry,
                                           dc_Name = ''screen-'' @ ReplaceAll (PaneID key) '':'' ''-'' @ ''-'' @ mc_Format g ''150405'' now @ ''.txt'',
                                           dc_Data = t1 @ [NL],
                                           dc_Caption = Itoa (int (line_count t1)) @ '' lines since '' @ since, dc_ReplyTo = 0\<rparr>;
                                    (err, o3) = ob_call (mc_SendDocument g doc) o2
                                in ((err, published), o3)
                           else let (x, o2) = ob_call (mc_Send g ((text_message (te_ThreadID entry) t1)\<lparr>og_Code := True\<rparr>)) o1
                                in ((error_of x, published), o2))))"

end
