(* ===== verification/Panel.thy ===== *)
theory Panel
  imports Outbound
begin

text \<open>
  The options panel, \<^verbatim>\<open>internal/app/optionspanel.go\<close>: one message in General with buttons, edited in place. A press
  carries callback data that \<open>parsePanelData\<close> decodes; the views are rendered from the registry of options and the
  values in force. The titles and descriptions the operator reads, from \<^verbatim>\<open>internal/domain/options.go\<close>, are held here.
\<close>

section \<open>Texts of the registry\<close>

text \<open>The titles and descriptions of the registry, by key; those of the icons by status.\<close>

definition iconDescriptions :: "(Status, string) go_map" where
  "iconDescriptions =
     [(StatusWorking, ''Topic icon while the agent is working.''),
      (StatusIdle, ''Topic icon while the agent waits at its prompt.''),
      (StatusBlocked, ''Topic icon while the agent asks a question or waits for approval.''),
      (StatusDone, ''Topic icon after the agent finished its turn.''),
      (StatusUnknown, ''Topic icon when Herdr cannot tell the state.''),
      (StatusExited, ''Topic icon after the agent's pane closed.'')]"

definition OptionTexts :: "(string \<times> string \<times> string) list" where
  "OptionTexts =
     [(OptionSyncEnabled, ''Herdr '' @ [CHR 0xE2, CHR 0x86, CHR 0x92] @ '' Telegram sync'',
        ''Mirror Herdr agents into Telegram topics. Off: no topic edits and no screen posts until it is on again.''),
      (OptionSyncDashboard, ''Dashboard in General'',
        ''One pinned message in General, edited in place and never ringing: every live agent with its status, how long it has been in it and a link to its topic. Off unpins and deletes it.''),
      (OptionQuietEnabled, ''Quiet while at the desk'',
        ''While you are typing on this machine, topic edits wait and screen posts are silent; everything catches up when you leave.''),
      (OptionQuietIdleMinutes, ''Away after'',
        ''Minutes without keyboard or mouse input before you count as away.''),
      (OptionQuietTopics, ''Hold topic edits'',
        ''While at the desk, no topic is created, renamed, closed or given a new icon; each of those rings the phone.''),
      (OptionQuietPosts, ''Screen posts'',
        ''While at the desk: Silent posts without sound, Held waits until you leave, Normal posts as usual.''),
      (OptionQuietReannounce, ''Re-announce on leaving'',
        ''When you leave, post the screen of every agent still waiting, with sound, once per question.''),
      (OptionPostsDone, ''Done post'',
        ''What is posted when an agent finishes: Screen is the last 12 lines of the terminal, Reply is the agent's last message from its transcript, Formatted renders that message with bold, lists, links and code.''),
      (OptionPostsMeta, ''Turn summary line'',
        ''End every done post with one line from the agent's transcript: how long the turn took, the model, how many files it edited and how many tokens it wrote. Claude Code only; without a transcript the post ends as before.''),
      (OptionPostsFold, ''Fold long replies after'',
        ''A done post taken from the transcript (Reply or Formatted) with more lines than this arrives collapsed: Telegram shows its first lines and an arrow to open the rest. The summary line stays visible. Off never folds; Screen posts are never folded.''),
      (OptionPostsChrome, ''Trim the input frame'',
        ''Cut Claude Code's input box, status line and mode hint from the bottom of every screen post so it ends on the agent's last line. A question's options are never cut. Off posts the screen as captured.''),
      (OptionPostsReactions, ''React to prompts'',
        [CHR 0xF0, CHR 0x9F, CHR 0x91, CHR 0x80] @ '' on your message once the agent took it, '' @ [CHR 0xF0, CHR 0x9F, CHR 0x91, CHR 0x8C] @ '' when that turn ends. Off (default): no reactions.''),
      (OptionPostsPager, ''Questions in the bot's chat'',
        ''On: a question from an agent is posted into its topic without a sound and sent to you in the bot's private chat with a sound and a link to the topic. Mute the group in Telegram and only questions ring. Off: the topic post rings, nothing is sent to the private chat.''),
      (OptionPostsBlockedDelay, ''Question delay'',
        ''Wait this long after an agent asks before posting, and stay silent when it was answered in Herdr meanwhile; the better of two screen captures is posted. Off posts after the usual 1.5 s.''),
      (OptionPostsMinSeconds, ''Skip short done posts'',
        ''A finished turn shorter than this posts nothing. Off posts every done screen.''),
      (OptionInboxEnabled, ''Accept files'',
        ''Photos, documents, voice notes, audio and video sent to a topic are saved to the inbox and the agent is prompted with the path. Off: such messages are refused with a notice.''),
      (OptionInboxMaxMB, ''Largest file'',
        ''Files above this size are refused. Telegram lets bots download 20 MB at most.''),
      (OptionInboxDeleteAfterDays, ''Delete files after'',
        ''Inbox files older than this are deleted once a day. Off keeps them.'')]
     @ map (\<lambda>st. (IconKey st, st, gm_string iconDescriptions st)) iconStatuses
     @ [(OptionRedact, ''Redact secrets'',
        ''Mask API keys, tokens, passwords and private keys in every screen posted to Telegram.''),
        (OptionDeleteAfterDays, ''Delete closed topics after'',
        ''Delete the topic of an exited agent once it has been closed for this long, and forget it. Off keeps every topic.''),
        (OptionNoticeDelay, ''Keep icon notices for'',
        ''How long the \"changed the topic icon\" notice stays before the daemon deletes it. Clients learn the new icon from that notice; a client that was asleep when it was deleted keeps drawing the old icon until it next opens the topic. Keep leaves every notice in place.'')]"

record OptionGroup =
  gp_Name :: string
  gp_Title :: string
  gp_Description :: string

definition OptionGroups :: "OptionGroup list" where
  "OptionGroups =
     [\<lparr>gp_Name = GroupSync, gp_Title = ''Sync'',
        gp_Description = ''What the mirror writes to Telegram.''\<rparr>,
      \<lparr>gp_Name = GroupQuiet, gp_Title = ''Quiet'',
        gp_Description = ''Less noise while you are at the machine.''\<rparr>,
      \<lparr>gp_Name = GroupPosts, gp_Title = ''Posts'',
        gp_Description = ''What a topic receives from its agent: questions, done posts, reactions.''\<rparr>,
      \<lparr>gp_Name = GroupInbox, gp_Title = ''Inbox'',
        gp_Description = ''Files you send to a topic: saved on this machine and handed to the agent as a path.''\<rparr>,
      \<lparr>gp_Name = GroupAppearance, gp_Title = ''Appearance'',
        gp_Description = ''How topics and status lines look.''\<rparr>,
      \<lparr>gp_Name = GroupPrivacy, gp_Title = ''Privacy'',
        gp_Description = ''What never leaves this machine.''\<rparr>,
      \<lparr>gp_Name = GroupTopics, gp_Title = ''Topics'',
        gp_Description = ''Lifecycle of the forum topics.''\<rparr>]"

definition option_text :: "OptionSpec \<Rightarrow> string \<times> string" where
  "option_text spec = (case gm_get OptionTexts (os_Key spec) of Some t \<Rightarrow> t | None \<Rightarrow> ([], []))"

definition os_Title :: "OptionSpec \<Rightarrow> string" where "os_Title spec = fst (option_text spec)"
definition os_Description :: "OptionSpec \<Rightarrow> string" where "os_Description spec = snd (option_text spec)"

section \<open>Fixed strings\<close>

definition iconGridCols :: nat where "iconGridCols = 8"
definition iconGridRows :: nat where "iconGridRows = 7"
definition panelPrefix :: string where "panelPrefix = ''o:''"

definition panelTitle :: string where "panelTitle = ''Options''"
definition panelPickGroup :: string where "panelPickGroup = ''Pick a group.''"
definition panelCurrent :: string where "panelCurrent = ''Current''"
definition panelOn :: string where "panelOn = ''on''"
definition panelOff :: string where "panelOff = ''off''"
definition panelIconFor :: string where "panelIconFor = ''Icon for''"
definition panelOnlyPackIcons :: string where "panelOnlyPackIcons = ''Telegram allows only these icons for topics.''"
definition panelPackUnavailable :: string where "panelPackUnavailable = ''icon pack unavailable, restart the daemon''"
definition panelBack :: string where "panelBack = [CHR 0xE2, CHR 0x80, CHR 0xB9] @ '' Back''"
definition panelClose :: string where "panelClose = [CHR 0xE2, CHR 0x9C, CHR 0x96] @ '' Close''"
definition panelReset :: string where "panelReset = [CHR 0xE2, CHR 0x86, CHR 0xBA] @ '' Reset to defaults''"
definition panelToastSaved :: string where "panelToastSaved = ''saved''"
definition panelToastUsedBy :: "Status \<Rightarrow> string" where "panelToastUsedBy st = ''used by '' @ st"
definition panelToastNotEdit :: string where "panelToastNotEdit = ''not editable yet''"
definition panelToastUnknown :: string where "panelToastUnknown = ''unknown button''"
definition panelToastDefaults :: string where "panelToastDefaults = ''already at defaults''"
definition panelInGeneral :: string where "panelInGeneral = ''options live in General''"

definition boxOn :: string where "boxOn = [CHR 0xE2, CHR 0x98, CHR 0x91]"
definition boxOff :: string where "boxOff = [CHR 0xE2, CHR 0x98, CHR 0x90]"
definition arrowPrev :: string where "arrowPrev = [CHR 0xE2, CHR 0x80, CHR 0xB9]"
definition arrowNext :: string where "arrowNext = [CHR 0xE2, CHR 0x80, CHR 0xBA]"
definition noArrow :: string where "noArrow = [CHR 0xC2, CHR 0xB7]"

section \<open>Callback data\<close>

text \<open>One decoded callback; the error of the decoder is \<open>None\<close>.\<close>

record panelAction =
  pa_kind :: char
  pa_group :: int
  pa_key :: string
  pa_page :: int
  pa_index :: int

definition dataHome :: string where "dataHome = panelPrefix @ ''h''"
definition dataClose :: string where "dataClose = panelPrefix @ ''x''"
definition dataNoop :: string where "dataNoop = panelPrefix @ ''n''"
definition dataGroup :: "nat \<Rightarrow> string" where "dataGroup gi = panelPrefix @ ''g:'' @ Itoa (int gi)"
definition dataReset :: "nat \<Rightarrow> string" where "dataReset gi = panelPrefix @ ''r:'' @ Itoa (int gi)"
definition dataToggle :: "string \<Rightarrow> string" where "dataToggle key = panelPrefix @ ''t:'' @ key"
definition dataText :: "string \<Rightarrow> string" where "dataText key = panelPrefix @ ''e:'' @ key"
definition dataGrid :: "string \<Rightarrow> nat \<Rightarrow> string" where
  "dataGrid key pg = panelPrefix @ ''c:'' @ key @ '':'' @ Itoa (int pg)"
definition dataPick :: "string \<Rightarrow> nat \<Rightarrow> string" where
  "dataPick key index = panelPrefix @ ''v:'' @ key @ '':'' @ Itoa (int index)"

definition panel_num :: "string \<Rightarrow> int option" where
  "panel_num s = (case Atoi s of None \<Rightarrow> None | Some n \<Rightarrow> if n < 0 then None else Some n)"

definition panel_action :: "char \<Rightarrow> panelAction" where
  "panel_action k = \<lparr>pa_kind = k, pa_group = 0, pa_key = [], pa_page = 0, pa_index = 0\<rparr>"

definition parsePanelData :: "string \<Rightarrow> panelAction option" where
  "parsePanelData data =
     (if \<not> HasPrefix data panelPrefix then None
      else let parts = Split (TrimPrefix data panelPrefix) (CHR '':'')
           in case parts of
                [k] # args \<Rightarrow>
                  (let a = panel_action k
                   in if k \<in> {CHR ''h'', CHR ''x'', CHR ''n''} then (if args = [] then Some a else None)
                      else if k \<in> {CHR ''g'', CHR ''r''} then
                        (case args of
                           [s] \<Rightarrow> map_option (\<lambda>n. a\<lparr>pa_group := n\<rparr>) (panel_num s)
                         | _ \<Rightarrow> None)
                      else if k \<in> {CHR ''t'', CHR ''e''} then
                        (case args of
                           [key] \<Rightarrow> if key = [] then None else Some (a\<lparr>pa_key := key\<rparr>)
                         | _ \<Rightarrow> None)
                      else if k = CHR ''c'' then
                        (case args of
                           [key, s] \<Rightarrow> if key = [] then None
                                      else map_option (\<lambda>n. a\<lparr>pa_key := key, pa_page := n\<rparr>) (panel_num s)
                         | _ \<Rightarrow> None)
                      else if k = CHR ''v'' then
                        (case args of
                           [key, s] \<Rightarrow> if key = [] then None
                                      else map_option (\<lambda>n. a\<lparr>pa_key := key, pa_index := n\<rparr>) (panel_num s)
                         | _ \<Rightarrow> None)
                      else None)
              | _ \<Rightarrow> None)"

section \<open>Views\<close>

record view =
  vw_text :: string
  vw_buttons :: "Button list"

definition groupAt :: "int \<Rightarrow> OptionGroup option" where
  "groupAt i = (if i < 0 \<or> i \<ge> int (length OptionGroups) then None else Some (OptionGroups ! nat i))"

fun group_index_from :: "nat \<Rightarrow> OptionGroup list \<Rightarrow> string \<Rightarrow> nat" where
  "group_index_from i [] name = 0"
| "group_index_from i (grp # grps) name = (if gp_Name grp = name then i else group_index_from (Suc i) grps name)"

definition groupIndex :: "string \<Rightarrow> nat" where
  "groupIndex name = group_index_from 0 OptionGroups name"

definition bold :: "string \<Rightarrow> string" where "bold s = ''<b>'' @ s @ ''</b>''"

definition renderHome :: view where
  "renderHome =
     \<lparr>vw_text = bold panelTitle @ [NL] @ panelPickGroup @ [NL]
        @ concat (map (\<lambda>grp. [NL] @ bold (EscapeString (gp_Title grp)) @ '': '' @ EscapeString (gp_Description grp)) OptionGroups),
      vw_buttons = map (\<lambda>(i, grp). button (gp_Title grp) (dataGroup i)) (List.enumerate 0 OptionGroups)
        @ [button panelClose dataClose]\<rparr>"

definition displayValue :: "OptionSpec \<Rightarrow> string \<Rightarrow> string" where
  "displayValue spec value =
     (case os_Kind spec of
        KindChoice \<Rightarrow> ChoiceLabel spec value
      | KindBool \<Rightarrow> if value = ''true'' then panelOn else panelOff
      | KindText \<Rightarrow> value)"

definition option_button :: "OptionSpec \<Rightarrow> string \<Rightarrow> Button" where
  "option_button spec value =
     (case os_Kind spec of
        KindBool \<Rightarrow> button ((if value = ''true'' then boxOn else boxOff) @ '' '' @ os_Title spec) (dataToggle (os_Key spec))
      | KindChoice \<Rightarrow> button (ChoiceLabel spec value @ '' '' @ os_Title spec) (dataGrid (os_Key spec) 0)
      | KindText \<Rightarrow> button (os_Title spec @ '': '' @ value) (dataText (os_Key spec)))"

definition renderGroup :: "int \<Rightarrow> Options \<Rightarrow> view" where
  "renderGroup gi opts =
     (case groupAt gi of
        None \<Rightarrow> renderHome
      | Some grp \<Rightarrow>
          (let specs = OptionsInGroup (gp_Name grp)
           in \<lparr>vw_text = bold (EscapeString (gp_Title grp)) @ [NL] @ ''<i>'' @ EscapeString (gp_Description grp) @ ''</i>'' @ [NL]
                 @ concat (map (\<lambda>spec. [NL] @ bold (EscapeString (os_Title spec)) @ '': '' @ EscapeString (os_Description spec)
                     @ [NL] @ panelCurrent @ '': '' @ EscapeString (displayValue spec (Options_String opts (os_Key spec)))) specs),
               vw_buttons = map (\<lambda>spec. option_button spec (Options_String opts (os_Key spec))) specs
                 @ [button panelReset (dataReset (nat gi)), button panelBack dataHome, button panelClose dataClose]\<rparr>))"

definition sameEmoji :: "string \<Rightarrow> string \<Rightarrow> bool" where
  "sameEmoji a b \<longleftrightarrow>
     ReplaceAll a [CHR 0xEF, CHR 0xB8, CHR 0x8F] [] = ReplaceAll b [CHR 0xEF, CHR 0xB8, CHR 0x8F] []"

definition bracketed :: "bool \<Rightarrow> string \<Rightarrow> string" where
  "bracketed marked label = (if marked then ''['' @ label @ '']'' else label)"

definition back_button :: "OptionSpec \<Rightarrow> Button" where
  "back_button spec = button panelBack (dataGroup (groupIndex (os_Group spec)))"

text \<open>One page of the icon pack; \<open>start\<close> is the index of its first icon.\<close>

definition icon_buttons :: "OptionSpec \<Rightarrow> string \<Rightarrow> nat \<Rightarrow> string list \<Rightarrow> Button list" where
  "icon_buttons spec current start icons =
     map (\<lambda>(i, icon). \<lparr>bt_Text = bracketed (sameEmoji icon current) icon, bt_Data = dataPick (os_Key spec) i,
                        bt_Row = 1 + int ((i - start) div iconGridCols)\<rparr>)
       (List.enumerate start icons)"

definition nav_buttons :: "OptionSpec \<Rightarrow> nat \<Rightarrow> nat \<Rightarrow> Button list" where
  "nav_buttons spec pg pages =
     (let nav = int iconGridRows + 1;
          at_row = (\<lambda>label data. \<lparr>bt_Text = label, bt_Data = data, bt_Row = nav\<rparr>)
      in [if pg > 0 then at_row arrowPrev (dataGrid (os_Key spec) (pg - 1)) else at_row noArrow dataNoop,
          at_row (Itoa (int pg + 1) @ ''/'' @ Itoa (int pages)) dataNoop,
          if Suc pg < pages then at_row arrowNext (dataGrid (os_Key spec) (pg + 1)) else at_row noArrow dataNoop])"

definition renderIconGrid :: "OptionSpec \<Rightarrow> nat \<Rightarrow> Options \<Rightarrow> string list \<Rightarrow> view" where
  "renderIconGrid spec pg0 opts pack =
     (let current = Options_String opts (os_Key spec);
          head = bold (panelIconFor @ '' '' @ EscapeString (os_Title spec)) @ [NL] @ EscapeString (os_Description spec)
                 @ [NL] @ panelOnlyPackIcons @ [NL] @ panelCurrent @ '': '' @ EscapeString current
      in if pack = [] then \<lparr>vw_text = head @ [NL, NL] @ panelPackUnavailable, vw_buttons = [back_button spec]\<rparr>
         else let perPage = iconGridCols * iconGridRows;
                  pages = (length pack + perPage - 1) div perPage;
                  pg = (if pg0 \<ge> pages then pages - 1 else pg0);
                  start = pg * perPage
              in \<lparr>vw_text = head,
                  vw_buttons = icon_buttons spec current start (take perPage (drop start pack))
                    @ (if pages > 1 then nav_buttons spec pg pages else []) @ [back_button spec]\<rparr>)"

definition renderGrid :: "OptionSpec \<Rightarrow> nat \<Rightarrow> Options \<Rightarrow> string list \<Rightarrow> view" where
  "renderGrid spec pg opts pack =
     (if os_Choices spec = ChoiceSourceIcons then renderIconGrid spec pg opts pack
      else let current = TrimSpace (Options_String opts (os_Key spec))
           in \<lparr>vw_text = bold (EscapeString (os_Title spec)) @ [NL] @ EscapeString (os_Description spec) @ [NL]
                 @ panelCurrent @ '': '' @ EscapeString (ChoiceLabel spec current),
               vw_buttons = map (\<lambda>(i, value). \<lparr>bt_Text = bracketed (TrimSpace value = current) (ChoiceButton spec value),
                                               bt_Data = dataPick (os_Key spec) i, bt_Row = 1 + int (i div iconGridCols)\<rparr>)
                              (List.enumerate 0 pack)
                 @ [back_button spec]\<rparr>)"

definition renderSummary :: "Options \<Rightarrow> string" where
  "renderSummary opts =
     bold panelTitle
     @ concat (map (\<lambda>grp. [NL, NL] @ bold (EscapeString (gp_Title grp))
         @ concat (map (\<lambda>spec. [NL] @ EscapeString (os_Title spec) @ '': ''
             @ EscapeString (displayValue spec (Options_String opts (os_Key spec)))) (OptionsInGroup (gp_Name grp)))) OptionGroups)"

section \<open>The panel message\<close>

text \<open>The state of \<open>panel\<close> and the world it calls; \<open>pn_lastID\<close> is 0 while there is no live keyboard.\<close>

record 'w Panel =
  pn_lastID :: int
  pn_world :: 'w

definition pn_call :: "('w \<Rightarrow> 'r \<times> 'w) \<Rightarrow> 'w Panel \<Rightarrow> 'r \<times> 'w Panel" where
  "pn_call call p = (let (x, w) = call (pn_world p) in (x, p\<lparr>pn_world := w\<rparr>))"

text \<open>\<open>answer0\<close>: the error is only logged.\<close>

definition pn_answer :: "'w Machine \<Rightarrow> ButtonPressed \<Rightarrow> string \<Rightarrow> 'w Panel \<Rightarrow> 'w Panel" where
  "pn_answer g ev toast p = snd (pn_call (mc_AnswerButton g (bp_CallbackID ev) toast) p)"

definition pn_reject :: "'w Machine \<Rightarrow> ButtonPressed \<Rightarrow> string \<Rightarrow> 'w Panel \<Rightarrow> error option \<times> 'w Panel" where
  "pn_reject g ev toast p = (None, pn_answer g ev toast p)"

text \<open>\<open>edit\<close>: a fresh panel is sent when the edit fails for a reason that is not fatal.\<close>

definition pn_edit :: "'w Machine \<Rightarrow> int \<Rightarrow> string \<Rightarrow> Button list \<Rightarrow> 'w Panel \<Rightarrow> error option \<times> 'w Panel" where
  "pn_edit g messageID t buttons p =
     (case pn_call (mc_EditText g messageID t True buttons) p of
        (None, p1) \<Rightarrow> (None, p1)
      | (Some e, p1) \<Rightarrow>
          if isFatal e then (Some e, p1)
          else (case pn_call (mc_Send g ((text_message 0 t)\<lparr>og_HTML := True, og_Buttons := buttons\<rparr>)) p1 of
                  (Inl e2, p2) \<Rightarrow> (only_fatal (Some e2), p2)
                | (Inr i, p2) \<Rightarrow> (None, p2\<lparr>pn_lastID := i\<rparr>)))"

definition pn_show :: "'w Machine \<Rightarrow> int \<Rightarrow> view \<Rightarrow> 'w Panel \<Rightarrow> error option \<times> 'w Panel" where
  "pn_show g messageID v p =
     and_then (pn_edit g messageID (vw_text v) (vw_buttons v) p)
       (\<lambda>p1. (None, if pn_lastID p1 = 0 then p1\<lparr>pn_lastID := messageID\<rparr> else p1))"

definition Panel_Open :: "'w Machine \<Rightarrow> int \<Rightarrow> 'w Panel \<Rightarrow> error option \<times> 'w Panel" where
  "Panel_Open g messageID p =
     and_then (if pn_lastID p \<noteq> 0
               then (let (err, p1) = pn_call (mc_EditButtons g (pn_lastID p) []) p in (only_fatal err, p1))
               else (None, p))
       (\<lambda>p1. case pn_call (mc_Send g ((text_message 0 (vw_text renderHome))
                      \<lparr>og_HTML := True, og_ReplyTo := messageID, og_Buttons := vw_buttons renderHome\<rparr>)) p1 of
               (Inl e, p2) \<Rightarrow> (only_fatal (Some e), p2)
             | (Inr i, p2) \<Rightarrow> (None, p2\<lparr>pn_lastID := i\<rparr>))"

section \<open>Presses\<close>

abbreviation pn_options :: "'w Machine \<Rightarrow> 'w Panel \<Rightarrow> Options" where
  "pn_options g p \<equiv> mc_options g (pn_world p)"

definition warn :: "'w Machine \<Rightarrow> error \<Rightarrow> string" where
  "warn g e = warningSign @ '' '' @ failureReason (mc_ErrorText g) e"

text \<open>The branches of \<open>Press\<close>, one definition each.\<close>

definition press_close :: "'w Machine \<Rightarrow> ButtonPressed \<Rightarrow> 'w Panel \<Rightarrow> error option \<times> 'w Panel" where
  "press_close g ev p =
     (let p1 = pn_answer g ev [] p;
          p2 = (if pn_lastID p1 = bp_MessageID ev then p1\<lparr>pn_lastID := 0\<rparr> else p1)
      in pn_edit g (bp_MessageID ev) (renderSummary (pn_options g p2)) [] p2)"

definition press_group :: "'w Machine \<Rightarrow> ButtonPressed \<Rightarrow> int \<Rightarrow> 'w Panel \<Rightarrow> error option \<times> 'w Panel" where
  "press_group g ev gi p =
     (case groupAt gi of
        None \<Rightarrow> pn_reject g ev panelToastUnknown p
      | Some grp \<Rightarrow> (let p1 = pn_answer g ev [] p in pn_show g (bp_MessageID ev) (renderGroup gi (pn_options g p1)) p1))"

definition press_reset :: "'w Machine \<Rightarrow> ButtonPressed \<Rightarrow> int \<Rightarrow> 'w Panel \<Rightarrow> error option \<times> 'w Panel" where
  "press_reset g ev gi p =
     (case groupAt gi of
        None \<Rightarrow> pn_reject g ev panelToastUnknown p
      | Some grp \<Rightarrow>
          (let (r, p1) = pn_call (mc_ResetOptions g (gp_Name grp)) p;
               p2 = pn_answer g ev (case r of Inl e \<Rightarrow> warn g e
                                    | Inr changed \<Rightarrow> if changed then panelToastSaved else panelToastDefaults) p1
           in pn_show g (bp_MessageID ev) (renderGroup gi (pn_options g p2)) p2))"

definition press_toggle :: "'w Machine \<Rightarrow> ButtonPressed \<Rightarrow> string \<Rightarrow> 'w Panel \<Rightarrow> error option \<times> 'w Panel" where
  "press_toggle g ev key p =
     (case LookupOption key of
        None \<Rightarrow> pn_reject g ev panelToastUnknown p
      | Some spec \<Rightarrow>
          if os_Kind spec \<noteq> KindBool then pn_reject g ev panelToastUnknown p
          else let value = (if Options_Bool (pn_options g p) key then ''false'' else ''true'');
                   (err, p1) = pn_call (mc_SetOption g key value) p;
                   p2 = pn_answer g ev (case err of Some e \<Rightarrow> warn g e | None \<Rightarrow> panelToastSaved) p1
               in pn_show g (bp_MessageID ev) (renderGroup (int (groupIndex (os_Group spec))) (pn_options g p2)) p2)"

definition press_grid :: "'w Machine \<Rightarrow> ButtonPressed \<Rightarrow> string \<Rightarrow> int \<Rightarrow> 'w Panel \<Rightarrow> error option \<times> 'w Panel" where
  "press_grid g ev key pg p =
     (case LookupOption key of
        None \<Rightarrow> pn_reject g ev panelToastUnknown p
      | Some spec \<Rightarrow>
          if os_Kind spec \<noteq> KindChoice then pn_reject g ev panelToastUnknown p
          else let p1 = pn_answer g ev [] p; choices = mc_Choices g (pn_world p1) (os_Choices spec)
               in pn_show g (bp_MessageID ev) (renderGrid spec (nat pg) (pn_options g p1) choices) p1)"

text \<open>The page of the grid an entry is on.\<close>

definition page_of :: "nat \<Rightarrow> nat" where
  "page_of index = index div (iconGridCols * iconGridRows)"

text \<open>The status another icon option gives an emoji to.\<close>

definition taken_by :: "string \<Rightarrow> Options \<Rightarrow> string \<Rightarrow> Status option" where
  "taken_by key cur value =
     (case StatusOfIconKey key of
        None \<Rightarrow> None
      | Some st \<Rightarrow> (case UsedBy (StatusIcons_of cur) value of
                     None \<Rightarrow> None | Some other \<Rightarrow> if other = st then None else Some other))"

definition press_pick :: "'w Machine \<Rightarrow> ButtonPressed \<Rightarrow> string \<Rightarrow> int \<Rightarrow> 'w Panel \<Rightarrow> error option \<times> 'w Panel" where
  "press_pick g ev key index p =
     (case LookupOption key of
        None \<Rightarrow> pn_reject g ev panelToastUnknown p
      | Some spec \<Rightarrow>
          if os_Kind spec \<noteq> KindChoice then pn_reject g ev panelToastUnknown p
          else let pack = mc_Choices g (pn_world p) (os_Choices spec)
               in if index \<ge> int (length pack) then pn_reject g ev panelToastUnknown p
                  else let value = pack ! nat index; cur = pn_options g p
                       in case taken_by key cur value of
                            Some other \<Rightarrow>
                              pn_show g (bp_MessageID ev) (renderGrid spec (page_of (nat index)) cur pack)
                                (pn_answer g ev (panelToastUsedBy other) p)
                          | None \<Rightarrow>
                              (case pn_call (mc_SetOption g key value) p of
                                 (Some e, p1) \<Rightarrow>
                                   pn_show g (bp_MessageID ev) (renderGrid spec (page_of (nat index)) cur pack)
                                     (pn_answer g ev (warn g e) p1)
                               | (None, p1) \<Rightarrow>
                                   (let p2 = pn_answer g ev panelToastSaved p1
                                    in pn_show g (bp_MessageID ev)
                                         (renderGroup (int (groupIndex (os_Group spec))) (pn_options g p2)) p2)))"

definition Panel_Press :: "'w Machine \<Rightarrow> ButtonPressed \<Rightarrow> 'w Panel \<Rightarrow> error option \<times> 'w Panel" where
  "Panel_Press g ev p =
     (case parsePanelData (bp_Data ev) of
        None \<Rightarrow> pn_reject g ev panelToastUnknown p
      | Some a \<Rightarrow>
          if pa_kind a = CHR ''n'' then pn_reject g ev [] p
          else if pa_kind a = CHR ''h'' then pn_show g (bp_MessageID ev) renderHome (pn_answer g ev [] p)
          else if pa_kind a = CHR ''x'' then press_close g ev p
          else if pa_kind a = CHR ''g'' then press_group g ev (pa_group a) p
          else if pa_kind a = CHR ''r'' then press_reset g ev (pa_group a) p
          else if pa_kind a = CHR ''t'' then press_toggle g ev (pa_key a) p
          else if pa_kind a = CHR ''e'' then
            pn_reject g ev (if LookupOption (pa_key a) = None then panelToastUnknown else panelToastNotEdit) p
          else if pa_kind a = CHR ''c'' then press_grid g ev (pa_key a) (pa_page a) p
          else if pa_kind a = CHR ''v'' then press_pick g ev (pa_key a) (pa_index a) p
          else pn_reject g ev panelToastUnknown p)"

end
