(* ===== verification/Status_View.thy ===== *)
theory Status_View
  imports Outbound "HOL-Library.Multiset" "HOL-Library.List_Lexorder" "HOL-Library.Char_ord"
begin

text \<open>
  The overview of the agents, \<^verbatim>\<open>internal/app/statusview.go\<close>, shared by \<^verbatim>\<open>/status\<close> and the dashboard. Strings are ordered
  by their bytes. \<^verbatim>\<open>sort.Slice\<close> leaves the order of agents with the same label and the same key text open; here they
  keep the order of the registry. \<open>layout\<close> is the wording of a time in the zone of the clock.
\<close>

definition presenceTimeLayout :: string where "presenceTimeLayout = ''15:04''"

definition wallClock :: "(string \<Rightarrow> time \<Rightarrow> string) \<Rightarrow> time \<Rightarrow> string" where
  "wallClock layout at = layout presenceTimeLayout at"

section \<open>Durations\<close>

definition formatDuration :: "duration \<Rightarrow> string" where
  "formatDuration d0 =
     (let d = (if d0 < 0 then 0 else d0); minutes = go_div d Minute
      in if minutes < 1 then []
         else if minutes < 60 then Itoa minutes @ '' min''
         else if minutes < 24 * 60 then Itoa (go_div minutes 60) @ '' h '' @ Itoa (go_mod minutes 60) @ '' min''
         else let hours = go_div minutes 60
              in Itoa (go_div hours 24) @ '' d '' @ Itoa (go_mod hours 24) @ '' h'')"

section \<open>Quiet mode\<close>

definition presenceHeaderQuiet :: string where
  "presenceHeaderQuiet = [CHR 0xF0, CHR 0x9F, CHR 0x94, CHR 0x95] @ '' quiet: you are at the desk (/away to override)'' @ [NL]"

definition presenceHeaderManual :: "string \<Rightarrow> string" where
  "presenceHeaderManual at = [CHR 0xF0, CHR 0x9F, CHR 0x8F, CHR 0x83] @ '' away (manual) until '' @ at @ [NL]"

definition presenceHeaderOpen :: string where
  "presenceHeaderOpen = [CHR 0xF0, CHR 0x9F, CHR 0x8F, CHR 0x83] @ '' away (manual) until /here'' @ [NL]"

text \<open>\<open>p\<close> is the tracker's state, \<open>None\<close> without one.\<close>

definition presenceHeaderText :: "PresenceState option \<Rightarrow> bool \<Rightarrow> (string \<Rightarrow> time \<Rightarrow> string) \<Rightarrow> string" where
  "presenceHeaderText p quietEnabled layout =
     (case p of
        None \<Rightarrow> []
      | Some st \<Rightarrow>
          if \<not> quietEnabled then []
          else if ps_ManualAway st \<and> IsZero (ps_Until st) then presenceHeaderOpen
          else if ps_ManualAway st then presenceHeaderManual (wallClock layout (ps_Until st))
          else if ps_Quiet st then presenceHeaderQuiet
          else [])"

section \<open>The view\<close>

record statusView =
  sw_agents :: "Agent list"
  sw_topics :: TopicView
  sw_icons :: StatusIcons
  sw_syncOff :: bool
  sw_presence :: string
  sw_chatID :: int
  sw_since :: "(Key, time) go_map"
  sw_now :: time
  sw_footer :: string
  sw_maxAgents :: nat

definition plural :: "nat \<Rightarrow> string \<Rightarrow> string" where
  "plural n noun = (if n = 1 then ''1 '' @ noun else Itoa (int n) @ '' '' @ noun @ ''s'')"

definition syncOffLine :: string where
  "syncOffLine = [CHR 0xF0, CHR 0x9F, CHR 0x94, CHR 0x87] @ '' Herdr '' @ [CHR 0xE2, CHR 0x86, CHR 0x92] @ '' Telegram sync is off (/options)'' @ [NL]"

text \<open>The order of the lines: by label, then by the text of the key.\<close>

definition view_order :: "Agent \<Rightarrow> string \<times> string" where
  "view_order a = (Agent_Label a, Key_String (ag_Key a))"

definition view_less :: "Agent \<Rightarrow> Agent \<Rightarrow> bool" where
  "view_less a b \<longleftrightarrow>
     (if Agent_Label a \<noteq> Agent_Label b then Agent_Label a < Agent_Label b
      else Key_String (ag_Key a) < Key_String (ag_Key b))"

fun insert_agent :: "Agent \<Rightarrow> Agent list \<Rightarrow> Agent list" where
  "insert_agent a [] = [a]"
| "insert_agent a (b # bs) = (if view_less b a then b # insert_agent a bs else a # b # bs)"

definition sort_agents :: "Agent list \<Rightarrow> Agent list" where
  "sort_agents as = foldr insert_agent as []"

text \<open>The agents of a view in the order of their lines, and how many are only counted.\<close>

definition live_agents :: "Agent list \<Rightarrow> Agent list" where
  "live_agents as = sort_agents (filter (\<lambda>a. Live (ag_Status a)) as)"

definition shown_agents :: "statusView \<Rightarrow> Agent list \<times> nat" where
  "shown_agents v =
     (let live = live_agents (sw_agents v)
      in if sw_maxAgents v > 0 \<and> length live > sw_maxAgents v
         then (take (sw_maxAgents v) live, length live - sw_maxAgents v) else (live, 0))"

definition agent_line :: "statusView \<Rightarrow> Agent \<Rightarrow> string" where
  "agent_line v a =
     (let label0 = EscapeString (Agent_Label a);
          label = (case View_Entry (sw_topics v) (ag_Key a) of
                     Some entry \<Rightarrow>
                       if Live (te_Status entry)
                       then ''<a href=\"'' @ topicLink (sw_chatID v) (te_ThreadID entry) @ ''\">'' @ label0 @ ''</a>'' else label0
                   | None \<Rightarrow> label0);
          line = For (sw_icons v) (ag_Status a) @ '' '' @ label
      in case gm_get (sw_since v) (ag_Key a) of
           Some at \<Rightarrow> (let d = formatDuration (time_Sub (sw_now v) at) in if d \<noteq> [] then line @ middleDot @ d else line)
         | None \<Rightarrow> line)"

definition view_header :: "statusView \<Rightarrow> string" where
  "view_header v = (if sw_syncOff v then syncOffLine else []) @ sw_presence v"

definition view_body :: "statusView \<Rightarrow> string" where
  "view_body v =
     (let (live, extra) = shown_agents v
      in if live = [] then view_header v @ ''no agents''
         else Join ((view_header v @ plural (length live + extra) ''agent'') # map (agent_line v) live
                    @ (if extra > 0 then [ellipsis @ '' +'' @ Itoa (int extra) @ '' more''] else [])) [NL])"

definition view_render :: "statusView \<Rightarrow> string" where
  "view_render v = (if sw_footer v = [] then view_body v else view_body v @ [NL, NL] @ sw_footer v)"

end
