(* ===== verification/Attachments.thy ===== *)
theory Attachments
  imports Posts
begin

text \<open>
  Files sent to a topic: the names and the prompt of \<^verbatim>\<open>internal/domain/attachment.go\<close>. The Unicode tables behind
  \<^verbatim>\<open>unicode.IsLetter\<close> and \<^verbatim>\<open>unicode.IsDigit\<close> and the wording of a time are arguments.
\<close>

type_synonym AttachmentKind = string
abbreviation (input) AttachmentPhoto :: AttachmentKind where "AttachmentPhoto \<equiv> ''photo''"
abbreviation (input) AttachmentDocument :: AttachmentKind where "AttachmentDocument \<equiv> ''document''"
abbreviation (input) AttachmentVoice :: AttachmentKind where "AttachmentVoice \<equiv> ''voice''"
abbreviation (input) AttachmentAudio :: AttachmentKind where "AttachmentAudio \<equiv> ''audio''"
abbreviation (input) AttachmentVideo :: AttachmentKind where "AttachmentVideo \<equiv> ''video''"

definition safeNameMaxRunes :: nat where "safeNameMaxRunes = 80"

section \<open>File names\<close>

text \<open>The loop of \<open>SafeFileName\<close>; the flag says that the last rune became a hyphen.\<close>

definition kept_rune :: "(rune \<Rightarrow> bool) \<Rightarrow> rune \<Rightarrow> bool" where
  "kept_rune letter r \<longleftrightarrow> r = ''.'' \<or> r = ''_'' \<or> letter r"

fun safe_runes :: "(rune \<Rightarrow> bool) \<Rightarrow> rune list \<Rightarrow> bool \<Rightarrow> rune list" where
  "safe_runes letter [] lastDash = []"
| "safe_runes letter (r # rs) lastDash =
     (if kept_rune letter r then r # safe_runes letter rs False
      else if \<not> lastDash then ''-'' # safe_runes letter rs True
      else safe_runes letter rs lastDash)"

text \<open>\<^verbatim>\<open>strings.Trim(s, "-.")\<close>.\<close>

definition trim_name :: "rune list \<Rightarrow> rune list" where
  "trim_name rs = trim_both (\<lambda>r. r = ''-'' \<or> r = ''.'') rs"

definition SafeFileName :: "(rune \<Rightarrow> bool) \<Rightarrow> string \<Rightarrow> string \<Rightarrow> string" where
  "SafeFileName letter name fallback =
     (let out0 = trim_name (safe_runes letter (runes name) False);
          out = (if length out0 > safeNameMaxRunes then trim_name (take safeNameMaxRunes out0) else out0)
      in if out = [] then fallback else string_of_runes out)"

definition InboxFileName :: "(string \<Rightarrow> time \<Rightarrow> string) \<Rightarrow> time \<Rightarrow> int \<Rightarrow> string \<Rightarrow> string" where
  "InboxFileName layout at messageID name = layout ''20060102-150405'' at @ ''-'' @ Itoa messageID @ ''-'' @ name"

definition attachmentExtensions :: "(string, string) go_map" where
  "attachmentExtensions =
     [(''image/jpeg'', ''.jpg''), (''image/png'', ''.png''), (''image/gif'', ''.gif''), (''image/webp'', ''.webp''),
      (''audio/ogg'', ''.ogg''), (''audio/mpeg'', ''.mp3''), (''audio/mp4'', ''.m4a''), (''audio/x-m4a'', ''.m4a''),
      (''video/mp4'', ''.mp4''), (''video/quicktime'', ''.mov''), (''application/pdf'', ''.pdf''), (''text/plain'', ''.txt'')]"

definition DefaultAttachmentName :: "AttachmentKind \<Rightarrow> string \<Rightarrow> string" where
  "DefaultAttachmentName kind mime =
     (let (base, ext) =
            (if kind = AttachmentPhoto then (''photo'', ''.jpg'')
             else if kind = AttachmentVoice then (''voice'', ''.ogg'')
             else if kind = AttachmentAudio then (''audio'', ''.mp3'')
             else if kind = AttachmentVideo then (''video'', ''.mp4'')
             else (''file'', ''.bin''))
      in base @ (case gm_get attachmentExtensions (ToLower (TrimSpace mime)) of Some e \<Rightarrow> e | None \<Rightarrow> ext))"

definition AttachmentPrompt :: "string \<Rightarrow> string list \<Rightarrow> string" where
  "AttachmentPrompt caption paths =
     (let c = TrimSpace caption; lines = Join paths [NL]
      in if c = [] then lines else c @ [NL, NL] @ lines)"

section \<open>Sizes\<close>

text \<open>\<^verbatim>\<open>float64(n)\<close> of a number that is not negative: 53 bits are kept, ties to even.\<close>

function bit_count :: "nat \<Rightarrow> nat" where
  "bit_count n = (if n = 0 then 0 else Suc (bit_count (n div 2)))"
  by auto
termination by (relation "measure id") auto

declare bit_count.simps [simp del]

definition to_double :: "int \<Rightarrow> int" where
  "to_double n = (let s = bit_count (nat n) - 53 in round_even n (2 ^ s) * 2 ^ s)"

text \<open>\<open>humanBytes\<close> of \<^verbatim>\<open>internal/app/inbound.go\<close>.\<close>

definition humanBytes :: "int \<Rightarrow> string" where
  "humanBytes n =
     (let mb = 1024 * 1024
      in if n \<ge> 10 * mb then Itoa (round_even (to_double n) mb) @ '' MB''
         else if n \<ge> mb
         then (let t = round_even (10 * to_double n) mb in Itoa (t div 10) @ ''.'' @ Itoa (t mod 10) @ '' MB'')
         else Itoa (go_div (wrap64 (n + 1023)) 1024) @ '' KB'')"

end
