(* ===== verification/Replies.thy ===== *)
theory Replies
  imports Posts
begin

text \<open>
  What the operator reads: the help text, the replies to commands and the labels of the close question, from
  \<^verbatim>\<open>internal/app/inbound.go\<close>. A format string of the code is a function of what it is filled with.
\<close>

definition helpText :: string where
  "helpText = Join
     [''Commands'',
      ''/screen [N|all]: post the agent screen: the whole visible screen, its last N lines, or with \"all\" everything since your last message'',
      ''/keys k1 k2 ...: send raw keys to the agent (esc, enter, y, 1 ...)'',
      ''/focus: bring the agent's pane to the front in Herdr'',
      ''/git status | diff [staged] | log [N]: git in the agent's directory; long output arrives as a file'',
      ''/stop: send esc to the agent (soft cancel of the running turn or dialog)'',
      ''/interrupt: send ctrl+c to the agent (hard interrupt)'',
      ''/close: close the agent's pane after a Yes/No confirmation'',
      ''/clear, /compact [instructions], /usage, /model [name]: typed into the agent as Claude Code commands while it is idle; the screen after the command is posted as a reply, /usage and a bare /model are closed with esc for you'',
      ''/status: this agent's status; in General, every agent with a link to its topic'',
      ''/away [2h]: treat you as away until /here or for the given time, so Telegram gets everything (General only)'',
      ''/here: back to automatic presence (General only)'',
      ''/new <workspace> [kind]: start an agent in a new tab of that workspace (General only; kind defaults to claude)'',
      ''/options: settings panel (General only): sync, quiet mode, status icons, secret redaction, topic cleanup'',
      ''/observers [add|remove <id>]: list or change who may watch the group without driving agents (General only)'',
      ''/help: this list'',
      [],
      ''While an agent is blocked, y, n, yes, no, 1-9, enter, ok and esc are sent as keys.'',
      ''A question with up to 5 numbered options also arrives with buttons; pressing one sends its number and the button turns into '' @ whiteCheck @ ''.'',
      ''Any other text is typed into the agent as a prompt.''] [NL]"

definition stoppedReply :: string where "stoppedReply = [CHR 0xE2, CHR 0x8F, CHR 0xB9] @ '' sent esc''"
definition interruptedReply :: string where "interruptedReply = [CHR 0xE2, CHR 0x9B, CHR 0x94] @ '' sent ctrl+c''"
definition topicOnly :: string where "topicOnly = ''agent commands live in the agent's topic''"
definition closePrefix :: string where "closePrefix = ''c:''"
definition closeYes :: string where "closeYes = ''c:y''"
definition closeNo :: string where "closeNo = ''c:n''"
definition closeYesLabel :: string where "closeYesLabel = ''Yes, close''"
definition closeNoLabel :: string where "closeNoLabel = ''No''"
definition closeKept :: string where "closeKept = ''not closed''"
definition newInGeneral :: string where "newInGeneral = ''/new works in General: /new <workspace> [kind]''"
definition newNoWorkspaces :: string where "newNoWorkspaces = ''no workspaces''"
definition newTabFailedPrefix :: string where "newTabFailedPrefix = warningSign @ '' could not create a tab: ''"
definition newListFailed :: string where "newListFailed = warningSign @ '' herdr: ''"
definition presenceInGeneral :: string where "presenceInGeneral = ''presence commands live in General''"
definition presenceUnavailable :: string where "presenceUnavailable = ''quiet mode is not available''"
definition presenceOff :: string where "presenceOff = ''quiet mode is off (/options '' @ [CHR 0xE2, CHR 0x86, CHR 0x92] @ '' Quiet)''"
definition presenceAwayOpen :: string where "presenceAwayOpen = [CHR 0xF0, CHR 0x9F, CHR 0x8F, CHR 0x83] @ '' away until /here, Telegram gets everything''"
definition presenceVerdictDesk :: string where "presenceVerdictDesk = ''at the desk, quiet on''"
definition presenceVerdictAway :: string where "presenceVerdictAway = ''away''"
definition presenceVerdictNone :: string where "presenceVerdictNone = ''not available on this platform''"
definition inboxOff :: string where "inboxOff = warningSign @ '' inbox is off (/options '' @ [CHR 0xE2, CHR 0x86, CHR 0x92] @ '' Inbox)''"
definition inboxNoStore :: string where "inboxNoStore = warningSign @ '' inbox is not available in this build''"
definition albumPrefix :: string where "albumPrefix = ''album:''"
definition submitPrefix :: string where "submitPrefix = ''submit:''"
definition gitUnavailable :: string where "gitUnavailable = warningSign @ '' git is not available in this build''"
definition gitNoCwd :: string where "gitNoCwd = warningSign @ '' Herdr reports no working directory''"
definition gitNotInstalled :: string where "gitNotInstalled = warningSign @ '' git is not installed''"
definition closeAskFmt :: "string \<Rightarrow> string" where "closeAskFmt label = ''Close '' @ label @ ''? The pane and its tab go away.''"
definition closingFmt :: "string \<Rightarrow> string" where "closingFmt label = ''closing '' @ label @ '' '' @ ellipsis"
definition newWorkspacesFmt :: "string \<Rightarrow> string" where "newWorkspacesFmt names = ''workspaces: '' @ names"
definition newStartingFmt :: "string \<Rightarrow> string \<Rightarrow> string" where "newStartingFmt kind ws = ''starting '' @ kind @ '' in '' @ ws @ '' '' @ ellipsis"
definition newStartedFmt :: "string \<Rightarrow> string \<Rightarrow> string \<Rightarrow> string" where "newStartedFmt kind ws pane = ''started '' @ kind @ '' in '' @ ws @ '' (pane '' @ pane @ '')''"
definition newFailedFmt :: "string \<Rightarrow> string \<Rightarrow> string \<Rightarrow> string" where "newFailedFmt kind ws why = warningSign @ '' '' @ kind @ '' did not start in '' @ ws @ '': '' @ why"
definition presenceAwayUntil :: "string \<Rightarrow> string" where "presenceAwayUntil at = [CHR 0xF0, CHR 0x9F, CHR 0x8F, CHR 0x83] @ '' away until '' @ at @ '', Telegram gets everything; /here returns to automatic''"
definition presenceHereFmt :: "string \<Rightarrow> string" where "presenceHereFmt verdict = [CHR 0xF0, CHR 0x9F, CHR 0x96, CHR 0xA5] @ '' presence is automatic again: '' @ verdict"
definition inboxTooBigFmt :: "string \<Rightarrow> string \<Rightarrow> string" where "inboxTooBigFmt sz limit = warningSign @ '' file too big: '' @ sz @ '' > '' @ limit"
definition inboxFailedFmt :: "string \<Rightarrow> string" where "inboxFailedFmt why = warningSign @ '' download failed: '' @ why"
definition inboxGoneFmt :: "string \<Rightarrow> string" where "inboxGoneFmt paths = warningSign @ '' agent has exited, file kept at '' @ paths"
definition newNoMatchFmt :: "string \<Rightarrow> string" where "newNoMatchFmt label = ''no workspace named '' @ label"
definition newManyFmt :: "string \<Rightarrow> string \<Rightarrow> string" where "newManyFmt label names = label @ '' matches '' @ names"
definition inboxPartialFmt :: "nat \<Rightarrow> nat \<Rightarrow> string \<Rightarrow> string" where
  "inboxPartialFmt n tot why = warningSign @ '' '' @ Itoa (int n) @ '' of '' @ Itoa (int tot) @ '' files failed: '' @ why"
definition ObserversUsage :: string where "ObserversUsage = ''/observers, /observers add <id>, /observers remove <id>''"
definition GitUsage :: string where "GitUsage = ''usage: /git status | diff [staged] | log [N]''"
definition observersInGeneral :: string where "observersInGeneral = ''observer commands live in General: '' @ ObserversUsage"

end
