(* ===== verification/Inbound.thy ===== *)
theory Inbound
  imports Panel Status_View Attachments Replies Command
begin

text \<open>
  The receiving half of the bridge, \<^verbatim>\<open>internal/app/inbound.go\<close>: messages, files and commands of the operator become
  calls to Herdr and replies. It runs on the bridge goroutine beside the outbound half, whose state is a part of its
  own; the world is the one in \<open>ob_world\<close>. Work the code hands to a background goroutine is a \<open>Task\<close> put on
  \<open>in_tasks\<close>: the bridge runs it at any later time and its result comes back as a job. Screens that \<open>ScreenAll\<close>
  publishes on the way are put on \<open>in_published\<close>, in order. Both lists are emptied by the bridge after each job.
\<close>

section \<open>Messages\<close>

record TopicMessage =
  ms_ThreadID :: int
  ms_MessageID :: int
  ms_FromID :: int
  ms_Text :: string
  ms_ReplyTo :: int

record TopicAttachment =
  at_ThreadID :: int
  at_MessageID :: int
  at_FromID :: int
  at_GroupID :: string
  at_Kind :: AttachmentKind
  at_FileID :: string
  at_Name :: string
  at_MIME :: string
  at_Size :: int
  at_Caption :: string
  at_ReplyTo :: int

record GeneralCommand =
  gc_MessageID :: int
  gc_FromID :: int
  gc_Text :: string
  gc_Role :: Role

record StrangerSeen =
  ss_FromID :: int
  ss_Name :: string
  ss_Username :: string
  ss_ThreadID :: int
  ss_At :: time

section \<open>State\<close>

record followUp =
  fu_cmd :: Command
  fu_word :: string
  fu_threadID :: int
  fu_messageID :: int

record album =
  al_key :: Key
  al_threadID :: int
  al_parts :: "TopicAttachment list"
  al_caption :: string

text \<open>The results of background work; \<open>st_outcome\<close> holds Go's agent and error.\<close>

record startResult =
  st_messageID :: int
  st_workspace :: string
  st_kind :: string
  st_name :: string
  st_paneID :: string
  st_outcome :: "Agent result"
  st_started :: time

record inboxResult =
  ir_key :: Key
  ir_threadID :: int
  ir_messageID :: int
  ir_caption :: string
  ir_paths :: "string list"
  ir_failed :: "string list"
  ir_total :: nat
  ir_started :: time

text \<open>The closures given to \<open>async\<close>, by what they captured.\<close>

datatype Task =
    StartTask (tk_messageID: int) (tk_workspace: string) (tk_kind: string) (tk_name: string) (tk_pane: string) (tk_began: time)
  | DownloadTask Key int int string "TopicAttachment list" int time

record 'w Inbound =
  in_out :: "'w Outbound"
  in_presence :: bool
  in_since :: bool
  in_panel :: int
  in_cfg :: Config
  in_strangers :: "StrangerSeen list"
  in_deb :: Debouncer
  in_pending :: "(Key, followUp) go_map"
  in_closing :: "(Key, int) go_map"
  in_albums :: "(string, album) go_map"
  in_tasks :: "Task list"
  in_published :: "(Key \<times> string list) list"

definition commandSettle :: duration where "commandSettle = 2 * Second"
definition commandTailLines :: int where "commandTailLines = 12"
definition agentStartTimeout :: duration where "agentStartTimeout = 60 * Second"
definition gitInlineRunes :: nat where "gitInlineRunes = 3600"
definition albumSettle :: duration where "albumSettle = 1 * Second"
definition inboxSubmitDelay :: duration where "inboxSubmitDelay = 1500 * Millisecond"
definition strangerKeep :: nat where "strangerKeep = 10"

definition newInbound :: "Config \<Rightarrow> 'w Outbound \<Rightarrow> 'w Inbound" where
  "newInbound cfg out =
     \<lparr>in_out = out, in_presence = False, in_since = False, in_panel = 0, in_cfg = cfg, in_strangers = [],
      in_deb = newDebouncer commandSettle, in_pending = [], in_closing = [], in_albums = [], in_tasks = [],
      in_published = []\<rparr>"

abbreviation in_world :: "'w Inbound \<Rightarrow> 'w" where
  "in_world i \<equiv> ob_world (in_out i)"

abbreviation in_options :: "'w Machine \<Rightarrow> 'w Inbound \<Rightarrow> Options" where
  "in_options g i \<equiv> mc_options g (in_world i)"

abbreviation in_thread :: "'w Machine \<Rightarrow> 'w Inbound \<Rightarrow> int \<Rightarrow> Key option" where
  "in_thread g i \<equiv> View_KeyForThread (mc_topics g (in_world i))"

abbreviation in_entry :: "'w Machine \<Rightarrow> 'w Inbound \<Rightarrow> Key \<Rightarrow> TopicEntry option" where
  "in_entry g i \<equiv> View_Entry (mc_topics g (in_world i))"

abbreviation in_agent :: "'w Machine \<Rightarrow> 'w Inbound \<Rightarrow> Key \<Rightarrow> Agent option" where
  "in_agent g i \<equiv> mc_agent g (in_world i)"

definition Inbound_SetPresence :: "'w Inbound \<Rightarrow> 'w Inbound" where
  "Inbound_SetPresence i = i\<lparr>in_presence := True\<rparr>"

definition SetSince :: "'w Inbound \<Rightarrow> 'w Inbound" where
  "SetSince i = i\<lparr>in_since := True\<rparr>"

section \<open>Calls\<close>

text \<open>A step of the outbound half, a call on the world, the clock and the settle timer.\<close>

definition in_ob :: "('w Outbound \<Rightarrow> 'r \<times> 'w Outbound) \<Rightarrow> 'w Inbound \<Rightarrow> 'r \<times> 'w Inbound" where
  "in_ob f i = (let (x, o1) = f (in_out i) in (x, i\<lparr>in_out := o1\<rparr>))"

definition in_call :: "('w \<Rightarrow> 'r \<times> 'w) \<Rightarrow> 'w Inbound \<Rightarrow> 'r \<times> 'w Inbound" where
  "in_call call i = in_ob (ob_call call) i"

definition in_now :: "'w Machine \<Rightarrow> 'w Inbound \<Rightarrow> time \<times> 'w Inbound" where
  "in_now g i = in_call (mc_Now g) i"

definition in_Schedule :: "'w Machine \<Rightarrow> Key \<Rightarrow> 'w Inbound \<Rightarrow> 'w Inbound" where
  "in_Schedule g key i = (let (now, i1) = in_now g i in i1\<lparr>in_deb := Schedule key now (in_deb i1)\<rparr>)"

definition in_ScheduleAfter :: "'w Machine \<Rightarrow> Key \<Rightarrow> duration \<Rightarrow> 'w Inbound \<Rightarrow> 'w Inbound" where
  "in_ScheduleAfter g key delay i =
     (let (now, i1) = in_now g i in i1\<lparr>in_deb := ScheduleAfter key delay now (in_deb i1)\<rparr>)"

text \<open>\<open>absorb\<close> around \<open>send\<close>: only a fatal error is returned.\<close>

definition in_send :: "'w Machine \<Rightarrow> Outgoing \<Rightarrow> 'w Inbound \<Rightarrow> error option \<times> 'w Inbound" where
  "in_send g out i = (let (x, i1) = in_call (mc_Send g out) i in (only_fatal (error_of x), i1))"

definition reply :: "'w Machine \<Rightarrow> int \<Rightarrow> int \<Rightarrow> string \<Rightarrow> 'w Inbound \<Rightarrow> error option \<times> 'w Inbound" where
  "reply g threadID messageID t i = in_send g ((text_message threadID t)\<lparr>og_ReplyTo := messageID\<rparr>) i"

definition failed :: "'w Machine \<Rightarrow> TopicMessage \<Rightarrow> error \<Rightarrow> 'w Inbound \<Rightarrow> error option \<times> 'w Inbound" where
  "failed g msg e i = (if isFatal e then (Some e, i) else reply g (ms_ThreadID msg) (ms_MessageID msg) (warn g e) i)"

definition herdrCall :: "'w Machine \<Rightarrow> TopicMessage \<Rightarrow> ('w \<Rightarrow> error option \<times> 'w) \<Rightarrow> 'w Inbound \<Rightarrow> error option \<times> 'w Inbound" where
  "herdrCall g msg call i =
     (case in_call call i of
        (Some e, i1) \<Rightarrow> failed g msg e i1
      | (None, i1) \<Rightarrow> (None, i1))"

definition in_edit :: "('w \<Rightarrow> error option \<times> 'w) \<Rightarrow> 'w Inbound \<Rightarrow> error option \<times> 'w Inbound" where
  "in_edit call i = in_ob (absorbEdit call) i"

definition in_answer :: "'w Machine \<Rightarrow> ButtonPressed \<Rightarrow> string \<Rightarrow> 'w Inbound \<Rightarrow> error option \<times> 'w Inbound" where
  "in_answer g ev toast i = in_ob (answer g (bp_CallbackID ev) toast) i"

text \<open>The panel shares the world; its message id is kept in \<open>in_panel\<close>.\<close>

definition on_panel :: "('w Panel \<Rightarrow> 'r \<times> 'w Panel) \<Rightarrow> 'w Inbound \<Rightarrow> 'r \<times> 'w Inbound" where
  "on_panel f i =
     (let (x, p) = f \<lparr>pn_lastID = in_panel i, pn_world = in_world i\<rparr>
      in (x, i\<lparr>in_panel := pn_lastID p, in_out := (in_out i)\<lparr>ob_world := pn_world p\<rparr>\<rparr>))"

definition PressPanel :: "'w Machine \<Rightarrow> ButtonPressed \<Rightarrow> 'w Inbound \<Rightarrow> error option \<times> 'w Inbound" where
  "PressPanel g ev i = on_panel (Panel_Press g ev) i"

section \<open>Messages in a topic\<close>

text \<open>The free text of a dialog, typed as a prompt whatever it looks like.\<close>

definition typed :: "'w Machine \<Rightarrow> TopicMessage \<Rightarrow> Key \<Rightarrow> typingWait \<Rightarrow> 'w Inbound \<Rightarrow> error option \<times> 'w Inbound" where
  "typed g msg key wt i =
     (case in_call (mc_Prompt g (PaneID key) (ms_Text msg)) i of
        (Some e, i1) \<Rightarrow> failed g msg e i1
      | (None, i1) \<Rightarrow>
          and_then (in_ob (TypingDone g key wt (ms_Text msg)) i1)
            (in_ob (PromptSent g key (ms_ThreadID msg) (ms_MessageID msg))))"

definition control :: "'w Machine \<Rightarrow> TopicMessage \<Rightarrow> Key \<Rightarrow> string \<Rightarrow> string \<Rightarrow> 'w Inbound \<Rightarrow> error option \<times> 'w Inbound" where
  "control g msg key keyName confirm i =
     (case in_call (mc_SendKeys g (PaneID key) [keyName]) i of
        (Some e, i1) \<Rightarrow> failed g msg e i1
      | (None, i1) \<Rightarrow> reply g (ms_ThreadID msg) (ms_MessageID msg) confirm i1)"

definition close_buttons :: "Button list" where
  "close_buttons = [\<lparr>bt_Text = closeYesLabel, bt_Data = closeYes, bt_Row = 1\<rparr>, \<lparr>bt_Text = closeNoLabel, bt_Data = closeNo, bt_Row = 1\<rparr>]"

text \<open>An older question of the same agent loses its buttons first.\<close>

definition retire_question :: "'w Machine \<Rightarrow> Key \<Rightarrow> 'w Inbound \<Rightarrow> error option \<times> 'w Inbound" where
  "retire_question g key i =
     (case gm_get (in_closing i) key of
        None \<Rightarrow> (None, i)
      | Some prev \<Rightarrow>
          and_then (in_edit (mc_EditButtons g prev []) i)
            (\<lambda>i1. (None, i1\<lparr>in_closing := gm_del key (in_closing i1)\<rparr>)))"

definition askClose :: "'w Machine \<Rightarrow> TopicMessage \<Rightarrow> Key \<Rightarrow> Agent \<Rightarrow> 'w Inbound \<Rightarrow> error option \<times> 'w Inbound" where
  "askClose g msg key a i =
     and_then (retire_question g key i)
       (\<lambda>i1. case in_call (mc_Send g ((text_message (ms_ThreadID msg) (closeAskFmt (Agent_Label a)))
                       \<lparr>og_ReplyTo := ms_MessageID msg, og_Buttons := close_buttons\<rparr>)) i1 of
               (Inl e, i2) \<Rightarrow> (only_fatal (Some e), i2)
             | (Inr mid, i2) \<Rightarrow> (None, i2\<lparr>in_closing := gm_put key mid (in_closing i2)\<rparr>))"

text \<open>The statuses in which a forwarded command is not typed.\<close>

definition forwardRefusal :: "Status \<Rightarrow> string option" where
  "forwardRefusal st =
     (if st = StatusWorking then Some ''agent is working, try again when it is idle''
      else if st = StatusBlocked then Some ''agent is waiting for an answer: reply to it or send /keys esc first''
      else None)"

definition forwardWord :: "string \<Rightarrow> string" where
  "forwardWord line =
     (let w = TrimPrefix line ''/'' in case Cut w (CHR '' '') of Some (word, _) \<Rightarrow> word | None \<Rightarrow> w)"

definition forward :: "'w Machine \<Rightarrow> TopicMessage \<Rightarrow> Key \<Rightarrow> Agent \<Rightarrow> Command \<Rightarrow> 'w Inbound \<Rightarrow> error option \<times> 'w Inbound" where
  "forward g msg key a cmd i =
     (case forwardRefusal (ag_Status a) of
        Some hint \<Rightarrow> reply g (ms_ThreadID msg) (ms_MessageID msg) (warningSign @ '' '' @ hint) i
      | None \<Rightarrow>
          (case in_call (mc_Prompt g (PaneID key) (cm_Text cmd)) i of
             (Some e, i1) \<Rightarrow> failed g msg e i1
           | (None, i1) \<Rightarrow>
               if fr_Post (cm_Forward cmd) = ForwardPostNone then (None, i1)
               else (None, in_Schedule g key
                      (i1\<lparr>in_pending := gm_put key \<lparr>fu_cmd = cmd, fu_word = forwardWord (cm_Text cmd),
                           fu_threadID = ms_ThreadID msg, fu_messageID = ms_MessageID msg\<rparr> (in_pending i1)\<rparr>))))"

section \<open>Git\<close>

definition gitEmpty :: "string \<Rightarrow> string" where
  "gitEmpty sub = (if sub = ''status'' then ''clean'' else if sub = ''diff'' then ''no changes''
                   else if sub = ''log'' then ''no commits'' else ''nothing'')"

definition gitFailure :: "'w Machine \<Rightarrow> string \<Rightarrow> error \<Rightarrow> string" where
  "gitFailure g sub e =
     (if e = ErrNotRepository then warn g e
      else if e = ErrGitMissing then gitNotInstalled
      else if e = CtxDeadlineExceeded then warningSign @ '' git timed out''
      else warningSign @ '' git '' @ sub @ '' failed: '' @ failureReason (mc_ErrorText g) e)"

text \<open>\<^verbatim>\<open>strings.TrimRight(s, " \t\r\n")\<close> and \<^verbatim>\<open>filepath.Base\<close> with \<^verbatim>\<open>/\<close> as the separator.\<close>

definition trim_output :: "string \<Rightarrow> string" where
  "trim_output s = TrimRight s [CHR '' '', CHR 0x09, CHR 0x0D, NL]"

definition path_Base :: "string \<Rightarrow> string" where
  "path_Base p =
     (if p = [] then ''.''
      else let q = TrimRight p ''/''
           in if q = [] then ''/'' else last (Split q (CHR ''/'')))"

definition git_document :: "'w Machine \<Rightarrow> TopicMessage \<Rightarrow> Agent \<Rightarrow> GitSpec \<Rightarrow> bool \<Rightarrow> string \<Rightarrow> time \<Rightarrow> Document" where
  "git_document g msg a spec truncated out now =
     \<lparr>dc_ThreadID = ms_ThreadID msg,
      dc_Name = path_Base (ag_Cwd a) @ ''-'' @ gs_Sub spec @ ''-'' @ mc_Format g ''150405'' now
                @ (if gs_Sub spec = ''diff'' then ''.patch'' else ''.txt''),
      dc_Data = out @ [NL],
      dc_Caption = ''git '' @ Join (gs_Args spec) '' '' @ middleDot @ Itoa (int (line_count out)) @ '' lines''
                   @ (if truncated then '', truncated'' else []),
      dc_ReplyTo = ms_MessageID msg\<rparr>"

definition git_result :: "'w Machine \<Rightarrow> TopicMessage \<Rightarrow> Agent \<Rightarrow> GitSpec \<Rightarrow> GitResult \<Rightarrow> 'w Inbound \<Rightarrow> error option \<times> 'w Inbound" where
  "git_result g msg a spec res i =
     (let out = trim_output (gr_Output res)
      in if out = [] then reply g (ms_ThreadID msg) (ms_MessageID msg) (gitEmpty (gs_Sub spec)) i
         else if RuneCountInString out \<le> gitInlineRunes
         then in_send g ((text_message (ms_ThreadID msg) out)\<lparr>og_Code := True, og_ReplyTo := ms_MessageID msg\<rparr>) i
         else let (now, i1) = in_now g i;
                  (err, i2) = in_call (mc_SendDocument g (git_document g msg a spec (gr_Truncated res) out now)) i1
              in (only_fatal err, i2))"

text \<open>The clock is read before and after the run, for the log.\<close>

definition gitCommand :: "'w Machine \<Rightarrow> TopicMessage \<Rightarrow> Agent \<Rightarrow> GitSpec \<Rightarrow> 'w Inbound \<Rightarrow> error option \<times> 'w Inbound" where
  "gitCommand g msg a spec i =
     (let say = (\<lambda>t. reply g (ms_ThreadID msg) (ms_MessageID msg) t)
      in if gs_Sub spec = [] then say GitUsage i
         else case mc_git g of
                None \<Rightarrow> say gitUnavailable i
              | Some run \<Rightarrow>
                  if TrimSpace (ag_Cwd a) = [] then say gitNoCwd i
                  else let (began, i1) = in_now g i;
                           (r, i2) = in_call (run (ag_Cwd a) (gs_Args spec)) i1;
                           (ended, i3) = in_now g i2
                       in case r of
                            Inl e \<Rightarrow> say (gitFailure g (gs_Sub spec) e) i3
                          | Inr res \<Rightarrow> git_result g msg a spec res i3)"

section \<open>Routing a topic message\<close>

text \<open>What \<open>ScreenAll\<close> publishes is kept for the bridge's own queue.\<close>

definition in_ScreenAll :: "'w Machine \<Rightarrow> Key \<Rightarrow> 'w Inbound \<Rightarrow> error option \<times> 'w Inbound" where
  "in_ScreenAll g key i =
     (let ((err, published), i1) = in_ob (ScreenAll g key) i
      in (err, i1\<lparr>in_published := in_published i1 @ published\<rparr>))"

definition post_screen :: "'w Machine \<Rightarrow> TopicMessage \<Rightarrow> Key \<Rightarrow> Command \<Rightarrow> 'w Inbound \<Rightarrow> error option \<times> 'w Inbound" where
  "post_screen g msg key cmd i =
     (case (if cm_All cmd then in_ScreenAll g key i else in_ob (Outbound_Screen g key (cm_Lines cmd)) i) of
        (Some e, i1) \<Rightarrow> failed g msg e i1
      | (None, i1) \<Rightarrow> (None, i1))"

definition send_prompt :: "'w Machine \<Rightarrow> TopicMessage \<Rightarrow> Key \<Rightarrow> string \<Rightarrow> 'w Inbound \<Rightarrow> error option \<times> 'w Inbound" where
  "send_prompt g msg key t i =
     (case in_call (mc_Prompt g (PaneID key) t) i of
        (Some e, i1) \<Rightarrow> failed g msg e i1
      | (None, i1) \<Rightarrow> in_ob (PromptSent g key (ms_ThreadID msg) (ms_MessageID msg)) i1)"

definition status_line :: "'w Machine \<Rightarrow> Key \<Rightarrow> Agent \<Rightarrow> 'w Inbound \<Rightarrow> string" where
  "status_line g key a i =
     For (StatusIcons_of (in_options g i)) (ag_Status a) @ '' '' @ ag_Status a @ middleDot @ Agent_Label a @ middleDot
     @ ''pane '' @ PaneID key"

text \<open>The \<^verbatim>\<open>switch cmd.Kind\<close> of \<open>HandleTopic\<close>.\<close>

definition topic_command :: "'w Machine \<Rightarrow> TopicMessage \<Rightarrow> Key \<Rightarrow> Agent \<Rightarrow> Command \<Rightarrow> 'w Inbound \<Rightarrow> error option \<times> 'w Inbound" where
  "topic_command g msg key a cmd i =
     (let say = (\<lambda>t. reply g (ms_ThreadID msg) (ms_MessageID msg) t i)
      in case cm_Kind cmd of
           CmdPrompt \<Rightarrow> send_prompt g msg key (cm_Text cmd) i
         | CmdKeys \<Rightarrow> herdrCall g msg (mc_SendKeys g (PaneID key) (cm_Keys cmd)) i
         | CmdFocus \<Rightarrow> herdrCall g msg (mc_Focus g (PaneID key)) i
         | CmdGit \<Rightarrow> gitCommand g msg a (cm_Git cmd) i
         | CmdStop \<Rightarrow> control g msg key KeyEscape stoppedReply i
         | CmdInterrupt \<Rightarrow> control g msg key KeyInterrupt interruptedReply i
         | CmdClose \<Rightarrow> askClose g msg key a i
         | CmdScreen \<Rightarrow> post_screen g msg key cmd i
         | CmdStatus \<Rightarrow> say (status_line g key a i)
         | CmdHelp \<Rightarrow> say helpText
         | CmdOptions \<Rightarrow> say panelInGeneral
         | CmdAway \<Rightarrow> say presenceInGeneral
         | CmdHere \<Rightarrow> say presenceInGeneral
         | CmdNew \<Rightarrow> say newInGeneral
         | CmdObservers \<Rightarrow> say observersInGeneral
         | CmdForward \<Rightarrow> forward g msg key a cmd i
         | CmdUnknown \<Rightarrow> say ''unknown command, see /help'')"

definition agentExited :: string where "agentExited = ''agent has exited''"

text \<open>The message is a command unless it lacks the slash; a command ends an open wait for free text.\<close>

definition topic_text :: "'w Machine \<Rightarrow> TopicMessage \<Rightarrow> Key \<Rightarrow> Agent \<Rightarrow> 'w Inbound \<Rightarrow> error option \<times> 'w Inbound" where
  "topic_text g msg key a i =
     (let run = (\<lambda>i1. topic_command g msg key a (Route (ms_Text msg) (cf_BotUsername (in_cfg i1)) (ag_Status a)) i1)
      in if \<not> HasPrefix (TrimSpace (ms_Text msg)) ''/''
         then (case in_ob (TakeTyping g key) i of
                 (Some wt, i1) \<Rightarrow> typed g msg key wt i1
               | (None, i1) \<Rightarrow> run i1)
         else and_then (in_ob (CancelTyping g key) i) run)"

text \<open>A thread without an entry reads as the zero entry, whose status counts as live.\<close>

definition entry_live :: "TopicEntry option \<Rightarrow> bool" where
  "entry_live e \<longleftrightarrow> (case e of None \<Rightarrow> Live [] | Some entry \<Rightarrow> Live (te_Status entry))"

definition HandleTopic :: "'w Machine \<Rightarrow> TopicMessage \<Rightarrow> 'w Inbound \<Rightarrow> error option \<times> 'w Inbound" where
  "HandleTopic g msg i =
     (case in_thread g i (ms_ThreadID msg) of
        None \<Rightarrow> (None, i)
      | Some key \<Rightarrow>
          (case in_agent g i key of
             None \<Rightarrow> reply g (ms_ThreadID msg) (ms_MessageID msg) agentExited i
           | Some a \<Rightarrow>
               if entry_live (in_entry g i key) then topic_text g msg key a i
               else reply g (ms_ThreadID msg) (ms_MessageID msg) agentExited i))"

section \<open>The close question\<close>

text \<open>The outcome of the pressed button: the question turns into \<open>t\<close>, the press is answered with \<open>toast\<close>.\<close>

definition close_outcome :: "'w Machine \<Rightarrow> ButtonPressed \<Rightarrow> string \<Rightarrow> string \<Rightarrow> 'w Inbound \<Rightarrow> error option \<times> 'w Inbound" where
  "close_outcome g ev t toast i =
     and_then (in_edit (mc_EditText g (bp_MessageID ev) t False []) i) (in_answer g ev toast)"

definition in_stale :: "'w Machine \<Rightarrow> ButtonPressed \<Rightarrow> string \<Rightarrow> 'w Inbound \<Rightarrow> error option \<times> 'w Inbound" where
  "in_stale g ev toast i = in_ob (stale g ev toast) i"

definition close_pressed :: "'w Machine \<Rightarrow> ButtonPressed \<Rightarrow> Key \<Rightarrow> 'w Inbound \<Rightarrow> error option \<times> 'w Inbound" where
  "close_pressed g ev key i =
     (case in_agent g i key of
        None \<Rightarrow> and_then (in_edit (mc_EditButtons g (bp_MessageID ev) []) i) (in_answer g ev agentExited)
      | Some a \<Rightarrow>
          if bp_Data ev = closeNo then close_outcome g ev closeKept ''kept'' i
          else if bp_Data ev = closeYes
          then (case in_call (mc_ClosePane g (PaneID key)) i of
                  (Some e, i1) \<Rightarrow>
                    close_outcome g ev (warningSign @ '' could not close: '' @ failureReason (mc_ErrorText g) e)
                      (warningSign @ '' failed'') i1
                | (None, i1) \<Rightarrow> close_outcome g ev (closingFmt (Agent_Label a)) ''closing'' i1)
          else in_stale g ev ''unknown button'' i)"

definition PressClose :: "'w Machine \<Rightarrow> ButtonPressed \<Rightarrow> 'w Inbound \<Rightarrow> error option \<times> 'w Inbound" where
  "PressClose g ev i =
     (case in_thread g i (bp_ThreadID ev) of
        None \<Rightarrow> in_stale g ev ''topic is not mapped'' i
      | Some key \<Rightarrow>
          if gm_get (in_closing i) key \<noteq> Some (bp_MessageID ev) then in_stale g ev ''not the latest question'' i
          else close_pressed g ev key (i\<lparr>in_closing := gm_del key (in_closing i)\<rparr>))"

definition Inbound_Forget :: "Key \<Rightarrow> 'w Inbound \<Rightarrow> 'w Inbound" where
  "Inbound_Forget key i = i\<lparr>in_closing := gm_del key (in_closing i)\<rparr>"

section \<open>Timers\<close>

text \<open>The keys of the settle timer that are not agents.\<close>

definition albumKey :: "string \<Rightarrow> Key" where "albumKey groupID = \<lparr>PaneID = albumPrefix @ groupID, TerminalID = []\<rparr>"
definition submitKey :: "string \<Rightarrow> Key" where "submitKey pane = \<lparr>PaneID = submitPrefix @ pane, TerminalID = []\<rparr>"

definition dismiss :: "'w Machine \<Rightarrow> Key \<Rightarrow> followUp \<Rightarrow> 'w Inbound \<Rightarrow> error option \<times> 'w Inbound" where
  "dismiss g key f i =
     (case in_call (mc_SendKeys g (PaneID key) [''esc'']) i of
        (Some e, i1) \<Rightarrow> reply g (fu_threadID f) (fu_messageID f)
                          (warningSign @ '' could not close the overlay: '' @ failureReason (mc_ErrorText g) e) i1
      | (None, i1) \<Rightarrow> (None, i1))"

text \<open>The screen after a forwarded command, posted as a reply.\<close>

definition follow_text :: "'w Machine \<Rightarrow> followUp \<Rightarrow> Screen \<Rightarrow> 'w Inbound \<Rightarrow> string" where
  "follow_text g f screen i =
     (let rule = cm_Forward (fu_cmd f);
          raw = (if fr_Post rule = ForwardPostScreen \<and> fr_Dismiss rule then CutOverlay (sc_Text screen) else sc_Text screen);
          t = fst (cleanScreen raw (PostsChrome (in_options g i)))
      in if t = [] then ''(screen is empty)'' else t)"

definition follow_up :: "'w Machine \<Rightarrow> Key \<Rightarrow> followUp \<Rightarrow> TopicEntry \<Rightarrow> 'w Inbound \<Rightarrow> error option \<times> 'w Inbound" where
  "follow_up g key f entry i =
     (let rule = cm_Forward (fu_cmd f);
          lines = (if fr_Post rule = ForwardPostTail then commandTailLines else 0);
          finish = (\<lambda>i1. if fr_Dismiss rule then dismiss g key f i1 else (None, i1))
      in case in_call (mc_ReadScreen g (PaneID key) ScreenVisible lines) i of
           (Inl e, i1) \<Rightarrow>
             and_then (reply g (fu_threadID f) (fu_messageID f)
                         (warningSign @ '' screen read failed: '' @ failureReason (mc_ErrorText g) e) i1) finish
         | (Inr screen, i1) \<Rightarrow>
             and_then (in_send g ((text_message (te_ThreadID entry) (follow_text g f screen i1))
                         \<lparr>og_Code := True, og_ReplyTo := fu_messageID f\<rparr>) i1) finish)"

text \<open>The enter that follows an attachment prompt, unless a dialog is open by now.\<close>

definition fireSubmit :: "'w Machine \<Rightarrow> string \<Rightarrow> 'w Inbound \<Rightarrow> error option \<times> 'w Inbound" where
  "fireSubmit g pane i =
     (case in_call (mc_ReadScreen g pane ScreenDetection blockedLines) i of
        (Inl e, i1) \<Rightarrow> (None, i1)
      | (Inr screen, i1) \<Rightarrow>
          if length (dl_Choices (ParseDialog (trimScreen (sc_Text screen)))) > 0 then (None, i1)
          else (None, snd (in_call (mc_SendKeys g pane [''enter'']) i1)))"

section \<open>Files\<close>

text \<open>\<open>startDownload\<close>: the parts are handed to the background.\<close>

definition startDownload :: "'w Machine \<Rightarrow> Key \<Rightarrow> int \<Rightarrow> int \<Rightarrow> string \<Rightarrow> TopicAttachment list \<Rightarrow> int \<Rightarrow> 'w Inbound \<Rightarrow> 'w Inbound" where
  "startDownload g key threadID messageID caption parts limit i =
     (let (started, i1) = in_now g i
      in i1\<lparr>in_tasks := in_tasks i1 @ [DownloadTask key threadID messageID caption parts limit started]\<rparr>)"

text \<open>One part of a media group joins its album.\<close>

definition album_part :: "Key \<Rightarrow> TopicAttachment \<Rightarrow> album option \<Rightarrow> album" where
  "album_part key at a =
     (let al = (case a of Some al \<Rightarrow> al
                | None \<Rightarrow> \<lparr>al_key = key, al_threadID = at_ThreadID at, al_parts = [], al_caption = []\<rparr>)
      in al\<lparr>al_parts := al_parts al @ [at], al_caption := (if al_caption al = [] then at_Caption at else al_caption al)\<rparr>)"

definition accept_attachment :: "'w Machine \<Rightarrow> Key \<Rightarrow> TopicAttachment \<Rightarrow> 'w Inbound \<Rightarrow> error option \<times> 'w Inbound" where
  "accept_attachment g key at i =
     (let limit = InboxMaxBytes (in_options g i);
          say = (\<lambda>t. reply g (at_ThreadID at) (at_MessageID at) t i)
      in if mc_inbox g = None then say inboxNoStore
         else if \<not> InboxEnabled (in_options g i) then say inboxOff
         else if at_Size at > limit then say (inboxTooBigFmt (humanBytes (at_Size at)) (humanBytes limit))
         else if at_GroupID at = []
         then (None, startDownload g key (at_ThreadID at) (at_MessageID at) (at_Caption at) [at] limit i)
         else (None, in_ScheduleAfter g (albumKey (at_GroupID at)) albumSettle
                (i\<lparr>in_albums := gm_put (at_GroupID at) (album_part key at (gm_get (in_albums i) (at_GroupID at))) (in_albums i)\<rparr>)))"

definition HandleAttachment :: "'w Machine \<Rightarrow> TopicAttachment \<Rightarrow> 'w Inbound \<Rightarrow> error option \<times> 'w Inbound" where
  "HandleAttachment g at i =
     (case in_thread g i (at_ThreadID at) of
        None \<Rightarrow> (None, i)
      | Some key \<Rightarrow>
          if in_agent g i key = None \<or> \<not> entry_live (in_entry g i key)
          then reply g (at_ThreadID at) (at_MessageID at) agentExited i
          else accept_attachment g key at i)"

text \<open>A settled media group; an album has at least one part.\<close>

definition fireAlbum :: "'w Machine \<Rightarrow> string \<Rightarrow> 'w Inbound \<Rightarrow> 'w Inbound" where
  "fireAlbum g groupID i =
     (case gm_get (in_albums i) groupID of
        None \<Rightarrow> i
      | Some a \<Rightarrow>
          startDownload g (al_key a) (al_threadID a) (at_MessageID (hd (al_parts a))) (al_caption a) (al_parts a)
            (InboxMaxBytes (in_options g i)) (i\<lparr>in_albums := gm_del groupID (in_albums i)\<rparr>))"

text \<open>The timer of a key: an album, an enter, or the follow-up of a forwarded command.\<close>

definition Inbound_Fire :: "'w Machine \<Rightarrow> Key \<Rightarrow> 'w Inbound \<Rightarrow> error option \<times> 'w Inbound" where
  "Inbound_Fire g key i =
     (if HasPrefix (PaneID key) albumPrefix then (None, fireAlbum g (TrimPrefix (PaneID key) albumPrefix) i)
      else if HasPrefix (PaneID key) submitPrefix then fireSubmit g (TrimPrefix (PaneID key) submitPrefix) i
      else case gm_get (in_pending i) key of
             None \<Rightarrow> (None, i)
           | Some f \<Rightarrow>
               (let i1 = i\<lparr>in_pending := gm_del key (in_pending i)\<rparr>
                in case (in_agent g i1 key, in_entry g i1 key) of
                     (Some a, Some entry) \<Rightarrow>
                       if Live (te_Status entry) then follow_up g key f entry i1
                       else if fr_Dismiss (cm_Forward (fu_cmd f)) then dismiss g key f i1 else (None, i1)
                   | (Some a, None) \<Rightarrow> if fr_Dismiss (cm_Forward (fu_cmd f)) then dismiss g key f i1 else (None, i1)
                   | (None, _) \<Rightarrow> (None, i1)))"

section \<open>Background work\<close>

text \<open>\<open>fetch\<close>: one file is downloaded and saved; it runs off the bridge goroutine.\<close>

definition fetch :: "'w Machine \<Rightarrow> (string \<Rightarrow> string \<Rightarrow> 'w \<Rightarrow> string result \<times> 'w) \<Rightarrow> int \<Rightarrow> TopicAttachment \<Rightarrow> 'w \<Rightarrow> string result \<times> 'w" where
  "fetch g save limit at w =
     (case mc_Download g (at_FileID at) limit w of
        (Inl e, w1) \<Rightarrow> (Inl e, w1)
      | (Inr data, w1) \<Rightarrow>
          (let name = SafeFileName (mc_letter g) (at_Name at) (DefaultAttachmentName (at_Kind at) (at_MIME at));
               (now, w2) = mc_Now g w1
           in save (InboxFileName (mc_Format g) now (at_MessageID at) name) data w2))"

fun fetch_all :: "'w Machine \<Rightarrow> (string \<Rightarrow> string \<Rightarrow> 'w \<Rightarrow> string result \<times> 'w) \<Rightarrow> int \<Rightarrow> TopicAttachment list \<Rightarrow> string list \<Rightarrow> string list \<Rightarrow> 'w
    \<Rightarrow> (string list \<times> string list) \<times> 'w" where
  "fetch_all g save limit [] paths bad w = ((paths, bad), w)"
| "fetch_all g save limit (at # ats) paths bad w =
     (case fetch g save limit at w of
        (Inl e, w1) \<Rightarrow> fetch_all g save limit ats paths (bad @ [failureReason (mc_ErrorText g) e]) w1
      | (Inr path, w1) \<Rightarrow> fetch_all g save limit ats (paths @ [path]) bad w1)"

datatype TaskResult = StartResult startResult | InboxResult inboxResult

text \<open>A download is started only with an inbox, so \<^verbatim>\<open>i.inbox\<close> is not nil here.\<close>

definition run_task :: "'w Machine \<Rightarrow> Task \<Rightarrow> 'w \<Rightarrow> TaskResult \<times> 'w" where
  "run_task g t w =
     (case t of
        StartTask mid ws kind name pane began \<Rightarrow>
          (let (r, w1) = mc_StartAgent g name kind pane agentStartTimeout w
           in (StartResult \<lparr>st_messageID = mid, st_workspace = ws, st_kind = kind, st_name = name, st_paneID = pane,
                            st_outcome = r, st_started = began\<rparr>, w1))
      | DownloadTask key thread mid caption parts limit began \<Rightarrow>
          (let save = (case mc_inbox g of Some f \<Rightarrow> f | None \<Rightarrow> (\<lambda>n d w. (Inl (OtherError []), w)));
               ((paths, bad), w1) = fetch_all g save limit parts [] [] w
           in (InboxResult \<lparr>ir_key = key, ir_threadID = thread, ir_messageID = mid, ir_caption = caption, ir_paths = paths,
                            ir_failed = bad, ir_total = length parts, ir_started = began\<rparr>, w1)))"

definition bare_message :: "int \<Rightarrow> int \<Rightarrow> TopicMessage" where
  "bare_message thread mid = \<lparr>ms_ThreadID = thread, ms_MessageID = mid, ms_FromID = 0, ms_Text = [], ms_ReplyTo = 0\<rparr>"

text \<open>The saved files reach the agent as a prompt; the clock is read for the log.\<close>

definition inbox_deliver :: "'w Machine \<Rightarrow> inboxResult \<Rightarrow> 'w Inbound \<Rightarrow> error option \<times> 'w Inbound" where
  "inbox_deliver g r i =
     (case in_call (mc_Prompt g (PaneID (ir_key r)) (AttachmentPrompt (ir_caption r) (ir_paths r))) i of
        (Some e, i1) \<Rightarrow> failed g (bare_message (ir_threadID r) (ir_messageID r)) e i1
      | (None, i1) \<Rightarrow>
          and_then (in_ob (PromptSent g (ir_key r) (ir_threadID r) (ir_messageID r))
                     (in_ScheduleAfter g (submitKey (PaneID (ir_key r))) inboxSubmitDelay i1))
            (\<lambda>i2. if ir_failed r = [] then (None, i2)
                  else reply g (ir_threadID r) (ir_messageID r)
                         (inboxPartialFmt (length (ir_failed r)) (ir_total r) (hd (ir_failed r))) i2))"

definition InboxFinished :: "'w Machine \<Rightarrow> inboxResult \<Rightarrow> 'w Inbound \<Rightarrow> error option \<times> 'w Inbound" where
  "InboxFinished g r i0 =
     (let (now, i) = in_now g i0
      in if ir_paths r = []
         then reply g (ir_threadID r) (ir_messageID r) (inboxFailedFmt (hd (ir_failed r))) i
         else case (in_agent g i (ir_key r), in_entry g i (ir_key r)) of
                (Some a, Some entry) \<Rightarrow>
                  if Live (te_Status entry) then inbox_deliver g r i
                  else reply g (ir_threadID r) (ir_messageID r) (inboxGoneFmt (Join (ir_paths r) '', '')) i
              | _ \<Rightarrow> reply g (ir_threadID r) (ir_messageID r) (inboxGoneFmt (Join (ir_paths r) '', '')) i)"

section \<open>Starting an agent\<close>

text \<open>
  The loop of \<open>uniqueName\<close>: \<open>name\<close> is the candidate, \<open>n\<close> the next number. It ends because only finitely many names
  are taken and the candidates are all different.
\<close>

definition numbered :: "string \<Rightarrow> nat \<Rightarrow> string" where
  "numbered kind n = kind @ ''-'' @ Itoa (int n)"

lemma numbered_inj: "numbered kind n = numbered kind m \<longleftrightarrow> n = m"
proof
  assume "numbered kind n = numbered kind m"
  then have "Itoa (int n) = Itoa (int m)" by (simp add: numbered_def)
  then have "digits_val (Itoa (int n)) = digits_val (Itoa (int m))" by simp
  then show "n = m" by (simp add: Itoa_def digits_val_nat_digits)
qed simp

definition free_steps :: "string list \<Rightarrow> string \<Rightarrow> nat \<Rightarrow> nat" where
  "free_steps taken kind n = card {m. n \<le> m \<and> numbered kind m \<in> set taken}"

lemma numbered_finite: "finite {m. n \<le> m \<and> numbered kind m \<in> set taken}"
proof (rule inj_on_finite [where B = "set taken" and f = "numbered kind"])
  show "inj_on (numbered kind) {m. n \<le> m \<and> numbered kind m \<in> set taken}" by (simp add: inj_on_def numbered_inj)
qed auto

lemma free_steps_Suc:
  "free_steps taken kind n = free_steps taken kind (Suc n) + (if numbered kind n \<in> set taken then 1 else 0)"
proof -
  let ?A = "{m. Suc n \<le> m \<and> numbered kind m \<in> set taken}"
  have "{m. n \<le> m \<and> numbered kind m \<in> set taken} = (if numbered kind n \<in> set taken then insert n ?A else ?A)"
    by (auto simp: Suc_le_eq order_le_less)
  then show ?thesis using numbered_finite [of "Suc n" kind taken] by (simp add: free_steps_def)
qed

function unique_loop :: "string list \<Rightarrow> string \<Rightarrow> string \<Rightarrow> nat \<Rightarrow> string" where
  "unique_loop taken kind name n =
     (if name \<in> set taken then unique_loop taken kind (numbered kind n) (Suc n) else name)"
  by auto
termination
proof (relation "measure (\<lambda>(taken, kind, name, n). free_steps taken kind n + (if name \<in> set taken then 1 else 0))")
  fix taken :: "string list" and kind name :: string and n :: nat
  assume "name \<in> set taken"
  then show "((taken, kind, numbered kind n, Suc n), taken, kind, name, n)
      \<in> measure (\<lambda>(taken, kind, name, n). free_steps taken kind n + (if name \<in> set taken then 1 else 0))"
    using free_steps_Suc [of taken kind n] by simp
qed simp

declare unique_loop.simps [simp del]

definition uniqueName :: "'w Machine \<Rightarrow> string \<Rightarrow> 'w Inbound \<Rightarrow> string" where
  "uniqueName g kind i = unique_loop (map ag_Name (mc_live g (in_world i))) kind kind 2"

definition workspaceLabels :: "Workspace list \<Rightarrow> string list" where
  "workspaceLabels ws = map (\<lambda>w. if ws_Label w = [] then ws_ID w else ws_Label w) ws"

definition joinAnd :: "string list \<Rightarrow> string" where
  "joinAnd items =
     (case items of [] \<Rightarrow> [] | [x] \<Rightarrow> x | _ \<Rightarrow> Join (butlast items) '', '' @ '' and '' @ last items)"

definition workspaceHint :: "'w Machine \<Rightarrow> string \<Rightarrow> MatchResult \<Rightarrow> Workspace list \<Rightarrow> string" where
  "workspaceHint g label match workspaces =
     (let names = (if workspaces = [] then newNoWorkspaces
                   else newWorkspacesFmt (Join (workspaceLabels workspaces) '', ''))
      in if TrimSpace label = [] then names
         else if match = MatchMany
         then newManyFmt (mc_Quote g label) (joinAnd (workspaceLabels (MatchWorkspaces label workspaces))) @ [NL] @ names
         else newNoMatchFmt (mc_Quote g label) @ [NL] @ names)"

text \<open>A reply to a command in General.\<close>

definition say_general :: "'w Machine \<Rightarrow> GeneralCommand \<Rightarrow> string \<Rightarrow> 'w Inbound \<Rightarrow> error option \<times> 'w Inbound" where
  "say_general g cmd t i = reply g 0 (gc_MessageID cmd) t i"

text \<open>The name is chosen before the reply; the start itself runs in the background.\<close>

definition start_in :: "'w Machine \<Rightarrow> GeneralCommand \<Rightarrow> Command \<Rightarrow> Workspace \<Rightarrow> 'w Inbound \<Rightarrow> error option \<times> 'w Inbound" where
  "start_in g cmd parsed ws i =
     (let kind = (if cm_AgentKind parsed = [] then DefaultAgentKind else cm_AgentKind parsed)
      in case in_call (mc_CreateTab g (ws_ID ws)) i of
           (Inl e, i1) \<Rightarrow> say_general g cmd (newTabFailedPrefix @ failureReason (mc_ErrorText g) e) i1
         | (Inr tab, i1) \<Rightarrow>
             (let name = uniqueName g kind i1
              in and_then (say_general g cmd (newStartingFmt kind (ws_Label ws)) i1)
                   (\<lambda>i2. let (now, i3) = in_now g i2
                         in (None, i3\<lparr>in_tasks := in_tasks i3 @
                               [StartTask (gc_MessageID cmd) (ws_Label ws) kind name (tab_RootPaneID tab) now]\<rparr>))))"

definition startAgent :: "'w Machine \<Rightarrow> GeneralCommand \<Rightarrow> Command \<Rightarrow> 'w Inbound \<Rightarrow> error option \<times> 'w Inbound" where
  "startAgent g cmd parsed i =
     (case in_call (mc_ListWorkspaces g) i of
        (Inl e, i1) \<Rightarrow> say_general g cmd (newListFailed @ failureReason (mc_ErrorText g) e) i1
      | (Inr workspaces, i1) \<Rightarrow>
          (let (ws, match) = MatchWorkspace (cm_Workspace parsed) workspaces
           in if match \<noteq> MatchOne then say_general g cmd (workspaceHint g (cm_Workspace parsed) match workspaces) i1
              else start_in g cmd parsed ws i1))"

definition StartFinished :: "'w Machine \<Rightarrow> startResult \<Rightarrow> 'w Inbound \<Rightarrow> error option \<times> 'w Inbound" where
  "StartFinished g r i0 =
     (let (now, i) = in_now g i0
      in case st_outcome r of
           Inl e \<Rightarrow> reply g 0 (st_messageID r) (newFailedFmt (st_kind r) (st_workspace r) (failureReason (mc_ErrorText g) e)) i
         | Inr a \<Rightarrow>
             (let pane = (if PaneID (ag_Key a) = [] then st_paneID r else PaneID (ag_Key a))
              in reply g 0 (st_messageID r) (newStartedFmt (st_kind r) (st_workspace r) pane) i))"

section \<open>Observers and strangers\<close>

text \<open>The newest report first, one per sender, at most \<open>strangerKeep\<close>.\<close>

fun keep_strangers :: "int \<Rightarrow> StrangerSeen list \<Rightarrow> StrangerSeen list \<Rightarrow> StrangerSeen list" where
  "keep_strangers from [] kept = kept"
| "keep_strangers from (s # ss) kept =
     keep_strangers from ss (if ss_FromID s \<noteq> from \<and> length kept < strangerKeep then kept @ [s] else kept)"

definition HandleStranger :: "StrangerSeen \<Rightarrow> 'w Inbound \<Rightarrow> 'w Inbound" where
  "HandleStranger ev i = i\<lparr>in_strangers := keep_strangers (ss_FromID ev) (in_strangers i) [ev]\<rparr>"

text \<open>The texts of the refused changes, after the sentinel's own text (\<^verbatim>\<open>config.go\<close>).\<close>

definition observer_refusal :: "Config \<Rightarrow> ObserversSpec \<Rightarrow> string" where
  "observer_refusal c spec =
     (if ob_Action spec = ObserverAdd
      then (if ob_ID spec \<le> 0 then ''id must be a positive number''
            else if IsOperator c (ob_ID spec) then Itoa (ob_ID spec) @ '' is an operator''
            else Itoa (ob_ID spec) @ '' is already an observer'')
      else Itoa (ob_ID spec) @ '' is not an observer'')"

definition configNotSaved :: string where "configNotSaved = warningSign @ '' config not saved: ''"

definition observer_done :: "ObserversSpec \<Rightarrow> string" where
  "observer_done spec =
     (if ob_Action spec = ObserverAdd
      then [CHR 0xF0, CHR 0x9F, CHR 0x91, CHR 0x81] @ '' '' @ Itoa (ob_ID spec)
           @ '' is an observer now: sees the group, may use /status and /help in General''
      else Itoa (ob_ID spec) @ '' is no longer an observer'')"

text \<open>The config is saved before the one in memory changes; a failed save changes nothing.\<close>

definition changeObserver :: "'w Machine \<Rightarrow> ObserversSpec \<Rightarrow> 'w Inbound \<Rightarrow> string \<times> 'w Inbound" where
  "changeObserver g spec i =
     (case (if ob_Action spec = ObserverAdd then WithObserver (in_cfg i) (ob_ID spec)
            else WithoutObserver (in_cfg i) (ob_ID spec)) of
        Inl e \<Rightarrow> (warningSign @ '' '' @ observer_refusal (in_cfg i) spec, i)
      | Inr next' \<Rightarrow>
          (case mc_SaveConfig g of
             None \<Rightarrow> (configNotSaved @ ''no config store'', i)
           | Some save \<Rightarrow>
               (case in_call (save next') i of
                  (Some e, i1) \<Rightarrow> (configNotSaved @ failureReason (mc_ErrorText g) e, i1)
                | (None, i1) \<Rightarrow>
                    (let i2 = snd (in_call (\<lambda>w. ((), mc_SetAccess g (cf_OperatorIDs next') (cf_ObserverIDs next') w))
                                (i1\<lparr>in_cfg := next'\<rparr>))
                     in (observer_done spec, i2)))))"

definition idList :: "int list \<Rightarrow> string" where
  "idList ids = (if ids = [] then ''none'' else Join (map Itoa ids) '', '')"

definition strangerWhere :: "'w Machine \<Rightarrow> StrangerSeen \<Rightarrow> 'w Inbound \<Rightarrow> string" where
  "strangerWhere g s i =
     (if ss_ThreadID s = 0 then ''General''
      else case in_thread g i (ss_ThreadID s) of
             Some key \<Rightarrow> (case in_entry g i key of
                           Some entry \<Rightarrow> EscapeString (TopicEntry_Label entry) | None \<Rightarrow> ''General'')
           | None \<Rightarrow> ''topic '' @ Itoa (ss_ThreadID s))"

definition strangerLine :: "'w Machine \<Rightarrow> StrangerSeen \<Rightarrow> 'w Inbound \<Rightarrow> string \<times> 'w Inbound" where
  "strangerLine g s i =
     (let parts = (if ss_Name s \<noteq> [] then [EscapeString (ss_Name s)] else [])
                  @ (if ss_Username s \<noteq> [] then [''@'' @ EscapeString (ss_Username s)] else [])
                  @ [''('' @ Itoa (ss_FromID s) @ '')''];
          (now, i1) = in_now g i;
          d = formatDuration (time_Sub now (ss_At s));
          ago = (if d \<noteq> [] then d @ '' ago'' else ''just now'')
      in (Join parts '' '' @ middleDot @ ago @ '' in '' @ strangerWhere g s i1, i1))"

fun strangerLines :: "'w Machine \<Rightarrow> StrangerSeen list \<Rightarrow> 'w Inbound \<Rightarrow> string \<times> 'w Inbound" where
  "strangerLines g [] i = ([], i)"
| "strangerLines g (s # ss) i =
     (let (line, i1) = strangerLine g s i; (rest, i2) = strangerLines g ss i1
      in ([CHR 0xC2, CHR 0xB7] @ '' '' @ line @ [NL] @ rest, i2))"

definition observersList :: "'w Machine \<Rightarrow> 'w Inbound \<Rightarrow> string \<times> 'w Inbound" where
  "observersList g i =
     (let head = [CHR 0xF0, CHR 0x9F, CHR 0x91, CHR 0xA4] @ '' Operators: '' @ idList (cf_OperatorIDs (in_cfg i)) @ [NL]
               @ [CHR 0xF0, CHR 0x9F, CHR 0x91, CHR 0x81] @ '' Observers: '' @ idList (cf_ObserverIDs (in_cfg i)) @ [NL]
               @ [CHR 0xF0, CHR 0x9F, CHR 0x9A, CHR 0xAA] @ '' Seen recently, not allowed:'';
          foot = ''add one with /observers add &lt;id&gt;''
      in if in_strangers i = [] then (head @ '' none'' @ [NL] @ foot, i)
         else let (lines, i1) = strangerLines g (in_strangers i) i in (head @ [NL] @ lines @ foot, i1))"

definition general_html :: "GeneralCommand \<Rightarrow> string \<Rightarrow> Outgoing" where
  "general_html cmd t = (text_message 0 t)\<lparr>og_HTML := True, og_ReplyTo := gc_MessageID cmd\<rparr>"

definition observers :: "'w Machine \<Rightarrow> GeneralCommand \<Rightarrow> ObserversSpec \<Rightarrow> 'w Inbound \<Rightarrow> error option \<times> 'w Inbound" where
  "observers g cmd spec i =
     (if ob_Action spec = ObserverList
      then let (t, i1) = observersList g i in in_send g (general_html cmd t) i1
      else let (t, i1) = changeObserver g spec i in say_general g cmd t i1)"

section \<open>Commands in General\<close>

text \<open>Quiet mode; without \<open>SetPresence\<close> there is no tracker.\<close>

definition clockTime :: "'w Machine \<Rightarrow> time \<Rightarrow> string" where
  "clockTime g at = wallClock (mc_Format g) at"

definition away :: "'w Machine \<Rightarrow> duration \<Rightarrow> int \<Rightarrow> 'w Inbound \<Rightarrow> string \<times> 'w Inbound" where
  "away g d by' i =
     (if \<not> in_presence i then (presenceUnavailable, i)
      else if \<not> QuietEnabled (in_options g i) then (presenceOff, i)
      else let (st, i1) = in_call (mc_Away g d by') i
           in (if IsZero (ps_Until st) then presenceAwayOpen else presenceAwayUntil (clockTime g (ps_Until st)), i1))"

definition here :: "'w Machine \<Rightarrow> int \<Rightarrow> 'w Inbound \<Rightarrow> string \<times> 'w Inbound" where
  "here g by' i =
     (if \<not> in_presence i then (presenceUnavailable, i)
      else if \<not> QuietEnabled (in_options g i) then (presenceOff, i)
      else let (st, i1) = in_call (mc_Here g by') i;
               verdict = (if \<not> ps_Supported st then presenceVerdictNone
                          else if ps_Quiet st then presenceVerdictDesk else presenceVerdictAway)
           in (presenceHereFmt verdict, i1))"

definition presenceHeader :: "'w Machine \<Rightarrow> 'w Inbound \<Rightarrow> string" where
  "presenceHeader g i =
     presenceHeaderText (if in_presence i then Some (mc_presence g (in_world i)) else None)
       (QuietEnabled (in_options g i)) (mc_Format g)"

definition statusSummary :: "'w Machine \<Rightarrow> 'w Inbound \<Rightarrow> string \<times> 'w Inbound" where
  "statusSummary g i =
     (let (now, i1) = in_now g i
      in (view_render
            \<lparr>sw_agents = mc_live g (in_world i), sw_topics = mc_topics g (in_world i),
             sw_icons = StatusIcons_of (in_options g i), sw_syncOff = (\<not> SyncEnabled (in_options g i)),
             sw_presence = presenceHeader g i, sw_chatID = cf_ChatID (in_cfg i),
             sw_since = (if in_since i1 then mc_since g (in_world i1) else []), sw_now = now, sw_footer = [],
             sw_maxAgents = 0\<rparr>, i1))"

definition general_command :: "'w Machine \<Rightarrow> GeneralCommand \<Rightarrow> Command \<Rightarrow> 'w Inbound \<Rightarrow> error option \<times> 'w Inbound" where
  "general_command g cmd parsed i =
     (case cm_Kind parsed of
        CmdStatus \<Rightarrow> (let (t, i1) = statusSummary g i in in_send g (general_html cmd t) i1)
      | CmdHelp \<Rightarrow> say_general g cmd helpText i
      | CmdOptions \<Rightarrow> on_panel (Panel_Open g (gc_MessageID cmd)) i
      | CmdAway \<Rightarrow> (let (t, i1) = away g (cm_Away parsed) (gc_FromID cmd) i in say_general g cmd t i1)
      | CmdHere \<Rightarrow> (let (t, i1) = here g (gc_FromID cmd) i in say_general g cmd t i1)
      | CmdStop \<Rightarrow> say_general g cmd topicOnly i
      | CmdInterrupt \<Rightarrow> say_general g cmd topicOnly i
      | CmdClose \<Rightarrow> say_general g cmd topicOnly i
      | CmdNew \<Rightarrow> startAgent g cmd parsed i
      | CmdGit \<Rightarrow> say_general g cmd topicOnly i
      | CmdObservers \<Rightarrow> observers g cmd (cm_Observers parsed) i
      | _ \<Rightarrow> say_general g cmd ''unknown command, see /help'' i)"

definition HandleGeneral :: "'w Machine \<Rightarrow> GeneralCommand \<Rightarrow> 'w Inbound \<Rightarrow> error option \<times> 'w Inbound" where
  "HandleGeneral g cmd i =
     (let parsed = ParseCommand (gc_Text cmd) (cf_BotUsername (in_cfg i))
      in if gc_Role cmd = RoleObserver \<and> cm_Kind parsed \<noteq> CmdStatus \<and> cm_Kind parsed \<noteq> CmdHelp then (None, i)
         else general_command g cmd parsed i)"

end
