(* ===== verification/Bridge.thy ===== *)
theory Bridge
  imports Inbound
begin

text \<open>
  The bridge goroutine, \<^verbatim>\<open>internal/app/bridge.go\<close>: a bounded queue of jobs, the settle timers of its two halves and the
  error policy. \<open>Submit\<close> may be called by any goroutine; \<open>handle\<close> and the timer steps run on the bridge's own. A job of a
  Go type is a constructor of \<open>Job\<close>; the arguments of the dispatch the code takes from the type switch of \<open>handle\<close>.
\<close>

datatype Job =
    JobEvent AgentEvent
  | JobMessage TopicMessage
  | JobAttachment TopicAttachment
  | JobButton ButtonPressed
  | JobGeneral GeneralCommand
  | JobStranger StrangerSeen
  | JobAway
  | JobStart startResult
  | JobInbox inboxResult
  | JobLive Key "string list"

record 'w Bridge =
  br_in :: "'w Inbound"
  br_jobs :: "Job list"
  br_fatal :: "error option"
  br_dropped :: nat
  br_handled :: nat

definition bridgeBuffer :: nat where "bridgeBuffer = 256"

definition NewBridge :: "Config \<Rightarrow> Capture \<Rightarrow> 'w \<Rightarrow> 'w Bridge" where
  "NewBridge cfg capture w =
     \<lparr>br_in = newInbound cfg (newOutbound (cf_ChatID cfg) (cf_OperatorIDs cfg) capture w), br_jobs = [],
      br_fatal = None, br_dropped = 0, br_handled = 0\<rparr>"

section \<open>The queue\<close>

text \<open>The type switch of \<open>Submit\<close>: the types it lets through.\<close>

definition known_job :: "Job \<Rightarrow> bool" where
  "known_job j \<longleftrightarrow> (case j of JobStranger _ \<Rightarrow> False | _ \<Rightarrow> True)"

definition Submit :: "Job \<Rightarrow> 'w Bridge \<Rightarrow> 'w Bridge" where
  "Submit j b =
     (if \<not> known_job j then b
      else if length (br_jobs b) < bridgeBuffer then b\<lparr>br_jobs := br_jobs b @ [j]\<rparr>
      else b\<lparr>br_dropped := Suc (br_dropped b)\<rparr>)"

definition Bridge_SetPresence :: "'w Bridge \<Rightarrow> 'w Bridge" where
  "Bridge_SetPresence b =
     b\<lparr>br_in := Inbound_SetPresence ((br_in b)\<lparr>in_out := Outbound_SetPresence (in_out (br_in b))\<rparr>)\<rparr>"

definition Bridge_SetPagerReachable :: "bool \<Rightarrow> 'w Bridge \<Rightarrow> 'w Bridge" where
  "Bridge_SetPagerReachable ok b =
     b\<lparr>br_in := (br_in b)\<lparr>in_out := SetPagerReachable ok (in_out (br_in b))\<rparr>\<rparr>"

definition SetStatusSince :: "'w Bridge \<Rightarrow> 'w Bridge" where
  "SetStatusSince b = b\<lparr>br_in := SetSince (br_in b)\<rparr>"

section \<open>Jobs\<close>

text \<open>\<open>run\<close>: the channel of fatal errors holds one; later ones are dropped.\<close>

definition br_run :: "('w Inbound \<Rightarrow> error option \<times> 'w Inbound) \<Rightarrow> 'w Bridge \<Rightarrow> 'w Bridge" where
  "br_run f b =
     (let (err, i) = f (br_in b); b1 = b\<lparr>br_in := i\<rparr>
      in case err of
           None \<Rightarrow> b1
         | Some e \<Rightarrow> if isFatal e \<and> br_fatal b1 = None then b1\<lparr>br_fatal := Some e\<rparr> else b1)"

text \<open>What the work of a job published is queued in order.\<close>

definition flush_published :: "'w Bridge \<Rightarrow> 'w Bridge" where
  "flush_published b =
     fold (\<lambda>(key, lines). Submit (JobLive key lines)) (in_published (br_in b))
       (b\<lparr>br_in := (br_in b)\<lparr>in_published := []\<rparr>\<rparr>)"

definition handle :: "'w Machine \<Rightarrow> Job \<Rightarrow> 'w Bridge \<Rightarrow> 'w Bridge" where
  "handle g j b =
     (case j of
        JobEvent ev \<Rightarrow>
          (let key = ag_Key (ae_Agent ev); i = br_in b;
               b1 = b\<lparr>br_in := i\<lparr>in_out := Outbound_Observe g ev (in_out i)\<rparr>\<rparr>
           in if ae_Kind ev = AgentGone
              then br_run (in_ob (Outbound_Forget g key)) (b1\<lparr>br_in := Inbound_Forget key (br_in b1)\<rparr>) else b1)
      | JobLive key lines \<Rightarrow> br_run (in_ob (Outbound_Live g key lines)) b
      | JobButton ev \<Rightarrow>
          if HasPrefix (bp_Data ev) panelPrefix then br_run (PressPanel g ev) b
          else if HasPrefix (bp_Data ev) closePrefix then br_run (PressClose g ev) b
          else br_run (in_ob (Press g ev)) b
      | JobMessage msg \<Rightarrow> br_run (HandleTopic g msg) b
      | JobAttachment at \<Rightarrow> br_run (HandleAttachment g at) b
      | JobInbox r \<Rightarrow> br_run (InboxFinished g r) b
      | JobGeneral cmd \<Rightarrow> br_run (HandleGeneral g cmd) b
      | JobStranger ev \<Rightarrow> b\<lparr>br_in := HandleStranger ev (br_in b)\<rparr>
      | JobAway \<Rightarrow> br_run (in_ob (CatchUp g)) b
      | JobStart r \<Rightarrow> br_run (StartFinished g r) b)"

text \<open>The branches of the loop of \<open>Run\<close>.\<close>

definition take_job :: "'w Machine \<Rightarrow> 'w Bridge \<Rightarrow> 'w Bridge" where
  "take_job g b =
     (case br_jobs b of
        [] \<Rightarrow> b
      | j # js \<Rightarrow> (let b1 = flush_published (handle g j (b\<lparr>br_jobs := js\<rparr>)) in b1\<lparr>br_handled := Suc (br_handled b1)\<rparr>))"

definition screen_due :: "'w Machine \<Rightarrow> Key \<Rightarrow> 'w Bridge \<Rightarrow> 'w Bridge" where
  "screen_due g key b = br_run (in_ob (Outbound_Fire g key)) b"

definition command_due :: "'w Machine \<Rightarrow> Key \<Rightarrow> 'w Bridge \<Rightarrow> 'w Bridge" where
  "command_due g key b = flush_published (br_run (Inbound_Fire g key) b)"

definition turn_due :: "'w Machine \<Rightarrow> Key \<Rightarrow> 'w Bridge \<Rightarrow> 'w Bridge" where
  "turn_due g key b = br_run (in_ob (EndTurn g key)) b"

text \<open>A background task runs on its own goroutine and submits its result.\<close>

definition result_job :: "TaskResult \<Rightarrow> Job" where
  "result_job r = (case r of StartResult x \<Rightarrow> JobStart x | InboxResult x \<Rightarrow> JobInbox x)"

definition finish_task :: "'w Machine \<Rightarrow> Task list \<Rightarrow> Task \<Rightarrow> Task list \<Rightarrow> 'w Bridge \<Rightarrow> 'w Bridge" where
  "finish_task g before t after b =
     (let (r, w) = run_task g t (in_world (br_in b)); i = br_in b
      in Submit (result_job r) (b\<lparr>br_in := i\<lparr>in_tasks := before @ after, in_out := (in_out i)\<lparr>ob_world := w\<rparr>\<rparr>\<rparr>))"

section \<open>Runs\<close>

text \<open>
  The states of a bridge under every interleaving: jobs arrive at any time, the loop takes one or serves a timer, a task
  ends, and other goroutines move the world, the timers and the captured screens.
\<close>

inductive bridge_run :: "'w Machine \<Rightarrow> 'w Bridge \<Rightarrow> 'w Bridge \<Rightarrow> bool" for g b0 where
  start: "bridge_run g b0 b0"
| submit: "bridge_run g b0 b \<Longrightarrow> bridge_run g b0 (Submit j b)"
| job: "bridge_run g b0 b \<Longrightarrow> bridge_run g b0 (take_job g b)"
| screen: "bridge_run g b0 b \<Longrightarrow> bridge_run g b0 (screen_due g key b)"
| command: "bridge_run g b0 b \<Longrightarrow> bridge_run g b0 (command_due g key b)"
| turn_end: "bridge_run g b0 b \<Longrightarrow> bridge_run g b0 (turn_due g key b)"
| task: "bridge_run g b0 b \<Longrightarrow> in_tasks (br_in b) = before @ t # after \<Longrightarrow> bridge_run g b0 (finish_task g before t after b)"
| presence: "bridge_run g b0 b \<Longrightarrow> bridge_run g b0 (Bridge_SetPresence b)"
| pager: "bridge_run g b0 b \<Longrightarrow> bridge_run g b0 (Bridge_SetPagerReachable ok b)"
| since: "bridge_run g b0 b \<Longrightarrow> bridge_run g b0 (SetStatusSince b)"
| outside: "bridge_run g b0 b \<Longrightarrow>
    bridge_run g b0 (b\<lparr>br_in := (br_in b)\<lparr>in_deb := deb,
      in_out := (in_out (br_in b))\<lparr>ob_world := w, ob_deb := deb1, ob_turnDeb := deb2, ob_capture := cp\<rparr>\<rparr>\<rparr>)"

end
