(* ===== verification/Reconciler.thy ===== *)
theory Reconciler
  imports Registry Debouncer Topic_View Ports
begin

text \<open>
  The reconciler, \<^verbatim>\<open>internal/app/reconciler.go\<close> and \<^verbatim>\<open>sweep.go\<close>: the single writer of Telegram topics. Its
  ports are the record \<open>Gateways\<close>: each call gets the state of the outside world, an opaque \<open>'w\<close>, and
  returns the answer and the world after it. The clock is read the same way; \<open>gw_paused\<close> and \<open>gw_quiet\<close>
  are the two predicates of the reconciler, asked in the world at hand; \<open>gw_ErrorText\<close> is \<^verbatim>\<open>err.Error()\<close>.
  Logging, with the two flags that only keep it short, is left out. An entry \<^verbatim>\<open>entry\<close> got from \<open>TopicFor\<close>
  points into the mapping: reads through it happen before the next change of the fields read, and writes
  through it are writes to the mapping.
\<close>

section \<open>Ports\<close>

record 'w Gateways =
  gw_CreateTopic :: "string \<Rightarrow> Status \<Rightarrow> 'w \<Rightarrow> Topic result \<times> 'w"
  gw_EditTopic :: "int \<Rightarrow> TopicPatch \<Rightarrow> 'w \<Rightarrow> error option \<times> 'w"
  gw_CloseTopic :: "int \<Rightarrow> 'w \<Rightarrow> error option \<times> 'w"
  gw_ReopenTopic :: "int \<Rightarrow> 'w \<Rightarrow> error option \<times> 'w"
  gw_DeleteTopic :: "int \<Rightarrow> 'w \<Rightarrow> error option \<times> 'w"
  gw_Send :: "Outgoing \<Rightarrow> 'w \<Rightarrow> int result \<times> 'w"
  gw_Rename :: "string \<Rightarrow> string option \<Rightarrow> 'w \<Rightarrow> error option \<times> 'w"
  gw_RenameTab :: "string \<Rightarrow> string \<Rightarrow> 'w \<Rightarrow> error option \<times> 'w"
  gw_Save :: "Mapping \<Rightarrow> 'w \<Rightarrow> error option \<times> 'w"
  gw_Now :: "'w \<Rightarrow> time \<times> 'w"
  gw_paused :: "'w \<Rightarrow> bool"
  gw_quiet :: "'w \<Rightarrow> bool"
  gw_ErrorText :: "error \<Rightarrow> string"

section \<open>State\<close>

record 'w Reconciler =
  rc_mapping :: Mapping
  rc_deb :: Debouncer
  rc_agents :: "(Key, Agent) go_map"
  rc_rightsLost :: bool
  rc_sweepRightsWarned :: bool
  rc_force :: bool
  rc_view :: TopicView
  rc_world :: 'w

definition editDebounce :: duration where "editDebounce = 3 * Second"
definition mappingMaxEntries :: int where "mappingMaxEntries = 500"
definition sweepBatch :: nat where "sweepBatch = 50"

definition NewReconciler :: "Mapping \<Rightarrow> 'w \<Rightarrow> 'w Reconciler" where
  "NewReconciler m w =
     \<lparr>rc_mapping = m, rc_deb = newDebouncer editDebounce, rc_agents = [], rc_rightsLost = False,
      rc_sweepRightsWarned = False, rc_force = False, rc_view = publish m, rc_world = w\<rparr>"

text \<open>The skip reasons, for the log only: why writes are off.\<close>

datatype skip_reason = skipRights | skipSyncOff | skipQuiet

definition blockedReason :: "'w Gateways \<Rightarrow> 'w Reconciler \<Rightarrow> skip_reason option" where
  "blockedReason g r =
     (if rc_rightsLost r then Some skipRights
      else if gw_paused g (rc_world r) then Some skipSyncOff
      else if gw_quiet g (rc_world r) then Some skipQuiet
      else None)"

definition blocked :: "'w Gateways \<Rightarrow> 'w Reconciler \<Rightarrow> bool" where
  "blocked g r \<longleftrightarrow> blockedReason g r \<noteq> None"

definition SetReadOnly :: "bool \<Rightarrow> 'w Reconciler \<Rightarrow> 'w Reconciler" where
  "SetReadOnly ro r = (if rc_rightsLost r = ro then r else r\<lparr>rc_rightsLost := ro\<rparr>)"

section \<open>Steps shared by the operations\<close>

text \<open>A change of the mapping stamped with the clock, e.g. \<^verbatim>\<open>r.mapping.MarkClosed(key, r.clock.Now())\<close>.\<close>

definition stamped :: "'w Gateways \<Rightarrow> (Mapping \<Rightarrow> time \<Rightarrow> Mapping) \<Rightarrow> 'w Reconciler \<Rightarrow> 'w Reconciler" where
  "stamped g f r =
     (let (now, w) = gw_Now g (rc_world r)
      in r\<lparr>rc_mapping := f (rc_mapping r) now, rc_world := w\<rparr>)"

text \<open>\<open>save\<close> logs an error of the store and goes on.\<close>

definition save :: "'w Gateways \<Rightarrow> 'w Reconciler \<Rightarrow> 'w Reconciler" where
  "save g r =
     (let r1 = r\<lparr>rc_view := publish (rc_mapping r)\<rparr>
      in r1\<lparr>rc_world := snd (gw_Save g (rc_mapping r1) (rc_world r1))\<rparr>)"

definition rc_Schedule :: "'w Gateways \<Rightarrow> Key \<Rightarrow> 'w Reconciler \<Rightarrow> 'w Reconciler" where
  "rc_Schedule g key r =
     (let (now, w) = gw_Now g (rc_world r)
      in r\<lparr>rc_deb := Schedule key now (rc_deb r), rc_world := w\<rparr>)"

definition rc_Cancel :: "Key \<Rightarrow> 'w Reconciler \<Rightarrow> 'w Reconciler" where
  "rc_Cancel key r = r\<lparr>rc_deb := snd (Cancel key (rc_deb r))\<rparr>"

definition rc_Forget :: "Key \<Rightarrow> 'w Reconciler \<Rightarrow> 'w Reconciler" where
  "rc_Forget key r = r\<lparr>rc_mapping := Forget (rc_mapping r) key\<rparr>"

definition fatal :: "error \<Rightarrow> bool" where
  "fatal e \<longleftrightarrow> e = ErrForbidden \<or> e = ErrBotUnauthorized \<or> e = ErrPollerConflict"

definition ctx_error :: "error \<Rightarrow> bool" where
  "ctx_error e \<longleftrightarrow> e = CtxCanceled \<or> e = CtxDeadlineExceeded"

definition Reconciler_fail :: "'w Gateways \<Rightarrow> Key \<Rightarrow> error \<Rightarrow> 'w Reconciler \<Rightarrow> error option \<times> 'w Reconciler" where
  "Reconciler_fail g key e r =
     (if e = ErrTopicGone then (None, save g (rc_Forget key r))
      else if e = ErrTopicClosed then (None, r)
      else if fatal e then (Some e, r)
      else if isChatMigrated e then (Some e, r)
      else if ctx_error e then (Some e, r)
      else (None, r))"

text \<open>\<^verbatim>\<open>for _, x := range xs { if err := f(x); err != nil { return err } }\<close>\<close>

fun each :: "('x \<Rightarrow> 's \<Rightarrow> error option \<times> 's) \<Rightarrow> 'x list \<Rightarrow> 's \<Rightarrow> error option \<times> 's" where
  "each f [] s = (None, s)"
| "each f (x # xs) s = (case f x s of (Some e, s') \<Rightarrow> (Some e, s') | (None, s') \<Rightarrow> each f xs s')"

section \<open>Creating and editing topics\<close>

definition createTopic :: "'w Gateways \<Rightarrow> Agent \<Rightarrow> 'w Reconciler \<Rightarrow> error option \<times> 'w Reconciler" where
  "createTopic g a r =
     (let (name, status) = Desired a
      in case gw_CreateTopic g name status (rc_world r) of
           (Inl e, w) \<Rightarrow> Reconciler_fail g (ag_Key a) e (r\<lparr>rc_world := w\<rparr>)
         | (Inr topic, w) \<Rightarrow>
             (None, save g (stamped g (\<lambda>m now. Link m (ag_Key a) topic a now) (r\<lparr>rc_world := w\<rparr>))))"

text \<open>The part of \<open>revive\<close> after the topic is open.\<close>

definition revive_open :: "'w Gateways \<Rightarrow> Agent \<Rightarrow> TopicEntry \<Rightarrow> 'w Reconciler \<Rightarrow> error option \<times> 'w Reconciler" where
  "revive_open g a entry r =
     (let key = ag_Key a;
          r1 = save g (stamped g (\<lambda>m now. MarkReopened (Unmute m key now) key now) r);
          (name, status) = Desired a;
          patch = \<lparr>pt_Name = (if name \<noteq> te_Name entry then Some name else None), pt_Status = Some status\<rparr>
      in case gw_EditTopic g (te_ThreadID entry) patch (rc_world r1) of
           (Some e, w) \<Rightarrow> Reconciler_fail g key e (r1\<lparr>rc_world := w\<rparr>)
         | (None, w) \<Rightarrow> (None, save g (stamped g (\<lambda>m now. Apply m key patch now) (r1\<lparr>rc_world := w\<rparr>))))"

definition revive :: "'w Gateways \<Rightarrow> Agent \<Rightarrow> TopicEntry \<Rightarrow> 'w Reconciler \<Rightarrow> error option \<times> 'w Reconciler" where
  "revive g a entry r =
     (let key = ag_Key a
      in if te_Closed entry
         then (case gw_ReopenTopic g (te_ThreadID entry) (rc_world r) of
                 (Some e, w) \<Rightarrow>
                   if e = ErrTopicGone then createTopic g a (rc_Forget key (r\<lparr>rc_world := w\<rparr>))
                   else Reconciler_fail g key e (r\<lparr>rc_world := w\<rparr>)
               | (None, w) \<Rightarrow> revive_open g a entry (r\<lparr>rc_world := w\<rparr>))
         else revive_open g a entry r)"

definition Reconciler_create :: "'w Gateways \<Rightarrow> Agent \<Rightarrow> 'w Reconciler \<Rightarrow> error option \<times> 'w Reconciler" where
  "Reconciler_create g a r =
     (if blocked g r then (None, r)
      else case TopicFor (rc_mapping r) (ag_Key a) of
        Some entry \<Rightarrow> if \<not> Live (te_Status entry) then revive g a entry r else createTopic g a r
      | None \<Rightarrow> createTopic g a r)"

definition edit_patch :: "'w Reconciler \<Rightarrow> Key \<Rightarrow> Agent \<Rightarrow> TopicEntry \<Rightarrow> TopicPatch option" where
  "edit_patch r key a entry =
     (if rc_force r \<and> Live (te_Status entry)
      then (let (name, status) = Desired a in Some \<lparr>pt_Name = Some name, pt_Status = Some status\<rparr>)
      else Diff (rc_mapping r) key a)"

definition Reconciler_edit :: "'w Gateways \<Rightarrow> Key \<Rightarrow> 'w Reconciler \<Rightarrow> error option \<times> 'w Reconciler" where
  "Reconciler_edit g key r =
     (case gm_get (rc_agents r) key of
        None \<Rightarrow> (None, r)
      | Some a \<Rightarrow>
          (case TopicFor (rc_mapping r) key of
             None \<Rightarrow> Reconciler_create g a r
           | Some entry \<Rightarrow>
               if te_Muted entry \<and> \<not> rc_force r then (None, r)
               else case edit_patch r key a entry of
                      None \<Rightarrow> (None, r)
                    | Some patch \<Rightarrow>
                        if blocked g r then (None, r)
                        else case gw_EditTopic g (te_ThreadID entry) patch (rc_world r) of
                               (Some e, w) \<Rightarrow> Reconciler_fail g key e (r\<lparr>rc_world := w\<rparr>)
                             | (None, w) \<Rightarrow>
                                 (None, save g (stamped g (\<lambda>m now. Apply m key patch now) (r\<lparr>rc_world := w\<rparr>)))))"

section \<open>Finishing topics\<close>

definition Reconciler_close :: "'w Gateways \<Rightarrow> Key \<Rightarrow> 'w Reconciler \<Rightarrow> error option \<times> 'w Reconciler" where
  "Reconciler_close g key r =
     (case TopicFor (rc_mapping r) key of
        None \<Rightarrow> (None, r)
      | Some entry \<Rightarrow>
          if te_Closed entry then (None, r)
          else if blocked g r then (None, r)
          else case gw_CloseTopic g (te_ThreadID entry) (rc_world r) of
                 (Some e, w) \<Rightarrow> Reconciler_fail g key e (r\<lparr>rc_world := w\<rparr>)
               | (None, w) \<Rightarrow> (None, save g (stamped g (\<lambda>m now. MarkClosed m key now) (r\<lparr>rc_world := w\<rparr>))))"

text \<open>Writing the finished marker and closing, the tail shared by \<open>exit\<close> and \<open>finish\<close>.\<close>

definition mark_and_close :: "'w Gateways \<Rightarrow> Key \<Rightarrow> TopicEntry \<Rightarrow> 'w Reconciler \<Rightarrow> error option \<times> 'w Reconciler" where
  "mark_and_close g key entry r =
     (case gw_EditTopic g (te_ThreadID entry) \<lparr>pt_Name = None, pt_Status = Some StatusExited\<rparr> (rc_world r) of
        (Some e, w) \<Rightarrow> Reconciler_fail g key e (r\<lparr>rc_world := w\<rparr>)
      | (None, w) \<Rightarrow>
          Reconciler_close g key (save g (stamped g (\<lambda>m now. MarkExited m key now) (r\<lparr>rc_world := w\<rparr>))))"

definition Reconciler_exit :: "'w Gateways \<Rightarrow> Key \<Rightarrow> 'w Reconciler \<Rightarrow> error option \<times> 'w Reconciler" where
  "Reconciler_exit g key r =
     (case TopicFor (rc_mapping r) key of
        None \<Rightarrow> (None, r)
      | Some entry \<Rightarrow>
          if blocked g r then (None, r)
          else if te_Muted entry
          then (None, save g (stamped g (\<lambda>m now. MarkClosed m key now) (stamped g (\<lambda>m now. MarkExited m key now) r)))
          else if Live (te_Status entry) then mark_and_close g key entry r
          else Reconciler_close g key r)"

definition Reconciler_finish :: "'w Gateways \<Rightarrow> Key \<Rightarrow> 'w Reconciler \<Rightarrow> error option \<times> 'w Reconciler" where
  "Reconciler_finish g key r =
     (case TopicFor (rc_mapping r) key of
        None \<Rightarrow> (None, r)
      | Some entry \<Rightarrow> if blocked g r then (None, r) else mark_and_close g key entry r)"

section \<open>Events of the registry\<close>

definition Handle :: "'w Gateways \<Rightarrow> AgentEvent \<Rightarrow> 'w Reconciler \<Rightarrow> error option \<times> 'w Reconciler" where
  "Handle g ev r =
     (let a = ae_Agent ev; key = ag_Key a
      in case ae_Kind ev of
           AgentGone \<Rightarrow>
             Reconciler_exit g key ((rc_Cancel key r)\<lparr>rc_agents := gm_del key (rc_agents r)\<rparr>)
         | kind \<Rightarrow>
             (let r1 = r\<lparr>rc_agents := gm_put key a (rc_agents r)\<rparr>
              in case TopicFor (rc_mapping r1) key of
                   None \<Rightarrow> Reconciler_create g a r1
                 | Some entry \<Rightarrow>
                     if \<not> Live (te_Status entry) then Reconciler_create g a r1
                     else if kind = AgentAppeared then Reconciler_edit g key r1
                     else (None, rc_Schedule g key r1)))"

definition Fire :: "'w Gateways \<Rightarrow> Key \<Rightarrow> 'w Reconciler \<Rightarrow> error option \<times> 'w Reconciler" where
  "Fire g key r = Reconciler_edit g key r"

definition Flush :: "'w Gateways \<Rightarrow> 'w Reconciler \<Rightarrow> error option \<times> 'w Reconciler" where
  "Flush g r = (let (keys, d) = Drain (rc_deb r) in each (Reconciler_edit g) keys (r\<lparr>rc_deb := d\<rparr>))"

section \<open>Reconcile\<close>

definition dedupe_step :: "'w Gateways \<Rightarrow> 'w Reconciler \<Rightarrow> 'w Reconciler" where
  "dedupe_step g r =
     (let (m, n) = DedupeThreads (rc_mapping r); r1 = r\<lparr>rc_mapping := m\<rparr>
      in if n > 0 then save g r1 else r1)"

definition orphan_step :: "'w Gateways \<Rightarrow> Key \<Rightarrow> 'w Reconciler \<Rightarrow> error option \<times> 'w Reconciler" where
  "orphan_step g key r = Reconciler_exit g key (rc_Cancel key r)"

definition live_step :: "'w Gateways \<Rightarrow> Agent \<Rightarrow> 'w Reconciler \<Rightarrow> error option \<times> 'w Reconciler" where
  "live_step g a r =
     (case TopicFor (rc_mapping r) (ag_Key a) of
        None \<Rightarrow> Reconciler_create g a r
      | Some entry \<Rightarrow>
          if \<not> Live (te_Status entry) then Reconciler_create g a r
          else Reconciler_edit g (ag_Key a) (rc_Cancel (ag_Key a) r))"

definition prune_step :: "'w Gateways \<Rightarrow> 'w Reconciler \<Rightarrow> 'w Reconciler" where
  "prune_step g r =
     (let (m, n) = Prune (rc_mapping r) mappingMaxEntries; r1 = r\<lparr>rc_mapping := m\<rparr>
      in if n > 0 then save g r1 else r1)"

definition agent_map :: "Agent list \<Rightarrow> (Key, Agent) go_map" where
  "agent_map live = fold (\<lambda>a m. gm_put (ag_Key a) a m) live []"

text \<open>\<^verbatim>\<open>sort.Slice\<close> sorts the caller's slice; the keys of the agents differ, so its order is determined.\<close>

definition Reconcile :: "'w Gateways \<Rightarrow> Agent list \<Rightarrow> 'w Reconciler \<Rightarrow> error option \<times> 'w Reconciler" where
  "Reconcile g live r =
     (if blocked g r then (None, r)
      else let r1 = (dedupe_step g r)\<lparr>rc_agents := agent_map live\<rparr>
           in case each (orphan_step g) (Orphans (rc_mapping r1) (map ag_Key live)) r1 of
                (Some e, r2) \<Rightarrow> (Some e, r2)
              | (None, r2) \<Rightarrow>
                  (case each (Reconciler_close g) (Unclosed (rc_mapping r2)) r2 of
                     (Some e, r3) \<Rightarrow> (Some e, r3)
                   | (None, r3) \<Rightarrow>
                       (case each (live_step g) (sort_key (\<lambda>a. Key_String (ag_Key a)) live) r3 of
                          (Some e, r4) \<Rightarrow> (Some e, r4)
                        | (None, r4) \<Rightarrow> (None, prune_step g r4))))"

definition Resync :: "'w Gateways \<Rightarrow> Agent list \<Rightarrow> 'w Reconciler \<Rightarrow> error option \<times> 'w Reconciler" where
  "Resync g live r =
     (let (e, r1) = Reconcile g live (r\<lparr>rc_force := True\<rparr>) in (e, r1\<lparr>rc_force := False\<rparr>))"

section \<open>Operators in Telegram\<close>

definition OnTopicClosed :: "'w Gateways \<Rightarrow> int \<Rightarrow> 'w Reconciler \<Rightarrow> error option \<times> 'w Reconciler" where
  "OnTopicClosed g threadID r =
     (case KeyForThread (rc_mapping r) threadID of
        None \<Rightarrow> (None, r)
      | Some key \<Rightarrow>
          (case TopicFor (rc_mapping r) key of
             Some entry \<Rightarrow>
               if \<not> Live (te_Status entry) then (None, save g (stamped g (\<lambda>m now. MarkClosed m key now) r))
               else (None, save g (stamped g (\<lambda>m now. Mute m key now) r))
           | None \<Rightarrow> (None, r)))"

definition forced :: "('w Reconciler \<Rightarrow> error option \<times> 'w Reconciler) \<Rightarrow> 'w Reconciler \<Rightarrow> error option \<times> 'w Reconciler" where
  "forced f r = (let (e, r1) = f (r\<lparr>rc_force := True\<rparr>) in (e, r1\<lparr>rc_force := rc_force r\<rparr>))"

definition OnTopicReopened :: "'w Gateways \<Rightarrow> int \<Rightarrow> 'w Reconciler \<Rightarrow> error option \<times> 'w Reconciler" where
  "OnTopicReopened g threadID r =
     (case KeyForThread (rc_mapping r) threadID of
        None \<Rightarrow> (None, r)
      | Some key \<Rightarrow>
          (let r1 = save g (stamped g (\<lambda>m now. MarkReopened m key now) (stamped g (\<lambda>m now. Unmute m key now) r))
           in if gm_get (rc_agents r1) key \<noteq> None then forced (Reconciler_edit g key) (rc_Cancel key r1)
              else Reconciler_finish g key r1))"

definition middle_dot :: string where
  "middle_dot = [CHR 0xC2, CHR 0xB7]"

definition agentPart :: "Agent \<Rightarrow> string \<Rightarrow> string" where
  "agentPart a name =
     (let ws = (if ag_WorkspaceLabel a = [] then ag_WorkspaceID a else ag_WorkspaceLabel a);
          rest = TrimSpace (StripPrefix name)
      in if ws \<noteq> [] \<and> HasPrefix rest ws
         then (let trimmed = TrimLeft (drop (length ws) rest) '' ''
               in if trimmed = [] \<or> HasPrefix trimmed middle_dot then TrimSpace (TrimPrefix trimmed middle_dot)
                  else rest)
         else rest)"

definition renameFailed :: "'w Gateways \<Rightarrow> TopicEntry \<Rightarrow> error \<Rightarrow> 'w Reconciler \<Rightarrow> 'w Reconciler" where
  "renameFailed g entry e r =
     r\<lparr>rc_world := snd (gw_Send g (text_message (te_ThreadID entry) (''rename failed: '' @ failureReason (gw_ErrorText g) e)) (rc_world r))\<rparr>"

text \<open>The typed name goes into the entry the mapping holds.\<close>

definition typed_name :: "'w Gateways \<Rightarrow> Key \<Rightarrow> string \<Rightarrow> 'w Reconciler \<Rightarrow> 'w Reconciler" where
  "typed_name g key name r =
     save g (stamped g (\<lambda>m now. adjust_entry m key (\<lambda>e. e\<lparr>te_Name := name, te_UpdatedAt := now\<rparr>)) r)"

definition renameTab :: "'w Gateways \<Rightarrow> Key \<Rightarrow> Agent \<Rightarrow> TopicEntry \<Rightarrow> string \<Rightarrow> string \<Rightarrow> 'w Reconciler \<Rightarrow> bool \<times> 'w Reconciler" where
  "renameTab g key a entry name label r =
     (if label = [] \<or> label = ag_TabLabel a then (False, rc_Schedule g key (typed_name g key name r))
      else case gw_RenameTab g (ag_TabID a) label (rc_world r) of
             (Some e, w) \<Rightarrow> (False, renameFailed g entry e (r\<lparr>rc_world := w\<rparr>))
           | (None, w) \<Rightarrow>
               (True, rc_Schedule g key (typed_name g key name
                        (r\<lparr>rc_world := w, rc_agents := gm_put key (a\<lparr>ag_TabLabel := label\<rparr>) (rc_agents r)\<rparr>))))"

text \<open>
  The other half: the custom name of the agent. Every failure ends in a note to the operator, so the error
  result of \<open>OnTopicRenamed\<close> and its halves is always \<^verbatim>\<open>nil\<close> and left out.
\<close>

definition renameAgent :: "'w Gateways \<Rightarrow> Key \<Rightarrow> Agent \<Rightarrow> TopicEntry \<Rightarrow> string \<Rightarrow> string \<Rightarrow> 'w Reconciler \<Rightarrow> bool \<times> 'w Reconciler" where
  "renameAgent g key a entry name rest r =
     (let keep = (rest \<noteq> [] \<and> rest \<noteq> ag_TabLabel a \<and> rest \<noteq> ag_Kind a);
          wire = (if keep then Some rest else None);
          rest' = (if keep then rest else [])
      in case gw_Rename g (PaneID key) wire (rc_world r) of
           (Some e, w) \<Rightarrow> (False, renameFailed g entry e (r\<lparr>rc_world := w\<rparr>))
         | (None, w) \<Rightarrow>
             (True, typed_name g key name
                (r\<lparr>rc_world := w, rc_agents := gm_put key (a\<lparr>ag_Name := rest'\<rparr>) (rc_agents r)\<rparr>)))"

definition OnTopicRenamed :: "'w Gateways \<Rightarrow> int \<Rightarrow> string \<Rightarrow> 'w Reconciler \<Rightarrow> bool \<times> 'w Reconciler" where
  "OnTopicRenamed g threadID name r =
     (case KeyForThread (rc_mapping r) threadID of
        None \<Rightarrow> (False, r)
      | Some key \<Rightarrow>
          (case (TopicFor (rc_mapping r) key, gm_get (rc_agents r) key) of
             (Some entry, Some a) \<Rightarrow>
               if \<not> Live (te_Status entry) then (False, r)
               else (let rest = agentPart a name
                     in if ag_Name a = [] \<and> ag_TabID a \<noteq> [] then renameTab g key a entry name rest r
                        else renameAgent g key a entry name rest r)
           | _ \<Rightarrow> (False, r)))"

definition SetDashboardID :: "'w Gateways \<Rightarrow> int \<Rightarrow> 'w Reconciler \<Rightarrow> 'w Reconciler" where
  "SetDashboardID g i r =
     (if mp_Dashboard (rc_mapping r) = i then r
      else save g (r\<lparr>rc_mapping := (rc_mapping r)\<lparr>mp_Dashboard := i\<rparr>\<rparr>))"

section \<open>The sweep\<close>

text \<open>The loop over the candidates: topics deleted so far, the error that stopped it.\<close>

fun sweep_loop :: "'w Gateways \<Rightarrow> Key list \<Rightarrow> nat \<Rightarrow> 'w Reconciler \<Rightarrow> nat \<times> error option \<times> 'w Reconciler" where
  "sweep_loop g [] deleted r = (deleted, None, r)"
| "sweep_loop g (key # keys) deleted r =
     (case TopicFor (rc_mapping r) key of
        None \<Rightarrow> sweep_loop g keys deleted r
      | Some entry \<Rightarrow>
          (case gw_DeleteTopic g (te_ThreadID entry) (rc_world r) of
             (e, w) \<Rightarrow>
               let r1 = r\<lparr>rc_world := w\<rparr>
               in if e = None \<or> e = Some ErrTopicGone
                  then sweep_loop g keys (Suc deleted) (save g (rc_Forget key r1))
                  else if e = Some ErrForbidden then (deleted, e, r1)
                  else if e = Some CtxCanceled \<or> e = Some CtxDeadlineExceeded then (deleted, e, r1)
                  else sweep_loop g keys deleted r1))"

definition Sweep :: "'w Gateways \<Rightarrow> duration \<Rightarrow> Rights \<Rightarrow> 'w Reconciler \<Rightarrow> (nat \<times> error option) \<times> 'w Reconciler" where
  "Sweep g maxAge rights r =
     (if maxAge \<le> 0 then ((0, None), r)
      else if blocked g r then ((0, None), r)
      else if \<not> CanDeleteMessages rights then ((0, None), r\<lparr>rc_sweepRightsWarned := True\<rparr>)
      else let r1 = r\<lparr>rc_sweepRightsWarned := False\<rparr>;
               (now, w) = gw_Now g (rc_world r1);
               r2 = r1\<lparr>rc_world := w\<rparr>;
               keys = Stale (rc_mapping r2) now maxAge
           in if keys = [] then ((0, None), r2)
              else let batch = (if length keys > sweepBatch then take sweepBatch keys else keys);
                       (deleted, stop, r3) = sweep_loop g batch 0 r2
                   in if stop = Some CtxCanceled \<or> stop = Some CtxDeadlineExceeded then ((deleted, stop), r3)
                      else ((deleted, None), r3))"

end
