(* ===== verification/Dashboard.thy ===== *)
theory Dashboard
  imports Reconciler Registry Status_View
begin

text \<open>
  The pinned overview in General, \<^verbatim>\<open>internal/app/dashboard.go\<close>. It runs on the daemon loop and shares the reconciler,
  which keeps the id of its message in the mapping file. \<open>DashPorts\<close> holds what it calls and reads besides: the
  redacting gateway, the clock, the registry, the options and the quiet tracker. \<open>Fire\<close>, \<open>Tick\<close> and \<open>Enable\<close> are all \<open>refresh\<close>.
\<close>

record 'w DashPorts =
  dp_Send :: "Outgoing \<Rightarrow> 'w \<Rightarrow> int result \<times> 'w"
  dp_EditText :: "int \<Rightarrow> string \<Rightarrow> 'w \<Rightarrow> error option \<times> 'w"
  dp_Pin :: "int \<Rightarrow> 'w \<Rightarrow> error option \<times> 'w"
  dp_Unpin :: "int \<Rightarrow> 'w \<Rightarrow> error option \<times> 'w"
  dp_DeleteMessage :: "int \<Rightarrow> 'w \<Rightarrow> error option \<times> 'w"
  dp_Now :: "'w \<Rightarrow> time \<times> 'w"
  dp_live :: "'w \<Rightarrow> Agent list"
  dp_options :: "'w \<Rightarrow> Options"
  dp_presence :: "'w \<Rightarrow> PresenceState option"
  dp_chatID :: int
  dp_Format :: "string \<Rightarrow> time \<Rightarrow> string"
  dp_hash :: "string \<Rightarrow> string"
  dp_gw :: "'w Gateways"

record 'w Dashboard =
  da_rec :: "'w Reconciler"
  da_deb :: Debouncer
  da_since :: "(Key, time) go_map"
  da_last :: "(Key, Status) go_map"
  da_hash :: string
  da_pinWarned :: bool
  da_hasMessage :: bool

definition dashboardSettle :: duration where "dashboardSettle = 2 * Second"
definition dashboardMaxAgents :: nat where "dashboardMaxAgents = 40"

definition dashboardKey :: Key where
  "dashboardKey = \<lparr>PaneID = ''dashboard'', TerminalID = ''general''\<rparr>"

definition dashboardOffText :: string where
  "dashboardOffText = ''<i>dashboard is off (/options '' @ [CHR 0xE2, CHR 0x86, CHR 0x92] @ '' Sync)</i>''"

text \<open>\<open>DashboardID\<close> of the reconciler; the world is the reconciler's.\<close>

definition DashboardID :: "'w Reconciler \<Rightarrow> int" where
  "DashboardID r = mp_Dashboard (rc_mapping r)"

abbreviation da_id :: "'w Dashboard \<Rightarrow> int" where "da_id d \<equiv> DashboardID (da_rec d)"
abbreviation da_world :: "'w Dashboard \<Rightarrow> 'w" where "da_world d \<equiv> rc_world (da_rec d)"

definition NewDashboard :: "'w Reconciler \<Rightarrow> 'w Dashboard" where
  "NewDashboard r =
     \<lparr>da_rec = r, da_deb = newDebouncer dashboardSettle, da_since = [], da_last = [], da_hash = [], da_pinWarned = False,
      da_hasMessage = (DashboardID r \<noteq> 0)\<rparr>"

definition da_call :: "('w \<Rightarrow> 'r \<times> 'w) \<Rightarrow> 'w Dashboard \<Rightarrow> 'r \<times> 'w Dashboard" where
  "da_call f d = (let (x, w) = f (da_world d) in (x, d\<lparr>da_rec := (da_rec d)\<lparr>rc_world := w\<rparr>\<rparr>))"

definition da_enabled :: "'w DashPorts \<Rightarrow> 'w Dashboard \<Rightarrow> bool" where
  "da_enabled g d = DashboardEnabled (dp_options g (da_world d))"

section \<open>Status times\<close>

definition Dashboard_Schedule :: "'w DashPorts \<Rightarrow> 'w Dashboard \<Rightarrow> 'w Dashboard" where
  "Dashboard_Schedule g d =
     (if \<not> da_enabled g d \<and> \<not> da_hasMessage d then d
      else let (now, d1) = da_call (dp_Now g) d in d1\<lparr>da_deb := Schedule dashboardKey now (da_deb d1)\<rparr>)"

text \<open>The bookkeeping of \<open>Observe\<close>; the clock is read only when a status changed.\<close>

definition note_status :: "'w DashPorts \<Rightarrow> AgentEvent \<Rightarrow> 'w Dashboard \<Rightarrow> 'w Dashboard" where
  "note_status g ev d =
     (let key = ag_Key (ae_Agent ev); status = ag_Status (ae_Agent ev)
      in case ae_Kind ev of
           AgentGone \<Rightarrow> d\<lparr>da_since := gm_del key (da_since d), da_last := gm_del key (da_last d)\<rparr>
         | AgentAppeared \<Rightarrow> d\<lparr>da_since := gm_del key (da_since d), da_last := gm_put key status (da_last d)\<rparr>
         | AgentChanged \<Rightarrow>
             (let d1 = (if gm_get (da_last d) key \<noteq> Some status
                        then let (now, d0) = da_call (dp_Now g) d in d0\<lparr>da_since := gm_put key now (da_since d0)\<rparr>
                        else d)
              in d1\<lparr>da_last := gm_put key status (da_last d1)\<rparr>))"

definition Dashboard_Observe :: "'w DashPorts \<Rightarrow> AgentEvent \<Rightarrow> 'w Dashboard \<Rightarrow> 'w Dashboard" where
  "Dashboard_Observe g ev d = Dashboard_Schedule g (note_status g ev d)"

section \<open>The message\<close>

definition setID :: "'w DashPorts \<Rightarrow> int \<Rightarrow> 'w Dashboard \<Rightarrow> 'w Dashboard" where
  "setID g i d = d\<lparr>da_rec := SetDashboardID (dp_gw g) i (da_rec d), da_hasMessage := (i \<noteq> 0)\<rparr>"

definition dash_view :: "'w DashPorts \<Rightarrow> 'w Dashboard \<Rightarrow> statusView \<times> 'w Dashboard" where
  "dash_view g d =
     (let opts = dp_options g (da_world d); (now, d1) = da_call (dp_Now g) d
      in (\<lparr>sw_agents = dp_live g (da_world d), sw_topics = rc_view (da_rec d), sw_icons = StatusIcons_of opts,
           sw_syncOff = (\<not> SyncEnabled opts), sw_presence = presenceHeaderText (dp_presence g (da_world d)) (QuietEnabled opts) (dp_Format g),
           sw_chatID = dp_chatID g, sw_since = da_since d, sw_now = now, sw_footer = [], sw_maxAgents = dashboardMaxAgents\<rparr>, d1))"

text \<open>\<open>failed\<close>: a fatal error is returned, anything else is retried by the next refresh.\<close>

definition da_failed :: "error \<Rightarrow> error option" where
  "da_failed e = (if isFatal e then Some e else None)"

definition is_ctx :: "error \<Rightarrow> bool" where
  "is_ctx e \<longleftrightarrow> e = CtxCanceled \<or> e = CtxDeadlineExceeded"

definition pin :: "'w DashPorts \<Rightarrow> int \<Rightarrow> 'w Dashboard \<Rightarrow> bool \<times> 'w Dashboard" where
  "pin g i d =
     (case da_call (dp_Pin g i) d of
        (None, d1) \<Rightarrow> (True, d1)
      | (Some e, d1) \<Rightarrow> if is_ctx e then (False, d1) else (False, d1\<lparr>da_pinWarned := True\<rparr>))"

definition Repin :: "'w DashPorts \<Rightarrow> 'w Dashboard \<Rightarrow> 'w Dashboard" where
  "Repin g d =
     (let i = da_id d
      in if i = 0 \<or> \<not> da_enabled g d then d
         else case da_call (dp_Pin g i) d of
                (None, d1) \<Rightarrow> d1
              | (Some e, d1) \<Rightarrow> if e = ErrMessageGone then (setID g 0 d1)\<lparr>da_hash := []\<rparr> else snd (pin g i d1))"

text \<open>A message that cannot be deleted is turned into a note before it is forgotten.\<close>

definition forget_message :: "'w DashPorts \<Rightarrow> 'w Dashboard \<Rightarrow> 'w Dashboard" where
  "forget_message g d = (setID g 0 d)\<lparr>da_hash := []\<rparr>"

definition mark_off :: "'w DashPorts \<Rightarrow> int \<Rightarrow> 'w Dashboard \<Rightarrow> error option \<times> 'w Dashboard" where
  "mark_off g i d =
     (case da_call (dp_EditText g i dashboardOffText) d of
        (None, d1) \<Rightarrow> (None, forget_message g d1)
      | (Some e, d1) \<Rightarrow>
          if e \<noteq> ErrMessageGone \<and> da_failed e \<noteq> None then (da_failed e, d1) else (None, forget_message g d1))"

definition remove_message :: "'w DashPorts \<Rightarrow> int \<Rightarrow> 'w Dashboard \<Rightarrow> error option \<times> 'w Dashboard" where
  "remove_message g i d0 =
     (let (_, d) = da_call (dp_Unpin g i) d0
      in case da_call (dp_DeleteMessage g i) d of
           (None, d1) \<Rightarrow> (None, forget_message g d1)
         | (Some e, d1) \<Rightarrow>
             if e = ErrMessageGone then (None, forget_message g d1)
             else if da_failed e \<noteq> None then (da_failed e, d1)
             else if is_ctx e then (None, d1)
             else mark_off g i d1)"

definition create_message :: "'w DashPorts \<Rightarrow> string \<Rightarrow> string \<Rightarrow> 'w Dashboard \<Rightarrow> error option \<times> 'w Dashboard" where
  "create_message g t h d =
     (case da_call (dp_Send g ((text_message 0 t)\<lparr>og_HTML := True\<rparr>)) d of
        (Inl e, d1) \<Rightarrow> (da_failed e, d1)
      | (Inr i, d1) \<Rightarrow> (let (_, d2) = pin g i d1 in (None, (setID g i d2)\<lparr>da_hash := h\<rparr>)))"

definition refresh :: "'w DashPorts \<Rightarrow> 'w Dashboard \<Rightarrow> error option \<times> 'w Dashboard" where
  "refresh g d0 =
     (let i = da_id d0
      in if \<not> da_enabled g d0 then (if i = 0 then (None, d0) else remove_message g i d0)
         else let (v, d) = dash_view g d0; h = dp_hash g (view_body v)
              in if i \<noteq> 0 \<and> h = da_hash d then (None, d)
                 else let t = view_render (v\<lparr>sw_footer := ''<i>updated '' @ wallClock (dp_Format g) (sw_now v) @ ''</i>''\<rparr>)
                      in if i = 0 then create_message g t h d
                         else case da_call (dp_EditText g i t) d of
                                (None, d1) \<Rightarrow> (None, d1\<lparr>da_hash := h\<rparr>)
                              | (Some e, d1) \<Rightarrow> if e = ErrMessageGone then create_message g t h d1 else (da_failed e, d1))"

definition Dashboard_Stop :: "'w DashPorts \<Rightarrow> 'w Dashboard \<Rightarrow> 'w Dashboard" where
  "Dashboard_Stop g d0 =
     (let i = da_id d0
      in if i = 0 \<or> \<not> da_enabled g d0 then d0
         else let (v, d) = dash_view g (d0\<lparr>da_deb := snd (Cancel dashboardKey (da_deb d0))\<rparr>);
                  (now, d1) = da_call (dp_Now g) d;
                  t = view_render (v\<lparr>sw_footer := ''<i>'' @ [CHR 0xE2, CHR 0x8F, CHR 0xB9] @ '' stopped '' @ wallClock (dp_Format g) now @ ''</i>''\<rparr>)
              in snd (da_call (dp_EditText g i t) d1))"

end
