(* ===== verification/Telegram_Edge.thy ===== *)
theory Telegram_Edge
  imports Inbound
begin

text \<open>
  The edge towards Telegram, \<^verbatim>\<open>internal/adapters/telegram/inbound.go\<close> and the access part of \<^verbatim>\<open>gateway.go\<close>: which updates
  become events of the program. The types of the bot library are reduced to the fields read. The library offers an
  update to the registered match functions in their order and runs the handler of the first that accepts; that is
  \<open>on_update\<close>. \<open>now\<close> is the clock of the call, \<open>room\<close> whether the channel of events took what was handed to it (a full
  buffer drops the report of a stranger; any other event waits, and is lost only when the update's context or the
  gateway ended).
\<close>

section \<open>Updates\<close>

record User =
  us_ID :: int
  us_IsBot :: bool
  us_FirstName :: string
  us_LastName :: string
  us_Username :: string

record TgFile =
  fl_FileID :: string
  fl_FileName :: string
  fl_MimeType :: string
  fl_FileSize :: int

record PhotoSize =
  ph_FileID :: string
  ph_Width :: int
  ph_Height :: int
  ph_FileSize :: int

record TgMessage =
  tm_ID :: int
  tm_ChatID :: int
  tm_From :: "User option"
  tm_ThreadID :: int
  tm_IsTopicMessage :: bool
  tm_TopicEdited :: "string option"
  tm_TopicClosed :: bool
  tm_TopicReopened :: bool
  tm_Pinned :: bool
  tm_Text :: string
  tm_Caption :: string
  tm_MediaGroupID :: string
  tm_Document :: "TgFile option"
  tm_Photo :: "PhotoSize list"
  tm_Voice :: "TgFile option"
  tm_Audio :: "TgFile option"
  tm_Video :: "TgFile option"
  tm_ReplyTo :: "int option"

text \<open>The message of a press is absent when Telegram withheld it.\<close>

record CallbackQuery =
  cq_ID :: string
  cq_From :: User
  cq_Message :: "TgMessage option"
  cq_Data :: string

datatype MemberType = MemberAdministrator | MemberOwner | MemberOther

record ChatMember =
  mb_Type :: MemberType
  mb_Admin :: "(bool \<times> bool \<times> bool) option"

record MyChatMember =
  mm_ChatID :: int
  mm_FromID :: int
  mm_New :: ChatMember

text \<open>Telegram sets at most one of the fields of an update.\<close>

datatype Update = UpMessage TgMessage | UpCallback CallbackQuery | UpMyChatMember MyChatMember | UpOther

definition up_Message :: "Update \<Rightarrow> TgMessage option" where
  "up_Message u = (case u of UpMessage m \<Rightarrow> Some m | _ \<Rightarrow> None)"

definition up_Callback :: "Update \<Rightarrow> CallbackQuery option" where
  "up_Callback u = (case u of UpCallback q \<Rightarrow> Some q | _ \<Rightarrow> None)"

definition up_MyChatMember :: "Update \<Rightarrow> MyChatMember option" where
  "up_MyChatMember u = (case u of UpMyChatMember cm \<Rightarrow> Some cm | _ \<Rightarrow> None)"

lemma up_simps [simp]:
  "up_Message (UpMessage m) = Some m" "up_Message (UpCallback q) = None" "up_Message (UpMyChatMember cm) = None" "up_Message UpOther = None"
  "up_Callback (UpMessage m) = None" "up_Callback (UpCallback q) = Some q" "up_Callback (UpMyChatMember cm) = None" "up_Callback UpOther = None"
  "up_MyChatMember (UpMessage m) = None" "up_MyChatMember (UpCallback q) = None" "up_MyChatMember (UpMyChatMember cm) = Some cm"
  "up_MyChatMember UpOther = None"
  by (simp_all add: up_Message_def up_Callback_def up_MyChatMember_def)

section \<open>State\<close>

datatype TgEvent =
    EvMessage TopicMessage
  | EvAttachment TopicAttachment
  | EvButton ButtonPressed
  | EvGeneral GeneralCommand
  | EvStranger StrangerSeen
  | EvRenamed int string
  | EvClosed int
  | EvReopened int
  | EvRights bool

text \<open>The two allow-lists, swapped as one value.\<close>

record Access =
  ac_operators :: "int set"
  ac_observers :: "int set"

definition newAccess :: "int list \<Rightarrow> int list \<Rightarrow> Access" where
  "newAccess ops obs = \<lparr>ac_operators = set ops, ac_observers = set obs\<rparr>"

definition access_role :: "Access \<Rightarrow> int \<Rightarrow> Role" where
  "access_role a i = (if i \<in> ac_operators a then RoleOperator else if i \<in> ac_observers a then RoleObserver else RoleStranger)"

text \<open>
  \<open>ed_events\<close> are the events handed over, \<open>ed_refused\<close> the presses answered with \<open>not allowed\<close>, \<open>ed_deleting\<close> the
  notices whose deletion waits on its own goroutine, each with the delay it arrived under.
\<close>

record Edge =
  ed_chatID :: int
  ed_botID :: int
  ed_access :: Access
  ed_lastStranger :: "(int, time) go_map"
  ed_noticeDelay :: int
  ed_deleteWarned :: bool
  ed_events :: "TgEvent list"
  ed_refused :: "string list"
  ed_deleting :: "(int \<times> int) list"

definition noticeKeep :: int where "noticeKeep = -1"
definition strangerEvery :: duration where "strangerEvery = 10 * Minute"

definition newEdge :: "int \<Rightarrow> int \<Rightarrow> int list \<Rightarrow> int list \<Rightarrow> duration \<Rightarrow> Edge" where
  "newEdge chatID botID ops obs delay =
     \<lparr>ed_chatID = chatID, ed_botID = botID, ed_access = newAccess ops obs, ed_lastStranger = [],
      ed_noticeDelay = delay, ed_deleteWarned = False, ed_events = [], ed_refused = [], ed_deleting = []\<rparr>"

definition SetAccess :: "int list \<Rightarrow> int list \<Rightarrow> Edge \<Rightarrow> Edge" where
  "SetAccess ops obs e = e\<lparr>ed_access := newAccess ops obs\<rparr>"

definition SetNoticeDelay :: "duration \<Rightarrow> bool \<Rightarrow> Edge \<Rightarrow> Edge" where
  "SetNoticeDelay delay del e = e\<lparr>ed_noticeDelay := (if \<not> del then noticeKeep else delay)\<rparr>"

definition emit :: "bool \<Rightarrow> TgEvent \<Rightarrow> Edge \<Rightarrow> Edge" where
  "emit room ev e = (if room then e\<lparr>ed_events := ed_events e @ [ev]\<rparr> else e)"

section \<open>Matching\<close>

definition isGeneral :: "TgMessage \<Rightarrow> bool" where
  "isGeneral m \<longleftrightarrow> \<not> tm_IsTopicMessage m \<or> tm_ThreadID m = 0"

definition senderID :: "TgMessage \<Rightarrow> int" where
  "senderID m = (case tm_From m of None \<Rightarrow> 0 | Some u \<Rightarrow> us_ID u)"

definition message_role :: "Edge \<Rightarrow> TgMessage \<Rightarrow> Role" where
  "message_role e m = access_role (ed_access e) (senderID m)"

text \<open>An unknown sender is reported once per \<open>strangerEvery\<close>; a bot never is.\<close>

definition stranger :: "bool \<Rightarrow> time \<Rightarrow> User option \<Rightarrow> int \<Rightarrow> Edge \<Rightarrow> Edge" where
  "stranger room now sender threadID e =
     (case sender of
        None \<Rightarrow> e
      | Some u \<Rightarrow>
          if us_IsBot u \<or> us_ID u = ed_botID e then e
          else let first = (case gm_get (ed_lastStranger e) (us_ID u) of None \<Rightarrow> True | Some before \<Rightarrow> time_Sub now before \<ge> strangerEvery)
               in if \<not> first then e
                  else emit room (EvStranger \<lparr>ss_FromID = us_ID u, ss_Name = TrimSpace (us_FirstName u @ '' '' @ us_LastName u),
                                   ss_Username = us_Username u, ss_ThreadID = threadID, ss_At = now\<rparr>)
                         (e\<lparr>ed_lastStranger := gm_put (us_ID u) now (ed_lastStranger e)\<rparr>))"

definition matchOwnService :: "Edge \<Rightarrow> Update \<Rightarrow> bool" where
  "matchOwnService e u \<longleftrightarrow>
     (case up_Message u of
        None \<Rightarrow> False
      | Some m \<Rightarrow>
          (case tm_From m of
             None \<Rightarrow> False
           | Some from \<Rightarrow> ed_botID e \<noteq> 0 \<and> us_ID from = ed_botID e \<and> tm_ChatID m = ed_chatID e
               \<and> (tm_TopicEdited m \<noteq> None \<or> tm_TopicClosed m \<or> tm_TopicReopened m \<or> tm_Pinned m)))"

definition matchCallback :: "Edge \<Rightarrow> Update \<Rightarrow> (CallbackQuery \<times> TgMessage) option" where
  "matchCallback e u =
     (case up_Callback u of
        None \<Rightarrow> None
      | Some q \<Rightarrow>
          (case cq_Message q of
             None \<Rightarrow> None
           | Some m \<Rightarrow> if tm_ChatID m \<noteq> ed_chatID e then None else Some (q, m)))"

text \<open>The two that report strangers: whether they accept, and the state after.\<close>

definition matchOurTopic :: "bool \<Rightarrow> time \<Rightarrow> Edge \<Rightarrow> Update \<Rightarrow> bool \<times> Edge" where
  "matchOurTopic room now e u =
     (case up_Message u of
        None \<Rightarrow> (False, e)
      | Some m \<Rightarrow>
          if tm_ChatID m \<noteq> ed_chatID e \<or> isGeneral m then (False, e)
          else case message_role e m of
                 RoleOperator \<Rightarrow> (True, e)
               | RoleObserver \<Rightarrow> (False, e)
               | RoleStranger \<Rightarrow> (False, stranger room now (tm_From m) (tm_ThreadID m) e))"

definition matchGeneral :: "bool \<Rightarrow> time \<Rightarrow> Edge \<Rightarrow> Update \<Rightarrow> bool \<times> Edge" where
  "matchGeneral room now e u =
     (case up_Message u of
        None \<Rightarrow> (False, e)
      | Some m \<Rightarrow>
          if tm_ChatID m \<noteq> ed_chatID e \<or> \<not> isGeneral m then (False, e)
          else if message_role e m = RoleStranger then (False, stranger room now (tm_From m) 0 e)
          else (HasPrefix (tm_Text m) ''/'', e))"

definition matchMyChatMember :: "Edge \<Rightarrow> Update \<Rightarrow> bool" where
  "matchMyChatMember e u \<longleftrightarrow> (case up_MyChatMember u of None \<Rightarrow> False | Some cm \<Rightarrow> mm_ChatID cm = ed_chatID e)"

section \<open>Handlers\<close>

definition replyToID :: "TgMessage \<Rightarrow> int" where
  "replyToID m = (case tm_ReplyTo m of None \<Rightarrow> 0 | Some i \<Rightarrow> i)"

text \<open>The largest size of a photo, the last of equals; the product is Go's 64-bit one.\<close>

definition photo_area :: "PhotoSize \<Rightarrow> int" where
  "photo_area p = wrap64 (ph_Width p * ph_Height p)"

definition best_photo :: "PhotoSize list \<Rightarrow> PhotoSize" where
  "best_photo ps = fold (\<lambda>p best. if photo_area p \<ge> photo_area best then p else best) (tl ps) (hd ps)"

definition attachmentOf :: "TgMessage \<Rightarrow> TopicAttachment option" where
  "attachmentOf m =
     (let at = (\<lambda>kind i name mime sz.
          \<lparr>at_ThreadID = tm_ThreadID m, at_MessageID = tm_ID m, at_FromID = senderID m, at_GroupID = tm_MediaGroupID m,
           at_Kind = kind, at_FileID = i, at_Name = name, at_MIME = mime, at_Size = sz, at_Caption = tm_Caption m,
           at_ReplyTo = replyToID m\<rparr>)
      in case tm_Document m of
           Some f \<Rightarrow> Some (at AttachmentDocument (fl_FileID f) (fl_FileName f) (fl_MimeType f) (fl_FileSize f))
         | None \<Rightarrow>
             if tm_Photo m \<noteq> []
             then (let p = best_photo (tm_Photo m) in Some (at AttachmentPhoto (ph_FileID p) [] ''image/jpeg'' (ph_FileSize p)))
             else case tm_Voice m of
                    Some f \<Rightarrow> Some (at AttachmentVoice (fl_FileID f) [] (fl_MimeType f) (fl_FileSize f))
                  | None \<Rightarrow>
                      (case tm_Audio m of
                         Some f \<Rightarrow> Some (at AttachmentAudio (fl_FileID f) (fl_FileName f) (fl_MimeType f) (fl_FileSize f))
                       | None \<Rightarrow>
                           (case tm_Video m of
                              Some f \<Rightarrow> Some (at AttachmentVideo (fl_FileID f) (fl_FileName f) (fl_MimeType f) (fl_FileSize f))
                            | None \<Rightarrow> None)))"

definition topic_event :: "TgMessage \<Rightarrow> TgEvent option" where
  "topic_event m =
     (case tm_TopicEdited m of
        Some name \<Rightarrow> if name = [] then None else Some (EvRenamed (tm_ThreadID m) name)
      | None \<Rightarrow>
          if tm_TopicClosed m then Some (EvClosed (tm_ThreadID m))
          else if tm_TopicReopened m then Some (EvReopened (tm_ThreadID m))
          else if tm_Text m \<noteq> []
          then Some (EvMessage \<lparr>ms_ThreadID = tm_ThreadID m, ms_MessageID = tm_ID m, ms_FromID = senderID m, ms_Text = tm_Text m,
                                ms_ReplyTo = replyToID m\<rparr>)
          else map_option EvAttachment (attachmentOf m))"

definition onTopicUpdate :: "bool \<Rightarrow> TgMessage \<Rightarrow> Edge \<Rightarrow> Edge" where
  "onTopicUpdate room m e = (case topic_event m of None \<Rightarrow> e | Some ev \<Rightarrow> emit room ev e)"

definition onCallback :: "bool \<Rightarrow> time \<Rightarrow> CallbackQuery \<Rightarrow> TgMessage \<Rightarrow> Edge \<Rightarrow> Edge" where
  "onCallback room now q m e =
     (let role = access_role (ed_access e) (us_ID (cq_From q))
      in if role \<noteq> RoleOperator
         then let e1 = (if role = RoleObserver then e else stranger room now (Some (cq_From q)) (tm_ThreadID m) e)
              in e1\<lparr>ed_refused := ed_refused e1 @ [cq_ID q]\<rparr>
         else emit room (EvButton \<lparr>bp_CallbackID = cq_ID q, bp_ThreadID = tm_ThreadID m, bp_MessageID = tm_ID m,
                                   bp_FromID = us_ID (cq_From q), bp_Data = cq_Data q\<rparr>) e)"

definition onGeneral :: "bool \<Rightarrow> TgMessage \<Rightarrow> Edge \<Rightarrow> Edge" where
  "onGeneral room m e =
     emit room (EvGeneral \<lparr>gc_MessageID = tm_ID m, gc_FromID = senderID m, gc_Text = tm_Text m, gc_Role = message_role e m\<rparr>) e"

definition onOwnService :: "TgMessage \<Rightarrow> Edge \<Rightarrow> Edge" where
  "onOwnService m e = e\<lparr>ed_deleting := ed_deleting e @ [(tm_ID m, ed_noticeDelay e)]\<rparr>"

definition canManageTopics :: "ChatMember \<Rightarrow> bool" where
  "canManageTopics m \<longleftrightarrow> mb_Type m = MemberAdministrator \<and> (case mb_Admin m of None \<Rightarrow> False | Some (t, d, p) \<Rightarrow> t)"

definition canDeleteMessages :: "ChatMember \<Rightarrow> bool" where
  "canDeleteMessages m \<longleftrightarrow> mb_Type m = MemberAdministrator \<and> (case mb_Admin m of None \<Rightarrow> False | Some (t, d, p) \<Rightarrow> d)"

definition canPinMessages :: "ChatMember \<Rightarrow> bool" where
  "canPinMessages m \<longleftrightarrow> mb_Type m = MemberAdministrator \<and> (case mb_Admin m of None \<Rightarrow> False | Some (t, d, p) \<Rightarrow> p)"

definition onMyChatMember :: "bool \<Rightarrow> MyChatMember \<Rightarrow> Edge \<Rightarrow> Edge" where
  "onMyChatMember room cm e = emit room (EvRights (canManageTopics (mm_New cm))) e"

text \<open>The match functions in the order \<open>registerHandlers\<close> installs them.\<close>

definition on_update :: "bool \<Rightarrow> time \<Rightarrow> Update \<Rightarrow> Edge \<Rightarrow> Edge" where
  "on_update room now u e =
     (if matchOwnService e u then onOwnService (the (up_Message u)) e
      else case matchCallback e u of
        Some (q, m) \<Rightarrow> onCallback room now q m e
      | None \<Rightarrow>
          (let (ours, e1) = matchOurTopic room now e u
           in if ours then onTopicUpdate room (the (up_Message u)) e1
              else let (general, e2) = matchGeneral room now e1 u
                   in if general then onGeneral room (the (up_Message u)) e2
                      else if matchMyChatMember e2 u then onMyChatMember room (the (up_MyChatMember u)) e2
                      else e2))"

text \<open>
  \<open>deleteServiceMessage\<close>, after its wait: \<open>None\<close> when the notice is kept; otherwise the call is made and the first
  failure that is not a cancelled context is warned about.
\<close>

definition delete_wait :: "int \<Rightarrow> duration option" where
  "delete_wait setting = (if setting = noticeKeep then None else Some (max 0 setting))"

definition deleteServiceMessage :: "(int \<Rightarrow> 'w \<Rightarrow> error option \<times> 'w) \<Rightarrow> int \<times> int \<Rightarrow> Edge \<Rightarrow> 'w \<Rightarrow> Edge \<times> 'w" where
  "deleteServiceMessage delete n e w =
     (case delete_wait (snd n) of
        None \<Rightarrow> (e, w)
      | Some d \<Rightarrow>
          (case delete (fst n) w of
             (None, w1) \<Rightarrow> (e, w1)
           | (Some err, w1) \<Rightarrow> if err = CtxCanceled then (e, w1) else (e\<lparr>ed_deleteWarned := True\<rparr>, w1)))"

section \<open>Who gets through\<close>

text \<open>What an event says of the update it came from, under the access lists in force.\<close>

fun admitted :: "Edge \<Rightarrow> time \<Rightarrow> Update \<Rightarrow> TgEvent \<Rightarrow> bool" where
  "admitted e now u (EvMessage msg) \<longleftrightarrow>
     (\<exists>m. up_Message u = Some m \<and> tm_ChatID m = ed_chatID e \<and> ms_FromID msg \<in> ac_operators (ed_access e) \<and> ms_FromID msg = senderID m
        \<and> ms_ThreadID msg = tm_ThreadID m \<and> ms_ThreadID msg \<noteq> 0 \<and> ms_Text msg = tm_Text m \<and> ms_Text msg \<noteq> [])"
| "admitted e now u (EvAttachment at) \<longleftrightarrow>
     (\<exists>m. up_Message u = Some m \<and> tm_ChatID m = ed_chatID e \<and> at_FromID at \<in> ac_operators (ed_access e) \<and> at_FromID at = senderID m
        \<and> at_ThreadID at = tm_ThreadID m \<and> at_ThreadID at \<noteq> 0)"
| "admitted e now u (EvButton b) \<longleftrightarrow>
     (\<exists>q m. up_Callback u = Some q \<and> cq_Message q = Some m \<and> tm_ChatID m = ed_chatID e \<and> bp_MessageID b = tm_ID m
        \<and> bp_FromID b = us_ID (cq_From q) \<and> bp_FromID b \<in> ac_operators (ed_access e))"
| "admitted e now u (EvGeneral c) \<longleftrightarrow>
     (\<exists>m. up_Message u = Some m \<and> tm_ChatID m = ed_chatID e \<and> isGeneral m \<and> gc_FromID c = senderID m \<and> HasPrefix (gc_Text c) ''/''
        \<and> gc_Role c = access_role (ed_access e) (gc_FromID c) \<and> gc_Role c \<noteq> RoleStranger)"
| "admitted e now u (EvStranger s) \<longleftrightarrow>
     access_role (ed_access e) (ss_FromID s) = RoleStranger \<and> ss_FromID s \<noteq> ed_botID e \<and> ss_At s = now"
| "admitted e now u (EvRenamed th name) \<longleftrightarrow>
     (\<exists>m. up_Message u = Some m \<and> tm_ChatID m = ed_chatID e \<and> senderID m \<in> ac_operators (ed_access e)
        \<and> th = tm_ThreadID m \<and> tm_TopicEdited m = Some name \<and> name \<noteq> [])"
| "admitted e now u (EvClosed th) \<longleftrightarrow>
     (\<exists>m. up_Message u = Some m \<and> tm_ChatID m = ed_chatID e \<and> senderID m \<in> ac_operators (ed_access e) \<and> th = tm_ThreadID m \<and> tm_TopicClosed m)"
| "admitted e now u (EvReopened th) \<longleftrightarrow>
     (\<exists>m. up_Message u = Some m \<and> tm_ChatID m = ed_chatID e \<and> senderID m \<in> ac_operators (ed_access e) \<and> th = tm_ThreadID m \<and> tm_TopicReopened m)"
| "admitted e now u (EvRights ok) \<longleftrightarrow>
     (\<exists>cm. up_MyChatMember u = Some cm \<and> mm_ChatID cm = ed_chatID e \<and> ok = canManageTopics (mm_New cm))"


lemma emit_events: "ed_events (emit room ev e) = ed_events e @ (if room then [ev] else [])"
  by (simp add: emit_def)

lemma emit_frame [simp]: "ed_access (emit room ev e) = ed_access e" "ed_chatID (emit room ev e) = ed_chatID e"
  "ed_botID (emit room ev e) = ed_botID e" "ed_lastStranger (emit room ev e) = ed_lastStranger e"
  by (simp_all add: emit_def)

text \<open>One step adds at most one event, and it is admitted.\<close>

definition admits :: "Edge \<Rightarrow> time \<Rightarrow> Update \<Rightarrow> Edge \<Rightarrow> bool" where
  "admits e now u e' \<longleftrightarrow> ed_access e' = ed_access e \<and> ed_chatID e' = ed_chatID e \<and> ed_botID e' = ed_botID e
     \<and> (ed_events e' = ed_events e \<or> (\<exists>ev. ed_events e' = ed_events e @ [ev] \<and> admitted e now u ev))"

lemma admits_refl [simp]: "admits e now u e"
  by (simp add: admits_def)

lemma admits_emit: "admitted e now u ev \<Longrightarrow> admits e now u (emit room ev e)"
  by (auto simp: admits_def emit_events)

lemma admits_stranger:
  assumes "\<And>w. sender = Some w \<Longrightarrow> access_role (ed_access e) (us_ID w) = RoleStranger"
  shows "admits e now u (stranger room now sender th e)"
proof (cases sender)
  case (Some w)
  then show ?thesis using assms by (auto simp: stranger_def admits_def emit_events)
qed (simp add: stranger_def)

lemma stranger_role: "message_role e m = RoleStranger \<Longrightarrow> tm_From m = Some w \<Longrightarrow> access_role (ed_access e) (us_ID w) = RoleStranger"
  by (simp add: message_role_def senderID_def)

lemma operator_role: "access_role a i = RoleOperator \<longleftrightarrow> i \<in> ac_operators a"
  by (simp add: access_role_def)

lemma attachmentOf_fields: "attachmentOf m = Some at \<Longrightarrow> at_FromID at = senderID m \<and> at_ThreadID at = tm_ThreadID m"
  by (auto simp: attachmentOf_def Let_def split: option.splits if_splits)

lemma topic_event_admitted:
  assumes "up_Message u = Some m" "tm_ChatID m = ed_chatID e" "\<not> isGeneral m" "message_role e m = RoleOperator" "topic_event m = Some ev"
  shows "admitted e now u ev"
  using assms attachmentOf_fields
  by (auto simp: topic_event_def isGeneral_def message_role_def operator_role split: option.splits if_splits)

text \<open>
  C6: The trust boundary. One update adds at most one event, and what an event claims is true of the update: a text, a file, a
  press, a renamed, closed or reopened topic comes from a sender the operator list names, in the configured group, texts
  and files in a topic; a command in General starts with a slash and comes from an operator or an observer, and the role it
  carries is the sender's; a sender on neither list yields nothing but the report that he was seen, and the bot
  itself not even that. The access lists are those in force when the update arrives and no update changes them.
\<close>

theorem on_update_admits:
  "let e' = on_update room now u e in
     ed_access e' = ed_access e \<and> ed_chatID e' = ed_chatID e
     \<and> (ed_events e' = ed_events e \<or> (\<exists>ev. ed_events e' = ed_events e @ [ev] \<and> admitted e now u ev))"
proof -
  have "admits e now u (on_update room now u e)"
  proof (cases u)
    case (UpMessage m)
    have gone: "admits e now u (stranger room now (tm_From m) th e)" if "message_role e m = RoleStranger" for th
      using stranger_role [OF that] by (intro admits_stranger)
    show ?thesis
    proof (cases "matchOwnService e u \<or> tm_ChatID m \<noteq> ed_chatID e")
      case True
      then show ?thesis using UpMessage
        by (auto simp: on_update_def onOwnService_def admits_def matchCallback_def matchOurTopic_def matchGeneral_def matchMyChatMember_def)
    next
      case False
      then have chain: "on_update room now u e =
          (let (ours, e1) = matchOurTopic room now e u
           in if ours then onTopicUpdate room m e1
              else let (general, e2) = matchGeneral room now e1 u in if general then onGeneral room m e2 else e2)"
        using UpMessage by (simp add: on_update_def matchCallback_def matchMyChatMember_def split_beta Let_def)
      show ?thesis
      proof (cases "isGeneral m")
        case True
        then show ?thesis using False UpMessage gone [of 0] unfolding chain
          by (auto simp: matchOurTopic_def matchGeneral_def onGeneral_def message_role_def Let_def intro!: admits_emit)
      next
        case topic: False
        show ?thesis
        proof (cases "message_role e m")
          case RoleOperator
          have ev: "admitted e now u ev" if "topic_event m = Some ev" for ev
            using topic_event_admitted [OF _ _ topic RoleOperator that, of u now] UpMessage False by simp
          show ?thesis using False UpMessage topic RoleOperator ev unfolding chain
            by (auto simp: matchOurTopic_def onTopicUpdate_def split: option.split intro!: admits_emit)
        next
          case RoleObserver
          then show ?thesis using False UpMessage topic unfolding chain by (simp add: matchOurTopic_def matchGeneral_def)
        next
          case RoleStranger
          have "ed_chatID (stranger room now s th e) = ed_chatID e" for s th
            by (simp add: stranger_def Let_def split: option.split)
          then show ?thesis using False UpMessage topic RoleStranger gone [OF RoleStranger] unfolding chain
            by (simp add: matchOurTopic_def matchGeneral_def)
        qed
      qed
    qed
  next
    case (UpCallback q)
    have role: "admits e now u (onCallback room now q m e)" if "cq_Message q = Some m" "tm_ChatID m = ed_chatID e" for m
    proof (cases "access_role (ed_access e) (us_ID (cq_From q))")
      case RoleStranger
      then have "admits e now u (stranger room now (Some (cq_From q)) (tm_ThreadID m) e)" by (intro admits_stranger) simp
      then show ?thesis using RoleStranger by (simp add: onCallback_def admits_def Let_def)
    next
      case RoleOperator
      then show ?thesis using that UpCallback by (auto simp: onCallback_def operator_role intro!: admits_emit)
    qed (simp add: onCallback_def admits_def Let_def)
    then show ?thesis using UpCallback
      by (auto simp: on_update_def matchOwnService_def matchCallback_def matchOurTopic_def matchGeneral_def matchMyChatMember_def split: option.split)
  next
    case (UpMyChatMember cm)
    then show ?thesis
      by (auto simp: on_update_def matchOwnService_def matchCallback_def matchOurTopic_def matchGeneral_def matchMyChatMember_def
          onMyChatMember_def intro!: admits_emit)
  next
    case UpOther
    then show ?thesis
      by (simp add: on_update_def matchOwnService_def matchCallback_def matchOurTopic_def matchGeneral_def matchMyChatMember_def)
  qed
  then show ?thesis by (simp add: admits_def Let_def)
qed


section \<open>How often a stranger is reported\<close>

definition apart :: "TgEvent \<Rightarrow> TgEvent \<Rightarrow> bool" where
  "apart a b \<longleftrightarrow> (\<forall>s s'. a = EvStranger s \<and> b = EvStranger s' \<and> ss_FromID s = ss_FromID s' \<longrightarrow> ss_At s' - ss_At s \<ge> strangerEvery)"

definition rate_inv :: "Edge \<Rightarrow> bool" where
  "rate_inv e \<longleftrightarrow> sorted_wrt apart (ed_events e)
     \<and> (\<forall>s. EvStranger s \<in> set (ed_events e) \<longrightarrow> (\<exists>t. gm_get (ed_lastStranger e) (ss_FromID s) = Some t \<and> ss_At s \<le> t))"

lemma time_Sub_ge: "time_Sub now t \<ge> strangerEvery \<Longrightarrow> now - t \<ge> strangerEvery"
  by (auto simp: time_Sub_def strangerEvery_def Minute_def Second_def minInt64_def max_def min_def split: if_splits)

lemma rate_emit: "rate_inv e \<Longrightarrow> (\<And>s. ev \<noteq> EvStranger s) \<Longrightarrow> rate_inv (emit room ev e)"
  by (auto simp: rate_inv_def emit_events sorted_wrt_append apart_def)

lemma rate_fields: "rate_inv e \<Longrightarrow> ed_events e' = ed_events e \<Longrightarrow> ed_lastStranger e' = ed_lastStranger e \<Longrightarrow> rate_inv e'"
  by (simp add: rate_inv_def)

lemma rate_stranger:
  assumes inv: "rate_inv e" shows "rate_inv (stranger room now sender th e)"
proof (cases "\<exists>w. sender = Some w \<and> \<not> us_IsBot w \<and> us_ID w \<noteq> ed_botID e
    \<and> (case gm_get (ed_lastStranger e) (us_ID w) of None \<Rightarrow> True | Some before \<Rightarrow> time_Sub now before \<ge> strangerEvery)")
  case False
  then show ?thesis using inv by (auto simp: stranger_def split: option.split)
next
  case True
  then obtain w where w: "sender = Some w" "\<not> us_IsBot w" "us_ID w \<noteq> ed_botID e"
    and due: "case gm_get (ed_lastStranger e) (us_ID w) of None \<Rightarrow> True | Some before \<Rightarrow> time_Sub now before \<ge> strangerEvery" by blast
  have later: "now - ss_At s \<ge> strangerEvery" if s: "EvStranger s \<in> set (ed_events e)" "ss_FromID s = us_ID w" for s
  proof -
    obtain t where t: "gm_get (ed_lastStranger e) (us_ID w) = Some t" "ss_At s \<le> t" using inv s by (auto simp: rate_inv_def)
    then have "now - t \<ge> strangerEvery" using due time_Sub_ge by simp
    then show ?thesis using t(2) by simp
  qed
  have pos: "strangerEvery > 0" by (simp add: strangerEvery_def Minute_def Second_def)
  let ?e = "e\<lparr>ed_lastStranger := gm_put (us_ID w) now (ed_lastStranger e)\<rparr>"
  have "rate_inv ?e" using inv later pos by (fastforce simp: rate_inv_def update_conv)
  moreover have "apart a (EvStranger s)" if "a \<in> set (ed_events e)" "ss_FromID s = us_ID w" "ss_At s = now" for a s
    using later that by (auto simp: apart_def)
  ultimately show ?thesis using w due
    by (auto simp: stranger_def rate_inv_def emit_events sorted_wrt_append update_conv split: if_splits)
qed

lemma rate_on_update: "rate_inv e \<Longrightarrow> rate_inv (on_update room now u e)"
proof -
  assume inv: "rate_inv e"
  have topic: "topic_event m = Some ev \<Longrightarrow> ev \<noteq> EvStranger s" for m ev s
    by (auto simp: topic_event_def split: option.splits if_splits)
  have ours: "rate_inv (snd (matchOurTopic room now e u))" using rate_stranger [OF inv]
    by (auto simp: matchOurTopic_def inv split: option.split Role.split)
  have gen: "rate_inv (snd (matchGeneral room now e1 u))" if "rate_inv e1" for e1 using rate_stranger [OF that]
    by (auto simp: matchGeneral_def that split: option.split)
  have general: "rate_inv (onGeneral room m e1)" if "rate_inv e1" for m e1
    unfolding onGeneral_def by (rule rate_emit [OF that]) simp
  have member: "rate_inv (onMyChatMember room cm e1)" if "rate_inv e1" for cm e1
    unfolding onMyChatMember_def by (rule rate_emit [OF that]) simp
  have update: "rate_inv (onTopicUpdate room m e1)" if "rate_inv e1" for m e1
    using rate_emit [OF that topic] by (auto simp: onTopicUpdate_def that split: option.split)
  have press: "rate_inv (onCallback room now q m e)" for q m
    unfolding onCallback_def Let_def
    by (auto intro!: rate_emit [OF inv] intro: rate_fields [OF inv] rate_fields [OF rate_stranger [OF inv]])
  have own: "rate_inv (onOwnService m e)" for m by (rule rate_fields [OF inv]) (simp_all add: onOwnService_def)
  show ?thesis unfolding on_update_def
    by (auto simp: own press split_beta Let_def split: option.split intro!: update general member gen ours)
qed

definition updates :: "(bool \<times> time \<times> Update) list \<Rightarrow> Edge \<Rightarrow> Edge" where
  "updates us e = fold (\<lambda>(room, now, u). on_update room now u) us e"

lemma rate_updates: "rate_inv e \<Longrightarrow> rate_inv (updates us e)"
  by (induction us arbitrary: e) (auto simp: updates_def rate_on_update)

text \<open>
  C16: A chatty stranger cannot flood the program: of any two reports of the same sender the later one is at least ten
  minutes after the earlier one, whatever he writes and wherever, whatever the buffer does and however the
  clock jumps in between.
\<close>

theorem strangers_reported_rarely:
  assumes "ed_events (updates us (newEdge chatID botID ops obs delay)) = before @ [EvStranger s] @ between @ [EvStranger s'] @ after"
    and "ss_FromID s = ss_FromID s'"
  shows "ss_At s' - ss_At s \<ge> 10 * Minute"
proof -
  have "rate_inv (newEdge chatID botID ops obs delay)" by (simp add: rate_inv_def newEdge_def)
  then have "sorted_wrt apart (before @ [EvStranger s] @ between @ [EvStranger s'] @ after)"
    using rate_updates assms(1) by (metis rate_inv_def)
  then have "apart (EvStranger s) (EvStranger s')" by (simp add: sorted_wrt_append)
  then show ?thesis using assms(2) by (simp add: apart_def strangerEvery_def)
qed

text \<open>Two words of a passer-by in General, twenty minutes apart, and one in between.\<close>

definition passer :: User where
  "passer = \<lparr>us_ID = 77, us_IsBot = False, us_FirstName = ''Eve'', us_LastName = [], us_Username = []\<rparr>"

definition passing_word :: TgMessage where
  "passing_word =
     \<lparr>tm_ID = 1, tm_ChatID = 5, tm_From = Some passer, tm_ThreadID = 0, tm_IsTopicMessage = False, tm_TopicEdited = None,
      tm_TopicClosed = False, tm_TopicReopened = False, tm_Pinned = False, tm_Text = ''hi'', tm_Caption = [], tm_MediaGroupID = [],
      tm_Document = None, tm_Photo = [], tm_Voice = None, tm_Audio = None, tm_Video = None, tm_ReplyTo = None\<rparr>"

definition seen_at :: "time \<Rightarrow> TgEvent" where
  "seen_at t = EvStranger \<lparr>ss_FromID = 77, ss_Name = ''Eve'', ss_Username = [], ss_ThreadID = 0, ss_At = t\<rparr>"

theorem strangers_reported_rarely_witness:
  "let us = map (\<lambda>t. (True, t, UpMessage passing_word)) [10, 10 + 5 * Minute, 10 + 20 * Minute] in
   ed_events (updates us (newEdge 5 1 [9] [] 0)) = [seen_at 10, seen_at (10 + 20 * Minute)] \<and> 10 + 20 * Minute - 10 \<ge> 10 * Minute"
proof -
  let ?us = "map (\<lambda>t. (True, t, UpMessage passing_word)) [10, 10 + 5 * Minute, 10 + 20 * Minute]"
  have ev: "ed_events (updates ?us (newEdge 5 1 [9] [] 0)) = [seen_at 10, seen_at (10 + 20 * Minute)]" by code_simp
  then have "ed_events (updates ?us (newEdge 5 1 [9] [] 0)) = [] @ [seen_at 10] @ [] @ [seen_at (10 + 20 * Minute)] @ []" by simp
  from strangers_reported_rarely [OF this [unfolded seen_at_def]] ev show ?thesis by (simp add: Let_def)
qed

end
