(* ===== verification/Daemon.thy ===== *)
theory Daemon
  imports Bridge Dashboard Telegram_Edge Presence
begin

text \<open>
  The daemon, \<^verbatim>\<open>internal/app/daemon.go\<close>: the loop that joins the registry, the reconciler with its dashboard, the bridge with
  the capture, and the presence tracker. One turn of the loop is \<open>daemon_turn\<close> on the channel that was ready; the bridge and
  the registry run beside it, on the same world. The reconciler is the one of the dashboard. A channel of one place is a
  flag. \<open>dp_Send\<close> of \<open>dn_dash\<close> is the redacting gateway \<open>NewDaemon\<close> builds. Tests alone change \<open>SocketGrace\<close>, which is
  its default here; the notice of the exit spells it.
\<close>

section \<open>State\<close>

record 'w DaemonPorts =
  dn_dash :: "'w DashPorts"
  dn_machine :: "'w Machine"
  dn_Rights :: "'w \<Rightarrow> Rights result \<times> 'w"
  dn_ProbeDirect :: "int \<Rightarrow> 'w \<Rightarrow> error option \<times> 'w"
  dn_SetStatusIcons :: "StatusIcons \<Rightarrow> 'w \<Rightarrow> 'w"
  dn_SetNoticeDelay :: "duration \<Rightarrow> bool \<Rightarrow> 'w \<Rightarrow> 'w"
  dn_ListAgents :: "'w \<Rightarrow> Agent list result \<times> 'w"
  dn_WatchPanes :: "string list \<Rightarrow> 'w \<Rightarrow> error option \<times> 'w"
  dn_Notify :: "string \<Rightarrow> string \<Rightarrow> 'w \<Rightarrow> error option \<times> 'w"
  dn_SaveConfig :: "Config \<Rightarrow> 'w \<Rightarrow> error option \<times> 'w"
  dn_Idle :: "'w \<Rightarrow> duration result \<times> 'w"
  dn_InboxSweep :: "(duration \<Rightarrow> 'w \<Rightarrow> int result \<times> 'w) option"

record 'w Daemon =
  dm_cfg :: Config
  dm_dash :: "'w Dashboard"
  dm_registry :: Registry
  dm_bridge :: "'w Bridge"
  dm_presence :: Presence
  dm_version :: string
  dm_resync :: bool
  dm_sweep :: bool
  dm_probe :: bool
  dm_pagerNoticed :: bool
  dm_rights :: Rights
  dm_started :: time
  dm_lastDropped :: nat
  dm_lastDropReport :: time

definition socketGrace :: duration where "socketGrace = 60 * Second"
definition notifyTitle :: string where "notifyTitle = ''Telegram Agents''"
definition dropReportInterval :: duration where "dropReportInterval = 1 * Minute"

abbreviation dm_world :: "'w Daemon \<Rightarrow> 'w" where "dm_world d \<equiv> da_world (dm_dash d)"
abbreviation dm_rec :: "'w Daemon \<Rightarrow> 'w Reconciler" where "dm_rec d \<equiv> da_rec (dm_dash d)"
abbreviation dm_options :: "'w DaemonPorts \<Rightarrow> 'w Daemon \<Rightarrow> Options" where "dm_options g d \<equiv> dp_options (dn_dash g) (dm_world d)"
abbreviation dm_gw :: "'w DaemonPorts \<Rightarrow> 'w Gateways" where "dm_gw g \<equiv> dp_gw (dn_dash g)"

text \<open>A call on the world, a step of the reconciler, of the dashboard, of the bridge.\<close>

definition dm_call :: "('w \<Rightarrow> 'r \<times> 'w) \<Rightarrow> 'w Daemon \<Rightarrow> 'r \<times> 'w Daemon" where
  "dm_call f d = (let (x, h) = da_call f (dm_dash d) in (x, d\<lparr>dm_dash := h\<rparr>))"

definition dm_reconciler :: "('w Reconciler \<Rightarrow> 'r \<times> 'w Reconciler) \<Rightarrow> 'w Daemon \<Rightarrow> 'r \<times> 'w Daemon" where
  "dm_reconciler f d = (let (x, r) = f (dm_rec d) in (x, d\<lparr>dm_dash := (dm_dash d)\<lparr>da_rec := r\<rparr>\<rparr>))"

definition dm_dashboard :: "('w Dashboard \<Rightarrow> 'r \<times> 'w Dashboard) \<Rightarrow> 'w Daemon \<Rightarrow> 'r \<times> 'w Daemon" where
  "dm_dashboard f d = (let (x, h) = f (dm_dash d) in (x, d\<lparr>dm_dash := h\<rparr>))"

definition dm_submit :: "Job \<Rightarrow> 'w Daemon \<Rightarrow> 'w Daemon" where
  "dm_submit j d = d\<lparr>dm_bridge := Submit j (dm_bridge d)\<rparr>"

definition dm_readonly :: "bool \<Rightarrow> 'w Daemon \<Rightarrow> 'w Daemon" where
  "dm_readonly ro d = snd (dm_reconciler (\<lambda>r. ((), SetReadOnly ro r)) d)"

definition dash_schedule :: "'w DaemonPorts \<Rightarrow> 'w Daemon \<Rightarrow> 'w Daemon" where
  "dash_schedule g d = d\<lparr>dm_dash := Dashboard_Schedule (dn_dash g) (dm_dash d)\<rparr>"

text \<open>The bridge works on the world of the moment.\<close>

definition with_world :: "'w \<Rightarrow> 'w Bridge \<Rightarrow> 'w Bridge" where
  "with_world w b = b\<lparr>br_in := (br_in b)\<lparr>in_out := (in_out (br_in b))\<lparr>ob_world := w\<rparr>\<rparr>\<rparr>"

definition bridge_step :: "('w Bridge \<Rightarrow> 'w Bridge) \<Rightarrow> 'w Daemon \<Rightarrow> 'w Daemon" where
  "bridge_step f d =
     (let b = f (with_world (dm_world d) (dm_bridge d))
      in (snd (dm_call (\<lambda>w. ((), in_world (br_in b))) d))\<lparr>dm_bridge := b\<rparr>)"

definition dm_capture :: "'w DaemonPorts \<Rightarrow> AgentEvent \<Rightarrow> 'w Daemon \<Rightarrow> 'w Daemon" where
  "dm_capture g ev d =
     bridge_step (\<lambda>b. let i = br_in b; o' = in_out i; (c, w) = Capture_Observe (dn_machine g) ev (ob_capture o') (ob_world o')
                      in b\<lparr>br_in := i\<lparr>in_out := o'\<lparr>ob_capture := c, ob_world := w\<rparr>\<rparr>\<rparr>) d"

section \<open>Notices\<close>

definition warning_sign :: string where "warning_sign = [CHR 0xE2, CHR 0x9A, CHR 0xA0, CHR 0xEF, CHR 0xB8, CHR 0x8F]"
definition check_mark :: string where "check_mark = [CHR 0xE2, CHR 0x9C, CHR 0x85]"
definition play_sign :: string where "play_sign = [CHR 0xE2, CHR 0x96, CHR 0xB6, CHR 0xEF, CHR 0xB8, CHR 0x8F]"
definition stop_sign :: string where "stop_sign = [CHR 0xE2, CHR 0x8F, CHR 0xB9]"

definition daemon_title :: "'w Daemon \<Rightarrow> string" where
  "daemon_title d = (if dm_version d = [] then notifyTitle else notifyTitle @ '' '' @ dm_version d)"

text \<open>Both fail in silence.\<close>

definition general :: "'w DaemonPorts \<Rightarrow> string \<Rightarrow> 'w Daemon \<Rightarrow> 'w Daemon" where
  "general g t d = snd (dm_call (dp_Send (dn_dash g) (text_message 0 t)) d)"

definition notify :: "'w DaemonPorts \<Rightarrow> string \<Rightarrow> 'w Daemon \<Rightarrow> 'w Daemon" where
  "notify g body d = snd (dm_call (dn_Notify g notifyTitle body) d)"

definition fatal_reason :: "'w DaemonPorts \<Rightarrow> 'w Daemon \<Rightarrow> error \<Rightarrow> string" where
  "fatal_reason g d e =
     (if e = ErrBotUnauthorized then ''Telegram rejected the bot token. Run the setup action.''
      else if e = ErrPollerConflict then ''another process is polling this bot. Stop it, then start Telegram Agents again.''
      else if e = ErrForbidden
      then ''the bot was removed from '' @ mc_Quote (dn_machine g) (cf_ChatTitle (dm_cfg d)) @ ''. Add it back as an administrator or run the setup action.''
      else ''stopped: '' @ mc_ErrorText (dn_machine g) e)"

definition daemon_fatal :: "'w DaemonPorts \<Rightarrow> error \<Rightarrow> 'w Daemon \<Rightarrow> error option \<times> 'w Daemon" where
  "daemon_fatal g e d = (Some e, notify g (fatal_reason g d e) d)"

definition handleErr :: "'w DaemonPorts \<Rightarrow> error option \<Rightarrow> 'w Daemon \<Rightarrow> error option \<times> 'w Daemon" where
  "handleErr g err d =
     (case err of
        None \<Rightarrow> (None, d)
      | Some (ErrChatMigrated new) \<Rightarrow>
          (let d1 = d\<lparr>dm_cfg := (dm_cfg d)\<lparr>cf_ChatID := new\<rparr>\<rparr>; (_, d2) = dm_call (dn_SaveConfig g (dm_cfg d1)) d1
           in (None, notify g ''the Telegram group id changed; restart Telegram Agents to continue'' d2))
      | Some e \<Rightarrow> if e = CtxCanceled \<or> e = CtxDeadlineExceeded then (None, d) else daemon_fatal g e d)"

definition handled :: "'w DaemonPorts \<Rightarrow> error option \<times> 'w Daemon \<Rightarrow> error option \<times> 'w Daemon" where
  "handled g x = handleErr g (fst x) (snd x)"

section \<open>Passes\<close>

definition dm_snapshot :: "'w DaemonPorts \<Rightarrow> 'w Daemon \<Rightarrow> AgentEvent list \<times> 'w Daemon" where
  "dm_snapshot g d =
     (let (listed, d1) = dm_call (dn_ListAgents g) d; (now, d2) = dm_call (dp_Now (dn_dash g)) d1;
          (evs, panes, reg) = Snapshot listed now (dm_registry d2); d3 = d2\<lparr>dm_registry := reg\<rparr>
      in (evs, case panes of None \<Rightarrow> d3 | Some ps \<Rightarrow> snd (dm_call (dn_WatchPanes g ps) d3)))"

fun handle_events :: "'w DaemonPorts \<Rightarrow> AgentEvent list \<Rightarrow> 'w Daemon \<Rightarrow> error option \<times> 'w Daemon" where
  "handle_events g [] d = (None, d)"
| "handle_events g (ev # evs) d = and_then (handled g (dm_reconciler (Handle (dm_gw g) ev) d)) (handle_events g evs)"

definition replay :: "'w DaemonPorts \<Rightarrow> bool \<Rightarrow> 'w Daemon \<Rightarrow> error option \<times> 'w Daemon" where
  "replay g force d =
     (let (evs, d1) = dm_snapshot g d
      in and_then (handle_events g evs d1) (\<lambda>d2.
           and_then (handled g (dm_reconciler (Flush (dm_gw g)) d2)) (\<lambda>d3.
             let live = Registry_Live (dm_registry d3)
             in handled g (dm_reconciler (if force then Resync (dm_gw g) live else Reconcile (dm_gw g) live) d3))))"

definition sweepInbox :: "'w DaemonPorts \<Rightarrow> 'w Daemon \<Rightarrow> 'w Daemon" where
  "sweepInbox g d =
     (case dn_InboxSweep g of
        None \<Rightarrow> d
      | Some sweep \<Rightarrow>
          let maxAge = InboxDeleteAfter (dm_options g d)
          in if maxAge \<le> 0 then d else snd (dm_call (sweep maxAge) d))"

definition runSweep :: "'w DaemonPorts \<Rightarrow> 'w Daemon \<Rightarrow> error option \<times> 'w Daemon" where
  "runSweep g d =
     (let maxAge = DeleteAfter (dm_options g d);
          ((_, err), d1) = dm_reconciler (Sweep (dm_gw g) maxAge (dm_rights d)) d
      in and_then (handleErr g err d1) (\<lambda>d2. (None, sweepInbox g d2)))"

text \<open>The operators whose private chat takes messages; an unauthorized bot or a second poller ends the probe.\<close>

fun probe_operators :: "'w DaemonPorts \<Rightarrow> int list \<Rightarrow> 'w Daemon \<Rightarrow> int list result \<times> 'w Daemon" where
  "probe_operators g [] d = (Inr [], d)"
| "probe_operators g (op # ops) d =
     (case dm_call (dn_ProbeDirect g op) d of
        (None, d1) \<Rightarrow>
          (case probe_operators g ops d1 of (Inr xs, d2) \<Rightarrow> (Inr (op # xs), d2) | (Inl e, d2) \<Rightarrow> (Inl e, d2))
      | (Some e, d1) \<Rightarrow>
          if e = ErrBotUnauthorized \<or> e = ErrPollerConflict then (Inl e, d1) else probe_operators g ops d1)"

definition pagerNotice :: string where
  "pagerNotice = warning_sign @ '' questions will ring in the topics: the bot cannot write to your private chat (open the bot and press Start)''"

definition probePager :: "'w DaemonPorts \<Rightarrow> 'w Daemon \<Rightarrow> error option \<times> 'w Daemon" where
  "probePager g d =
     (if \<not> PagerEnabled (dm_options g d) then (None, d)
      else case probe_operators g (cf_OperatorIDs (dm_cfg d)) d of
             (Inl e, d1) \<Rightarrow> daemon_fatal g e d1
           | (Inr reachable, d1) \<Rightarrow>
               (let ok = reachable \<noteq> []; d2 = d1\<lparr>dm_bridge := Bridge_SetPagerReachable ok (dm_bridge d1)\<rparr>
                in if ok then (None, d2\<lparr>dm_pagerNoticed := False\<rparr>)
                   else if dm_pagerNoticed d2 then (None, d2)
                   else (None, general g pagerNotice (d2\<lparr>dm_pagerNoticed := True\<rparr>))))"

definition rights_text :: "string \<Rightarrow> string" where
  "rights_text rest = ''the bot lost the \"Manage topics\" right'' @ rest @ ''; topics are not updated until it is granted again''"

definition checkRights :: "'w DaemonPorts \<Rightarrow> 'w Daemon \<Rightarrow> error option \<times> 'w Daemon" where
  "checkRights g d =
     (case dm_call (dn_Rights g) d of
        (Inl e, d1) \<Rightarrow> if isFatal e then daemon_fatal g e d1 else (None, d1)
      | (Inr rights, d1) \<Rightarrow>
          (let d2 = d1\<lparr>dm_rights := rights\<rparr>; title = mc_Quote (dn_machine g) (cf_ChatTitle (dm_cfg d))
           in if \<not> IsForum rights
              then (None, notify g (title @ '' is not a forum group: enable Topics in the group settings'') (dm_readonly True d2))
              else if \<not> CanManageTopics rights
              then (None, notify g (''the bot cannot manage topics in '' @ title @ '': grant it the \"Manage topics\" right'') (dm_readonly True d2))
              else (None, d2)))"

section \<open>Requests\<close>

text \<open>Sending on a channel of one place that may be full.\<close>

definition dm_Resync :: "'w Daemon \<Rightarrow> 'w Daemon" where "dm_Resync d = d\<lparr>dm_resync := True\<rparr>"
definition SweepNow :: "'w Daemon \<Rightarrow> 'w Daemon" where "SweepNow d = d\<lparr>dm_sweep := True\<rparr>"
definition ProbePager :: "'w Daemon \<Rightarrow> 'w Daemon" where "ProbePager d = d\<lparr>dm_probe := True\<rparr>"

definition applyNoticeDelay :: "'w DaemonPorts \<Rightarrow> Options \<Rightarrow> 'w Daemon \<Rightarrow> 'w Daemon" where
  "applyNoticeDelay g cur d =
     (let (delay, del) = NoticeDelay cur in snd (dm_call (\<lambda>w. ((), dn_SetNoticeDelay g delay del w)) d))"

text \<open>
  The hooks \<open>NewDaemon\<close> puts on the options, in the order of their registration: the prefix of the keys and the number
  \<open>App_Options\<close> knows the hook by.
\<close>

definition daemon_hooks :: "(string \<times> nat) list" where
  "daemon_hooks =
     [(OptionSyncEnabled, 0), (OptionSyncDashboard, 1), (OptionPostsPager, 2), (''icons.'', 3), (OptionNoticeDelay, 4),
      (OptionDeleteAfterDays, 5), (OptionInboxDeleteAfterDays, 6), (''quiet.'', 7)]"

definition run_hook :: "'w DaemonPorts \<Rightarrow> hook_call \<Rightarrow> 'w Daemon \<Rightarrow> 'w Daemon" where
  "run_hook g call d =
     (case call of (n, key, cur) \<Rightarrow>
        if n = 0 then (let d1 = dash_schedule g d in if SyncEnabled cur then dm_Resync d1 else d1)
        else if n = 1 then dash_schedule g d
        else if n = 2 then (if PagerEnabled cur then ProbePager d else d)
        else if n = 3
        then (let d1 = dash_schedule g (snd (dm_call (\<lambda>w. ((), dn_SetStatusIcons g (StatusIcons_of cur) w)) d))
              in if SyncEnabled cur then dm_Resync d1 else d1)
        else if n = 4 then applyNoticeDelay g cur d
        else if n = 5 then (if DeleteAfter cur \<le> 0 then d else SweepNow d)
        else if n = 6 then (if InboxDeleteAfter cur \<le> 0 then d else SweepNow d)
        else dash_schedule g (d\<lparr>dm_presence := Recompute cur (dm_presence d)\<rparr>))"

definition run_hooks :: "'w DaemonPorts \<Rightarrow> hook_call list \<Rightarrow> 'w Daemon \<Rightarrow> 'w Daemon" where
  "run_hooks g calls d = fold (run_hook g) calls d"

section \<open>Updates from Telegram\<close>

definition rights_regained :: string where
  "rights_regained = check_mark @ '' \"Manage topics\" right regained, topics are updated again''"

definition onTelegramEvent :: "'w DaemonPorts \<Rightarrow> TgEvent \<Rightarrow> 'w Daemon \<Rightarrow> error option \<times> 'w Daemon" where
  "onTelegramEvent g raw d =
     (case raw of
        EvRights ok \<Rightarrow>
          (let d1 = d\<lparr>dm_rights := (dm_rights d)\<lparr>CanManageTopics := ok\<rparr>\<rparr>
           in if \<not> ok
              then (None, general g (warning_sign @ '' '' @ rights_text [])
                           (notify g (rights_text ('' in '' @ mc_Quote (dn_machine g) (cf_ChatTitle (dm_cfg d1)))) (dm_readonly True d1)))
              else if rc_rightsLost (dm_rec d1) then replay g False (general g rights_regained (dm_readonly False d1))
              else (None, d1))
      | EvMessage m \<Rightarrow> (None, dm_submit (JobMessage m) d)
      | EvAttachment m \<Rightarrow> (None, dm_submit (JobAttachment m) d)
      | EvButton m \<Rightarrow> (None, dm_submit (JobButton m) d)
      | EvGeneral m \<Rightarrow> (None, dm_submit (JobGeneral m) d)
      | EvStranger m \<Rightarrow> (None, dm_submit (JobStranger m) d)
      | EvClosed thread \<Rightarrow> handled g (dm_reconciler (OnTopicClosed (dm_gw g) thread) d)
      | EvReopened thread \<Rightarrow> handled g (dm_reconciler (OnTopicReopened (dm_gw g) thread) d)
      | EvRenamed thread name \<Rightarrow>
          (let (snapshot, d1) = dm_reconciler (OnTopicRenamed (dm_gw g) thread name) d
           in (None, if snapshot then d1\<lparr>dm_registry := RequestSnapshot (dm_registry d1)\<rparr> else d1)))"

section \<open>Health and stats\<close>

definition failing_since :: "time \<Rightarrow> 'w Daemon \<Rightarrow> time" where
  "failing_since start d =
     (let ok = hl_LastOK (Registry_Health (dm_registry d)) in if IsZero ok \<or> ok < start then start else ok)"

definition socketGone :: "'w DaemonPorts \<Rightarrow> time \<Rightarrow> 'w Daemon \<Rightarrow> bool \<times> 'w Daemon" where
  "socketGone g start d =
     (if hl_LastErr (Registry_Health (dm_registry d)) = None then (False, d)
      else let since = failing_since start d; (now, d1) = dm_call (dp_Now (dn_dash g)) d
           in if time_Sub now since \<ge> socketGrace then (True, d1)
              else (False, d1\<lparr>dm_registry := RequestSnapshot (dm_registry d1)\<rparr>))"

definition reportDrops :: "time \<Rightarrow> 'w Daemon \<Rightarrow> 'w Daemon" where
  "reportDrops now d =
     (let n = br_dropped (dm_bridge d)
      in if n \<le> dm_lastDropped d then d
         else if \<not> IsZero (dm_lastDropReport d) \<and> time_Sub now (dm_lastDropReport d) < dropReportInterval then d
         else d\<lparr>dm_lastDropped := n, dm_lastDropReport := now\<rparr>)"

record Stats =
  sx_Version :: string
  sx_PID :: int
  sx_Since :: time
  sx_Agents :: nat
  sx_Dropped :: nat
  sx_HerdrOK :: bool
  sx_HerdrFailingSince :: time
  sx_SyncOff :: bool
  sx_DeleteAfterDays :: int
  sx_Quiet :: string
  sx_Pager :: string

definition pagerWord :: "'w DaemonPorts \<Rightarrow> 'w Daemon \<Rightarrow> string" where
  "pagerWord g d =
     (if \<not> PagerEnabled (dm_options g d) then ''off''
      else if \<not> ob_pagerReachable (in_out (br_in (dm_bridge d))) then ''unreachable''
      else ''on'')"

definition Daemon_Stats :: "'w DaemonPorts \<Rightarrow> 'w Daemon \<Rightarrow> Stats" where
  "Daemon_Stats g d =
     (let ok = (hl_LastErr (Registry_Health (dm_registry d)) = None)
      in \<lparr>sx_Version = dm_version d, sx_PID = 0, sx_Since = dm_started d, sx_Agents = length (Registry_Live (dm_registry d)),
          sx_Dropped = br_dropped (dm_bridge d), sx_HerdrOK = ok,
          sx_HerdrFailingSince = (if ok then 0 else failing_since (dm_started d) d), sx_SyncOff = (\<not> SyncEnabled (dm_options g d)),
          sx_DeleteAfterDays = DeleteAfter (dm_options g d) div (24 * Hour),
          sx_Quiet = Word (Presence_state (dm_options g d) (dm_presence d)), sx_Pager = pagerWord g d\<rparr>)"

section \<open>The loop\<close>

definition grace_text :: string where "grace_text = ''1m0s''"

definition shutdown :: "'w DaemonPorts \<Rightarrow> 'w Daemon \<Rightarrow> 'w Daemon" where
  "shutdown g d =
     (let d1 = general g (stop_sign @ '' '' @ daemon_title d @ '' stopping'') d;
          (_, d2) = dm_dashboard (\<lambda>h. ((), Dashboard_Stop (dn_dash g) h)) d1
      in snd (dm_reconciler (Flush (dm_gw g)) d2))"

text \<open>The channel that was ready; \<open>Stopped\<close> carries the cause of the cancellation, \<open>None\<close> a plain one.\<close>

datatype DaemonInput =
    PresenceDue | QuietChanged | Stopped "error option" | AgentSeen AgentEvent | BridgeFatal | DashboardDue | DashboardTick
  | ProbeAsked | EditDue Key | Update TgEvent | UpdatesClosed | ResyncAsked | SweepAsked | SweepDue | HealthDue

text \<open>A value can be received.\<close>

definition input_ready :: "'w Daemon \<Rightarrow> DaemonInput \<Rightarrow> bool" where
  "input_ready d input =
     (case input of
        QuietChanged \<Rightarrow> pr_changes (dm_presence d) \<noteq> None
      | BridgeFatal \<Rightarrow> br_fatal (dm_bridge d) \<noteq> None
      | ProbeAsked \<Rightarrow> dm_probe d
      | ResyncAsked \<Rightarrow> dm_resync d
      | SweepAsked \<Rightarrow> dm_sweep d
      | _ \<Rightarrow> True)"

text \<open>What \<open>Run\<close> does after a turn: \<open>None\<close> goes on, \<open>Some\<close> is the error it returns.\<close>

definition unless_error :: "error option \<times> 'w Daemon \<Rightarrow> error option option \<times> 'w Daemon" where
  "unless_error x = (case x of (Some e, d) \<Rightarrow> (Some (Some e), d) | (None, d) \<Rightarrow> (None, d))"

definition dm_poll :: "'w DaemonPorts \<Rightarrow> 'w Daemon \<Rightarrow> 'w Daemon" where
  "dm_poll g d =
     (let (now, d1) = dm_call (dp_Now (dn_dash g)) d; (idle, d2) = dm_call (dn_Idle g) d1
      in d2\<lparr>dm_presence := Poll (dm_options g d2) now idle (dm_presence d2)\<rparr>)"

definition agent_seen :: "'w DaemonPorts \<Rightarrow> AgentEvent \<Rightarrow> 'w Daemon \<Rightarrow> error option \<times> 'w Daemon" where
  "agent_seen g ev d =
     and_then (handled g (dm_reconciler (Handle (dm_gw g) ev) d))
       (\<lambda>d1. (None, dm_submit (JobEvent ev) (snd (dm_dashboard (\<lambda>h. ((), Dashboard_Observe (dn_dash g) ev h)) (dm_capture g ev d1)))))"

definition quiet_changed :: "'w DaemonPorts \<Rightarrow> bool \<Rightarrow> 'w Daemon \<Rightarrow> error option \<times> 'w Daemon" where
  "quiet_changed g quiet d =
     (let d1 = dash_schedule g (d\<lparr>dm_presence := (dm_presence d)\<lparr>pr_changes := None\<rparr>\<rparr>)
      in if quiet then (None, d1) else and_then (replay g False d1) (\<lambda>d2. (None, dm_submit JobAway d2)))"

definition health_due :: "'w DaemonPorts \<Rightarrow> time \<Rightarrow> 'w Daemon \<Rightarrow> error option option \<times> 'w Daemon" where
  "health_due g start d =
     (let (now, d1) = dm_call (dp_Now (dn_dash g)) d; (gone, d2) = socketGone g start (reportDrops now d1)
      in if gone
         then (Some None, shutdown g (general g (stop_sign @ '' '' @ daemon_title d2 @ '': Herdr socket unreachable for '' @ grace_text @ '', exiting'') d2))
         else (None, d2))"

definition daemon_turn :: "'w DaemonPorts \<Rightarrow> time \<Rightarrow> DaemonInput \<Rightarrow> 'w Daemon \<Rightarrow> error option option \<times> 'w Daemon" where
  "daemon_turn g start input d =
     (if \<not> input_ready d input then (None, d)
      else case input of
        PresenceDue \<Rightarrow> (None, dm_poll g d)
      | QuietChanged \<Rightarrow> unless_error (quiet_changed g (the (pr_changes (dm_presence d))) d)
      | Stopped cause \<Rightarrow> (Some (if cause = Some CtxCanceled then None else cause), shutdown g d)
      | AgentSeen ev \<Rightarrow> unless_error (agent_seen g ev d)
      | BridgeFatal \<Rightarrow>
          (let e = the (br_fatal (dm_bridge d)); (err, d1) = daemon_fatal g e (shutdown g (d\<lparr>dm_bridge := (dm_bridge d)\<lparr>br_fatal := None\<rparr>\<rparr>))
           in (Some err, d1))
      | DashboardDue \<Rightarrow> unless_error (handled g (dm_dashboard (refresh (dn_dash g)) d))
      | DashboardTick \<Rightarrow> unless_error (handled g (dm_dashboard (refresh (dn_dash g)) d))
      | ProbeAsked \<Rightarrow> unless_error (probePager g (d\<lparr>dm_probe := False\<rparr>))
      | EditDue key \<Rightarrow> unless_error (handled g (dm_reconciler (Fire (dm_gw g) key) d))
      | Update raw \<Rightarrow> unless_error (onTelegramEvent g raw d)
      | UpdatesClosed \<Rightarrow> (None, d)
      | ResyncAsked \<Rightarrow> unless_error (replay g True (d\<lparr>dm_resync := False\<rparr>))
      | SweepAsked \<Rightarrow> unless_error (runSweep g (d\<lparr>dm_sweep := False\<rparr>))
      | SweepDue \<Rightarrow> unless_error (runSweep g d)
      | HealthDue \<Rightarrow> health_due g start d)"

section \<open>The start\<close>

definition start_poll :: "'w DaemonPorts \<Rightarrow> 'w Daemon \<Rightarrow> 'w Daemon" where
  "start_poll g d = (let d1 = dm_poll g d in d1\<lparr>dm_presence := (dm_presence d1)\<lparr>pr_changes := None\<rparr>\<rparr>)"

definition started_text :: "'w DaemonPorts \<Rightarrow> 'w Daemon \<Rightarrow> string" where
  "started_text g d =
     play_sign @ '' '' @ daemon_title d @ '' started: '' @ plural (length (Registry_Live (dm_registry d))) ''agent''
     @ (if SyncEnabled (dm_options g d) then [] else '' (sync off, see /options)'')"

definition observe_initial :: "'w DaemonPorts \<Rightarrow> AgentEvent \<Rightarrow> 'w Daemon \<Rightarrow> 'w Daemon" where
  "observe_initial g ev d =
     dm_submit (JobEvent ev) (snd (dm_dashboard (\<lambda>h. ((), Dashboard_Observe (dn_dash g) ev h)) (dm_capture g ev d)))"

text \<open>\<open>Run\<close> up to its loop, with the instant it began at.\<close>

definition daemon_start :: "'w DaemonPorts \<Rightarrow> 'w Daemon \<Rightarrow> error option \<times> 'w Daemon" where
  "daemon_start g d0 =
     (let (start, d1) = dm_call (dp_Now (dn_dash g)) d0;
          d2 = start_poll g (d1\<lparr>dm_started := start\<rparr>);
          d3 = snd (dm_call (\<lambda>w. ((), dn_SetStatusIcons g (StatusIcons_of (dm_options g d2)) w)) d2);
          d4 = applyNoticeDelay g (dm_options g d3) d3
      in and_then (checkRights g d4) (\<lambda>d5.
           and_then (probePager g d5) (\<lambda>d6.
             let (initial, d7) = dm_snapshot g d6
             in and_then (handled g (dm_reconciler (Reconcile (dm_gw g) (Registry_Live (dm_registry d7))) d7)) (\<lambda>d8.
                  let d9 = snd (dm_dashboard (\<lambda>h. ((), Repin (dn_dash g) h)) d8);
                      d10 = fold (observe_initial g) initial (dash_schedule g d9)
                  in runSweep g (general g (started_text g d10) d10)))))"

end
