(* ===== verification/Forum.thy ===== *)
theory Forum
  imports Reconciler
begin

text \<open>
  The reconciler against the forum it writes to. The locale \<open>forum\<close> states what the reconciler relies on
  of Telegram: which topics exist in a world, thread ids that are never handed out twice, what an accepted
  call does and that a refused one does nothing. Under these laws the mapping mirrors the forum in every
  reachable state, whatever calls fail.
\<close>

section \<open>The contract of the forum\<close>

definition patched :: "(Status \<Rightarrow> string) \<Rightarrow> TopicPatch \<Rightarrow> Topic \<Rightarrow> Topic" where
  "patched icon p t =
     (let t1 = (case pt_Name p of Some n \<Rightarrow> t\<lparr>tp_Name := n\<rparr> | None \<Rightarrow> t)
      in case pt_Status p of Some s \<Rightarrow> t1\<lparr>tp_IconEmojiID := icon s\<rparr> | None \<Rightarrow> t1)"

locale forum =
  fixes g :: "'w Gateways"
    and topic :: "'w \<Rightarrow> int \<Rightarrow> Topic option"
    and used :: "'w \<Rightarrow> int set"
    and icon :: "Status \<Rightarrow> string"
  assumes create_ok: "gw_CreateTopic g name status w = (Inr t, w') \<Longrightarrow>
      tp_ThreadID t \<notin> used w \<and> used w' = insert (tp_ThreadID t) (used w)
      \<and> topic w' = (topic w)(tp_ThreadID t \<mapsto> t)
      \<and> tp_Name t = name \<and> tp_IconEmojiID t = icon status \<and> \<not> tp_Closed t"
    and create_err: "gw_CreateTopic g name status w = (Inl e, w') \<Longrightarrow> topic w' = topic w \<and> used w' = used w"
    and edit_ok: "gw_EditTopic g th p w = (None, w') \<Longrightarrow> \<not> TopicPatch_Empty p \<Longrightarrow>
      used w' = used w \<and> (\<exists>t. topic w th = Some t \<and> topic w' = (topic w)(th \<mapsto> patched icon p t))"
    and edit_err: "gw_EditTopic g th p w = (Some e, w') \<Longrightarrow> topic w' = topic w \<and> used w' = used w"
    and close_ok: "gw_CloseTopic g th w = (None, w') \<Longrightarrow>
      used w' = used w \<and> (\<exists>t. topic w th = Some t \<and> topic w' = (topic w)(th \<mapsto> t\<lparr>tp_Closed := True\<rparr>))"
    and close_err: "gw_CloseTopic g th w = (Some e, w') \<Longrightarrow> topic w' = topic w \<and> used w' = used w"
    and reopen_ok: "gw_ReopenTopic g th w = (None, w') \<Longrightarrow>
      used w' = used w \<and> (\<exists>t. topic w th = Some t \<and> topic w' = (topic w)(th \<mapsto> t\<lparr>tp_Closed := False\<rparr>))"
    and reopen_err: "gw_ReopenTopic g th w = (Some e, w') \<Longrightarrow> topic w' = topic w \<and> used w' = used w"
    and delete_ok: "gw_DeleteTopic g th w = (None, w') \<Longrightarrow> used w' = used w \<and> topic w' = (topic w)(th := None)"
    and delete_err: "gw_DeleteTopic g th w = (Some e, w') \<Longrightarrow> topic w' = topic w \<and> used w' = used w"
    and others: "topic (snd (gw_Save g m w)) = topic w" "used (snd (gw_Save g m w)) = used w"
      "topic (snd (gw_Now g w)) = topic w" "used (snd (gw_Now g w)) = used w"
      "topic (snd (gw_Send g msg w)) = topic w" "used (snd (gw_Send g msg w)) = used w"
      "topic (snd (gw_Rename g pane nm w)) = topic w" "used (snd (gw_Rename g pane nm w)) = used w"
      "topic (snd (gw_RenameTab g tab lab w)) = topic w" "used (snd (gw_RenameTab g tab lab w)) = used w"

section \<open>What the mapping says of the forum\<close>

definition agrees :: "(Status \<Rightarrow> string) \<Rightarrow> (int \<Rightarrow> Topic option) \<Rightarrow> TopicEntry \<Rightarrow> bool" where
  "agrees icon T e \<longleftrightarrow>
     (case T (te_ThreadID e) of
        None \<Rightarrow> True
      | Some t \<Rightarrow> tp_Name t = te_Name e
          \<and> (Live (te_Status e) \<longrightarrow> tp_IconEmojiID t = icon (te_Status e))
          \<and> (\<not> te_Muted e \<longrightarrow> tp_Closed t = te_Closed e))"

definition entry_ok :: "(Status \<Rightarrow> string) \<Rightarrow> (int \<Rightarrow> Topic option) \<Rightarrow> TopicEntry \<Rightarrow> bool" where
  "entry_ok icon T e \<longleftrightarrow> (Live (te_Status e) \<longrightarrow> \<not> te_Closed e)
     \<and> (\<not> Live (te_Status e) \<and> te_Muted e \<longrightarrow> te_Closed e) \<and> agrees icon T e"

text \<open>
  The invariant: distinct keys that parse, one entry per thread, known threads, no live entry recorded as closed and no
  muted finished one as open, and every entry whose topic still exists agrees with it. A muted entry says nothing of the closed state, which
  is the operator's.
\<close>

definition mirrors :: "(Status \<Rightarrow> string) \<Rightarrow> (int \<Rightarrow> Topic option) \<Rightarrow> int set \<Rightarrow> Mapping \<Rightarrow> bool" where
  "mirrors icon T U m \<longleftrightarrow> mapping_ok m
     \<and> (\<forall>s e. gm_get (mp_Topics m) s = Some e \<longrightarrow> te_ThreadID e \<in> U \<and> entry_ok icon T e \<and> ParseKey s \<noteq> None)
     \<and> (\<forall>s s' e e'. gm_get (mp_Topics m) s = Some e \<longrightarrow> gm_get (mp_Topics m) s' = Some e'
          \<longrightarrow> te_ThreadID e = te_ThreadID e' \<longrightarrow> s = s')"

lemma mirrorsD:
  assumes "mirrors icon T U m"
  shows "mapping_ok m"
    and "TopicFor m k = Some e \<Longrightarrow> te_ThreadID e \<in> U \<and> entry_ok icon T e"
    and "TopicFor m k = Some e \<Longrightarrow> TopicFor m l = Some e' \<Longrightarrow> te_ThreadID e = te_ThreadID e'
      \<Longrightarrow> Key_String k = Key_String l"
  using assms unfolding mirrors_def TopicFor_def by blast+

lemma adjust_entry_None: "TopicFor m k = None \<Longrightarrow> adjust_entry m k f = m"
  by (simp add: TopicFor_def adjust_entry_def gm_adjust_def)

lemma gm_put_put: "gm_put k v (gm_put k w m) = gm_put k v m"
  by (induction m) auto

lemma adjust_adjust: "adjust_entry (adjust_entry m k f) k h = adjust_entry m k (\<lambda>e. h (f e))"
  by (auto simp: adjust_entry_def gm_adjust_def gm_put_put gm.get_put split: option.split)

lemma gm_get_adjust_entry:
  "gm_get (mp_Topics (adjust_entry m k f)) s =
     (if s = Key_String k then map_option f (TopicFor m k) else gm_get (mp_Topics m) s)"
  by (simp add: adjust_entry_def gm_get_adjust TopicFor_def)

text \<open>One entry and its topic change together; the others have other threads.\<close>

lemma mirrors_update:
  assumes m: "mirrors icon T U m" and e: "TopicFor m k = Some e"
    and off: "\<And>th. th \<noteq> te_ThreadID e \<Longrightarrow> T' th = T th"
    and th: "te_ThreadID (f e) = te_ThreadID e" and new: "entry_ok icon T' (f e)"
  shows "mirrors icon T' U (adjust_entry m k f)"
proof -
  have e': "gm_get (mp_Topics m) (Key_String k) = Some e" using e by (simp add: TopicFor_def)
  have other: "te_ThreadID d \<noteq> te_ThreadID e" if "gm_get (mp_Topics m) s = Some d" "s \<noteq> Key_String k" for s d
    using m e' that unfolding mirrors_def by blast
  have ok: "entry_ok icon T' d" if "gm_get (mp_Topics m) s = Some d" "s \<noteq> Key_String k" for s d
  proof -
    have "entry_ok icon T d" using m that(1) unfolding mirrors_def by blast
    then show ?thesis using off [OF other [OF that]] by (simp add: entry_ok_def agrees_def)
  qed
  have known: "te_ThreadID d \<in> U" if "gm_get (mp_Topics m) s = Some d" for s d
    using m that unfolding mirrors_def by blast
  show ?thesis
    unfolding mirrors_def
  proof (intro conjI allI impI)
    show "mapping_ok (adjust_entry m k f)" using m by (simp add: mirrors_def inv_intros)
    fix s d assume d: "gm_get (mp_Topics (adjust_entry m k f)) s = Some d"
    then show "te_ThreadID d \<in> U" "entry_ok icon T' d"
      using e new th ok known [OF e'] known by (auto simp: gm_get_adjust_entry split: if_splits)
    obtain d' where "gm_get (mp_Topics m) s = Some d'"
      using d e' e by (auto simp: gm_get_adjust_entry split: if_splits)
    then show "ParseKey s \<noteq> None" using m unfolding mirrors_def by blast
  next
    fix s s' d d'
    assume "gm_get (mp_Topics (adjust_entry m k f)) s = Some d"
      "gm_get (mp_Topics (adjust_entry m k f)) s' = Some d'" "te_ThreadID d = te_ThreadID d'"
    then show "s = s'"
      using e th other m unfolding mirrors_def
      by (auto simp: gm_get_adjust_entry split: if_splits dest: other)
  qed
qed

text \<open>A change of the mapping alone.\<close>

lemma mirrors_adjust:
  assumes "mirrors icon T U m"
    and "\<And>e. TopicFor m k = Some e \<Longrightarrow> te_ThreadID (f e) = te_ThreadID e \<and> entry_ok icon T (f e)"
  shows "mirrors icon T U (adjust_entry m k f)"
  using assms mirrors_update [OF assms(1)] by (cases "TopicFor m k") (auto simp: adjust_entry_None)

lemma gm_get_Forget: "gm_get (mp_Topics (Forget m k)) s = (if s = Key_String k then None else gm_get (mp_Topics m) s)"
  by (simp add: Forget_def)

lemma mirrors_Forget:
  assumes m: "mirrors icon T U m"
    and off: "\<And>th e. TopicFor m k = Some e \<Longrightarrow> th \<noteq> te_ThreadID e \<Longrightarrow> T' th = T th"
    and none: "TopicFor m k = None \<Longrightarrow> T' = T"
  shows "mirrors icon T' U (Forget m k)"
proof -
  have ok: "entry_ok icon T' d" if d: "gm_get (mp_Topics m) s = Some d" "s \<noteq> Key_String k" for s d
  proof -
    have old: "entry_ok icon T d" using m d(1) unfolding mirrors_def by blast
    have "T' (te_ThreadID d) = T (te_ThreadID d)"
    proof (cases "TopicFor m k")
      case (Some e)
      then have "te_ThreadID d \<noteq> te_ThreadID e"
        using m d unfolding mirrors_def TopicFor_def by blast
      then show ?thesis using off [OF Some] by simp
    qed (simp add: none)
    with old show ?thesis by (simp add: entry_ok_def agrees_def)
  qed
  show ?thesis
    using m ok unfolding mirrors_def gm_get_Forget by (simp add: inv_intros)
qed

lemma mirrors_Forget_same: "mirrors icon T U m \<Longrightarrow> mirrors icon T U (Forget m k)"
  by (rule mirrors_Forget) simp_all

lemma mirrors_Link:
  assumes m: "mirrors icon T U m" and k: "key_ok k" and fresh: "tp_ThreadID t \<notin> U"
    and t: "tp_Name t = fst (Desired a)" "tp_IconEmojiID t = icon (snd (Desired a))" "\<not> tp_Closed t"
  shows "mirrors icon (T(tp_ThreadID t \<mapsto> t)) (insert (tp_ThreadID t) U) (Link m k t a now)"
proof -
  let ?e = "\<lparr>te_ThreadID = tp_ThreadID t, te_Name = fst (Desired a), te_Status = snd (Desired a),
    te_Closed = False, te_Muted = False, te_UpdatedAt = now\<rparr>"
  have get: "gm_get (mp_Topics (Link m k t a now)) = (gm_get (mp_Topics m))(Key_String k \<mapsto> ?e)"
    using t by (auto simp: Link_def Desired_def gm.get_put)
  have old: "te_ThreadID d \<in> U" "entry_ok icon T d" if "gm_get (mp_Topics m) s = Some d" for s d
    using m that unfolding mirrors_def by blast+
  have "te_ThreadID d \<noteq> tp_ThreadID t" if "gm_get (mp_Topics m) s = Some d" for s d
    using old(1) [OF that] fresh by auto
  moreover from this have "entry_ok icon (T(tp_ThreadID t \<mapsto> t)) d" if "gm_get (mp_Topics m) s = Some d" for s d
    using old(2) [OF that] that by (auto simp: entry_ok_def agrees_def)
  moreover have "entry_ok icon (T(tp_ThreadID t \<mapsto> t)) ?e" using t by (simp add: entry_ok_def agrees_def)
  moreover have "ParseKey s \<noteq> None" if "gm_get (mp_Topics m) s = Some d \<or> s = Key_String k" for s d
    using m ParseKey_String [OF k] that unfolding mirrors_def by auto
  ultimately show ?thesis
    using m old(1) unfolding mirrors_def get by (auto simp: inv_intros split: if_splits) metis
qed

lemma mirrors_filter:
  assumes "mirrors icon T U m" "gm_ok ts"
    and "\<And>s e. gm_get ts s = Some e \<Longrightarrow> gm_get (mp_Topics m) s = Some e"
  shows "mirrors icon T U (m\<lparr>mp_Topics := ts\<rparr>)"
  using assms unfolding mirrors_def mapping_ok_def by simp blast

section \<open>Every operation keeps the mirror\<close>

text \<open>The agents of the registry: a status from Herdr is never the exited one, and the ids make a key.\<close>

definition agent_ok :: "Agent \<Rightarrow> bool" where
  "agent_ok a \<longleftrightarrow> Live (ag_Status a) \<and> key_ok (ag_Key a)"

definition agents_ok :: "(Key, Agent) go_map \<Rightarrow> bool" where
  "agents_ok as \<longleftrightarrow> (\<forall>k a. gm_get as k = Some a \<longrightarrow> agent_ok a)"

definition in_step :: "('w \<Rightarrow> int \<Rightarrow> Topic option) \<Rightarrow> ('w \<Rightarrow> int set) \<Rightarrow> (Status \<Rightarrow> string) \<Rightarrow> 'w Reconciler \<Rightarrow> bool" where
  "in_step topic used icon r \<longleftrightarrow>
     mirrors icon (topic (rc_world r)) (used (rc_world r)) (rc_mapping r) \<and> agents_ok (rc_agents r)"

lemma each_invariant:
  assumes "P s" and "\<And>x s. x \<in> set xs \<Longrightarrow> P s \<Longrightarrow> P (snd (f x s))"
  shows "P (snd (each f xs s))"
  using assms
proof (induction f xs s rule: each.induct)
  case (2 f x xs s)
  obtain e s' where s': "f x s = (e, s')" by fastforce
  then have "P s'" using "2.prems"(2) [of x s] "2.prems"(1) by simp
  with 2 s' show ?case by (cases e) simp_all
qed simp

lemma mirrors_Dedupe: "mirrors icon T U m \<Longrightarrow> mirrors icon T U (fst (DedupeThreads m))"
proof -
  assume m: "mirrors icon T U m"
  let ?ts = "mp_Topics (fst (DedupeThreads m))"
  have "fst (DedupeThreads m) = m\<lparr>mp_Topics := ?ts\<rparr>" by (simp add: DedupeThreads_def Let_def)
  moreover have "mirrors icon T U (m\<lparr>mp_Topics := ?ts\<rparr>)"
  proof (rule mirrors_filter [OF m])
    show "gm_ok ?ts" using mapping_ok_DedupeThreads mirrorsD(1) [OF m] by (simp add: mapping_ok_def)
    show "gm_get ?ts s = Some e \<Longrightarrow> gm_get (mp_Topics m) s = Some e" for s e
      using DedupeThreads_get [OF mirrorsD(1) [OF m]] by (auto split: option.splits if_splits)
  qed
  ultimately show ?thesis by simp
qed

lemma prune_loop_sub: "gm_get (fst (prune_loop n ts xs r)) s = Some e \<Longrightarrow> gm_get ts s = Some e"
  by (induction n ts xs r rule: prune_loop.induct) (auto split: if_splits)

lemma mirrors_Prune: "mirrors icon T U m \<Longrightarrow> mirrors icon T U (fst (Prune m n))"
proof -
  assume m: "mirrors icon T U m"
  have "mirrors icon T U (m\<lparr>mp_Topics := mp_Topics (fst (Prune m n))\<rparr>)"
  proof (rule mirrors_filter [OF m])
    show "gm_ok (mp_Topics (fst (Prune m n)))"
      using mapping_ok_Prune mirrorsD(1) [OF m] by (simp add: mapping_ok_def)
    show "gm_get (mp_Topics (fst (Prune m n))) s = Some e \<Longrightarrow> gm_get (mp_Topics m) s = Some e" for s e
      using prune_loop_sub [of "nat n" "mp_Topics m" "exited_by_age (mp_Topics m)" 0 s e]
      by (simp add: Prune_def Let_def split_beta split: if_splits)
  qed
  moreover have "fst (Prune m n) = m\<lparr>mp_Topics := mp_Topics (fst (Prune m n))\<rparr>"
    by (simp add: Prune_def Let_def split: prod.split)
  ultimately show ?thesis by simp
qed

context forum
begin

abbreviation ok :: "'w Reconciler \<Rightarrow> bool" where "ok r \<equiv> in_step topic used icon r"

lemma now_frame:
  assumes "gw_Now g w = (t, w')" shows "topic w' = topic w" "used w' = used w"
  using others(3,4) [of w] assms by simp_all

lemma ok_save [simp]: "ok (save g r) = ok r"
  by (simp add: in_step_def save_def Let_def others)

lemma ok_stamped:
  "agents_ok (rc_agents r) \<Longrightarrow>
     (\<And>now. mirrors icon (topic (rc_world r)) (used (rc_world r)) (f (rc_mapping r) now)) \<Longrightarrow> ok (stamped g f r)"
  by (auto simp: in_step_def stamped_def now_frame split: prod.split dest: now_frame)

lemma ok_world:
  "topic w = topic (rc_world r) \<Longrightarrow> used w = used (rc_world r) \<Longrightarrow> ok r \<Longrightarrow> ok (r\<lparr>rc_world := w\<rparr>)"
  by (simp add: in_step_def)

lemma ok_Forget: "ok r \<Longrightarrow> ok (rc_Forget key r)"
  by (simp add: in_step_def rc_Forget_def mirrors_Forget_same)

lemma ok_fail: "ok r \<Longrightarrow> ok (snd (Reconciler_fail g key e r))"
  by (simp add: Reconciler_fail_def ok_Forget)

lemma ok_fields [simp]:
  "ok (rc_Cancel key r) = ok r" "ok (r\<lparr>rc_deb := d\<rparr>) = ok r"
  "ok (r\<lparr>rc_force := b\<rparr>) = ok r" "ok (r\<lparr>rc_sweepRightsWarned := b\<rparr>) = ok r"
  by (simp_all add: in_step_def rc_Cancel_def)

lemma ok_agents: "ok r \<Longrightarrow> agents_ok as \<Longrightarrow> ok (r\<lparr>rc_agents := as\<rparr>)"
  by (simp add: in_step_def)

lemma agents_ok_put: "agents_ok as \<Longrightarrow> agent_ok a \<Longrightarrow> agents_ok (gm_put k a as)"
  by (simp add: agents_ok_def update_conv')

lemma ok_Schedule [simp]: "ok (rc_Schedule g key r) = ok r"
  by (auto simp: in_step_def rc_Schedule_def now_frame split: prod.split)

lemma ok_createTopic:
  assumes r: "ok r" and a: "agent_ok a" shows "ok (snd (createTopic g a r))"
proof -
  obtain res w where c: "gw_CreateTopic g (fst (Desired a)) (snd (Desired a)) (rc_world r) = (res, w)" by fastforce
  show ?thesis
  proof (cases res)
    case (Inl e)
    then show ?thesis
      using c r create_err [of "fst (Desired a)" "snd (Desired a)" "rc_world r" e w]
      by (simp add: createTopic_def split_beta ok_fail ok_world)
  next
    case (Inr t)
    note law = create_ok [OF c [unfolded Inr]]
    have "ok (stamped g (\<lambda>m now. Link m (ag_Key a) t a now) (r\<lparr>rc_world := w\<rparr>))"
      using law r a by (intro ok_stamped) (simp_all add: in_step_def mirrors_Link agent_ok_def)
    then show ?thesis using c Inr by (simp add: createTopic_def split_beta)
  qed
qed

text \<open>
  The shape of every write: the world changes at most at the topic of an entry, and the mapping follows.
\<close>

lemma ok_write:
  assumes r: "ok r" and e: "TopicFor (rc_mapping r) key = Some e"
    and w: "used w = used (rc_world r)" "\<And>th. th \<noteq> te_ThreadID e \<Longrightarrow> topic w th = topic (rc_world r) th"
    and f: "\<And>now. te_ThreadID (f now e) = te_ThreadID e \<and> entry_ok icon (topic w) (f now e)"
  shows "ok (stamped g (\<lambda>m now. adjust_entry m key (f now)) (r\<lparr>rc_world := w\<rparr>))"
proof (rule ok_stamped)
  show "agents_ok (rc_agents (r\<lparr>rc_world := w\<rparr>))" using r by (simp add: in_step_def)
  fix now
  have m: "mirrors icon (topic (rc_world r)) (used w) (rc_mapping r)"
    using r w(1) by (simp add: in_step_def)
  show "mirrors icon (topic (rc_world (r\<lparr>rc_world := w\<rparr>))) (used (rc_world (r\<lparr>rc_world := w\<rparr>)))
      (adjust_entry (rc_mapping (r\<lparr>rc_world := w\<rparr>)) key (f now))"
    using mirrors_update [OF m e, of "topic w" "f now"] w(2) f by simp
qed

lemma ok_call:
  assumes "ok r" "TopicFor (rc_mapping r) key = Some e"
    and "used w = used (rc_world r)" "topic w = (topic (rc_world r))(te_ThreadID e \<mapsto> t)"
    and "\<And>now. te_ThreadID (f now e) = te_ThreadID e" "\<And>now. entry_ok icon (topic w) (f now e)"
  shows "ok (stamped g (\<lambda>m now. adjust_entry m key (f now)) (r\<lparr>rc_world := w\<rparr>))"
  using assms by (intro ok_write) auto

lemma stamped_None:
  assumes "TopicFor (rc_mapping r) key = None" "ok r"
  shows "ok (stamped g (\<lambda>m now. adjust_entry m key (f now)) r)"
  using assms by (intro ok_stamped) (auto simp: in_step_def adjust_entry_None)

text \<open>A change of the mapping alone, and two of them in a row.\<close>

lemma ok_adjust:
  assumes r: "ok r" and k: "\<And>e now. TopicFor (rc_mapping r) key = Some e \<Longrightarrow> entry_ok icon (topic (rc_world r)) e
      \<Longrightarrow> te_ThreadID (f now e) = te_ThreadID e \<and> entry_ok icon (topic (rc_world r)) (f now e)"
  shows "ok (stamped g (\<lambda>m now. adjust_entry m key (f now)) r)"
proof (cases "TopicFor (rc_mapping r) key")
  case (Some e)
  have "ok (stamped g (\<lambda>m now. adjust_entry m key (f now)) (r\<lparr>rc_world := rc_world r\<rparr>))"
    using r by (intro ok_write [OF r Some]) (use Some k in \<open>auto simp: in_step_def dest: mirrorsD(2)\<close>)
  then show ?thesis by simp
qed (use r in \<open>simp add: stamped_None\<close>)

lemma stamped_stamped:
  "stamped g (\<lambda>m now. adjust_entry m key (f now)) (stamped g (\<lambda>m now. adjust_entry m key (h now)) r) =
     (let (now, w) = gw_Now g (rc_world r)
      in stamped g (\<lambda>m now'. adjust_entry m key (\<lambda>e. f now' (h now e))) (r\<lparr>rc_world := w\<rparr>))"
  by (simp add: stamped_def split_beta Let_def adjust_adjust)

lemma ok_adjust2:
  assumes r: "ok r" and k: "\<And>e now now'. TopicFor (rc_mapping r) key = Some e \<Longrightarrow> entry_ok icon (topic (rc_world r)) e
      \<Longrightarrow> te_ThreadID (f now' (h now e)) = te_ThreadID e \<and> entry_ok icon (topic (rc_world r)) (f now' (h now e))"
  shows "ok (stamped g (\<lambda>m now. adjust_entry m key (f now)) (stamped g (\<lambda>m now. adjust_entry m key (h now)) r))"
  unfolding stamped_stamped Let_def split_beta
  by (rule ok_adjust) (use r k in \<open>auto simp: in_step_def others\<close>)

lemma ok_entry:
  "ok r \<Longrightarrow> TopicFor (rc_mapping r) key = Some e \<Longrightarrow> entry_ok icon (topic (rc_world r)) e"
  by (auto simp: in_step_def dest: mirrorsD(2))

lemma ok_close:
  assumes r: "ok r" and dead: "\<And>e. TopicFor (rc_mapping r) key = Some e \<Longrightarrow> \<not> Live (te_Status e)"
  shows "ok (snd (Reconciler_close g key r))"
proof (cases "TopicFor (rc_mapping r) key")
  case e: (Some e)
  obtain res w where c: "gw_CloseTopic g (te_ThreadID e) (rc_world r) = (res, w)" by fastforce
  show ?thesis
  proof (cases res)
    case None
    obtain t where t: "used w = used (rc_world r)" "topic (rc_world r) (te_ThreadID e) = Some t"
        "topic w = (topic (rc_world r))(te_ThreadID e \<mapsto> t\<lparr>tp_Closed := True\<rparr>)"
      using close_ok [OF c [unfolded None]] by blast
    have "ok (stamped g (\<lambda>m now. MarkClosed m key now) (r\<lparr>rc_world := w\<rparr>))"
      unfolding MarkClosed_def
      using ok_entry [OF r e] dead [OF e] t(2)
      by (intro ok_call [OF r e t(1,3)]) (auto simp: entry_ok_def agrees_def t(3))
    then show ?thesis using e c None r by (simp add: Reconciler_close_def)
  next
    case (Some err)
    then show ?thesis
      using e c r close_err [of "te_ThreadID e" "rc_world r" err w]
      by (simp add: Reconciler_close_def ok_fail ok_world)
  qed
qed (use r in \<open>simp add: Reconciler_close_def\<close>)

lemma rc_mapping_save [simp]: "rc_mapping (save g r) = rc_mapping r"
  by (simp add: save_def Let_def)

lemma TopicFor_stamped_adjust:
  "TopicFor (rc_mapping (stamped g (\<lambda>m now. adjust_entry m key (f now)) r)) l =
     (if Key_String l = Key_String key then map_option (f (fst (gw_Now g (rc_world r)))) (TopicFor (rc_mapping r) key)
      else TopicFor (rc_mapping r) l)"
  by (simp add: stamped_def split_beta TopicFor_adjust_entry)

lemma ok_mark_and_close:
  assumes r: "ok r" and e: "TopicFor (rc_mapping r) key = Some e" and heard: "\<not> te_Muted e"
  shows "ok (snd (mark_and_close g key e r))"
proof -
  let ?p = "\<lparr>pt_Name = None, pt_Status = Some StatusExited\<rparr>"
  obtain res w where c: "gw_EditTopic g (te_ThreadID e) ?p (rc_world r) = (res, w)" by fastforce
  show ?thesis
  proof (cases res)
    case None
    obtain t where t: "used w = used (rc_world r)" "topic (rc_world r) (te_ThreadID e) = Some t"
        "topic w = (topic (rc_world r))(te_ThreadID e \<mapsto> patched icon ?p t)"
      using edit_ok [OF c [unfolded None]] by (auto simp: TopicPatch_Empty_def)
    let ?r = "save g (stamped g (\<lambda>m now. MarkExited m key now) (r\<lparr>rc_world := w\<rparr>))"
    have "ok ?r"
      unfolding ok_save MarkExited_def using ok_entry [OF r e] t(2) heard
      by (intro ok_call [OF r e t(1,3)]) (auto simp: entry_ok_def agrees_def t(3) patched_def Live_def)
    moreover have "\<not> Live (te_Status d)" if "TopicFor (rc_mapping ?r) key = Some d" for d
      using that e by (auto simp: MarkExited_def TopicFor_stamped_adjust Live_def)
    ultimately have "ok (snd (Reconciler_close g key ?r))" by (rule ok_close)
    then show ?thesis using c None by (simp add: mark_and_close_def)
  next
    case (Some err)
    then show ?thesis
      using c r edit_err [of "te_ThreadID e" ?p "rc_world r" err w]
      by (simp add: mark_and_close_def ok_fail ok_world)
  qed
qed

lemma ok_exit:
  assumes r: "ok r" shows "ok (snd (Reconciler_exit g key r))"
proof (cases "TopicFor (rc_mapping r) key")
  case e: (Some e)
  have "ok (stamped g (\<lambda>m now. MarkClosed m key now) (stamped g (\<lambda>m now. MarkExited m key now) r))"
    if "te_Muted e"
    unfolding MarkClosed_def MarkExited_def using r
    by (rule ok_adjust2) (use that e in \<open>auto simp: entry_ok_def agrees_def Live_def split: option.splits\<close>)
  moreover have "ok (snd (Reconciler_close g key r))" if "\<not> Live (te_Status e)"
    using r by (rule ok_close) (use e that in simp)
  ultimately show ?thesis
    using r e by (simp add: Reconciler_exit_def ok_mark_and_close)
qed (use r in \<open>simp add: Reconciler_exit_def\<close>)

lemma ok_finish:
  "ok r \<Longrightarrow> (\<And>e. TopicFor (rc_mapping r) key = Some e \<Longrightarrow> \<not> te_Muted e) \<Longrightarrow> ok (snd (Reconciler_finish g key r))"
  by (simp add: Reconciler_finish_def ok_mark_and_close split: option.split)

lemma ok_edit_call:
  assumes r: "ok r" and e: "TopicFor (rc_mapping r) key = Some e"
    and p: "pt_Status p = Some st" "Live st" "Live (te_Status e) \<or> \<not> te_Closed e"
    and c: "gw_EditTopic g (te_ThreadID e) p (rc_world r) = (None, w)"
  shows "ok (stamped g (\<lambda>m now. Apply m key p now) (r\<lparr>rc_world := w\<rparr>))"
proof -
  have "\<not> TopicPatch_Empty p" using p(1) by (simp add: TopicPatch_Empty_def)
  then obtain t where t: "used w = used (rc_world r)" "topic (rc_world r) (te_ThreadID e) = Some t"
      "topic w = (topic (rc_world r))(te_ThreadID e \<mapsto> patched icon p t)"
    using edit_ok [OF c] by blast
  show ?thesis
    unfolding Apply_def using ok_entry [OF r e] t(2) p
    by (intro ok_call [OF r e t(1,3)])
      (auto simp: entry_ok_def agrees_def t(3) patched_def Let_def split: option.splits)
qed

text \<open>A finished topic that is open again, and unmuted.\<close>

lemma reopen_entry: "MarkReopened (Unmute m key now) key now' =
    adjust_entry m key (\<lambda>e. e\<lparr>te_Muted := False, te_Closed := False, te_UpdatedAt := now'\<rparr>)"
  by (simp add: MarkReopened_def Unmute_def setMuted_def adjust_adjust)

lemma ok_revive_open:
  assumes r: "ok r" and e: "TopicFor (rc_mapping r) (ag_Key a) = Some e" and a: "agent_ok a"
    and w0: "used w0 = used (rc_world r)" "\<And>th. th \<noteq> te_ThreadID e \<Longrightarrow> topic w0 th = topic (rc_world r) th"
    and new: "\<And>now. entry_ok icon (topic w0) (e\<lparr>te_Muted := False, te_Closed := False, te_UpdatedAt := now\<rparr>)"
  shows "ok (snd (revive_open g a e (r\<lparr>rc_world := w0\<rparr>)))"
proof -
  let ?key = "ag_Key a"
  let ?p = "\<lparr>pt_Name = (if fst (Desired a) \<noteq> te_Name e then Some (fst (Desired a)) else None),
              pt_Status = Some (snd (Desired a))\<rparr>"
  let ?r = "save g (stamped g (\<lambda>m now. MarkReopened (Unmute m ?key now) ?key now) (r\<lparr>rc_world := w0\<rparr>))"
  have r': "ok ?r" unfolding ok_save reopen_entry using r e w0 new by (intro ok_write) auto
  obtain d where d: "TopicFor (rc_mapping ?r) ?key = Some d" "te_ThreadID d = te_ThreadID e"
      "\<not> te_Closed d" "te_Name d = te_Name e"
    using e by (auto simp: reopen_entry TopicFor_stamped_adjust)
  obtain res w where c: "gw_EditTopic g (te_ThreadID e) ?p (rc_world ?r) = (res, w)" by fastforce
  show ?thesis
  proof (cases res)
    case None
    have "ok (stamped g (\<lambda>m now. Apply m ?key ?p now) (?r\<lparr>rc_world := w\<rparr>))"
      by (rule ok_edit_call [OF r' d(1), where st = "ag_Status a"])
        (use a d c None in \<open>simp_all add: Desired_def agent_ok_def\<close>)
    then show ?thesis using c None by (simp add: revive_open_def Let_def split_beta)
  next
    case (Some err)
    then show ?thesis
      using c r' edit_err [of "te_ThreadID e" ?p "rc_world ?r" err w]
      by (simp add: revive_open_def Let_def split_beta ok_fail ok_world)
  qed
qed

lemma ok_revive:
  assumes r: "ok r" and e: "TopicFor (rc_mapping r) (ag_Key a) = Some e" and a: "agent_ok a"
    and dead: "\<not> Live (te_Status e)"
  shows "ok (snd (revive g a e r))"
proof (cases "te_Closed e")
  case True
  obtain res w where c: "gw_ReopenTopic g (te_ThreadID e) (rc_world r) = (res, w)" by fastforce
  show ?thesis
  proof (cases res)
    case None
    obtain t where t: "used w = used (rc_world r)" "topic (rc_world r) (te_ThreadID e) = Some t"
        "topic w = (topic (rc_world r))(te_ThreadID e \<mapsto> t\<lparr>tp_Closed := False\<rparr>)"
      using reopen_ok [OF c [unfolded None]] by blast
    have "ok (snd (revive_open g a e (r\<lparr>rc_world := w\<rparr>)))"
      using ok_entry [OF r e] dead t(2)
      by (intro ok_revive_open [OF r e a t(1)]) (auto simp: t(3) entry_ok_def agrees_def)
    then show ?thesis using True c None by (simp add: revive_def)
  next
    case (Some err)
    then show ?thesis
      using c True r a reopen_err [of "te_ThreadID e" "rc_world r" err w]
      by (simp add: revive_def Let_def ok_fail ok_world ok_createTopic ok_Forget)
  qed
next
  case False
  then have "entry_ok icon (topic (rc_world r)) (e\<lparr>te_Muted := False, te_Closed := False, te_UpdatedAt := now\<rparr>)" for now
    using ok_entry [OF r e] dead by (auto simp: entry_ok_def agrees_def split: option.splits)
  then have "ok (snd (revive_open g a e (r\<lparr>rc_world := rc_world r\<rparr>)))"
    by (intro ok_revive_open [OF r e a]) auto
  with False show ?thesis by (simp add: revive_def)
qed

lemma ok_create: "ok r \<Longrightarrow> agent_ok a \<Longrightarrow> ok (snd (Reconciler_create g a r))"
  by (simp add: Reconciler_create_def ok_createTopic ok_revive split: option.split)

lemma ok_agent: "ok r \<Longrightarrow> gm_get (rc_agents r) k = Some a \<Longrightarrow> agent_ok a"
  by (auto simp: in_step_def agents_ok_def)

lemma edit_patch_status:
  assumes "edit_patch r key a e = Some p" "TopicFor (rc_mapping r) key = Some e"
  shows "pt_Status p = Some (ag_Status a) \<and> Live (te_Status e)"
  using assms Diff_Some [of "rc_mapping r" key a p]
  by (auto simp: edit_patch_def Desired_def split: if_splits)

lemma ok_edit:
  assumes r: "ok r" shows "ok (snd (Reconciler_edit g key r))"
proof (cases "gm_get (rc_agents r) key")
  case a: (Some a)
  show ?thesis
  proof (cases "TopicFor (rc_mapping r) key")
    case None
    then show ?thesis using a r ok_agent [OF r a] by (simp add: Reconciler_edit_def ok_create)
  next
    case e: (Some e)
    show ?thesis
    proof (cases "edit_patch r key a e")
      case p: (Some p)
      note st = edit_patch_status [OF p e]
      obtain res w where c: "gw_EditTopic g (te_ThreadID e) p (rc_world r) = (res, w)" by fastforce
      show ?thesis
      proof (cases res)
        case None
        then show ?thesis
          using a e p c r st ok_agent [OF r a]
            ok_edit_call [OF r e conjunct1 [OF st], of w] by (simp add: Reconciler_edit_def agent_ok_def)
      next
        case (Some err)
        then show ?thesis
          using a e p c r edit_err [of "te_ThreadID e" p "rc_world r" err w]
          by (simp add: Reconciler_edit_def ok_fail ok_world)
      qed
    qed (use a e r in \<open>simp add: Reconciler_edit_def\<close>)
  qed
qed (use r in \<open>simp add: Reconciler_edit_def\<close>)

lemma TopicFor_cong: "Key_String l = Key_String k \<Longrightarrow> TopicFor m l = TopicFor m k"
  by (simp add: TopicFor_def)

lemma close_dead:
  assumes "TopicFor (rc_mapping (snd (Reconciler_close g key r))) l = Some e" "Live (te_Status e)"
  shows "\<exists>e0. TopicFor (rc_mapping r) l = Some e0 \<and> Live (te_Status e0)"
  using assms
  by (auto simp: Reconciler_close_def Reconciler_fail_def rc_Forget_def MarkClosed_def TopicFor_stamped_adjust
      TopicFor_Forget split: option.splits prod.splits if_splits) (metis TopicFor_cong)

lemma ok_close_all:
  assumes "ok r" "\<And>k e. k \<in> set keys \<Longrightarrow> TopicFor (rc_mapping r) k = Some e \<Longrightarrow> \<not> Live (te_Status e)"
  shows "ok (snd (each (Reconciler_close g) keys r))"
proof -
  let ?P = "\<lambda>s. ok s \<and> (\<forall>k\<in>set keys. \<forall>e. TopicFor (rc_mapping s) k = Some e \<longrightarrow> \<not> Live (te_Status e))"
  have "?P (snd (each (Reconciler_close g) keys r))"
  proof (rule each_invariant)
    show "?P r" using assms by blast
    show "?P (snd (Reconciler_close g k s))" if "k \<in> set keys" "?P s" for k s
      using that ok_close [of s k] close_dead [of k s] by blast
  qed
  then show ?thesis by blast
qed

lemma Unclosed_dead:
  assumes "k \<in> set (Unclosed m)" "TopicFor m k = Some e" shows "\<not> Live (te_Status e)"
  using assms by (auto simp: Unclosed_def)

lemma ok_live_step: "ok r \<Longrightarrow> agent_ok a \<Longrightarrow> ok (snd (live_step g a r))"
  by (simp add: live_step_def ok_create ok_edit split: option.split)

lemma ok_orphan_step: "ok r \<Longrightarrow> ok (snd (orphan_step g key r))"
  by (simp add: orphan_step_def ok_exit)

lemma ok_dedupe_step: "ok r \<Longrightarrow> ok (dedupe_step g r)"
  using mirrors_Dedupe by (auto simp: dedupe_step_def in_step_def split_beta Let_def save_def others)

lemma ok_prune_step: "ok r \<Longrightarrow> ok (prune_step g r)"
  using mirrors_Prune by (auto simp: prune_step_def in_step_def split_beta Let_def save_def others)

lemma agents_ok_agent_map: "(\<And>a. a \<in> set live \<Longrightarrow> agent_ok a) \<Longrightarrow> agents_ok (agent_map live)"
proof -
  have "agents_ok as \<Longrightarrow> (\<And>a. a \<in> set live \<Longrightarrow> agent_ok a) \<Longrightarrow>
      agents_ok (fold (\<lambda>a m. gm_put (ag_Key a) a m) live as)" for as
    by (induction live arbitrary: as) (auto intro!: agents_ok_put)
  moreover have "agents_ok []" by (simp add: agents_ok_def)
  ultimately show "(\<And>a. a \<in> set live \<Longrightarrow> agent_ok a) \<Longrightarrow> agents_ok (agent_map live)"
    unfolding agent_map_def by blast
qed

lemma ok_Reconcile:
  assumes r: "ok r" and live: "\<And>a. a \<in> set live \<Longrightarrow> agent_ok a"
  shows "ok (snd (Reconcile g live r))"
proof (cases "blocked g r")
  case False
  let ?r1 = "(dedupe_step g r)\<lparr>rc_agents := agent_map live\<rparr>"
  obtain e2 r2 where 2: "each (orphan_step g) (Orphans (rc_mapping ?r1) (map ag_Key live)) ?r1 = (e2, r2)" by fastforce
  have ok2: "ok r2"
    using each_invariant [of "ok" ?r1 _ "orphan_step g"] ok_orphan_step 2
      ok_agents [OF ok_dedupe_step [OF r] agents_ok_agent_map [OF live]] by (metis snd_conv)
  obtain e3 r3 where 3: "each (Reconciler_close g) (Unclosed (rc_mapping r2)) r2 = (e3, r3)" by fastforce
  have ok3: "ok r3" using ok_close_all [OF ok2, of "Unclosed (rc_mapping r2)"] Unclosed_dead 3 by fastforce
  obtain e4 r4 where 4: "each (live_step g) (sort_key (\<lambda>a. Key_String (ag_Key a)) live) r3 = (e4, r4)" by fastforce
  have ok4: "ok r4"
    using each_invariant [of "ok" r3 "sort_key (\<lambda>a. Key_String (ag_Key a)) live" "live_step g"]
      ok_live_step ok3 live 4 by auto
  show ?thesis
    using False 2 3 4 ok2 ok3 ok4
    by (simp add: Reconcile_def Let_def ok_prune_step split: option.split)
qed (use r in \<open>simp add: Reconcile_def\<close>)

lemma ok_Resync:
  assumes "ok r" "\<And>a. a \<in> set live \<Longrightarrow> agent_ok a" shows "ok (snd (Resync g live r))"
  using ok_Reconcile [of "r\<lparr>rc_force := True\<rparr>" live] assms by (simp add: Resync_def split_beta)

lemma ok_Handle:
  assumes r: "ok r" and a: "agent_ok (ae_Agent ev) \<or> ae_Kind ev = AgentGone"
  shows "ok (snd (Handle g ev r))"
proof (cases "ae_Kind ev = AgentGone")
  case True
  have "agents_ok (gm_del key (rc_agents r))" for key using r by (simp add: in_step_def agents_ok_def)
  then show ?thesis using r True by (simp add: Handle_def Let_def ok_exit ok_agents)
next
  case False
  then have a': "agent_ok (ae_Agent ev)" using a by simp
  let ?r = "r\<lparr>rc_agents := gm_put (ag_Key (ae_Agent ev)) (ae_Agent ev) (rc_agents r)\<rparr>"
  have "agents_ok (gm_put (ag_Key (ae_Agent ev)) (ae_Agent ev) (rc_agents r))"
    using r a' by (intro agents_ok_put) (simp_all add: in_step_def)
  with r have "ok ?r" by (rule ok_agents)
  with False a' show ?thesis
    by (cases "ae_Kind ev") (simp_all add: Handle_def Let_def ok_create ok_edit split: option.split)
qed

lemma ok_Flush: "ok r \<Longrightarrow> ok (snd (Flush g r))"
  by (auto simp: Flush_def split_beta ok_edit intro!: each_invariant [where P = "ok"])

lemma ok_sweep_loop: "ok r \<Longrightarrow> ok (snd (snd (sweep_loop g keys n r)))"
proof (induction keys arbitrary: n r)
  case (Cons key keys)
  show ?case
  proof (cases "TopicFor (rc_mapping r) key")
    case e: (Some e)
    obtain res w where c: "gw_DeleteTopic g (te_ThreadID e) (rc_world r) = (res, w)" by fastforce
    have gone: "ok (save g (rc_Forget key (r\<lparr>rc_world := w\<rparr>)))" if "res = None \<or> res = Some ErrTopicGone"
    proof (cases res)
      case None
      then have "used w = used (rc_world r)" "topic w = (topic (rc_world r))(te_ThreadID e := None)"
        using delete_ok [OF c [unfolded None]] by blast+
      then show ?thesis
        using Cons.prems e unfolding ok_save by (auto simp: in_step_def rc_Forget_def intro!: mirrors_Forget)
    next
      case (Some err)
      then show ?thesis
        using delete_err [of "te_ThreadID e" "rc_world r" err w] c Cons.prems by (simp add: ok_Forget ok_world)
    qed
    have err: "ok (r\<lparr>rc_world := w\<rparr>)" if "res = Some x" for x
      using delete_err [of "te_ThreadID e" "rc_world r" x w] c that Cons.prems by (simp add: ok_world)
    show ?thesis
      using e c Cons.IH [OF gone] Cons.IH [OF err] err gone by (cases res) (auto simp: Let_def)
  qed (use Cons in simp)
qed simp

lemma ok_Sweep: "ok r \<Longrightarrow> ok (snd (Sweep g maxAge rights r))"
proof -
  assume r: "ok r"
  have now: "ok (r\<lparr>rc_sweepRightsWarned := b, rc_world := snd (gw_Now g (rc_world r))\<rparr>)" for b
    using r by (intro ok_world [where r = "r\<lparr>rc_sweepRightsWarned := b\<rparr>", simplified]) (simp_all add: others)
  show ?thesis
    using r now ok_sweep_loop [OF now] by (simp add: Sweep_def Let_def split_beta)
qed

subsection \<open>What operators do by hand\<close>

lemma entry_of_thread:
  assumes r: "ok r"
  shows "(\<exists>key e. KeyForThread (rc_mapping r) th = Some key \<and> TopicFor (rc_mapping r) key = Some e \<and> te_ThreadID e = th)
    \<or> KeyForThread (rc_mapping r) th = None \<and> (\<forall>s e. gm_get (mp_Topics (rc_mapping r)) s = Some e \<longrightarrow> te_ThreadID e \<noteq> th)"
proof (cases "KeyForThread (rc_mapping r) th")
  case (Some key)
  then show ?thesis using KeyForThread_Some [OF Some] by auto
next
  case None
  have keys: "ParseKey s \<noteq> None" if "gm_get (mp_Topics (rc_mapping r)) s = Some e" for s e
    using r that unfolding in_step_def mirrors_def by blast
  have "ParseKey [] = None" by code_simp
  then have "gm_get (mp_Topics (rc_mapping r)) [] = None"
    using keys by (cases "gm_get (mp_Topics (rc_mapping r)) []") auto
  then have "Option.bind (thread_best (rc_mapping r) th) ParseKey = None"
    using None by (simp add: KeyForThread_best)
  moreover have "ParseKey s \<noteq> None" if "thread_best (rc_mapping r) th = Some s" for s
    using thread_best_Some [OF that] keys by metis
  ultimately have "thread_best (rc_mapping r) th = None"
    by (cases "thread_best (rc_mapping r) th") auto
  with None show ?thesis using thread_best_None by blast
qed

text \<open>A change of a topic no entry knows of is no concern of the mapping.\<close>

lemma ok_foreign:
  assumes r: "ok r" and none: "\<And>s e. gm_get (mp_Topics (rc_mapping r)) s = Some e \<Longrightarrow> te_ThreadID e \<noteq> th"
    and w: "used w = used (rc_world r)" "\<And>t. t \<noteq> th \<Longrightarrow> topic w t = topic (rc_world r) t"
  shows "ok (r\<lparr>rc_world := w\<rparr>)"
proof -
  have "entry_ok icon (topic w) e" if e: "gm_get (mp_Topics (rc_mapping r)) s = Some e" for s e
  proof -
    have "entry_ok icon (topic (rc_world r)) e" using r e unfolding in_step_def mirrors_def by blast
    then show ?thesis using none [OF e] w(2) [of "te_ThreadID e"] by (simp add: entry_ok_def agrees_def)
  qed
  then show ?thesis using r w(1) unfolding in_step_def mirrors_def by (simp; blast)
qed

lemma ok_OnTopicClosed:
  assumes r: "ok r" and w: "used w = used (rc_world r)" "topic (rc_world r) th = Some t"
      "topic w = (topic (rc_world r))(th \<mapsto> t\<lparr>tp_Closed := True\<rparr>)"
  shows "ok (snd (OnTopicClosed g th (r\<lparr>rc_world := w\<rparr>)))"
  using entry_of_thread [OF r, of th]
proof (elim disjE exE conjE)
  fix key e assume e: "KeyForThread (rc_mapping r) th = Some key" "TopicFor (rc_mapping r) key = Some e" "te_ThreadID e = th"
  have "ok (stamped g (\<lambda>m now. MarkClosed m key now) (r\<lparr>rc_world := w\<rparr>))" if "\<not> Live (te_Status e)"
    unfolding MarkClosed_def using ok_entry [OF r e(2)] that e(3) w
    by (intro ok_write [OF r e(2) w(1)]) (auto simp: entry_ok_def agrees_def)
  moreover have "ok (stamped g (\<lambda>m now. Mute m key now) (r\<lparr>rc_world := w\<rparr>))" if "Live (te_Status e)"
    unfolding Mute_def setMuted_def using ok_entry [OF r e(2)] that e(3) w
    by (intro ok_write [OF r e(2) w(1)]) (auto simp: entry_ok_def agrees_def)
  ultimately show ?thesis using e by (simp add: OnTopicClosed_def)
next
  assume "KeyForThread (rc_mapping r) th = None"
    "\<forall>s e. gm_get (mp_Topics (rc_mapping r)) s = Some e \<longrightarrow> te_ThreadID e \<noteq> th"
  then show ?thesis using w by (simp add: OnTopicClosed_def) (rule ok_foreign [OF r, of th], auto)
qed

lemma ok_OnTopicReopened:
  assumes r: "ok r" and w: "used w = used (rc_world r)" "topic (rc_world r) th = Some t"
      "topic w = (topic (rc_world r))(th \<mapsto> t\<lparr>tp_Closed := False\<rparr>)"
  shows "ok (snd (OnTopicReopened g th (r\<lparr>rc_world := w\<rparr>)))"
  using entry_of_thread [OF r, of th]
proof (elim disjE exE conjE)
  fix key e assume e: "KeyForThread (rc_mapping r) th = Some key" "TopicFor (rc_mapping r) key = Some e" "te_ThreadID e = th"
  let ?s = "stamped g (\<lambda>m now. MarkReopened m key now) (stamped g (\<lambda>m now. Unmute m key now) (r\<lparr>rc_world := w\<rparr>))"
  obtain now w' where now: "gw_Now g w = (now, w')" by fastforce
  have s: "?s = stamped g (\<lambda>m now. adjust_entry m key (\<lambda>e. e\<lparr>te_Muted := False, te_Closed := False, te_UpdatedAt := now\<rparr>))
      (r\<lparr>rc_world := w'\<rparr>)"
    unfolding MarkReopened_def Unmute_def setMuted_def stamped_stamped by (simp add: now)
  have ok: "ok (save g ?s)"
    unfolding ok_save s using ok_entry [OF r e(2)] e(3) w now_frame [OF now]
    by (intro ok_write [OF r e(2)]) (auto simp: entry_ok_def agrees_def)
  have heard: "\<not> te_Muted d" if "TopicFor (rc_mapping (save g ?s)) key = Some d" for d
    using that e(2) by (auto simp: s TopicFor_stamped_adjust)
  have "ok (snd (Reconciler_finish g key (save g ?s)))" using ok heard by (rule ok_finish)
  moreover have "ok (snd (forced (Reconciler_edit g key) (rc_Cancel key (save g ?s))))"
    using ok ok_edit [of "(rc_Cancel key (save g ?s))\<lparr>rc_force := True\<rparr>" key] by (simp add: forced_def split_beta)
  ultimately show ?thesis using e by (simp add: OnTopicReopened_def Let_def)
next
  assume "KeyForThread (rc_mapping r) th = None"
    "\<forall>s e. gm_get (mp_Topics (rc_mapping r)) s = Some e \<longrightarrow> te_ThreadID e \<noteq> th"
  then show ?thesis using w by (simp add: OnTopicReopened_def) (rule ok_foreign [OF r, of th], auto)
qed

lemma ok_OnTopicRenamed:
  assumes r: "ok r" and w: "used w = used (rc_world r)" "topic (rc_world r) th = Some t"
      "topic w = (topic (rc_world r))(th \<mapsto> t\<lparr>tp_Name := name\<rparr>)"
    and taken: "fst (OnTopicRenamed g th name (r\<lparr>rc_world := w\<rparr>))"
  shows "ok (snd (OnTopicRenamed g th name (r\<lparr>rc_world := w\<rparr>)))"
proof -
  obtain key e a where k: "KeyForThread (rc_mapping r) th = Some key" "TopicFor (rc_mapping r) key = Some e"
      "gm_get (rc_agents r) key = Some a"
    using taken by (auto simp: OnTopicRenamed_def split: option.splits)
  have e: "te_ThreadID e = th" using KeyForThread_Some [OF k(1)] k(2) by simp
  have typed: "ok (typed_name g key name (r\<lparr>rc_agents := as, rc_world := w'\<rparr>))"
    if "topic w' = topic w" "used w' = used w" "agents_ok as" for w' as
  proof -
    have "ok (r\<lparr>rc_agents := as\<rparr>)" using r that(3) by (rule ok_agents)
    then show ?thesis
      unfolding typed_name_def ok_save using ok_entry [OF r k(2)] e w that
      by (intro ok_write [where r = "r\<lparr>rc_agents := as\<rparr>" and e = e]) (auto simp: k entry_ok_def agrees_def)
  qed
  have a: "agent_ok a" using r k(3) by (rule ok_agent)
  have put: "agents_ok (gm_put key b (rc_agents r))" if "agent_ok b" for b
    using r that by (intro agents_ok_put) (simp_all add: in_step_def)
  have swap: "r\<lparr>rc_world := w1, rc_agents := as\<rparr> = r\<lparr>rc_agents := as, rc_world := w1\<rparr>" for w1 as by simp
  have frames: "gw_Rename g p n w = (x, w1) \<Longrightarrow> topic w1 = topic w \<and> used w1 = used w"
    "gw_RenameTab g p' n' w = (x, w1) \<Longrightarrow> topic w1 = topic w \<and> used w1 = used w" for p n p' n' x w1
    using others(7,8) [of p n w] others(9,10) [of p' n' w] by simp_all
  let ?R = "OnTopicRenamed g th name (r\<lparr>rc_world := w\<rparr>)"
  have live: "Live (te_Status e)" using taken k by (auto simp: OnTopicRenamed_def split: if_splits)
  show ?thesis
  proof (cases "ag_Name a = [] \<and> ag_TabID a \<noteq> []")
    case True
    then have R: "?R = renameTab g key a e name (agentPart a name) (r\<lparr>rc_world := w\<rparr>)"
      using k live by (simp add: OnTopicRenamed_def Let_def)
    obtain res w1 where c: "gw_RenameTab g (ag_TabID a) (agentPart a name) w = (res, w1)" by fastforce
    have b: "agent_ok (a\<lparr>ag_TabLabel := l\<rparr>)" for l using a by (simp add: agent_ok_def)
    show ?thesis
      using taken typed [OF _ _ put [OF b]] c frames(2) [OF c]
      by (auto simp: R renameTab_def swap split: if_splits option.splits)
  next
    case False
    then have R: "?R = renameAgent g key a e name (agentPart a name) (r\<lparr>rc_world := w\<rparr>)"
      using k live by (simp add: OnTopicRenamed_def Let_def if_not_P)
    define wire where "wire = (if agentPart a name \<noteq> [] \<and> agentPart a name \<noteq> ag_TabLabel a \<and> agentPart a name \<noteq> ag_Kind a
      then Some (agentPart a name) else None)"
    obtain res w1 where c: "gw_Rename g (PaneID key) wire w = (res, w1)" by fastforce
    have b: "agent_ok (a\<lparr>ag_Name := l\<rparr>)" for l using a by (simp add: agent_ok_def)
    show ?thesis
      using taken typed [OF _ _ put [OF b]] c frames(1) [OF c]
      by (cases res) (auto simp: R renameAgent_def swap wire_def)
  qed
qed

end

section \<open>The mirror holds in every run\<close>

text \<open>
  What can happen, in any order: the events of the registry, the timers, the passes, the sweep, whatever the
  outside world does apart from the forum, and operators who close, reopen, rename or delete a topic by hand,
  each with the handler that follows. A rename counts when the agent took it; a refused one leaves the
  operator's name on the topic.
\<close>

inductive forum_run ::
  "'w Gateways \<Rightarrow> ('w \<Rightarrow> int \<Rightarrow> Topic option) \<Rightarrow> ('w \<Rightarrow> int set) \<Rightarrow> (Status \<Rightarrow> string) \<Rightarrow> 'w Reconciler \<Rightarrow> bool"
  for g topic used icon where
  start: "mirrors icon (topic w) (used w) m \<Longrightarrow> forum_run g topic used icon (NewReconciler m w)"
| event: "forum_run g topic used icon r \<Longrightarrow> agent_ok (ae_Agent ev) \<or> ae_Kind ev = AgentGone
    \<Longrightarrow> forum_run g topic used icon (snd (Handle g ev r))"
| fire: "forum_run g topic used icon r \<Longrightarrow> forum_run g topic used icon (snd (Fire g key r))"
| flush: "forum_run g topic used icon r \<Longrightarrow> forum_run g topic used icon (snd (Flush g r))"
| pass: "forum_run g topic used icon r \<Longrightarrow> list_all agent_ok live
    \<Longrightarrow> forum_run g topic used icon (snd (Reconcile g live r))"
| resync: "forum_run g topic used icon r \<Longrightarrow> list_all agent_ok live
    \<Longrightarrow> forum_run g topic used icon (snd (Resync g live r))"
| sweep: "forum_run g topic used icon r \<Longrightarrow> forum_run g topic used icon (snd (Sweep g maxAge rights r))"
| readonly: "forum_run g topic used icon r \<Longrightarrow> forum_run g topic used icon (SetReadOnly ro r)"
| dashboard: "forum_run g topic used icon r \<Longrightarrow> forum_run g topic used icon (SetDashboardID g i r)"
| timers: "forum_run g topic used icon r \<Longrightarrow> forum_run g topic used icon (r\<lparr>rc_deb := d\<rparr>)"
| elsewhere: "forum_run g topic used icon r \<Longrightarrow> topic w = topic (rc_world r) \<Longrightarrow> used w = used (rc_world r)
    \<Longrightarrow> forum_run g topic used icon (r\<lparr>rc_world := w\<rparr>)"
| deleted: "forum_run g topic used icon r \<Longrightarrow> topic w = (topic (rc_world r))(th := None) \<Longrightarrow> used w = used (rc_world r)
    \<Longrightarrow> forum_run g topic used icon (r\<lparr>rc_world := w\<rparr>)"
| closed: "forum_run g topic used icon r \<Longrightarrow> topic (rc_world r) th = Some t
    \<Longrightarrow> topic w = (topic (rc_world r))(th \<mapsto> t\<lparr>tp_Closed := True\<rparr>) \<Longrightarrow> used w = used (rc_world r)
    \<Longrightarrow> forum_run g topic used icon (snd (OnTopicClosed g th (r\<lparr>rc_world := w\<rparr>)))"
| reopened: "forum_run g topic used icon r \<Longrightarrow> topic (rc_world r) th = Some t
    \<Longrightarrow> topic w = (topic (rc_world r))(th \<mapsto> t\<lparr>tp_Closed := False\<rparr>) \<Longrightarrow> used w = used (rc_world r)
    \<Longrightarrow> forum_run g topic used icon (snd (OnTopicReopened g th (r\<lparr>rc_world := w\<rparr>)))"
| renamed: "forum_run g topic used icon r \<Longrightarrow> topic (rc_world r) th = Some t
    \<Longrightarrow> topic w = (topic (rc_world r))(th \<mapsto> t\<lparr>tp_Name := name\<rparr>) \<Longrightarrow> used w = used (rc_world r)
    \<Longrightarrow> fst (OnTopicRenamed g th name (r\<lparr>rc_world := w\<rparr>))
    \<Longrightarrow> forum_run g topic used icon (snd (OnTopicRenamed g th name (r\<lparr>rc_world := w\<rparr>)))"

lemma mirrors_deleted: "mirrors icon T U m \<Longrightarrow> mirrors icon (T(th := None)) U m"
  unfolding mirrors_def entry_ok_def agrees_def by (simp split: option.splits)

lemma forum_run_in_step:
  assumes "forum g topic used icon" "forum_run g topic used icon r"
  shows "in_step topic used icon r"
proof -
  note frame = forum.others [OF assms(1)]
  note ops = forum.ok_Handle [OF assms(1)] forum.ok_edit [OF assms(1)] forum.ok_Flush [OF assms(1)]
    forum.ok_Reconcile [OF assms(1)] forum.ok_Resync [OF assms(1)] forum.ok_Sweep [OF assms(1)]
    forum.ok_OnTopicClosed [OF assms(1)] forum.ok_OnTopicReopened [OF assms(1)] forum.ok_OnTopicRenamed [OF assms(1)]
  show ?thesis
    using assms(2)
  proof (induction rule: forum_run.induct)
    case (start w m)
    then show ?case by (simp add: in_step_def NewReconciler_def agents_ok_def)
  next
    case (dashboard r i)
    then show ?case
      by (simp add: SetDashboardID_def) (simp add: in_step_def save_def Let_def frame mirrors_def mapping_ok_def)
  next
    case (deleted r w th)
    then show ?case by (simp add: in_step_def mirrors_deleted)
  next
    case (elsewhere r w)
    then show ?case by (simp add: in_step_def)
  next
    case (timers r d)
    then show ?case by (simp add: in_step_def)
  next
    case (readonly r ro)
    then show ?case by (simp add: in_step_def SetReadOnly_def)
  qed (simp_all add: ops Fire_def list_all_iff)
qed

end
