(* ===== verification/Fakes.thy ===== *)
theory Fakes
  imports Forum Options
begin

text \<open>
  The in-memory doubles of the ports in \<^verbatim>\<open>internal/testkit\<close>: \<^verbatim>\<open>fake_telegram.go\<close>, the parts of \<^verbatim>\<open>fake_herdr.go\<close>
  the reconciler needs, \<^verbatim>\<open>mem_stores.go\<close> for the mapping and \<^verbatim>\<open>fake_clock.go\<close>. They are the repository's own
  account of how Telegram behaves, so the contract \<open>forum\<close> is discharged on them. Locks, logging, the event
  channels and the accessors tests use are left out; \<^verbatim>\<open>copyMapping\<close> is the identity on values.
\<close>

section \<open>Telegram\<close>

record FakeTelegram =
  ft_topics :: "(int, Topic) go_map"
  ft_nextID :: int
  ft_nextMsgID :: int
  ft_calls :: "string list"
  ft_settings :: "string list"
  ft_sent :: "Outgoing list"
  ft_direct :: "Outgoing list"
  ft_pinned :: "(int, bool) go_map"
  ft_buttons :: "(int, Button list) go_map"
  ft_texts :: "(int, string) go_map"
  ft_icons :: StatusIcons
  ft_operators :: "int list"
  ft_observers :: "int list"
  ft_docs :: "Document list"
  ft_files :: "(string, string) go_map"
  ft_failNext :: "(string, error) go_map"
  ft_rights :: Rights
  ft_rightErr :: "error option"

definition NewFakeTelegram :: FakeTelegram where
  "NewFakeTelegram =
     \<lparr>ft_topics = [], ft_nextID = 100, ft_nextMsgID = 1000, ft_calls = [], ft_settings = [], ft_sent = [],
      ft_direct = [], ft_pinned = [], ft_buttons = [], ft_texts = [], ft_icons = DefaultStatusIcons,
      ft_operators = [], ft_observers = [], ft_docs = [], ft_files = [], ft_failNext = [],
      ft_rights = \<lparr>IsForum = True, IsAdmin = True, CanManageTopics = True, CanDeleteMessages = True,
                   CanPinMessages = False\<rparr>,
      ft_rightErr = None\<rparr>"

definition FailNext :: "string \<Rightarrow> error \<Rightarrow> FakeTelegram \<Rightarrow> FakeTelegram" where
  "FailNext method e f = f\<lparr>ft_failNext := gm_put method e (ft_failNext f)\<rparr>"

definition fake_record :: "string \<Rightarrow> string \<Rightarrow> FakeTelegram \<Rightarrow> error option \<times> FakeTelegram" where
  "fake_record method call f =
     (let f1 = f\<lparr>ft_calls := ft_calls f @ [call]\<rparr>
      in case gm_get (ft_failNext f1) method of
           Some e \<Rightarrow> (Some e, f1\<lparr>ft_failNext := gm_del method (ft_failNext f1)\<rparr>)
         | None \<Rightarrow> (None, f1))"

definition fake_CreateTopic :: "string \<Rightarrow> Status \<Rightarrow> FakeTelegram \<Rightarrow> Topic result \<times> FakeTelegram" where
  "fake_CreateTopic name status f =
     (case fake_record ''create'' (''create:'' @ name @ '':'' @ status) f of
        (Some e, f1) \<Rightarrow> (Inl e, f1)
      | (None, f1) \<Rightarrow>
          (let t = \<lparr>tp_ThreadID = ft_nextID f1 + 1, tp_Name = name, tp_IconEmojiID = status, tp_Closed = False\<rparr>
           in (Inr t, f1\<lparr>ft_nextID := ft_nextID f1 + 1, ft_topics := gm_put (tp_ThreadID t) t (ft_topics f1)\<rparr>)))"

definition edit_parts :: "TopicPatch \<Rightarrow> string list" where
  "edit_parts p =
     (case pt_Name p of Some n \<Rightarrow> [''name='' @ n] | None \<Rightarrow> [])
     @ (case pt_Status p of Some s \<Rightarrow> [''status='' @ s] | None \<Rightarrow> [])"

text \<open>A call on an existing topic; the change is made through the pointer in the map.\<close>

definition on_topic :: "int \<Rightarrow> (Topic \<Rightarrow> Topic) \<Rightarrow> FakeTelegram \<Rightarrow> error option \<times> FakeTelegram" where
  "on_topic threadID change f =
     (case gm_get (ft_topics f) threadID of
        None \<Rightarrow> (Some ErrTopicGone, f)
      | Some t \<Rightarrow> (None, f\<lparr>ft_topics := gm_put threadID (change t) (ft_topics f)\<rparr>))"

definition fake_EditTopic :: "int \<Rightarrow> TopicPatch \<Rightarrow> FakeTelegram \<Rightarrow> error option \<times> FakeTelegram" where
  "fake_EditTopic threadID patch f =
     (if TopicPatch_Empty patch then (None, f)
      else case fake_record ''edit'' (''edit:'' @ Itoa threadID @ '':'' @ Join (edit_parts patch) '','') f of
        (Some e, f1) \<Rightarrow> (Some e, f1)
      | (None, f1) \<Rightarrow>
          on_topic threadID (\<lambda>t.
            let t1 = (case pt_Name patch of Some n \<Rightarrow> t\<lparr>tp_Name := n\<rparr> | None \<Rightarrow> t)
            in case pt_Status patch of Some s \<Rightarrow> t1\<lparr>tp_IconEmojiID := s\<rparr> | None \<Rightarrow> t1) f1)"

definition fake_CloseTopic :: "int \<Rightarrow> FakeTelegram \<Rightarrow> error option \<times> FakeTelegram" where
  "fake_CloseTopic threadID f =
     (case fake_record ''close'' (''close:'' @ Itoa threadID) f of
        (Some e, f1) \<Rightarrow> (Some e, f1)
      | (None, f1) \<Rightarrow> on_topic threadID (\<lambda>t. t\<lparr>tp_Closed := True\<rparr>) f1)"

definition fake_ReopenTopic :: "int \<Rightarrow> FakeTelegram \<Rightarrow> error option \<times> FakeTelegram" where
  "fake_ReopenTopic threadID f =
     (case fake_record ''reopen'' (''reopen:'' @ Itoa threadID) f of
        (Some e, f1) \<Rightarrow> (Some e, f1)
      | (None, f1) \<Rightarrow> on_topic threadID (\<lambda>t. t\<lparr>tp_Closed := False\<rparr>) f1)"

definition fake_DeleteTopic :: "int \<Rightarrow> FakeTelegram \<Rightarrow> error option \<times> FakeTelegram" where
  "fake_DeleteTopic threadID f =
     (case fake_record ''delete'' (''delete:'' @ Itoa threadID) f of
        (Some e, f1) \<Rightarrow> (Some e, f1)
      | (None, f1) \<Rightarrow>
          (case gm_get (ft_topics f1) threadID of
             None \<Rightarrow> (Some ErrTopicGone, f1)
           | Some _ \<Rightarrow> (None, f1\<lparr>ft_topics := gm_del threadID (ft_topics f1)\<rparr>)))"

definition send_call :: "Outgoing \<Rightarrow> string" where
  "send_call out =
     ''send:'' @ Itoa (og_ThreadID out) @ '':'' @ og_Text out
     @ (if og_ReplyTo out \<noteq> 0 then '':reply='' @ Itoa (og_ReplyTo out) else [])
     @ (if og_Notify out then '':notify'' else [])
     @ (if og_Buttons out \<noteq> [] then '':buttons='' @ Itoa (int (length (og_Buttons out))) else [])
     @ (if og_Markdown out then '':markdown'' else [])
     @ (if og_ForceReply out then '':forcereply'' else [])"

text \<open>The message takes the next id; its keyboard is kept.\<close>

definition new_message :: "Outgoing \<Rightarrow> FakeTelegram \<Rightarrow> int \<times> FakeTelegram" where
  "new_message out f =
     (let i = ft_nextMsgID f;
          f1 = f\<lparr>ft_nextMsgID := i + 1, ft_texts := gm_put i (og_Text out) (ft_texts f)\<rparr>
      in (i, if og_Buttons out \<noteq> [] then f1\<lparr>ft_buttons := gm_put i (og_Buttons out) (ft_buttons f1)\<rparr> else f1))"

definition fake_Send :: "Outgoing \<Rightarrow> FakeTelegram \<Rightarrow> int result \<times> FakeTelegram" where
  "fake_Send out f =
     (case fake_record ''send'' (send_call out) f of
        (Some e, f1) \<Rightarrow> (Inl e, f1)
      | (None, f1) \<Rightarrow>
          if og_ThreadID out \<noteq> 0 \<and> gm_get (ft_topics f1) (og_ThreadID out) = None then (Inl ErrTopicGone, f1)
          else (let (i, f2) = new_message out (f1\<lparr>ft_sent := ft_sent f1 @ [out]\<rparr>) in (Inr i, f2)))"

definition fake_SendDirect :: "int \<Rightarrow> Outgoing \<Rightarrow> FakeTelegram \<Rightarrow> int result \<times> FakeTelegram" where
  "fake_SendDirect userID out f =
     (case fake_record ''direct''
          (''direct:'' @ Itoa userID @ '':'' @ og_Text out
           @ (if og_Notify out then '':notify'' else [])
           @ (if og_Buttons out \<noteq> [] then '':buttons='' @ Itoa (int (length (og_Buttons out))) else [])) f of
        (Some e, f1) \<Rightarrow> (Inl e, f1)
      | (None, f1) \<Rightarrow>
          (let (i, f2) = new_message out (f1\<lparr>ft_direct := ft_direct f1 @ [out]\<rparr>) in (Inr i, f2)))"

definition fake_ProbeDirect :: "int \<Rightarrow> FakeTelegram \<Rightarrow> error option \<times> FakeTelegram" where
  "fake_ProbeDirect userID f = fake_record ''probe'' (''probe:'' @ Itoa userID) f"

definition fake_Pin :: "int \<Rightarrow> FakeTelegram \<Rightarrow> error option \<times> FakeTelegram" where
  "fake_Pin messageID f =
     (case fake_record ''pin'' (''pin:'' @ Itoa messageID) f of
        (Some e, f1) \<Rightarrow> (Some e, f1)
      | (None, f1) \<Rightarrow>
          if gm_get (ft_texts f1) messageID = None then (Some ErrMessageGone, f1)
          else (None, f1\<lparr>ft_pinned := gm_put messageID True (ft_pinned f1)\<rparr>))"

definition fake_Unpin :: "int \<Rightarrow> FakeTelegram \<Rightarrow> error option \<times> FakeTelegram" where
  "fake_Unpin messageID f =
     (case fake_record ''unpin'' (''unpin:'' @ Itoa messageID) f of
        (Some e, f1) \<Rightarrow> (Some e, f1)
      | (None, f1) \<Rightarrow> (None, f1\<lparr>ft_pinned := gm_del messageID (ft_pinned f1)\<rparr>))"

definition fake_DeleteMessage :: "int \<Rightarrow> FakeTelegram \<Rightarrow> error option \<times> FakeTelegram" where
  "fake_DeleteMessage messageID f =
     (case fake_record ''deletemsg'' (''deletemsg:'' @ Itoa messageID) f of
        (Some e, f1) \<Rightarrow> (Some e, f1)
      | (None, f1) \<Rightarrow>
          if gm_get (ft_texts f1) messageID = None then (Some ErrMessageGone, f1)
          else (None, f1\<lparr>ft_texts := gm_del messageID (ft_texts f1), ft_buttons := gm_del messageID (ft_buttons f1),
                        ft_pinned := gm_del messageID (ft_pinned f1)\<rparr>))"

text \<open>An empty keyboard removes the old one.\<close>

definition set_buttons :: "int \<Rightarrow> Button list \<Rightarrow> FakeTelegram \<Rightarrow> FakeTelegram" where
  "set_buttons messageID buttons f =
     f\<lparr>ft_buttons := (if buttons = [] then gm_del messageID (ft_buttons f) else gm_put messageID buttons (ft_buttons f))\<rparr>"

definition fake_EditText :: "int \<Rightarrow> string \<Rightarrow> Button list \<Rightarrow> FakeTelegram \<Rightarrow> error option \<times> FakeTelegram" where
  "fake_EditText messageID txt buttons f =
     (case fake_record ''edittext''
          (''edittext:'' @ Itoa messageID @ '':'' @ txt @ '':buttons='' @ Itoa (int (length buttons))) f of
        (Some e, f1) \<Rightarrow> (Some e, f1)
      | (None, f1) \<Rightarrow>
          if gm_get (ft_texts f1) messageID = None \<and> messageID \<ge> 1000 \<and> messageID < ft_nextMsgID f1
          then (Some ErrMessageGone, f1)
          else (None, set_buttons messageID buttons (f1\<lparr>ft_texts := gm_put messageID txt (ft_texts f1)\<rparr>)))"

definition fake_EditButtons :: "int \<Rightarrow> Button list \<Rightarrow> FakeTelegram \<Rightarrow> error option \<times> FakeTelegram" where
  "fake_EditButtons messageID buttons f =
     (case fake_record ''buttons'' (''buttons:'' @ Itoa messageID @ '':'' @ Join (map bt_Text buttons) ''|'') f of
        (Some e, f1) \<Rightarrow> (Some e, f1)
      | (None, f1) \<Rightarrow> (None, set_buttons messageID buttons f1))"

definition fake_AnswerButton :: "string \<Rightarrow> string \<Rightarrow> FakeTelegram \<Rightarrow> error option \<times> FakeTelegram" where
  "fake_AnswerButton callbackID txt f = fake_record ''answer'' (''answer:'' @ callbackID @ '':'' @ txt) f"

definition fake_SendDocument :: "Document \<Rightarrow> FakeTelegram \<Rightarrow> error option \<times> FakeTelegram" where
  "fake_SendDocument doc f =
     (case fake_record ''document''
          (''document:'' @ Itoa (dc_ThreadID doc) @ '':'' @ dc_Name doc @ '':'' @ Itoa (int (length (dc_Data doc)))
           @ (if dc_ReplyTo doc \<noteq> 0 then '':reply='' @ Itoa (dc_ReplyTo doc) else [])) f of
        (Some e, f1) \<Rightarrow> (Some e, f1)
      | (None, f1) \<Rightarrow>
          if dc_ThreadID doc \<noteq> 0 \<and> gm_get (ft_topics f1) (dc_ThreadID doc) = None then (Some ErrTopicGone, f1)
          else (None, f1\<lparr>ft_docs := ft_docs f1 @ [doc]\<rparr>))"

definition fake_Download :: "string \<Rightarrow> int \<Rightarrow> FakeTelegram \<Rightarrow> string result \<times> FakeTelegram" where
  "fake_Download fileID maxBytes f =
     (case fake_record ''download'' (''download:'' @ fileID @ '':'' @ Itoa maxBytes) f of
        (Some e, f1) \<Rightarrow> (Inl e, f1)
      | (None, f1) \<Rightarrow>
          (case gm_get (ft_files f1) fileID of
             None \<Rightarrow> (Inl (OtherError (''download '' @ fileID @ '': no such file in the fake'')), f1)
           | Some d \<Rightarrow> if int (length d) > maxBytes then (Inl ErrFileTooBig, f1) else (Inr d, f1)))"

definition fake_React :: "int \<Rightarrow> int \<Rightarrow> string \<Rightarrow> FakeTelegram \<Rightarrow> error option \<times> FakeTelegram" where
  "fake_React threadID messageID emoji f =
     fake_record ''react'' (''react:'' @ Itoa threadID @ '':'' @ Itoa messageID @ '':'' @ emoji) f"

definition fake_Rights :: "FakeTelegram \<Rightarrow> (Rights \<times> error option) \<times> FakeTelegram" where
  "fake_Rights f =
     (case fake_record ''rights'' ''rights'' f of
        (Some e, f1) \<Rightarrow>
          ((\<lparr>IsForum = False, IsAdmin = False, CanManageTopics = False, CanDeleteMessages = False, CanPinMessages = False\<rparr>,
            Some e), f1)
      | (None, f1) \<Rightarrow> ((ft_rights f1, ft_rightErr f1), f1))"

section \<open>Herdr, the store and the clock\<close>

record FakeHerdr =
  fh_renames :: "(string \<times> string option) list"
  fh_tabRenames :: "(string \<times> string) list"
  fh_failNext :: "(string, error) go_map"

definition fake_fail :: "string \<Rightarrow> FakeHerdr \<Rightarrow> error option \<times> FakeHerdr" where
  "fake_fail method f =
     (case gm_get (fh_failNext f) method of
        None \<Rightarrow> (None, f)
      | Some e \<Rightarrow> (Some e, f\<lparr>fh_failNext := gm_del method (fh_failNext f)\<rparr>))"

definition fake_Rename :: "string \<Rightarrow> string option \<Rightarrow> FakeHerdr \<Rightarrow> error option \<times> FakeHerdr" where
  "fake_Rename target name f = fake_fail ''rename'' (f\<lparr>fh_renames := fh_renames f @ [(target, name)]\<rparr>)"

definition fake_RenameTab :: "string \<Rightarrow> string \<Rightarrow> FakeHerdr \<Rightarrow> error option \<times> FakeHerdr" where
  "fake_RenameTab tabID label f = fake_fail ''rename_tab'' (f\<lparr>fh_tabRenames := fh_tabRenames f @ [(tabID, label)]\<rparr>)"

record MemMappingStore =
  ms_saved :: "Mapping option"
  ms_saves :: nat
  ms_err :: "error option"

definition store_Load :: "MemMappingStore \<Rightarrow> Mapping" where
  "store_Load s = (case ms_saved s of None \<Rightarrow> NewMapping 0 | Some m \<Rightarrow> m)"

definition store_Save :: "Mapping \<Rightarrow> MemMappingStore \<Rightarrow> error option \<times> MemMappingStore" where
  "store_Save m s =
     (case ms_err s of
        Some e \<Rightarrow> (Some e, s)
      | None \<Rightarrow> (None, s\<lparr>ms_saved := Some m, ms_saves := Suc (ms_saves s)\<rparr>))"

text \<open>The clock: the time and the timers not fired, each with its number and deadline.\<close>

record FakeClock =
  ck_now :: time
  ck_timers :: "(nat \<times> time) list"

definition clock_After :: "duration \<Rightarrow> FakeClock \<Rightarrow> nat \<times> FakeClock" where
  "clock_After d c =
     (let seq = length (ck_timers c) in (seq, c\<lparr>ck_timers := ck_timers c @ [(seq, ck_now c + d)]\<rparr>))"

text \<open>The timers that fire, earliest first, and the clock after them.\<close>

definition clock_Advance :: "duration \<Rightarrow> FakeClock \<Rightarrow> (nat \<times> time) list \<times> FakeClock" where
  "clock_Advance d c =
     (let now = ck_now c + d; timers = sort_key snd (ck_timers c)
      in (filter (\<lambda>t. \<not> snd t > now) timers, c\<lparr>ck_now := now, ck_timers := filter (\<lambda>t. snd t > now) timers\<rparr>))"

section \<open>The world of the reconciler's tests\<close>

record FakeWorld =
  fw_tg :: FakeTelegram
  fw_herdr :: FakeHerdr
  fw_store :: MemMappingStore
  fw_clock :: FakeClock
  fw_paused :: bool
  fw_quiet :: bool

definition fake_world :: FakeWorld where
  "fake_world =
     \<lparr>fw_tg = NewFakeTelegram, fw_herdr = \<lparr>fh_renames = [], fh_tabRenames = [], fh_failNext = []\<rparr>,
      fw_store = \<lparr>ms_saved = None, ms_saves = 0, ms_err = None\<rparr>,
      fw_clock = \<lparr>ck_now = 0, ck_timers = []\<rparr>, fw_paused = False, fw_quiet = False\<rparr>"

text \<open>A call on one of the doubles.\<close>

definition on_tg :: "(FakeTelegram \<Rightarrow> 'r \<times> FakeTelegram) \<Rightarrow> FakeWorld \<Rightarrow> 'r \<times> FakeWorld" where
  "on_tg call w = (let (x, f) = call (fw_tg w) in (x, w\<lparr>fw_tg := f\<rparr>))"

definition on_herdr :: "(FakeHerdr \<Rightarrow> 'r \<times> FakeHerdr) \<Rightarrow> FakeWorld \<Rightarrow> 'r \<times> FakeWorld" where
  "on_herdr call w = (let (x, f) = call (fw_herdr w) in (x, w\<lparr>fw_herdr := f\<rparr>))"

definition on_store :: "(MemMappingStore \<Rightarrow> 'r \<times> MemMappingStore) \<Rightarrow> FakeWorld \<Rightarrow> 'r \<times> FakeWorld" where
  "on_store call w = (let (x, f) = call (fw_store w) in (x, w\<lparr>fw_store := f\<rparr>))"

definition fakes :: "FakeWorld Gateways" where
  "fakes =
     \<lparr>gw_CreateTopic = (\<lambda>name status. on_tg (fake_CreateTopic name status)),
      gw_EditTopic = (\<lambda>th p. on_tg (fake_EditTopic th p)),
      gw_CloseTopic = (\<lambda>th. on_tg (fake_CloseTopic th)),
      gw_ReopenTopic = (\<lambda>th. on_tg (fake_ReopenTopic th)),
      gw_DeleteTopic = (\<lambda>th. on_tg (fake_DeleteTopic th)),
      gw_Send = (\<lambda>out. on_tg (fake_Send out)),
      gw_Rename = (\<lambda>target name. on_herdr (fake_Rename target name)),
      gw_RenameTab = (\<lambda>tab label. on_herdr (fake_RenameTab tab label)),
      gw_Save = (\<lambda>m. on_store (store_Save m)),
      gw_Now = (\<lambda>w. (ck_now (fw_clock w), w)),
      gw_paused = fw_paused,
      gw_quiet = fw_quiet,
      gw_ErrorText = (\<lambda>e. case e of OtherError s \<Rightarrow> s | _ \<Rightarrow> ''error'')\<rparr>"

section \<open>The doubles keep the contract of the forum\<close>

abbreviation fake_topic :: "FakeWorld \<Rightarrow> int \<Rightarrow> Topic option" where
  "fake_topic w \<equiv> gm_get (ft_topics (fw_tg w))"

abbreviation fake_used :: "FakeWorld \<Rightarrow> int set" where
  "fake_used w \<equiv> {..ft_nextID (fw_tg w)}"

definition fake_icon :: "Status \<Rightarrow> string" where "fake_icon s = s"

lemma fake_record_frame:
  assumes "fake_record method call f = (e, f1)"
  shows "ft_topics f1 = ft_topics f \<and> ft_nextID f1 = ft_nextID f"
  using assms by (auto simp: fake_record_def Let_def split: option.splits)

lemma fake_create:
  "fake_CreateTopic name status f = (Inr t, f') \<Longrightarrow>
     t = \<lparr>tp_ThreadID = ft_nextID f + 1, tp_Name = name, tp_IconEmojiID = status, tp_Closed = False\<rparr>
     \<and> ft_nextID f' = ft_nextID f + 1 \<and> gm_get (ft_topics f') = (gm_get (ft_topics f))(ft_nextID f + 1 \<mapsto> t)"
  "fake_CreateTopic name status f = (Inl e, f') \<Longrightarrow> ft_topics f' = ft_topics f \<and> ft_nextID f' = ft_nextID f"
  by (auto simp: fun_eq_iff fake_CreateTopic_def Let_def update_conv' dest: fake_record_frame split: prod.splits option.splits)

lemma on_topic_ok:
  "on_topic th change f = (None, f') \<Longrightarrow> ft_nextID f' = ft_nextID f
     \<and> (\<exists>t. gm_get (ft_topics f) th = Some t \<and> gm_get (ft_topics f') = (gm_get (ft_topics f))(th \<mapsto> change t))"
  "on_topic th change f = (Some e, f') \<Longrightarrow> f' = f"
  by (auto simp: fun_eq_iff on_topic_def update_conv' split: option.splits)

lemma fake_EditTopic_patched:
  "fake_EditTopic th p f =
     (if TopicPatch_Empty p then (None, f)
      else case fake_record ''edit'' (''edit:'' @ Itoa th @ '':'' @ Join (edit_parts p) '','') f of
        (Some e, f1) \<Rightarrow> (Some e, f1)
      | (None, f1) \<Rightarrow> on_topic th (patched fake_icon p) f1)"
  unfolding fake_EditTopic_def patched_def fake_icon_def ..

lemma fake_edit:
  "fake_EditTopic th p f = (None, f') \<Longrightarrow> \<not> TopicPatch_Empty p \<Longrightarrow> ft_nextID f' = ft_nextID f
     \<and> (\<exists>t. gm_get (ft_topics f) th = Some t \<and> gm_get (ft_topics f') = (gm_get (ft_topics f))(th \<mapsto> patched fake_icon p t))"
  "fake_EditTopic th p f = (Some e, f') \<Longrightarrow> ft_topics f' = ft_topics f \<and> ft_nextID f' = ft_nextID f"
  by (auto simp: fun_eq_iff fake_EditTopic_patched dest!: on_topic_ok fake_record_frame split: prod.splits option.splits if_splits)

lemma fake_close:
  "fake_CloseTopic th f = (None, f') \<Longrightarrow> ft_nextID f' = ft_nextID f
     \<and> (\<exists>t. gm_get (ft_topics f) th = Some t \<and> gm_get (ft_topics f') = (gm_get (ft_topics f))(th \<mapsto> t\<lparr>tp_Closed := True\<rparr>))"
  "fake_CloseTopic th f = (Some e, f') \<Longrightarrow> ft_topics f' = ft_topics f \<and> ft_nextID f' = ft_nextID f"
  by (auto simp: fun_eq_iff fake_CloseTopic_def dest!: on_topic_ok fake_record_frame split: prod.splits option.splits)

lemma fake_reopen:
  "fake_ReopenTopic th f = (None, f') \<Longrightarrow> ft_nextID f' = ft_nextID f
     \<and> (\<exists>t. gm_get (ft_topics f) th = Some t \<and> gm_get (ft_topics f') = (gm_get (ft_topics f))(th \<mapsto> t\<lparr>tp_Closed := False\<rparr>))"
  "fake_ReopenTopic th f = (Some e, f') \<Longrightarrow> ft_topics f' = ft_topics f \<and> ft_nextID f' = ft_nextID f"
  by (auto simp: fun_eq_iff fake_ReopenTopic_def dest!: on_topic_ok fake_record_frame split: prod.splits option.splits)

lemma fake_delete:
  "fake_DeleteTopic th f = (None, f') \<Longrightarrow> ft_nextID f' = ft_nextID f \<and> gm_get (ft_topics f') = (gm_get (ft_topics f))(th := None)"
  "fake_DeleteTopic th f = (Some e, f') \<Longrightarrow> ft_topics f' = ft_topics f \<and> ft_nextID f' = ft_nextID f"
  by (auto simp: fun_eq_iff fake_DeleteTopic_def dest!: fake_record_frame split: prod.splits option.splits)

lemma fake_send: "fake_Send out f = (x, f') \<Longrightarrow> ft_topics f' = ft_topics f \<and> ft_nextID f' = ft_nextID f"
  by (auto simp: fake_Send_def new_message_def Let_def dest!: fake_record_frame split: prod.splits option.splits if_splits)

lemmas fake_call_defs = fakes_def on_tg_def on_herdr_def on_store_def

interpretation fake: forum fakes fake_topic fake_used fake_icon
proof unfold_locales
  fix out and w :: FakeWorld
  obtain x f where "fake_Send out (fw_tg w) = (x, f)" by fastforce
  then show "fake_topic (snd (gw_Send fakes out w)) = fake_topic w" "fake_used (snd (gw_Send fakes out w)) = fake_used w"
    using fake_send [of out "fw_tg w"] by (simp_all add: fake_call_defs)
qed (auto simp: fake_call_defs fake_icon_def dest!: fake_create fake_edit fake_close fake_reopen fake_delete split: prod.splits)

section \<open>A sample world\<close>

definition sample_agent :: "string \<Rightarrow> string \<Rightarrow> Status \<Rightarrow> Agent" where
  "sample_agent pane name status =
     \<lparr>ag_Key = \<lparr>PaneID = pane, TerminalID = ''term''\<rparr>, ag_WorkspaceID = ''w1'', ag_WorkspaceLabel = ''shop'',
      ag_TabID = ''t1'', ag_TabLabel = ''api'', ag_Kind = ''claude'', ag_Name = name, ag_Title = [],
      ag_Status = status, ag_Revision = 0, ag_StateChangeSeq = 0, ag_Focused = False, ag_Cwd = []\<rparr>"

definition sample_recon :: "FakeWorld Reconciler" where
  "sample_recon = NewReconciler (NewMapping 7) fake_world"

end
