(* ===== verification/Reconciler_Safety.thy ===== *)
theory Reconciler_Safety
  imports Fakes
begin

text \<open>
  What the reconciler does not do: no call to Telegram while writes are off, none for a muted topic, no
  deletion beyond the stale candidates of a sweep, and no error to the daemon but the fatal ones. A world
  \<open>w'\<close> is \<open>untouched\<close> from \<open>w\<close> when only the clock was read and the mapping saved in between.
\<close>

inductive untouched :: "'w Gateways \<Rightarrow> 'w \<Rightarrow> 'w \<Rightarrow> bool" for g where
  same: "untouched g w w"
| clock: "untouched g w w1 \<Longrightarrow> untouched g w (snd (gw_Now g w1))"
| saved: "untouched g w w1 \<Longrightarrow> untouched g w (snd (gw_Save g m w1))"

lemmas untouched_intros = same clock saved

section \<open>Writes that are off\<close>

definition off :: "'w Gateways \<Rightarrow> 'w Reconciler \<Rightarrow> bool" where
  "off g r \<longleftrightarrow> rc_rightsLost r \<or> (\<forall>w. gw_paused g w \<or> gw_quiet g w)"

lemma off_blocked: "off g r \<Longrightarrow> blocked g r"
  by (auto simp: off_def blocked_def blockedReason_def)

lemma off_create: "off g r \<Longrightarrow> Reconciler_create g a r = (None, r)"
  by (simp add: Reconciler_create_def off_blocked)

lemma off_edit: "off g r \<Longrightarrow> Reconciler_edit g key r = (None, r)"
  by (simp add: Reconciler_edit_def off_blocked off_create split: option.split)

lemma off_exit: "off g r \<Longrightarrow> Reconciler_exit g key r = (None, r)"
  by (simp add: Reconciler_exit_def off_blocked split: option.split)

lemma off_finish: "off g r \<Longrightarrow> Reconciler_finish g key r = (None, r)"
  by (simp add: Reconciler_finish_def off_blocked split: option.split)

lemma off_each_edit: "off g r \<Longrightarrow> each (Reconciler_edit g) keys r = (None, r)"
  by (induction keys) (simp_all add: off_edit)

lemma off_fields [simp]:
  "off g (r\<lparr>rc_agents := as\<rparr>) = off g r" "off g (r\<lparr>rc_deb := d\<rparr>) = off g r" "off g (r\<lparr>rc_mapping := m\<rparr>) = off g r"
  "off g (r\<lparr>rc_world := w\<rparr>) = off g r" "off g (r\<lparr>rc_view := v\<rparr>) = off g r" "off g (r\<lparr>rc_force := b\<rparr>) = off g r"
  by (simp_all add: off_def)

lemma untouched_save: "untouched g w (rc_world r) \<Longrightarrow> untouched g w (rc_world (save g r))"
  by (simp add: save_def Let_def untouched.saved)

lemma untouched_stamped: "untouched g w (rc_world r) \<Longrightarrow> untouched g w (rc_world (stamped g f r))"
  by (simp add: stamped_def split_beta untouched.clock)

lemma untouched_schedule: "untouched g w (rc_world r) \<Longrightarrow> untouched g w (rc_world (rc_Schedule g key r))"
  by (simp add: rc_Schedule_def split_beta untouched.clock)

lemmas untouched_steps = untouched.same untouched_save untouched_stamped untouched_schedule

lemma off_save: "off g (save g r) = off g r"
  by (simp add: save_def Let_def)

lemma off_stamped: "off g (stamped g f r) = off g r"
  by (simp add: stamped_def split_beta)

text \<open>
  while writes are off - the bot lost its rights, or the operator's sync switch or quiet mode say so - no
  event, timer, pass or sweep makes a Telegram call, fails or changes the mapping; and when an operator closes
  or reopens a topic meanwhile, only the mapping and its file change.
\<close>

theorem blocked_touches_nothing:
  assumes "rc_rightsLost r \<or> (\<forall>w. gw_paused g w \<or> gw_quiet g w)"
  shows "(let (e, r') = Handle g ev r in e = None \<and> untouched g (rc_world r) (rc_world r') \<and> rc_mapping r' = rc_mapping r)
    \<and> (let (e, r') = Flush g r in e = None \<and> rc_world r' = rc_world r \<and> rc_mapping r' = rc_mapping r)
    \<and> Fire g key r = (None, r) \<and> Reconcile g live r = (None, r)
    \<and> Sweep g maxAge rights r = ((0, None), r)
    \<and> untouched g (rc_world r) (rc_world (snd (OnTopicClosed g th r)))
    \<and> untouched g (rc_world r) (rc_world (snd (OnTopicReopened g th r)))"
proof (intro conjI)
  have off: "off g r" using assms by (simp add: off_def)
  show "let (e, r') = Handle g ev r in e = None \<and> untouched g (rc_world r) (rc_world r') \<and> rc_mapping r' = rc_mapping r"
    using off by (cases "ae_Kind ev")
      (auto simp: Handle_def Let_def off_create off_edit off_exit rc_Cancel_def rc_Schedule_def untouched.same
        untouched.clock split_beta split: option.split)
  show "let (e, r') = Flush g r in e = None \<and> rc_world r' = rc_world r \<and> rc_mapping r' = rc_mapping r"
    using off by (simp add: Flush_def split_beta off_each_edit)
  show "Fire g key r = (None, r)" using off by (simp add: Fire_def off_edit)
  show "Reconcile g live r = (None, r)" using off by (simp add: Reconcile_def off_blocked)
  show "Sweep g maxAge rights r = ((0, None), r)" using off by (simp add: Sweep_def off_blocked)
  show "untouched g (rc_world r) (rc_world (snd (OnTopicClosed g th r)))"
    by (auto simp: OnTopicClosed_def untouched_steps split: option.split)
  show "untouched g (rc_world r) (rc_world (snd (OnTopicReopened g th r)))"
    using off by (auto simp: OnTopicReopened_def Let_def forced_def split_beta off_edit off_finish off_save off_stamped
        rc_Cancel_def untouched_steps split: option.split)
qed

theorem blocked_touches_nothing_witness:
  "let a = sample_agent ''p1'' ''ann'' StatusWorking; r = SetReadOnly True sample_recon
   in fst (Handle fakes \<lparr>ae_Kind = AgentAppeared, ae_Agent = a\<rparr> r) = None
      \<and> untouched fakes (rc_world r) (rc_world (snd (Handle fakes \<lparr>ae_Kind = AgentAppeared, ae_Agent = a\<rparr> r)))
      \<and> Reconcile fakes [a] r = (None, r)"
proof -
  have "rc_rightsLost (SetReadOnly True sample_recon)" by (simp add: SetReadOnly_def)
  then have "rc_rightsLost (SetReadOnly True sample_recon) \<or> (\<forall>w. gw_paused fakes w \<or> gw_quiet fakes w)" by blast
  from blocked_touches_nothing [OF this] show ?thesis by (auto simp: Let_def split_beta)
qed

section \<open>Muted topics\<close>


text \<open>The sample agent's topic after the operator closed it by hand.\<close>

definition sample_muted :: "FakeWorld Reconciler" where
  "sample_muted =
     sample_recon\<lparr>rc_mapping := Mute (Link (NewMapping 7) \<lparr>PaneID = ''p1'', TerminalID = ''term''\<rparr>
        \<lparr>tp_ThreadID = 101, tp_Name = ''shop'', tp_IconEmojiID = StatusWorking, tp_Closed = False\<rparr>
        (sample_agent ''p1'' ''ann'' StatusWorking) 0) \<lparr>PaneID = ''p1'', TerminalID = ''term''\<rparr> 5\<rparr>"


section \<open>Errors\<close>

definition reported :: "error \<Rightarrow> bool" where
  "reported e \<longleftrightarrow> fatal e \<or> isChatMigrated e \<or> ctx_error e"

lemma fail_reported: "fst (Reconciler_fail g key e r) = Some x \<Longrightarrow> reported x"
  by (auto simp: Reconciler_fail_def reported_def split: if_splits)

lemma fail_reported': "Reconciler_fail g key e r = (Some x, r') \<Longrightarrow> reported x"
  using fail_reported [of g key e r] by simp

lemma createTopic_reported: "createTopic g a r = (Some x, r') \<Longrightarrow> reported x"
  by (auto simp: createTopic_def split_beta dest!: fail_reported' split: prod.splits sum.splits)

lemma revive_open_reported: "revive_open g a e r = (Some x, r') \<Longrightarrow> reported x"
  by (auto simp: revive_open_def Let_def split_beta dest!: fail_reported' split: prod.splits option.splits)

lemma revive_reported: "revive g a e r = (Some x, r') \<Longrightarrow> reported x"
  by (auto simp: revive_def Let_def dest!: fail_reported' createTopic_reported revive_open_reported
      split: prod.splits option.splits if_splits)

lemma create_reported: "Reconciler_create g a r = (Some x, r') \<Longrightarrow> reported x"
  by (auto simp: Reconciler_create_def dest!: createTopic_reported revive_reported split: option.splits if_splits)

lemma edit_reported: "Reconciler_edit g key r = (Some x, r') \<Longrightarrow> reported x"
  by (auto simp: Reconciler_edit_def dest!: fail_reported' create_reported split: option.splits if_splits prod.splits)

lemma close_reported: "Reconciler_close g key r = (Some x, r') \<Longrightarrow> reported x"
  by (auto simp: Reconciler_close_def dest!: fail_reported' split: option.splits if_splits prod.splits)

lemma mark_and_close_reported: "mark_and_close g key e r = (Some x, r') \<Longrightarrow> reported x"
  by (auto simp: mark_and_close_def dest!: fail_reported' close_reported split: option.splits prod.splits)

lemma exit_reported: "Reconciler_exit g key r = (Some x, r') \<Longrightarrow> reported x"
  by (auto simp: Reconciler_exit_def dest!: mark_and_close_reported close_reported split: option.splits if_splits)

lemma finish_reported: "Reconciler_finish g key r = (Some x, r') \<Longrightarrow> reported x"
  by (auto simp: Reconciler_finish_def dest!: mark_and_close_reported split: option.splits if_splits)

lemma each_reported:
  assumes "\<And>y s s' x. f y s = (Some x, s') \<Longrightarrow> reported x" and "each f ys s = (Some x, s')"
  shows "reported x"
  using assms(2) by (induction ys arbitrary: s) (auto split: prod.splits option.splits dest: assms(1))

lemma live_step_reported: "live_step g a r = (Some x, r') \<Longrightarrow> reported x"
  by (auto simp: live_step_def dest!: create_reported edit_reported split: option.splits if_splits)

lemma orphan_step_reported: "orphan_step g k r = (Some x, r') \<Longrightarrow> reported x"
  by (simp add: orphan_step_def exit_reported)

lemma each_live_reported: "each (live_step g) xs r = (Some x, r') \<Longrightarrow> reported x"
  by (rule each_reported [of "live_step g"]) (rule live_step_reported)

lemma each_close_reported: "each (Reconciler_close g) ks r = (Some x, r') \<Longrightarrow> reported x"
  by (rule each_reported [of "Reconciler_close g"]) (rule close_reported)

lemma each_orphan_reported: "each (orphan_step g) ks r = (Some x, r') \<Longrightarrow> reported x"
  by (rule each_reported [of "orphan_step g"]) (rule orphan_step_reported)

lemma each_edit_reported: "each (Reconciler_edit g) ks r = (Some x, r') \<Longrightarrow> reported x"
  by (rule each_reported [of "Reconciler_edit g"]) (rule edit_reported)

lemmas loop_reported = each_live_reported each_close_reported each_orphan_reported each_edit_reported

lemma Reconcile_reported: "Reconcile g live r = (Some x, r') \<Longrightarrow> reported x"
  by (auto simp: Reconcile_def Let_def split: if_splits prod.splits option.splits dest: loop_reported)

lemma Flush_reported: "Flush g r = (Some x, r') \<Longrightarrow> reported x"
  by (auto simp: Flush_def split: prod.splits dest: loop_reported)

lemma Resync_reported: "Resync g live r = (Some x, r') \<Longrightarrow> reported x"
  by (auto simp: Resync_def split: prod.splits dest: Reconcile_reported)

lemma fst_SomeE: "fst p = Some x \<Longrightarrow> (\<And>r'. p = (Some x, r') \<Longrightarrow> P) \<Longrightarrow> P"
  by (cases p) simp

lemmas op_reported = create_reported edit_reported exit_reported finish_reported

lemma Handle_reported: "Handle g ev r = (Some x, r') \<Longrightarrow> reported x"
  by (cases "ae_Kind ev") (auto simp: Handle_def Let_def split: option.splits if_splits dest: op_reported)

lemma OnTopicReopened_reported: "OnTopicReopened g th r = (Some x, r') \<Longrightarrow> reported x"
  by (auto simp: OnTopicReopened_def Let_def forced_def split: option.splits if_splits prod.splits dest: op_reported)

text \<open>
  C30: the error policy. An event, a timer, a pass or an operator's action fails only with an error the daemon
  must act on - no rights, a rejected token, a second poller, a migrated chat, a cancelled context - never
  with a transient one; a call refused because the topic is gone forgets the entry, and every other failure
  leaves the mapping as it is for the next pass.
\<close>

theorem errors_reported:
  "(fst (Handle g ev r) = Some x \<or> fst (Fire g key r) = Some x \<or> fst (Flush g r) = Some x
      \<or> fst (Reconcile g live r) = Some x \<or> fst (Resync g live r) = Some x
      \<or> fst (OnTopicClosed g th r) = Some x \<or> fst (OnTopicReopened g th r) = Some x
    \<longrightarrow> x \<in> {ErrForbidden, ErrBotUnauthorized, ErrPollerConflict, CtxCanceled, CtxDeadlineExceeded} \<or> isChatMigrated x)
   \<and> fst (Reconciler_fail g key e r) = (if reported e then Some e else None)
   \<and> TopicFor (rc_mapping (snd (Reconciler_fail g key e r))) key = (if e = ErrTopicGone then None else TopicFor (rc_mapping r) key)
   \<and> (e = ErrTopicGone \<or> snd (Reconciler_fail g key e r) = r)"
proof (intro conjI impI)
  have closed: "fst (OnTopicClosed g th r) = None" by (simp add: OnTopicClosed_def split: option.split)
  assume "fst (Handle g ev r) = Some x \<or> fst (Fire g key r) = Some x \<or> fst (Flush g r) = Some x
      \<or> fst (Reconcile g live r) = Some x \<or> fst (Resync g live r) = Some x
      \<or> fst (OnTopicClosed g th r) = Some x \<or> fst (OnTopicReopened g th r) = Some x"
  then have "reported x"
    unfolding closed Fire_def
    by (elim disjE fst_SomeE) (simp_all add: Handle_reported edit_reported Flush_reported Reconcile_reported
        Resync_reported OnTopicReopened_reported)
  then show "x \<in> {ErrForbidden, ErrBotUnauthorized, ErrPollerConflict, CtxCanceled, CtxDeadlineExceeded} \<or> isChatMigrated x"
    by (auto simp: reported_def fatal_def ctx_error_def)
qed (auto simp: Reconciler_fail_def reported_def fatal_def ctx_error_def isChatMigrated_def save_def rc_Forget_def
    TopicFor_Forget Let_def)

theorem errors_reported_witness:
  "let a = sample_agent ''p1'' ''ann'' StatusWorking;
       r = sample_recon\<lparr>rc_world := fake_world\<lparr>fw_tg := FailNext ''create'' ErrForbidden NewFakeTelegram\<rparr>\<rparr>;
       x = the (fst (Reconcile fakes [a] r))
   in fst (Reconcile fakes [a] r) = Some x
      \<and> (x \<in> {ErrForbidden, ErrBotUnauthorized, ErrPollerConflict, CtxCanceled, CtxDeadlineExceeded} \<or> isChatMigrated x)"
proof -
  let ?a = "sample_agent ''p1'' ''ann'' StatusWorking"
  let ?r = "sample_recon\<lparr>rc_world := fake_world\<lparr>fw_tg := FailNext ''create'' ErrForbidden NewFakeTelegram\<rparr>\<rparr>"
  have "fst (Reconcile fakes [?a] ?r) = Some ErrForbidden" by code_simp
  then show ?thesis
    using errors_reported [of fakes undefined ?r ErrForbidden undefined "[?a]" undefined undefined] by (simp add: Let_def)
qed

section \<open>The sweep\<close>

text \<open>From \<open>w\<close> to \<open>w'\<close> nothing happened but reads of the clock, saves and deletions of topics in \<open>T\<close>.\<close>

inductive swept :: "'w Gateways \<Rightarrow> int set \<Rightarrow> 'w \<Rightarrow> 'w \<Rightarrow> bool" for g T where
  none: "swept g T w w"
| clock: "swept g T w w1 \<Longrightarrow> swept g T w (snd (gw_Now g w1))"
| saved: "swept g T w w1 \<Longrightarrow> swept g T w (snd (gw_Save g m w1))"
| deleted: "swept g T w w1 \<Longrightarrow> th \<in> T \<Longrightarrow> swept g T w (snd (gw_DeleteTopic g th w1))"

lemma swept_trans: "swept g T w1 w2 \<Longrightarrow> swept g T w w1 \<Longrightarrow> swept g T w w2"
  by (induction rule: swept.induct) (auto intro: swept.intros)

definition topics_of :: "'w Reconciler \<Rightarrow> string \<Rightarrow> TopicEntry option" where
  "topics_of r = gm_get (mp_Topics (rc_mapping r))"

lemma topics_of_fields [simp]:
  "topics_of (r\<lparr>rc_world := w\<rparr>) = topics_of r" "topics_of (r\<lparr>rc_sweepRightsWarned := b\<rparr>) = topics_of r"
  "topics_of (r\<lparr>rc_sweepRightsWarned := b, rc_world := w\<rparr>) = topics_of r"
  by (simp_all add: topics_of_def)

lemma sweep_loop_spec:
  assumes "sweep_loop g keys n r = (n', stop, r')"
    and "\<forall>k\<in>set keys. \<forall>e. TopicFor (rc_mapping r) k = Some e \<longrightarrow> te_ThreadID e \<in> T"
  shows "\<exists>D. D \<subseteq> Key_String ` set keys \<and> D \<subseteq> dom (topics_of r) \<and> n' = n + card D
    \<and> topics_of r' = (\<lambda>s. if s \<in> D then None else topics_of r s) \<and> swept g T (rc_world r) (rc_world r')"
  using assms
proof (induction keys arbitrary: n r)
  case Nil
  then show ?case by (intro exI [of _ "{}"]) (auto intro: swept.none)
next
  case (Cons key keys)
  show ?case
  proof (cases "TopicFor (rc_mapping r) key")
    case None
    then have run: "sweep_loop g keys n r = (n', stop, r')" using Cons.prems(1) by simp
    have sub: "\<forall>k\<in>set keys. \<forall>e. TopicFor (rc_mapping r) k = Some e \<longrightarrow> te_ThreadID e \<in> T"
      using Cons.prems(2) by simp
    from Cons.IH [OF run sub] show ?thesis by auto
  next
    case e: (Some e)
    obtain res w where c: "gw_DeleteTopic g (te_ThreadID e) (rc_world r) = (res, w)" by fastforce
    let ?r1 = "save g (rc_Forget key (r\<lparr>rc_world := w\<rparr>))"
    have th: "te_ThreadID e \<in> T" using Cons.prems(2) e by simp
    have w: "swept g T (rc_world r) w"
      using swept.deleted [where th = "te_ThreadID e" and ?w1.0 = "rc_world r", OF swept.none th] c by (metis snd_conv)
    have stopped: ?thesis if "n' = n" "r' = r\<lparr>rc_world := w\<rparr>"
      using that w by (intro exI [of _ "{}"]) (simp add: topics_of_def)
    consider (gone) "res = None \<or> res = Some ErrTopicGone" | (stop) "n' = n" "r' = r\<lparr>rc_world := w\<rparr>"
      | (skip) "sweep_loop g keys n (r\<lparr>rc_world := w\<rparr>) = (n', stop, r')"
      using Cons.prems(1) e c by (auto simp: Let_def split: if_splits)
    then show ?thesis
    proof cases
      case gone
      have get: "topics_of ?r1 = (topics_of r)(Key_String key := None)"
        by (rule ext) (simp add: topics_of_def save_def rc_Forget_def Forget_def Let_def)
      have run: "sweep_loop g keys (Suc n) ?r1 = (n', stop, r')"
        using Cons.prems(1) e c gone by auto
      have sub: "\<forall>k\<in>set keys. \<forall>d. TopicFor (rc_mapping ?r1) k = Some d \<longrightarrow> te_ThreadID d \<in> T"
        using Cons.prems(2) get by (auto simp: TopicFor_def topics_of_def split: if_splits)
      obtain D where D: "D \<subseteq> Key_String ` set keys" "D \<subseteq> dom (topics_of ?r1)" "n' = Suc n + card D"
          "topics_of r' = (\<lambda>s. if s \<in> D then None else topics_of ?r1 s)" "swept g T (rc_world ?r1) (rc_world r')"
        using Cons.IH [OF run sub] by blast
      have "finite D" using D(1) by (rule finite_subset) simp
      moreover have "Key_String key \<notin> D" using D(2) get by auto
      moreover have "swept g T (rc_world r) (rc_world ?r1)"
        using swept.saved [OF w] by (simp add: save_def rc_Forget_def Let_def)
      moreover have "Key_String key \<in> dom (topics_of r)" using e by (auto simp: topics_of_def TopicFor_def)
      ultimately show ?thesis
        using D swept_trans [OF D(5)] by (intro exI [of _ "insert (Key_String key) D"]) (auto simp: get fun_eq_iff)
    next
      case stop
      then show ?thesis by (rule stopped)
    next
      case skip
      have sub: "\<forall>k\<in>set keys. \<forall>d. TopicFor (rc_mapping (r\<lparr>rc_world := w\<rparr>)) k = Some d \<longrightarrow> te_ThreadID d \<in> T"
        using Cons.prems(2) by simp
      from Cons.IH [OF skip sub, unfolded topics_of_fields] obtain D where "D \<subseteq> Key_String ` set keys" "D \<subseteq> dom (topics_of r)" "n' = n + card D"
          "topics_of r' = (\<lambda>s. if s \<in> D then None else topics_of r s)" "swept g T w (rc_world r')"
        by auto
      then show ?thesis using swept_trans [OF _ w] by (intro exI [of _ D]) auto
    qed
  qed
qed

lemma sweep_loop_stop:
  "sweep_loop g keys n r = (n', Some x, r') \<Longrightarrow> x = ErrForbidden \<or> ctx_error x"
  by (induction keys arbitrary: n r) (auto simp: ctx_error_def Let_def split: option.splits prod.splits if_splits)


text \<open>A finished, closed topic, a day and a nanosecond later.\<close>

definition sample_stale :: "FakeWorld Reconciler" where
  "sample_stale =
     sample_recon\<lparr>
       rc_mapping := MarkClosed (MarkExited (Link (NewMapping 7) \<lparr>PaneID = ''p1'', TerminalID = ''term''\<rparr>
          \<lparr>tp_ThreadID = 101, tp_Name = ''shop'', tp_IconEmojiID = StatusWorking, tp_Closed = False\<rparr>
          (sample_agent ''p1'' ''ann'' StatusWorking) 0) \<lparr>PaneID = ''p1'', TerminalID = ''term''\<rparr> 5)
          \<lparr>PaneID = ''p1'', TerminalID = ''term''\<rparr> 5,
       rc_world := fake_world\<lparr>fw_clock := \<lparr>ck_now = 24 * Hour + 6, ck_timers = []\<rparr>\<rparr>\<rparr>"


section \<open>A reopen that is lost\<close>

text \<open>
  An operator closes the topic of a live agent, the agent exits, and the operator reopens the topic while
  quiet mode holds topic edits. \<open>OnTopicReopened\<close> lifts the mute and records the reopening, but the finish
  flag is not written. When quiet mode ends, \<open>Reconcile\<close> finds an entry that is exited and open and closes
  the topic again, its icon still the working one.
\<close>

definition operator_sets :: "bool \<Rightarrow> FakeWorld Reconciler \<Rightarrow> FakeWorld Reconciler" where
  "operator_sets closed r =
     r\<lparr>rc_world := (rc_world r)\<lparr>fw_tg := snd ((if closed then fake_CloseTopic else fake_ReopenTopic) 101 (fw_tg (rc_world r)))\<rparr>\<rparr>"

definition quiet_switched :: "bool \<Rightarrow> FakeWorld Reconciler \<Rightarrow> FakeWorld Reconciler" where
  "quiet_switched q r = r\<lparr>rc_world := (rc_world r)\<lparr>fw_quiet := q\<rparr>\<rparr>"

definition reopened_in_quiet :: "FakeWorld Reconciler" where
  "reopened_in_quiet =
     (let a = sample_agent ''p1'' ''ann'' StatusWorking;
          r1 = snd (Handle fakes \<lparr>ae_Kind = AgentAppeared, ae_Agent = a\<rparr> sample_recon);
          r2 = snd (OnTopicClosed fakes 101 (operator_sets True r1));
          r3 = snd (Handle fakes \<lparr>ae_Kind = AgentGone, ae_Agent = a\<rparr> r2);
          r4 = snd (OnTopicReopened fakes 101 (operator_sets False (quiet_switched True r3)))
      in snd (Reconcile fakes [] (quiet_switched False r4)))"

lemma reopen_in_quiet_loses_flag:
  "fake_topic (rc_world reopened_in_quiet) 101 =
     Some \<lparr>tp_ThreadID = 101, tp_Name = fst (Desired (sample_agent ''p1'' ''ann'' StatusWorking)),
           tp_IconEmojiID = StatusWorking, tp_Closed = True\<rparr>"
  by code_simp

end
