(* ===== verification/Wire.thy ===== *)
theory Wire
  imports Complex_Main Inbound
begin

text \<open>
  The values of the relay to Maestri, \<^verbatim>\<open>internal/domain/relay.go\<close>: what its wire reports, the configuration, and the
  arrangements of nodes it creates. A \<^verbatim>\<open>float64\<close> is a rational number or one of the special values; only comparisons are used.
  \<open>json\<close> is a decoded JSON value and a \<^verbatim>\<open>json.RawMessage\<close> an option of it: \<open>None\<close> is the empty message, which is no JSON.
\<close>

section \<open>JSON\<close>

datatype float64 = Finite rat | Inf bool | NaN

datatype json =
    JNull | JBool bool | JNumber float64 | JString string | JArray "json list" | JObject "(string \<times> json) list"

type_synonym RawMessage = "json option"

text \<open>
  Decoding one string field of a struct: names match without regard to case, the last entry wins, null leaves the field as it
  is, any other value than a string is an error (\<open>None\<close>).
\<close>

fun decode_string :: "string \<Rightarrow> (string \<times> json) list \<Rightarrow> string \<Rightarrow> string option" where
  "decode_string name [] v = Some v"
| "decode_string name ((k, j) # fs) v =
     (if EqualFold k name
      then (case j of JString s \<Rightarrow> decode_string name fs s | JNull \<Rightarrow> decode_string name fs v | _ \<Rightarrow> None)
      else decode_string name fs v)"

text \<open>The last entry of an object under a name, \<open>None\<close> when there is none or it is null.\<close>

definition decode_field :: "string \<Rightarrow> (string \<times> json) list \<Rightarrow> json option" where
  "decode_field name fs =
     (case filter (\<lambda>p. EqualFold (fst p) name \<and> snd p \<noteq> JNull) fs of [] \<Rightarrow> None | p # ps \<Rightarrow> Some (snd (last (p # ps))))"

fun decode_all :: "('a \<Rightarrow> 'b option) \<Rightarrow> 'a list \<Rightarrow> 'b list option" where
  "decode_all f [] = Some []"
| "decode_all f (x # xs) =
     (case f x of None \<Rightarrow> None | Some y \<Rightarrow> (case decode_all f xs of None \<Rightarrow> None | Some ys \<Rightarrow> Some (y # ys)))"

text \<open>A list of structs of strings under one name, each struct by the names of its fields.\<close>

definition decode_struct :: "string list \<Rightarrow> json \<Rightarrow> string list option" where
  "decode_struct names j =
     (case j of
        JObject fs \<Rightarrow> decode_all (\<lambda>n. decode_string n fs []) names
      | JNull \<Rightarrow> Some (map (\<lambda>n. []) names)
      | _ \<Rightarrow> None)"

definition decode_list :: "string \<Rightarrow> string list \<Rightarrow> RawMessage \<Rightarrow> string list list option" where
  "decode_list name names raw =
     (case raw of
        Some (JObject fs) \<Rightarrow>
          (case decode_field name fs of
             None \<Rightarrow> Some []
           | Some (JArray xs) \<Rightarrow> decode_all (decode_struct names) xs
           | Some _ \<Rightarrow> None)
      | Some JNull \<Rightarrow> Some []
      | _ \<Rightarrow> None)"

section \<open>The wire\<close>

record WireInfo =
  wi_Name :: string
  wi_ProtocolVersion :: int
  wi_Capabilities :: "string list"
  wi_Role :: string

definition WireInfo_Has :: "WireInfo \<Rightarrow> string \<Rightarrow> bool" where
  "WireInfo_Has i c \<longleftrightarrow> c \<in> set (wi_Capabilities i) \<or> c = []"

record WireFloor =
  wl_ID :: string
  wl_Name :: string
  wl_IsCloneMissing :: bool

record WireWorkspace =
  ww_ID :: string
  ww_Name :: string
  ww_WorkingDirectory :: string
  ww_IsLocked :: bool
  ww_Floors :: "WireFloor list"

record WireTerminal =
  wt_ID :: string
  wt_NodeID :: string
  wt_Name :: string
  wt_AgentType :: string
  wt_FloorID :: string
  wt_FloorName :: string
  wt_Status :: string
  wt_IsRunning :: bool
  wt_IsLive :: bool
  wt_IsManager :: bool
  wt_NeedsAttention :: bool
  wt_Preview :: "string list"

record WireItem =
  it_Kind :: string
  it_Terminal :: WireTerminal
  it_Prompt :: string

record PendingFloor =
  pf_ID :: string
  pf_Error :: string

record WireFeed =
  wf_Workspace :: WireWorkspace
  wf_Floors :: "WireFloor list"
  wf_Items :: "WireItem list"
  wf_Epoch :: string
  wf_Canvas :: RawMessage
  wf_PendingFloors :: "PendingFloor list"

record AgentPreset =
  ap_ID :: string
  ap_Name :: string
  ap_AgentType :: string
  ap_Command :: string
  ap_IsDefault :: bool

section \<open>Configuration\<close>

record RelayConfig =
  rg_WireURL :: string
  rg_WirePin :: string
  rg_WireToken :: string
  rg_BotToken :: string
  rg_ChatID :: int
  rg_Operators :: "int list"
  rg_Observers :: "int list"
  rg_Workspaces :: "string list"
  rg_PollSeconds :: int
  rg_LLMKey :: string

definition Allows :: "RelayConfig \<Rightarrow> string \<Rightarrow> bool" where
  "Allows c ws \<longleftrightarrow> (\<exists>i\<in>set (rg_Workspaces c). i = ws \<or> i = ''*'')"

definition Operator :: "RelayConfig \<Rightarrow> int \<Rightarrow> bool" where
  "Operator c i \<longleftrightarrow> (\<exists>a\<in>set (rg_Operators c). a = i \<and> i > 0)"

section \<open>Arrangements\<close>

record ArrangementNode =
  an_ID :: string
  an_Kind :: string
  an_Name :: string
  an_PresetID :: string
  an_AgentType :: string
  an_Prompt :: string
  an_Text :: string
  an_URL :: string
  an_Manager :: bool
  an_X :: float64
  an_Y :: float64
  an_Width :: float64
  an_Height :: float64

record ArrangementConnection =
  ac_From :: string
  ac_To :: string

record Arrangement =
  ar_ID :: string
  ar_Name :: string
  ar_Description :: string
  ar_Source :: string
  ar_Revision :: string
  ar_Nodes :: "ArrangementNode list"
  ar_Connections :: "ArrangementConnection list"

record MaestroPlan =
  pl_Action :: string
  pl_Message :: string
  pl_WorkspaceID :: string
  pl_WorkspaceName :: string
  pl_Directory :: string
  pl_FloorID :: string
  pl_FloorName :: string
  pl_Arrangement :: Arrangement

definition relay_id_char :: "char \<Rightarrow> bool" where
  "relay_id_char c \<longleftrightarrow>
     (let b = byte c in 65 \<le> b \<and> b \<le> 90 \<or> 97 \<le> b \<and> b \<le> 122 \<or> 48 \<le> b \<and> b \<le> 57 \<or> b = 95 \<or> b = 45)"

definition ValidRelayID :: "string \<Rightarrow> bool" where
  "ValidRelayID i \<longleftrightarrow> 1 \<le> length i \<and> length i \<le> 100 \<and> list_all relay_id_char i"

text \<open>What the validation looks at in a parsed URL; the parser of \<^verbatim>\<open>net/url\<close> is an argument.\<close>

record ParsedURL =
  ul_Scheme :: string
  ul_Host :: string
  ul_HasUser :: bool

definition valid_coordinate :: "float64 \<Rightarrow> bool" where
  "valid_coordinate v = (case v of Finite q \<Rightarrow> \<bar>q\<bar> \<le> 100000 | _ \<Rightarrow> False)"

definition too_small :: "float64 \<Rightarrow> bool" where
  "too_small v = (case v of Finite q \<Rightarrow> q < 40 | Inf neg \<Rightarrow> neg | NaN \<Rightarrow> False)"

text \<open>One turn of the loop over the nodes; \<open>seen\<close> holds the ids before it. An error is named by its case.\<close>

definition node_error :: "(string \<Rightarrow> ParsedURL option) \<Rightarrow> string list \<Rightarrow> ArrangementNode \<Rightarrow> error option" where
  "node_error parse seen n =
     (if \<not> ValidRelayID (an_ID n) \<or> an_Name n = [] \<or> length (an_Name n) > 200 then Some (OtherError ''invalid node identity'')
      else if an_ID n \<in> set seen then Some (OtherError ''duplicate node'')
      else if \<exists>v\<in>set [an_X n, an_Y n, an_Width n, an_Height n]. \<not> valid_coordinate v then Some (OtherError ''invalid geometry'')
      else if too_small (an_Width n) \<or> too_small (an_Height n) \<or> length (an_Text n) > 100000 \<or> length (an_Prompt n) > 50000
      then Some (OtherError ''size or content out of bounds'')
      else if an_Kind n = ''terminal''
      then (if TrimSpace (an_Prompt n) = [] then Some (OtherError ''no responsibility'') else None)
      else if an_Kind n = ''note'' then None
      else if an_Kind n = ''portal''
      then (case parse (an_URL n) of
              None \<Rightarrow> Some (OtherError ''portal needs an HTTP(S) URL without credentials'')
            | Some u \<Rightarrow>
                if ul_Host u = [] \<or> ul_Scheme u \<notin> {''https'', ''http''} \<or> ul_HasUser u
                then Some (OtherError ''portal needs an HTTP(S) URL without credentials'') else None)
      else Some (OtherError ''unsupported node kind''))"

fun nodes_error :: "(string \<Rightarrow> ParsedURL option) \<Rightarrow> string list \<Rightarrow> ArrangementNode list \<Rightarrow> error option" where
  "nodes_error parse seen [] = None"
| "nodes_error parse seen (n # ns) =
     (case node_error parse seen n of Some e \<Rightarrow> Some e | None \<Rightarrow> nodes_error parse (an_ID n # seen) ns)"

definition edge_key :: "string \<Rightarrow> string \<Rightarrow> string" where "edge_key a b = a @ ''/'' @ b"

fun edges_error :: "string list \<Rightarrow> string list \<Rightarrow> ArrangementConnection list \<Rightarrow> error option" where
  "edges_error ids edges [] = None"
| "edges_error ids edges (c # cs) =
     (if ac_From c \<notin> set ids \<or> ac_To c \<notin> set ids \<or> ac_From c = ac_To c then Some (OtherError ''invalid connection'')
      else if edge_key (ac_From c) (ac_To c) \<in> set edges \<or> edge_key (ac_To c) (ac_From c) \<in> set edges
      then Some (OtherError ''duplicate connection'')
      else edges_error ids (edge_key (ac_From c) (ac_To c) # edges) cs)"

definition Arrangement_Validate :: "(string \<Rightarrow> ParsedURL option) \<Rightarrow> Arrangement \<Rightarrow> error option" where
  "Arrangement_Validate parse a =
     (if TrimSpace (ar_Name a) = [] \<or> length (ar_Name a) > 200 \<or> length (ar_Nodes a) = 0 \<or> length (ar_Nodes a) > 80
         \<or> length (ar_Connections a) > 400
      then Some (OtherError ''arrangement needs a name, 1 to 80 nodes and at most 400 connections'')
      else case nodes_error parse [] (ar_Nodes a) of
             Some e \<Rightarrow> Some e
           | None \<Rightarrow> edges_error (map an_ID (ar_Nodes a)) [] (ar_Connections a))"

section \<open>What validation promises\<close>

lemma nodes_error_None:
  "nodes_error parse seen ns = None \<Longrightarrow>
     distinct (map an_ID ns) \<and> (\<forall>n\<in>set ns. ValidRelayID (an_ID n) \<and> an_ID n \<notin> set seen \<and> valid_coordinate (an_X n)
       \<and> valid_coordinate (an_Y n) \<and> valid_coordinate (an_Width n) \<and> valid_coordinate (an_Height n)
       \<and> an_Kind n \<in> {''terminal'', ''note'', ''portal''} \<and> (an_Kind n = ''terminal'' \<longrightarrow> TrimSpace (an_Prompt n) \<noteq> []))"
proof (induction ns arbitrary: seen)
  case (Cons n ns)
  from Cons.prems have n: "node_error parse seen n = None" and ns: "nodes_error parse (an_ID n # seen) ns = None"
    by (simp_all split: option.splits)
  from n have "ValidRelayID (an_ID n) \<and> an_ID n \<notin> set seen \<and> valid_coordinate (an_X n) \<and> valid_coordinate (an_Y n)
    \<and> valid_coordinate (an_Width n) \<and> valid_coordinate (an_Height n) \<and> an_Kind n \<in> {''terminal'', ''note'', ''portal''}
    \<and> (an_Kind n = ''terminal'' \<longrightarrow> TrimSpace (an_Prompt n) \<noteq> [])"
    unfolding node_error_def by (simp split: if_splits)
  with Cons.IH [OF ns] show ?case by auto
qed simp

text \<open>A slash occurs in no valid id, so the key of an edge determines it.\<close>

lemma valid_id_no_slash: "ValidRelayID i \<Longrightarrow> CHR ''/'' \<notin> set i"
  by (auto simp: ValidRelayID_def relay_id_char_def list_all_iff)

lemma edge_key_inject:
  assumes "ValidRelayID a" "ValidRelayID c" "edge_key a b = edge_key c d"
  shows "a = c \<and> b = d"
proof -
  have "takeWhile (\<lambda>x. x \<noteq> CHR ''/'') (edge_key a b) = a" "takeWhile (\<lambda>x. x \<noteq> CHR ''/'') (edge_key c d) = c"
    using valid_id_no_slash [OF assms(1)] valid_id_no_slash [OF assms(2)]
    by (auto simp: edge_key_def takeWhile_append2 takeWhile_tail in_set_conv_decomp)
  then show ?thesis using assms(3) by (auto simp: edge_key_def)
qed

lemma edges_error_None:
  "edges_error ids edges cs = None \<Longrightarrow>
     (\<forall>c\<in>set cs. ac_From c \<in> set ids \<and> ac_To c \<in> set ids \<and> ac_From c \<noteq> ac_To c
        \<and> edge_key (ac_From c) (ac_To c) \<notin> set edges \<and> edge_key (ac_To c) (ac_From c) \<notin> set edges)
     \<and> (\<forall>i<length cs. \<forall>j<i. edge_key (ac_From (cs ! i)) (ac_To (cs ! i)) \<noteq> edge_key (ac_From (cs ! j)) (ac_To (cs ! j))
        \<and> edge_key (ac_To (cs ! i)) (ac_From (cs ! i)) \<noteq> edge_key (ac_From (cs ! j)) (ac_To (cs ! j)))"
proof (induction cs arbitrary: edges)
  case (Cons c cs)
  let ?k = "edge_key (ac_From c) (ac_To c)"
  from Cons.prems have c: "ac_From c \<in> set ids" "ac_To c \<in> set ids" "ac_From c \<noteq> ac_To c" "?k \<notin> set edges"
      "edge_key (ac_To c) (ac_From c) \<notin> set edges" and cs: "edges_error ids (?k # edges) cs = None"
    by (simp_all split: if_splits)
  note IH = Cons.IH [OF cs]
  have "edge_key (ac_From ((c # cs) ! i)) (ac_To ((c # cs) ! i)) \<noteq> edge_key (ac_From ((c # cs) ! j)) (ac_To ((c # cs) ! j))
    \<and> edge_key (ac_To ((c # cs) ! i)) (ac_From ((c # cs) ! i)) \<noteq> edge_key (ac_From ((c # cs) ! j)) (ac_To ((c # cs) ! j))"
    if i: "i < length (c # cs)" and j: "j < i" for i j
  proof -
    obtain i' where i': "i = Suc i'" "i' < length cs" using i j by (cases i) auto
    show ?thesis
    proof (cases j)
      case 0
      with IH i' show ?thesis by auto
    next
      case (Suc j')
      with IH i' j show ?thesis by auto
    qed
  qed
  with c IH show ?case by auto
qed simp


definition demo_node :: "string \<Rightarrow> ArrangementNode" where
  "demo_node i =
     \<lparr>an_ID = i, an_Kind = ''terminal'', an_Name = ''Agent'', an_PresetID = ''preset'', an_AgentType = ''codex'', an_Prompt = ''Revise.'',
      an_Text = [], an_URL = [], an_Manager = False, an_X = Finite 0, an_Y = Finite 0, an_Width = Finite 600, an_Height = Finite 420\<rparr>"

definition demo_arrangement :: Arrangement where
  "demo_arrangement =
     \<lparr>ar_ID = [], ar_Name = ''Time'', ar_Description = [], ar_Source = [], ar_Revision = [],
      ar_Nodes = [demo_node ''a'', demo_node ''b''], ar_Connections = [\<lparr>ac_From = ''a'', ac_To = ''b''\<rparr>]\<rparr>"

lemma demo_trimmed: "TrimSpace ''Revise.'' \<noteq> []" "TrimSpace ''Time'' \<noteq> []"
  by code_simp+

lemma demo_validates: "Arrangement_Validate (\<lambda>_. None) demo_arrangement = None"
  by (simp add: Arrangement_Validate_def demo_arrangement_def node_error_def demo_node_def ValidRelayID_def relay_id_char_def
      valid_coordinate_def too_small_def demo_trimmed edge_key_def)


end
