(* ===== verification/Regex.thy ===== *)
theory Regex
  imports Go_Strings
begin

text \<open>
  What the program uses of \<^verbatim>\<open>regexp\<close>: leftmost-first matching on the runes of a text. A pattern is a list of parts, matched one
  after the other; the capture groups of all patterns of the program are parts at the top level, so a match is the
  list of the positions between its parts. The alternatives of a part are tried in the order of the list \<open>ends\<close>,
  which is Perl's, and the first that lets the rest match is taken. The body of a repetition must not match the
  empty string. A byte that is no valid UTF-8 is a rune of its own that is in no ASCII class.
\<close>

datatype regex =
    Rune "rune \<Rightarrow> bool"
  | At "rune list \<Rightarrow> nat \<Rightarrow> bool"
  | Eps
  | Cat regex regex
  | Alt regex regex
  | Many regex
  | ManyLazy regex

section \<open>Matching\<close>

text \<open>Repetition by the number of runes left; \<open>one\<close> are the ends of the body.\<close>

fun greedy :: "nat \<Rightarrow> (nat \<Rightarrow> nat list) \<Rightarrow> nat \<Rightarrow> nat list" where
  "greedy 0 one i = [i]"
| "greedy (Suc n) one i = concat (map (greedy n one) (filter (\<lambda>j. i < j) (one i))) @ [i]"

fun lazy :: "nat \<Rightarrow> (nat \<Rightarrow> nat list) \<Rightarrow> nat \<Rightarrow> nat list" where
  "lazy 0 one i = [i]"
| "lazy (Suc n) one i = i # concat (map (lazy n one) (filter (\<lambda>j. i < j) (one i)))"

primrec ends :: "regex \<Rightarrow> rune list \<Rightarrow> nat \<Rightarrow> nat list" where
  "ends (Rune p) t i = (if i < length t \<and> p (t ! i) then [Suc i] else [])"
| "ends (At p) t i = (if p t i then [i] else [])"
| "ends Eps t i = [i]"
| "ends (Cat a b) t i = concat (map (ends b t) (ends a t i))"
| "ends (Alt a b) t i = ends a t i @ ends b t i"
| "ends (Many a) t i = greedy (length t - i) (ends a t) i"
| "ends (ManyLazy a) t i = lazy (length t - i) (ends a t) i"

text \<open>The positions between the parts, the first match by priority first.\<close>

fun parts_at :: "regex list \<Rightarrow> rune list \<Rightarrow> nat \<Rightarrow> nat list option" where
  "parts_at [] t i = Some [i]"
| "parts_at (r # rs) t i =
     (case filter (\<lambda>x. x \<noteq> None) (map (\<lambda>j. parts_at rs t j) (ends r t i)) of
        Some ps # _ \<Rightarrow> Some (i # ps)
      | _ \<Rightarrow> None)"

text \<open>The leftmost match at \<open>i\<close> or later, searched for \<open>n\<close> positions.\<close>

fun find_from :: "nat \<Rightarrow> regex list \<Rightarrow> rune list \<Rightarrow> nat \<Rightarrow> nat list option" where
  "find_from 0 rs t i = parts_at rs t i"
| "find_from (Suc n) rs t i = (case parts_at rs t i of Some ps \<Rightarrow> Some ps | None \<Rightarrow> find_from n rs t (Suc i))"

definition find_at :: "regex list \<Rightarrow> rune list \<Rightarrow> nat \<Rightarrow> nat list option" where
  "find_at rs t i = find_from (length t - i) rs t i"

text \<open>All matches, left to right, each after the end of the one before; the patterns match no empty string.\<close>

fun find_all :: "nat \<Rightarrow> regex list \<Rightarrow> rune list \<Rightarrow> nat \<Rightarrow> nat list list" where
  "find_all 0 rs t i = []"
| "find_all (Suc n) rs t i =
     (if length t < i then []
      else case find_at rs t i of
             None \<Rightarrow> []
           | Some ps \<Rightarrow> if last ps \<le> i then [] else ps # find_all n rs t (last ps))"

definition FindAll :: "regex list \<Rightarrow> rune list \<Rightarrow> nat list list" where
  "FindAll rs t = find_all (length t) rs t 0"

section \<open>Notation of patterns\<close>

definition char_in :: "string \<Rightarrow> rune \<Rightarrow> bool" where
  "char_in cs r \<longleftrightarrow> (case r of [c] \<Rightarrow> c \<in> set cs | _ \<Rightarrow> False)"

definition not_in :: "string \<Rightarrow> rune \<Rightarrow> bool" where
  "not_in cs r \<longleftrightarrow> \<not> char_in cs r"

definition upper_case :: string where "upper_case = ''ABCDEFGHIJKLMNOPQRSTUVWXYZ''"
definition lower_case :: string where "lower_case = ''abcdefghijklmnopqrstuvwxyz''"
definition decimal :: string where "decimal = ''0123456789''"
definition blanks :: string where "blanks = [CHR 0x09, CHR 0x0A, CHR 0x0C, CHR 0x0D, CHR 0x20]"
definition alnum :: string where "alnum = upper_case @ lower_case @ decimal"

definition lit :: "string \<Rightarrow> regex" where
  "lit s = foldr (\<lambda>c r. Cat (Rune (char_in [c])) r) s Eps"

definition opt :: "regex \<Rightarrow> regex" where "opt r = Alt r Eps"

fun times :: "nat \<Rightarrow> regex \<Rightarrow> regex" where
  "times 0 r = Eps"
| "times (Suc n) r = Cat r (times n r)"

definition at_least :: "nat \<Rightarrow> regex \<Rightarrow> regex" where
  "at_least n r = Cat (times n r) (Many r)"

text \<open>\<^verbatim>\<open>r{n,m}\<close> with \<open>m = n + k\<close>.\<close>

fun up_to :: "nat \<Rightarrow> regex \<Rightarrow> regex" where
  "up_to 0 r = Eps"
| "up_to (Suc k) r = Alt (Cat r (up_to k r)) Eps"

definition between :: "nat \<Rightarrow> nat \<Rightarrow> regex \<Rightarrow> regex" where
  "between n k r = Cat (times n r) (up_to k r)"

definition alts :: "regex list \<Rightarrow> regex" where
  "alts rs = (case rs of [] \<Rightarrow> Eps | _ \<Rightarrow> foldr Alt (butlast rs) (last rs))"

text \<open>The ASCII word boundary, the ends of the text.\<close>

definition word_rune :: "rune \<Rightarrow> bool" where
  "word_rune = char_in (alnum @ ''_'')"

definition word_boundary :: regex where
  "word_boundary = At (\<lambda>t i. (i > 0 \<and> word_rune (t ! (i - 1))) \<noteq> (i < length t \<and> word_rune (t ! i)))"

definition text_start :: regex where "text_start = At (\<lambda>t i. i = 0)"
definition text_end :: regex where "text_end = At (\<lambda>t i. i = length t)"

section \<open>Positions\<close>

lemma greedy_ge: "j \<in> set (greedy n one i) \<Longrightarrow> i \<le> j"
  by (induction n arbitrary: i j) fastforce+

lemma lazy_ge: "j \<in> set (lazy n one i) \<Longrightarrow> i \<le> j"
  by (induction n arbitrary: i j) fastforce+

lemma greedy_le:
  assumes "\<And>i j. j \<in> set (one i) \<Longrightarrow> i \<le> m \<Longrightarrow> j \<le> m"
  shows "i \<le> m \<Longrightarrow> j \<in> set (greedy n one i) \<Longrightarrow> j \<le> m"
proof (induction n arbitrary: i)
  case (Suc n)
  then consider "j = i" | k where "k \<in> set (one i)" "j \<in> set (greedy n one k)" by auto
  then show ?case
  proof cases
    case 2
    then show ?thesis using Suc.IH assms Suc.prems(1) by blast
  qed (use Suc in simp)
qed simp

lemma lazy_le:
  assumes "\<And>i j. j \<in> set (one i) \<Longrightarrow> i \<le> m \<Longrightarrow> j \<le> m"
  shows "i \<le> m \<Longrightarrow> j \<in> set (lazy n one i) \<Longrightarrow> j \<le> m"
proof (induction n arbitrary: i)
  case (Suc n)
  then consider "j = i" | k where "k \<in> set (one i)" "j \<in> set (lazy n one k)" by auto
  then show ?case
  proof cases
    case 2
    then show ?thesis using Suc.IH assms Suc.prems(1) by blast
  qed (use Suc in simp)
qed simp

lemma ends_ge: "j \<in> set (ends r t i) \<Longrightarrow> i \<le> j"
proof (induction r arbitrary: i j)
  case (Cat a b)
  then show ?case by fastforce
qed (auto split: if_splits dest: greedy_ge lazy_ge)

lemma ends_le: "j \<in> set (ends r t i) \<Longrightarrow> i \<le> length t \<Longrightarrow> j \<le> length t"
proof (induction r arbitrary: i j)
  case (Cat a b)
  then show ?case by fastforce
next
  case (Many r)
  then show ?case using greedy_le [of "ends r t" "length t" i j] by auto
next
  case (ManyLazy r)
  then show ?case using lazy_le [of "ends r t" "length t" i j] by auto
qed (auto split: if_splits)

lemma parts_at_ConsE:
  assumes "parts_at (r # rs) t i = Some ps"
  obtains j qs where "j \<in> set (ends r t i)" "parts_at rs t j = Some qs" "ps = i # qs"
proof -
  let ?f = "filter (\<lambda>x. x \<noteq> None) (map (\<lambda>j. parts_at rs t j) (ends r t i))"
  obtain x xs where f: "?f = x # xs" using assms by (cases ?f) simp_all
  then have "x \<in> set ?f" by (metis list.set_intros(1))
  then obtain j where j: "j \<in> set (ends r t i)" "x = parts_at rs t j" "x \<noteq> None" by auto
  then obtain qs where "x = Some qs" by blast
  then show ?thesis using that [of j qs] j assms f by simp
qed

lemma parts_at_hd: "parts_at rs t i = Some ps \<Longrightarrow> ps \<noteq> [] \<and> hd ps = i \<and> length ps = Suc (length rs)"
proof (induction rs arbitrary: i ps)
  case (Cons r rs)
  from Cons.prems obtain j qs where "parts_at rs t j = Some qs" "ps = i # qs" by (rule parts_at_ConsE)
  then show ?case using Cons.IH [of j qs] by simp
qed auto

lemma parts_at_ordered: "parts_at rs t i = Some ps \<Longrightarrow> i \<le> length t \<Longrightarrow> sorted ps \<and> (\<forall>p\<in>set ps. i \<le> p \<and> p \<le> length t)"
proof (induction rs arbitrary: i ps)
  case (Cons r rs)
  from Cons.prems(1) obtain j qs where j: "j \<in> set (ends r t i)" "parts_at rs t j = Some qs" "ps = i # qs" by (rule parts_at_ConsE)
  have "i \<le> j" by (rule ends_ge [OF j(1)])
  moreover have "j \<le> length t" using ends_le [OF j(1)] Cons.prems(2) by simp
  ultimately have "sorted qs" "\<forall>p\<in>set qs. i \<le> p \<and> p \<le> length t" "i \<le> length t"
    using Cons.IH [OF j(2)] le_trans by blast+
  then show ?case unfolding j(3) by simp
qed auto

declare parts_at.simps [simp del]

lemma find_from_ordered:
  "find_from n rs t i = Some ps \<Longrightarrow> i + n \<le> length t
   \<Longrightarrow> length ps = Suc (length rs) \<and> sorted ps \<and> (\<forall>p\<in>set ps. i \<le> p \<and> p \<le> length t)"
proof (induction n arbitrary: i)
  case 0
  then have m: "parts_at rs t i = Some ps" and i: "i \<le> length t" by simp_all
  show ?case using parts_at_hd [OF m] parts_at_ordered [OF m i] by blast
next
  case (Suc n)
  show ?case
  proof (cases "parts_at rs t i")
    case None
    then have "find_from n rs t (Suc i) = Some ps" using Suc.prems by simp
    then have "length ps = Suc (length rs) \<and> sorted ps \<and> (\<forall>p\<in>set ps. Suc i \<le> p \<and> p \<le> length t)"
      using Suc.IH [of "Suc i"] Suc.prems(2) by simp
    then show ?thesis using Suc_leD by blast
  next
    case (Some qs)
    then have m: "parts_at rs t i = Some ps" and i: "i \<le> length t" using Suc.prems by simp_all
    show ?thesis using parts_at_hd [OF m] parts_at_ordered [OF m i] by blast
  qed
qed

text \<open>The matches do not overlap and each has its parts in order.\<close>

definition spans_ok :: "nat \<Rightarrow> nat \<Rightarrow> nat list \<Rightarrow> bool" where
  "spans_ok k m ps \<longleftrightarrow> length ps = k \<and> sorted ps \<and> (\<forall>p\<in>set ps. p \<le> m)"

fun matches_ok :: "nat \<Rightarrow> nat \<Rightarrow> nat \<Rightarrow> nat list list \<Rightarrow> bool" where
  "matches_ok k m i [] \<longleftrightarrow> i \<le> m"
| "matches_ok k m i (ps # pss) \<longleftrightarrow> spans_ok k m ps \<and> i \<le> hd ps \<and> i < last ps \<and> matches_ok k m (last ps) pss"

lemma find_all_ok: "i \<le> length t \<Longrightarrow> matches_ok (Suc (length rs)) (length t) i (find_all n rs t i)"
proof (induction n arbitrary: i)
  case (Suc n)
  show ?case
  proof (cases "find_at rs t i")
    case None
    then show ?thesis using Suc.prems by simp
  next
    case (Some ps)
    then have o: "length ps = Suc (length rs)" "sorted ps" "\<forall>p\<in>set ps. i \<le> p \<and> p \<le> length t"
      using find_from_ordered [of "length t - i" rs t i ps] Suc.prems by (auto simp: find_at_def)
    then have ne: "ps \<noteq> []" by auto
    then have "hd ps \<in> set ps" "last ps \<in> set ps" by simp_all
    then show ?thesis using Some Suc o by (auto simp: spans_ok_def)
  qed
qed simp

lemma FindAll_ok: "matches_ok (Suc (length rs)) (length t) 0 (FindAll rs t)"
  by (simp add: FindAll_def find_all_ok)

end
