(* ===== verification/Call_Log.thy ===== *)
theory Call_Log
  imports Machine
begin

text \<open>
  Recording the calls that leave the bridge. \<open>logged g\<close> is the machine \<open>g\<close> with a log beside its world: every
  call that reaches an agent or Telegram is put in front of the log, whatever it answers. A property of the log
  over all machines is a property of the calls the program makes.
\<close>

datatype Call =
    CallPrompt string string
  | CallKeys string "string list"
  | CallFocus string
  | CallClosePane string
  | CallCreateTab string
  | CallStartAgent string string string
  | CallSend Outgoing
  | CallDirect int Outgoing
  | CallEditText int string "Button list"
  | CallEditButtons int "Button list"
  | CallAnswer string string
  | CallDocument Document
  | CallReact int int string
  | CallDownload string
  | CallSetAccess "int list" "int list"
  | CallSaveConfig Config
  | CallSetOption string string
  | CallResetOptions string
  | CallGit string "string list"

type_synonym 'w logged = "'w \<times> Call list"

text \<open>A call that is recorded, and one that is not.\<close>

definition noted :: "Call \<Rightarrow> ('w \<Rightarrow> 'r \<times> 'w) \<Rightarrow> 'w logged \<Rightarrow> 'r \<times> 'w logged" where
  "noted c f w = (let (x, w') = f (fst w) in (x, (w', c # snd w)))"

definition silent :: "('w \<Rightarrow> 'r \<times> 'w) \<Rightarrow> 'w logged \<Rightarrow> 'r \<times> 'w logged" where
  "silent f w = (let (x, w') = f (fst w) in (x, (w', snd w)))"

definition logged :: "'w Machine \<Rightarrow> 'w logged Machine" where
  "logged g =
     \<lparr>mc_Now = silent (mc_Now g),
      mc_agent = (\<lambda>w. mc_agent g (fst w)),
      mc_live = (\<lambda>w. mc_live g (fst w)),
      mc_topics = (\<lambda>w. mc_topics g (fst w)),
      mc_options = (\<lambda>w. mc_options g (fst w)),
      mc_quiet = (\<lambda>w. mc_quiet g (fst w)),
      mc_ReadScreen = (\<lambda>p s n. silent (mc_ReadScreen g p s n)),
      mc_Prompt = (\<lambda>p t. noted (CallPrompt p t) (mc_Prompt g p t)),
      mc_SendKeys = (\<lambda>p ks. noted (CallKeys p ks) (mc_SendKeys g p ks)),
      mc_Focus = (\<lambda>p. noted (CallFocus p) (mc_Focus g p)),
      mc_ClosePane = (\<lambda>p. noted (CallClosePane p) (mc_ClosePane g p)),
      mc_ListWorkspaces = silent (mc_ListWorkspaces g),
      mc_CreateTab = (\<lambda>i. noted (CallCreateTab i) (mc_CreateTab g i)),
      mc_StartAgent = (\<lambda>n k p d. noted (CallStartAgent n k p) (mc_StartAgent g n k p d)),
      mc_Send = (\<lambda>out. noted (CallSend out) (mc_Send g out)),
      mc_SendDirect = (\<lambda>op out. noted (CallDirect op out) (mc_SendDirect g op out)),
      mc_EditText = (\<lambda>i t h bs. noted (CallEditText i t bs) (mc_EditText g i t h bs)),
      mc_EditButtons = (\<lambda>i bs. noted (CallEditButtons i bs) (mc_EditButtons g i bs)),
      mc_AnswerButton = (\<lambda>i t. noted (CallAnswer i t) (mc_AnswerButton g i t)),
      mc_SendDocument = (\<lambda>doc. noted (CallDocument doc) (mc_SendDocument g doc)),
      mc_React = (\<lambda>t i e. noted (CallReact t i e) (mc_React g t i e)),
      mc_Download = (\<lambda>f n. noted (CallDownload f) (mc_Download g f n)),
      mc_SetAccess = (\<lambda>ops obs w. (mc_SetAccess g ops obs (fst w), CallSetAccess ops obs # snd w)),
      mc_LastReply = map_option (\<lambda>f a. silent (f a)) (mc_LastReply g),
      mc_git = map_option (\<lambda>f d args. noted (CallGit d args) (f d args)) (mc_git g),
      mc_inbox = map_option (\<lambda>f n d. silent (f n d)) (mc_inbox g),
      mc_SaveConfig = map_option (\<lambda>f c. noted (CallSaveConfig c) (f c)) (mc_SaveConfig g),
      mc_SetOption = (\<lambda>k v. noted (CallSetOption k v) (mc_SetOption g k v)),
      mc_ResetOptions = (\<lambda>grp. noted (CallResetOptions grp) (mc_ResetOptions g grp)),
      mc_Choices = (\<lambda>w. mc_Choices g (fst w)),
      mc_Away = (\<lambda>d by. silent (mc_Away g d by)),
      mc_Here = (\<lambda>by. silent (mc_Here g by)),
      mc_presence = (\<lambda>w. mc_presence g (fst w)),
      mc_since = (\<lambda>w. mc_since g (fst w)),
      mc_hash = mc_hash g, mc_Format = mc_Format g, mc_ErrorText = mc_ErrorText g, mc_Quote = mc_Quote g,
      mc_letter = mc_letter g\<rparr>"

text \<open>The calls between two states of the log, newest first, all satisfy \<open>P\<close>.\<close>

definition adds :: "(Call \<Rightarrow> bool) \<Rightarrow> Call list \<Rightarrow> Call list \<Rightarrow> bool" where
  "adds P l l' \<longleftrightarrow> (\<exists>cs. l' = cs @ l \<and> list_all P cs)"

named_theorems adds_intros \<open>what the operations add to the log\<close>

lemma adds_refl [simp, intro]: "adds P l l"
  by (simp add: adds_def)

lemma adds_trans [trans]: "adds P l1 l2 \<Longrightarrow> adds P l2 l3 \<Longrightarrow> adds P l1 l3"
  by (auto simp: adds_def)

lemma adds_Cons: "adds P l l' \<Longrightarrow> P c \<Longrightarrow> adds P l (c # l')"
  unfolding adds_def by (metis append_Cons list.pred_inject(2))

lemma adds_append: "list_all P cs \<Longrightarrow> adds P l (cs @ l)"
  unfolding adds_def by blast

lemma adds_mono: "adds P l l' \<Longrightarrow> (\<And>c. P c \<Longrightarrow> Q c) \<Longrightarrow> adds Q l l'"
  by (auto simp: adds_def list_all_iff)

lemma addsD: "adds P l l' \<Longrightarrow> c \<in> set l' \<Longrightarrow> c \<in> set l \<or> P c"
  by (auto simp: adds_def list_all_iff)

lemma snd_noted [simp]: "snd (snd (noted c f w)) = c # snd w"
  by (simp add: noted_def split_beta)

lemma snd_silent [simp]: "snd (snd (silent f w)) = snd w"
  by (simp add: silent_def split_beta)

lemma fst_noted [simp]: "fst (noted c f w) = fst (f (fst w))" "fst (snd (noted c f w)) = snd (f (fst w))"
  by (simp_all add: noted_def split_beta)

lemma fst_silent [simp]: "fst (silent f w) = fst (f (fst w))" "fst (snd (silent f w)) = snd (f (fst w))"
  by (simp_all add: silent_def split_beta)

text \<open>The calls of \<open>logged\<close>, one rule per field.\<close>

lemmas logged_simps [simp] = logged_def [THEN arg_cong [where f = mc_Now], simplified]
  logged_def [THEN arg_cong [where f = mc_agent], simplified]
  logged_def [THEN arg_cong [where f = mc_live], simplified]
  logged_def [THEN arg_cong [where f = mc_topics], simplified]
  logged_def [THEN arg_cong [where f = mc_options], simplified]
  logged_def [THEN arg_cong [where f = mc_quiet], simplified]
  logged_def [THEN arg_cong [where f = mc_ReadScreen], simplified]
  logged_def [THEN arg_cong [where f = mc_Prompt], simplified]
  logged_def [THEN arg_cong [where f = mc_SendKeys], simplified]
  logged_def [THEN arg_cong [where f = mc_Focus], simplified]
  logged_def [THEN arg_cong [where f = mc_ClosePane], simplified]
  logged_def [THEN arg_cong [where f = mc_ListWorkspaces], simplified]
  logged_def [THEN arg_cong [where f = mc_CreateTab], simplified]
  logged_def [THEN arg_cong [where f = mc_StartAgent], simplified]
  logged_def [THEN arg_cong [where f = mc_Send], simplified]
  logged_def [THEN arg_cong [where f = mc_SendDirect], simplified]
  logged_def [THEN arg_cong [where f = mc_EditText], simplified]
  logged_def [THEN arg_cong [where f = mc_EditButtons], simplified]
  logged_def [THEN arg_cong [where f = mc_AnswerButton], simplified]
  logged_def [THEN arg_cong [where f = mc_SendDocument], simplified]
  logged_def [THEN arg_cong [where f = mc_React], simplified]
  logged_def [THEN arg_cong [where f = mc_Download], simplified]
  logged_def [THEN arg_cong [where f = mc_SetAccess], simplified]
  logged_def [THEN arg_cong [where f = mc_LastReply], simplified]
  logged_def [THEN arg_cong [where f = mc_git], simplified]
  logged_def [THEN arg_cong [where f = mc_inbox], simplified]
  logged_def [THEN arg_cong [where f = mc_SaveConfig], simplified]
  logged_def [THEN arg_cong [where f = mc_SetOption], simplified]
  logged_def [THEN arg_cong [where f = mc_ResetOptions], simplified]
  logged_def [THEN arg_cong [where f = mc_Away], simplified]
  logged_def [THEN arg_cong [where f = mc_Here], simplified]
  logged_def [THEN arg_cong [where f = mc_presence], simplified]
  logged_def [THEN arg_cong [where f = mc_since], simplified]
  logged_def [THEN arg_cong [where f = mc_hash], simplified]
  logged_def [THEN arg_cong [where f = mc_Format], simplified]
  logged_def [THEN arg_cong [where f = mc_ErrorText], simplified]
  logged_def [THEN arg_cong [where f = mc_Quote], simplified]
  logged_def [THEN arg_cong [where f = mc_letter], simplified]
  logged_def [THEN arg_cong [where f = mc_Choices], simplified]

end
