(* ===== verification/Redact.thy ===== *)
theory Redact
  imports Regex Call_Log "HOL-Library.List_Lexorder" "HOL-Library.Char_ord"
begin

text \<open>
  Masking of secrets, \<^verbatim>\<open>internal/domain/redact.go\<close>, and the gateway that applies it to every text the bridge posts,
  \<^verbatim>\<open>internal/app/redact.go\<close>. Under \<^verbatim>\<open>(?i)\<close> a class of letters also contains the two letters Unicode folds to ASCII, the long s and
  the Kelvin sign.
\<close>

section \<open>Rules\<close>

datatype redactMode = redactWhole | redactKeepEnds | redactKeyValue

record redactRule =
  rr_name :: string
  rr_parts :: "regex list"
  rr_mode :: redactMode

definition redactedMark :: string where "redactedMark = ''[redacted]''"
definition exactMinLen :: nat where "exactMinLen = 8"
definition keepEndsTail :: nat where "keepEndsTail = 4"
definition ellipsis_rune :: string where "ellipsis_rune = [CHR 0xE2, CHR 0x80, CHR 0xA6]"

definition long_s :: rune where "long_s = [CHR 0xC5, CHR 0xBF]"
definition kelvin :: rune where "kelvin = [CHR 0xE2, CHR 0x84, CHR 0xAA]"

text \<open>A lower-case word without regard to case.\<close>

definition folded :: "char \<Rightarrow> rune \<Rightarrow> bool" where
  "folded c r \<longleftrightarrow> (case r of [d] \<Rightarrow> lower_byte d = c | _ \<Rightarrow> c = CHR ''s'' \<and> r = long_s \<or> c = CHR ''k'' \<and> r = kelvin)"

definition lit_fold :: "string \<Rightarrow> regex" where
  "lit_fold s = foldr (\<lambda>c r. Cat (Rune (folded c)) r) s Eps"

definition cls :: "string \<Rightarrow> regex" where "cls cs = Rune (char_in cs)"
definition token_chars :: string where "token_chars = alnum @ ''_-''"
definition quotes :: string where "quotes = [CHR 0x27, CHR 0x22]"

definition private_key_line :: "string \<Rightarrow> regex" where
  "private_key_line word = Cat (lit (''-----'' @ word @ '' '')) (Cat (Many (cls (upper_case @ '' ''))) (lit ''PRIVATE KEY-----''))"

text \<open>The parts of a rule: the boundary first, so group 1 is the second part.\<close>

definition rule_privatekey :: redactRule where
  "rule_privatekey =
     \<lparr>rr_name = ''privatekey'',
      rr_parts = [private_key_line ''BEGIN'', ManyLazy (Rune (\<lambda>r. True)), Alt (private_key_line ''END'') text_end],
      rr_mode = redactWhole\<rparr>"

definition rule_telegram :: redactRule where
  "rule_telegram =
     \<lparr>rr_name = ''telegram'',
      rr_parts = [word_boundary, between 8 2 (cls decimal), lit '':'', times 35 (cls token_chars), word_boundary],
      rr_mode = redactWhole\<rparr>"

definition rule_keyvalue :: redactRule where
  "rule_keyvalue =
     \<lparr>rr_name = ''keyvalue'',
      rr_parts =
        [word_boundary,
         alts [lit_fold ''password'', lit_fold ''passwd'', lit_fold ''pwd'', lit_fold ''secret'', lit_fold ''token'',
               Cat (lit_fold ''api'') (Cat (opt (cls ''_-'')) (lit_fold ''key''))],
         Cat (Many (cls blanks)) (Cat (cls ''=:'') (Cat (Many (cls blanks)) (opt (cls quotes)))),
         Cat (Rune (not_in (blanks @ quotes @ ''[''))) (at_least 7 (Rune (not_in (blanks @ quotes))))],
      rr_mode = redactKeyValue\<rparr>"

definition keep_ends :: "string \<Rightarrow> regex \<Rightarrow> regex list \<Rightarrow> redactRule" where
  "keep_ends name g rest = \<lparr>rr_name = name, rr_parts = word_boundary # g # rest, rr_mode = redactKeepEnds\<rparr>"

definition redactRules :: "redactRule list" where
  "redactRules =
     [rule_privatekey, rule_telegram, rule_keyvalue,
      keep_ends ''openai'' (lit ''sk-'') [at_least 20 (cls token_chars)],
      keep_ends ''github'' (Cat (lit ''gh'') (Cat (cls ''poushr'') (lit ''_''))) [at_least 36 (cls alnum)],
      keep_ends ''github'' (lit ''github_pat_'') [at_least 22 (cls (alnum @ ''_''))],
      keep_ends ''aws'' (Alt (lit ''AKIA'') (lit ''ASIA'')) [times 16 (cls (upper_case @ decimal)), word_boundary],
      keep_ends ''slack'' (Cat (lit ''xox'') (Cat (cls ''abprs'') (lit ''-''))) [at_least 10 (cls (alnum @ ''-''))],
      keep_ends ''gitlab'' (lit ''glpat-'') [at_least 20 (cls token_chars)],
      keep_ends ''google'' (lit ''AIza'') [times 35 (cls token_chars), word_boundary],
      keep_ends ''jwt'' (lit ''eyJ'') [at_least 10 (cls token_chars), lit ''.'', at_least 10 (cls token_chars), lit ''.'', at_least 10 (cls token_chars)],
      keep_ends ''bearer'' (Cat (lit_fold ''bearer'') (at_least 1 (cls blanks)))
        [at_least 16 (Rune (\<lambda>r. char_in (alnum @ ''._~+/=-'') r \<or> r = long_s \<or> r = kelvin))]]"

section \<open>Redaction\<close>

text \<open>The bytes between two positions of a match.\<close>

definition span :: "string list \<Rightarrow> nat \<Rightarrow> nat \<Rightarrow> string" where
  "span t i j = concat (take (j - i) (drop i t))"

definition replacement :: "redactRule \<Rightarrow> string list \<Rightarrow> nat list \<Rightarrow> string" where
  "replacement rule t ps =
     (case rr_mode rule of
        redactKeepEnds \<Rightarrow>
          (let whole = span t (hd ps) (last ps); pre = span t (ps ! 1) (ps ! 2)
           in if length whole < length pre + 2 * keepEndsTail then redactedMark
              else pre @ ellipsis_rune @ drop (length whole - keepEndsTail) whole)
      | redactKeyValue \<Rightarrow> span t (ps ! 1) (ps ! 2) @ span t (ps ! 2) (ps ! 3) @ redactedMark
      | redactWhole \<Rightarrow> redactedMark)"

fun rewrite :: "redactRule \<Rightarrow> string list \<Rightarrow> nat \<Rightarrow> nat list list \<Rightarrow> string" where
  "rewrite rule t i [] = span t i (length t)"
| "rewrite rule t i (ps # pss) = span t i (hd ps) @ replacement rule t ps @ rewrite rule t (last ps) pss"

text \<open>The counts per pattern name; those of one name are added.\<close>

type_synonym RedactionStats = "(string, int) go_map"

definition count_in :: "string \<Rightarrow> nat \<Rightarrow> RedactionStats \<Rightarrow> RedactionStats" where
  "count_in name n stats =
     (if n = 0 then stats
      else gm_put name ((case gm_get stats name of None \<Rightarrow> 0 | Some k \<Rightarrow> k) + int n) stats)"

definition Stats_Total :: "RedactionStats \<Rightarrow> int" where
  "Stats_Total stats = sum_list (map snd stats)"

definition Stats_String :: "RedactionStats \<Rightarrow> string" where
  "Stats_String stats =
     Join (map (\<lambda>name. name @ ''='' @ Itoa (case gm_get stats name of None \<Rightarrow> 0 | Some k \<Rightarrow> k)) (sort (map fst stats))) '' ''"

definition apply_rule :: "redactRule \<Rightarrow> string \<times> RedactionStats \<Rightarrow> string \<times> RedactionStats" where
  "apply_rule rule ts =
     (let t = rune_chunks (fst ts); matches = FindAll (rr_parts rule) t
      in if matches = [] then ts else (rewrite rule t 0 matches, count_in (rr_name rule) (length matches) (snd ts)))"

text \<open>A redactor is its list of exact secrets.\<close>

definition NewRedactor :: "string list \<Rightarrow> string list" where
  "NewRedactor secrets = filter (\<lambda>s. length s \<ge> exactMinLen) secrets"

definition apply_exact :: "string \<Rightarrow> string \<times> RedactionStats \<Rightarrow> string \<times> RedactionStats" where
  "apply_exact s ts =
     (let n = Count (fst ts) s
      in if n > 0 then (ReplaceAll (fst ts) s redactedMark, count_in ''exact'' n (snd ts)) else ts)"

definition Redact :: "string list \<Rightarrow> string \<Rightarrow> string \<times> RedactionStats" where
  "Redact red t = (if t = [] then (t, []) else fold apply_rule redactRules (fold apply_exact red (t, [])))"

section \<open>The redacting gateway\<close>

definition redact_text :: "string list \<Rightarrow> string \<Rightarrow> string" where
  "redact_text red t = fst (Redact red t)"

definition redactButtons :: "string list \<Rightarrow> Button list \<Rightarrow> Button list" where
  "redactButtons red bs = map (\<lambda>b. b\<lparr>bt_Text := redact_text red (bt_Text b)\<rparr>) bs"

definition redact_outgoing :: "string list \<Rightarrow> Outgoing \<Rightarrow> Outgoing" where
  "redact_outgoing red out = out\<lparr>og_Text := redact_text red (og_Text out), og_Buttons := redactButtons red (og_Buttons out)\<rparr>"

definition redact_document :: "string list \<Rightarrow> Document \<Rightarrow> Document" where
  "redact_document red doc = doc\<lparr>dc_Data := redact_text red (dc_Data doc), dc_Caption := redact_text red (dc_Caption doc)\<rparr>"

text \<open>The option is read on every call.\<close>

definition redacting :: "string list \<Rightarrow> 'w Machine \<Rightarrow> 'w Machine" where
  "redacting red g =
     (let on = (\<lambda>w. RedactEnabled (mc_options g w))
      in g\<lparr>mc_Send := (\<lambda>out w. mc_Send g (if on w then redact_outgoing red out else out) w),
           mc_SendDirect := (\<lambda>user out w. mc_SendDirect g user (if on w then redact_outgoing red out else out) w),
           mc_SendDocument := (\<lambda>doc w. mc_SendDocument g (if on w then redact_document red doc else doc) w),
           mc_EditText := (\<lambda>i t html bs w.
             if on w then mc_EditText g i (redact_text red t) html (redactButtons red bs) w else mc_EditText g i t html bs w),
           mc_EditButtons := (\<lambda>i bs w. mc_EditButtons g i (if on w then redactButtons red bs else bs) w)\<rparr>)"

end
