(* ===== verification/Relay.thy ===== *)
theory Relay
  imports Wire Redact
begin

text \<open>
  The relay between Maestri and Telegram, \<^verbatim>\<open>internal/app/relay.go\<close>: its topics, one per floor of an allowed workspace, and
  the agents its messages stand for. \<open>RelayPorts\<close> holds what it calls, functions on a world of an arbitrary type; \<open>rp_Save\<close>
  is \<^verbatim>\<open>json.Marshal\<close> of the state and the store. A handler is modelled as it runs when no other handler runs between its
  calls; the lock of a terminal and the mutexes are left out. An error of the relay's own is \<open>OtherError\<close> with a short name of
  its case in place of its text.
\<close>

section \<open>State\<close>

record relayTopic =
  rt_Workspace :: string
  rt_Floor :: string
  rt_Name :: string
  rt_Thread :: int
  rt_Pending :: bool
  rt_Muted :: bool

record relayTarget =
  tg_Workspace :: string
  tg_Floor :: string
  tg_Terminal :: string
  tg_Epoch :: string
  tg_Thread :: int
  tg_Prompt :: string
  tg_At :: time
  tg_Actions :: "string list"

record relayJob =
  jb_Plan :: MaestroPlan
  jb_Pending :: string
  jb_Results :: "(string, RawMessage) go_map"
  jb_Done :: bool

record relayState =
  rs_Version :: int
  rs_ChatID :: int
  rs_Host :: string
  rs_Topics :: "(string, relayTopic) go_map"
  rs_Replies :: "(int, relayTarget) go_map"
  rs_Seen :: "(string, time) go_map"
  rs_Jobs :: "(string, relayJob) go_map"

record 'w RelayPorts =
  rp_Config :: RelayConfig
  rp_Info :: "'w \<Rightarrow> WireInfo result \<times> 'w"
  rp_Workspaces :: "'w \<Rightarrow> WireWorkspace list result \<times> 'w"
  rp_Feed :: "string \<Rightarrow> string \<Rightarrow> 'w \<Rightarrow> WireFeed result \<times> 'w"
  rp_Presets :: "'w \<Rightarrow> AgentPreset list result \<times> 'w"
  rp_Call :: "string \<Rightarrow> string \<Rightarrow> string \<Rightarrow> json \<Rightarrow> 'w \<Rightarrow> RawMessage result \<times> 'w"
  rp_Input :: "string \<Rightarrow> string \<Rightarrow> 'w \<Rightarrow> error option \<times> 'w"
  rp_Upload :: "string \<Rightarrow> string \<Rightarrow> string \<Rightarrow> string \<Rightarrow> 'w \<Rightarrow> string result \<times> 'w"
  rp_EditTopic :: "int \<Rightarrow> TopicPatch \<Rightarrow> 'w \<Rightarrow> error option \<times> 'w"
  rp_CreateTopic :: "string \<Rightarrow> Status \<Rightarrow> 'w \<Rightarrow> Topic result \<times> 'w"
  rp_Send :: "Outgoing \<Rightarrow> 'w \<Rightarrow> int result \<times> 'w"
  rp_SendDocument :: "Document \<Rightarrow> 'w \<Rightarrow> error option \<times> 'w"
  rp_AnswerButton :: "string \<Rightarrow> string \<Rightarrow> 'w \<Rightarrow> error option \<times> 'w"
  rp_EditButtons :: "int \<Rightarrow> Button list \<Rightarrow> 'w \<Rightarrow> error option \<times> 'w"
  rp_Download :: "string \<Rightarrow> int \<Rightarrow> 'w \<Rightarrow> string result \<times> 'w"
  rp_Save :: "relayState \<Rightarrow> 'w \<Rightarrow> error option \<times> 'w"
  rp_Now :: "'w \<Rightarrow> time \<times> 'w"
  rp_Pause :: "'w \<Rightarrow> error option \<times> 'w"
  rp_Catalog :: "(Arrangement list \<times> (string \<Rightarrow> Arrangement result)) option"
  rp_Planner :: "(string \<Rightarrow> MaestroPlan \<Rightarrow> WireWorkspace list \<Rightarrow> AgentPreset list \<Rightarrow> 'w \<Rightarrow> MaestroPlan result \<times> 'w) option"
  rp_Native :: "(Arrangement \<Rightarrow> AgentPreset list \<Rightarrow> (string \<times> json) list result) option"
  rp_ParseURL :: "string \<Rightarrow> ParsedURL option"
  rp_digest :: "MaestroPlan \<Rightarrow> string"
  rp_PlanText :: "MaestroPlan \<Rightarrow> string"
  rp_JsonText :: "(string \<times> json) list \<Rightarrow> string"
  rp_ErrorText :: "error \<Rightarrow> string"

record 'w Relay =
  rl_state :: relayState
  rl_feeds :: "(string, WireFeed) go_map"
  rl_statuses :: "(string, string) go_map"
  rl_failure :: "error option"
  rl_world :: 'w

abbreviation rl_topics :: "'w Relay \<Rightarrow> (string, relayTopic) go_map" where "rl_topics r \<equiv> rs_Topics (rl_state r)"
abbreviation rl_replies :: "'w Relay \<Rightarrow> (int, relayTarget) go_map" where "rl_replies r \<equiv> rs_Replies (rl_state r)"
abbreviation rl_jobs :: "'w Relay \<Rightarrow> (string, relayJob) go_map" where "rl_jobs r \<equiv> rs_Jobs (rl_state r)"

text \<open>Letters beyond ASCII in the texts of the program, written with a backquote.\<close>

fun utf :: "string \<Rightarrow> string" where
  "utf (CHR ''`'' # c # s) =
     (if c = CHR ''E'' then [CHR 0xC3, CHR 0xAA] else if c = CHR ''a'' then [CHR 0xC3, CHR 0xA3] else if c = CHR ''A'' then [CHR 0xC3, CHR 0xA1]
      else if c = CHR ''e'' then [CHR 0xC3, CHR 0xA9] else if c = CHR ''i'' then [CHR 0xC3, CHR 0xAD]
      else if c = CHR ''o'' then [CHR 0xC3, CHR 0xB3] else if c = CHR ''O'' then [CHR 0xC3, CHR 0xB5]
      else if c = CHR ''c'' then [CHR 0xC3, CHR 0xA7] else if c = CHR ''.'' then [CHR 0xC2, CHR 0xB7] else [c]) @ utf s"
| "utf (c # s) = c # utf s"
| "utf [] = []"

definition newline :: string where "newline = [CHR 0x0A]"

definition relayHost :: "RelayConfig \<Rightarrow> string" where
  "relayHost c = rg_WireURL c @ ''|'' @ rg_WirePin c"

text \<open>
  \<open>NewRelay\<close> on what the store holds: nothing, a state, or text that is no state. A map that is absent from the text is
  empty in \<open>relayState\<close> already.
\<close>

datatype stored = StoreEmpty | StoreCorrupt | Stored relayState

definition emptyRelayState :: relayState where
  "emptyRelayState = \<lparr>rs_Version = 0, rs_ChatID = 0, rs_Host = [], rs_Topics = [], rs_Replies = [], rs_Seen = [], rs_Jobs = []\<rparr>"

definition NewRelay :: "RelayConfig \<Rightarrow> stored result \<Rightarrow> 'w \<Rightarrow> 'w Relay result" where
  "NewRelay c loaded w =
     (let start = (\<lambda>s. if rs_Version s \<noteq> 0 \<and> rs_Version s \<noteq> 1 then Inl (OtherError ''unsupported state version'')
                     else if rs_Version s \<noteq> 0 \<and> (rs_ChatID s \<noteq> rg_ChatID c \<or> rs_Host s \<noteq> relayHost c)
                     then Inl (OtherError ''state of another chat or host'')
                     else Inr \<lparr>rl_state = s\<lparr>rs_Version := 1, rs_ChatID := rg_ChatID c, rs_Host := relayHost c\<rparr>,
                               rl_feeds = [], rl_statuses = [], rl_failure = None, rl_world = w\<rparr>)
      in case loaded of
           Inl e \<Rightarrow> Inl e
         | Inr StoreEmpty \<Rightarrow> start emptyRelayState
         | Inr StoreCorrupt \<Rightarrow> Inl (OtherError ''corrupt state'')
         | Inr (Stored s) \<Rightarrow> start s)"

section \<open>Calls and the stored state\<close>

definition rl_call :: "('w \<Rightarrow> 'r \<times> 'w) \<Rightarrow> 'w Relay \<Rightarrow> 'r \<times> 'w Relay" where
  "rl_call f r = (let (x, w) = f (rl_world r) in (x, r\<lparr>rl_world := w\<rparr>))"

text \<open>\<^verbatim>\<open>x, err := first; if err != nil { return err }; second(x)\<close>.\<close>

definition or_fail :: "'a result \<times> 's \<Rightarrow> ('a \<Rightarrow> 's \<Rightarrow> 'b result \<times> 's) \<Rightarrow> 'b result \<times> 's" where
  "or_fail x k = (case x of (Inl e, s) \<Rightarrow> (Inl e, s) | (Inr a, s) \<Rightarrow> k a s)"

definition or_err :: "'a result \<times> 's \<Rightarrow> ('a \<Rightarrow> 's \<Rightarrow> error option \<times> 's) \<Rightarrow> error option \<times> 's" where
  "or_err x k = (case x of (Inl e, s) \<Rightarrow> (Some e, s) | (Inr a, s) \<Rightarrow> k a s)"

definition if_ok :: "error option \<times> 's \<Rightarrow> ('s \<Rightarrow> 'b result \<times> 's) \<Rightarrow> 'b result \<times> 's" where
  "if_ok x k = (case x of (Some e, s) \<Rightarrow> (Inl e, s) | (None, s) \<Rightarrow> k s)"

lemma chain_simps [simp]:
  "or_fail (Inl e, s) k = (Inl e, s)" "or_fail (Inr a, s) k = k a s"
  "or_err (Inl e, s) h = (Some e, s)" "or_err (Inr a, s) h = h a s"
  "if_ok (Some e, s) f = (Inl e, s)" "if_ok (None, s) f = f s"
  by (simp_all add: or_fail_def or_err_def if_ok_def)

definition relay_save :: "'w RelayPorts \<Rightarrow> 'w Relay \<Rightarrow> error option \<times> 'w Relay" where
  "relay_save g r =
     (case rl_failure r of
        Some e \<Rightarrow> (Some e, r)
      | None \<Rightarrow>
          (case rl_call (rp_Save g (rl_state r)) r of
             (None, r1) \<Rightarrow> (None, r1)
           | (Some _, r1) \<Rightarrow> let e = OtherError ''state not saved'' in (Some e, r1\<lparr>rl_failure := Some e\<rparr>)))"

definition put_topic :: "string \<Rightarrow> relayTopic \<Rightarrow> 'w Relay \<Rightarrow> 'w Relay" where
  "put_topic k t r = r\<lparr>rl_state := (rl_state r)\<lparr>rs_Topics := gm_put k t (rl_topics r)\<rparr>\<rparr>"

definition put_reply :: "int \<Rightarrow> relayTarget \<Rightarrow> 'w Relay \<Rightarrow> 'w Relay" where
  "put_reply i t r = r\<lparr>rl_state := (rl_state r)\<lparr>rs_Replies := gm_put i t (rl_replies r)\<rparr>\<rparr>"

section \<open>Topics\<close>

definition scope :: "string \<Rightarrow> string \<Rightarrow> string" where
  "scope ws flr = ws @ ''/'' @ (if flr = ''ground'' then [] else flr)"

definition ensureTopic :: "'w RelayPorts \<Rightarrow> string \<Rightarrow> string \<Rightarrow> string \<Rightarrow> 'w Relay \<Rightarrow> int result \<times> 'w Relay" where
  "ensureTopic g ws flr name r =
     (let key = scope ws flr
      in case gm_get (rl_topics r) key of
           Some t \<Rightarrow>
             if rt_Pending t then (Inl (OtherError ''topic creation uncertain''), r)
             else if rt_Name t \<noteq> name
             then if_ok (rl_call (rp_EditTopic g (rt_Thread t) \<lparr>pt_Name = Some name, pt_Status = None\<rparr>) r)
                    (\<lambda>r1. if_ok (relay_save g (put_topic key (t\<lparr>rt_Name := name\<rparr>) r1)) (\<lambda>r2. (Inr (rt_Thread t), r2)))
             else (Inr (rt_Thread t), r)
         | None \<Rightarrow>
             let t = \<lparr>rt_Workspace = ws, rt_Floor = flr, rt_Name = name, rt_Thread = 0, rt_Pending = True, rt_Muted = False\<rparr>
             in if_ok (relay_save g (put_topic key t r))
                  (\<lambda>r1. or_fail (rl_call (rp_CreateTopic g name StatusIdle) r1)
                    (\<lambda>created r2. if_ok (relay_save g (put_topic key (t\<lparr>rt_Thread := tp_ThreadID created, rt_Pending := False\<rparr>) r2))
                      (\<lambda>r3. (Inr (tp_ThreadID created), r3)))))"

section \<open>Messages\<close>

definition relayRedactor :: "RelayConfig \<Rightarrow> string list" where
  "relayRedactor c = NewRedactor [rg_WireToken c, rg_BotToken c, rg_LLMKey c]"

definition relay_text :: "int \<Rightarrow> string \<Rightarrow> int \<Rightarrow> Outgoing" where
  "relay_text thread t parts =
     \<lparr>og_ThreadID = thread, og_Text = t, og_Code = False, og_HTML = False, og_Markdown = False, og_MaxParts = parts,
      og_ReplyTo = 0, og_Notify = False, og_Buttons = [], og_ForceReply = False, og_Footer = [], og_Fold = 0\<rparr>"

text \<open>Over 4000 remembered messages, the 1000 with the lowest ids are forgotten.\<close>

definition trim_replies :: "(int, relayTarget) go_map \<Rightarrow> (int, relayTarget) go_map" where
  "trim_replies m =
     (if length m > 4000 then (let old = take 1000 (sort (gm_keys m)) in filter (\<lambda>p. fst p \<notin> set old) m) else m)"

definition sendTarget :: "'w RelayPorts \<Rightarrow> relayTarget \<Rightarrow> string \<Rightarrow> Button list \<Rightarrow> bool \<Rightarrow> 'w Relay \<Rightarrow> error option \<times> 'w Relay" where
  "sendTarget g target t buttons notify r =
     (let sent = target\<lparr>tg_Actions := tg_Actions target @ map bt_Data buttons\<rparr>;
          out = (relay_text (tg_Thread target) (redact_text (relayRedactor (rp_Config g)) t) 1)\<lparr>og_Buttons := buttons, og_Notify := notify\<rparr>
      in or_err (rl_call (rp_Send g out) r)
           (\<lambda>i r1. let r2 = put_reply i sent r1
                   in relay_save g (r2\<lparr>rl_state := (rl_state r2)\<lparr>rs_Replies := trim_replies (rl_replies r2)\<rparr>\<rparr>)))"

definition relay_say :: "'w RelayPorts \<Rightarrow> int \<Rightarrow> string \<Rightarrow> 'w Relay \<Rightarrow> error option \<times> 'w Relay" where
  "relay_say g thread t r =
     or_err (rl_call (rp_Send g (relay_text thread (redact_text (relayRedactor (rp_Config g)) t) 2)) r) (\<lambda>_ r1. (None, r1))"

section \<open>Refresh\<close>

fun relay_feeds :: "'w RelayPorts \<Rightarrow> WireWorkspace list \<Rightarrow> (string, WireFeed) go_map \<Rightarrow> 'w Relay \<Rightarrow> (string, WireFeed) go_map \<times> 'w Relay" where
  "relay_feeds g [] acc r = (acc, r)"
| "relay_feeds g (ws # wss) acc r =
     (if \<not> Allows (rp_Config g) (ww_ID ws) \<or> ww_IsLocked ws then relay_feeds g wss acc r
      else case rl_call (rp_Feed g (ww_ID ws) ''ground'') r of
             (Inl e, r1) \<Rightarrow> relay_feeds g wss acc r1
           | (Inr feed, r1) \<Rightarrow> relay_feeds g wss (gm_put (ww_ID ws) (feed\<lparr>wf_Workspace := ws\<rparr>) acc) r1)"

definition groundName :: string where "groundName = utf ''T`erreo''"

definition topicName :: "string \<Rightarrow> string \<Rightarrow> string" where
  "topicName ws flr = ws @ utf '' `. '' @ flr"

fun ensure_floors :: "'w RelayPorts \<Rightarrow> WireWorkspace \<Rightarrow> WireFloor list \<Rightarrow> string list \<Rightarrow> 'w Relay \<Rightarrow> error option \<times> 'w Relay" where
  "ensure_floors g ws [] seen r = (None, r)"
| "ensure_floors g ws (f # fs) seen r =
     (if wl_ID f \<in> set seen then ensure_floors g ws fs seen r
      else if wl_IsCloneMissing f then ensure_floors g ws fs (wl_ID f # seen) r
      else or_err (ensureTopic g (ww_ID ws) (wl_ID f) (topicName (ww_Name ws) (if wl_Name f = [] then groundName else wl_Name f)) r)
             (\<lambda>_ r1. ensure_floors g ws fs (wl_ID f # seen) r1))"

definition bool_text :: "bool \<Rightarrow> string" where
  "bool_text b = (if b then ''true'' else ''false'')"

definition item_status :: "WireFeed \<Rightarrow> WireItem \<Rightarrow> string" where
  "item_status feed item =
     (let a = it_Terminal item
      in wf_Epoch feed @ ''/'' @ wt_Status a @ ''/'' @ bool_text (wt_NeedsAttention a) @ ''/'' @ it_Prompt item)"

definition promptButtons :: "Button list" where
  "promptButtons =
     [\<lparr>bt_Text = ''Aprovar'', bt_Data = ''approve'', bt_Row = 1\<rparr>, \<lparr>bt_Text = ''Recusar'', bt_Data = ''reject'', bt_Row = 1\<rparr>]"

definition terminal_lines :: "WireTerminal \<Rightarrow> string" where
  "terminal_lines a = newline @ Join (wt_Preview a) newline"

text \<open>One item of a feed; what changed is posted, except a first sight or a running agent that needs nothing.\<close>

definition refresh_item :: "'w RelayPorts \<Rightarrow> WireWorkspace \<Rightarrow> WireFeed \<Rightarrow> WireItem \<Rightarrow> 'w Relay \<Rightarrow> error option \<times> 'w Relay" where
  "refresh_item g ws feed item r =
     (if it_Kind item \<noteq> ''terminal'' \<and> it_Kind item \<noteq> ''pendingPrompt'' then (None, r)
      else let a = it_Terminal item
           in case gm_get (rl_topics r) (scope (ww_ID ws) (wt_FloorID a)) of
                None \<Rightarrow> (None, r)
              | Some t \<Rightarrow>
                  if rt_Pending t then (None, r)
                  else let key = ww_ID ws @ ''/'' @ wt_ID a; status = item_status feed item; old = gm_get (rl_statuses r) key;
                           r1 = r\<lparr>rl_statuses := gm_put key status (rl_statuses r)\<rparr>
                       in if old = Some status \<or> rt_Muted t then (None, r1)
                          else if \<not> wt_NeedsAttention a \<and> (old = None \<or> wt_Status a = ''running'') then (None, r1)
                          else let (now, r2) = rl_call (rp_Now g) r1;
                                   target = \<lparr>tg_Workspace = ww_ID ws, tg_Floor = wt_FloorID a, tg_Terminal = wt_ID a, tg_Epoch = wf_Epoch feed,
                                             tg_Thread = rt_Thread t, tg_Prompt = it_Prompt item, tg_At = now, tg_Actions = []\<rparr>;
                                   buttons = (if it_Kind item = ''pendingPrompt'' then promptButtons else [])
                               in sendTarget g target (''['' @ wt_Name a @ ''] '' @ wt_Status a @ terminal_lines a) buttons (wt_NeedsAttention a) r2)"

fun refresh_items :: "'w RelayPorts \<Rightarrow> WireWorkspace \<Rightarrow> WireFeed \<Rightarrow> WireItem list \<Rightarrow> 'w Relay \<Rightarrow> error option \<times> 'w Relay" where
  "refresh_items g ws feed [] r = (None, r)"
| "refresh_items g ws feed (x # xs) r = and_then (refresh_item g ws feed x r) (refresh_items g ws feed xs)"

fun refresh_workspaces :: "'w RelayPorts \<Rightarrow> (string, WireFeed) go_map \<Rightarrow> WireWorkspace list \<Rightarrow> 'w Relay \<Rightarrow> error option \<times> 'w Relay" where
  "refresh_workspaces g feeds [] r = (None, r)"
| "refresh_workspaces g feeds (ws # wss) r =
     (case gm_get feeds (ww_ID ws) of
        None \<Rightarrow> refresh_workspaces g feeds wss r
      | Some feed \<Rightarrow>
          and_then (ensure_floors g ws (\<lparr>wl_ID = [], wl_Name = groundName, wl_IsCloneMissing = False\<rparr> # wf_Floors feed) [] r)
            (\<lambda>r1. and_then (refresh_items g ws feed (wf_Items feed) r1) (refresh_workspaces g feeds wss)))"

definition Refresh :: "'w RelayPorts \<Rightarrow> 'w Relay \<Rightarrow> error option \<times> 'w Relay" where
  "Refresh g r0 =
     or_err (rl_call (rp_Info g) r0) (\<lambda>_ r1.
       or_err (rl_call (rp_Workspaces g) r1) (\<lambda>wss r2.
         let (feeds, r3) = relay_feeds g wss [] r2; r4 = r3\<lparr>rl_feeds := feeds\<rparr>
         in or_err (ensureTopic g ''maestro'' [] ''Maestro'' r4) (\<lambda>_ r5. refresh_workspaces g feeds wss r5)))"

section \<open>The agent a message is for\<close>

definition topic_of :: "'w Relay \<Rightarrow> int \<Rightarrow> relayTopic option" where
  "topic_of r thread = find (\<lambda>t. rt_Thread t = thread \<and> \<not> rt_Pending t) (map snd (rl_topics r))"

text \<open>The filter of the loop over the items.\<close>

definition candidate :: "relayTopic \<Rightarrow> int \<Rightarrow> string \<Rightarrow> string \<Rightarrow> WireTerminal \<Rightarrow> bool" where
  "candidate topic answered old explicit a \<longleftrightarrow>
     wt_ID a \<noteq> [] \<and> wt_FloorID a = rt_Floor topic \<and> wt_IsLive a \<and> wt_IsRunning a
     \<and> (if answered \<noteq> 0 then wt_ID a = old else if explicit \<noteq> [] then wt_ID a = explicit else wt_IsManager a)"

definition bound_ok :: "relayTopic \<Rightarrow> WireFeed \<Rightarrow> int \<Rightarrow> relayTarget option \<Rightarrow> bool" where
  "bound_ok topic feed thread old =
     (case old of
        None \<Rightarrow> False
      | Some b \<Rightarrow> tg_Thread b = thread \<and> tg_Workspace b = rt_Workspace topic \<and> tg_Floor b = rt_Floor topic \<and> tg_Epoch b = wf_Epoch feed)"

text \<open>The prompt noted for a terminal is the one of its last item on the floor.\<close>

definition prompt_of :: "relayTopic \<Rightarrow> WireFeed \<Rightarrow> string \<Rightarrow> string" where
  "prompt_of topic feed i =
     (case filter (\<lambda>x. wt_ID (it_Terminal x) = i \<and> wt_FloorID (it_Terminal x) = rt_Floor topic
                     \<and> wt_IsLive (it_Terminal x) \<and> wt_IsRunning (it_Terminal x)) (wf_Items feed) of
        [] \<Rightarrow> []
      | x # xs \<Rightarrow> it_Prompt (last (x # xs)))"

definition relay_target ::
  "'w RelayPorts \<Rightarrow> int \<Rightarrow> int \<Rightarrow> string \<Rightarrow> 'w Relay \<Rightarrow> (relayTarget \<times> WireTerminal) result \<times> 'w Relay" where
  "relay_target g thread answered explicit r =
     (let old = gm_get (rl_replies r) answered
      in case topic_of r thread of
           None \<Rightarrow> (Inl (OtherError ''topic without allowed floor''), r)
         | Some topic \<Rightarrow>
             if rt_Workspace topic = ''maestro'' \<or> \<not> Allows (rp_Config g) (rt_Workspace topic)
             then (Inl (OtherError ''topic without allowed floor''), r)
             else or_fail (rl_call (rp_Feed g (rt_Workspace topic) (rt_Floor topic)) r) (\<lambda>feed r1.
               if ww_ID (wf_Workspace feed) \<noteq> rt_Workspace topic \<or> \<not> ValidRelayID (wf_Epoch feed)
               then (Inl (OtherError ''feed without identity''), r1)
               else if answered \<noteq> 0 \<and> \<not> bound_ok topic feed thread old then (Inl (OtherError ''old reply''), r1)
               else let there = (case old of None \<Rightarrow> [] | Some b \<Rightarrow> tg_Terminal b)
                    in case filter (candidate topic answered there explicit) (map it_Terminal (wf_Items feed)) of
                         [a] \<Rightarrow>
                           let (now, r2) = rl_call (rp_Now g) r1
                           in (Inr (\<lparr>tg_Workspace = rt_Workspace topic, tg_Floor = rt_Floor topic, tg_Terminal = wt_ID a,
                                     tg_Epoch = wf_Epoch feed, tg_Thread = thread, tg_Prompt = prompt_of topic feed (wt_ID a),
                                     tg_At = now, tg_Actions = []\<rparr>, a), r2)
                       | _ \<Rightarrow> (Inl (OtherError ''no target or more than one''), r1)))"

section \<open>Each message once\<close>

definition once :: "'w RelayPorts \<Rightarrow> string \<Rightarrow> 'w Relay \<Rightarrow> (bool \<times> error option) \<times> 'w Relay" where
  "once g key r =
     (if gm_get (rs_Seen (rl_state r)) key \<noteq> None then ((False, None), r)
      else let (now, r1) = rl_call (rp_Now g) r;
               kept = filter (\<lambda>p. \<not> time_Sub now (snd p) > 48 * Hour) (rs_Seen (rl_state r1));
               (err, r2) = relay_save g (r1\<lparr>rl_state := (rl_state r1)\<lparr>rs_Seen := gm_put key now kept\<rparr>\<rparr>)
           in ((True, err), r2))"

end
