(* ===== verification/Relay_Deploy.thy ===== *)
theory Relay_Deploy
  imports Relay
begin

text \<open>
  Creating a team on the host, \<^verbatim>\<open>internal/app/relay_deploy.go\<close>. Every request that creates something is a numbered step of
  a job: it is noted as pending in the stored state before it is sent and its result is stored after, so that a job can be
  resumed and nothing is created twice. The names of fields in a request stand in the order the code writes them.
\<close>

datatype deployFail = DeployError error | ImportRequired "(string \<times> json) list"

definition or_stop :: "'a result \<times> 's \<Rightarrow> ('a \<Rightarrow> 's \<Rightarrow> (deployFail + 'b) \<times> 's) \<Rightarrow> (deployFail + 'b) \<times> 's" where
  "or_stop x k = (case x of (Inl e, s) \<Rightarrow> (Inl (DeployError e), s) | (Inr a, s) \<Rightarrow> k a s)"

definition stop_err :: "error option \<times> 's \<Rightarrow> ('s \<Rightarrow> (deployFail + 'b) \<times> 's) \<Rightarrow> (deployFail + 'b) \<times> 's" where
  "stop_err x k = (case x of (Some e, s) \<Rightarrow> (Inl (DeployError e), s) | (None, s) \<Rightarrow> k s)"

definition stop_fail :: "(deployFail + 'a) \<times> 's \<Rightarrow> ('a \<Rightarrow> 's \<Rightarrow> (deployFail + 'b) \<times> 's) \<Rightarrow> (deployFail + 'b) \<times> 's" where
  "stop_fail x k = (case x of (Inl e, s) \<Rightarrow> (Inl e, s) | (Inr a, s) \<Rightarrow> k a s)"

lemma stop_simps [simp]:
  "or_stop (Inl e, s) k = (Inl (DeployError e), s)" "or_stop (Inr a, s) k = k a s"
  "stop_err (Some e, s) h = (Inl (DeployError e), s)" "stop_err (None, s) h = h s"
  "stop_fail (Inl d, s) f = (Inl d, s)" "stop_fail (Inr a, s) f = f a s"
  by (simp_all add: or_stop_def stop_err_def stop_fail_def)

section \<open>Steps\<close>

definition put_job :: "string \<Rightarrow> relayJob \<Rightarrow> 'w Relay \<Rightarrow> 'w Relay" where
  "put_job i j r = r\<lparr>rl_state := (rl_state r)\<lparr>rs_Jobs := gm_put i j (rl_jobs r)\<rparr>\<rparr>"

text \<open>A missing job is a nil pointer in the code; \<open>Deploy\<close> enters the job before its first step.\<close>

definition relay_step ::
  "'w RelayPorts \<Rightarrow> string \<Rightarrow> string \<Rightarrow> string \<Rightarrow> string \<Rightarrow> string \<Rightarrow> json \<Rightarrow> 'w Relay \<Rightarrow> RawMessage result \<times> 'w Relay" where
  "relay_step g jobID name capability verb path body r =
     (case gm_get (rl_jobs r) jobID of
        None \<Rightarrow> (Inl (OtherError ''nil job''), r)
      | Some job \<Rightarrow>
          (case gm_get (jb_Results job) name of
             Some res \<Rightarrow> (Inr res, r)
           | None \<Rightarrow>
               if jb_Pending job \<noteq> [] then (Inl (OtherError ''step uncertain''), r)
               else if_ok (relay_save g (put_job jobID (job\<lparr>jb_Pending := name\<rparr>) r))
                      (\<lambda>r1. or_fail (rl_call (rp_Call g capability verb path body) r1)
                        (\<lambda>res r2. if_ok (relay_save g (put_job jobID (job\<lparr>jb_Pending := [], jb_Results := gm_put name res (jb_Results job)\<rparr>) r2))
                          (\<lambda>r3. (Inr res, r3))))))"

definition resultID :: "RawMessage \<Rightarrow> string \<Rightarrow> string result" where
  "resultID raw key =
     (case raw of
        Some (JObject fs) \<Rightarrow>
          (case gm_get (rev fs) key of
             Some (JString i) \<Rightarrow> if ValidRelayID i then Inr i else Inl (OtherError ''no valid id in the answer'')
           | _ \<Rightarrow> Inl (OtherError ''no valid id in the answer''))
      | _ \<Rightarrow> Inl (OtherError ''no valid id in the answer''))"

definition step_id ::
  "'w RelayPorts \<Rightarrow> string \<Rightarrow> string \<Rightarrow> string \<Rightarrow> string \<Rightarrow> json \<Rightarrow> string \<Rightarrow> 'w Relay \<Rightarrow> string result \<times> 'w Relay" where
  "step_id g jobID name capability path body key r =
     or_fail (relay_step g jobID name capability ''POST'' path body r) (\<lambda>res r1. (resultID res key, r1))"

section \<open>Checks before anything is created\<close>

definition plan_error :: "'w RelayPorts \<Rightarrow> string \<Rightarrow> MaestroPlan \<Rightarrow> error option" where
  "plan_error g jobID plan =
     (if pl_Action plan \<noteq> [] \<and> pl_Action plan \<noteq> ''create'' then Some (OtherError ''not a creation'')
      else if \<not> ValidRelayID jobID then Some (OtherError ''invalid job id'')
      else case Arrangement_Validate (rp_ParseURL g) (pl_Arrangement plan) of
             Some e \<Rightarrow> Some e
           | None \<Rightarrow>
               if pl_WorkspaceID plan = [] \<and> (TrimSpace (pl_WorkspaceName plan) = [] \<or> TrimSpace (pl_Directory plan) = [])
               then Some (OtherError ''new workspace needs a name and a directory'')
               else if pl_WorkspaceID plan = [] \<and> \<not> Allows (rp_Config g) ''*'' then Some (OtherError ''new workspaces not allowed'')
               else if pl_WorkspaceID plan \<noteq> [] \<and> (\<not> ValidRelayID (pl_WorkspaceID plan) \<or> \<not> Allows (rp_Config g) (pl_WorkspaceID plan))
               then Some (OtherError ''workspace not allowed'')
               else if pl_FloorID plan \<noteq> [] \<and> \<not> ValidRelayID (pl_FloorID plan) then Some (OtherError ''invalid floor'')
               else if pl_FloorID plan \<noteq> [] \<and> pl_FloorName plan \<noteq> [] then Some (OtherError ''floor and new floor'')
               else None)"

definition host_error :: "WireInfo \<Rightarrow> MaestroPlan \<Rightarrow> error option" where
  "host_error info plan =
     (if wi_Role info \<noteq> ''owner'' then Some (OtherError ''needs pairing as owner'')
      else if \<not> WireInfo_Has info ''canvasWrites'' \<or> \<not> WireInfo_Has info ''feedSnapshots'' then Some (OtherError ''host lacks a capability'')
      else if pl_WorkspaceID plan = [] \<and> \<not> WireInfo_Has info ''workspaceManagement'' then Some (OtherError ''host lacks workspaceManagement'')
      else if pl_FloorName plan \<noteq> [] \<and> \<not> WireInfo_Has info ''floorManagement'' then Some (OtherError ''host lacks floorManagement'')
      else if (\<exists>n\<in>set (ar_Nodes (pl_Arrangement plan)). an_Kind n = ''terminal'')
              \<and> (\<not> WireInfo_Has info ''roleManagement'' \<or> \<not> WireInfo_Has info ''terminalDrafts'')
      then Some (OtherError ''host lacks roleManagement or terminalDrafts'')
      else None)"

definition floor_check :: "'w RelayPorts \<Rightarrow> MaestroPlan \<Rightarrow> 'w Relay \<Rightarrow> error option \<times> 'w Relay" where
  "floor_check g plan r =
     (if pl_WorkspaceID plan = [] then (None, r)
      else or_err (rl_call (rp_Feed g (pl_WorkspaceID plan) (pl_FloorID plan)) r) (\<lambda>feed r1.
             if pl_FloorID plan = [] \<or> (\<exists>f\<in>set (wf_Floors feed). wl_ID f = pl_FloorID plan \<and> \<not> wl_IsCloneMissing f)
             then (None, r1) else (Some (OtherError ''no such floor''), r1)))"

text \<open>The preset of a terminal: the one it names, or the only one that matches its type.\<close>

definition node_preset :: "AgentPreset list \<Rightarrow> ArrangementNode \<Rightarrow> ArrangementNode result" where
  "node_preset presets n =
     (if an_Kind n \<noteq> ''terminal'' then Inr n
      else if an_PresetID n = []
      then (case filter (\<lambda>p. ap_AgentType p = an_AgentType n \<or> an_AgentType n = [] \<and> ap_IsDefault p) presets of
              [p] \<Rightarrow> Inr (n\<lparr>an_PresetID := ap_ID p\<rparr>)
            | _ \<Rightarrow> Inl (OtherError ''select a preset''))
      else if an_PresetID n \<in> ap_ID ` set presets then Inr n else Inl (OtherError ''no such preset''))"

fun node_presets :: "AgentPreset list \<Rightarrow> ArrangementNode list \<Rightarrow> ArrangementNode list result" where
  "node_presets presets [] = Inr []"
| "node_presets presets (n # ns) =
     (case node_preset presets n of
        Inl e \<Rightarrow> Inl e
      | Inr n1 \<Rightarrow> (case node_presets presets ns of Inl e \<Rightarrow> Inl e | Inr ns1 \<Rightarrow> Inr (n1 # ns1)))"

text \<open>An arrangement with portals must be in the library of the host; the result is its id there.\<close>

definition portal_check ::
  "'w RelayPorts \<Rightarrow> WireInfo \<Rightarrow> Arrangement \<Rightarrow> AgentPreset list \<Rightarrow> 'w Relay \<Rightarrow> (deployFail + string) \<times> 'w Relay" where
  "portal_check g info a presets r =
     (if \<not> (\<exists>n\<in>set (ar_Nodes a). an_Kind n = ''portal'') then (Inr [], r)
      else case rp_Native g of
             None \<Rightarrow> (Inl (DeployError (OtherError ''no exporter'')), r)
           | Some export \<Rightarrow>
               or_stop (export a presets, r) (\<lambda>native r0.
                 let nativeID = (case gm_get native ''id'' of Some (JString i) \<Rightarrow> i | _ \<Rightarrow> [])
                 in if \<not> WireInfo_Has info ''partituras'' then (Inl (ImportRequired native), r0)
                    else or_stop (rl_call (rp_Call g ''partituras'' ''GET'' ''/api/partituras'' JNull) r0) (\<lambda>raw r1.
                      case decode_list ''partituras'' [''id''] raw of
                        None \<Rightarrow> (Inl (DeployError (OtherError ''bad answer'')), r1)
                      | Some ps \<Rightarrow>
                          if \<exists>p\<in>set ps. EqualFold (hd p) nativeID then (Inr nativeID, r1) else (Inl (ImportRequired native), r1))))"

section \<open>The place\<close>

text \<open>
  The wait for a new floor, one second between two looks. The context ends after 300 seconds, so it has ended by the
  pause of the 300th turn.
\<close>

definition floorTurns :: nat where "floorTurns = 300"

fun wait_floor :: "nat \<Rightarrow> 'w RelayPorts \<Rightarrow> string \<Rightarrow> string \<Rightarrow> 'w Relay \<Rightarrow> error option \<times> 'w Relay" where
  "wait_floor 0 g ws flr r = (Some CtxDeadlineExceeded, r)"
| "wait_floor (Suc n) g ws flr r =
     or_err (rl_call (rp_Feed g ws ''ground'') r) (\<lambda>feed r1.
       if \<exists>f\<in>set (wf_Floors feed). wl_ID f = flr then (None, r1)
       else if \<exists>p\<in>set (wf_PendingFloors feed). pf_ID p = flr \<and> pf_Error p \<noteq> [] then (Some (OtherError ''floor failed on the host''), r1)
       else and_then (rl_call (rp_Pause g) r1) (wait_floor n g ws flr))"

definition deploy_workspace :: "'w RelayPorts \<Rightarrow> string \<Rightarrow> MaestroPlan \<Rightarrow> 'w Relay \<Rightarrow> string result \<times> 'w Relay" where
  "deploy_workspace g jobID plan r =
     (if pl_WorkspaceID plan \<noteq> [] then (Inr (pl_WorkspaceID plan), r)
      else step_id g jobID ''workspace'' ''workspaceManagement'' ''/api/workspaces''
             (JObject [(''name'', JString (pl_WorkspaceName plan)), (''workingDirectory'', JString (pl_Directory plan)), (''createDirectory'', JBool True)])
             ''workspaceId'' r)"

definition deploy_floor :: "'w RelayPorts \<Rightarrow> string \<Rightarrow> MaestroPlan \<Rightarrow> string \<Rightarrow> 'w Relay \<Rightarrow> string result \<times> 'w Relay" where
  "deploy_floor g jobID plan ws r =
     (if pl_FloorName plan = [] then (Inr (pl_FloorID plan), r)
      else or_fail (step_id g jobID ''floor'' ''floorManagement'' (''/api/workspaces/'' @ ws @ ''/floors'')
                      (JObject [(''name'', JString (pl_FloorName plan)), (''gitIsolation'', JBool False)]) ''floorId'' r)
             (\<lambda>flr r1. if_ok (wait_floor floorTurns g ws flr r1) (\<lambda>r2. (Inr flr, r2))))"

definition with_floor :: "string \<Rightarrow> (string \<times> json) list \<Rightarrow> json" where
  "with_floor flr fs = JObject (if flr = [] then fs else fs @ [(''floorId'', JString flr)])"

definition jnum :: "rat \<Rightarrow> json" where "jnum q = JNumber (Finite q)"

section \<open>The nodes\<close>

text \<open>The request for a node: path and fields besides its place; a terminal gets a role of its own first.\<close>

definition node_request ::
  "'w RelayPorts \<Rightarrow> string \<Rightarrow> string \<Rightarrow> ArrangementNode \<Rightarrow> 'w Relay \<Rightarrow> (string \<times> (string \<times> json) list) result \<times> 'w Relay" where
  "node_request g jobID ws n r =
     (if an_Kind n = ''terminal''
      then or_fail (step_id g jobID (''role-'' @ an_ID n) ''roleManagement'' ''/api/roles''
                      (JObject [(''name'', JString (an_Name n @ utf '' `. '' @ jobID)), (''prompt'', JString (an_Prompt n)),
                                (''workspaceId'', JString ws), (''color'', JString ''#007AFF''), (''icon'', JString ''person.text.rectangle'')]) ''id'' r)
             (\<lambda>role r1. (Inr (''/terminals'',
                 [(''presetId'', JString (an_PresetID n)), (''name'', JString (an_Name n)), (''roleId'', JString role),
                  (''maestroMode'', JBool (an_Manager n)), (''monitorActivity'', JBool True)]), r1))
      else (Inr (''/nodes'', [(''kind'', JString ''note''), (''text'', JString (an_Text n))]), r))"

definition deploy_node ::
  "'w RelayPorts \<Rightarrow> string \<Rightarrow> string \<Rightarrow> string \<Rightarrow> ArrangementNode \<Rightarrow> 'w Relay \<Rightarrow> string result \<times> 'w Relay" where
  "deploy_node g jobID ws flr n r =
     (let base = ''/api/workspaces/'' @ ws
      in or_fail (node_request g jobID ws n r) (\<lambda>(path, fields) r1.
           or_fail (step_id g jobID (''node-'' @ an_ID n) ''canvasWrites'' (base @ path)
                      (with_floor flr ([(''x'', JNumber (an_X n)), (''y'', JNumber (an_Y n)), (''mutationId'', JString (jobID @ ''-'' @ an_ID n))] @ fields))
                      ''nodeId'' r1)
             (\<lambda>i r2. or_fail (relay_step g jobID (''frame-'' @ an_ID n) ''canvasWrites'' ''POST'' (base @ ''/nodes/'' @ i @ ''/frame'')
                        (JObject [(''x'', JNumber (an_X n)), (''y'', JNumber (an_Y n)), (''width'', JNumber (an_Width n)),
                                  (''height'', JNumber (an_Height n)), (''mutationId'', JString (jobID @ ''-frame-'' @ an_ID n))]) r2)
                  (\<lambda>_ r3. (Inr i, r3)))))"

text \<open>The ids the host gave to the nodes.\<close>

fun deploy_nodes ::
  "'w RelayPorts \<Rightarrow> string \<Rightarrow> string \<Rightarrow> string \<Rightarrow> ArrangementNode list \<Rightarrow> (string, string) go_map \<Rightarrow> 'w Relay \<Rightarrow> (string, string) go_map result \<times> 'w Relay" where
  "deploy_nodes g jobID ws flr [] ids r = (Inr ids, r)"
| "deploy_nodes g jobID ws flr (n # ns) ids r =
     or_fail (deploy_node g jobID ws flr n r) (\<lambda>i r1. deploy_nodes g jobID ws flr ns (gm_put (an_ID n) i ids) r1)"

fun deploy_edges ::
  "'w RelayPorts \<Rightarrow> string \<Rightarrow> string \<Rightarrow> (string, string) go_map \<Rightarrow> nat \<Rightarrow> ArrangementConnection list \<Rightarrow> 'w Relay \<Rightarrow> error option \<times> 'w Relay" where
  "deploy_edges g jobID ws ids k [] r = (None, r)"
| "deploy_edges g jobID ws ids k (c # cs) r =
     (let name = ''edge-'' @ Itoa (int k)
      in or_err (relay_step g jobID name ''canvasWrites'' ''POST'' (''/api/workspaces/'' @ ws @ ''/connections'')
                   (JObject [(''fromNodeId'', JString (gm_string ids (ac_From c))), (''toNodeId'', JString (gm_string ids (ac_To c))),
                             (''mutationId'', JString (jobID @ ''-'' @ name))]) r)
           (\<lambda>_ r1. deploy_edges g jobID ws ids (Suc k) cs r1))"

text \<open>The host shows every node it confirmed.\<close>

definition confirm_nodes :: "'w RelayPorts \<Rightarrow> string \<Rightarrow> string \<Rightarrow> (string, string) go_map \<Rightarrow> 'w Relay \<Rightarrow> error option \<times> 'w Relay" where
  "confirm_nodes g ws flr ids r =
     or_err (rl_call (rp_Feed g ws flr) r) (\<lambda>feed r1.
       case decode_list ''nodes'' [''id''] (wf_Canvas feed) of
         None \<Rightarrow> (Some (OtherError ''nodes not verified''), r1)
       | Some found \<Rightarrow>
           if \<forall>i\<in>snd ` set ids. [i] \<in> set found then (None, r1) else (Some (OtherError ''nodes not confirmed yet''), r1))"

definition deploy_steps ::
  "'w RelayPorts \<Rightarrow> string \<Rightarrow> string \<Rightarrow> string \<Rightarrow> Arrangement \<Rightarrow> 'w Relay \<Rightarrow> error option \<times> 'w Relay" where
  "deploy_steps g jobID ws flr a r =
     or_err (deploy_nodes g jobID ws flr (ar_Nodes a) [] r) (\<lambda>ids r1.
       and_then (deploy_edges g jobID ws ids 0 (ar_Connections a) r1) (confirm_nodes g ws flr ids))"

section \<open>Arrangements with portals\<close>

text \<open>Ids and kinds of the nodes on a canvas, the last of an id counts.\<close>

definition relayCanvas :: "RawMessage \<Rightarrow> (string, string) go_map result" where
  "relayCanvas raw =
     (case decode_list ''nodes'' [''id'', ''kind''] raw of
        None \<Rightarrow> Inl (OtherError ''invalid canvas'')
      | Some ns \<Rightarrow>
          if \<exists>n\<in>set ns. n ! 0 = [] then Inl (OtherError ''node without id'')
          else Inr (fold (\<lambda>n m. gm_put (n ! 0) (n ! 1) m) ns []))"

text \<open>The canvas before the arrangement is applied is kept with the job.\<close>

definition canvas_before :: "'w RelayPorts \<Rightarrow> string \<Rightarrow> string \<Rightarrow> string \<Rightarrow> 'w Relay \<Rightarrow> RawMessage result \<times> 'w Relay" where
  "canvas_before g jobID ws flr r =
     (case gm_get (rl_jobs r) jobID of
        None \<Rightarrow> (Inl (OtherError ''nil job''), r)
      | Some job \<Rightarrow>
          (case gm_get (jb_Results job) ''native-before'' of
             Some raw \<Rightarrow> (Inr raw, r)
           | None \<Rightarrow>
               or_fail (rl_call (rp_Feed g ws flr) r) (\<lambda>feed r1.
                 or_fail (relayCanvas (wf_Canvas feed), r1) (\<lambda>_ r2.
                   if_ok (relay_save g (put_job jobID (job\<lparr>jb_Results := gm_put ''native-before'' (wf_Canvas feed) (jb_Results job)\<rparr>) r2))
                     (\<lambda>r3. (Inr (wf_Canvas feed), r3))))))"

text \<open>For every kind the canvas has gained as many nodes as the arrangement has.\<close>

definition canvas_gained :: "(string, string) go_map \<Rightarrow> (string, string) go_map \<Rightarrow> ArrangementNode list \<Rightarrow> bool" where
  "canvas_gained before after ns \<longleftrightarrow>
     (let kinds = map snd (filter (\<lambda>p. gm_get before (fst p) = None) after)
      in \<forall>n\<in>set ns. count_list (map an_Kind ns) (an_Kind n) \<le> count_list kinds (an_Kind n))"

definition deploy_native ::
  "'w RelayPorts \<Rightarrow> string \<Rightarrow> string \<Rightarrow> string \<Rightarrow> string \<Rightarrow> Arrangement \<Rightarrow> 'w Relay \<Rightarrow> error option \<times> 'w Relay" where
  "deploy_native g jobID nativeID ws flr a r =
     or_err (canvas_before g jobID ws flr r) (\<lambda>raw r1.
       or_err (relay_step g jobID ''partitura'' ''partituras'' ''POST'' (''/api/workspaces/'' @ ws @ ''/partituras'')
                 (with_floor flr [(''partituraId'', JString nativeID), (''x'', jnum 1000), (''y'', jnum 1000),
                                  (''mutationId'', JString (jobID @ ''-partitura''))]) r1) (\<lambda>_ r2.
         or_err (rl_call (rp_Feed g ws flr) r2) (\<lambda>feed r3.
           or_err (relayCanvas raw, r3) (\<lambda>before r4.
             or_err (relayCanvas (wf_Canvas feed), r4) (\<lambda>after r5.
               if canvas_gained before after (ar_Nodes a) then (None, r5)
               else (Some (OtherError ''arrangement not confirmed yet''), r5))))))"

section \<open>Deploy\<close>

text \<open>Entering the job: \<open>False\<close> when it is done already.\<close>

definition enter_job :: "'w RelayPorts \<Rightarrow> string \<Rightarrow> MaestroPlan \<Rightarrow> 'w Relay \<Rightarrow> bool result \<times> 'w Relay" where
  "enter_job g jobID plan r =
     (case gm_get (rl_jobs r) jobID of
        Some job \<Rightarrow>
          if rp_digest g (jb_Plan job) \<noteq> rp_digest g plan then (Inl (OtherError ''job id of another plan''), r)
          else if jb_Done job then (Inr False, r)
          else if_ok (relay_save g r) (\<lambda>r1. (Inr True, r1))
      | None \<Rightarrow>
          if_ok (relay_save g (put_job jobID \<lparr>jb_Plan = plan, jb_Pending = [], jb_Results = [], jb_Done = False\<rparr> r)) (\<lambda>r1. (Inr True, r1)))"

definition finish_job :: "'w RelayPorts \<Rightarrow> string \<Rightarrow> 'w Relay \<Rightarrow> error option \<times> 'w Relay" where
  "finish_job g jobID r =
     relay_save g (r\<lparr>rl_state := (rl_state r)\<lparr>rs_Jobs := gm_adjust jobID (\<lambda>j. j\<lparr>jb_Done := True\<rparr>) (rl_jobs r)\<rparr>\<rparr>)"

definition done_text :: "string \<Rightarrow> string" where
  "done_text jobID = utf ''Cria`c`ao '' @ jobID @ utf '' j`A conclu`ida; nada foi repetido.''"

definition created_text :: "string \<Rightarrow> string \<Rightarrow> string \<Rightarrow> string \<Rightarrow> string" where
  "created_text name ws flr jobID =
     ''Equipe '' @ name @ '' criada. Workspace '' @ ws @ '', andar '' @ flr @ utf ''. Cria`c`ao '' @ jobID @ ''.''"

definition deploy_job :: "'w RelayPorts \<Rightarrow> string \<Rightarrow> MaestroPlan \<Rightarrow> WireInfo \<Rightarrow> 'w Relay \<Rightarrow> (deployFail + string) \<times> 'w Relay" where
  "deploy_job g jobID plan info r =
     or_stop (rl_call (rp_Presets g) r) (\<lambda>presets r1.
       or_stop (node_presets presets (ar_Nodes (pl_Arrangement plan)), r1) (\<lambda>nodes r2.
         let a = (pl_Arrangement plan)\<lparr>ar_Nodes := nodes\<rparr>
         in stop_fail (portal_check g info a presets r2) (\<lambda>nativeID r3.
           or_stop (deploy_workspace g jobID plan r3) (\<lambda>ws r4.
             or_stop (deploy_floor g jobID plan ws r4) (\<lambda>flr r5.
               stop_err (if nativeID \<noteq> [] then deploy_native g jobID nativeID ws flr a r5 else deploy_steps g jobID ws flr a r5) (\<lambda>r6.
                 stop_err (finish_job g jobID r6) (\<lambda>r7. (Inr (created_text (ar_Name a) ws flr jobID), r7))))))))"

definition Deploy :: "'w RelayPorts \<Rightarrow> string \<Rightarrow> MaestroPlan \<Rightarrow> 'w Relay \<Rightarrow> (deployFail + string) \<times> 'w Relay" where
  "Deploy g jobID plan r =
     (case plan_error g jobID plan of
        Some e \<Rightarrow> (Inl (DeployError e), r)
      | None \<Rightarrow>
          or_stop (rl_call (rp_Info g) r) (\<lambda>info r1.
            case host_error info plan of
              Some e \<Rightarrow> (Inl (DeployError e), r1)
            | None \<Rightarrow>
                stop_err (floor_check g plan r1) (\<lambda>r2.
                  or_stop (enter_job g jobID plan r2) (\<lambda>todo r3.
                    if todo then deploy_job g jobID plan info r3 else (Inr (done_text jobID), r3)))))"

end
