(* ===== verification/Relay_Inbound.thy ===== *)
theory Relay_Inbound
  imports Relay_Deploy
begin

text \<open>
  What the relay does with a message, a command, a press or a file, \<^verbatim>\<open>internal/app/relay_inbound.go\<close>, and one turn of its
  loop (\<open>Run\<close> in \<^verbatim>\<open>relay.go\<close>). A handler returns the thread its error is reported in. A map is walked in the order of its
  list.
\<close>

datatype relayEvent =
    EventMessage TopicMessage | EventCommand GeneralCommand | EventButton ButtonPressed | EventFile TopicAttachment | EventOther

definition relayHelp :: string where
  "relayHelp = Join
     [''Maestri Relay'',
      utf ''/status ou /workspaces: andares e conex`Oes'',
      utf ''/agents: agentes do t`opico; responda ao card para conversar'',
      utf ''/screen: pr`evia do terminal escolhido'',
      ''/focus, /stop, /interrupt, /close: controlar o agente escolhido'',
      utf ''/mute e /unmute: notifica`c`Oes do andar'',
      utf ''/partituras <descri`c`ao>: buscar todo o cat`Alogo'',
      ''/apply <id>: aplicar exemplo neste andar'',
      utf ''/adapt <id> <descri`c`ao>: adaptar exemplo com IA'',
      utf ''/create <descri`c`ao>: criar equipe com IA'',
      utf ''/preview <descri`c`ao>: somente gerar o plano'',
      utf ''/resume <id>: retomar cria`c`ao com resultados j`A registrados'',
      utf ''/bind <workspace-id> <floor-id|ground> <topic-id>: recuperar v`inculo de t`opico'',
      utf ''Texto sem resposta vai ao coordenador do andar. No t`opico Maestro, texto cria uma equipe pela descri`c`ao.''] newline"

section \<open>Status, agents, catalogue\<close>

definition status_line :: "'w RelayPorts \<Rightarrow> 'w Relay \<Rightarrow> relayTopic \<Rightarrow> string" where
  "status_line g r t =
     (let state = (if rt_Pending t then utf ''cria`c`ao incerta''
                   else if gm_get (rl_feeds r) (rt_Workspace t) = None \<and> rt_Workspace t \<noteq> ''maestro'' then utf ''indispon`ivel''
                   else ''conectado'')
      in rt_Name t @ '': '' @ state @ '' ('' @ topicLink (rg_ChatID (rp_Config g)) (rt_Thread t) @ '')'')"

definition relay_status :: "'w RelayPorts \<Rightarrow> int \<Rightarrow> 'w Relay \<Rightarrow> error option \<times> 'w Relay" where
  "relay_status g thread r =
     relay_say g thread
       (Join (''Maestri Relay'' # map (\<lambda>k. status_line g r (the (gm_get (rl_topics r) k))) (sort (gm_keys (rl_topics r)))) newline) r"

definition agentButtons :: "Button list" where
  "agentButtons = [\<lparr>bt_Text = ''Tela'', bt_Data = ''screen'', bt_Row = 1\<rparr>, \<lparr>bt_Text = ''Foco'', bt_Data = ''focus'', bt_Row = 1\<rparr>]"

definition noTopic :: relayTopic where
  "noTopic = \<lparr>rt_Workspace = [], rt_Floor = [], rt_Name = [], rt_Thread = 0, rt_Pending = False, rt_Muted = False\<rparr>"

fun agent_cards :: "'w RelayPorts \<Rightarrow> int \<Rightarrow> relayTopic \<Rightarrow> WireFeed \<Rightarrow> WireItem list \<Rightarrow> 'w Relay \<Rightarrow> error option \<times> 'w Relay" where
  "agent_cards g thread topic feed [] r = (None, r)"
| "agent_cards g thread topic feed (x # xs) r =
     (let a = it_Terminal x
      in if wt_ID a = [] \<or> wt_FloorID a \<noteq> rt_Floor topic then agent_cards g thread topic feed xs r
         else let (now, r1) = rl_call (rp_Now g) r;
                  target = \<lparr>tg_Workspace = rt_Workspace topic, tg_Floor = rt_Floor topic, tg_Terminal = wt_ID a, tg_Epoch = wf_Epoch feed,
                            tg_Thread = thread, tg_Prompt = it_Prompt x, tg_At = now, tg_Actions = []\<rparr>
              in and_then (sendTarget g target
                   (''['' @ wt_Name a @ ''] '' @ wt_Status a @ newline @ ''Responda a esta mensagem para conversar com este agente.'')
                   agentButtons False r1)
                 (agent_cards g thread topic feed xs))"

definition relay_agents :: "'w RelayPorts \<Rightarrow> int \<Rightarrow> 'w Relay \<Rightarrow> error option \<times> 'w Relay" where
  "relay_agents g thread r =
     (let topic = fold (\<lambda>t acc. if rt_Thread t = thread then t else acc) (map snd (rl_topics r)) noTopic
      in if \<not> Allows (rp_Config g) (rt_Workspace topic) then (Some (OtherError ''open a topic of a floor''), r)
         else or_err (rl_call (rp_Feed g (rt_Workspace topic) (rt_Floor topic)) r) (\<lambda>feed r1.
           and_then (agent_cards g thread topic feed (wf_Items feed) r1) (\<lambda>r2.
             if \<exists>x\<in>set (wf_Items feed). wt_ID (it_Terminal x) \<noteq> [] \<and> wt_FloorID (it_Terminal x) = rt_Floor topic then (None, r2)
             else relay_say g thread ''Nenhum agente neste andar.'' r2)))"

definition catalog_score :: "string list \<Rightarrow> Arrangement \<Rightarrow> nat" where
  "catalog_score ws a =
     (let hay = ToLower (ar_Name a @ '' '' @ ar_Description a) in length (filter (\<lambda>w. Contains hay w) ws))"

definition catalog_matches :: "string \<Rightarrow> Arrangement list \<Rightarrow> Arrangement list" where
  "catalog_matches query entries =
     (let ws = Fields (ToLower query)
      in sort_key (\<lambda>a. - int (catalog_score ws a)) (filter (\<lambda>a. ws = [] \<or> catalog_score ws a > 0) entries))"

definition catalog_text :: "string \<Rightarrow> Arrangement list \<Rightarrow> string" where
  "catalog_text query entries =
     (let ms = catalog_matches query entries
      in Join ((utf ''Cat`Alogo: '' @ Itoa (int (length entries)) @ '' entradas; '' @ Itoa (int (length ms))
                @ utf '' resultados. Use /apply ID neste andar ou /adapt ID descri`c`ao.'')
               # map (\<lambda>a. ar_Name a @ newline @ ar_ID a) (take 12 ms)
               @ (if length ms > 12 then [utf ''Refine a descri`c`ao para ver outros resultados.''] else [])) (newline @ newline))"

definition relay_catalog :: "'w RelayPorts \<Rightarrow> int \<Rightarrow> string \<Rightarrow> 'w Relay \<Rightarrow> error option \<times> 'w Relay" where
  "relay_catalog g thread query r =
     (case rp_Catalog g of
        None \<Rightarrow> (Some (OtherError ''no catalogue''), r)
      | Some (entries, _) \<Rightarrow> relay_say g thread (catalog_text query entries) r)"

section \<open>Binding and muting a topic\<close>

definition bind :: "'w RelayPorts \<Rightarrow> string \<Rightarrow> 'w Relay \<Rightarrow> error option \<times> 'w Relay" where
  "bind g args r =
     (case Fields args of
        [ws, flr0, num] \<Rightarrow>
          (case Atoi num of
             None \<Rightarrow> (Some (OtherError ''invalid topic id''), r)
           | Some thread \<Rightarrow>
               if thread \<le> 0 then (Some (OtherError ''invalid topic id''), r)
               else let flr = (if flr0 = ''ground'' then [] else flr0)
                    in if \<not> Allows (rp_Config g) ws then (Some (OtherError ''workspace not allowed''), r)
                       else or_err (rl_call (rp_Feed g ws flr) r) (\<lambda>feed r1.
                         let named = filter (\<lambda>v. wl_ID v = flr) (wf_Floors feed); name = (if named = [] then groundName else wl_Name (last named))
                         in if flr \<noteq> [] \<and> named = [] then (Some (OtherError ''no such floor''), r1)
                            else if \<exists>p\<in>set (rl_topics r1). rt_Thread (snd p) = thread \<and> fst p \<noteq> scope ws flr
                            then (Some (OtherError ''topic of another floor''), r1)
                            else relay_save g (put_topic (scope ws flr)
                                   \<lparr>rt_Workspace = ws, rt_Floor = flr, rt_Name = topicName (ww_Name (wf_Workspace feed)) name,
                                    rt_Thread = thread, rt_Pending = False, rt_Muted = False\<rparr> r1)))
      | _ \<Rightarrow> (Some (OtherError ''usage of bind''), r))"

definition mute :: "'w RelayPorts \<Rightarrow> int \<Rightarrow> bool \<Rightarrow> 'w Relay \<Rightarrow> error option \<times> 'w Relay" where
  "mute g thread on r =
     (case find (\<lambda>p. rt_Thread (snd p) = thread) (rl_topics r) of
        None \<Rightarrow> (Some (OtherError ''unknown topic''), r)
      | Some (k, t) \<Rightarrow> relay_save g (put_topic k (t\<lparr>rt_Muted := on\<rparr>) r))"

section \<open>Plans\<close>

definition emptyArrangement :: Arrangement where
  "emptyArrangement =
     \<lparr>ar_ID = [], ar_Name = [], ar_Description = [], ar_Source = [], ar_Revision = [], ar_Nodes = [], ar_Connections = []\<rparr>"

definition emptyPlan :: MaestroPlan where
  "emptyPlan =
     \<lparr>pl_Action = [], pl_Message = [], pl_WorkspaceID = [], pl_WorkspaceName = [], pl_Directory = [], pl_FloorID = [],
      pl_FloorName = [], pl_Arrangement = emptyArrangement\<rparr>"

definition base_plan :: "'w Relay \<Rightarrow> int \<Rightarrow> MaestroPlan" where
  "base_plan r thread =
     fold (\<lambda>t p. if rt_Thread t = thread \<and> rt_Workspace t \<noteq> ''maestro''
                 then p\<lparr>pl_WorkspaceID := rt_Workspace t, pl_FloorID := rt_Floor t\<rparr> else p) (map snd (rl_topics r)) emptyPlan"

definition cut_space :: "string \<Rightarrow> string \<times> string" where
  "cut_space s = (case Cut s (CHR '' '') of None \<Rightarrow> (s, []) | Some p \<Rightarrow> p)"

text \<open>\<^verbatim>\<open>/apply\<close> and \<^verbatim>\<open>/adapt\<close> start from an arrangement of the catalogue.\<close>

definition catalog_base :: "'w RelayPorts \<Rightarrow> string \<Rightarrow> string \<Rightarrow> MaestroPlan \<Rightarrow> (MaestroPlan \<times> string) result" where
  "catalog_base g command args base =
     (if command \<noteq> ''/apply'' \<and> command \<noteq> ''/adapt'' then Inr (base, args)
      else case rp_Catalog g of
             None \<Rightarrow> Inl (OtherError ''no catalogue'')
           | Some (_, lookup) \<Rightarrow>
               (case lookup (fst (cut_space args)) of
                  Inl e \<Rightarrow> Inl e
                | Inr a \<Rightarrow>
                    if command = ''/apply'' \<and> pl_WorkspaceID base = [] then Inl (OtherError ''apply needs the topic of a floor'')
                    else Inr (base\<lparr>pl_Arrangement := a\<rparr>, TrimSpace (snd (cut_space args)))))"

fun allowed_workspaces :: "'w RelayPorts \<Rightarrow> WireWorkspace list \<Rightarrow> 'w Relay \<Rightarrow> WireWorkspace list result \<times> 'w Relay" where
  "allowed_workspaces g [] r = (Inr [], r)"
| "allowed_workspaces g (ws # wss) r =
     (if Allows (rp_Config g) (ww_ID ws) \<and> \<not> ww_IsLocked ws
      then or_fail (rl_call (rp_Feed g (ww_ID ws) ''ground'') r) (\<lambda>feed r1.
             or_fail (allowed_workspaces g wss r1) (\<lambda>rest r2. (Inr (ws\<lparr>ww_Floors := wf_Floors feed\<rparr> # rest), r2)))
      else allowed_workspaces g wss r)"

definition moved :: "MaestroPlan \<Rightarrow> MaestroPlan \<Rightarrow> bool" where
  "moved base plan \<longleftrightarrow>
     pl_WorkspaceID base \<noteq> []
     \<and> (pl_WorkspaceID plan \<noteq> pl_WorkspaceID base \<or> pl_FloorID plan \<noteq> pl_FloorID base \<or> pl_WorkspaceName plan \<noteq> [] \<or> pl_FloorName plan \<noteq> [])"

text \<open>The plan of the model.\<close>

definition make_plan :: "'w RelayPorts \<Rightarrow> string \<Rightarrow> MaestroPlan \<Rightarrow> 'w Relay \<Rightarrow> MaestroPlan result \<times> 'w Relay" where
  "make_plan g args base r =
     (if TrimSpace args = [] then (Inl (OtherError ''describe the team''), r)
      else case rp_Planner g of
             None \<Rightarrow> (Inl (OtherError ''no planner''), r)
           | Some planner \<Rightarrow>
               or_fail (rl_call (rp_Workspaces g) r) (\<lambda>wss r1.
                 or_fail (allowed_workspaces g wss r1) (\<lambda>allowed r2.
                   or_fail (rl_call (rp_Presets g) r2) (\<lambda>presets r3.
                     rl_call (planner args base allowed presets) r3))))"

definition document :: "int \<Rightarrow> string \<Rightarrow> string \<Rightarrow> string \<Rightarrow> Document" where
  "document thread name data caption =
     \<lparr>dc_ThreadID = thread, dc_Name = name, dc_Data = data, dc_Caption = caption, dc_ReplyTo = 0\<rparr>"

definition deploy_error :: "deployFail \<Rightarrow> error" where
  "deploy_error d = (case d of DeployError e \<Rightarrow> e | ImportRequired _ \<Rightarrow> OtherError ''import required'')"

definition import_caption :: "string \<Rightarrow> string" where
  "import_caption jobID =
     utf ''Importe esta partitura no Maestri; o Wire n`ao oferece importa`c`ao da biblioteca. Depois use /resume '' @ jobID"

definition run_plan :: "'w RelayPorts \<Rightarrow> int \<Rightarrow> string \<Rightarrow> MaestroPlan \<Rightarrow> 'w Relay \<Rightarrow> error option \<times> 'w Relay" where
  "run_plan g thread key plan r =
     (let jobID = ReplaceAll key '':'' ''-''
      in case Deploy g jobID plan r of
           (Inl (ImportRequired native), r1) \<Rightarrow>
             and_then (rl_call (rp_SendDocument g (document thread ''Relay.maestripartitura'' (rp_JsonText g native) (import_caption jobID))) r1)
               (\<lambda>r2. (Some (deploy_error (ImportRequired native)), r2))
         | (Inl (DeployError e), r1) \<Rightarrow> (Some e, r1)
         | (Inr t, r1) \<Rightarrow> relay_say g thread t (snd (Refresh g r1)))"

definition maestro :: "'w RelayPorts \<Rightarrow> int \<Rightarrow> string \<Rightarrow> string \<Rightarrow> string \<Rightarrow> 'w Relay \<Rightarrow> error option \<times> 'w Relay" where
  "maestro g thread key command args0 r =
     or_err (catalog_base g command args0 (base_plan r thread), r) (\<lambda>(base, args) r1.
       let preview = (\<lambda>plan r2. rl_call (rp_SendDocument g (document thread ''maestri-plan.json'' (rp_PlanText g plan) (utf ''Pr`evia; nada foi criado.''))) r2)
       in if command = ''/apply''
          then (if pl_Action base = ''preview'' then preview base r1 else run_plan g thread key base r1)
          else or_err (make_plan g args base r1) (\<lambda>plan r2.
            if pl_Action plan = ''answer'' then relay_say g thread (pl_Message plan) r2
            else if moved base plan then (Some (OtherError ''plan moved the target''), r2)
            else if command = ''/preview'' \<or> pl_Action plan = ''preview'' then preview plan r2
            else run_plan g thread key plan r2))"

section \<open>Presses and files\<close>

definition terminal_path :: "relayTarget \<Rightarrow> string \<Rightarrow> string" where
  "terminal_path t action = ''/api/terminals/'' @ tg_Terminal t @ ''/'' @ action"

definition show_screen :: "'w RelayPorts \<Rightarrow> relayTarget \<Rightarrow> WireTerminal \<Rightarrow> 'w Relay \<Rightarrow> error option \<times> 'w Relay" where
  "show_screen g t a r = sendTarget g t (''['' @ wt_Name a @ '']'' @ terminal_lines a) [] False r"

text \<open>The actions of a message are used up before the one pressed is carried out.\<close>

definition press_action :: "'w RelayPorts \<Rightarrow> ButtonPressed \<Rightarrow> relayTarget \<Rightarrow> 'w Relay \<Rightarrow> error option \<times> 'w Relay" where
  "press_action g ev t r =
     and_then (relay_save g (r\<lparr>rl_state := (rl_state r)\<lparr>rs_Replies := gm_adjust (bp_MessageID ev) (\<lambda>b. b\<lparr>tg_Actions := []\<rparr>) (rl_replies r)\<rparr>\<rparr>))
       (\<lambda>r1. or_err (rl_call (rp_Call g (if bp_Data ev = ''focus'' then ''terminalFocus'' else []) ''POST'' (terminal_path t (bp_Data ev)) (JObject [])) r1)
         (\<lambda>_ r2. (None, snd (rl_call (rp_EditButtons g (bp_MessageID ev) []) r2))))"

definition relay_button :: "'w RelayPorts \<Rightarrow> ButtonPressed \<Rightarrow> 'w Relay \<Rightarrow> error option \<times> 'w Relay" where
  "relay_button g ev r =
     (let expired = OtherError ''button expired''
      in case gm_get (rl_replies r) (bp_MessageID ev) of
           None \<Rightarrow> (Some expired, r)
         | Some b \<Rightarrow>
             if bp_Data ev \<notin> set (tg_Actions b) \<or> tg_Thread b \<noteq> bp_ThreadID ev then (Some expired, r)
             else let (now, r1) = rl_call (rp_Now g) r
                  in if time_Sub now (tg_At b) > 10 * Minute then (Some expired, r1)
                     else if bp_Data ev = ''cancel'' then rl_call (rp_EditButtons g (bp_MessageID ev) []) r1
                     else or_err (relay_target g (bp_ThreadID ev) (bp_MessageID ev) [] r1) (\<lambda>(t, a) r2.
                       if bp_Data ev = ''screen'' then show_screen g t a r2
                       else if bp_Data ev \<in> {''approve'', ''reject''} \<and> (tg_Prompt t = [] \<or> tg_Prompt t \<noteq> tg_Prompt b)
                       then (Some (OtherError ''question changed''), r2)
                       else if bp_Data ev \<notin> {''approve'', ''reject'', ''kill'', ''focus''} then (Some (OtherError ''unknown action''), r2)
                       else press_action g ev t r2))"

definition relay_file :: "'w RelayPorts \<Rightarrow> TopicAttachment \<Rightarrow> 'w Relay \<Rightarrow> error option \<times> 'w Relay" where
  "relay_file g ev r =
     or_err (relay_target g (at_ThreadID ev) (at_ReplyTo ev) [] r) (\<lambda>(t0, _) r1.
       or_err (relay_target g (at_ThreadID ev) (at_ReplyTo ev) (tg_Terminal t0) r1) (\<lambda>(t, _) r2.
         or_err (rl_call (rp_Download g (at_FileID ev) 8388608) r2) (\<lambda>b r3.
           or_err (rl_call (rp_Upload g (tg_Terminal t) (if at_Name ev = [] then at_Kind ev @ ''.bin'' else at_Name ev) (at_MIME ev) b) r3) (\<lambda>i r4.
             let file = JObject [(''attachmentId'', JString i)];
                 segments = (if at_Caption ev = [] then [file] else [JObject [(''text'', JString (at_Caption ev))], file])
             in or_err (rl_call (rp_Call g ''promptSegments'' ''POST'' (terminal_path t ''prompt'') (JObject [(''segments'', JArray segments)])) r4)
                  (\<lambda>_ r5. (None, r5))))))"

section \<open>Text\<close>

definition killButtons :: "Button list" where
  "killButtons = [\<lparr>bt_Text = ''Sim, encerrar'', bt_Data = ''kill'', bt_Row = 0\<rparr>, \<lparr>bt_Text = ''Cancelar'', bt_Data = ''cancel'', bt_Row = 0\<rparr>]"

text \<open>A command to the agent of the message, or text for it.\<close>

definition agent_text :: "'w RelayPorts \<Rightarrow> int \<Rightarrow> string \<Rightarrow> string \<Rightarrow> relayTarget \<Rightarrow> WireTerminal \<Rightarrow> 'w Relay \<Rightarrow> error option \<times> 'w Relay" where
  "agent_text g msg word t target a r =
     (if word = ''/screen'' then show_screen g target a r
      else if word = ''/focus''
      then or_err (rl_call (rp_Call g ''terminalFocus'' ''POST'' (terminal_path target ''focus'') (JObject [])) r) (\<lambda>_ r1. (None, r1))
      else if word = ''/stop'' then rl_call (rp_Input g (tg_Terminal target) [CHR 0x1B]) r
      else if word = ''/interrupt'' then rl_call (rp_Input g (tg_Terminal target) [CHR 0x03]) r
      else if word = ''/close'' then sendTarget g target (''Encerrar o processo de '' @ wt_Name a @ ''?'') killButtons False r
      else if word = ''/approve'' \<or> word = ''/reject'' then (Some (OtherError ''use the buttons''), r)
      else if HasPrefix word ''/'' \<and> word \<notin> {''/clear'', ''/compact'', ''/model'', ''/usage''} then (Some (OtherError ''unknown command''), r)
      else or_err (rl_call (rp_Call g [] ''POST'' (terminal_path target ''prompt'') (JObject [(''text'', JString t)])) r)
             (\<lambda>_ r1. relay_save g (put_reply msg target r1)))"

definition relay_resume :: "'w RelayPorts \<Rightarrow> int \<Rightarrow> string \<Rightarrow> 'w Relay \<Rightarrow> error option \<times> 'w Relay" where
  "relay_resume g thread jobID r =
     (case gm_get (rl_jobs r) jobID of
        None \<Rightarrow> (Some (OtherError ''no such creation''), r)
      | Some job \<Rightarrow>
          (case Deploy g jobID (jb_Plan job) r of
             (Inl d, r1) \<Rightarrow> (Some (deploy_error d), r1)
           | (Inr t, r1) \<Rightarrow> relay_say g thread t r1))"

definition is_maestro :: "'w Relay \<Rightarrow> int \<Rightarrow> bool" where
  "is_maestro r thread \<longleftrightarrow> (case gm_get (rl_topics r) (scope ''maestro'' []) of None \<Rightarrow> False | Some t \<Rightarrow> rt_Thread t = thread)"

definition relay_words :: "string \<Rightarrow> string \<times> string" where
  "relay_words t =
     (let (w, rest) = cut_space (TrimSpace t) in (case Cut w (CHR ''@'') of None \<Rightarrow> w | Some (v, _) \<Rightarrow> v, TrimSpace rest))"

definition relay_message :: "'w RelayPorts \<Rightarrow> int \<Rightarrow> int \<Rightarrow> int \<Rightarrow> string \<Rightarrow> string \<Rightarrow> 'w Relay \<Rightarrow> error option \<times> 'w Relay" where
  "relay_message g thread msg answered t key r =
     (let (word, args) = relay_words t
      in if word \<in> {''/help'', ''/start''} then relay_say g thread relayHelp r
         else if word \<in> {''/status'', ''/workspaces'', ''/floors''} then relay_status g thread r
         else if word = ''/agents'' then relay_agents g thread r
         else if word \<in> {''/partituras'', ''/catalog''} then relay_catalog g thread args r
         else if word \<in> {''/apply'', ''/adapt'', ''/create'', ''/preview''} then maestro g thread key word args r
         else if word = ''/resume'' then relay_resume g thread args r
         else if word = ''/bind'' then bind g args r
         else if word \<in> {''/mute'', ''/unmute''} then mute g thread (word = ''/mute'') r
         else if is_maestro r thread then maestro g thread key ''/create'' t r
         else or_err (relay_target g thread answered [] r) (\<lambda>(t0, _) r1.
                or_err (relay_target g thread answered (tg_Terminal t0) r1) (\<lambda>(target, a) r2.
                  agent_text g msg word t target a r2)))"

section \<open>Handle\<close>

text \<open>The work on an event whose key was not seen before.\<close>

definition handle_once :: "'w RelayPorts \<Rightarrow> string \<Rightarrow> ('w Relay \<Rightarrow> error option \<times> 'w Relay) \<Rightarrow> 'w Relay \<Rightarrow> error option \<times> 'w Relay" where
  "handle_once g key work r =
     (case once g key r of ((fresh, err), r1) \<Rightarrow> if err \<noteq> None \<or> \<not> fresh then (err, r1) else work r1)"

definition message_key :: "int \<Rightarrow> string" where "message_key i = ''m:'' @ Itoa i"

definition Relay_Handle :: "'w RelayPorts \<Rightarrow> relayEvent \<Rightarrow> 'w Relay \<Rightarrow> (int \<times> error option) \<times> 'w Relay" where
  "Relay_Handle g event r =
     (case event of
        EventMessage ev \<Rightarrow>
          if \<not> Operator (rp_Config g) (ms_FromID ev) then ((ms_ThreadID ev, None), r)
          else let key = message_key (ms_MessageID ev);
                   (err, r1) = handle_once g key (relay_message g (ms_ThreadID ev) (ms_MessageID ev) (ms_ReplyTo ev) (ms_Text ev) key) r
               in ((ms_ThreadID ev, err), r1)
      | EventCommand ev \<Rightarrow>
          if \<not> Operator (rp_Config g) (gc_FromID ev)
          then (if gc_Role ev = RoleObserver \<and> gc_Text ev = ''/help'' then (let (err, r1) = relay_say g 0 relayHelp r in ((0, err), r1))
                else if gc_Role ev = RoleObserver \<and> gc_Text ev = ''/status'' then (let (err, r1) = relay_status g 0 r in ((0, err), r1))
                else ((0, None), r))
          else let key = message_key (gc_MessageID ev);
                   (err, r1) = handle_once g key (relay_message g 0 (gc_MessageID ev) 0 (gc_Text ev) key) r
               in ((0, err), r1)
      | EventButton ev \<Rightarrow>
          if \<not> Operator (rp_Config g) (bp_FromID ev) then ((bp_ThreadID ev, None), r)
          else let (err, r1) = handle_once g (''b:'' @ bp_CallbackID ev)
                     (\<lambda>r0. relay_button g ev (snd (rl_call (rp_AnswerButton g (bp_CallbackID ev) ''Recebido'') r0))) r
               in ((bp_ThreadID ev, err), r1)
      | EventFile ev \<Rightarrow>
          if \<not> Operator (rp_Config g) (at_FromID ev) then ((at_ThreadID ev, None), r)
          else let (err, r1) = handle_once g (message_key (at_MessageID ev)) (relay_file g ev) r in ((at_ThreadID ev, err), r1)
      | EventOther \<Rightarrow> ((0, None), r))"

text \<open>One turn of the loop of \<open>Run\<close>: the tick, whose result says whether the loop ends, and an event.\<close>

definition relay_tick :: "'w RelayPorts \<Rightarrow> 'w Relay \<Rightarrow> error option \<times> 'w Relay" where
  "relay_tick g r = (let (_, r1) = Refresh g r in (rl_failure r1, r1))"

definition relay_event :: "'w RelayPorts \<Rightarrow> relayEvent \<Rightarrow> 'w Relay \<Rightarrow> 'w Relay" where
  "relay_event g event r =
     (case Relay_Handle g event r of
        ((thread, Some e), r1) \<Rightarrow> snd (relay_say g thread (rp_ErrorText g e) r1)
      | ((_, None), r1) \<Rightarrow> r1)"

end
