(* ===== verification/Relay_Runs.thy ===== *)
theory Relay_Runs
  imports Relay_Inbound
begin

text \<open>
  What every run of the relay keeps. \<open>relay_inv\<close> is the contract of an invariant: the calls that create nothing respect it
  by the relation \<open>quiet\<close> on worlds, and so do the few operations that change topics and jobs; its lemmas lift the invariant to
  a whole refresh, a whole deployment and every handler.
\<close>

section \<open>Running through a chain of calls\<close>

lemma snd_or_err:
  assumes "P (snd x)" "\<And>a s. P s \<Longrightarrow> P (snd (k a s))" shows "P (snd (or_err x k))"
  using assms by (auto simp: or_err_def split: prod.split sum.split)

lemma snd_or_fail:
  assumes "P (snd x)" "\<And>a s. P s \<Longrightarrow> P (snd (k a s))" shows "P (snd (or_fail x k))"
  using assms by (auto simp: or_fail_def split: prod.split sum.split)

lemma snd_if_ok:
  assumes "P (snd x)" "\<And>s. P s \<Longrightarrow> P (snd (k s))" shows "P (snd (if_ok x k))"
  using assms by (auto simp: if_ok_def split: prod.split option.split)

lemma snd_and_then:
  assumes "P (snd x)" "\<And>s. P s \<Longrightarrow> P (snd (k s))" shows "P (snd (and_then x k))"
  using assms by (auto simp: and_then_def split: prod.split option.split)

lemma snd_or_stop:
  assumes "P (snd x)" "\<And>a s. P s \<Longrightarrow> P (snd (k a s))" shows "P (snd (or_stop x k))"
  using assms by (auto simp: or_stop_def split: prod.split sum.split)

lemma snd_stop_err:
  assumes "P (snd x)" "\<And>s. P s \<Longrightarrow> P (snd (k s))" shows "P (snd (stop_err x k))"
  using assms by (auto simp: stop_err_def split: prod.split option.split)

lemma snd_stop_fail:
  assumes "P (snd x)" "\<And>a s. P s \<Longrightarrow> P (snd (k a s))" shows "P (snd (stop_fail x k))"
  using assms by (auto simp: stop_fail_def split: prod.split sum.split)


section \<open>The contract of an invariant\<close>

locale relay_inv =
  fixes g :: "'w RelayPorts"
    and J :: "'w Relay \<Rightarrow> bool"
    and quiet :: "'w \<Rightarrow> 'w \<Rightarrow> bool"
  assumes quiet_J: "J r \<Longrightarrow> quiet (rl_world r) w \<Longrightarrow> J (r\<lparr>rl_world := w\<rparr>)"
    and feeds_J: "J r \<Longrightarrow> J (r\<lparr>rl_feeds := fs\<rparr>)"
    and statuses_J: "J r \<Longrightarrow> J (r\<lparr>rl_statuses := ss\<rparr>)"
    and replies_J: "J r \<Longrightarrow> J (r\<lparr>rl_state := (rl_state r)\<lparr>rs_Replies := rs\<rparr>\<rparr>)"
    and once_J: "J r \<Longrightarrow> J (snd (once g key r))"
    and save_J: "J r \<Longrightarrow> J (snd (relay_save g r))"
    and ensure_J: "J r \<Longrightarrow> J (snd (ensureTopic g ws flr name r))"
    and topic_J: "J r \<Longrightarrow> J (put_topic k t r)"
    and step_J: "J r \<Longrightarrow> nm \<noteq> [] \<Longrightarrow> J (snd (relay_step g i nm capability ''POST'' path body r))"
    and enter_J: "J r \<Longrightarrow> J (snd (enter_job g i plan r))"
    and canvas_J: "J r \<Longrightarrow> J (snd (canvas_before g i ws flr r))"
    and finish_J: "J r \<Longrightarrow> J (snd (finish_job g i r))"
    and quiet_Info: "quiet w (snd (rp_Info g w))"
    and quiet_Workspaces: "quiet w (snd (rp_Workspaces g w))"
    and quiet_Feed: "quiet w (snd (rp_Feed g ws flr w))"
    and quiet_Presets: "quiet w (snd (rp_Presets g w))"
    and quiet_Library: "quiet w (snd (rp_Call g ''partituras'' ''GET'' path JNull w))"
    and quiet_Agent: "capability \<in> {[], ''terminalFocus'', ''promptSegments''} \<Longrightarrow> quiet w (snd (rp_Call g capability ''POST'' path body w))"
    and quiet_Input: "quiet w (snd (rp_Input g i b w))"
    and quiet_Upload: "quiet w (snd (rp_Upload g i nm mime b w))"
    and quiet_Send: "quiet w (snd (rp_Send g out w))"
    and quiet_SendDocument: "quiet w (snd (rp_SendDocument g d w))"
    and quiet_AnswerButton: "quiet w (snd (rp_AnswerButton g cb toast w))"
    and quiet_EditButtons: "quiet w (snd (rp_EditButtons g m bs w))"
    and quiet_Download: "quiet w (snd (rp_Download g fid most w))"
    and quiet_Now: "quiet w (snd (rp_Now g w))"
    and quiet_Pause: "quiet w (snd (rp_Pause g w))"
    and quiet_Plan: "rp_Planner g = Some planner \<Longrightarrow> quiet w (snd (planner args base wss ps w))"
begin

lemmas chain_J = snd_or_err [where P = J] snd_or_fail [where P = J] snd_if_ok [where P = J] snd_and_then [where P = J]
  snd_or_stop [where P = J] snd_stop_err [where P = J] snd_stop_fail [where P = J]

lemma if_J: "J (snd x) \<Longrightarrow> J (snd y) \<Longrightarrow> J (snd (if c then x else y))"
  by simp

lemma fail_J: "J r \<Longrightarrow> J (snd (x, r))"
  by simp

lemma call_J: "J r \<Longrightarrow> (\<And>w. quiet w (snd (f w))) \<Longrightarrow> J (snd (rl_call f r))"
  by (simp add: rl_call_def split_beta quiet_J)

lemmas quiet_ports = quiet_Info quiet_Workspaces quiet_Feed quiet_Presets quiet_Library quiet_Agent quiet_Input quiet_Upload quiet_Send
  quiet_SendDocument quiet_AnswerButton quiet_EditButtons quiet_Download quiet_Now quiet_Pause

lemma put_reply_J: "J r \<Longrightarrow> J (put_reply i t r)"
  by (simp add: put_reply_def replies_J)

text \<open>A call on the world is followed by one of the primitives; the rules are applied backwards.\<close>

lemma sendTarget_J: "J r \<Longrightarrow> J (snd (sendTarget g target t bs notify r))"
  unfolding sendTarget_def Let_def
  by (intro chain_J save_J replies_J put_reply_J call_J quiet_ports)

lemma say_J: "J r \<Longrightarrow> J (snd (relay_say g thread t r))"
  unfolding relay_say_def by (intro chain_J call_J quiet_ports) simp_all

lemma feeds_of_J: "J r \<Longrightarrow> J (snd (relay_feeds g wss acc r))"
proof (induction wss arbitrary: acc r)
  case (Cons ws wss)
  have "J (snd (rl_call (rp_Feed g (ww_ID ws) ''ground'') r))" by (intro call_J quiet_ports Cons.prems)
  with Cons show ?case by (auto split: prod.split sum.split)
qed simp

lemma floors_J: "J r \<Longrightarrow> J (snd (ensure_floors g ws fs seen r))"
proof (induction fs arbitrary: seen r)
  case (Cons f fs)
  then show ?case by (auto intro!: chain_J ensure_J)
qed simp

lemma now_J: "rl_call (rp_Now g) r = (now, r1) \<Longrightarrow> J r \<Longrightarrow> J r1"
  using call_J [of r "rp_Now g"] quiet_Now by (metis snd_conv)

lemma item_J:
  assumes "J r" shows "J (snd (refresh_item g ws feed item r))"
proof -
  obtain now r2 where now: "rl_call (rp_Now g) (r\<lparr>rl_statuses := gm_put (ww_ID ws @ ''/'' @ wt_ID (it_Terminal item)) (item_status feed item) (rl_statuses r)\<rparr>) = (now, r2)"
    by (cases "rl_call (rp_Now g) (r\<lparr>rl_statuses := gm_put (ww_ID ws @ ''/'' @ wt_ID (it_Terminal item)) (item_status feed item) (rl_statuses r)\<rparr>)")
  from now_J [OF now statuses_J [OF assms]] assms now show ?thesis
    unfolding refresh_item_def by (auto simp: Let_def sendTarget_J statuses_J split: option.split)
qed

lemma items_J: "J r \<Longrightarrow> J (snd (refresh_items g ws feed xs r))"
  by (induction xs arbitrary: r) (auto intro!: chain_J item_J)

lemma workspaces_J: "J r \<Longrightarrow> J (snd (refresh_workspaces g feeds wss r))"
  by (induction wss arbitrary: r) (auto intro!: chain_J items_J floors_J ensure_J split: option.split)

lemma Refresh_J: "J r \<Longrightarrow> J (snd (Refresh g r))"
proof -
  assume "J r"
  have "J (snd (let (feeds, r3) = relay_feeds g wss [] s; r4 = r3\<lparr>rl_feeds := feeds\<rparr>
         in or_err (ensureTopic g ''maestro'' [] ''Maestro'' r4) (\<lambda>_ r5. refresh_workspaces g feeds wss r5)))"
    if "J s" for wss s
    using feeds_of_J [OF that, of wss "[]"]
    by (cases "relay_feeds g wss [] s") (auto simp: Let_def intro!: chain_J ensure_J workspaces_J feeds_J)
  with \<open>J r\<close> show ?thesis
    unfolding Refresh_def by (intro chain_J call_J quiet_ports)
qed

lemma target_J:
  assumes "J r" shows "J (snd (relay_target g thread answered explicit r))"
proof (cases "topic_of r thread")
  case (Some topic)
  have now: "J (snd (case rl_call (rp_Now g) s of (now, r2) \<Rightarrow> (f now :: (relayTarget \<times> WireTerminal) result, r2)))" if "J s" for s f
    using now_J [of s] that by (cases "rl_call (rp_Now g) s") auto
  from Some assms show ?thesis
    unfolding relay_target_def Let_def
    by (simp del: snd_conv split del: if_split) (auto intro!: chain_J call_J quiet_ports now split: list.split if_splits)
qed (simp add: relay_target_def assms)

lemma status_J: "J r \<Longrightarrow> J (snd (relay_status g thread r))"
  unfolding relay_status_def by (rule say_J)

lemma cards_J: "J r \<Longrightarrow> J (snd (agent_cards g thread topic feed xs r))"
proof (induction xs arbitrary: r)
  case (Cons x xs)
  obtain now r1 where now: "rl_call (rp_Now g) r = (now, r1)" by (cases "rl_call (rp_Now g) r")
  have "J r1" using now Cons.prems by (rule now_J)
  with now Cons show ?case by (auto simp: Let_def intro!: chain_J sendTarget_J)
qed simp

lemma agents_J: "J r \<Longrightarrow> J (snd (relay_agents g thread r))"
  unfolding relay_agents_def Let_def by (auto intro!: chain_J call_J quiet_ports cards_J say_J)

lemma catalog_J: "J r \<Longrightarrow> J (snd (relay_catalog g thread query r))"
  unfolding relay_catalog_def by (auto intro: say_J split: option.split)

lemma bind_J: "J r \<Longrightarrow> J (snd (bind g args r))"
  unfolding bind_def Let_def
  by (auto intro!: chain_J call_J quiet_ports save_J topic_J split: list.split option.split)

lemma mute_J: "J r \<Longrightarrow> J (snd (mute g thread on r))"
  unfolding mute_def by (auto intro!: save_J topic_J split: option.split)

lemma screen_J: "J r \<Longrightarrow> J (snd (show_screen g t a r))"
  unfolding show_screen_def by (rule sendTarget_J)

section \<open>Deployment\<close>

lemma step_id_J: "J r \<Longrightarrow> nm \<noteq> [] \<Longrightarrow> J (snd (step_id g i nm capability path body key r))"
  unfolding step_id_def by (auto intro!: chain_J step_J)

lemma place_J:
  "J r \<Longrightarrow> J (snd (floor_check g plan r))"
  "J r \<Longrightarrow> J (snd (deploy_workspace g i plan r))"
  unfolding floor_check_def deploy_workspace_def by (auto intro!: chain_J call_J quiet_ports step_id_J)

lemma wait_J: "J r \<Longrightarrow> J (snd (wait_floor n g ws flr r))"
proof (induction n arbitrary: r)
  case (Suc n)
  show ?case unfolding wait_floor.simps
    by (intro chain_J call_J quiet_ports if_J fail_J Suc)
qed simp

lemma floor_J: "J r \<Longrightarrow> J (snd (deploy_floor g i plan ws r))"
  unfolding deploy_floor_def by (auto intro!: chain_J step_id_J wait_J)

lemma portal_J: "J r \<Longrightarrow> J (snd (portal_check g info a presets r))"
  unfolding portal_check_def Let_def
  by (auto intro!: chain_J call_J quiet_ports split: option.split)

lemma node_J: "J r \<Longrightarrow> J (snd (deploy_node g i ws flr n r))"
  unfolding deploy_node_def node_request_def Let_def
  by (auto intro!: chain_J step_id_J step_J)

lemma nodes_J: "J r \<Longrightarrow> J (snd (deploy_nodes g i ws flr ns ids r))"
  by (induction ns arbitrary: ids r) (auto intro!: chain_J node_J)

lemma edges_J: "J r \<Longrightarrow> J (snd (deploy_edges g i ws ids k cs r))"
  by (induction cs arbitrary: k r) (auto simp: Let_def intro!: chain_J step_J)

lemma confirm_J: "J r \<Longrightarrow> J (snd (confirm_nodes g ws flr ids r))"
  unfolding confirm_nodes_def by (auto intro!: chain_J call_J quiet_ports split: option.split)

lemma steps_J: "J r \<Longrightarrow> J (snd (deploy_steps g i ws flr a r))"
  unfolding deploy_steps_def by (auto intro!: chain_J nodes_J edges_J confirm_J)

lemma native_J: "J r \<Longrightarrow> J (snd (deploy_native g i nid ws flr a r))"
  unfolding deploy_native_def by (auto intro!: chain_J canvas_J step_J call_J quiet_ports)

lemma job_J: "J r \<Longrightarrow> J (snd (deploy_job g i plan info r))"
  unfolding deploy_job_def Let_def
  by (auto intro!: chain_J call_J quiet_ports portal_J place_J floor_J native_J steps_J finish_J)

lemma Deploy_J: "J r \<Longrightarrow> J (snd (Deploy g i plan r))"
  unfolding Deploy_def
  by (auto intro!: chain_J call_J quiet_ports place_J enter_J job_J split: option.split)

section \<open>Handlers\<close>

lemma allowed_J: "J r \<Longrightarrow> J (snd (allowed_workspaces g wss r))"
proof (induction wss arbitrary: r)
  case (Cons ws wss)
  show ?case unfolding allowed_workspaces.simps
    by (intro chain_J call_J quiet_ports if_J fail_J Cons)
qed simp

lemma make_plan_J: "J r \<Longrightarrow> J (snd (make_plan g args base r))"
  unfolding make_plan_def
  by (auto intro!: chain_J call_J quiet_ports quiet_Plan allowed_J split: option.split)

lemma run_plan_J: "J r \<Longrightarrow> J (snd (run_plan g thread key plan r))"
proof -
  assume "J r"
  obtain x r1 where d: "Deploy g (ReplaceAll key '':'' ''-'') plan r = (x, r1)"
    by (cases "Deploy g (ReplaceAll key '':'' ''-'') plan r")
  have "J r1" using Deploy_J [OF \<open>J r\<close>] d by (metis snd_conv)
  then show ?thesis
    unfolding run_plan_def Let_def d
    by (auto intro!: chain_J call_J quiet_ports say_J Refresh_J split: sum.split deployFail.split)
qed

lemma maestro_J: "J r \<Longrightarrow> J (snd (maestro g thread key command args r))"
  unfolding maestro_def Let_def
  by (auto intro!: chain_J call_J quiet_ports say_J run_plan_J make_plan_J)

lemma press_J: "J r \<Longrightarrow> J (snd (press_action g ev t r))"
  unfolding press_action_def
  by (auto intro!: chain_J save_J replies_J call_J quiet_ports)

lemma button_J: "J r \<Longrightarrow> J (snd (relay_button g ev r))"
proof (cases "gm_get (rl_replies r) (bp_MessageID ev)")
  case (Some b)
  assume "J r"
  obtain now r1 where now: "rl_call (rp_Now g) r = (now, r1)" by (cases "rl_call (rp_Now g) r")
  have "J r1" using now \<open>J r\<close> by (rule now_J)
  with Some \<open>J r\<close> now show ?thesis
    unfolding relay_button_def Let_def
    by (auto intro!: chain_J call_J quiet_ports target_J screen_J press_J)
qed (simp add: relay_button_def)

lemma file_J: "J r \<Longrightarrow> J (snd (relay_file g ev r))"
  unfolding relay_file_def Let_def
  by (auto intro!: chain_J call_J quiet_ports target_J)

lemma agent_text_J: "J r \<Longrightarrow> J (snd (agent_text g msg word t target a r))"
  unfolding agent_text_def
  by (intro if_J fail_J chain_J call_J quiet_ports screen_J sendTarget_J save_J put_reply_J insertI1 insertI2)

lemma resume_J: "J r \<Longrightarrow> J (snd (relay_resume g thread i r))"
proof (cases "gm_get (rl_jobs r) i")
  case (Some job)
  assume "J r"
  obtain x r1 where d: "Deploy g i (jb_Plan job) r = (x, r1)" by (cases "Deploy g i (jb_Plan job) r")
  have "J r1" using Deploy_J [OF \<open>J r\<close>] d by (metis snd_conv)
  with Some d show ?thesis unfolding relay_resume_def by (auto intro: say_J split: sum.split)
qed (simp add: relay_resume_def)

lemma message_J: "J r \<Longrightarrow> J (snd (relay_message g thread msg answered t key r))"
  unfolding relay_message_def
  by (auto simp: split_beta intro!: chain_J say_J status_J agents_J catalog_J maestro_J resume_J bind_J mute_J target_J agent_text_J)

lemma handle_once_J:
  assumes "J r" "\<And>s. J s \<Longrightarrow> J (snd (work s))" shows "J (snd (handle_once g key work r))"
proof -
  obtain x r1 where o: "once g key r = (x, r1)" by (cases "once g key r")
  have "J r1" using once_J [OF assms(1)] o by (metis snd_conv)
  then show ?thesis unfolding handle_once_def o by (cases x) (auto simp: assms(2))
qed

lemma answered_J: "J r \<Longrightarrow> J (snd (rl_call (rp_AnswerButton g cb toast) r))"
  by (intro call_J quiet_ports)

lemma Handle_J: "J r \<Longrightarrow> J (snd (Relay_Handle g event r))"
  unfolding Relay_Handle_def
  by (cases event)
     (auto simp: split_beta Let_def intro!: handle_once_J message_J say_J status_J button_J answered_J file_J)

lemma event_J: "J r \<Longrightarrow> J (relay_event g event r)"
  using Handle_J [of r event] unfolding relay_event_def
  by (cases "Relay_Handle g event r") (auto split: option.split intro: say_J)

lemma tick_J: "J r \<Longrightarrow> J (snd (relay_tick g r))"
  by (simp add: relay_tick_def split_beta Refresh_J)

end

section \<open>The store\<close>

text \<open>What a job has on record: one entry per step that was begun, one more for the canvas noted before an import.\<close>

definition job_weight :: "relayJob \<Rightarrow> nat" where
  "job_weight j = length (jb_Results j) + (if jb_Pending j = [] then 0 else 1)"

definition weight :: "(string, relayJob) go_map \<Rightarrow> nat" where
  "weight m = sum_list (map (\<lambda>p. job_weight (snd p)) m)"

lemma weight_put:
  "weight (gm_put k j m) + (case gm_get m k of None \<Rightarrow> 0 | Some old \<Rightarrow> job_weight old) = weight m + job_weight j"
  by (induction m) (auto simp: weight_def split: option.split)

lemma weight_put_None: "gm_get m k = None \<Longrightarrow> weight (gm_put k j m) = weight m + job_weight j"
  using weight_put [of k j m] by simp

lemma weight_put_Some: "gm_get m k = Some old \<Longrightarrow> weight (gm_put k j m) + job_weight old = weight m + job_weight j"
  using weight_put [of k j m] by simp

lemma length_put: "length (gm_put k v m) = length m + (if gm_get m k = None then 1 else 0)"
  by (induction m) auto

text \<open>
  A store that is read back as it was last written: \<open>disk\<close> is what it holds, \<open>made\<close> counts the topics asked of Telegram and \<open>asked\<close>
  the requests to the host that create something. A write that reports an error may have happened or not.
\<close>

definition still :: "('w \<Rightarrow> relayState) \<Rightarrow> ('w \<Rightarrow> nat) \<Rightarrow> ('w \<Rightarrow> nat) \<Rightarrow> 'w \<Rightarrow> 'w \<Rightarrow> bool" where
  "still disk made asked w w' \<longleftrightarrow> disk w' = disk w \<and> made w' = made w \<and> asked w' = asked w"

locale relay_store =
  fixes g :: "'w RelayPorts"
    and disk :: "'w \<Rightarrow> relayState"
    and made :: "'w \<Rightarrow> nat"
    and asked :: "'w \<Rightarrow> nat"
  assumes still_Info: "still disk made asked w (snd (rp_Info g w))"
    and still_Workspaces: "still disk made asked w (snd (rp_Workspaces g w))"
    and still_Feed: "still disk made asked w (snd (rp_Feed g ws flr w))"
    and still_Presets: "still disk made asked w (snd (rp_Presets g w))"
    and still_Library: "still disk made asked w (snd (rp_Call g ''partituras'' ''GET'' path JNull w))"
    and still_Agent: "capability \<in> {[], ''terminalFocus'', ''promptSegments''} \<Longrightarrow> still disk made asked w (snd (rp_Call g capability ''POST'' path body w))"
    and still_Input: "still disk made asked w (snd (rp_Input g i b w))"
    and still_Upload: "still disk made asked w (snd (rp_Upload g i nm mime b w))"
    and still_EditTopic: "still disk made asked w (snd (rp_EditTopic g thread patch w))"
    and still_Send: "still disk made asked w (snd (rp_Send g out w))"
    and still_SendDocument: "still disk made asked w (snd (rp_SendDocument g d w))"
    and still_AnswerButton: "still disk made asked w (snd (rp_AnswerButton g cb toast w))"
    and still_EditButtons: "still disk made asked w (snd (rp_EditButtons g m bs w))"
    and still_Download: "still disk made asked w (snd (rp_Download g fid most w))"
    and still_Now: "still disk made asked w (snd (rp_Now g w))"
    and still_Pause: "still disk made asked w (snd (rp_Pause g w))"
    and still_Plan: "rp_Planner g = Some planner \<Longrightarrow> still disk made asked w (snd (planner args base wss ps w))"
    and create_counts: "disk (snd (rp_CreateTopic g name st w)) = disk w" "asked (snd (rp_CreateTopic g name st w)) = asked w"
      "made (snd (rp_CreateTopic g name st w)) \<le> Suc (made w)"
    and call_counts: "disk (snd (rp_Call g capability ''POST'' path body w)) = disk w" "made (snd (rp_Call g capability ''POST'' path body w)) = made w"
      "asked (snd (rp_Call g capability ''POST'' path body w)) \<le> Suc (asked w)"
    and save_writes: "rp_Save g s w = (e, w') \<Longrightarrow> made w' = made w \<and> asked w' = asked w \<and> (disk w' = s \<or> e \<noteq> None \<and> disk w' = disk w)"
begin

text \<open>No more was asked for than is on record, and nothing on record is missing in memory.\<close>

definition recorded :: "'w Relay \<Rightarrow> bool" where
  "recorded r \<longleftrightarrow>
     (let d = disk (rl_world r); s = rl_state r
      in made (rl_world r) \<le> length (rs_Topics d) \<and> length (rs_Topics d) \<le> length (rs_Topics s)
         \<and> asked (rl_world r) \<le> weight (rs_Jobs d) \<and> weight (rs_Jobs d) \<le> weight (rs_Jobs s)
         \<and> gm_ok (rs_Topics d) \<and> gm_ok (rs_Topics s))"

lemma recorded_world:
  "recorded r \<Longrightarrow> still disk made asked (rl_world r) w \<Longrightarrow> recorded (r\<lparr>rl_world := w\<rparr>)"
  by (simp add: recorded_def still_def Let_def)

lemma recorded_call:
  "recorded r \<Longrightarrow> (\<And>w. still disk made asked w (snd (f w))) \<Longrightarrow> recorded (snd (rl_call f r))"
  by (simp add: rl_call_def split_beta recorded_world)

lemma relay_save_state [simp]: "rl_state (snd (relay_save g r)) = rl_state r"
  by (auto simp: relay_save_def rl_call_def split_beta Let_def split: option.split)

lemma relay_save_ok:
  "relay_save g r = (None, r') \<Longrightarrow> disk (rl_world r') = rl_state r \<and> rl_state r' = rl_state r
     \<and> made (rl_world r') = made (rl_world r) \<and> asked (rl_world r') = asked (rl_world r)"
  by (cases "rp_Save g (rl_state r) (rl_world r)")
     (auto simp: relay_save_def rl_call_def Let_def dest: save_writes split: option.splits)

lemma recorded_save:
  assumes "recorded r" shows "recorded (snd (relay_save g r))"
proof -
  obtain e w' where s: "rp_Save g (rl_state r) (rl_world r) = (e, w')" by (cases "rp_Save g (rl_state r) (rl_world r)")
  show ?thesis
    using save_writes [OF s] assms s
    by (cases e) (auto simp: relay_save_def rl_call_def recorded_def Let_def split: option.split)
qed

lemma recorded_topic: "recorded r \<Longrightarrow> recorded (put_topic k t r)"
  by (auto simp: recorded_def put_topic_def Let_def length_put)

lemma recorded_job:
  assumes "recorded r"
    and "case gm_get (rl_jobs r) i of None \<Rightarrow> True | Some old \<Rightarrow> job_weight old \<le> job_weight j"
  shows "recorded (put_job i j r)"
proof -
  have "weight (rl_jobs r) \<le> weight (gm_put i j (rl_jobs r))"
    using weight_put [of i j "rl_jobs r"] assms(2) by (auto split: option.splits)
  then show ?thesis using assms(1) by (auto simp: recorded_def put_job_def Let_def)
qed

lemma recorded_once:
  assumes "recorded r" shows "recorded (snd (once g key r))"
proof -
  obtain now r1 where now: "rl_call (rp_Now g) r = (now, r1)" by (cases "rl_call (rp_Now g) r")
  have r1: "recorded r1" using recorded_call [OF assms, of "rp_Now g"] still_Now now by (metis snd_conv)
  have "recorded (r1\<lparr>rl_state := (rl_state r1)\<lparr>rs_Seen := sn\<rparr>\<rparr>)" for sn
    using r1 by (simp add: recorded_def Let_def)
  from recorded_save [OF this] assms now show ?thesis by (auto simp: once_def Let_def split_beta)
qed

lemma recorded_create:
  assumes J: "recorded r" and new: "gm_get (rl_topics r) k = None" and saved: "relay_save g (put_topic k t r) = (None, r1)"
  shows "recorded (snd (rl_call (rp_CreateTopic g name st) r1))"
proof -
  have "recorded r1" using recorded_save [OF recorded_topic [OF J]] saved by (metis snd_conv)
  moreover have "Suc (made (rl_world r1)) \<le> length (rs_Topics (disk (rl_world r1)))"
    using J new relay_save_ok [OF saved] by (auto simp: recorded_def put_topic_def Let_def length_put)
  ultimately show ?thesis
    using create_counts [of name st "rl_world r1"] by (auto simp: recorded_def rl_call_def split_beta Let_def)
qed

lemma recorded_ensure:
  assumes J: "recorded r" shows "recorded (snd (ensureTopic g ws flr name r))"
proof (cases "gm_get (rl_topics r) (scope ws flr)")
  case (Some t)
  have "recorded (snd (rl_call (rp_EditTopic g (rt_Thread t) patch) r))" for patch
    using J still_EditTopic by (rule recorded_call)
  then show ?thesis
    unfolding ensureTopic_def Let_def Some option.case
    using J by (auto intro!: snd_if_ok [where P = recorded] recorded_save recorded_topic)
next
  case None
  let ?t = "\<lparr>rt_Workspace = ws, rt_Floor = flr, rt_Name = name, rt_Thread = 0, rt_Pending = True, rt_Muted = False\<rparr>"
  obtain e r1 where s: "relay_save g (put_topic (scope ws flr) ?t r) = (e, r1)"
    by (cases "relay_save g (put_topic (scope ws flr) ?t r)")
  show ?thesis
  proof (cases e)
    case None': None
    note create = recorded_create [OF J None s [unfolded None'], of name StatusIdle]
    show ?thesis
      unfolding ensureTopic_def Let_def None option.case s None' chain_simps
      by (rule snd_or_fail [where P = recorded, OF create])
        (auto intro!: snd_if_ok [where P = recorded] recorded_save recorded_topic)
  next
    case (Some e')
    have "recorded r1" using recorded_save [OF recorded_topic [OF J]] s by (metis snd_conv)
    then show ?thesis unfolding ensureTopic_def Let_def None option.case s Some by simp
  qed
qed

lemma recorded_step:
  assumes J: "recorded r" and nm: "nm \<noteq> []"
  shows "recorded (snd (relay_step g i nm capability ''POST'' path body r))"
proof (cases "gm_get (rl_jobs r) i")
  case (Some job)
  show ?thesis
  proof (cases "gm_get (jb_Results job) nm = None \<and> jb_Pending job = []")
    case True
    let ?begun = "job\<lparr>jb_Pending := nm\<rparr>"
    obtain e r1 where s: "relay_save g (put_job i ?begun r) = (e, r1)" by (cases "relay_save g (put_job i ?begun r)")
    have begun: "recorded (put_job i ?begun r)"
      using J by (rule recorded_job) (simp add: Some job_weight_def True)
    then have r1: "recorded r1" using recorded_save s by (metis snd_conv)
    show ?thesis
    proof (cases e)
      case None
      have saved: "disk (rl_world r1) = rl_state r1" "rl_state r1 = rl_state (put_job i ?begun r)" "asked (rl_world r1) = asked (rl_world r)"
        using relay_save_ok [OF s [unfolded None]] by (simp_all add: put_job_def)
      have "weight (rl_jobs r1) = Suc (weight (rl_jobs r))"
        using weight_put_Some [OF Some, of ?begun] True nm by (simp add: saved put_job_def job_weight_def)
      then have room: "Suc (asked (rl_world r1)) \<le> weight (rs_Jobs (disk (rl_world r1)))"
        using J by (auto simp: saved(1,3) recorded_def Let_def)
      obtain x r2 where c: "rl_call (rp_Call g capability ''POST'' path body) r1 = (x, r2)"
        by (cases "rl_call (rp_Call g capability ''POST'' path body) r1")
      have r2: "recorded r2" "rl_jobs r2 = rl_jobs r1"
        using r1 room c call_counts [of capability path body "rl_world r1"]
        by (auto simp: recorded_def rl_call_def split_beta Let_def)
      have job2: "gm_get (rl_jobs r2) i = Some ?begun" by (simp add: r2(2) saved put_job_def update_conv)
      have "recorded (put_job i (job\<lparr>jb_Pending := [], jb_Results := gm_put nm res (jb_Results job)\<rparr>) r2)" for res
        using r2(1) by (rule recorded_job) (use job2 True nm in \<open>simp add: job_weight_def length_put\<close>)
      then show ?thesis
        using r2(1) Some True
        by (cases x) (simp_all add: relay_step_def s None c snd_if_ok [where P = recorded] recorded_save)
    next
      case (Some e')
      then show ?thesis using r1 \<open>gm_get (rl_jobs r) i = Some job\<close> True by (simp add: relay_step_def s)
    qed
  next
    case False
    then show ?thesis using J Some by (auto simp: relay_step_def split: option.split)
  qed
qed (use J in \<open>simp add: relay_step_def\<close>)

lemma recorded_enter:
  assumes J: "recorded r" shows "recorded (snd (enter_job g i plan r))"
proof (cases "gm_get (rl_jobs r) i")
  case None
  have "recorded (put_job i \<lparr>jb_Plan = plan, jb_Pending = [], jb_Results = [], jb_Done = False\<rparr> r)"
    using J by (rule recorded_job) (simp add: None)
  with None show ?thesis
    unfolding enter_job_def by (auto intro!: snd_if_ok [where P = recorded] recorded_save)
next
  case (Some job)
  then show ?thesis
    unfolding enter_job_def using J by (auto intro!: snd_if_ok [where P = recorded] recorded_save)
qed

lemma recorded_canvas:
  assumes J: "recorded r" shows "recorded (snd (canvas_before g i ws flr r))"
proof (cases "gm_get (rl_jobs r) i")
  case (Some job)
  show ?thesis
  proof (cases "gm_get (jb_Results job) ''native-before''")
    case None
    obtain x r1 where f: "rl_call (rp_Feed g ws flr) r = (x, r1)" by (cases "rl_call (rp_Feed g ws flr) r")
    have r1: "recorded r1" using recorded_call [OF J, of "rp_Feed g ws flr"] still_Feed f by (metis snd_conv)
    have "rl_jobs r1 = rl_jobs r" using f by (auto simp: rl_call_def split_beta)
    then have "recorded (put_job i (job\<lparr>jb_Results := gm_put ''native-before'' raw (jb_Results job)\<rparr>) r1)" for raw
      by (intro recorded_job r1) (simp add: Some job_weight_def length_put)
    then show ?thesis
      unfolding canvas_before_def Some option.case None f
      using r1 by (cases x) (auto intro!: snd_or_fail [where P = recorded] snd_if_ok [where P = recorded] recorded_save
          simp: or_fail_def split: sum.split)
  qed (use J Some in \<open>simp add: canvas_before_def\<close>)
qed (use J in \<open>simp add: canvas_before_def\<close>)

lemma recorded_finish:
  assumes J: "recorded r" shows "recorded (snd (finish_job g i r))"
proof -
  have "weight (gm_adjust i (\<lambda>j. j\<lparr>jb_Done := True\<rparr>) (rl_jobs r)) = weight (rl_jobs r)"
  proof (cases "gm_get (rl_jobs r) i")
    case (Some j)
    from weight_put_Some [OF this, of "j\<lparr>jb_Done := True\<rparr>"] Some show ?thesis by (simp add: gm_adjust_def job_weight_def)
  qed (simp add: gm_adjust_def)
  with J show ?thesis unfolding finish_job_def by (intro recorded_save) (simp add: recorded_def Let_def)
qed

end

sublocale relay_store \<subseteq> store: relay_inv g recorded "still disk made asked"
proof
  fix r :: "'w Relay" assume J: "recorded r"
  show "recorded (r\<lparr>rl_feeds := fs\<rparr>)" "recorded (r\<lparr>rl_statuses := ss\<rparr>)"
    "recorded (r\<lparr>rl_state := (rl_state r)\<lparr>rs_Replies := rs\<rparr>\<rparr>)" for fs ss rs
    using J by (simp_all add: recorded_def Let_def)
  show "recorded (snd (once g key r))" for key using J by (rule recorded_once)
  show "recorded (snd (relay_save g r))" "recorded (snd (ensureTopic g ws flr name r))" "recorded (put_topic k t r)" for ws flr name k t
    using J by (rule recorded_save recorded_ensure recorded_topic)+
  show "nm \<noteq> [] \<Longrightarrow> recorded (snd (relay_step g i nm capability ''POST'' path body r))" for nm i capability path body
    using J by (rule recorded_step)
  show "recorded (snd (enter_job g i plan r))" "recorded (snd (canvas_before g i ws flr r))" "recorded (snd (finish_job g i r))" for i plan ws flr
    using J by (rule recorded_enter recorded_canvas recorded_finish)+
qed (fact recorded_world still_Info still_Workspaces still_Feed still_Presets still_Library still_Agent still_Input still_Upload still_Send
  still_SendDocument still_AnswerButton still_EditButtons still_Download still_Now still_Pause still_Plan)+

end
