(* ===== verification/Outbound_Safety.thy ===== *)
theory Outbound_Safety
  imports Outbound Call_Log
begin

text \<open>
  What the poster of \<^verbatim>\<open>internal/app/outbound.go\<close> keeps invariant over all runs, and which calls its operations make.
  The calls are those on the machine \<open>logged g\<close>, whose world carries the log of them.
\<close>

abbreviation lg :: "'w logged Outbound \<Rightarrow> Call list" where
  "lg o' \<equiv> snd (ob_world o')"

section \<open>The calls of the building blocks\<close>

lemma QuietPosts_cases: "QuietPosts o' = PostsHeld \<or> QuietPosts o' = PostsSilent \<or> QuietPosts o' = PostsNormal"
  by (simp add: QuietPosts_def Let_def)

text \<open>Debouncer, clock and reads leave the log alone; so do updates of the other fields.\<close>

lemma lg_call:
  "lg (snd (ob_call (noted c f) o')) = c # lg o'"
  "lg (snd (ob_call (silent f) o')) = lg o'"
  by (simp_all add: ob_call_def split_beta)

lemma lg_quiet [simp]:
  "lg (snd (ob_now (logged g) o')) = lg o'"
  "lg (ob_Schedule (logged g) key o') = lg o'"
  "lg (ob_ScheduleAfter (logged g) key d o') = lg o'"
  "lg (turn_Schedule (logged g) key o') = lg o'"
  "lg (ob_Cancel key o') = lg o'"
  "lg (turn_Cancel key o') = lg o'"
  "lg (endTyping key o') = lg o'"
  "lg (snd (ob_ReadScreen (logged g) key s n o')) = lg o'"
  by (simp_all add: ob_now_def ob_Schedule_def ob_ScheduleAfter_def turn_Schedule_def ob_Cancel_def turn_Cancel_def
      endTyping_def ob_ReadScreen_def split_beta lg_call Let_def)

lemma ob_call_frame:
  "snd (ob_call f o') = o'\<lparr>ob_world := snd (f (ob_world o'))\<rparr>" "fst (ob_call f o') = fst (f (ob_world o'))"
  by (simp_all add: ob_call_def split_beta)

lemma adds_and_then [adds_intros]:
  assumes "adds P l (lg (snd x))" and "\<And>s. adds P l (lg s) \<Longrightarrow> adds P l (lg (snd (k s)))"
  shows "adds P l (lg (snd (and_then x k)))"
proof (cases x)
  case (Pair err s)
  then show ?thesis using assms by (cases err) auto
qed

lemma lg_ReadScreen [dest!]: "ob_ReadScreen (logged g) key s n o' = (x, o1) \<Longrightarrow> lg o1 = lg o'"
  using lg_quiet(8) [of g key s n o'] by simp

lemma absorbEdit_adds [adds_intros]:
  "P c \<Longrightarrow> adds P l (lg o') \<Longrightarrow> adds P l (lg (snd (absorbEdit (noted c f) o')))"
  by (simp add: absorbEdit_def ob_call_frame split_beta adds_Cons)

lemma answer_adds [adds_intros]:
  "P (CallAnswer i t) \<Longrightarrow> adds P l (lg o') \<Longrightarrow> adds P l (lg (snd (answer (logged g) i t o')))"
  by (simp add: answer_def ob_call_frame split_beta adds_Cons)

lemma react_adds [adds_intros]:
  "P (CallReact (tn_threadID t) (tn_messageID t) e) \<Longrightarrow> adds P l (lg o') \<Longrightarrow> adds P l (lg (snd (react (logged g) t e o')))"
  by (simp add: react_def ob_call_frame split_beta adds_Cons)

lemma retire_adds [adds_intros]:
  "(\<And>m. P (CallEditButtons m [])) \<Longrightarrow> adds P l (lg o') \<Longrightarrow> adds P l (lg (snd (retire (logged g) key o')))"
  by (auto simp: retire_def Let_def split: option.splits intro!: adds_intros)

lemma markTyping_adds [adds_intros]:
  "(\<And>m bs. P (CallEditButtons m bs)) \<Longrightarrow> adds P l (lg o') \<Longrightarrow> adds P l (lg (snd (markTyping (logged g) key wt t o')))"
  by (auto simp: markTyping_def Let_def split: option.splits intro!: adds_intros)

lemma stale_adds [adds_intros]:
  "P (CallEditButtons (bp_MessageID ev) []) \<Longrightarrow> (\<And>i t. P (CallAnswer i t)) \<Longrightarrow> adds P l (lg o')
   \<Longrightarrow> adds P l (lg (snd (stale (logged g) ev t o')))"
  by (auto simp: stale_def intro!: adds_intros)

lemma refreshKeyboard_adds [adds_intros]:
  "(\<And>m t bs. P (CallEditText m t bs)) \<Longrightarrow> adds P l (lg o') \<Longrightarrow> adds P l (lg (snd (refreshKeyboard (logged g) key m o')))"
  by (auto simp: refreshKeyboard_def Let_def split_beta split: option.splits sum.splits prod.splits intro!: adds_intros)

lemma lg_reads [simp]:
  "lg (snd (ob_submitKeys (logged g) key kb o')) = lg o'"
  "lg (snd (dialogStillOpen (logged g) key kb st o')) = lg o'"
  "lg (snd (delayedCapture (logged g) key a n d o')) = lg o'"
  by (auto simp: ob_submitKeys_def dialogStillOpen_def delayedCapture_def Let_def
      split: sum.splits prod.splits option.splits)

lemma page_loop_adds [adds_intros]:
  "(\<And>op. op \<in> set ops \<Longrightarrow> P (CallDirect op out)) \<Longrightarrow> adds P l (lg o')
   \<Longrightarrow> adds P l (lg (snd (page_loop (logged g) out ops n m o')))"
proof (induction ops arbitrary: n m o')
  case (Cons op ops)
  have "adds P l (lg (snd (ob_call (mc_SendDirect (logged g) op out) o')))"
    using Cons.prems by (simp add: ob_call_frame adds_Cons)
  then show ?case using Cons by (auto split: prod.splits sum.splits)
qed simp

lemma page_adds [adds_intros]:
  "(\<And>op out. P (CallDirect op out)) \<Longrightarrow> P (CallSend (text_message 0 pagerNotice)) \<Longrightarrow> adds P l (lg o')
   \<Longrightarrow> adds P l (lg (snd (page (logged g) a th m t d o')))"
  using page_loop_adds [where P = P and l = l and g = g]
  by (auto simp: page_def Let_def ob_call_frame split: prod.splits option.splits intro!: adds_Cons)
     (metis snd_conv)+
lemma sent_adds [adds_intros]:
  assumes "\<And>op out. paged \<Longrightarrow> P (CallDirect op out)" and "P (CallSend (text_message 0 pagerNotice))" and "adds P l (lg o')"
  shows "adds P l (lg (snd (sent (logged g) key a entry p notify paged d i o')))"
proof (cases paged)
  case True
  have "adds P l (lg (snd (page (logged g) a th m t d o1)))" if "adds P l (lg o1)" for th m t o1
    using that True assms(1,2) by (intro page_adds) auto
  then show ?thesis using True assms(3) by (simp add: sent_def Let_def split_beta)
qed (use assms(3) in \<open>simp add: sent_def Let_def\<close>)

lemma send_post_adds [adds_intros]:
  assumes "\<And>out. og_ThreadID out = te_ThreadID entry \<Longrightarrow> (og_Notify out \<longrightarrow> notify) \<Longrightarrow> P (CallSend out)"
    and "\<And>op out. notify \<Longrightarrow> ag_Status a = StatusBlocked \<Longrightarrow> P (CallDirect op out)" and "P (CallSend (text_message 0 pagerNotice))"
    and "adds P l (lg o')"
  shows "adds P l (lg (snd (send_post (logged g) key a entry p notify o')))"
proof -
  have "adds P l (lg (snd (ob_call (mc_Send (logged g) (fire_message (logged g) entry p b bs o')) o')))" if "b \<longrightarrow> notify" for b bs
    using that assms(1,4) by (simp add: ob_call_frame adds_Cons fire_message_def text_message_def)
  moreover have "adds P l (lg (snd (sent (logged g) key a entry p notify paged d i o1)))"
    if "paged \<Longrightarrow> notify \<and> ag_Status a = StatusBlocked" "adds P l (lg o1)" for paged d i o1
    using that assms(2,3) by (intro sent_adds) auto
  ultimately show ?thesis
    unfolding send_post_def Let_def by (auto split: prod.splits sum.splits) (metis snd_conv)+
qed

lemma fire_send_adds [adds_intros]:
  assumes "\<And>m. P (CallEditButtons m [])"
    and "\<And>out. og_ThreadID out = te_ThreadID entry \<Longrightarrow> (og_Notify out \<longrightarrow> notify) \<Longrightarrow> P (CallSend out)"
    and "\<And>op out. notify \<Longrightarrow> ag_Status a = StatusBlocked \<Longrightarrow> P (CallDirect op out)" and "P (CallSend (text_message 0 pagerNotice))"
    and "adds P l (lg o')"
  shows "adds P l (lg (snd (fire_send (logged g) key a entry p notify force o')))"
  unfolding fire_send_def using assms by (auto intro!: adds_intros)

lemma lg_last_reply [dest!]: "last_reply (logged g) a t o' = (x, o1) \<Longrightarrow> lg o1 = lg o'"
  by (auto simp: last_reply_def ob_call_def silent_def Let_def split_beta split: option.splits sum.splits prod.splits if_splits)

lemma lg_fire_text [dest!]: "fire_text (logged g) key a t n mode o' = (x, o1) \<Longrightarrow> lg o1 = lg o'"
  by (auto simp: fire_text_def Let_def split: if_splits prod.splits sum.splits)

lemma lg_short_turn [simp]: "lg (snd (short_turn (logged g) a t o')) = lg o'"
  by (auto simp: short_turn_def Let_def split_beta split: option.splits)

lemma lg_delayed [dest!]: "delayedCapture (logged g) key a n d o' = (x, o1) \<Longrightarrow> lg o1 = lg o'"
  using lg_reads(3) [of g key a n d o'] by simp

lemma fire_ready_adds [adds_intros]:
  assumes "\<And>m. P (CallEditButtons m [])"
    and "\<And>out. og_ThreadID out = te_ThreadID entry \<Longrightarrow> (og_Notify out \<longrightarrow> notify) \<Longrightarrow> P (CallSend out)"
    and "\<And>op out. notify \<Longrightarrow> ag_Status a = StatusBlocked \<Longrightarrow> P (CallDirect op out)" and "P (CallSend (text_message 0 pagerNotice))"
    and "adds P l (lg o')"
  shows "adds P l (lg (snd (fire_ready (logged g) key a t n entry notify force o')))"
proof -
  have f: "adds P l (lg (snd (fire_send (logged g) key a entry p notify force o1)))" if "lg o1 = lg o'" for p o1
    using assms that by (intro fire_send_adds) auto
  have d: "adds P l (lg (snd (case delayedCapture (logged g) key a n delay o' of (None, o1) \<Rightarrow> (None, o1)
      | (Some chosen, o1) \<Rightarrow> fire_send (logged g) key a entry (p chosen) notify force o1)))" for delay p
    using f assms(5) by (cases "delayedCapture (logged g) key a n delay o'") (auto split: option.splits)
  have t: "adds P l (lg (snd (case fire_text (logged g) key a t n mode o1 of (None, o2) \<Rightarrow> (None, o2)
      | (Some p, o2) \<Rightarrow> fire_send (logged g) key a entry p notify force o2)))" if "lg o1 = lg o'" for mode o1
    using f assms(5) that by (cases "fire_text (logged g) key a t n mode o1") (auto split: option.splits)
  show ?thesis
    unfolding fire_ready_def Let_def by (auto intro: d t simp: if_split [of "\<lambda>x. adds P l (lg (snd x))"])
qed

text \<open>The conditions of a post, in an environment that stays as it is.\<close>

definition may_post :: "Options \<Rightarrow> TopicView \<Rightarrow> bool \<Rightarrow> Agent \<Rightarrow> bool \<Rightarrow> Key \<Rightarrow> int \<Rightarrow> bool" where
  "may_post opts view held a force key thread \<longleftrightarrow>
     SyncEnabled opts \<and> ag_Status a \<in> {StatusBlocked, StatusDone} \<and> (held \<longrightarrow> force)
     \<and> (\<exists>e. View_Entry view key = Some e \<and> Live (te_Status e) \<and> \<not> te_Muted e \<and> te_ThreadID e = thread)"

definition may_ring :: "bool \<Rightarrow> Agent \<Rightarrow> bool \<Rightarrow> bool" where
  "may_ring quietened a force \<longleftrightarrow> force \<or> ag_Status a = StatusBlocked \<and> \<not> quietened"

text \<open>The calls of a post: \<open>quietened\<close> says that quiet mode is on with posts held or silent.\<close>

definition post_call :: "Options \<Rightarrow> TopicView \<Rightarrow> bool \<Rightarrow> bool \<Rightarrow> Agent \<Rightarrow> bool \<Rightarrow> Key \<Rightarrow> Call \<Rightarrow> bool" where
  "post_call opts view held quietened a force key c \<longleftrightarrow>
     (case c of
        CallSend out \<Rightarrow>
          out = text_message 0 pagerNotice
          \<or> may_post opts view held a force key (og_ThreadID out) \<and> (og_Notify out \<longrightarrow> may_ring quietened a force)
      | CallDirect op out \<Rightarrow>
          (\<exists>thread. may_post opts view held a force key thread) \<and> ag_Status a = StatusBlocked \<and> may_ring quietened a force
      | CallEditButtons m bs \<Rightarrow> bs = []
      | CallEditText m t bs \<Rightarrow> SyncEnabled opts
      | CallReact th m e \<Rightarrow> e = reactionDone
      | _ \<Rightarrow> False)"

lemma post_call_simps [simp]:
  "post_call opts view held quietened a force key (CallEditButtons m [])"
  "post_call opts view held quietened a force key (CallSend (text_message 0 pagerNotice))"
  "post_call opts view held quietened a force key (CallReact th m reactionDone)"
  "post_call opts view held quietened a force key (CallEditText m t bs) = SyncEnabled opts"
  by (simp_all add: post_call_def)

lemma fire_post_adds:
  assumes env: "\<And>w. mc_options g w = opts" "\<And>w. mc_topics g w = view" "\<And>w. mc_quiet g w = q"
    and "SyncEnabled opts" and "adds (post_call opts view held quietened a force key) l (lg o')"
    and "held = (ob_presence o' \<and> q \<and> QuietPosts opts = PostsHeld)"
    and "quietened = (ob_presence o' \<and> q \<and> QuietPosts opts \<noteq> PostsNormal)"
  shows "adds (post_call opts view held quietened a force key) l (lg (snd (fire_post (logged g) key a t force o')))"
proof -
  let ?P = "post_call opts view held quietened a force key"
  obtain short o1 where s: "short_turn (logged g) a t o' = (short, o1)" by fastforce
  have o1: "lg o1 = lg o'" "ob_presence o1 = ob_presence o'"
    using lg_short_turn [of g a t o'] s
    by (auto simp: short_turn_def ob_now_def ob_call_def silent_def Let_def split_beta split: option.splits if_splits)
  have "adds ?P l (lg (snd (fire_ready (logged g) key a t n entry notify force o1)))"
    if "ag_Status a = StatusBlocked \<or> ag_Status a = StatusDone" "View_Entry view key = Some entry" "Live (te_Status entry)"
      "\<not> te_Muted entry" "post_notify (logged g) a force o1 = Some notify" for n entry notify
  proof (rule fire_ready_adds)
    have r: "notify \<Longrightarrow> may_ring quietened a force" and h: "held \<Longrightarrow> force"
      using that(5) o1 assms(6,7) QuietPosts_cases [of opts]
      by (auto simp: post_notify_def may_ring_def ob_quiet_def ob_posts_def env split: if_splits)
    show "?P (CallSend out)" if "og_ThreadID out = te_ThreadID entry" "og_Notify out \<longrightarrow> notify" for out
      using that \<open>View_Entry view key = Some entry\<close> assms(4) r h \<open>Live (te_Status entry)\<close> \<open>\<not> te_Muted entry\<close>
        \<open>ag_Status a = StatusBlocked \<or> ag_Status a = StatusDone\<close>
      by (auto simp: post_call_def may_post_def)
    show "?P (CallDirect op out)" if "notify" "ag_Status a = StatusBlocked" for op out
      using that \<open>View_Entry view key = Some entry\<close> assms(4) r h \<open>Live (te_Status entry)\<close> \<open>\<not> te_Muted entry\<close>
      by (auto simp: post_call_def may_post_def)
    show "adds ?P l (lg o1)" using assms(5) o1 by simp
  qed simp_all
  then show ?thesis
    unfolding fire_post_def Let_def s using assms(5) o1 env
    by (auto split: option.splits)
qed

lemma finishTurn_adds [adds_intros]:
  "P (CallReact (tn_threadID t) (tn_messageID t) reactionDone) \<Longrightarrow> adds P l (lg o')
   \<Longrightarrow> adds P l (lg (snd (finishTurn (logged g) t o')))"
  by (auto simp: finishTurn_def intro!: adds_intros)

lemma presence_frames [simp]:
  "ob_presence (snd (react g t e o')) = ob_presence o'"
  "ob_presence (snd (finishTurn g t o')) = ob_presence o'"
  "ob_presence (turn_Cancel key o') = ob_presence o'"
  by (simp_all add: react_def finishTurn_def turn_Cancel_def ob_call_frame split_beta)

lemma refreshKeyboard_presence [simp]: "ob_presence (snd (refreshKeyboard g key m o')) = ob_presence o'"
  by (auto simp: refreshKeyboard_def ob_ReadScreen_def absorbEdit_def ob_call_def Let_def split_beta
      split: option.splits sum.splits)

lemma fire_refresh_adds:
  assumes env: "\<And>w. mc_options g w = opts" "\<And>w. mc_topics g w = view" "\<And>w. mc_quiet g w = q"
    and "adds (post_call opts view held quietened a force key) l (lg o')"
    and "held = (ob_presence o' \<and> q \<and> QuietPosts opts = PostsHeld)"
    and "quietened = (ob_presence o' \<and> q \<and> QuietPosts opts \<noteq> PostsNormal)"
  shows "adds (post_call opts view held quietened a force key) l (lg (snd (fire_refresh (logged g) key a t force o')))"
proof (cases "SyncEnabled opts")
  case True
  note post = fire_post_adds [OF env True]
  have "adds (post_call opts view held quietened a force key) l
      (lg (snd (case refreshKeyboard (logged g) key m o1 of ((redrawn, err), o1) \<Rightarrow>
         if redrawn \<or> err \<noteq> None then (err, o1) else fire_post (logged g) key a t force o1)))"
    if "lg o1 = lg o'" "ob_presence o1 = ob_presence o'" for m o1
  proof -
    have "adds (post_call opts view held quietened a force key) l (lg (snd (refreshKeyboard (logged g) key m o1)))"
      using that assms(4) True by (intro refreshKeyboard_adds) simp_all
    then show ?thesis
      using that assms(5,6) by (auto simp: split_beta intro!: post)
  qed
  then show ?thesis
    unfolding fire_refresh_def using assms(4-6) True by (auto simp: env split: option.splits intro!: post)
qed (use assms(4) in \<open>simp add: fire_refresh_def env\<close>)

lemma fire_adds:
  assumes env: "\<And>w. mc_options g w = opts" "\<And>w. mc_topics g w = view" "\<And>w. mc_quiet g w = q"
    and "mc_agent g (fst (ob_world o')) key = Some a"
    and "held = (ob_presence o' \<and> q \<and> QuietPosts opts = PostsHeld)"
    and "quietened = (ob_presence o' \<and> q \<and> QuietPosts opts \<noteq> PostsNormal)"
  shows "adds (post_call opts view held quietened a force key) (lg o') (lg (snd (fire (logged g) key force o')))"
proof -
  let ?P = "post_call opts view held quietened a force key"
  note refresh = fire_refresh_adds [OF env]
  have "adds ?P (lg o') (lg (snd (and_then (finishTurn (logged g) t o1) (\<lambda>o2. fire_refresh (logged g) key a (Some t) force o2))))"
    if "lg o1 = lg o'" "ob_presence o1 = ob_presence o'" for t o1
  proof -
    obtain err o2 where f: "finishTurn (logged g) t o1 = (err, o2)" by fastforce
    have "adds ?P (lg o') (lg o2)" "ob_presence o2 = ob_presence o'"
      using finishTurn_adds [of ?P t "lg o'" o1 g] presence_frames(2) [of "logged g" t o1] that f by auto
    then show ?thesis using assms(5,6) f by (cases err) (auto intro!: refresh)
  qed
  then show ?thesis
    unfolding fire_def using assms(4-6) by (auto split: option.splits intro!: refresh)
qed

section \<open>One post at a time\<close>

definition is_post :: "Call \<Rightarrow> bool" where
  "is_post c \<longleftrightarrow> (case c of CallSend out \<Rightarrow> out \<noteq> text_message 0 pagerNotice | _ \<Rightarrow> False)"

abbreviation posts :: "Call list \<Rightarrow> nat" where
  "posts l \<equiv> length (filter is_post l)"

lemma is_post_simps [simp]:
  "\<not> is_post (CallEditButtons m bs)" "\<not> is_post (CallEditText m t bs)" "\<not> is_post (CallDirect op out)"
  "\<not> is_post (CallReact th m e)" "\<not> is_post (CallSend (text_message 0 pagerNotice))" "\<not> is_post (CallAnswer i t)"
  by (simp_all add: is_post_def)

lemma no_posts: "adds (\<lambda>c. \<not> is_post c) l l' \<Longrightarrow> posts l' = posts l"
  by (auto simp: adds_def list_all_iff filter_empty_conv)

lemma send_post_once: "posts (lg (snd (send_post (logged g) key a entry p notify o'))) \<le> Suc (posts (lg o'))"
proof -
  have "posts (lg (snd (sent (logged g) key a entry p notify paged d i o1))) = posts (lg o1)" for paged d i o1
    by (rule no_posts, rule sent_adds) simp_all
  then show ?thesis
    by (auto simp: send_post_def Let_def ob_call_def noted_def split: prod.splits sum.splits)
qed

lemma fire_send_once: "posts (lg (snd (fire_send (logged g) key a entry p notify force o'))) \<le> Suc (posts (lg o'))"
proof -
  obtain err o1 where r: "retire (logged g) key o' = (err, o1)" by fastforce
  have "adds (\<lambda>c. \<not> is_post c) (lg o') (lg (snd (retire (logged g) key o')))" by (rule retire_adds) simp_all
  with r have "posts (lg o1) = posts (lg o')" by (simp add: no_posts)
  then show ?thesis
    using send_post_once [of g key a entry p notify o1] r by (cases err) (auto simp: fire_send_def)
qed

lemma fire_ready_once: "posts (lg (snd (fire_ready (logged g) key a t n entry notify force o'))) \<le> Suc (posts (lg o'))"
proof -
  have s: "posts (lg (snd (fire_send (logged g) key a entry p notify force o1))) \<le> Suc (posts (lg o'))" if "lg o1 = lg o'" for p o1
    using fire_send_once [of g key a entry p notify force o1] that by simp
  have d: "posts (lg (snd (case delayedCapture (logged g) key a n delay o' of (None, o1) \<Rightarrow> (None, o1)
      | (Some chosen, o1) \<Rightarrow> fire_send (logged g) key a entry (p chosen) notify force o1))) \<le> Suc (posts (lg o'))" for delay p
    using s by (cases "delayedCapture (logged g) key a n delay o'") (auto split: option.splits)
  have t: "posts (lg (snd (case fire_text (logged g) key a t n mode o1 of (None, o2) \<Rightarrow> (None, o2)
      | (Some p, o2) \<Rightarrow> fire_send (logged g) key a entry p notify force o2))) \<le> Suc (posts (lg o'))"
    if "lg o1 = lg o'" for mode o1
    using s that by (cases "fire_text (logged g) key a t n mode o1") (auto split: option.splits)
  show ?thesis unfolding fire_ready_def Let_def by (auto simp del: One_nat_def intro!: d t)
qed

lemma fire_post_once: "posts (lg (snd (fire_post (logged g) key a t force o'))) \<le> Suc (posts (lg o'))"
proof -
  obtain short o1 where s: "short_turn (logged g) a t o' = (short, o1)" by fastforce
  then have "lg o1 = lg o'" using lg_short_turn [of g a t o'] by simp
  then show ?thesis
    using fire_ready_once [where g = g and key = key and a = a and t = t and force = force and o' = o1]
    by (auto simp: fire_post_def s split: option.splits)
qed

lemma fire_refresh_once: "posts (lg (snd (fire_refresh (logged g) key a t force o'))) \<le> Suc (posts (lg o'))"
proof -
  have "posts (lg (snd (case refreshKeyboard (logged g) key m o1 of ((redrawn, err), o1) \<Rightarrow>
         if redrawn \<or> err \<noteq> None then (err, o1) else fire_post (logged g) key a t force o1))) \<le> Suc (posts (lg o'))"
    if "lg o1 = lg o'" for m o1
  proof -
    have "adds (\<lambda>c. \<not> is_post c) (lg o1) (lg (snd (refreshKeyboard (logged g) key m o1)))"
      by (rule refreshKeyboard_adds) simp_all
    then have "posts (lg (snd (refreshKeyboard (logged g) key m o1))) = posts (lg o')" using no_posts that by metis
    then show ?thesis
      using fire_post_once [of g key a t force "snd (refreshKeyboard (logged g) key m o1)"] by (auto simp: split_beta)
  qed
  then show ?thesis
    unfolding fire_refresh_def using fire_post_once [of g key a t force o'] by (auto split: option.splits)
qed

lemma fire_once: "posts (lg (snd (fire (logged g) key force o'))) \<le> Suc (posts (lg o'))"
proof -
  have "posts (lg (snd (and_then (finishTurn (logged g) t o1) (\<lambda>o2. fire_refresh (logged g) key a (Some t) force o2)))) \<le> Suc (posts (lg o'))"
    if "lg o1 = lg o'" for t o1 a
  proof -
    obtain err o2 where f: "finishTurn (logged g) t o1 = (err, o2)" by fastforce
    have "adds (\<lambda>c. \<not> is_post c) (lg o1) (lg (snd (finishTurn (logged g) t o1)))" by (rule finishTurn_adds) simp_all
    then have "posts (lg o2) = posts (lg o')" using no_posts that f by (metis snd_conv)
    then show ?thesis
      using fire_refresh_once [of g key a "Some t" force o2] f by (cases err) auto
  qed
  then show ?thesis
    unfolding fire_def using fire_refresh_once [where g = g and key = key and force = force and o' = o'] by (auto split: option.splits)
qed

section \<open>Presses\<close>

text \<open>Calls that only touch messages.\<close>

definition ui_call :: "Call \<Rightarrow> bool" where
  "ui_call c \<longleftrightarrow> (case c of CallEditButtons _ _ \<Rightarrow> True | CallEditText _ _ _ \<Rightarrow> True | CallAnswer _ _ \<Rightarrow> True | CallSend _ \<Rightarrow> True | _ \<Rightarrow> False)"

lemma ui_call_simps [simp]:
  "ui_call (CallEditButtons m bs)" "ui_call (CallEditText m t bs)" "ui_call (CallAnswer i t)" "ui_call (CallSend out)"
  "\<not> ui_call (CallKeys p ks)"
  by (simp_all add: ui_call_def)

text \<open>The keys a button stands for.\<close>

definition button_keys :: "keyboard \<Rightarrow> pressKind \<Rightarrow> nat \<Rightarrow> string \<Rightarrow> string list \<Rightarrow> bool" where
  "button_keys kb kind n data ks \<longleftrightarrow>
     (case kind of
        pressText \<Rightarrow> ks = [Itoa (int n)] \<and> n = kb_textEntry kb
      | pressSubmit \<Rightarrow> kb_multi kb \<and> (\<exists>d. ks = SubmitKeys d)
      | pressDigit \<Rightarrow> ks = [data]
      | pressUnknown \<Rightarrow> False)"

lemma ob_submitKeys_keys: "\<exists>d. fst (ob_submitKeys g key kb o') = SubmitKeys d"
  by (auto simp: ob_submitKeys_def Let_def split: sum.splits prod.splits)

lemma pressedText_adds [adds_intros]:
  assumes "adds ui_call l (lg o')" shows "adds ui_call l (lg (snd (pressedText (logged g) key kb ev o')))"
proof -
  have s: "adds ui_call l (lg (snd (let (x, o6) = ob_call (noted (CallSend out) f) o1 in (only_fatal (error_of x), o6))))"
    if "adds ui_call l (lg o1)" for out f o1
    using that by (simp add: ob_call_frame split_beta adds_Cons)
  obtain now o2 where n: "ob_now (logged g) (o'\<lparr>ob_keyboards := gm_put key (kb\<lparr>kb_waiting := True\<rparr>) (ob_keyboards o')\<rparr>) = (now, o2)"
    by fastforce
  have "lg o2 = lg o'" using arg_cong [OF n, of "\<lambda>x. lg (snd x)"] by simp
  then show ?thesis using assms unfolding pressedText_def Let_def n by (auto intro!: adds_intros s [unfolded Let_def])
qed

lemma press_done_lg [simp]: "lg (snd (press_done (logged g) key o')) = lg o'"
  by (simp add: press_done_def)

lemma pressed_adds [adds_intros]:
  "adds ui_call l (lg o') \<Longrightarrow> adds ui_call l (lg (snd (pressed (logged g) key kb kind n ev o')))"
  by (auto simp: pressed_def split: pressKind.splits intro!: adds_intros)

lemma press_keys_calls:
  assumes "offered kb kind n" "kind \<noteq> pressUnknown"
  shows "\<exists>ks cs. lg (snd (press_keys (logged g) key kb kind n ev o')) = cs @ CallKeys (PaneID key) ks # lg o'
    \<and> list_all ui_call cs \<and> button_keys kb kind n (bp_Data ev) ks"
proof -
  obtain keys o1 where k: "(case kind of pressText \<Rightarrow> ([Itoa (int n)], o') | pressSubmit \<Rightarrow> ob_submitKeys (logged g) key kb o'
      | _ \<Rightarrow> ([bp_Data ev], o')) = (keys, o1)" by fastforce
  have "lg o1 = lg o'" and keys: "button_keys kb kind n (bp_Data ev) keys"
    using arg_cong [OF k, of "\<lambda>x. lg (snd x)"] arg_cong [OF k, of fst] assms ob_submitKeys_keys [of "logged g" key kb o']
    by (auto simp: button_keys_def offered_def split: pressKind.splits)
  obtain err o2 where c: "ob_call (mc_SendKeys (logged g) (PaneID key) keys) o1 = (err, o2)" by fastforce
  have l2: "lg o2 = CallKeys (PaneID key) keys # lg o'"
    using arg_cong [OF c, of "\<lambda>x. lg (snd x)"] \<open>lg o1 = lg o'\<close> by (simp add: lg_call)
  have "adds ui_call (lg o2) (lg (snd (press_keys (logged g) key kb kind n ev o')))"
    unfolding press_keys_def Let_def k using c by (auto split: option.splits intro!: adds_intros)
  then show ?thesis using l2 keys unfolding adds_def by metis
qed

lemma keyboards_frames [simp]:
  "ob_keyboards (snd (absorbEdit f o')) = ob_keyboards o'"
  "ob_keyboards (snd (answer g i t o')) = ob_keyboards o'"
  "ob_keyboards (snd (ob_call f' o')) = ob_keyboards o'"
  "ob_keyboards (ob_Schedule g key o') = ob_keyboards o'"
  "ob_keyboards (endTyping key o') = ob_keyboards o'"
  by (simp_all add: absorbEdit_def answer_def ob_call_frame ob_Schedule_def ob_now_def endTyping_def split_beta)

lemma and_then_keeps:
  assumes "Q (snd x)" "\<And>s. Q s \<Longrightarrow> Q (snd (k s))" shows "Q (snd (and_then x k))"
  using assms by (cases x; cases "fst x") (auto simp: and_then_def split: option.splits)

lemma retire_gone: "gm_get (ob_keyboards (snd (retire g key o'))) key = None"
  by (auto simp: retire_def Let_def update_conv' split: option.splits)

lemma press_keys_gone:
  assumes "kind = pressSubmit \<or> kind = pressDigit \<and> \<not> kb_multi kb"
  shows "gm_get (ob_keyboards (snd (press_keys g key kb kind n ev o'))) key = None"
proof -
  let ?Q = "\<lambda>o'. gm_get (ob_keyboards o') key = None"
  have p: "?Q (snd (pressed g key kb kind n ev o1))" for o1
    using assms by (auto simp: pressed_def press_done_def intro!: and_then_keeps [where Q = ?Q])
  have r: "?Q (snd (and_then (retire g key o1) (answer g i t)))" for o1 i t
    by (rule and_then_keeps [where Q = ?Q]) (simp_all add: retire_gone)
  show ?thesis unfolding press_keys_def Let_def by (auto simp: p r split: prod.splits option.splits)
qed

section \<open>A sample machine\<close>

text \<open>A desk with one screen: the clock stands still, every call succeeds, messages are numbered.\<close>

record Desk =
  dk_now :: time
  dk_agents :: "(Key, Agent) go_map"
  dk_view :: TopicView
  dk_options :: Options
  dk_quiet :: bool
  dk_screen :: string
  dk_next :: int

definition desk_presence :: PresenceState where
  "desk_presence = \<lparr>ps_Enabled = False, ps_Supported = True, ps_AtDesk = False, ps_ManualAway = False, ps_Until = 0, ps_Quiet = False\<rparr>"

definition desk_machine :: "Desk Machine" where
  "desk_machine =
     \<lparr>mc_Now = (\<lambda>w. (dk_now w, w)),
      mc_agent = (\<lambda>w. gm_get (dk_agents w)),
      mc_live = (\<lambda>w. map snd (dk_agents w)),
      mc_topics = dk_view,
      mc_options = dk_options,
      mc_quiet = dk_quiet,
      mc_ReadScreen = (\<lambda>p s n w. (Inr \<lparr>sc_Text = dk_screen w, sc_Revision = 0, sc_Truncated = False\<rparr>, w)),
      mc_Prompt = (\<lambda>p t w. (None, w)),
      mc_SendKeys = (\<lambda>p ks w. (None, w)),
      mc_Focus = (\<lambda>p w. (None, w)),
      mc_ClosePane = (\<lambda>p w. (None, w)),
      mc_ListWorkspaces = (\<lambda>w. (Inr [], w)),
      mc_CreateTab = (\<lambda>i w. (Inl (OtherError []), w)),
      mc_StartAgent = (\<lambda>n k p d w. (Inl (OtherError []), w)),
      mc_Send = (\<lambda>out w. (Inr (dk_next w), w\<lparr>dk_next := dk_next w + 1\<rparr>)),
      mc_SendDirect = (\<lambda>op out w. (Inr (dk_next w), w\<lparr>dk_next := dk_next w + 1\<rparr>)),
      mc_EditText = (\<lambda>i t h bs w. (None, w)),
      mc_EditButtons = (\<lambda>i bs w. (None, w)),
      mc_AnswerButton = (\<lambda>i t w. (None, w)),
      mc_SendDocument = (\<lambda>doc w. (None, w)),
      mc_React = (\<lambda>t i e w. (None, w)),
      mc_Download = (\<lambda>f n w. (Inr [], w)),
      mc_SetAccess = (\<lambda>ops obs w. w),
      mc_LastReply = None, mc_git = None, mc_inbox = None, mc_SaveConfig = None,
      mc_SetOption = (\<lambda>k v w. case With (dk_options w) k v of Inl e \<Rightarrow> (Some e, w) | Inr opts \<Rightarrow> (None, w\<lparr>dk_options := opts\<rparr>)),
      mc_ResetOptions = (\<lambda>ks w. (Inr False, w)),
      mc_Choices = (\<lambda>w name. case StaticChoices name of Some l \<Rightarrow> l | None \<Rightarrow> []),
      mc_Away = (\<lambda>d by w. (desk_presence, w)), mc_Here = (\<lambda>by w. (desk_presence, w)),
      mc_presence = (\<lambda>w. desk_presence), mc_since = (\<lambda>w. []),
      mc_hash = (\<lambda>t. CHR ''#'' # t), mc_Format = (\<lambda>l t. []), mc_ErrorText = (\<lambda>e. []),
      mc_Quote = (\<lambda>t. t), mc_letter = (\<lambda>r. ascii r)\<rparr>"

definition desk_key :: Key where
  "desk_key = \<lparr>PaneID = ''p1'', TerminalID = ''term''\<rparr>"

definition desk_agent :: "Status \<Rightarrow> Agent" where
  "desk_agent status =
     \<lparr>ag_Key = desk_key, ag_WorkspaceID = ''w1'', ag_WorkspaceLabel = ''shop'', ag_TabID = ''t1'', ag_TabLabel = ''api'',
      ag_Kind = ''claude'', ag_Name = ''ann'', ag_Title = [], ag_Status = status, ag_Revision = 0,
      ag_StateChangeSeq = 1, ag_Focused = False, ag_Cwd = ''/src''\<rparr>"

definition desk_entry :: TopicEntry where
  "desk_entry = \<lparr>te_ThreadID = 101, te_Name = ''shop'', te_Status = StatusBlocked, te_Closed = False, te_Muted = False, te_UpdatedAt = 0\<rparr>"

text \<open>An agent at a menu of two options.\<close>

definition desk :: Desk where
  "desk =
     \<lparr>dk_now = 1000, dk_agents = [(desk_key, desk_agent StatusBlocked)],
      dk_view = \<lparr>tv_entries = [(desk_key, desk_entry)], tv_byThread = [(101, desk_key)]\<rparr>,
      dk_options = DefaultOptions, dk_quiet = False,
      dk_screen = ''Proceed?'' @ [NL] @ cursorRune @ '' 1. Yes'' @ [NL] @ ''  2. No'', dk_next = 7\<rparr>"

definition desk_bridge :: "Desk logged Outbound" where
  "desk_bridge = newOutbound 5 [9] NewCapture (desk, [])"

text \<open>The question is posted as message 7, with a keyboard.\<close>

definition desk_asked :: "Desk logged Outbound" where
  "desk_asked = snd (Outbound_Fire (logged desk_machine) desk_key desk_bridge)"

section \<open>Properties\<close>

lemma Press_calls:
  "\<exists>cs. lg (snd (Press (logged g) ev o')) = cs @ lg o' \<and> length (filter (\<lambda>c. \<not> ui_call c) cs) \<le> 1
     \<and> list_all (\<lambda>c. ui_call c \<or> (\<exists>key kb a kind n ks.
          c = CallKeys (PaneID key) ks
          \<and> View_KeyForThread (mc_topics g (fst (ob_world o'))) (bp_ThreadID ev) = Some key
          \<and> gm_get (ob_keyboards o') key = Some kb \<and> kb_messageID kb = bp_MessageID ev \<and> \<not> kb_waiting kb
          \<and> mc_agent g (fst (ob_world o')) key = Some a \<and> ag_Status a \<in> {StatusBlocked, StatusWorking}
          \<and> pressKindOf (bp_Data ev) = (kind, n) \<and> button_keys kb kind n (bp_Data ev) ks
          \<and> (kind = pressSubmit \<or> kind = pressDigit \<and> \<not> kb_multi kb
               \<longrightarrow> gm_get (ob_keyboards (snd (Press (logged g) ev o'))) key = None))) cs"
proof -
  let ?w = "fst (ob_world o')" and ?after = "snd (Press (logged g) ev o')"
  have ui: ?thesis if "adds ui_call (lg o') (lg ?after)"
    using that by (auto simp: adds_def list_all_iff filter_empty_conv)
  obtain kind n where k: "pressKindOf (bp_Data ev) = (kind, n)" by fastforce
  show ?thesis
  proof (cases "\<exists>key kb a. View_KeyForThread (mc_topics g ?w) (bp_ThreadID ev) = Some key \<and> bp_Data ev \<noteq> doneData
      \<and> kind \<noteq> pressUnknown \<and> gm_get (ob_keyboards o') key = Some kb \<and> kb_messageID kb = bp_MessageID ev
      \<and> offered kb kind n \<and> mc_agent g ?w key = Some a
      \<and> (ag_Status a = StatusBlocked \<or> fst (dialogStillOpen (logged g) key kb (ag_Status a) o'))")
    case True
    then obtain key kb a where c: "View_KeyForThread (mc_topics g ?w) (bp_ThreadID ev) = Some key" "bp_Data ev \<noteq> doneData"
      "kind \<noteq> pressUnknown" "gm_get (ob_keyboards o') key = Some kb" "kb_messageID kb = bp_MessageID ev"
      "offered kb kind n" "mc_agent g ?w key = Some a"
      "ag_Status a = StatusBlocked \<or> fst (dialogStillOpen (logged g) key kb (ag_Status a) o')" by blast
    have st: "ag_Status a = StatusBlocked \<or> ag_Status a = StatusWorking"
      using c(8) by (auto simp: dialogStillOpen_def split: if_splits)
    obtain o1 where o1: "Press (logged g) ev o' = press_keys (logged g) key kb kind n ev o1" "lg o1 = lg o'"
    proof (cases "ag_Status a = StatusBlocked")
      case True
      then show ?thesis using c k by (intro that [of o']) (simp_all add: Press_def)
    next
      case False
      then obtain o1 where d: "dialogStillOpen (logged g) key kb (ag_Status a) o' = (True, o1)" using c(8) by (metis prod.collapse)
      moreover have "lg o1 = lg o'" using lg_reads(2) [of g key kb "ag_Status a" o'] d by simp
      ultimately show ?thesis using c k False by (intro that [of o1]) (simp_all add: Press_def)
    qed
    obtain ks cs where calls: "lg ?after = cs @ CallKeys (PaneID key) ks # lg o'" "list_all ui_call cs"
        "button_keys kb kind n (bp_Data ev) ks"
      using press_keys_calls [OF c(6,3), of g key ev o1] o1 by auto
    have "kind = pressSubmit \<or> kind = pressDigit \<and> \<not> kb_multi kb \<longrightarrow> gm_get (ob_keyboards ?after) key = None"
      using press_keys_gone o1(1) by metis
    moreover have "\<not> kb_waiting kb" using c(6) by (simp add: offered_def)
    moreover have "filter (\<lambda>c. \<not> ui_call c) cs = []" using calls(2) by (simp add: list_all_iff filter_empty_conv)
    ultimately show ?thesis
      using calls c(1,4,5,7) st k by (intro exI [of _ "cs @ [CallKeys (PaneID key) ks]"]) (auto simp: list_all_iff)
  next
    case False
    have d: "adds ui_call (lg o') (lg (snd (and_then (retire (logged g) key o1) (answer (logged g) i t))))"
      if "lg o1 = lg o'" for key o1 i t
      using that by (auto intro!: adds_intros)
    have s: "adds ui_call (lg o') (lg (snd (stale (logged g) ev t o')))" for t by (auto intro!: adds_intros)
    have a: "adds ui_call (lg o') (lg (snd (answer (logged g) i t o')))" for i t by (auto intro!: adds_intros)
    have "adds ui_call (lg o') (lg ?after)"
      using False k unfolding Press_def
      by (auto simp: a s d Let_def split: option.splits prod.splits)
        (metis d lg_reads(2) snd_conv)+
    then show ?thesis by (rule ui)
  qed
qed

lemma Press_calls_kinds:
  "adds (\<lambda>c. ui_call c \<or> (\<exists>p ks. c = CallKeys p ks)) (lg o') (lg (snd (Press (logged g) ev o')))"
  unfolding adds_def using Press_calls [of g ev o']
  by (elim exE conjE) (rule exI, rule conjI, assumption, erule list.pred_mono_strong, blast)


definition press_one :: ButtonPressed where
  "press_one = \<lparr>bp_CallbackID = ''cb'', bp_ThreadID = 101, bp_MessageID = 7, bp_FromID = 9, bp_Data = ''1''\<rparr>"


text \<open>
  C5: the calls of one \<open>Fire\<close>. While the options, the topics and quiet mode stay as they are, a fire posts at most
  one message, into the agent's own topic, and only when sync is on, the agent blocked or done, its topic live and
  not muted; it rings, in the topic or in the operators' private chats, only for a blocked agent and never while
  quiet mode silences or holds posts; a held post is not sent at all. The catch-up alone is exempt from quiet mode.
\<close>

theorem fire_calls:
  assumes "\<And>w. mc_options g w = opts" "\<And>w. mc_topics g w = view" "\<And>w. mc_quiet g w = q"
    and "mc_agent g (fst (ob_world o')) key = Some a"
    and "held = (ob_presence o' \<and> q \<and> QuietPosts opts = PostsHeld)"
    and "quietened = (ob_presence o' \<and> q \<and> QuietPosts opts \<noteq> PostsNormal)"
  shows "\<exists>cs. lg (snd (fire (logged g) key force o')) = cs @ lg o'
    \<and> list_all (post_call opts view held quietened a force key) cs \<and> length (filter is_post cs) \<le> 1"
proof -
  obtain cs where cs: "lg (snd (fire (logged g) key force o')) = cs @ lg o'" "list_all (post_call opts view held quietened a force key) cs"
    using fire_adds [OF assms] unfolding adds_def by blast
  then show ?thesis using fire_once [of g key force o'] by (intro exI [of _ cs]) simp
qed

text \<open>The desk with an environment that stays as it is.\<close>

definition still_machine :: "Desk Machine" where
  "still_machine = desk_machine\<lparr>mc_options := \<lambda>_. dk_options desk, mc_topics := \<lambda>_. dk_view desk, mc_quiet := \<lambda>_. False\<rparr>"

theorem fire_calls_witness:
  "\<exists>cs. lg (snd (fire (logged still_machine) desk_key False desk_bridge)) = cs @ lg desk_bridge
    \<and> list_all (post_call (dk_options desk) (dk_view desk) False False (desk_agent StatusBlocked) False desk_key) cs
    \<and> length (filter is_post cs) \<le> 1 \<and> cs \<noteq> []"
proof -
  have "lg (snd (fire (logged still_machine) desk_key False desk_bridge)) \<noteq> lg desk_bridge" by code_simp
  moreover have "\<exists>cs. lg (snd (fire (logged still_machine) desk_key False desk_bridge)) = cs @ lg desk_bridge
    \<and> list_all (post_call (dk_options desk) (dk_view desk) False False (desk_agent StatusBlocked) False desk_key) cs
    \<and> length (filter is_post cs) \<le> 1"
    by (rule fire_calls [where q = False]) (simp_all add: still_machine_def desk_machine_def desk_bridge_def newOutbound_def desk_def)
  ultimately show ?thesis by auto
qed

end
