(* ===== verification/Daemon_Safety.thy ===== *)
theory Daemon_Safety
  imports Daemon Reconciler_Safety Relay_Runs Outbound_Safety
begin

text \<open>
  What the daemon's loop promises: why it ends, that nobody is left in the dark when it ends with an error, and that no topic is
  touched while the bot may not manage topics, whatever else happens.
\<close>

section \<open>Why the loop ends\<close>

text \<open>The desktop notification with the reason is the last thing that was done.\<close>

definition told :: "'w DaemonPorts \<Rightarrow> error \<Rightarrow> 'w Daemon \<Rightarrow> bool" where
  "told g e d \<longleftrightarrow> (\<exists>d0. d = notify g (fatal_reason g d0 e) d0)"

definition told_of :: "'w DaemonPorts \<Rightarrow> error option \<times> 'w Daemon \<Rightarrow> bool" where
  "told_of g x \<longleftrightarrow> (\<forall>e. fst x = Some e \<longrightarrow> told g e (snd x) \<and> \<not> isChatMigrated e \<and> e \<noteq> CtxCanceled \<and> e \<noteq> CtxDeadlineExceeded)"

lemma told_of_None [simp]: "told_of g (None, d)"
  by (simp add: told_of_def)

lemma told_of_fatal: "isFatal e \<Longrightarrow> told_of g (daemon_fatal g e d)"
  by (auto simp: told_of_def daemon_fatal_def told_def isFatal_def isChatMigrated_def)

lemma handleErr_other:
  "\<not> isChatMigrated e \<Longrightarrow> handleErr g (Some e) d = (if e = CtxCanceled \<or> e = CtxDeadlineExceeded then (None, d) else daemon_fatal g e d)"
  by (cases e) (simp_all add: handleErr_def isChatMigrated_def)

lemma told_of_handleErr: "told_of g (handleErr g err d)"
proof (cases err)
  case (Some e)
  show ?thesis
  proof (cases "isChatMigrated e")
    case True
    then obtain n where "e = ErrChatMigrated n" by (cases e) (simp_all add: isChatMigrated_def)
    with Some show ?thesis by (simp add: handleErr_def Let_def split_beta)
  next
    case False
    have "told g e (notify g (fatal_reason g d e) d)" unfolding told_def by blast
    with False Some show ?thesis by (simp add: handleErr_other told_of_def daemon_fatal_def)
  qed
qed (simp add: handleErr_def)

lemma told_of_handled: "told_of g (handled g x)"
  by (simp add: handled_def told_of_handleErr)

lemma told_of_chain: "told_of g x \<Longrightarrow> (\<And>d. told_of g (k d)) \<Longrightarrow> told_of g (and_then x k)"
  by (cases x, cases "fst x") (auto simp: told_of_def and_then_def)

lemma told_of_replay: "told_of g (replay g force d)"
proof -
  have "told_of g (handle_events g evs s)" for evs s
    by (induction evs arbitrary: s) (auto intro: told_of_chain told_of_handled)
  then show ?thesis
    unfolding replay_def Let_def split_beta by (intro told_of_chain told_of_handled)
qed

lemma probe_fatal: "probe_operators g ops d = (Inl e, d') \<Longrightarrow> isFatal e"
  by (induction ops arbitrary: d) (auto simp: isFatal_def split: prod.splits option.splits sum.splits if_splits)

lemma told_of_probePager: "told_of g (probePager g d)"
  by (auto simp: probePager_def Let_def intro: told_of_fatal probe_fatal split: prod.split sum.split)

lemma told_of_runSweep: "told_of g (runSweep g d)"
  unfolding runSweep_def Let_def split_beta by (intro told_of_chain told_of_handleErr told_of_None)

lemma told_of_event: "told_of g (onTelegramEvent g raw d)"
  by (cases raw) (auto simp: onTelegramEvent_def Let_def split_beta told_of_replay told_of_handled)

lemma unless_error_told: "told_of g x \<Longrightarrow> unless_error x = (Some r, d') \<Longrightarrow> \<exists>e. r = Some e \<and> told g e d' \<and> \<not> isChatMigrated e"
  by (cases x) (auto simp: unless_error_def told_of_def split: option.splits)

lemma told_of_turns:
  "told_of g (agent_seen g ev d)" "told_of g (quiet_changed g quiet d)"
  by (auto simp: agent_seen_def quiet_changed_def Let_def intro!: told_of_chain told_of_handled told_of_replay)

text \<open>What the clock says when \<open>socketGone\<close> reads it: the health check has read it once before.\<close>

definition second_reading :: "'w DaemonPorts \<Rightarrow> 'w Daemon \<Rightarrow> time" where
  "second_reading g d = fst (dp_Now (dn_dash g) (snd (dp_Now (dn_dash g) (dm_world d))))"

lemma second_reading_of:
  assumes "dm_call (dp_Now (dn_dash g)) d = (now, d1)" "dm_call (dp_Now (dn_dash g)) (reportDrops now d1) = (now2, d3)"
  shows "now2 = second_reading g d"
proof -
  have "dm_world (reportDrops now d1) = snd (dp_Now (dn_dash g) (dm_world d))"
    using assms(1) by (auto simp: reportDrops_def dm_call_def da_call_def split_beta Let_def)
  with assms(2) show ?thesis by (simp add: second_reading_def dm_call_def da_call_def split_beta Let_def)
qed


section \<open>Without the right to manage topics\<close>

text \<open>
  \<open>topics\<close> is what a topic call changes: only the five calls that create, edit, close, reopen and delete a topic may. The
  contract is what the other calls leave alone; \<open>Dashboard_Safety\<close> and \<open>Reconciler_Safety\<close> say which ones are made.
\<close>

locale bystander =
  fixes g :: "'w DaemonPorts" and topics :: "'w \<Rightarrow> 'v"
  assumes gw_calls: "topics (snd (gw_Now (dm_gw g) w)) = topics w" "topics (snd (gw_Save (dm_gw g) m w)) = topics w"
      "topics (snd (gw_Rename (dm_gw g) p n w)) = topics w" "topics (snd (gw_RenameTab (dm_gw g) i l w)) = topics w"
      "topics (snd (gw_Send (dm_gw g) out w)) = topics w"
    and dp_calls: "topics (snd (dp_Send (dn_dash g) out w)) = topics w" "topics (snd (dp_EditText (dn_dash g) k t w)) = topics w"
      "topics (snd (dp_Pin (dn_dash g) k w)) = topics w" "topics (snd (dp_Unpin (dn_dash g) k w)) = topics w"
      "topics (snd (dp_DeleteMessage (dn_dash g) k w)) = topics w" "topics (snd (dp_Now (dn_dash g) w)) = topics w"
    and dn_calls: "topics (snd (dn_ProbeDirect g op w)) = topics w" "topics (snd (dn_ListAgents g w)) = topics w"
      "topics (snd (dn_WatchPanes g ps w)) = topics w" "topics (snd (dn_Notify g title body w)) = topics w"
      "topics (snd (dn_SaveConfig g cfg w)) = topics w" "topics (snd (dn_Idle g w)) = topics w"
      "dn_InboxSweep g = Some sweep \<Longrightarrow> topics (snd (sweep age w)) = topics w" "topics (snd (mc_Now (dn_machine g) w)) = topics w"
begin

definition frozen_rec :: "'v \<Rightarrow> 'w Reconciler \<Rightarrow> bool" where
  "frozen_rec v r \<longleftrightarrow> rc_rightsLost r \<and> topics (rc_world r) = v"

definition frozen_dash :: "'v \<Rightarrow> 'w Dashboard \<Rightarrow> bool" where
  "frozen_dash v h \<longleftrightarrow> frozen_rec v (da_rec h)"

definition frozen :: "'v \<Rightarrow> 'w Daemon \<Rightarrow> bool" where
  "frozen v d \<longleftrightarrow> frozen_dash v (dm_dash d)"

text \<open>The reconciler.\<close>

lemma off_frozen: "frozen_rec v r \<Longrightarrow> off (dm_gw g) r"
  by (simp add: frozen_rec_def off_def)

lemma rec_save: "frozen_rec v r \<Longrightarrow> frozen_rec v (save (dm_gw g) r)"
  by (simp add: frozen_rec_def save_def Let_def gw_calls)

lemma rec_stamped: "frozen_rec v r \<Longrightarrow> frozen_rec v (stamped (dm_gw g) f r)"
  by (simp add: frozen_rec_def stamped_def split_beta gw_calls)

lemma rec_timer: "frozen_rec v r \<Longrightarrow> frozen_rec v (rc_Schedule (dm_gw g) key r)" "frozen_rec v r \<Longrightarrow> frozen_rec v (rc_Cancel key r)"
  by (simp_all add: frozen_rec_def rc_Schedule_def rc_Cancel_def split_beta gw_calls)

lemma rec_fields [simp]:
  "frozen_rec v (r\<lparr>rc_agents := as\<rparr>) = frozen_rec v r" "frozen_rec v (r\<lparr>rc_deb := d\<rparr>) = frozen_rec v r"
  "frozen_rec v (r\<lparr>rc_mapping := m\<rparr>) = frozen_rec v r" "frozen_rec v (r\<lparr>rc_force := b\<rparr>) = frozen_rec v r"
  "frozen_rec v (r\<lparr>rc_view := tv\<rparr>) = frozen_rec v r"
  by (simp_all add: frozen_rec_def)

lemmas rec_steps = rec_save rec_stamped rec_timer

lemma rec_Handle: "frozen_rec v r \<Longrightarrow> frozen_rec v (snd (Handle (dm_gw g) ev r))"
  using off_frozen [of v r]
  by (cases "ae_Kind ev")
     (auto simp: Handle_def Let_def off_create off_edit off_exit rec_steps rc_Cancel_def split_beta split: option.split)

lemma rec_passes:
  "frozen_rec v r \<Longrightarrow> frozen_rec v (snd (Flush (dm_gw g) r))"
  "frozen_rec v r \<Longrightarrow> frozen_rec v (snd (Fire (dm_gw g) key r))"
  "frozen_rec v r \<Longrightarrow> frozen_rec v (snd (Reconcile (dm_gw g) live r))"
  "frozen_rec v r \<Longrightarrow> frozen_rec v (snd (Resync (dm_gw g) live r))"
  "frozen_rec v r \<Longrightarrow> frozen_rec v (snd (Sweep (dm_gw g) age rights r))"
  using off_frozen [of v r]
  by (simp_all add: Flush_def Fire_def Reconcile_def Resync_def Sweep_def Let_def split_beta off_each_edit off_edit off_blocked)

lemma rec_closed: "frozen_rec v r \<Longrightarrow> frozen_rec v (snd (OnTopicClosed (dm_gw g) th r))"
  by (auto simp: OnTopicClosed_def rec_steps split: option.split)

lemma rec_reopened:
  assumes "frozen_rec v r" shows "frozen_rec v (snd (OnTopicReopened (dm_gw g) th r))"
proof -
  have "frozen_rec v (save (dm_gw g) (stamped (dm_gw g) f1 (stamped (dm_gw g) f2 r)))" for f1 f2
    using assms by (intro rec_steps)
  with off_frozen [OF this] show ?thesis
    using assms by (auto simp: OnTopicReopened_def Let_def forced_def split_beta off_edit off_finish rc_Cancel_def split: option.split)
qed

lemma rec_call: "frozen_rec v r \<Longrightarrow> topics w = topics (rc_world r) \<Longrightarrow> frozen_rec v (r\<lparr>rc_world := w\<rparr>)"
  by (simp add: frozen_rec_def)

lemma rec_renamed: "frozen_rec v r \<Longrightarrow> frozen_rec v (snd (OnTopicRenamed (dm_gw g) th name r))"
proof -
  assume r: "frozen_rec v r"
  have name: "frozen_rec v (typed_name (dm_gw g) key n s)" if "frozen_rec v s" for key n s
    unfolding typed_name_def using that by (intro rec_steps)
  have fail: "frozen_rec v (renameFailed (dm_gw g) e er s)" if "frozen_rec v s" for e er s
    using that by (simp add: renameFailed_def frozen_rec_def gw_calls)
  have world: "frozen_rec v (r\<lparr>rc_world := snd (gw_RenameTab (dm_gw g) a b (rc_world r))\<rparr>)"
    "frozen_rec v (r\<lparr>rc_world := snd (gw_Rename (dm_gw g) a c (rc_world r))\<rparr>)" for a b c
    using r by (simp_all add: frozen_rec_def gw_calls)
  have tab: "frozen_rec v (snd (renameTab (dm_gw g) key a e n l r))" for key a e n l
    using r world(1) [of "ag_TabID a" l]
    by (auto simp: renameTab_def intro!: rec_timer name fail split: prod.split option.split)
  have agent: "frozen_rec v (snd (renameAgent (dm_gw g) key a e n l r))" for key a e n l
    using world(2)
    by (auto simp: renameAgent_def Let_def intro!: name fail split: prod.split option.split) (metis snd_conv)+
  show ?thesis
    using r by (auto simp: OnTopicRenamed_def Let_def tab agent split: option.split)
qed

text \<open>The dashboard.\<close>

lemma dash_call: "frozen_dash v h \<Longrightarrow> (\<And>w. topics (snd (f w)) = topics w) \<Longrightarrow> frozen_dash v (snd (da_call f h))"
  by (simp add: frozen_dash_def frozen_rec_def da_call_def split_beta)

lemma dash_fields [simp]:
  "frozen_dash v (h\<lparr>da_deb := a\<rparr>) = frozen_dash v h" "frozen_dash v (h\<lparr>da_since := b\<rparr>) = frozen_dash v h"
  "frozen_dash v (h\<lparr>da_last := c\<rparr>) = frozen_dash v h" "frozen_dash v (h\<lparr>da_hash := d\<rparr>) = frozen_dash v h"
  "frozen_dash v (h\<lparr>da_pinWarned := e\<rparr>) = frozen_dash v h" "frozen_dash v (h\<lparr>da_hasMessage := x\<rparr>) = frozen_dash v h"
  by (simp_all add: frozen_dash_def)

lemma dash_setID: "frozen_dash v h \<Longrightarrow> frozen_dash v (setID (dn_dash g) i h)"
  by (simp add: frozen_dash_def setID_def SetDashboardID_def rec_save)

lemma dash_call_eq: "da_call f h = (x, h1) \<Longrightarrow> frozen_dash v h \<Longrightarrow> (\<And>w. topics (snd (f w)) = topics w) \<Longrightarrow> frozen_dash v h1"
  using dash_call [of v h f] by simp

lemmas dash_intros = dash_setID dash_call dp_calls

lemma dash_Schedule: "frozen_dash v h \<Longrightarrow> frozen_dash v (Dashboard_Schedule (dn_dash g) h)"
  using dash_call [of v h "dp_Now (dn_dash g)"] by (simp add: Dashboard_Schedule_def split_beta dp_calls)

lemma dash_Observe: "frozen_dash v h \<Longrightarrow> frozen_dash v (Dashboard_Observe (dn_dash g) ev h)"
  unfolding Dashboard_Observe_def
  by (rule dash_Schedule) (auto simp: note_status_def Let_def split_beta intro!: dash_call dp_calls split: AgentEventKind.split)

lemma dash_pin: "frozen_dash v h \<Longrightarrow> frozen_dash v (snd (pin (dn_dash g) i h))"
  by (auto simp: pin_def elim!: dash_call_eq intro: dp_calls split: prod.split option.split)

lemma dash_Repin: "frozen_dash v h \<Longrightarrow> frozen_dash v (Repin (dn_dash g) h)"
  by (auto simp: Repin_def Let_def elim!: dash_call_eq intro!: dash_setID dash_pin dp_calls split: prod.split option.split)

lemma dash_forget: "frozen_dash v h \<Longrightarrow> frozen_dash v (forget_message (dn_dash g) h)"
  by (simp add: forget_message_def dash_setID)

lemma dash_mark: "frozen_dash v h \<Longrightarrow> frozen_dash v (snd (mark_off (dn_dash g) i h))"
  by (auto simp: mark_off_def elim!: dash_call_eq intro!: dash_forget dp_calls split: prod.split option.split)

lemma dash_remove: "frozen_dash v h \<Longrightarrow> frozen_dash v (snd (remove_message (dn_dash g) i h))"
proof -
  assume h: "frozen_dash v h"
  obtain e h1 where u: "da_call (dp_Unpin (dn_dash g) i) h = (e, h1)" by (cases "da_call (dp_Unpin (dn_dash g) i) h")
  have "frozen_dash v h1" using u h by (rule dash_call_eq) (rule dp_calls)
  with u show ?thesis
    by (auto simp: remove_message_def elim!: dash_call_eq intro!: dash_forget dash_mark dp_calls split: prod.split option.split)
qed

lemma dash_create: "frozen_dash v h \<Longrightarrow> frozen_dash v (snd (create_message (dn_dash g) t hh h))"
proof -
  assume h: "frozen_dash v h"
  obtain e h1 where u: "da_call (dp_Send (dn_dash g) ((text_message 0 t)\<lparr>og_HTML := True\<rparr>)) h = (e, h1)"
    by (cases "da_call (dp_Send (dn_dash g) ((text_message 0 t)\<lparr>og_HTML := True\<rparr>)) h")
  have "frozen_dash v h1" using u h by (rule dash_call_eq) (rule dp_calls)
  with u show ?thesis
    by (auto simp: create_message_def Let_def split_beta intro!: dash_setID dash_pin split: sum.split)
qed

lemma dash_view_frozen: "frozen_dash v h \<Longrightarrow> frozen_dash v (snd (dash_view (dn_dash g) h))"
  by (simp add: dash_view_def Let_def split_beta dash_call dp_calls)

lemma dash_edit:
  assumes "frozen_dash v h"
  shows "frozen_dash v (snd (case da_call (dp_EditText (dn_dash g) i t) h of
      (None, d1) \<Rightarrow> (None, d1\<lparr>da_hash := hh\<rparr>)
    | (Some e, d1) \<Rightarrow> if e = ErrMessageGone then create_message (dn_dash g) t hh d1 else (da_failed e, d1)))"
proof -
  obtain y h1 where e: "da_call (dp_EditText (dn_dash g) i t) h = (y, h1)" by (cases "da_call (dp_EditText (dn_dash g) i t) h")
  have "frozen_dash v h1" using e assms by (rule dash_call_eq) (rule dp_calls)
  then show ?thesis by (simp add: e dash_create split: option.split)
qed

lemma dash_if: "frozen_dash v (snd x) \<Longrightarrow> frozen_dash v (snd y) \<Longrightarrow> frozen_dash v (snd (if c then x else y))"
  by simp

lemma dash_pair: "frozen_dash v h \<Longrightarrow> frozen_dash v (snd (x, h))"
  by simp

lemma dash_refresh: "frozen_dash v h \<Longrightarrow> frozen_dash v (snd (refresh (dn_dash g) h))"
proof -
  assume h: "frozen_dash v h"
  obtain x h1 where u: "dash_view (dn_dash g) h = (x, h1)" by (cases "dash_view (dn_dash g) h")
  have h1: "frozen_dash v h1" using dash_view_frozen [OF h] u by simp
  show ?thesis unfolding refresh_def Let_def u prod.case
    by (intro dash_if dash_pair dash_remove dash_create dash_edit h h1)
qed

lemma dash_Stop: "frozen_dash v h \<Longrightarrow> frozen_dash v (Dashboard_Stop (dn_dash g) h)"
  unfolding Dashboard_Stop_def Let_def split_beta
  by (auto intro!: dash_call dp_calls dash_view_frozen)

text \<open>The daemon.\<close>

lemma dm_call_frozen: "frozen v d \<Longrightarrow> (\<And>w. topics (snd (f w)) = topics w) \<Longrightarrow> frozen v (snd (dm_call f d))"
  by (simp add: frozen_def dm_call_def split_beta dash_call)

lemma dm_reconciler_frozen: "frozen v d \<Longrightarrow> (\<And>r. frozen_rec v r \<Longrightarrow> frozen_rec v (snd (f r))) \<Longrightarrow> frozen v (snd (dm_reconciler f d))"
  by (simp add: frozen_def frozen_dash_def dm_reconciler_def split_beta)

lemma dm_dashboard_frozen: "frozen v d \<Longrightarrow> (\<And>h. frozen_dash v h \<Longrightarrow> frozen_dash v (snd (f h))) \<Longrightarrow> frozen v (snd (dm_dashboard f d))"
  by (simp add: frozen_def dm_dashboard_def split_beta)

lemma frozen_fields [simp]:
  "frozen v (d\<lparr>dm_cfg := a\<rparr>) = frozen v d" "frozen v (d\<lparr>dm_registry := b\<rparr>) = frozen v d" "frozen v (d\<lparr>dm_bridge := c\<rparr>) = frozen v d"
  "frozen v (d\<lparr>dm_presence := e\<rparr>) = frozen v d" "frozen v (d\<lparr>dm_resync := x\<rparr>) = frozen v d" "frozen v (d\<lparr>dm_sweep := x\<rparr>) = frozen v d"
  "frozen v (d\<lparr>dm_probe := x\<rparr>) = frozen v d" "frozen v (d\<lparr>dm_pagerNoticed := x\<rparr>) = frozen v d" "frozen v (d\<lparr>dm_rights := y\<rparr>) = frozen v d"
  "frozen v (d\<lparr>dm_lastDropped := n, dm_lastDropReport := t\<rparr>) = frozen v d" "frozen v (dm_submit j d) = frozen v d"
  by (simp_all add: frozen_def dm_submit_def)

lemmas frozen_chain = snd_and_then [where P = "frozen v" for v]

lemma notices_frozen:
  "frozen v d \<Longrightarrow> frozen v (general g t d)" "frozen v d \<Longrightarrow> frozen v (notify g body d)"
  by (simp_all add: general_def notify_def dm_call_frozen dp_calls dn_calls)

lemma handleErr_frozen: "frozen v d \<Longrightarrow> frozen v (snd (handleErr g err d))"
proof (cases err)
  case (Some e)
  assume d: "frozen v d"
  show ?thesis
  proof (cases "isChatMigrated e")
    case True
    then obtain n where "e = ErrChatMigrated n" by (cases e) (simp_all add: isChatMigrated_def)
    with Some d show ?thesis by (simp add: handleErr_def Let_def split_beta notices_frozen dm_call_frozen dn_calls)
  qed (use d Some in \<open>simp add: handleErr_other daemon_fatal_def notices_frozen\<close>)
qed (simp add: handleErr_def)

lemma handled_frozen: "frozen v (snd x) \<Longrightarrow> frozen v (snd (handled g x))"
  by (simp add: handled_def handleErr_frozen)

lemma snapshot_frozen: "frozen v d \<Longrightarrow> frozen v (snd (dm_snapshot g d))"
proof -
  assume d: "frozen v d"
  obtain l d1 where l: "dm_call (dn_ListAgents g) d = (l, d1)" by (cases "dm_call (dn_ListAgents g) d")
  obtain n d2 where n: "dm_call (dp_Now (dn_dash g)) d1 = (n, d2)" by (cases "dm_call (dp_Now (dn_dash g)) d1")
  have "frozen v d1" using dm_call_frozen [OF d, of "dn_ListAgents g"] l by (simp add: dn_calls)
  then have "frozen v d2" using dm_call_frozen [of v d1 "dp_Now (dn_dash g)"] n by (simp add: dp_calls)
  then show ?thesis
    by (auto simp: dm_snapshot_def Let_def l n split_beta intro!: dm_call_frozen dn_calls split: option.split)
qed

lemma replay_frozen: "frozen v d \<Longrightarrow> frozen v (snd (replay g force d))"
proof -
  assume d: "frozen v d"
  have evs: "frozen v (snd (handle_events g evs s))" if "frozen v s" for evs s
    using that by (induction evs arbitrary: s) (auto intro!: frozen_chain handled_frozen dm_reconciler_frozen rec_Handle)
  show ?thesis unfolding replay_def Let_def split_beta
    by (intro frozen_chain handled_frozen dm_reconciler_frozen evs snapshot_frozen d) (auto intro: rec_passes)
qed

lemma runSweep_frozen: "frozen v d \<Longrightarrow> frozen v (snd (runSweep g d))"
proof -
  assume d: "frozen v d"
  have inbox: "frozen v (sweepInbox g s)" if "frozen v s" for s
    using that by (auto simp: sweepInbox_def Let_def intro!: dm_call_frozen dn_calls split: option.split)
  show ?thesis unfolding runSweep_def Let_def split_beta
    by (intro frozen_chain handleErr_frozen dm_reconciler_frozen d) (auto intro: rec_passes inbox)
qed

lemma probe_frozen: "frozen v d \<Longrightarrow> frozen v (snd (probe_operators g ops d))"
proof (induction ops arbitrary: d)
  case (Cons op ops)
  obtain e d1 where e: "dm_call (dn_ProbeDirect g op) d = (e, d1)" by (cases "dm_call (dn_ProbeDirect g op) d")
  have "frozen v d1" using dm_call_frozen [OF Cons.prems, of "dn_ProbeDirect g op"] e by (simp add: dn_calls)
  with e Cons.IH [of d1] show ?case
    by (cases "probe_operators g ops d1") (auto split: option.split sum.split)
qed simp

lemma probePager_frozen: "frozen v d \<Longrightarrow> frozen v (snd (probePager g d))"
  using probe_frozen [of v d "cf_OperatorIDs (dm_cfg d)"]
  by (cases "probe_operators g (cf_OperatorIDs (dm_cfg d)) d")
     (auto simp: probePager_def Let_def daemon_fatal_def notices_frozen split: sum.split)

lemma event_frozen: "frozen v d \<Longrightarrow> raw \<noteq> EvRights True \<Longrightarrow> frozen v (snd (onTelegramEvent g raw d))"
proof (cases raw)
  case (EvRights ok)
  assume "frozen v d" "raw \<noteq> EvRights True"
  moreover have "frozen v (dm_readonly True s)" if "frozen v s" for s
    unfolding dm_readonly_def using that by (rule dm_reconciler_frozen) (simp add: SetReadOnly_def frozen_rec_def)
  ultimately show ?thesis using EvRights by (auto simp: onTelegramEvent_def Let_def notices_frozen)
next
  case (EvRenamed th name)
  assume d: "frozen v d"
  have "frozen v (snd (dm_reconciler (OnTopicRenamed (dm_gw g) th name) d))"
    using d by (intro dm_reconciler_frozen rec_renamed)
  then show ?thesis by (simp add: onTelegramEvent_def EvRenamed split_beta)
qed (auto simp: onTelegramEvent_def intro!: handled_frozen dm_reconciler_frozen rec_closed rec_reopened)

lemma schedule_frozen: "frozen v d \<Longrightarrow> frozen v (dash_schedule g d)"
  by (simp add: dash_schedule_def frozen_def dash_Schedule)

lemma world_of_bridge [simp]: "in_world (br_in (with_world w b)) = w"
  by (simp add: with_world_def)

lemma capture_frozen: "frozen v d \<Longrightarrow> frozen v (dm_capture g ev d)"
proof -
  assume d: "frozen v d"
  have "topics (snd (Capture_Observe (dn_machine g) ev c w)) = topics w" for c w
    by (auto simp: Capture_Observe_def cp_working_def Let_def split_beta dn_calls split: option.split)
  with d show ?thesis
    by (simp add: dm_capture_def bridge_step_def Let_def split_beta frozen_def frozen_dash_def frozen_rec_def dm_call_def da_call_def)
qed

lemma poll_frozen: "frozen v d \<Longrightarrow> frozen v (dm_poll g d)"
  by (simp add: dm_poll_def Let_def split_beta dm_call_frozen dp_calls dn_calls)

lemma seen_frozen: "frozen v d \<Longrightarrow> frozen v (snd (agent_seen g ev d))"
  unfolding agent_seen_def
  by (auto intro!: frozen_chain handled_frozen dm_reconciler_frozen rec_Handle dm_dashboard_frozen dash_Observe capture_frozen)

lemma quiet_frozen: "frozen v d \<Longrightarrow> frozen v (snd (quiet_changed g quiet d))"
  unfolding quiet_changed_def Let_def by (auto intro!: frozen_chain replay_frozen schedule_frozen)

lemma shutdown_frozen: "frozen v d \<Longrightarrow> frozen v (shutdown g d)"
  unfolding shutdown_def Let_def split_beta
  by (intro dm_reconciler_frozen dm_dashboard_frozen notices_frozen rec_passes) (auto intro: dash_Stop)

lemma gone_frozen: "frozen v d \<Longrightarrow> frozen v (snd (socketGone g start d))"
  by (simp add: socketGone_def Let_def split_beta dm_call_frozen dp_calls)

lemma drops_frozen: "frozen v d \<Longrightarrow> frozen v (reportDrops now d)"
  by (simp add: reportDrops_def Let_def)

lemma health_frozen: "frozen v d \<Longrightarrow> frozen v (snd (health_due g start d))"
proof -
  assume d: "frozen v d"
  obtain now d1 where n: "dm_call (dp_Now (dn_dash g)) d = (now, d1)" by (cases "dm_call (dp_Now (dn_dash g)) d")
  have "frozen v d1" using dm_call_frozen [OF d, of "dp_Now (dn_dash g)"] n by (simp add: dp_calls)
  then have "frozen v (snd (socketGone g start (reportDrops now d1)))" by (intro gone_frozen drops_frozen)
  then show ?thesis by (simp add: health_due_def n Let_def split_beta shutdown_frozen notices_frozen)
qed

lemma unless_frozen: "frozen v (snd x) \<Longrightarrow> frozen v (snd (unless_error x))"
  by (cases x) (auto simp: unless_error_def split: option.split)

lemma turn_frozen:
  assumes "frozen v d" "input \<noteq> Update (EvRights True)" shows "frozen v (snd (daemon_turn g start input d))"
proof (cases "input_ready d input")
  case True
  have "frozen v (snd (handled g (dm_dashboard (refresh (dn_dash g)) d)))"
    using assms by (intro handled_frozen dm_dashboard_frozen dash_refresh)
  moreover have "frozen v (snd (handled g (dm_reconciler (Fire (dm_gw g) key) d)))" for key
    using assms by (intro handled_frozen dm_reconciler_frozen rec_passes)
  ultimately show ?thesis
    using assms True
    by (cases input)
       (simp_all add: daemon_turn_def poll_frozen quiet_frozen shutdown_frozen seen_frozen unless_frozen Let_def split_beta daemon_fatal_def
         notices_frozen probePager_frozen event_frozen replay_frozen runSweep_frozen health_frozen)
qed (use assms in \<open>simp add: daemon_turn_def\<close>)

end

section \<open>The test doubles\<close>

definition fake_machine :: "FakeWorld Machine" where
  "fake_machine =
     \<lparr>mc_Now = (\<lambda>w. (ck_now (fw_clock w), w)), mc_agent = (\<lambda>w k. None), mc_live = (\<lambda>w. []), mc_topics = (\<lambda>w. publish (NewMapping 5)),
      mc_options = (\<lambda>w. DefaultOptions), mc_quiet = fw_quiet,
      mc_ReadScreen = (\<lambda>p s n w. (Inl ErrAgentGone, w)), mc_Prompt = (\<lambda>p t w. (None, w)), mc_SendKeys = (\<lambda>p ks w. (None, w)),
      mc_Focus = (\<lambda>p w. (None, w)), mc_ClosePane = (\<lambda>p w. (None, w)), mc_ListWorkspaces = (\<lambda>w. (Inr [], w)),
      mc_CreateTab = (\<lambda>i w. (Inl ErrDisconnected, w)), mc_StartAgent = (\<lambda>n k p d w. (Inl ErrDisconnected, w)),
      mc_Send = (\<lambda>out. on_tg (fake_Send out)), mc_SendDirect = (\<lambda>op out. on_tg (fake_SendDirect op out)),
      mc_EditText = (\<lambda>i t h bs. on_tg (fake_EditText i t bs)), mc_EditButtons = (\<lambda>i bs. on_tg (fake_EditButtons i bs)),
      mc_AnswerButton = (\<lambda>i t. on_tg (fake_AnswerButton i t)), mc_SendDocument = (\<lambda>doc. on_tg (fake_SendDocument doc)),
      mc_React = (\<lambda>t i e. on_tg (fake_React t i e)), mc_Download = (\<lambda>f n. on_tg (fake_Download f n)), mc_SetAccess = (\<lambda>ops obs w. w),
      mc_LastReply = None, mc_git = None, mc_inbox = None, mc_SaveConfig = None, mc_SetOption = (\<lambda>k v w. (None, w)),
      mc_ResetOptions = (\<lambda>ks w. (Inr False, w)), mc_Choices = (\<lambda>w name. []), mc_Away = (\<lambda>d by w. (desk_presence, w)),
      mc_Here = (\<lambda>by w. (desk_presence, w)), mc_presence = (\<lambda>w. desk_presence), mc_since = (\<lambda>w. []), mc_hash = (\<lambda>t. t),
      mc_Format = (\<lambda>l t. []), mc_ErrorText = (\<lambda>e. []), mc_Quote = (\<lambda>t. t), mc_letter = (\<lambda>r. ascii r)\<rparr>"

definition fake_daemon :: "FakeWorld DaemonPorts" where
  "fake_daemon =
     \<lparr>dn_dash = \<lparr>dp_Send = (\<lambda>out. on_tg (fake_Send out)), dp_EditText = (\<lambda>i t. on_tg (fake_EditText i t [])), dp_Pin = (\<lambda>i. on_tg (fake_Pin i)),
        dp_Unpin = (\<lambda>i. on_tg (fake_Unpin i)), dp_DeleteMessage = (\<lambda>i. on_tg (fake_DeleteMessage i)), dp_Now = (\<lambda>w. (ck_now (fw_clock w), w)),
        dp_live = (\<lambda>w. []), dp_options = (\<lambda>w. DefaultOptions), dp_presence = (\<lambda>w. None), dp_chatID = 5, dp_Format = (\<lambda>l t. []),
        dp_hash = (\<lambda>t. t), dp_gw = fakes\<rparr>,
      dn_machine = fake_machine,
      dn_Rights = (\<lambda>w. case fake_Rights (fw_tg w) of ((r, None), f) \<Rightarrow> (Inr r, w\<lparr>fw_tg := f\<rparr>) | ((r, Some e), f) \<Rightarrow> (Inl e, w\<lparr>fw_tg := f\<rparr>)),
      dn_ProbeDirect = (\<lambda>op. on_tg (fake_ProbeDirect op)), dn_SetStatusIcons = (\<lambda>icons w. w), dn_SetNoticeDelay = (\<lambda>delay del w. w),
      dn_ListAgents = (\<lambda>w. (Inr [], w)), dn_WatchPanes = (\<lambda>ps w. (None, w)), dn_Notify = (\<lambda>title body w. (None, w)),
      dn_SaveConfig = (\<lambda>cfg w. (None, w)), dn_Idle = (\<lambda>w. (Inl ErrIdleUnsupported, w)), dn_InboxSweep = None\<rparr>"

lemma message_topics [simp]:
  "ft_topics (snd (fake_Send out f)) = ft_topics f" "ft_topics (snd (fake_EditText k t bs f)) = ft_topics f"
  "ft_topics (snd (fake_Pin k f)) = ft_topics f" "ft_topics (snd (fake_Unpin k f)) = ft_topics f"
  "ft_topics (snd (fake_DeleteMessage k f)) = ft_topics f" "ft_topics (snd (fake_ProbeDirect op f)) = ft_topics f"
  by (auto simp: fake_Send_def fake_EditText_def fake_Pin_def fake_Unpin_def fake_DeleteMessage_def fake_ProbeDirect_def fake_record_def
      new_message_def set_buttons_def Let_def split_beta split: option.split)

lemma on_tg_topics: "(\<And>f. ft_topics (snd (m f)) = ft_topics f) \<Longrightarrow> fake_topic (snd (on_tg m w)) = fake_topic w"
  by (simp add: on_tg_def split_beta)

lemma on_other_topics [simp]: "fake_topic (snd (on_herdr h w)) = fake_topic w" "fake_topic (snd (on_store st w)) = fake_topic w"
  by (simp_all add: on_herdr_def on_store_def split_beta)

interpretation fake_bystander: bystander fake_daemon fake_topic
proof
  show "fake_topic (snd (gw_Now (dm_gw fake_daemon) w)) = fake_topic w" "fake_topic (snd (gw_Save (dm_gw fake_daemon) m w)) = fake_topic w"
    "fake_topic (snd (gw_Rename (dm_gw fake_daemon) p n w)) = fake_topic w" "fake_topic (snd (gw_RenameTab (dm_gw fake_daemon) i l w)) = fake_topic w"
    for w m p n i l
    by (simp_all add: fake_daemon_def fakes_def)
  show "fake_topic (snd (gw_Send (dm_gw fake_daemon) out w)) = fake_topic w"
    "fake_topic (snd (dp_Send (dn_dash fake_daemon) out w)) = fake_topic w" "fake_topic (snd (dp_EditText (dn_dash fake_daemon) k t w)) = fake_topic w"
    "fake_topic (snd (dp_Pin (dn_dash fake_daemon) k w)) = fake_topic w" "fake_topic (snd (dp_Unpin (dn_dash fake_daemon) k w)) = fake_topic w"
    "fake_topic (snd (dp_DeleteMessage (dn_dash fake_daemon) k w)) = fake_topic w" "fake_topic (snd (dn_ProbeDirect fake_daemon op w)) = fake_topic w"
    for out k t op w
    by (simp_all add: fake_daemon_def fakes_def on_tg_topics)
qed (simp_all add: fake_daemon_def fake_machine_def)

section \<open>The theorem\<close>

text \<open>
  What can happen from a state on while the right is not given back: turns of the loop on any other input, and anything the
  other goroutines do - to the registry, the bridge, the presence, the requests and the world - but a call on a topic.
\<close>

inductive while_lost :: "'w DaemonPorts \<Rightarrow> ('w \<Rightarrow> 'v) \<Rightarrow> time \<Rightarrow> 'w Daemon \<Rightarrow> 'w Daemon \<Rightarrow> bool" for g topics start d0 where
  lost_here: "while_lost g topics start d0 d0"
| lost_turn: "while_lost g topics start d0 d \<Longrightarrow> input \<noteq> Update (EvRights True)
    \<Longrightarrow> while_lost g topics start d0 (snd (daemon_turn g start input d))"
| lost_others: "while_lost g topics start d0 d \<Longrightarrow> topics w = topics (dm_world d)
    \<Longrightarrow> while_lost g topics start d0 (d\<lparr>dm_dash := (dm_dash d)\<lparr>da_rec := (dm_rec d)\<lparr>rc_world := w\<rparr>\<rparr>, dm_registry := reg, dm_bridge := b,
          dm_presence := p, dm_resync := rs, dm_sweep := sw, dm_probe := pr\<rparr>)"

text \<open>
  C3: From the moment Telegram reports that the bot may no longer manage topics until it reports the contrary, no topic is created,
  edited, closed, reopened or deleted: whatever agents do, timers fire, operators ask for and options change, what Telegram
  shows of the topics stays as it was.
\<close>

theorem no_topic_call_without_right:
  assumes "bystander g topics" and "while_lost g topics start (snd (onTelegramEvent g (EvRights False) d0)) d"
  shows "topics (dm_world d) = topics (dm_world d0) \<and> rc_rightsLost (dm_rec d)"
proof -
  note b = assms(1)
  let ?v = "topics (dm_world d0)"
  have readonly: "bystander.frozen topics ?v (dm_readonly True d)" if "topics (dm_world d) = ?v" for d
    using that by (simp add: bystander.frozen_def [OF b] bystander.frozen_dash_def [OF b] bystander.frozen_rec_def [OF b]
        dm_readonly_def dm_reconciler_def SetReadOnly_def)
  have "bystander.frozen topics ?v (snd (onTelegramEvent g (EvRights False) d0))"
    unfolding onTelegramEvent_def Let_def
    by (simp add: bystander.notices_frozen [OF b] readonly)
  with assms(2) have "bystander.frozen topics ?v d"
  proof induction
    case (lost_turn d input)
    then show ?case by (intro bystander.turn_frozen [OF b]) auto
  next
    case (lost_others d w)
    then show ?case by (simp add: bystander.frozen_def [OF b] bystander.frozen_dash_def [OF b] bystander.frozen_rec_def [OF b])
  qed
  then show ?thesis by (simp add: bystander.frozen_def [OF b] bystander.frozen_dash_def [OF b] bystander.frozen_rec_def [OF b])
qed

definition sample_daemon :: "FakeWorld Daemon" where
  "sample_daemon =
     \<lparr>dm_cfg = sample_config, dm_dash = NewDashboard sample_recon, dm_registry = NewRegistry,
      dm_bridge = NewBridge sample_config NewCapture fake_world, dm_presence = NewPresence False, dm_version = [],
      dm_resync = False, dm_sweep = False, dm_probe = False, dm_pagerNoticed = False,
      dm_rights = \<lparr>IsForum = True, IsAdmin = True, CanManageTopics = True, CanDeleteMessages = True, CanPinMessages = True\<rparr>,
      dm_started = 0, dm_lastDropped = 0, dm_lastDropReport = 0\<rparr>"

text \<open>An agent that appears gets its topic only when the right is there.\<close>

definition appeared :: AgentEvent where
  "appeared = \<lparr>ae_Kind = AgentAppeared, ae_Agent = Fakes.sample_agent ''p1'' ''ann'' StatusWorking\<rparr>"

theorem no_topic_call_without_right_witness:
  "fake_topic (dm_world (snd (daemon_turn fake_daemon 0 (AgentSeen appeared) (snd (onTelegramEvent fake_daemon (EvRights False) sample_daemon)))))
     = fake_topic (dm_world sample_daemon)"
  using no_topic_call_without_right [OF fake_bystander.bystander_axioms lost_turn [OF lost_here, of "AgentSeen appeared"]] by blast

definition forbidden_daemon :: "FakeWorld Daemon" where
  "forbidden_daemon = sample_daemon\<lparr>dm_bridge := (dm_bridge sample_daemon)\<lparr>br_fatal := Some ErrForbidden\<rparr>\<rparr>"


end
