(* ===== verification/Relay_Safety.thy ===== *)
theory Relay_Safety
  imports Relay_Runs
begin

text \<open>
  What the relay guarantees. A run starts with an empty store and goes on with events, ticks and restarts from what the store
  holds, at any moment; a crash between two calls is a run in which every later call fails until the restart. The doubles of
  \<^verbatim>\<open>internal/app/relay_test.go\<close> are the concrete ports the contracts are interpreted on.
\<close>

section \<open>The test doubles\<close>

record fakeHost =
  fh_disk :: relayState
  fh_created :: nat
  fh_messages :: nat
  fh_calls :: "(string \<times> string \<times> string) list"
  fh_full :: bool

text \<open>\<open>relayMemory\<close>, \<open>relayWireFake\<close> and the double of Telegram; a full disk refuses to save.\<close>

definition fakeAnswer :: "string \<Rightarrow> json" where
  "fakeAnswer path =
     (if HasSuffix path ''/roles'' then JObject [(''id'', JString ''role'')]
      else if HasSuffix path ''/terminals'' then JObject [(''nodeId'', JString ''created''), (''terminalId'', JString ''new-terminal'')]
      else JObject [(''ok'', JBool True)])"

definition fakeTerminal :: "string \<Rightarrow> WireTerminal" where
  "fakeTerminal i =
     \<lparr>wt_ID = i, wt_NodeID = [], wt_Name = ''Mesmo nome'', wt_AgentType = [], wt_FloorID = ''floor'', wt_FloorName = [], wt_Status = [],
      wt_IsRunning = True, wt_IsLive = True, wt_IsManager = True, wt_NeedsAttention = False, wt_Preview = []\<rparr>"

definition fakeWorkspace :: "string \<Rightarrow> string \<Rightarrow> WireWorkspace" where
  "fakeWorkspace i name = \<lparr>ww_ID = i, ww_Name = name, ww_WorkingDirectory = [], ww_IsLocked = False, ww_Floors = []\<rparr>"

definition fakeFeed :: WireFeed where
  "fakeFeed =
     \<lparr>wf_Workspace = fakeWorkspace ''ws'' ''Projeto Demo'', wf_Floors = [\<lparr>wl_ID = ''floor'', wl_Name = ''Redesign'', wl_IsCloneMissing = False\<rparr>],
      wf_Items = map (\<lambda>i. \<lparr>it_Kind = ''terminal'', it_Terminal = fakeTerminal i, it_Prompt = []\<rparr>) [''agent-a'', ''agent-b''],
      wf_Epoch = ''epoch'', wf_Canvas = Some (JObject [(''nodes'', JArray [JObject [(''id'', JString ''created'')]])]), wf_PendingFloors = []\<rparr>"

definition fakeConfig :: RelayConfig where
  "fakeConfig =
     \<lparr>rg_WireURL = ''https://host'', rg_WirePin = [], rg_WireToken = [], rg_BotToken = [], rg_ChatID = -100123, rg_Operators = [7],
      rg_Observers = [], rg_Workspaces = [''ws''], rg_PollSeconds = 0, rg_LLMKey = []\<rparr>"

definition fakeInfo :: WireInfo where
  "fakeInfo =
     \<lparr>wi_Name = [], wi_ProtocolVersion = 1,
      wi_Capabilities = [''feedSnapshots'', ''canvasWrites'', ''roleManagement'', ''terminalDrafts'', ''partituras''], wi_Role = ''owner''\<rparr>"

definition fake_send :: "fakeHost \<Rightarrow> int result \<times> fakeHost" where
  "fake_send w = (Inr (1000 + int (fh_messages w)), w\<lparr>fh_messages := Suc (fh_messages w)\<rparr>)"

definition relay_fakes :: "fakeHost RelayPorts" where
  "relay_fakes =
     \<lparr>rp_Config = fakeConfig, rp_Info = (\<lambda>w. (Inr fakeInfo, w)),
      rp_Workspaces = (\<lambda>w. (Inr [fakeWorkspace ''ws'' ''Projeto Demo'', fakeWorkspace ''other'' ''Outro''], w)),
      rp_Feed = (\<lambda>ws flr w. (if ws = ''ws'' then Inr fakeFeed else Inl (OtherError ''offline''), w)),
      rp_Presets = (\<lambda>w. (Inr [\<lparr>ap_ID = ''preset'', ap_Name = [], ap_AgentType = ''codex'', ap_Command = ''codex'', ap_IsDefault = False\<rparr>], w)),
      rp_Call = (\<lambda>capability verb path body w. (Inr (Some (fakeAnswer path)), if verb = ''POST'' then w\<lparr>fh_calls := fh_calls w @ [(capability, verb, path)]\<rparr> else w)),
      rp_Input = (\<lambda>i b w. (None, w)), rp_Upload = (\<lambda>i nm mime b w. (Inr ''attachment'', w)),
      rp_EditTopic = (\<lambda>thread patch w. (None, w)),
      rp_CreateTopic = (\<lambda>name st w. (Inr \<lparr>tp_ThreadID = 100 + int (fh_created w), tp_Name = name, tp_IconEmojiID = [], tp_Closed = False\<rparr>,
                                     w\<lparr>fh_created := Suc (fh_created w)\<rparr>)),
      rp_Send = (\<lambda>out. fake_send), rp_SendDocument = (\<lambda>d w. (None, w)), rp_AnswerButton = (\<lambda>cb toast w. (None, w)),
      rp_EditButtons = (\<lambda>m bs w. (None, w)), rp_Download = (\<lambda>fid most w. (Inr [], w)),
      rp_Save = (\<lambda>s w. if fh_full w then (Some (OtherError ''disk full''), w) else (None, w\<lparr>fh_disk := s\<rparr>)),
      rp_Now = (\<lambda>w. (0, w)), rp_Pause = (\<lambda>w. (Some CtxDeadlineExceeded, w)), rp_Catalog = None, rp_Planner = None, rp_Native = None,
      rp_ParseURL = (\<lambda>u. None), rp_digest = ar_Name \<circ> pl_Arrangement, rp_PlanText = (\<lambda>p. []), rp_JsonText = (\<lambda>j. []), rp_ErrorText = (\<lambda>e. [])\<rparr>"

definition creates :: "string \<times> string \<times> string \<Rightarrow> bool" where
  "creates c \<longleftrightarrow> fst c \<notin> {[], ''terminalFocus'', ''promptSegments''}"

definition fh_asked :: "fakeHost \<Rightarrow> nat" where
  "fh_asked w = length (filter creates (fh_calls w))"

interpretation fakes: relay_store relay_fakes fh_disk fh_created fh_asked
  by unfold_locales (auto simp: relay_fakes_def still_def fh_asked_def creates_def fake_send_def split: if_splits)

section \<open>Runs\<close>

inductive relay_run :: "'w RelayPorts \<Rightarrow> ('w \<Rightarrow> relayState) \<Rightarrow> ('w \<Rightarrow> 'w \<Rightarrow> bool) \<Rightarrow> 'w \<Rightarrow> 'w Relay \<Rightarrow> bool"
  for g disk quiet w0 where
  run_start: "NewRelay (rp_Config g) (Inr StoreEmpty) w0 = Inr r \<Longrightarrow> relay_run g disk quiet w0 r"
| run_event: "relay_run g disk quiet w0 r \<Longrightarrow> relay_run g disk quiet w0 (relay_event g event r)"
| run_tick: "relay_run g disk quiet w0 r \<Longrightarrow> relay_run g disk quiet w0 (snd (relay_tick g r))"
| run_world: "relay_run g disk quiet w0 r \<Longrightarrow> quiet (rl_world r) w \<Longrightarrow> relay_run g disk quiet w0 (r\<lparr>rl_world := w\<rparr>)"
| run_restart: "relay_run g disk quiet w0 r \<Longrightarrow> NewRelay (rp_Config g) (Inr (Stored (disk (rl_world r)))) (rl_world r) = Inr r'
    \<Longrightarrow> relay_run g disk quiet w0 r'"

lemma NewRelay_state:
  assumes "NewRelay c (Inr x) w = Inr r"
  shows "rl_world r = w \<and> (\<exists>s. (x = StoreEmpty \<and> s = emptyRelayState \<or> x = Stored s)
    \<and> rs_Topics (rl_state r) = rs_Topics s \<and> rs_Jobs (rl_state r) = rs_Jobs s)"
  using assms by (auto simp: NewRelay_def Let_def split: stored.splits if_splits)

context relay_store
begin

lemma run_recorded:
  assumes "relay_run g disk (still disk made asked) w0 r"
    and "disk w0 = emptyRelayState" "made w0 = 0" "asked w0 = 0"
  shows "recorded r"
  using assms(1)
proof induction
  case (run_start r)
  with NewRelay_state [OF run_start] assms(2-4) show ?case
    by (auto simp: recorded_def Let_def emptyRelayState_def weight_def)
next
  case (run_restart r r')
  from NewRelay_state [OF run_restart.hyps(2)] run_restart.IH show ?case
    by (auto simp: recorded_def Let_def)
qed (blast intro: store.event_J store.tick_J recorded_world)+

end

definition freshHost :: fakeHost where
  "freshHost = \<lparr>fh_disk = emptyRelayState, fh_created = 0, fh_messages = 0, fh_calls = [], fh_full = False\<rparr>"

definition fakeStart :: "fakeHost Relay" where
  "fakeStart =
     \<lparr>rl_state = emptyRelayState\<lparr>rs_Version := 1, rs_ChatID := -100123, rs_Host := ''https://host|''\<rparr>, rl_feeds = [], rl_statuses = [],
      rl_failure = None, rl_world = freshHost\<rparr>"

lemma fake_start: "NewRelay (rp_Config relay_fakes) (Inr StoreEmpty) freshHost = Inr fakeStart"
  by (simp add: NewRelay_def relay_fakes_def fakeStart_def fakeConfig_def relayHost_def emptyRelayState_def Let_def)

lemma fake_run: "relay_run relay_fakes fh_disk (still fh_disk fh_created fh_asked) freshHost (snd (relay_tick relay_fakes fakeStart))"
  by (intro run_tick run_start fake_start)

lemma freshHost_empty [simp]: "fh_disk freshHost = emptyRelayState" "fh_created freshHost = 0" "fh_asked freshHost = 0"
  by (simp_all add: freshHost_def fh_asked_def)

text \<open>
  C9: In every run of the relay over a store that keeps what was last written, with restarts and failing calls at any moment, the
  topics ever asked of Telegram are at most the scopes (floors) on record in the store: a topic is asked for only after its scope
  is stored, and never again for a scope on record.
\<close>

theorem topics_created_once:
  assumes "relay_store g disk made asked"
    and "relay_run g disk (still disk made asked) w0 r"
    and "disk w0 = emptyRelayState" "made w0 = 0" "asked w0 = 0"
  shows "made (rl_world r) \<le> card (dom (gm_get (rs_Topics (disk (rl_world r)))))"
proof -
  have "relay_store.recorded disk made asked r"
    using assms by (rule relay_store.run_recorded)
  then show ?thesis
    by (simp add: relay_store.recorded_def [OF assms(1)] Let_def) (simp add: gm_length_filter_card [symmetric])
qed

theorem topics_created_once_witness:
  "fh_created (rl_world (snd (relay_tick relay_fakes fakeStart)))
     \<le> card (dom (gm_get (rs_Topics (fh_disk (rl_world (snd (relay_tick relay_fakes fakeStart)))))))"
  by (rule topics_created_once [OF fakes.relay_store_axioms fake_run]) simp_all

text \<open>
  C11: In every such run, the requests to the host that create something are at most the steps on record with the jobs in the
  store: a request is sent only after its step is stored as begun, and a step on record is not sent again, whether or not its
  answer arrived.
\<close>

theorem creations_sent_once:
  assumes "relay_store g disk made asked"
    and "relay_run g disk (still disk made asked) w0 r"
    and "disk w0 = emptyRelayState" "made w0 = 0" "asked w0 = 0"
  shows "asked (rl_world r) \<le> weight (rs_Jobs (disk (rl_world r)))"
proof -
  have "relay_store.recorded disk made asked r"
    using assms by (rule relay_store.run_recorded)
  then show ?thesis
    by (simp add: relay_store.recorded_def [OF assms(1)] Let_def)
qed

theorem creations_sent_once_witness:
  "fh_asked (rl_world (snd (relay_tick relay_fakes fakeStart)))
     \<le> weight (rs_Jobs (fh_disk (rl_world (snd (relay_tick relay_fakes fakeStart)))))"
  by (rule creations_sent_once [OF fakes.relay_store_axioms fake_run]) simp_all

end
