(* ===== verification/Relay_Access.thy ===== *)
theory Relay_Access
  imports Relay_Safety
begin

text \<open>
  Who the relay obeys and what it does with a message: the agent a message reaches, the events of people who are no operators,
  an event that is delivered twice, a button that is pressed twice.
\<close>

section \<open>The agent of a message\<close>

lemma or_fail_Inr:
  assumes "or_fail x k = (Inr b, s)" obtains a s' where "x = (Inr a, s')" "k a s' = (Inr b, s)"
  using assms by (auto simp: or_fail_def split: prod.splits sum.splits)

text \<open>
  C8: The agent a message or a press is passed to lives in a topic that is on record and not pending, of a workspace the
  configuration allows; the host reports it on the floor of that topic, live and running, and no other agent fits. With a
  reply it is the agent of the very message replied to, sent in the same topic for the same floor and session; without one
  it is the coordinator of the floor, or the agent asked for.
\<close>

theorem relay_target_sound:
  assumes "relay_target g thread answered explicit r = (Inr (t, a), r')"
  shows "\<exists>topic feed. topic \<in> snd ` set (rl_topics r) \<and> rt_Thread topic = thread \<and> \<not> rt_Pending topic
    \<and> rt_Workspace topic \<noteq> ''maestro'' \<and> Allows (rp_Config g) (rt_Workspace topic)
    \<and> fst (rp_Feed g (rt_Workspace topic) (rt_Floor topic) (rl_world r)) = Inr feed \<and> ww_ID (wf_Workspace feed) = rt_Workspace topic
    \<and> a \<in> it_Terminal ` set (wf_Items feed) \<and> wt_FloorID a = rt_Floor topic \<and> wt_IsLive a \<and> wt_IsRunning a
    \<and> tg_Terminal t = wt_ID a \<and> tg_Workspace t = rt_Workspace topic \<and> tg_Floor t = rt_Floor topic \<and> tg_Thread t = thread \<and> tg_Epoch t = wf_Epoch feed
    \<and> (if answered \<noteq> 0
       then \<exists>b. gm_get (rl_replies r) answered = Some b \<and> tg_Terminal b = wt_ID a \<and> tg_Thread b = thread \<and> tg_Workspace b = tg_Workspace t
              \<and> tg_Floor b = tg_Floor t \<and> tg_Epoch b = tg_Epoch t
       else if explicit \<noteq> [] then wt_ID a = explicit
       else wt_IsManager a \<and> filter (\<lambda>x. wt_ID x \<noteq> [] \<and> wt_FloorID x = rt_Floor topic \<and> wt_IsLive x \<and> wt_IsRunning x \<and> wt_IsManager x)
              (map it_Terminal (wf_Items feed)) = [a])"
proof -
  obtain topic where topic: "topic_of r thread = Some topic" "rt_Workspace topic \<noteq> ''maestro''" "Allows (rp_Config g) (rt_Workspace topic)"
    using assms by (auto simp: relay_target_def Let_def split: option.splits if_splits)
  let ?there = "case gm_get (rl_replies r) answered of None \<Rightarrow> [] | Some b \<Rightarrow> tg_Terminal b"
  from assms topic obtain feed r1 where feed: "rl_call (rp_Feed g (rt_Workspace topic) (rt_Floor topic)) r = (Inr feed, r1)"
    and ident: "ww_ID (wf_Workspace feed) = rt_Workspace topic"
    and bound: "answered \<noteq> 0 \<Longrightarrow> bound_ok topic feed thread (gm_get (rl_replies r) answered)"
    and one: "filter (candidate topic answered ?there explicit) (map it_Terminal (wf_Items feed)) = [a]"
    and t: "tg_Terminal t = wt_ID a" "tg_Workspace t = rt_Workspace topic" "tg_Floor t = rt_Floor topic" "tg_Thread t = thread" "tg_Epoch t = wf_Epoch feed"
    by (auto simp: relay_target_def Let_def split_beta split: if_splits list.splits elim!: or_fail_Inr)
  from topic(1) have on_record: "topic \<in> snd ` set (rl_topics r)" "rt_Thread topic = thread" "\<not> rt_Pending topic"
    by (auto simp: topic_of_def find_Some_iff in_set_conv_nth image_iff) (metis nth_mem snd_conv)
  have "a \<in> set (map it_Terminal (wf_Items feed))" and a: "candidate topic answered ?there explicit a"
    using arg_cong [OF one, of set] by auto
  with one bound on_record ident t topic(2,3) feed show ?thesis
    by (intro exI [of _ topic] exI [of _ feed])
       (auto simp: candidate_def [abs_def] bound_ok_def rl_call_def split_beta split: option.splits)
qed

text \<open>The relay of \<^verbatim>\<open>newRelayTest\<close>: one floor, message 10 stands for the second agent.\<close>

definition testRelay :: "fakeHost Relay" where
  "testRelay =
     put_reply 10 \<lparr>tg_Workspace = ''ws'', tg_Floor = ''floor'', tg_Terminal = ''agent-b'', tg_Epoch = ''epoch'', tg_Thread = 100, tg_Prompt = [],
       tg_At = 0, tg_Actions = [''kill'', ''cancel'']\<rparr>
     (put_topic (scope ''ws'' ''floor'') \<lparr>rt_Workspace = ''ws'', rt_Floor = ''floor'', rt_Name = ''Projeto Demo'', rt_Thread = 100,
       rt_Pending = False, rt_Muted = False\<rparr> fakeStart)"

definition terminal_of :: "(relayTarget \<times> WireTerminal) result \<times> fakeHost Relay \<Rightarrow> string" where
  "terminal_of x = (case fst x of Inr (t, a) \<Rightarrow> tg_Terminal t | Inl _ \<Rightarrow> [])"

lemma target_of_ten: "terminal_of (relay_target relay_fakes 100 10 [] testRelay) = ''agent-b''"
  by code_simp

theorem relay_target_sound_witness:
  "\<exists>t a. tg_Terminal t = ''agent-b'' \<and> fst (relay_target relay_fakes 100 10 [] testRelay) = Inr (t, a) \<and> wt_IsLive a"
proof -
  obtain t a r' where t: "relay_target relay_fakes 100 10 [] testRelay = (Inr (t, a), r')"
    using target_of_ten by (cases "relay_target relay_fakes 100 10 [] testRelay") (auto simp: terminal_of_def split: sum.splits)
  with target_of_ten have "tg_Terminal t = ''agent-b''" by (simp add: terminal_of_def)
  with t relay_target_sound [OF t] show ?thesis by auto
qed

section \<open>Who is obeyed\<close>

definition event_from :: "relayEvent \<Rightarrow> int" where
  "event_from event = (case event of EventMessage m \<Rightarrow> ms_FromID m | EventCommand c \<Rightarrow> gc_FromID c | EventButton b \<Rightarrow> bp_FromID b
     | EventFile f \<Rightarrow> at_FromID f | EventOther \<Rightarrow> 0)"

lemma relay_say_world:
  "rl_state (snd (relay_say g thread t r)) = rl_state r \<and> rl_failure (snd (relay_say g thread t r)) = rl_failure r
   \<and> rl_world (snd (relay_say g thread t r)) = snd (rp_Send g (relay_text thread (redact_text (relayRedactor (rp_Config g)) t) 2) (rl_world r))"
  by (cases "rp_Send g (relay_text thread (redact_text (relayRedactor (rp_Config g)) t) 2) (rl_world r)")
     (auto simp: relay_say_def rl_call_def or_err_def split: sum.split)

text \<open>
  C12: An event of anyone but an operator changes nothing: not the state, not the store, not the host, not Telegram. The one
  exception are the commands help and status of an observer in General, which send one silent message there.
\<close>

theorem only_operators_obeyed:
  assumes "\<not> Operator (rp_Config g) (event_from event)"
  shows "rl_state (snd (Relay_Handle g event r)) = rl_state r \<and> rl_failure (snd (Relay_Handle g event r)) = rl_failure r
    \<and> (snd (Relay_Handle g event r) = r
       \<or> (\<exists>c t. event = EventCommand c \<and> gc_Role c = RoleObserver \<and> gc_Text c \<in> {''/help'', ''/status''}
            \<and> rl_world (snd (Relay_Handle g event r)) = snd (rp_Send g (relay_text 0 t 2) (rl_world r))))"
proof (cases event)
  case (EventCommand c)
  with assms show ?thesis
    using relay_say_world [of g 0]
    by (auto simp: event_from_def Relay_Handle_def relay_status_def split_beta)
qed (use assms in \<open>auto simp: event_from_def Relay_Handle_def\<close>)

theorem only_operators_obeyed_witness:
  "rl_state (snd (Relay_Handle relay_fakes (EventMessage \<lparr>ms_ThreadID = 100, ms_MessageID = 56, ms_FromID = 8, ms_Text = ''execute'', ms_ReplyTo = 0\<rparr>) fakeStart))
     = rl_state fakeStart"
  using only_operators_obeyed [of relay_fakes "EventMessage \<lparr>ms_ThreadID = 100, ms_MessageID = 56, ms_FromID = 8, ms_Text = ''execute'', ms_ReplyTo = 0\<rparr>" fakeStart]
  by (simp add: event_from_def Operator_def relay_fakes_def fakeConfig_def)

section \<open>Pressing twice\<close>

lemma relay_save_replies [simp]: "rl_state (snd (relay_save g r)) = rl_state r"
  by (auto simp: relay_save_def rl_call_def split_beta Let_def split: option.split)

lemma rl_call_state [simp]: "rl_state (snd (rl_call f r)) = rl_state r"
  by (simp add: rl_call_def split_beta)

lemma relay_target_state [simp]: "rl_state (snd (relay_target g thread answered explicit r)) = rl_state r"
proof (cases "topic_of r thread")
  case (Some topic)
  have now: "rl_state (snd (case rl_call (rp_Now g) s of (now, r2) \<Rightarrow> (f now :: (relayTarget \<times> WireTerminal) result, r2))) = rl_state s" for s f
    by (simp add: rl_call_def split_beta)
  show ?thesis
    unfolding relay_target_def Let_def Some option.case
    by (auto intro!: snd_or_fail [where P = "\<lambda>s. rl_state s = rl_state r"] simp: now split: list.split)
qed (simp add: relay_target_def)

lemma press_action_spent:
  "gm_get (rl_replies r) (bp_MessageID ev) = Some b \<Longrightarrow>
     gm_get (rl_replies (snd (press_action g ev t r))) (bp_MessageID ev) = Some (b\<lparr>tg_Actions := []\<rparr>)"
  unfolding press_action_def
  by (rule snd_and_then [where P = "\<lambda>s. gm_get (rl_replies s) (bp_MessageID ev) = Some (b\<lparr>tg_Actions := []\<rparr>)"])
     (auto intro!: snd_or_err [where P = "\<lambda>s. gm_get (rl_replies s) (bp_MessageID ev) = Some (b\<lparr>tg_Actions := []\<rparr>)"] simp: gm_get_adjust)


definition killPress :: ButtonPressed where
  "killPress = \<lparr>bp_CallbackID = ''cb'', bp_ThreadID = 100, bp_MessageID = 10, bp_FromID = 7, bp_Data = ''kill''\<rparr>"

lemma kill_pressed: "fst (relay_button relay_fakes killPress testRelay) = None"
  by code_simp


section \<open>Delivered twice\<close>

inductive later :: "'w RelayPorts \<Rightarrow> 'w Relay \<Rightarrow> 'w Relay \<Rightarrow> bool" for g r where
  later_now: "later g r r"
| later_event: "later g r s \<Longrightarrow> later g r (relay_event g event s)"
| later_tick: "later g r s \<Longrightarrow> later g r (snd (relay_tick g s))"
| later_world: "later g r s \<Longrightarrow> later g r (s\<lparr>rl_world := w\<rparr>)"

text \<open>A key noted at an instant that is less than two days ago by every reading of the clock.\<close>

locale seen_key =
  fixes g :: "'w RelayPorts" and key :: string and t :: time
  assumes recent: "time_Sub (fst (rp_Now g w)) t \<le> 48 * Hour"
begin

definition noted :: "'w Relay \<Rightarrow> bool" where
  "noted r \<longleftrightarrow> gm_ok (rs_Seen (rl_state r)) \<and> gm_get (rs_Seen (rl_state r)) key = Some t"

lemma noted_state: "rs_Seen (rl_state s) = rs_Seen (rl_state r) \<Longrightarrow> noted s = noted r"
  by (simp add: noted_def)

lemmas noted_chain = snd_or_fail [where P = noted] snd_if_ok [where P = noted]

lemma noted_save: "noted r \<Longrightarrow> noted (snd (relay_save g r))"
  by (simp add: noted_def)

lemma noted_call: "noted r \<Longrightarrow> noted (snd (rl_call f r))"
  by (simp add: noted_def)

lemma noted_put: "noted r \<Longrightarrow> noted (put_topic k p r)" "noted r \<Longrightarrow> noted (put_job i j r)"
  by (simp_all add: noted_def put_topic_def put_job_def)

lemma noted_ensure: "noted r \<Longrightarrow> noted (snd (ensureTopic g ws flr name r))"
  unfolding ensureTopic_def Let_def
  by (auto intro!: noted_chain noted_save noted_call noted_put split: option.split)

lemma noted_step: "noted r \<Longrightarrow> noted (snd (relay_step g i nm capability verb path body r))"
  unfolding relay_step_def Let_def
  by (auto intro!: noted_chain noted_save noted_call noted_put split: option.split)

lemma noted_canvas: "noted r \<Longrightarrow> noted (snd (canvas_before g i ws flr r))"
  unfolding canvas_before_def Let_def
  by (auto intro!: noted_chain noted_save noted_call noted_put split: option.split)

lemma noted_enter: "noted r \<Longrightarrow> noted (snd (enter_job g i plan r))"
  unfolding enter_job_def Let_def
  by (auto intro!: noted_chain noted_save noted_call noted_put split: option.split)

lemma noted_finish: "noted r \<Longrightarrow> noted (snd (finish_job g i r))"
  unfolding finish_job_def by (intro noted_save) (simp add: noted_def)

lemma noted_frame:
  "noted r \<Longrightarrow> noted (r\<lparr>rl_world := w\<rparr>)" "noted r \<Longrightarrow> noted (r\<lparr>rl_feeds := fs\<rparr>)" "noted r \<Longrightarrow> noted (r\<lparr>rl_statuses := ss\<rparr>)"
  "noted r \<Longrightarrow> noted (r\<lparr>rl_state := (rl_state r)\<lparr>rs_Replies := rs\<rparr>\<rparr>)"
  by (simp_all add: noted_def)

lemma noted_once:
  assumes "noted r" shows "noted (snd (once g k r))"
proof (cases "k = key")
  case False
  obtain now r1 where now: "rl_call (rp_Now g) r = (now, r1)" by (cases "rl_call (rp_Now g) r")
  let ?kept = "filter (\<lambda>p. \<not> time_Sub now (snd p) > 48 * Hour) (rs_Seen (rl_state r1))"
  have "rl_state r1 = rl_state r" and "time_Sub now t \<le> 48 * Hour"
    using now recent [of "rl_world r"] by (auto simp: rl_call_def split_beta)
  with assms have "noted (r1\<lparr>rl_state := (rl_state r1)\<lparr>rs_Seen := gm_put k now ?kept\<rparr>\<rparr>)"
    using False by (auto simp: noted_def gm_get_filter update_conv)
  from noted_save [OF this] assms now show ?thesis by (auto simp: once_def Let_def split_beta)
qed (use assms in \<open>simp add: once_def noted_def\<close>)

end

sublocale seen_key \<subseteq> seen: relay_inv g noted "\<lambda>_ _. True"
  by unfold_locales
     (rule TrueI | rule noted_save noted_ensure noted_put noted_step noted_enter noted_canvas noted_once noted_finish noted_frame, assumption)+

context seen_key
begin

lemma noted_later:
  assumes "later g r s" "noted r" shows "noted s"
  using assms by induction (blast intro: seen.event_J seen.tick_J noted_frame)+

end

definition event_key :: "relayEvent \<Rightarrow> string option" where
  "event_key event = (case event of EventMessage m \<Rightarrow> Some (message_key (ms_MessageID m)) | EventCommand c \<Rightarrow> Some (message_key (gc_MessageID c))
     | EventButton b \<Rightarrow> Some (''b:'' @ bp_CallbackID b) | EventFile f \<Rightarrow> Some (message_key (at_MessageID f)) | EventOther \<Rightarrow> None)"

lemma once_noted:
  assumes "once g key r = ((True, err), r1)" "gm_ok (rs_Seen (rl_state r))"
  shows "gm_ok (rs_Seen (rl_state r1)) \<and> gm_get (rs_Seen (rl_state r1)) key = Some (fst (rp_Now g (rl_world r)))"
proof -
  obtain now r2 where now: "rl_call (rp_Now g) r = (now, r2)" by (cases "rl_call (rp_Now g) r")
  let ?kept = "filter (\<lambda>p. \<not> time_Sub now (snd p) > 48 * Hour) (rs_Seen (rl_state r2))"
  have n: "now = fst (rp_Now g (rl_world r))" "rl_state r2 = rl_state r" using now by (auto simp: rl_call_def split_beta)
  have "r1 = snd (relay_save g (r2\<lparr>rl_state := (rl_state r2)\<lparr>rs_Seen := gm_put key now ?kept\<rparr>\<rparr>))"
    using assms(1) now by (auto simp: once_def Let_def split_beta split: if_splits)
  then show ?thesis using assms(2) n by (simp add: update_conv)
qed

lemma handle_seen:
  assumes "gm_get (rs_Seen (rl_state s)) key \<noteq> None" "event_key event = Some key" "Operator (rp_Config g) (event_from event)"
  shows "snd (fst (Relay_Handle g event s)) = None \<and> snd (Relay_Handle g event s) = s"
  using assms by (cases event) (auto simp: event_key_def event_from_def Relay_Handle_def handle_once_def once_def)


interpretation seen_fakes: seen_key relay_fakes "''m:55''" 0
  by unfold_locales (simp add: relay_fakes_def time_Sub_def minInt64_def maxInt64_def Hour_def)

lemma key_55: "message_key 55 = ''m:55''"
  by code_simp

definition focusText :: relayEvent where
  "focusText = EventMessage \<lparr>ms_ThreadID = 100, ms_MessageID = 55, ms_FromID = 7, ms_Text = ''/focus'', ms_ReplyTo = 10\<rparr>"


end
