(* ===== verification/Outbound_Runs.thy ===== *)
theory Outbound_Runs
  imports Outbound_Safety
begin

text \<open>
  All runs of the poster: its operations in any order, between them anything the other goroutines do to the world,
  calls of the inbound half, timers and the capture. Two invariants: a wait for free text always belongs to the
  waiting keyboard of its agent, and a final reaction is only ever put on a message that carries the first one.
\<close>

section \<open>Runs\<close>

definition is_react :: "Call \<Rightarrow> bool" where
  "is_react c \<longleftrightarrow> (case c of CallReact _ _ _ \<Rightarrow> True | _ \<Rightarrow> False)"

lemma is_react_simps [simp]:
  "is_react (CallReact th m e)" "\<not> is_react (CallEditButtons m bs)" "\<not> is_react (CallEditText m t bs)"
  "\<not> is_react (CallDirect op out)" "\<not> is_react (CallSend out)" "\<not> is_react (CallAnswer i t)"
  "\<not> is_react (CallKeys p ks)" "\<not> is_react (CallDocument doc)"
  by (simp_all add: is_react_def)

text \<open>
  \<open>others\<close>: other goroutines and the inbound half act, adding calls that are no reactions. \<open>typed\<close>: a text taken
  by an open wait is delivered, with the world moving in between; \<open>untyped\<close>: its prompt failed.
\<close>

inductive outbound_run :: "'w Machine \<Rightarrow> 'w logged Outbound \<Rightarrow> bool" for g where
  new: "outbound_run g (newOutbound chatID operators c (w, []))"
| others: "outbound_run g o' \<Longrightarrow> list_all (\<lambda>c. \<not> is_react c) cs \<Longrightarrow> outbound_run g (o'\<lparr>ob_world := (w, cs @ lg o')\<rparr>)"
| timers: "outbound_run g o' \<Longrightarrow> outbound_run g (o'\<lparr>ob_deb := d, ob_turnDeb := td, ob_capture := c\<rparr>)"
| pager: "outbound_run g o' \<Longrightarrow> outbound_run g (SetPagerReachable b o')"
| presence: "outbound_run g o' \<Longrightarrow> outbound_run g (Outbound_SetPresence o')"
| prompt: "outbound_run g o' \<Longrightarrow> outbound_run g (snd (PromptSent (logged g) key th m o'))"
| observe: "outbound_run g o' \<Longrightarrow> outbound_run g (Outbound_Observe (logged g) ev o')"
| forget: "outbound_run g o' \<Longrightarrow> outbound_run g (snd (Outbound_Forget (logged g) key o'))"
| fire: "outbound_run g o' \<Longrightarrow> outbound_run g (snd (Outbound_Fire (logged g) key o'))"
| catch_up: "outbound_run g o' \<Longrightarrow> outbound_run g (snd (CatchUp (logged g) o'))"
| end_turn: "outbound_run g o' \<Longrightarrow> outbound_run g (snd (EndTurn (logged g) key o'))"
| press: "outbound_run g o' \<Longrightarrow> outbound_run g (snd (Press (logged g) ev o'))"
| cancel: "outbound_run g o' \<Longrightarrow> outbound_run g (snd (CancelTyping (logged g) key o'))"
| untyped: "outbound_run g o' \<Longrightarrow> outbound_run g (snd (TakeTyping (logged g) key o'))"
| typed: "outbound_run g o' \<Longrightarrow> TakeTyping (logged g) key o' = (Some wt, o1) \<Longrightarrow> list_all (\<lambda>c. \<not> is_react c) cs
    \<Longrightarrow> outbound_run g (snd (TypingDone (logged g) key wt t (o1\<lparr>ob_world := (w, cs @ lg o1)\<rparr>)))"
| live: "outbound_run g o' \<Longrightarrow> outbound_run g (snd (Outbound_Live (logged g) key lines o'))"
| screen: "outbound_run g o' \<Longrightarrow> outbound_run g (snd (Outbound_Screen (logged g) key n o'))"
| screen_all: "outbound_run g o' \<Longrightarrow> outbound_run g (snd (ScreenAll (logged g) key o'))"

section \<open>Waits and keyboards\<close>

text \<open>Every open wait belongs to a waiting keyboard on the same message, and every keyboard offers an option.\<close>

definition keyboards_ok :: "(Key, keyboard) go_map \<Rightarrow> (Key, typingWait) go_map \<Rightarrow> bool" where
  "keyboards_ok kbs waits \<longleftrightarrow>
     (\<forall>key wt. gm_get waits key = Some wt \<longrightarrow>
        (\<exists>kb. gm_get kbs key = Some kb \<and> kb_waiting kb \<and> kb_messageID kb = tw_messageID wt))
     \<and> (\<forall>key kb. gm_get kbs key = Some kb \<longrightarrow> kb_choices kb \<noteq> [])"

abbreviation kb_ok :: "'w Outbound \<Rightarrow> bool" where
  "kb_ok o' \<equiv> keyboards_ok (ob_keyboards o') (ob_typing o')"

lemma koD:
  assumes "keyboards_ok kbs waits"
  shows "gm_get waits key = Some wt \<Longrightarrow> gm_get kbs key = Some kb \<Longrightarrow> kb_waiting kb \<and> kb_messageID kb = tw_messageID wt"
    and "gm_get waits key = Some wt \<Longrightarrow> gm_get kbs key \<noteq> None"
    and "gm_get kbs key = Some kb \<Longrightarrow> kb_choices kb \<noteq> []"
  using assms unfolding keyboards_ok_def by fastforce+

lemma ko_del: "keyboards_ok kbs waits \<Longrightarrow> keyboards_ok kbs (gm_del key waits)"
  by (auto simp: keyboards_ok_def)

lemma ko_drop: "keyboards_ok kbs waits \<Longrightarrow> gm_get waits key = None \<Longrightarrow> keyboards_ok (gm_del key kbs) waits"
  by (auto simp: keyboards_ok_def)

lemma ko_drop_idle:
  assumes "keyboards_ok kbs waits" "gm_get kbs key = Some kb" "\<not> kb_waiting kb"
  shows "keyboards_ok (gm_del key kbs) waits" "gm_get waits key = None"
proof -
  show "gm_get waits key = None" using koD(1) [OF assms(1) _ assms(2)] assms(3) by (cases "gm_get waits key") auto
  then show "keyboards_ok (gm_del key kbs) waits" using assms(1) by (intro ko_drop)
qed

lemma ko_new: "keyboards_ok kbs waits \<Longrightarrow> gm_get waits key = None \<Longrightarrow> kb_choices kb \<noteq> [] \<Longrightarrow> keyboards_ok (gm_put key kb kbs) waits"
  by (auto simp: keyboards_ok_def update_conv')

lemma ko_update:
  assumes "keyboards_ok kbs waits" "gm_get kbs key = Some kb" "kb_waiting kb' = kb_waiting kb"
    "kb_messageID kb' = kb_messageID kb" "kb_choices kb' \<noteq> []"
  shows "keyboards_ok (gm_put key kb' kbs) waits"
  unfolding keyboards_ok_def
proof (intro conjI allI impI)
  fix k wt assume "gm_get waits k = Some wt"
  then show "\<exists>kb. gm_get (gm_put key kb' kbs) k = Some kb \<and> kb_waiting kb \<and> kb_messageID kb = tw_messageID wt"
    using assms koD(1,2) [OF assms(1), of k wt] by (cases "k = key") (auto simp: update_conv')
next
  fix k kb'' assume "gm_get (gm_put key kb' kbs) k = Some kb''"
  then show "kb_choices kb'' \<noteq> []" using assms(5) koD(3) [OF assms(1), of k] by (cases "k = key") (auto simp: update_conv')
qed

lemma ko_wait:
  "keyboards_ok kbs waits \<Longrightarrow> kb_waiting kb \<Longrightarrow> kb_messageID kb = tw_messageID wt \<Longrightarrow> kb_choices kb \<noteq> []
   \<Longrightarrow> keyboards_ok (gm_put key kb kbs) (gm_put key wt waits)"
  by (auto simp: keyboards_ok_def update_conv')

lemma kb_frames [simp]:
  "ob_typing (snd (absorbEdit f o')) = ob_typing o'"
  "ob_typing (snd (answer g i t o')) = ob_typing o'"
  "ob_typing (snd (ob_call f' o')) = ob_typing o'"
  "ob_typing (ob_Schedule g key o') = ob_typing o'"
  "ob_keyboards (snd (ob_now g o')) = ob_keyboards o'" "ob_typing (snd (ob_now g o')) = ob_typing o'"
  "ob_keyboards (ob_ScheduleAfter g key d o') = ob_keyboards o'" "ob_typing (ob_ScheduleAfter g key d o') = ob_typing o'"
  "ob_keyboards (ob_Cancel key o') = ob_keyboards o'" "ob_typing (ob_Cancel key o') = ob_typing o'"
  "ob_keyboards (turn_Cancel key o') = ob_keyboards o'" "ob_typing (turn_Cancel key o') = ob_typing o'"
  "ob_keyboards (turn_Schedule g key o') = ob_keyboards o'" "ob_typing (turn_Schedule g key o') = ob_typing o'"
  "ob_typing (endTyping key o') = gm_del key (ob_typing o')"
  "ob_keyboards (snd (react g tn e o')) = ob_keyboards o'" "ob_typing (snd (react g tn e o')) = ob_typing o'"
  "ob_keyboards (snd (finishTurn g tn o')) = ob_keyboards o'" "ob_typing (snd (finishTurn g tn o')) = ob_typing o'"
  "ob_keyboards (snd (stale g ev toast o')) = ob_keyboards o'" "ob_typing (snd (stale g ev toast o')) = ob_typing o'"
  "ob_keyboards (observeTurn g ae o') = ob_keyboards o'" "ob_typing (observeTurn g ae o') = ob_typing o'"
  by (auto simp: absorbEdit_def answer_def ob_call_frame ob_Schedule_def ob_ScheduleAfter_def ob_now_def endTyping_def
      ob_Cancel_def turn_Cancel_def turn_Schedule_def react_def finishTurn_def stale_def and_then_def observeTurn_def
      turn_working_def Let_def split_beta split: option.splits prod.splits)

lemma kb_and_then:
  assumes "Q (snd x)" "\<And>s. Q s \<Longrightarrow> kb_ok (snd (k s))" "\<And>s. Q s \<Longrightarrow> kb_ok s"
  shows "kb_ok (snd (and_then x k))"
  using assms by (cases x; cases "fst x") (auto simp: and_then_def split: option.splits)

lemma kb_ok_no_wait: "kb_ok o' \<Longrightarrow> gm_get (ob_keyboards o') key = None \<Longrightarrow> gm_get (ob_typing o') key = None"
  using koD(2) by (cases "gm_get (ob_typing o') key") auto

lemma retire_kb:
  assumes "kb_ok o'"
  shows "kb_ok (snd (retire g key o'))" "gm_get (ob_typing (snd (retire g key o'))) key = None"
proof -
  show "kb_ok (snd (retire g key o'))"
  proof (cases "gm_get (ob_keyboards o') key")
    case (Some kb)
    then show ?thesis
      using assms ko_drop_idle [OF assms Some] ko_drop [OF ko_del [OF assms, of key], of key]
      by (auto simp: retire_def Let_def)
  qed (use assms in \<open>simp add: retire_def\<close>)
  then show "gm_get (ob_typing (snd (retire g key o'))) key = None" by (rule kb_ok_no_wait) (rule retire_gone)
qed

lemma page_frames [simp]:
  "ob_keyboards (snd (page_loop g out ops n m o')) = ob_keyboards o'"
  "ob_typing (snd (page_loop g out ops n m o')) = ob_typing o'"
  by (induction ops arbitrary: n m o') (auto simp: ob_call_def split: prod.splits sum.splits)

lemma page_frames' [simp]:
  "ob_keyboards (snd (page g a th m t d o')) = ob_keyboards o'"
  "ob_typing (snd (page g a th m t d o')) = ob_typing o'"
  using page_frames by (auto simp: page_def Let_def ob_call_frame split: prod.splits option.splits) (metis page_frames snd_conv)+

lemma sent_kb:
  assumes "kb_ok o'" "gm_get (ob_typing o') key = None"
  shows "kb_ok (snd (sent g key a entry p notify paged d i o'))"
proof -
  have "dl_Choices d \<noteq> []" if "choiceButtons d \<noteq> []" using that by (auto simp: choiceButtons_def)
  then show ?thesis
    using assms by (auto simp: sent_def Let_def split_beta new_keyboard_def intro!: ko_new)
qed

lemma send_post_kb:
  assumes "kb_ok o'" "gm_get (ob_typing o') key = None"
  shows "kb_ok (snd (send_post g key a entry p notify o'))"
proof -
  have "kb_ok (snd (sent g key a entry p notify paged d i (o'\<lparr>ob_world := w\<rparr>)))" for paged d i w
    using assms by (intro sent_kb) simp_all
  then show ?thesis
    using assms by (auto simp: send_post_def ob_call_def Let_def split: prod.splits sum.splits)
qed

lemma fire_send_kb: "kb_ok o' \<Longrightarrow> kb_ok (snd (fire_send g key a entry p notify force o'))"
  unfolding fire_send_def
  by (auto intro!: kb_and_then [where Q = "\<lambda>o'. kb_ok o' \<and> gm_get (ob_typing o') key = None"] send_post_kb simp: retire_kb)

lemma ReadScreen_frames [simp]:
  "ob_keyboards (snd (ob_ReadScreen g key s n o')) = ob_keyboards o'" "ob_typing (snd (ob_ReadScreen g key s n o')) = ob_typing o'"
  by (simp_all add: ob_ReadScreen_def ob_call_frame)

lemma ReadScreen_kb [dest!]:
  "ob_ReadScreen g key s n o' = (x, o1) \<Longrightarrow> ob_keyboards o1 = ob_keyboards o' \<and> ob_typing o1 = ob_typing o'"
  using ReadScreen_frames [of g key s n o'] by simp

lemma last_reply_kb [dest!]:
  "last_reply g a t o' = (x, o1) \<Longrightarrow> ob_keyboards o1 = ob_keyboards o' \<and> ob_typing o1 = ob_typing o'"
  by (auto simp: last_reply_def ob_call_def Let_def split: option.splits sum.splits prod.splits if_splits)

lemma fire_text_kb [dest!]:
  "fire_text g key a t n mode o' = (x, o1) \<Longrightarrow> ob_keyboards o1 = ob_keyboards o' \<and> ob_typing o1 = ob_typing o'"
  by (auto simp: fire_text_def Let_def split: if_splits prod.splits sum.splits)

lemma delayed_kb [dest!]:
  "delayedCapture g key a n d o' = (x, o1) \<Longrightarrow> ob_keyboards o1 = ob_keyboards o' \<and> ob_typing o1 = ob_typing o'"
  by (auto simp: delayedCapture_def Let_def split: if_splits prod.splits sum.splits option.splits)

lemma short_turn_kb [dest!]:
  "short_turn g a t o' = (x, o1) \<Longrightarrow> ob_keyboards o1 = ob_keyboards o' \<and> ob_typing o1 = ob_typing o'"
  by (auto simp: short_turn_def ob_now_def ob_call_def Let_def split: if_splits prod.splits option.splits)

lemma fire_ready_kb:
  assumes "kb_ok o'" shows "kb_ok (snd (fire_ready g key a t n entry notify force o'))"
proof -
  have s: "kb_ok (snd (fire_send g key a entry p notify force o2))"
    if "kb_ok o1" "ob_keyboards o2 = ob_keyboards o1" "ob_typing o2 = ob_typing o1" for p o1 o2
    using that by (intro fire_send_kb) simp
  have d: "kb_ok (snd (case delayedCapture g key a n delay o' of (None, o1) \<Rightarrow> (None, o1)
      | (Some chosen, o1) \<Rightarrow> fire_send g key a entry (p chosen) notify force o1))" for delay p
    using assms s [OF assms] by (cases "delayedCapture g key a n delay o'") (auto split: option.splits)
  have t: "kb_ok (snd (case fire_text g key a t n mode o1 of (None, o2) \<Rightarrow> (None, o2)
      | (Some p, o2) \<Rightarrow> fire_send g key a entry p notify force o2))" if "kb_ok o1" for mode o1
    using that s [OF that] by (cases "fire_text g key a t n mode o1") (auto split: option.splits)
  show ?thesis unfolding fire_ready_def Let_def using assms by (auto intro!: d t)
qed

lemma fire_post_kb: "kb_ok o' \<Longrightarrow> kb_ok (snd (fire_post g key a t force o'))"
  by (auto simp: fire_post_def fire_ready_kb split: prod.splits option.splits)

lemma refreshKeyboard_kb:
  assumes "kb_ok o'" shows "kb_ok (snd (refreshKeyboard g key m o'))"
proof -
  have "dl_Choices (ParseDialog t) \<noteq> []" if "dl_Multi (ParseDialog t)" for t
    using ParseDialog_cases [of t] that by (auto simp: zeroDialog_def dialog_ok_def minChoices_def)
  then show ?thesis
    using assms
    by (auto simp: refreshKeyboard_def Let_def split_beta split: option.splits sum.splits prod.splits intro!: ko_update)
qed

lemma fire_refresh_kb:
  assumes "kb_ok o'" shows "kb_ok (snd (fire_refresh g key a t force o'))"
proof -
  have "kb_ok (snd (case refreshKeyboard g key m o1 of ((redrawn, err), o1) \<Rightarrow>
         if redrawn \<or> err \<noteq> None then (err, o1) else fire_post g key a t force o1))" if "kb_ok o1" for m o1
    using refreshKeyboard_kb [OF that, of g key m] fire_post_kb by (auto simp: split_beta)
  then show ?thesis unfolding fire_refresh_def using assms fire_post_kb by (auto split: option.splits)
qed

lemma fire_kb:
  assumes "kb_ok o'" shows "kb_ok (snd (fire g key force o'))"
proof -
  have "kb_ok (snd (and_then (finishTurn g t (turn_Cancel key (o'\<lparr>ob_turns := gm_del key (ob_turns o')\<rparr>)))
      (\<lambda>o2. fire_refresh g key a (Some t) force o2)))" for t a
    by (rule kb_and_then [where Q = kb_ok]) (use assms in \<open>simp_all add: fire_refresh_kb\<close>)
  then show ?thesis unfolding fire_def using assms fire_refresh_kb by (auto split: option.splits)
qed

lemma catch_up_kb: "kb_ok o' \<Longrightarrow> kb_ok (snd (catch_up_loop g as o'))"
  by (induction g as o' rule: catch_up_loop.induct) (auto simp: Let_def intro!: kb_and_then [where Q = kb_ok] fire_kb)

lemma markTyping_kb:
  assumes "kb_ok o'" "gm_get (ob_typing o') key = None"
  shows "kb_ok (snd (markTyping g key wt t o'))"
  using assms ko_drop [OF assms] by (auto simp: markTyping_def Let_def split: option.splits)

lemma pressedText_kb:
  assumes "kb_ok o'" "gm_get (ob_keyboards o') key = Some kb" "kb_messageID kb = bp_MessageID ev"
  shows "kb_ok (snd (pressedText g key kb ev o'))"
proof -
  have a: "kb_ok (snd (and_then x k))" if "kb_ok (snd x)" "\<And>s. kb_ok s \<Longrightarrow> kb_ok (snd (k s))" for x and k :: "'a Outbound \<Rightarrow> _"
    using that by (rule kb_and_then [where Q = kb_ok]) simp_all
  have "kb_choices kb \<noteq> []" using koD(3) [OF assms(1,2)] .
  then show ?thesis
    using assms unfolding pressedText_def Let_def
    by (auto simp: split_beta ob_call_frame intro!: a ko_wait)
qed

lemma pressed_kb:
  assumes "kb_ok o'" "gm_get (ob_keyboards o') key = Some kb" "kb_messageID kb = bp_MessageID ev" "\<not> kb_waiting kb"
  shows "kb_ok (snd (pressed g key kb kind n ev o'))"
proof -
  have a: "kb_ok (snd (and_then x k))" if "kb_ok (snd x)" "\<And>s. kb_ok s \<Longrightarrow> kb_ok (snd (k s))" for x and k :: "'a Outbound \<Rightarrow> _"
    using that by (rule kb_and_then [where Q = kb_ok]) simp_all
  show ?thesis
    using assms ko_drop_idle(1) [OF assms(1,2,4)] pressedText_kb [OF assms(1-3)]
    unfolding pressed_def by (auto simp: press_done_def split: pressKind.splits intro!: a)
qed

lemma submitKeys_kb [dest!]:
  "ob_submitKeys g key kb o' = (x, o1) \<Longrightarrow> ob_keyboards o1 = ob_keyboards o' \<and> ob_typing o1 = ob_typing o'"
  by (auto simp: ob_submitKeys_def Let_def split: sum.splits prod.splits)

lemma dialogStillOpen_kb:
  "dialogStillOpen g key kb st o' = (x, o1) \<Longrightarrow> ob_keyboards o1 = ob_keyboards o' \<and> ob_typing o1 = ob_typing o'"
  by (auto simp: dialogStillOpen_def Let_def split: sum.splits prod.splits if_splits)

lemma retire_answer_kb: "kb_ok o' \<Longrightarrow> kb_ok (snd (and_then (retire g key o') (answer g i t)))"
  by (rule kb_and_then [where Q = kb_ok]) (simp_all add: retire_kb)

lemma press_keys_kb:
  assumes "kb_ok o'" "gm_get (ob_keyboards o') key = Some kb" "kb_messageID kb = bp_MessageID ev" "\<not> kb_waiting kb"
  shows "kb_ok (snd (press_keys g key kb kind n ev o'))"
proof -
  obtain keys o1 where k: "(case kind of pressText \<Rightarrow> ([Itoa (int n)], o') | pressSubmit \<Rightarrow> ob_submitKeys g key kb o'
      | _ \<Rightarrow> ([bp_Data ev], o')) = (keys, o1)" by fastforce
  have o1: "ob_keyboards o1 = ob_keyboards o'" "ob_typing o1 = ob_typing o'"
    using k by (auto split: pressKind.splits)
  obtain err o2 where c: "ob_call (mc_SendKeys g (PaneID key) keys) o1 = (err, o2)" by fastforce
  then have o2: "ob_keyboards o2 = ob_keyboards o'" "ob_typing o2 = ob_typing o'" using o1 by (auto simp: ob_call_def split: prod.splits)
  then have "kb_ok (snd (pressed g key kb kind n ev o2))" using assms by (intro pressed_kb) simp_all
  moreover have "kb_ok (snd (and_then (retire g key o2) (answer g i t)))" for i t using assms(1) o2 by (intro retire_answer_kb) simp
  ultimately show ?thesis unfolding press_keys_def Let_def k using c by (auto split: option.splits)
qed

lemma Press_kb:
  assumes "kb_ok o'" shows "kb_ok (snd (Press g ev o'))"
proof -
  have p: "kb_ok (snd (press_keys g key kb kind n ev o1))"
    if "gm_get (ob_keyboards o') key = Some kb" "kb_messageID kb = bp_MessageID ev" "offered kb kind n"
      "ob_keyboards o1 = ob_keyboards o'" "ob_typing o1 = ob_typing o'" for key kb kind n o1
    using assms that by (intro press_keys_kb) (auto simp: offered_def)
  have r: "kb_ok (snd (and_then (retire g key o1) (answer g i t)))"
    if "ob_keyboards o1 = ob_keyboards o'" "ob_typing o1 = ob_typing o'" for key o1 i t
    using assms that by (intro retire_answer_kb) simp
  show ?thesis
    using assms unfolding Press_def Let_def
    by (auto simp: p r split: option.splits prod.splits bool.splits dest!: dialogStillOpen_kb)
qed

lemma Observe_frames [simp]:
  "ob_keyboards (Outbound_Observe g ev o') = ob_keyboards o'" "ob_typing (Outbound_Observe g ev o') = ob_typing o'"
  by (auto simp: Outbound_Observe_def Let_def)

lemma other_kb:
  assumes "kb_ok o'"
  shows "kb_ok (snd (PromptSent g key th m o'))" "kb_ok (Outbound_Observe g ev o')" "kb_ok (snd (Outbound_Forget g key o'))"
    "kb_ok (snd (EndTurn g key o'))" "kb_ok (snd (CancelTyping g key o'))" "kb_ok (snd (TakeTyping g key o'))"
    "kb_ok (snd (Outbound_Live g key lines o'))" "kb_ok (snd (Outbound_Screen g key n o'))" "kb_ok (snd (ScreenAll g key o'))"
proof -
  show "kb_ok (snd (PromptSent g key th m o'))"
    using assms by (auto simp: PromptSent_def Let_def split_beta and_then_def split: option.splits)
  show "kb_ok (snd (Outbound_Forget g key o'))"
    unfolding Outbound_Forget_def Let_def by (rule retire_kb(1)) (simp add: ko_del assms)
  show "kb_ok (snd (CancelTyping g key o'))"
    using assms by (auto simp: CancelTyping_def ko_del split: option.splits intro!: markTyping_kb)
  show "kb_ok (snd (TakeTyping g key o'))"
    using assms by (auto simp: TakeTyping_def ko_del split_beta split: option.splits intro!: markTyping_kb)
  show "kb_ok (snd (Outbound_Screen g key n o'))"
    using assms by (auto simp: Outbound_Screen_def Let_def split_beta split: option.splits sum.splits prod.splits)
  show "kb_ok (snd (ScreenAll g key o'))"
    using assms by (auto simp: ScreenAll_def Let_def split_beta split: option.splits sum.splits prod.splits)
qed (use assms in \<open>auto simp: EndTurn_def Outbound_Live_def ob_call_def Let_def split: option.splits sum.splits prod.splits\<close>)

lemma now_kb [dest!]: "ob_now g o' = (x, o1) \<Longrightarrow> ob_keyboards o1 = ob_keyboards o' \<and> ob_typing o1 = ob_typing o'"
  using kb_frames(5,6) [of g o'] by simp

lemma typed_kb:
  assumes "kb_ok o'" "TakeTyping g key o' = (Some wt, o1)"
  shows "kb_ok (snd (TypingDone g key wt t (o1\<lparr>ob_world := w\<rparr>)))"
  using assms kb_frames(5,6) [of g o'] unfolding TypingDone_def
  by (intro markTyping_kb) (auto simp: TakeTyping_def ko_del split: option.splits prod.splits if_splits)

lemma outbound_run_kb: "outbound_run g o' \<Longrightarrow> kb_ok o'"
proof (induction rule: outbound_run.induct)
  case (new chatID operators c w)
  then show ?case by (simp add: newOutbound_def keyboards_ok_def)
next
  case (typed o' key wt o1 cs t)
  then show ?case by (intro typed_kb)
qed (simp_all add: SetPagerReachable_def Outbound_SetPresence_def other_kb Press_kb catch_up_kb CatchUp_def fire_kb Outbound_Fire_def)

section \<open>Reactions\<close>

text \<open>Reactions with \<open>e\<close> put on a message, and open turns that owe the message its final one.\<close>

definition reactions :: "string \<Rightarrow> int \<Rightarrow> int \<Rightarrow> Call list \<Rightarrow> nat" where
  "reactions e th m l = length (filter (\<lambda>c. c = CallReact th m e) l)"

definition owes :: "int \<Rightarrow> int \<Rightarrow> turn \<Rightarrow> bool" where
  "owes th m t \<longleftrightarrow> tn_reacted t \<and> tn_threadID t = th \<and> tn_messageID t = m"

definition owed :: "int \<Rightarrow> int \<Rightarrow> (Key, turn) go_map \<Rightarrow> nat" where
  "owed th m turns = length (filter (\<lambda>(k, t). owes th m t) turns)"

lemma owed_simps [simp]:
  "owed th m [] = 0" "owed th m ((k, t) # ts) = (if owes th m t then Suc (owed th m ts) else owed th m ts)"
  by (simp_all add: owed_def)

lemma owed_put: "owed th m (gm_put k t ts) \<le> owed th m ts + (if owes th m t then 1 else 0)"
  by (induction ts) auto

lemma owed_replace:
  "gm_get ts k = Some t \<Longrightarrow> (owes th m t' \<longrightarrow> owes th m t) \<Longrightarrow> owed th m (gm_put k t' ts) \<le> owed th m ts"
  by (induction ts) (auto split: if_splits)

lemma owed_del: "owed th m (gm_del k ts) \<le> owed th m ts"
  by (induction ts) (auto simp: gm_del_def)

lemma owed_del_Some: "gm_get ts k = Some t \<Longrightarrow> owed th m (gm_del k ts) + (if owes th m t then 1 else 0) \<le> owed th m ts"
proof (induction ts)
  case (Cons p ts)
  show ?case
  proof (cases "fst p = k")
    case True
    then show ?thesis using Cons owed_del [of th m k ts] by (cases p) (auto simp: gm_del_def)
  next
    case False
    then show ?thesis using Cons by (cases p) (auto simp: gm_del_def)
  qed
qed simp

text \<open>The final reactions paid and still owed never exceed the first ones.\<close>

definition balanced :: "Call list \<Rightarrow> (Key, turn) go_map \<Rightarrow> bool" where
  "balanced l turns \<longleftrightarrow> (\<forall>th m. reactions reactionDone th m l + owed th m turns \<le> reactions reactionTaken th m l)"

abbreviation paid :: "'w logged Outbound \<Rightarrow> bool" where
  "paid o' \<equiv> balanced (lg o') (ob_turns o')"

lemma reactions_Cons [simp]: "reactions e th m (c # l) = (if c = CallReact th m e then 1 else 0) + reactions e th m l"
  by (simp add: reactions_def)

lemma no_reacts: "adds (\<lambda>c. \<not> is_react c) l l' \<Longrightarrow> reactions e th m l' = reactions e th m l"
proof -
  assume "adds (\<lambda>c. \<not> is_react c) l l'"
  then obtain cs where cs: "l' = cs @ l" "list_all (\<lambda>c. \<not> is_react c) cs" by (auto simp: adds_def)
  then have "filter (\<lambda>c. c = CallReact th m e) cs = []" by (induction cs arbitrary: l') auto
  with cs(1) show ?thesis by (simp add: reactions_def)
qed

lemma reaction_symbols: "reactionDone \<noteq> reactionTaken"
  by (simp add: reactionDone_def reactionTaken_def)

lemma balanced_mono:
  assumes "balanced l turns" "adds (\<lambda>c. \<not> is_react c) l l'" "\<And>th m. owed th m turns' \<le> owed th m turns"
  shows "balanced l' turns'"
  using assms(1) assms(3) unfolding balanced_def no_reacts [OF assms(2)] by (meson add_le_cancel_left le_trans)

lemma balanced_taken:
  assumes "balanced l turns" shows "balanced (CallReact (tn_threadID t) (tn_messageID t) reactionTaken # l) (gm_put key t turns)"
  unfolding balanced_def
proof (intro allI)
  fix th m
  show "reactions reactionDone th m (CallReact (tn_threadID t) (tn_messageID t) reactionTaken # l) + owed th m (gm_put key t turns)
      \<le> reactions reactionTaken th m (CallReact (tn_threadID t) (tn_messageID t) reactionTaken # l)"
    using assms [unfolded balanced_def, rule_format, of th m] owed_put [of th m key t turns] reaction_symbols
    by (auto simp: owes_def split: if_splits)
qed

lemma balanced_done:
  assumes "balanced l turns" "gm_get turns key = Some t" "tn_reacted t"
  shows "balanced (CallReact (tn_threadID t) (tn_messageID t) reactionDone # l) (gm_del key turns)"
  unfolding balanced_def
proof (intro allI)
  fix th m
  show "reactions reactionDone th m (CallReact (tn_threadID t) (tn_messageID t) reactionDone # l) + owed th m (gm_del key turns)
      \<le> reactions reactionTaken th m (CallReact (tn_threadID t) (tn_messageID t) reactionDone # l)"
    using assms(1) [unfolded balanced_def, rule_format, of th m] owed_del_Some [OF assms(2), of th m] reaction_symbols assms(3)
    by (auto simp: owes_def split: if_splits)
qed

text \<open>What leaves the turns alone.\<close>

lemma turns_and_then: "ob_turns (snd x) = T \<Longrightarrow> (\<And>s. ob_turns s = T \<Longrightarrow> ob_turns (snd (k s)) = T) \<Longrightarrow> ob_turns (snd (and_then x k)) = T"
  by (cases x; cases "fst x") (auto simp: and_then_def split: option.splits)

lemma turns_frames [simp]:
  "ob_turns (snd (absorbEdit f o')) = ob_turns o'" "ob_turns (snd (answer g i t o')) = ob_turns o'"
  "ob_turns (snd (ob_call f' o')) = ob_turns o'" "ob_turns (snd (ob_now g o')) = ob_turns o'"
  "ob_turns (ob_Schedule g key o') = ob_turns o'" "ob_turns (ob_ScheduleAfter g key d o') = ob_turns o'"
  "ob_turns (ob_Cancel key o') = ob_turns o'" "ob_turns (turn_Cancel key o') = ob_turns o'"
  "ob_turns (turn_Schedule g key o') = ob_turns o'" "ob_turns (endTyping key o') = ob_turns o'"
  "ob_turns (snd (react g tn e o')) = ob_turns o'" "ob_turns (snd (ob_ReadScreen g key s n o')) = ob_turns o'"
  "ob_turns (snd (press_done g key o')) = ob_turns o'" "ob_turns (snd (finishTurn g tn o')) = ob_turns o'"
  by (simp_all add: absorbEdit_def answer_def ob_call_frame ob_now_def ob_Schedule_def ob_ScheduleAfter_def ob_Cancel_def
      turn_Cancel_def turn_Schedule_def endTyping_def react_def ob_ReadScreen_def press_done_def finishTurn_def split_beta)

lemma turns_ReadScreen [dest!]: "ob_ReadScreen g key s n o' = (x, o1) \<Longrightarrow> ob_turns o1 = ob_turns o'"
  using turns_frames(12) [of g key s n o'] by simp

lemma turns_last_reply [dest!]: "last_reply g a t o' = (x, o1) \<Longrightarrow> ob_turns o1 = ob_turns o'"
  by (auto simp: last_reply_def ob_call_def Let_def split: option.splits sum.splits prod.splits if_splits)

lemma turns_reads:
  "fire_text g key a t n mode o' = (x, o1) \<Longrightarrow> ob_turns o1 = ob_turns o'"
  "delayedCapture g key a n d o' = (y, o1) \<Longrightarrow> ob_turns o1 = ob_turns o'"
  "short_turn g a t o' = (z, o1) \<Longrightarrow> ob_turns o1 = ob_turns o'"
  "ob_submitKeys g key kb o' = (ks, o1) \<Longrightarrow> ob_turns o1 = ob_turns o'"
  "dialogStillOpen g key kb st o' = (b, o1) \<Longrightarrow> ob_turns o1 = ob_turns o'"
proof -
  show "fire_text g key a t n mode o' = (x, o1) \<Longrightarrow> ob_turns o1 = ob_turns o'"
    by (auto simp: fire_text_def Let_def split: if_splits prod.splits sum.splits)
  show "delayedCapture g key a n d o' = (y, o1) \<Longrightarrow> ob_turns o1 = ob_turns o'"
    by (auto simp: delayedCapture_def Let_def split: if_splits prod.splits sum.splits option.splits)
  show "short_turn g a t o' = (z, o1) \<Longrightarrow> ob_turns o1 = ob_turns o'"
    by (auto simp: short_turn_def ob_now_def ob_call_def Let_def split: if_splits prod.splits option.splits)
  show "ob_submitKeys g key kb o' = (ks, o1) \<Longrightarrow> ob_turns o1 = ob_turns o'"
    by (auto simp: ob_submitKeys_def Let_def split: sum.splits prod.splits)
  show "dialogStillOpen g key kb st o' = (b, o1) \<Longrightarrow> ob_turns o1 = ob_turns o'"
    by (auto simp: dialogStillOpen_def Let_def split: sum.splits prod.splits if_splits)
qed

lemma turns_posting [simp]:
  "ob_turns (snd (retire g key o')) = ob_turns o'"
  "ob_turns (snd (markTyping g key wt t o')) = ob_turns o'"
  "ob_turns (snd (stale g ev t o')) = ob_turns o'"
  "ob_turns (snd (page_loop g out ops i j o')) = ob_turns o'"
proof -
  show "ob_turns (snd (page_loop g out ops i j o')) = ob_turns o'"
    by (induction ops arbitrary: i j o') (auto simp: ob_call_def split: prod.splits sum.splits)
qed (auto simp: retire_def markTyping_def stale_def Let_def split: option.splits intro!: turns_and_then)

lemma turns_page [simp]: "ob_turns (snd (page g a th m t d o')) = ob_turns o'"
  using turns_posting(4) by (auto simp: page_def Let_def ob_call_frame split: prod.splits option.splits) (metis turns_posting(4) snd_conv)+

lemma turns_send [simp]: "ob_turns (snd (fire_send g key a entry p notify force o')) = ob_turns o'"
proof -
  have "ob_turns (snd (sent g key a entry p notify paged d i o1)) = ob_turns o1" for paged d i o1
    by (simp add: sent_def Let_def split_beta)
  then have "ob_turns (snd (send_post g key a entry p notify o1)) = ob_turns o1" for o1
    by (auto simp: send_post_def ob_call_def Let_def split: prod.splits sum.splits)
  then show ?thesis by (auto simp: fire_send_def intro!: turns_and_then)
qed

lemma turns_ready [simp]: "ob_turns (snd (fire_ready g key a t n entry notify force o')) = ob_turns o'"
proof -
  have d: "ob_turns (snd (case delayedCapture g key a n delay o' of (None, o1) \<Rightarrow> (None, o1)
      | (Some chosen, o1) \<Rightarrow> fire_send g key a entry (p chosen) notify force o1)) = ob_turns o'" for delay p
    using turns_reads(2) [of g key a n delay o']
    by (cases "delayedCapture g key a n delay o'") (auto split: option.splits)
  have t: "ob_turns (snd (case fire_text g key a t n mode o1 of (None, o2) \<Rightarrow> (None, o2)
      | (Some p, o2) \<Rightarrow> fire_send g key a entry p notify force o2)) = ob_turns o1" for mode o1
    using turns_reads(1) [of g key a t n mode o1]
    by (cases "fire_text g key a t n mode o1") (auto split: option.splits)
  show ?thesis unfolding fire_ready_def Let_def by (auto simp: d t)
qed

lemma turns_fire_post [simp]: "ob_turns (snd (fire_post g key a t force o')) = ob_turns o'"
  using turns_reads(3) [of g a t o']
  by (cases "short_turn g a t o'") (auto simp: fire_post_def split: option.splits)

lemma turns_refreshKeyboard [simp]: "ob_turns (snd (refreshKeyboard g key m o')) = ob_turns o'"
  by (auto simp: refreshKeyboard_def Let_def split_beta split: option.splits sum.splits prod.splits)

lemma turns_refresh [simp]: "ob_turns (snd (fire_refresh g key a t force o')) = ob_turns o'"
proof -
  have "ob_turns (snd (case refreshKeyboard g key m o1 of ((redrawn, err), o1) \<Rightarrow>
         if redrawn \<or> err \<noteq> None then (err, o1) else fire_post g key a t force o1)) = ob_turns o1" for m o1
    by (simp add: split_beta)
  then show ?thesis unfolding fire_refresh_def by (auto split: option.splits)
qed

text \<open>What adds no reaction.\<close>

lemma fire_post_no_react:
  assumes "adds (\<lambda>c. \<not> is_react c) l (lg o')"
  shows "adds (\<lambda>c. \<not> is_react c) l (lg (snd (fire_post (logged g) key a t force o')))"
proof -
  obtain short o1 where s: "short_turn (logged g) a t o' = (short, o1)" by fastforce
  then have "lg o1 = lg o'" using lg_short_turn [of g a t o'] by simp
  moreover have "adds (\<lambda>c. \<not> is_react c) l (lg (snd (fire_ready (logged g) key a t n entry notify force o1)))"
    if "lg o1 = lg o'" for n entry notify
    by (rule fire_ready_adds) (use assms that in simp_all)
  ultimately show ?thesis using assms by (auto simp: fire_post_def s split: option.splits)
qed

lemma fire_refresh_no_react:
  assumes "adds (\<lambda>c. \<not> is_react c) l (lg o')"
  shows "adds (\<lambda>c. \<not> is_react c) l (lg (snd (fire_refresh (logged g) key a t force o')))"
proof -
  have "adds (\<lambda>c. \<not> is_react c) l (lg (snd (case refreshKeyboard (logged g) key m o1 of ((redrawn, err), o1) \<Rightarrow>
         if redrawn \<or> err \<noteq> None then (err, o1) else fire_post (logged g) key a t force o1)))" if "lg o1 = lg o'" for m o1
  proof -
    have "adds (\<lambda>c. \<not> is_react c) l (lg (snd (refreshKeyboard (logged g) key m o1)))"
      by (rule refreshKeyboard_adds) (use assms that in simp_all)
    then show ?thesis by (auto simp: split_beta fire_post_no_react)
  qed
  then show ?thesis unfolding fire_refresh_def using assms fire_post_no_react by (auto split: option.splits)
qed

lemma paid_same:
  "paid o' \<Longrightarrow> ob_turns o1 = ob_turns o' \<Longrightarrow> adds (\<lambda>c. \<not> is_react c) (lg o') (lg o1) \<Longrightarrow> paid o1"
  by (rule balanced_mono) auto

lemma finishTurn_paid:
  assumes "paid o'" "gm_get (ob_turns o') key = Some t" "lg o1 = lg o'" "ob_turns o1 = gm_del key (ob_turns o')"
  shows "paid (snd (finishTurn (logged g) t o1))"
proof -
  have "balanced (lg o') (gm_del key (ob_turns o'))"
    by (rule balanced_mono [OF assms(1)]) (auto simp: owed_del)
  then show ?thesis
    using balanced_done [OF assms(1,2)] assms(3,4) by (auto simp: finishTurn_def react_def ob_call_frame split_beta)
qed

lemma fire_paid: "paid o' \<Longrightarrow> paid (snd (fire (logged g) key force o'))"
proof -
  assume p: "paid o'"
  have r: "paid (snd (fire_refresh (logged g) key a t force o1))" if "paid o1" for a t o1
    by (rule paid_same [OF that]) (simp_all add: fire_refresh_no_react)
  have "paid (snd (and_then (finishTurn (logged g) t (turn_Cancel key (o'\<lparr>ob_turns := gm_del key (ob_turns o')\<rparr>)))
      (\<lambda>o2. fire_refresh (logged g) key a (Some t) force o2)))" if "gm_get (ob_turns o') key = Some t" for t a
  proof -
    obtain err o2 where f: "finishTurn (logged g) t (turn_Cancel key (o'\<lparr>ob_turns := gm_del key (ob_turns o')\<rparr>)) = (err, o2)"
      by fastforce
    have "paid o2" using finishTurn_paid [OF p that, of "turn_Cancel key (o'\<lparr>ob_turns := gm_del key (ob_turns o')\<rparr>)" g] f
        turns_frames(14) [of "logged g" t "turn_Cancel key (o'\<lparr>ob_turns := gm_del key (ob_turns o')\<rparr>)"]
      by (simp add: turn_Cancel_def)
    then show ?thesis using r f by (cases err) auto
  qed
  then show ?thesis unfolding fire_def using p r by (auto split: option.splits)
qed

lemma catch_up_paid: "paid o' \<Longrightarrow> paid (snd (catch_up_loop (logged g) as o'))"
proof (induction as arbitrary: o')
  case (Cons a as)
  obtain err o1 where f: "fire (logged g) (ag_Key a) True o' = (err, o1)" by fastforce
  then have "paid o1" using fire_paid [OF Cons.prems, of g "ag_Key a" True] by simp
  then show ?case using Cons f by (cases err) (auto simp: Let_def)
qed simp

lemma balanced_put:
  assumes "balanced l turns" "\<And>th m. owes th m t \<Longrightarrow> \<exists>t'. gm_get turns key = Some t' \<and> owes th m t'"
  shows "balanced l (gm_put key t turns)"
proof (rule balanced_mono [OF assms(1)])
  fix th m
  show "owed th m (gm_put key t turns) \<le> owed th m turns"
  proof (cases "owes th m t")
    case True
    then show ?thesis using assms(2) owed_replace by fastforce
  next
    case False
    then show ?thesis using owed_put [of th m key t turns] by simp
  qed
qed simp

lemma PromptSent_paid:
  assumes "paid o'" shows "paid (snd (PromptSent (logged g) key th m o'))"
proof -
  let ?t = "zero_turn\<lparr>tn_threadID := th, tn_messageID := m\<rparr>"
  have react: "paid (snd (and_then (react (logged g) t reactionTaken o1)
      (\<lambda>o3. (None, o3\<lparr>ob_turns := gm_put key (t\<lparr>tn_reacted := True\<rparr>) (ob_turns o3)\<rparr>))))" if "paid o1" for t o1
  proof -
    obtain err o3 where r: "react (logged g) t reactionTaken o1 = (err, o3)" by fastforce
    then have o3: "lg o3 = CallReact (tn_threadID t) (tn_messageID t) reactionTaken # lg o1" "ob_turns o3 = ob_turns o1"
      by (auto simp: react_def ob_call_def noted_def Let_def split: prod.splits)
    have "balanced (lg o3) (ob_turns o1)"
      using that reaction_symbols unfolding o3 balanced_def by (auto intro: le_SucI)
    moreover have "balanced (lg o3) (gm_put key (t\<lparr>tn_reacted := True\<rparr>) (ob_turns o1))"
      using balanced_taken [OF that, of "t\<lparr>tn_reacted := True\<rparr>" key] o3 by simp
    ultimately show ?thesis using r o3 by (cases err) auto
  qed
  have "paid (snd (ob_now (logged g) o'))" using assms by simp
  then show ?thesis
    using assms react
    by (auto simp: PromptSent_def Let_def split_beta turn_Cancel_def zero_turn_def owes_def intro!: balanced_put)
qed

lemma turn_working_paid:
  assumes "paid o'" shows "paid (turn_working (logged g) key o')"
  using assms unfolding turn_working_def Let_def
  by (auto simp: split_beta owes_def zero_turn_def split: option.splits intro!: balanced_put)

lemma Observe_paid:
  assumes "paid o'" shows "paid (Outbound_Observe (logged g) ev o')"
proof -
  have del: "paid (turn_Cancel key (o'\<lparr>ob_turns := gm_del key (ob_turns o')\<rparr>))" for key
    using balanced_mono [OF assms, of "lg o'"] by (simp add: owed_del)
  have ended: "paid (o1\<lparr>ob_turns := gm_put key (t\<lparr>tn_ended := True\<rparr>) (ob_turns o1)\<rparr>)"
    if "paid o1" "gm_get (ob_turns o1) key = Some t" for key t o1
    by (rule balanced_mono [OF that(1)]) (use owed_replace [OF that(2)] in \<open>auto simp: owes_def\<close>)
  have "paid (observeTurn (logged g) ev o')"
    using assms del ended turn_working_paid [OF assms]
    by (auto simp: observeTurn_def Let_def turn_Cancel_def split: option.splits)
  then show ?thesis by (auto simp: Outbound_Observe_def Let_def)
qed

lemma typing_paid:
  assumes "paid o'"
  shows "paid (snd (CancelTyping (logged g) key o'))" "paid (snd (TakeTyping (logged g) key o'))"
    "paid (snd (TypingDone (logged g) key wt t o'))"
proof -
  have m: "paid (snd (markTyping (logged g) key wt t o1))" if "paid o1" for o1 wt t
    by (rule paid_same [OF that]) (auto intro!: adds_intros)
  show "paid (snd (TypingDone (logged g) key wt t o'))" unfolding TypingDone_def using assms by (rule m)
  have e: "paid (endTyping key o')" "paid (endTyping key (snd (ob_now (logged g) o')))" using assms by simp_all
  show "paid (snd (CancelTyping (logged g) key o'))"
    using assms m [OF e(1)] by (simp add: CancelTyping_def split: option.split)
  show "paid (snd (TakeTyping (logged g) key o'))"
    using assms m [OF e(2)] by (simp add: TakeTyping_def split_beta split: option.split)
qed

lemma EndTurn_paid:
  assumes "paid o'" shows "paid (snd (EndTurn (logged g) key o'))"
proof -
  have "paid (snd (finishTurn (logged g) t (o'\<lparr>ob_turns := gm_del key (ob_turns o')\<rparr>)))" if "gm_get (ob_turns o') key = Some t" for t
    by (rule finishTurn_paid [OF assms that]) simp_all
  then show ?thesis using assms by (auto simp: EndTurn_def split: option.splits)
qed

lemma turns_press:
  "ob_turns (snd (Press g ev o')) = ob_turns o'"
proof -
  have typing: "ob_turns (snd (pressedText g key kb ev o1)) = ob_turns o1" for key kb o1
    unfolding pressedText_def Let_def by (auto simp: split_beta intro!: turns_and_then)
  have after: "ob_turns (snd (pressed g key kb kind n ev o1)) = ob_turns o1" for key kb kind n o1
    by (auto simp: pressed_def typing split: pressKind.splits intro!: turns_and_then)
  have stop: "ob_turns (snd (and_then (retire g key o1) (answer g i t))) = ob_turns o1" for key o1 i t
    by (auto intro!: turns_and_then)
  have keys: "ob_turns (snd (press_keys g key kb kind n ev o1)) = ob_turns o1" for key kb kind n o1
  proof -
    obtain ks o2 where k: "(case kind of pressText \<Rightarrow> ([Itoa (int n)], o1) | pressSubmit \<Rightarrow> ob_submitKeys g key kb o1
        | _ \<Rightarrow> ([bp_Data ev], o1)) = (ks, o2)" by fastforce
    then have "ob_turns o2 = ob_turns o1" using turns_reads(4) [of g key kb o1 ks o2] by (cases kind) simp_all
    then show ?thesis
      unfolding press_keys_def Let_def k by (auto simp: after stop ob_call_def split: option.splits prod.splits)
  qed
  show ?thesis
    unfolding Press_def Let_def
    by (auto simp: keys stop split: option.splits prod.splits bool.splits dest!: turns_reads(5))
qed

lemma ScreenAll_frame:
  "adds (\<lambda>c. \<not> is_react c) (lg o') (lg (snd (ScreenAll (logged g) key o')))"
  "ob_turns (snd (ScreenAll (logged g) key o')) = ob_turns o'"
proof -
  have since: "snd (snd (snd (Since (logged g) key c (ob_world o')))) = lg o'" for c
    by (auto simp: Since_def cp_read_def silent_def Let_def split: sum.splits prod.splits)
  show "ob_turns (snd (ScreenAll (logged g) key o')) = ob_turns o'"
    by (auto simp: ScreenAll_def Let_def split_beta split: option.splits sum.splits prod.splits)
  show "adds (\<lambda>c. \<not> is_react c) (lg o') (lg (snd (ScreenAll (logged g) key o')))"
    by (auto simp: since ScreenAll_def Let_def split_beta ob_call_frame split: option.splits sum.splits prod.splits intro!: adds_Cons)
qed

lemma posting_paid:
  assumes "paid o'"
  shows "paid (snd (Outbound_Live (logged g) key lines o'))" "paid (snd (Outbound_Screen (logged g) key n o'))"
    "paid (snd (ScreenAll (logged g) key o'))" "paid (snd (Outbound_Forget (logged g) key o'))"
    "paid (snd (Press (logged g) ev o'))"
proof -
  have live: "adds (\<lambda>c. \<not> is_react c) (lg o') (lg (snd (Outbound_Live (logged g) key lines o')))"
    "ob_turns (snd (Outbound_Live (logged g) key lines o')) = ob_turns o'"
    by (auto simp: Outbound_Live_def ob_call_def noted_def Let_def split: option.splits sum.splits prod.splits intro!: adds_Cons)
  show "paid (snd (Outbound_Live (logged g) key lines o'))" by (rule paid_same [OF assms]) (simp_all add: live)
  have screen: "adds (\<lambda>c. \<not> is_react c) (lg o') (lg (snd (Outbound_Screen (logged g) key n o')))"
    "ob_turns (snd (Outbound_Screen (logged g) key n o')) = ob_turns o'"
    by (auto simp: Outbound_Screen_def ob_call_frame Let_def split_beta split: option.splits sum.splits prod.splits intro!: adds_Cons)
  show "paid (snd (Outbound_Screen (logged g) key n o'))" by (rule paid_same [OF assms]) (simp_all add: screen)
  have forget: "paid (snd (retire (logged g) key o1))" if "paid o1" for o1
    by (rule paid_same [OF that]) (auto intro!: adds_intros)
  have "balanced (lg o') (gm_del key (ob_turns o'))" by (rule balanced_mono [OF assms]) (simp_all add: owed_del)
  then show "paid (snd (Outbound_Forget (logged g) key o'))"
    unfolding Outbound_Forget_def Let_def by (intro forget) simp
  have n: "\<not> is_react c" if "ui_call c \<or> (\<exists>p ks. c = CallKeys p ks)" for c
    using that by (cases c) (simp_all add: ui_call_def is_react_def)
  have "adds (\<lambda>c. \<not> is_react c) (lg o') (lg (snd (Press (logged g) ev o')))"
    by (rule adds_mono [OF Press_calls_kinds n])
  then show "paid (snd (Press (logged g) ev o'))"
    by (rule paid_same [OF assms turns_press])
  show "paid (snd (ScreenAll (logged g) key o'))" by (rule paid_same [OF assms]) (simp_all add: ScreenAll_frame)
qed

lemma outbound_run_paid: "outbound_run g o' \<Longrightarrow> paid o'"
proof (induction rule: outbound_run.induct)
  case (new chatID operators c w)
  then show ?case by (simp add: newOutbound_def balanced_def reactions_def)
next
  case (others o' cs w)
  then show ?case by - (rule paid_same [of o'], simp_all add: adds_append)
next
  case (typed o' key wt o1 cs t)
  have o1: "paid o1" using typing_paid(2) [OF typed.IH, of g key] typed.hyps(2) by simp
  then have "paid (o1\<lparr>ob_world := (w, cs @ lg o1)\<rparr>)" for w
    using o1 typed.hyps(3) by - (rule paid_same [of o1], simp_all add: adds_append)
  then show ?case by (intro typing_paid(3)) simp
next
  case (catch_up o')
  then show ?case unfolding CatchUp_def by (intro catch_up_paid)
next
  case (fire o' key)
  then show ?case unfolding Outbound_Fire_def by (intro fire_paid)
next
  case (timers o' d td c)
  then show ?case by (simp add: SetPagerReachable_def Outbound_SetPresence_def)
next
  case (pager o' b)
  then show ?case by (simp add: SetPagerReachable_def Outbound_SetPresence_def)
next
  case (presence o')
  then show ?case by (simp add: SetPagerReachable_def Outbound_SetPresence_def)
next
  case (prompt o' key th m)
  then show ?case by (intro PromptSent_paid)
next
  case (observe o' ev)
  then show ?case by (intro Observe_paid)
next
  case (forget o' key)
  then show ?case by (intro posting_paid(4))
next
  case (end_turn o' key)
  then show ?case by (intro EndTurn_paid)
next
  case (press o' ev)
  then show ?case by (intro posting_paid(5))
next
  case (cancel o' key)
  then show ?case by (intro typing_paid(1))
next
  case (untyped o' key)
  then show ?case by (intro typing_paid(2))
next
  case (live o' key lines)
  then show ?case by (intro posting_paid(1))
next
  case (screen o' key n)
  then show ?case by (intro posting_paid(2))
next
  case (screen_all o' key)
  then show ?case by (intro posting_paid(3))
qed

section \<open>Properties\<close>

text \<open>
  an open wait for free text always belongs to its dialog. In every run of the poster, with any other activity
  in between, the agent of an open wait has a keyboard that is waiting, on the very message the wait names - so the
  text an operator sends next answers the question it was asked for - and every kept keyboard offers an option.
\<close>

theorem typing_waits_belong:
  assumes "outbound_run g o'" and "gm_get (ob_typing o') key = Some wt"
  shows "\<exists>kb. gm_get (ob_keyboards o') key = Some kb \<and> kb_waiting kb \<and> kb_messageID kb = tw_messageID wt \<and> kb_choices kb \<noteq> []"
proof -
  note ok = outbound_run_kb [OF assms(1)]
  obtain kb where "gm_get (ob_keyboards o') key = Some kb" using koD(2) [OF ok assms(2)] by blast
  then show ?thesis using koD(1) [OF ok assms(2)] koD(3) [OF ok] by blast
qed

text \<open>The question with a free-text entry, and the press of its pencil button.\<close>

definition asked_text :: "Desk logged Outbound" where
  "asked_text =
     snd (Outbound_Fire (logged desk_machine) desk_key
       (newOutbound 5 [9] NewCapture
         (desk\<lparr>dk_screen := ''Which?'' @ [NL] @ cursorRune @ '' 1. Red'' @ [NL] @ ''  2. Blue'' @ [NL] @ ''  3. Type something''\<rparr>, [])))"

definition press_pencil :: ButtonPressed where
  "press_pencil = \<lparr>bp_CallbackID = ''cb'', bp_ThreadID = 101, bp_MessageID = 7, bp_FromID = 9, bp_Data = ''t:3''\<rparr>"

theorem typing_waits_belong_witness:
  "let o' = snd (Press (logged desk_machine) press_pencil asked_text)
   in map_option tw_messageID (gm_get (ob_typing o') desk_key) = Some 7
      \<and> (\<exists>kb. gm_get (ob_keyboards o') desk_key = Some kb \<and> kb_waiting kb \<and> kb_messageID kb = 7)"
proof -
  let ?o = "snd (Press (logged desk_machine) press_pencil asked_text)"
  have "outbound_run desk_machine ?o"
    unfolding asked_text_def by (intro outbound_run.press outbound_run.fire outbound_run.new)
  moreover have w: "map_option tw_messageID (gm_get (ob_typing ?o) desk_key) = Some 7" by code_simp
  then obtain wt where "gm_get (ob_typing ?o) desk_key = Some wt" "tw_messageID wt = 7" by (auto simp: map_option_eq_Some)
  ultimately show ?thesis using typing_waits_belong [of desk_machine ?o desk_key wt] w by (auto simp: Let_def)
qed

text \<open>
  C26: a final reaction is paid at most once for each first one. In every run of the poster, whatever Telegram
  answers, the log of its calls has at most as many final reactions on a message as first ones, the open turns
  counted: no message is marked as done that was not taken, none is marked twice for one prompt.
\<close>

theorem reactions_balanced:
  assumes "outbound_run g o'"
  shows "reactions reactionDone th m (lg o')
         + length (filter (\<lambda>(k, t). tn_reacted t \<and> tn_threadID t = th \<and> tn_messageID t = m) (ob_turns o'))
       \<le> reactions reactionTaken th m (lg o')"
  using outbound_run_paid [OF assms] unfolding balanced_def owed_def owes_def by simp

text \<open>A prompt is taken and the agent is done.\<close>

definition prompted :: "Desk logged Outbound" where
  "prompted =
     snd (Outbound_Fire (logged desk_machine) desk_key
       (snd (PromptSent (logged desk_machine) desk_key 101 5
         (newOutbound 5 [9] NewCapture
           (desk\<lparr>dk_agents := [(desk_key, desk_agent StatusDone)], dk_options := DefaultOptions\<lparr>op_values := [(OptionPostsReactions, ''true'')]\<rparr>\<rparr>, [])))))"

theorem reactions_balanced_witness:
  "reactions reactionDone 101 5 (lg prompted) \<le> reactions reactionTaken 101 5 (lg prompted)
   \<and> reactions reactionDone 101 5 (lg prompted) = 1"
proof -
  have "outbound_run desk_machine prompted"
    unfolding prompted_def by (intro outbound_run.prompt outbound_run.fire outbound_run.new)
  note reactions_balanced [OF this, of 101 5]
  moreover have "reactions reactionDone 101 5 (lg prompted) = 1" by code_simp
  ultimately show ?thesis by linarith
qed

end
