(* ===== verification/Panel_Safety.thy ===== *)
theory Panel_Safety
  imports Panel Outbound_Safety
begin

text \<open>
  What the options panel guarantees: every button it draws is understood when it is pressed, a press is answered
  exactly once, and it changes at most the one option its button names.
\<close>

section \<open>Callback data is read back\<close>

named_theorems panel_data \<open>the strings callback data is made of\<close>

declare panelPrefix_def [panel_data] dataHome_def [panel_data] dataClose_def [panel_data] dataNoop_def [panel_data]
  dataGroup_def [panel_data] dataReset_def [panel_data] dataToggle_def [panel_data] dataText_def [panel_data]
  dataGrid_def [panel_data] dataPick_def [panel_data]

definition key_plain :: "string \<Rightarrow> bool" where
  "key_plain key \<longleftrightarrow> key \<noteq> [] \<and> CHR '':'' \<notin> set key \<and> length key \<le> 30"

lemma keys_plain: "spec \<in> set OptionSpecs \<Longrightarrow> key_plain (os_Key spec)"
proof -
  have "list_all key_plain (map os_Key OptionSpecs)" by code_simp
  then show "spec \<in> set OptionSpecs \<Longrightarrow> key_plain (os_Key spec)" by (simp add: list_all_iff)
qed

lemma Itoa_digits: "Itoa (int n) \<noteq> [] \<and> CHR '':'' \<notin> set (Itoa (int n))"
  using nat_digits_ok [of n] by (auto simp: Itoa_def is_digit_def list_all_iff)

lemma nat_digits_length: "n < 10 ^ Suc k \<Longrightarrow> length (nat_digits n) \<le> Suc k"
proof (induction k arbitrary: n)
  case 0
  then show ?case by (subst nat_digits.simps) simp
next
  case (Suc k)
  have "length (nat_digits (n div 10)) \<le> Suc k" by (rule Suc.IH) (use Suc.prems in \<open>simp add: less_mult_imp_div_less\<close>)
  then show ?case by (subst nat_digits.simps) simp
qed

lemma Itoa_length: "in_int64 (int n) \<Longrightarrow> length (Itoa (int n)) \<le> 19"
  using nat_digits_length [of n 18] by (simp add: Itoa_def in_int64_def maxInt64_def)

lemma panel_num_Itoa: "in_int64 (int n) \<Longrightarrow> panel_num (Itoa (int n)) = Some (int n)"
  by (simp add: panel_num_def Atoi_Itoa)

lemma parse_plain:
  "parsePanelData dataHome = Some (panel_action (CHR ''h''))"
  "parsePanelData dataClose = Some (panel_action (CHR ''x''))"
  "parsePanelData dataNoop = Some (panel_action (CHR ''n''))"
  by (simp_all add: panel_data parsePanelData_def HasPrefix_def TrimPrefix_def)

lemma parse_number:
  assumes "in_int64 (int n)"
  shows "parsePanelData (dataGroup n) = Some ((panel_action (CHR ''g''))\<lparr>pa_group := int n\<rparr>)"
    and "parsePanelData (dataReset n) = Some ((panel_action (CHR ''r''))\<lparr>pa_group := int n\<rparr>)"
  using assms Itoa_digits [of n]
  by (simp_all add: panel_data parsePanelData_def HasPrefix_def TrimPrefix_def Split_single panel_num_Itoa)

lemma parse_key:
  assumes "key_plain key"
  shows "parsePanelData (dataToggle key) = Some ((panel_action (CHR ''t''))\<lparr>pa_key := key\<rparr>)"
    and "parsePanelData (dataText key) = Some ((panel_action (CHR ''e''))\<lparr>pa_key := key\<rparr>)"
  using assms
  by (simp_all add: panel_data parsePanelData_def HasPrefix_def TrimPrefix_def Split_single key_plain_def)

lemma parse_indexed:
  assumes "key_plain key" "in_int64 (int n)"
  shows "parsePanelData (dataGrid key n) = Some ((panel_action (CHR ''c''))\<lparr>pa_key := key, pa_page := int n\<rparr>)"
    and "parsePanelData (dataPick key n) = Some ((panel_action (CHR ''v''))\<lparr>pa_key := key, pa_index := int n\<rparr>)"
  using assms Itoa_digits [of n]
  by (simp_all add: panel_data parsePanelData_def HasPrefix_def TrimPrefix_def Split_append_sep Split_single key_plain_def
      panel_num_Itoa)

text \<open>Telegram takes at most 64 bytes of callback data.\<close>

lemma data_short:
  assumes "in_int64 (int n)" "key_plain key"
  shows "length (dataGroup n) \<le> 64" "length (dataReset n) \<le> 64" "length (dataToggle key) \<le> 64" "length (dataText key) \<le> 64"
    "length (dataGrid key n) \<le> 64" "length (dataPick key n) \<le> 64"
    "length dataHome \<le> 64" "length dataClose \<le> 64" "length dataNoop \<le> 64"
  using Itoa_length [OF assms(1)] assms(2) by (simp_all add: panel_data key_plain_def)

section \<open>Every drawn button is served\<close>

text \<open>What a press of the panel can act on; \<open>choices\<close> are the lists offered by name.\<close>

definition action_served :: "(string \<Rightarrow> string list) \<Rightarrow> panelAction \<Rightarrow> bool" where
  "action_served choices a \<longleftrightarrow>
     pa_kind a \<in> {CHR ''h'', CHR ''x'', CHR ''n''}
     \<or> pa_kind a \<in> {CHR ''g'', CHR ''r''} \<and> groupAt (pa_group a) \<noteq> None
     \<or> (\<exists>spec. LookupOption (pa_key a) = Some spec
          \<and> (pa_kind a = CHR ''t'' \<and> os_Kind spec = KindBool
             \<or> pa_kind a = CHR ''e''
             \<or> pa_kind a = CHR ''c'' \<and> os_Kind spec = KindChoice
             \<or> pa_kind a = CHR ''v'' \<and> os_Kind spec = KindChoice \<and> pa_index a < int (length (choices (os_Choices spec)))))"

definition live_data :: "(string \<Rightarrow> string list) \<Rightarrow> string \<Rightarrow> bool" where
  "live_data choices data \<longleftrightarrow>
     length data \<le> 64 \<and> (\<exists>a. parsePanelData data = Some a \<and> action_served choices a)"

lemma pa_simps [simp]: "pa_kind (panel_action k) = k" "pa_key (panel_action k) = []" "pa_group (panel_action k) = 0"
  "pa_page (panel_action k) = 0" "pa_index (panel_action k) = 0"
  by (simp_all add: panel_action_def)

lemma live_plain [simp]: "live_data choices dataHome" "live_data choices dataClose" "live_data choices dataNoop"
proof -
  have "in_int64 (int 0)" "key_plain ''k''" by (simp_all add: in_int64_def minInt64_def maxInt64_def key_plain_def)
  from data_short [OF this] show "live_data choices dataHome" "live_data choices dataClose" "live_data choices dataNoop"
    by (simp_all add: live_data_def parse_plain action_served_def)
qed

lemma group_index_from_less: "group_index_from i grps name \<le> (if grps = [] then 0 else i + length grps - 1)"
  by (induction i grps name rule: group_index_from.induct) (auto split: if_splits)

lemma OptionGroups_length: "length OptionGroups = 7"
  by (simp add: OptionGroups_def)

lemma groupIndex_less: "groupIndex name < 7"
  using group_index_from_less [of 0 OptionGroups name] OptionGroups_length
  by (cases "OptionGroups = []") (simp_all add: groupIndex_def)

lemma small_int64: "n \<le> 7 \<Longrightarrow> in_int64 (int n)"
  by (simp add: in_int64_def minInt64_def maxInt64_def)

lemma live_group:
  assumes "n < 7" shows "live_data choices (dataGroup n)" "live_data choices (dataReset n)"
proof -
  have n: "in_int64 (int n)" "key_plain ''k''" "groupAt (int n) \<noteq> None"
    using assms by (simp_all add: small_int64 key_plain_def groupAt_def OptionGroups_length)
  show "live_data choices (dataGroup n)" "live_data choices (dataReset n)"
    using data_short [OF n(1,2)] n(3) by (simp_all add: live_data_def parse_number [OF n(1)] action_served_def)
qed

lemma live_option:
  assumes "spec \<in> set OptionSpecs"
  shows "live_data choices (bt_Data (option_button spec value))"
proof -
  have k: "key_plain (os_Key spec)" "in_int64 (int 0)" using keys_plain [OF assms] by (simp_all add: in_int64_def minInt64_def maxInt64_def)
  show ?thesis using data_short [OF k(2,1)] assms
    by (cases "os_Kind spec") (simp_all add: live_data_def option_button_def button_def parse_key [OF k(1)]
        parse_indexed [OF k, simplified] action_served_def)
qed

lemma live_choice:
  assumes "spec \<in> set OptionSpecs" "os_Kind spec = KindChoice" "in_int64 (int n)"
  shows "live_data choices (dataGrid (os_Key spec) n)"
    and "n < length (choices (os_Choices spec)) \<Longrightarrow> live_data choices (dataPick (os_Key spec) n)"
proof -
  have k: "key_plain (os_Key spec)" by (rule keys_plain [OF assms(1)])
  show "live_data choices (dataGrid (os_Key spec) n)"
    "n < length (choices (os_Choices spec)) \<Longrightarrow> live_data choices (dataPick (os_Key spec) n)"
    using data_short [OF assms(3) k] assms(1,2)
    by (simp_all add: live_data_def parse_indexed [OF k assms(3)] action_served_def)
qed

lemma live_back: "live_data choices (bt_Data (back_button spec))"
  by (simp add: back_button_def button_def live_group groupIndex_less)

lemma live_home: "b \<in> set (vw_buttons renderHome) \<Longrightarrow> live_data choices (bt_Data b)"
  by (auto simp: renderHome_def button_def in_set_enumerate_eq OptionGroups_length live_group)

lemma live_view_group:
  assumes "b \<in> set (vw_buttons (renderGroup gi opts))" shows "live_data choices (bt_Data b)"
proof (cases "groupAt gi")
  case None
  then show ?thesis using assms live_home by (simp add: renderGroup_def)
next
  case (Some grp)
  then have gi: "nat gi < 7" by (auto simp: groupAt_def OptionGroups_length split: if_splits)
  have specs: "spec \<in> set (OptionsInGroup (gp_Name grp)) \<Longrightarrow> spec \<in> set OptionSpecs" for spec
    by (simp add: OptionsInGroup_def)
  show ?thesis using assms Some gi
    by (auto simp: renderGroup_def Let_def button_def live_group dest: specs intro: live_option)
qed

text \<open>The two kinds of grid.\<close>

lemma pages_bound: "0 < n \<Longrightarrow> (n + 56 - 1) div 56 \<le> (n::nat)"
  by (cases n) auto

lemma live_icon_grid:
  assumes spec: "spec \<in> set OptionSpecs" "os_Kind spec = KindChoice"
    and len: "in_int64 (int (length pack))" and pack: "pack = choices (os_Choices spec)"
    and b: "b \<in> set (vw_buttons (renderIconGrid spec pg opts pack))"
  shows "live_data choices (bt_Data b)"
proof -
  have small: "in_int64 (int n)" if "n \<le> length pack" for n
    using that len by (simp add: in_int64_def minInt64_def)
  show ?thesis
  proof (cases "pack = []")
    case True
    then show ?thesis using b by (simp add: renderIconGrid_def Let_def live_back)
  next
    case False
    define pages where "pages = (length pack + 56 - 1) div 56"
    define q where "q = (if pg \<ge> pages then pages - 1 else pg)"
    have pages: "pages \<le> length pack" "0 < pages" using False pages_bound [of "length pack"]
      by (auto simp: pages_def Suc_le_eq div_greater_zero_iff)
    then have q: "q < pages" by (auto simp: q_def)
    have "vw_buttons (renderIconGrid spec pg opts pack) =
        icon_buttons spec (Options_String opts (os_Key spec)) (q * 56) (take 56 (drop (q * 56) pack))
        @ (if pages > 1 then nav_buttons spec q pages else []) @ [back_button spec]"
      using False by (simp add: renderIconGrid_def Let_def iconGridCols_def iconGridRows_def pages_def q_def)
    then consider "b \<in> set (icon_buttons spec (Options_String opts (os_Key spec)) (q * 56) (take 56 (drop (q * 56) pack)))"
      | "b \<in> set (nav_buttons spec q pages)" | "b = back_button spec"
      using b by (auto split: if_splits)
    then show ?thesis
    proof cases
      case 1
      then obtain i where i: "bt_Data b = dataPick (os_Key spec) i" "q * 56 \<le> i" "i < q * 56 + length (take 56 (drop (q * 56) pack))"
        by (auto simp: icon_buttons_def in_set_enumerate_eq)
      then have "i < length pack" by auto
      with i(1) show ?thesis using live_choice [OF spec small [of i]] pack by simp
    next
      case 2
      then show ?thesis using q pages live_choice(1) [OF spec small]
        by (auto simp: nav_buttons_def Let_def)
    qed (simp add: live_back)
  qed
qed

lemma live_grid:
  assumes spec: "spec \<in> set OptionSpecs" "os_Kind spec = KindChoice"
    and len: "in_int64 (int (length (choices (os_Choices spec))))"
    and b: "b \<in> set (vw_buttons (renderGrid spec pg opts (choices (os_Choices spec))))"
  shows "live_data choices (bt_Data b)"
proof (cases "os_Choices spec = ChoiceSourceIcons")
  case True
  then show ?thesis using live_icon_grid [OF spec, of "choices (os_Choices spec)" choices b pg opts] len b by (simp add: renderGrid_def)
next
  case False
  have small: "in_int64 (int n)" if "n < length (choices (os_Choices spec))" for n
    using that len by (simp add: in_int64_def minInt64_def)
  show ?thesis using False b live_choice(2) [OF spec small]
    by (auto simp: renderGrid_def Let_def in_set_enumerate_eq live_back)
qed

section \<open>What a press does\<close>

text \<open>The calls after the answer: the panel is redrawn in place, or sent anew into General.\<close>

definition redraws :: "ButtonPressed \<Rightarrow> Call \<Rightarrow> bool" where
  "redraws ev c \<longleftrightarrow> (\<exists>t bs. c = CallEditText (bp_MessageID ev) t bs) \<or> (\<exists>out. c = CallSend out \<and> og_ThreadID out = 0)"

text \<open>The calls before the answer: the one change the button stands for, judged by the options at the press.\<close>

definition changes :: "'w Machine \<Rightarrow> 'w \<Rightarrow> panelAction option \<Rightarrow> Call \<Rightarrow> bool" where
  "changes g w act c \<longleftrightarrow>
     (\<exists>a. act = Some a
        \<and> (pa_kind a = CHR ''r'' \<and> (\<exists>grp. groupAt (pa_group a) = Some grp \<and> c = CallResetOptions (gp_Name grp))
           \<or> (\<exists>spec. LookupOption (pa_key a) = Some spec
                \<and> (pa_kind a = CHR ''t'' \<and> os_Kind spec = KindBool
                     \<and> c = CallSetOption (pa_key a) (if Options_Bool (mc_options g w) (pa_key a) then ''false'' else ''true'')
                   \<or> pa_kind a = CHR ''v'' \<and> os_Kind spec = KindChoice
                     \<and> pa_index a < int (length (mc_Choices g w (os_Choices spec)))
                     \<and> c = CallSetOption (pa_key a) (mc_Choices g w (os_Choices spec) ! nat (pa_index a))
                     \<and> taken_by (pa_key a) (mc_options g w) (mc_Choices g w (os_Choices spec) ! nat (pa_index a)) = None))))"

abbreviation pn_log :: "'w logged Panel \<Rightarrow> Call list" where
  "pn_log p \<equiv> snd (pn_world p)"

abbreviation pn_inner :: "'w logged Panel \<Rightarrow> 'w" where
  "pn_inner p \<equiv> fst (pn_world p)"

lemma pn_answer_log [simp]: "pn_log (pn_answer (logged g) ev toast p) = CallAnswer (bp_CallbackID ev) toast # pn_log p"
  by (simp add: pn_answer_def pn_call_def split_beta)

lemma pn_edit_log: "adds (redraws ev) (pn_log p) (pn_log (snd (pn_edit (logged g) (bp_MessageID ev) t bs p)))"
  by (auto simp: pn_edit_def pn_call_def split_beta redraws_def text_message_def intro!: adds_Cons
      split: option.splits sum.splits)

lemma pn_show_log: "adds (redraws ev) (pn_log p) (pn_log (snd (pn_show (logged g) (bp_MessageID ev) v p)))"
  using pn_edit_log [of ev p g "vw_text v" "vw_buttons v"]
  by (cases "pn_edit (logged g) (bp_MessageID ev) (vw_text v) (vw_buttons v) p")
    (auto simp: pn_show_def and_then_def split: option.splits)

text \<open>The shape of the log: redraws after one answer after the change.\<close>

definition press_shape :: "'w Machine \<Rightarrow> 'w \<Rightarrow> ButtonPressed \<Rightarrow> Call list \<Rightarrow> Call list \<Rightarrow> (string \<Rightarrow> bool) \<Rightarrow> bool" where
  "press_shape g w ev l l' P \<longleftrightarrow>
     (\<exists>after before toast. l' = after @ CallAnswer (bp_CallbackID ev) toast # before @ l \<and> P toast
        \<and> list_all (redraws ev) after \<and> length before \<le> 1
        \<and> list_all (changes g w (parsePanelData (bp_Data ev))) before)"

lemma press_shapeI:
  assumes "adds (redraws ev) (CallAnswer (bp_CallbackID ev) toast # before @ l) l'" "P toast"
    "length before \<le> 1" "list_all (changes g w (parsePanelData (bp_Data ev))) before"
  shows "press_shape g w ev l l' P"
  using assms unfolding press_shape_def adds_def by blast

lemma shape_answer:
  "P toast \<Longrightarrow> press_shape g w ev (pn_log p) (CallAnswer (bp_CallbackID ev) toast # pn_log p) P"
  by (rule press_shapeI [where before = "[]"]) simp_all

lemma shape_show:
  assumes "P toast"
  shows "press_shape g w ev (pn_log p) (pn_log (snd (pn_show (logged g) (bp_MessageID ev) v (pn_answer (logged g) ev toast p)))) P"
  by (rule press_shapeI [where before = "[]" and toast = toast])
    (use pn_show_log [of ev "pn_answer (logged g) ev toast p" g v] assms in simp_all)

lemma shape_show_changed:
  assumes "changes g w (parsePanelData (bp_Data ev)) c" "P toast" "pn_log p1 = c # pn_log p"
  shows "press_shape g w ev (pn_log p) (pn_log (snd (pn_show (logged g) (bp_MessageID ev) v (pn_answer (logged g) ev toast p1)))) P"
  by (rule press_shapeI [where before = "[c]" and toast = toast])
    (use pn_show_log [of ev "pn_answer (logged g) ev toast p1" g v] assms in simp_all)

lemma pn_reject_log [simp]: "snd (pn_reject g ev toast p) = pn_answer g ev toast p"
  by (simp add: pn_reject_def)

lemma pn_call_log [simp]:
  "pn_log (snd (pn_call (noted c f) p)) = c # pn_log p" "pn_inner (snd (pn_call (noted c f) p)) = snd (f (pn_inner p))"
  "fst (pn_call (noted c f) p) = fst (f (pn_inner p))"
  by (simp_all add: pn_call_def split_beta)

lemma warn_text [simp]: "warn g e \<noteq> panelToastUnknown"
  by (simp add: warn_def warningSign_def panelToastUnknown_def)

lemma other_toasts [simp]: "panelToastSaved \<noteq> panelToastUnknown" "panelToastDefaults \<noteq> panelToastUnknown"
  "panelToastUsedBy st \<noteq> panelToastUnknown" "panelToastNotEdit \<noteq> panelToastUnknown" "[] \<noteq> panelToastUnknown"
  by (simp_all add: panelToastSaved_def panelToastDefaults_def panelToastUsedBy_def panelToastNotEdit_def panelToastUnknown_def)

text \<open>What the answer says when the press could be served.\<close>

definition toast_ok :: "bool \<Rightarrow> string \<Rightarrow> bool" where
  "toast_ok served toast \<longleftrightarrow> (served \<longrightarrow> toast \<noteq> panelToastUnknown)"

lemma toast_ok_simps [simp]: "toast_ok False toast" "toast \<noteq> panelToastUnknown \<Longrightarrow> toast_ok s toast"
  by (simp_all add: toast_ok_def)

lemma press_reset_shape:
  assumes a: "parsePanelData (bp_Data ev) = Some a" "pa_kind a = CHR ''r''"
  shows "press_shape g w ev (pn_log p) (pn_log (snd (press_reset (logged g) ev (pa_group a) p)))
           (toast_ok (groupAt (pa_group a) \<noteq> None))"
proof (cases "groupAt (pa_group a)")
  case None
  then show ?thesis by (simp add: press_reset_def shape_answer)
next
  case (Some grp)
  have "changes g w (parsePanelData (bp_Data ev)) (CallResetOptions (gp_Name grp))" using a Some by (simp add: changes_def)
  then show ?thesis using Some
    by (auto simp: press_reset_def Let_def split_beta split: sum.split intro!: shape_show_changed)
qed

lemma press_toggle_shape:
  assumes a: "parsePanelData (bp_Data ev) = Some a" "pa_kind a = CHR ''t''"
  shows "press_shape g (pn_inner p) ev (pn_log p) (pn_log (snd (press_toggle (logged g) ev (pa_key a) p)))
           (toast_ok (\<exists>spec. LookupOption (pa_key a) = Some spec \<and> os_Kind spec = KindBool))"
proof (cases "\<exists>spec. LookupOption (pa_key a) = Some spec \<and> os_Kind spec = KindBool")
  case False
  then show ?thesis by (auto simp: press_toggle_def shape_answer split: option.split)
next
  case True
  then obtain spec where spec: "LookupOption (pa_key a) = Some spec" "os_Kind spec = KindBool" by blast
  let ?v = "if Options_Bool (mc_options g (pn_inner p)) (pa_key a) then ''false'' else ''true''"
  have "changes g (pn_inner p) (parsePanelData (bp_Data ev)) (CallSetOption (pa_key a) ?v)" using a spec by (simp add: changes_def)
  then show ?thesis using spec
    by (auto simp: press_toggle_def Let_def split_beta split: option.split intro!: shape_show_changed)
qed

lemma press_grid_shape:
  "press_shape g w ev (pn_log p) (pn_log (snd (press_grid (logged g) ev key pg p)))
     (toast_ok (\<exists>spec. LookupOption key = Some spec \<and> os_Kind spec = KindChoice))"
  by (auto simp: press_grid_def Let_def shape_answer split: option.split intro!: shape_show)

lemma press_pick_shape:
  assumes a: "parsePanelData (bp_Data ev) = Some a" "pa_kind a = CHR ''v''"
  shows "press_shape g (pn_inner p) ev (pn_log p) (pn_log (snd (press_pick (logged g) ev (pa_key a) (pa_index a) p)))
           (toast_ok (\<exists>spec. LookupOption (pa_key a) = Some spec \<and> os_Kind spec = KindChoice
                        \<and> pa_index a < int (length (mc_Choices g (pn_inner p) (os_Choices spec)))))"
proof (cases "\<exists>spec. LookupOption (pa_key a) = Some spec \<and> os_Kind spec = KindChoice
                \<and> pa_index a < int (length (mc_Choices g (pn_inner p) (os_Choices spec)))")
  case False
  then show ?thesis by (auto simp: press_pick_def Let_def shape_answer split: option.split)
next
  case True
  then obtain spec where spec: "LookupOption (pa_key a) = Some spec" "os_Kind spec = KindChoice"
      "pa_index a < int (length (mc_Choices g (pn_inner p) (os_Choices spec)))" by blast
  let ?v = "mc_Choices g (pn_inner p) (os_Choices spec) ! nat (pa_index a)"
  show ?thesis
  proof (cases "taken_by (pa_key a) (mc_options g (pn_inner p)) ?v")
    case (Some other)
    then show ?thesis using spec by (simp add: press_pick_def Let_def shape_show)
  next
    case None
    then have c: "changes g (pn_inner p) (parsePanelData (bp_Data ev)) (CallSetOption (pa_key a) ?v)"
      using a spec by (simp add: changes_def)
    show ?thesis
    proof (cases "fst (mc_SetOption g (pa_key a) ?v (pn_inner p))")
      case (Some e)
      then show ?thesis using spec None
        by (auto simp: press_pick_def Let_def pn_call_def noted_def split_beta split: option.split
            intro!: shape_show_changed [OF c])
    next
      case n: None
      then show ?thesis using spec None
        by (auto simp: press_pick_def Let_def pn_call_def noted_def split_beta split: option.split
            intro!: shape_show_changed [OF c])
    qed
  qed
qed

lemma press_close_shape:
  "press_shape g w ev (pn_log p) (pn_log (snd (press_close (logged g) ev p))) (toast_ok True)"
proof -
  let ?q = "pn_answer (logged g) ev [] p"
  let ?r = "if pn_lastID ?q = bp_MessageID ev then ?q\<lparr>pn_lastID := 0\<rparr> else ?q"
  have "adds (redraws ev) (CallAnswer (bp_CallbackID ev) [] # pn_log p) (pn_log (snd (press_close (logged g) ev p)))"
    using pn_edit_log [of ev ?r g "renderSummary (pn_options (logged g) ?r)" "[]"]
    by (simp add: press_close_def Let_def split: if_splits)
  then show ?thesis by (intro press_shapeI [where before = "[]" and toast = "[]"]) simp_all
qed

lemma press_group_shape:
  "press_shape g w ev (pn_log p) (pn_log (snd (press_group (logged g) ev gi p))) (toast_ok (groupAt gi \<noteq> None))"
  by (auto simp: press_group_def Let_def shape_answer split: option.split intro!: shape_show)

lemma shape_mono:
  assumes "press_shape g w ev l l' P" "\<And>t. P t \<Longrightarrow> Q t" shows "press_shape g w ev l l' Q"
  using assms unfolding press_shape_def by blast

lemma Panel_Press_shape:
  "press_shape g (pn_inner p) ev (pn_log p) (pn_log (snd (Panel_Press (logged g) ev p)))
     (toast_ok (\<exists>a. parsePanelData (bp_Data ev) = Some a \<and> action_served (mc_Choices g (pn_inner p)) a))"
proof (cases "parsePanelData (bp_Data ev)")
  case None
  then show ?thesis by (simp add: Panel_Press_def shape_answer)
next
  case (Some a)
  let ?served = "\<exists>a. parsePanelData (bp_Data ev) = Some a \<and> action_served (mc_Choices g (pn_inner p)) a"
  show ?thesis
    by (simp add: Panel_Press_def Some shape_answer shape_show;
        auto simp: Some action_served_def toast_ok_def shape_answer
          intro!: shape_show shape_mono [OF press_close_shape] shape_mono [OF press_group_shape]
            shape_mono [OF press_reset_shape [OF Some]] shape_mono [OF press_toggle_shape [OF Some]]
            shape_mono [OF press_grid_shape] shape_mono [OF press_pick_shape [OF Some]])
qed

text \<open>
  every press of the panel is answered exactly once, and before that at most one thing changed: the reset of
  the group the button names, the flip of its switch as it stands, or the choice it names out of the list on offer,
  which for an icon no other status uses. After the answer the panel is redrawn in place or sent anew into General.
  Only a press whose data names nothing to act on is told that the button is unknown.
\<close>

theorem panel_press_effect:
  "\<exists>after before toast.
     pn_log (snd (Panel_Press (logged g) ev p)) = after @ CallAnswer (bp_CallbackID ev) toast # before @ pn_log p
     \<and> list_all (redraws ev) after \<and> length before \<le> 1
     \<and> list_all (changes g (pn_inner p) (parsePanelData (bp_Data ev))) before
     \<and> toast_ok (\<exists>a. parsePanelData (bp_Data ev) = Some a \<and> action_served (mc_Choices g (pn_inner p)) a) toast"
  using Panel_Press_shape [of g p ev] unfolding press_shape_def by blast

text \<open>The views the panel shows while the lists on offer are \<open>choices\<close>.\<close>

definition drawn :: "(string \<Rightarrow> string list) \<Rightarrow> view \<Rightarrow> bool" where
  "drawn choices v \<longleftrightarrow>
     v = renderHome \<or> (\<exists>gi opts. v = renderGroup gi opts)
     \<or> (\<exists>spec pg opts. spec \<in> set OptionSpecs \<and> os_Kind spec = KindChoice
          \<and> v = renderGrid spec pg opts (choices (os_Choices spec)))"

lemma drawn_live:
  assumes "\<And>name. in_int64 (int (length (choices name)))" "drawn choices v" "b \<in> set (vw_buttons v)"
  shows "live_data choices (bt_Data b)"
  using assms(2,3) live_home live_view_group live_grid [where choices = choices] assms(1) unfolding drawn_def by blast

text \<open>
  C25: no view has a dead button: whatever the values in force, the page and the lists on offer, the data of every
  button of a drawn view fits into the 64 bytes Telegram takes and is decoded to an action that names an existing
  group, an option of the right kind, and for a choice an entry of the list.
\<close>

theorem panel_buttons_live:
  assumes "\<And>name. in_int64 (int (length (choices name)))" and "drawn choices v" and "b \<in> set (vw_buttons v)"
  shows "length (bt_Data b) \<le> 64 \<and> (\<exists>a. parsePanelData (bt_Data b) = Some a \<and> action_served choices a)"
  using drawn_live [OF assms] by (simp add: live_data_def)

text \<open>A grid with one list of 60 icons: the last button of its second page is read back.\<close>

definition sample_choices :: "string \<Rightarrow> string list" where
  "sample_choices name = replicate 60 ''x''"

lemma panel_buttons_live_witness:
  "let b = vw_buttons (renderGrid (OptionSpecs ! 18) 1 DefaultOptions (sample_choices ChoiceSourceIcons)) ! 3
   in bt_Data b = ''o:v:icons.working:59'' \<and> length (bt_Data b) \<le> 64
      \<and> (\<exists>a. parsePanelData (bt_Data b) = Some a \<and> action_served sample_choices a)"
proof -
  let ?spec = "OptionSpecs ! 18"
  let ?v = "renderGrid ?spec 1 DefaultOptions (sample_choices ChoiceSourceIcons)"
  have spec: "os_Kind ?spec = KindChoice" "os_Choices ?spec = ChoiceSourceIcons" "18 < length OptionSpecs" by code_simp+
  have b: "bt_Data (vw_buttons ?v ! 3) = ''o:v:icons.working:59''" "3 < length (vw_buttons ?v)" by code_simp+
  have v: "drawn sample_choices ?v" using spec unfolding drawn_def by (metis nth_mem)
  have "length (bt_Data (vw_buttons ?v ! 3)) \<le> 64
      \<and> (\<exists>a. parsePanelData (bt_Data (vw_buttons ?v ! 3)) = Some a \<and> action_served sample_choices a)"
    by (rule panel_buttons_live [OF _ v nth_mem [OF b(2)]])
      (simp add: sample_choices_def in_int64_def minInt64_def maxInt64_def)
  with b(1) show ?thesis by (simp add: Let_def)
qed

end
