(* ===== verification/Inbound_Safety.thy ===== *)
theory Inbound_Safety
  imports Inbound Panel_Safety Outbound_Safety
begin

text \<open>
  Which calls the receiving half makes: what a message in a topic, a pressed button, a file, a command in General and
  the result of background work can reach. The calls are those on the machine \<open>logged g\<close>.
\<close>

abbreviation lgi :: "'w logged Inbound \<Rightarrow> Call list" where
  "lgi i \<equiv> lg (in_out i)"

abbreviation inner :: "'w logged Inbound \<Rightarrow> 'w" where
  "inner i \<equiv> fst (in_world i)"

section \<open>The calls of the building blocks\<close>

lemma in_frames [simp]:
  "fst (in_ob f i) = fst (f (in_out i))" "in_out (snd (in_ob f i)) = snd (f (in_out i))"
  "in_cfg (snd (in_ob f i)) = in_cfg i" "in_closing (snd (in_ob f i)) = in_closing i"
  "in_pending (snd (in_ob f i)) = in_pending i" "in_tasks (snd (in_ob f i)) = in_tasks i"
  "in_strangers (snd (in_ob f i)) = in_strangers i" "in_albums (snd (in_ob f i)) = in_albums i"
  "in_published (snd (in_ob f i)) = in_published i"
  by (simp_all add: in_ob_def split_beta)

lemma in_ob_adds [adds_intros]:
  "(\<And>o'. adds P l (lg o') \<Longrightarrow> adds P l (lg (snd (f o')))) \<Longrightarrow> adds P l (lgi i) \<Longrightarrow> adds P l (lgi (snd (in_ob f i)))"
  by simp

lemma in_call_adds [adds_intros]:
  "P c \<Longrightarrow> adds P l (lgi i) \<Longrightarrow> adds P l (lgi (snd (in_call (noted c f) i)))"
  by (simp add: in_call_def lg_call adds_Cons)

lemma in_silent [simp]: "lgi (snd (in_call (silent f) i)) = lgi i" "lgi (snd (in_now (logged g) i)) = lgi i"
  by (simp_all add: in_call_def in_now_def lg_call)

lemma in_schedule_log [simp]: "lgi (in_Schedule (logged g) key i) = lgi i" "lgi (in_ScheduleAfter (logged g) key d i) = lgi i"
  by (simp_all add: in_Schedule_def in_ScheduleAfter_def split_beta Let_def)

lemma lgi_and_then [adds_intros]:
  assumes "adds P l (lgi (snd x))" and "\<And>s. adds P l (lgi s) \<Longrightarrow> adds P l (lgi (snd (k s)))"
  shows "adds P l (lgi (snd (and_then x k)))"
proof (cases x)
  case (Pair err s)
  then show ?thesis using assms by (cases err) auto
qed

lemma in_send_adds [adds_intros]:
  "P (CallSend out) \<Longrightarrow> adds P l (lgi i) \<Longrightarrow> adds P l (lgi (snd (in_send (logged g) out i)))"
  by (simp add: in_send_def split_beta in_call_adds)

lemma reply_adds [adds_intros]:
  "P (CallSend ((text_message thread t)\<lparr>og_ReplyTo := m\<rparr>)) \<Longrightarrow> adds P l (lgi i) \<Longrightarrow> adds P l (lgi (snd (reply (logged g) thread m t i)))"
  by (simp add: reply_def in_send_adds)

text \<open>A failed call is reported by a plain message into the thread.\<close>

definition plain_send :: "int \<Rightarrow> Call \<Rightarrow> bool" where
  "plain_send thread c \<longleftrightarrow> (\<exists>out. c = CallSend out \<and> og_ThreadID out = thread \<and> \<not> og_Notify out)"

lemma plain_sends [simp]:
  "plain_send thread (CallSend out) \<longleftrightarrow> og_ThreadID out = thread \<and> \<not> og_Notify out"
  by (simp add: plain_send_def)

lemma text_message_simps [simp]: "og_ThreadID (text_message thread t) = thread" "og_Notify (text_message thread t) = False"
  "og_Buttons (text_message thread t) = []" "og_ReplyTo (text_message thread t) = 0"
  by (simp_all add: text_message_def)

lemma failed_adds [adds_intros]:
  "(\<And>t m. P (CallSend ((text_message (ms_ThreadID msg) t)\<lparr>og_ReplyTo := m\<rparr>))) \<Longrightarrow> adds P l (lgi i)
   \<Longrightarrow> adds P l (lgi (snd (failed (logged g) msg e i)))"
  by (simp add: failed_def reply_adds)

text \<open>The two ways the code branches on the result of a call.\<close>

lemma in_call_option [adds_intros]:
  assumes "P c" "adds P l (lgi i)"
    and "\<And>i1. adds P l (lgi i1) \<Longrightarrow> adds P l (lgi (snd (no i1)))" "\<And>e i1. adds P l (lgi i1) \<Longrightarrow> adds P l (lgi (snd (yes e i1)))"
  shows "adds P l (lgi (snd (case in_call (noted c f) i of (x, i1) \<Rightarrow> (case x of None \<Rightarrow> no i1 | Some e \<Rightarrow> yes e i1))))"
  using in_call_adds [OF assms(1,2), of f] assms(3,4) by (simp add: split_beta split: option.split)

lemma in_call_sum [adds_intros]:
  assumes "P c" "adds P l (lgi i)"
    and "\<And>e i1. adds P l (lgi i1) \<Longrightarrow> adds P l (lgi (snd (bad e i1)))" "\<And>x i1. adds P l (lgi i1) \<Longrightarrow> adds P l (lgi (snd (good x i1)))"
  shows "adds P l (lgi (snd (case in_call (noted c f) i of (x, i1) \<Rightarrow> (case x of Inl e \<Rightarrow> bad e i1 | Inr y \<Rightarrow> good y i1))))"
  using in_call_adds [OF assms(1,2), of f] assms(3,4) by (simp add: split_beta split: sum.split)

lemma in_silent_sum [adds_intros]:
  assumes "adds P l (lgi i)"
    and "\<And>e i1. adds P l (lgi i1) \<Longrightarrow> adds P l (lgi (snd (bad e i1)))" "\<And>x i1. adds P l (lgi i1) \<Longrightarrow> adds P l (lgi (snd (good x i1)))"
  shows "adds P l (lgi (snd (case in_call (silent f) i of (x, i1) \<Rightarrow> (case x of Inl e \<Rightarrow> bad e i1 | Inr y \<Rightarrow> good y i1))))"
  using assms by (simp add: split_beta split: sum.split)

lemma in_ob_option [adds_intros]:
  assumes "adds P l (lg (snd (f (in_out i))))"
    and "\<And>i1. adds P l (lgi i1) \<Longrightarrow> adds P l (lgi (snd (no i1)))" "\<And>e i1. adds P l (lgi i1) \<Longrightarrow> adds P l (lgi (snd (yes e i1)))"
  shows "adds P l (lgi (snd (case in_ob f i of (x, i1) \<Rightarrow> (case x of None \<Rightarrow> no i1 | Some e \<Rightarrow> yes e i1))))"
  using assms by (simp add: split_beta split: option.split)

lemma herdrCall_adds [adds_intros]:
  assumes "P c" "\<And>t m. P (CallSend ((text_message (ms_ThreadID msg) t)\<lparr>og_ReplyTo := m\<rparr>))" "adds P l (lgi i)"
  shows "adds P l (lgi (snd (herdrCall (logged g) msg (noted c f) i)))"
  unfolding herdrCall_def by (intro adds_intros) (auto intro: adds_intros assms)

lemma in_edit_adds [adds_intros]:
  "P c \<Longrightarrow> adds P l (lgi i) \<Longrightarrow> adds P l (lgi (snd (in_edit (noted c f) i)))"
  by (simp add: in_edit_def absorbEdit_adds)

lemma in_answer_adds [adds_intros]:
  "P (CallAnswer (bp_CallbackID ev) t) \<Longrightarrow> adds P l (lgi i) \<Longrightarrow> adds P l (lgi (snd (in_answer (logged g) ev t i)))"
  by (simp add: in_answer_def answer_adds)

lemma TakeTyping_adds [adds_intros]:
  assumes "\<And>m bs. P (CallEditButtons m bs)" "adds P l (lg o')"
  shows "adds P l (lg (snd (TakeTyping (logged g) key o')))"
  using assms by (auto simp: TakeTyping_def split_beta Let_def intro!: adds_intros split: option.split)

lemma TypingDone_adds [adds_intros]:
  assumes "\<And>m bs. P (CallEditButtons m bs)" "adds P l (lg o')"
  shows "adds P l (lg (snd (TypingDone (logged g) key wt t o')))"
  using assms by (simp add: TypingDone_def markTyping_adds)

lemma CancelTyping_adds [adds_intros]:
  assumes "\<And>m bs. P (CallEditButtons m bs)" "adds P l (lg o')"
  shows "adds P l (lg (snd (CancelTyping (logged g) key o')))"
  using assms by (auto simp: CancelTyping_def intro!: adds_intros split: option.split)

lemma PromptSent_adds [adds_intros]:
  assumes "\<And>t m e. P (CallReact t m e)" "adds P l (lg o')"
  shows "adds P l (lg (snd (PromptSent (logged g) key thread m o')))"
  using assms by (auto simp: PromptSent_def Let_def split_beta intro!: adds_intros)

lemma Screen_adds [adds_intros]:
  assumes "\<And>entry t. ob_entry g' o' key = Some entry \<Longrightarrow> P (CallSend ((text_message (te_ThreadID entry) t)\<lparr>og_Code := True\<rparr>))"
    "adds P l (lg o')" "g' = logged g"
  shows "adds P l (lg (snd (Outbound_Screen g' key n o')))"
  using assms by (auto simp: Outbound_Screen_def Let_def split_beta ob_call_frame split: option.split sum.split intro!: adds_Cons)

lemma ScreenAll_adds [adds_intros]:
  assumes "\<And>out. \<not> og_Notify out \<Longrightarrow> P (CallSend out)" "\<And>d. P (CallDocument d)" "adds P l (lg o')"
  shows "adds P l (lg (snd (ScreenAll (logged g) key o')))"
proof -
  have since: "snd (snd (snd (Since (logged g) key (ob_capture o') (ob_world o')))) = lg o'"
    by (simp add: Since_def cp_read_def split_beta Let_def split: sum.split)
  show ?thesis using assms since
    by (auto simp: ScreenAll_def Let_def split_beta ob_call_frame split: option.splits sum.splits prod.splits intro!: adds_Cons)
qed

section \<open>What a message in a topic can do\<close>

text \<open>The git arguments of any routed text are on the allow-list.\<close>

definition git_ok :: "Command \<Rightarrow> bool" where
  "git_ok c \<longleftrightarrow> gs_Sub (cm_Git c) = [] \<or> git_allowed (cm_Git c)"

lemma git_ok_plain: "git_ok (unknownCommand t)" "git_ok (Command_of k)" "git_ok ((Command_of k)\<lparr>cm_Text := t\<rparr>)"
  "git_ok ((Command_of k)\<lparr>cm_Keys := ks\<rparr>)" "git_ok ((Command_of k)\<lparr>cm_Text := t, cm_Forward := r\<rparr>)"
  by (simp_all add: git_ok_def unknownCommand_def Command_of_def)

lemma git_ok_args: "git_ok (parseScreen args)" "git_ok (parseAway args)" "git_ok (parseObservers args)"
  "git_ok (parseNew args)" "git_ok (bareCommand k word args)"
  by (auto simp: parseScreen_def parseAway_def parseObservers_def parseNew_def bareCommand_def Let_def git_ok_def
      unknownCommand_def Command_of_def split: option.split list.split)

lemma git_ok_parsed: "git_ok ((Command_of k)\<lparr>cm_Git := (case ParseGit args of Some spec \<Rightarrow> spec
    | None \<Rightarrow> \<lparr>gs_Sub = [], gs_Args = []\<rparr>)\<rparr>)"
  using ParseGit_allowed by (auto simp: git_ok_def split: option.split)

lemma git_ok_dispatch: "git_ok (dispatchWord word args rest)"
  by (simp add: dispatchWord_def git_ok_plain git_ok_args git_ok_parsed split: option.split)

lemma git_ok_ParseCommand: "git_ok (ParseCommand t b)"
  unfolding ParseCommand_def by (simp add: git_ok_plain git_ok_dispatch Let_def split: list.split option.split prod.split)

lemma git_ok_Route: "git_ok (Route t b st)"
  by (simp add: Route_def git_ok_plain git_ok_ParseCommand split: option.split)

text \<open>The calls of a message \<open>t\<close> routed as \<open>cmd\<close> to the agent \<open>a\<close> behind \<open>key\<close>.\<close>

definition topic_effect :: "Key \<Rightarrow> Agent \<Rightarrow> string \<Rightarrow> Command \<Rightarrow> Call \<Rightarrow> bool" where
  "topic_effect key a t cmd c \<longleftrightarrow>
     (case c of
        CallPrompt p s \<Rightarrow> p = PaneID key
          \<and> (\<not> HasPrefix (TrimSpace t) ''/'' \<and> s = t
             \<or> cm_Kind cmd = CmdPrompt \<and> s = cm_Text cmd
             \<or> cm_Kind cmd = CmdForward \<and> s = cm_Text cmd \<and> ag_Status a \<notin> {StatusWorking, StatusBlocked})
      | CallKeys p ks \<Rightarrow> p = PaneID key
          \<and> (cm_Kind cmd = CmdKeys \<and> ks = cm_Keys cmd \<or> cm_Kind cmd = CmdStop \<and> ks = [KeyEscape]
             \<or> cm_Kind cmd = CmdInterrupt \<and> ks = [KeyInterrupt])
      | CallFocus p \<Rightarrow> p = PaneID key \<and> cm_Kind cmd = CmdFocus
      | CallGit dir args \<Rightarrow> cm_Kind cmd = CmdGit \<and> dir = ag_Cwd a \<and> args = gs_Args (cm_Git cmd) \<and> git_allowed (cm_Git cmd)
      | CallSend out \<Rightarrow> \<not> og_Notify out
      | CallDocument d \<Rightarrow> True
      | CallEditButtons m bs \<Rightarrow> True
      | CallReact th m e \<Rightarrow> True
      | _ \<Rightarrow> False)"

lemma topic_effect_simps [simp]:
  "topic_effect key a t cmd (CallSend out) \<longleftrightarrow> \<not> og_Notify out" "topic_effect key a t cmd (CallDocument d)"
  "topic_effect key a t cmd (CallEditButtons m bs)" "topic_effect key a t cmd (CallReact th m e)"
  by (simp_all add: topic_effect_def)

lemma gitCommand_adds:
  assumes "git_ok cmd" "cm_Kind cmd = CmdGit" "adds (topic_effect key a t cmd) l (lgi i)"
  shows "adds (topic_effect key a t cmd) l (lgi (snd (gitCommand (logged g) msg a (cm_Git cmd) i)))"
proof -
  have res: "adds (topic_effect key a t cmd) l (lgi i1)
      \<Longrightarrow> adds (topic_effect key a t cmd) l (lgi (snd (git_result (logged g) msg a (cm_Git cmd) r i1)))" for r i1
    by (auto simp: git_result_def Let_def split_beta intro!: adds_intros)
  show ?thesis
  proof (cases "gs_Sub (cm_Git cmd) = [] \<or> mc_git g = None \<or> TrimSpace (ag_Cwd a) = []")
    case True
    then show ?thesis using assms(3)
      by (auto simp: gitCommand_def Let_def split: option.split intro!: adds_intros)
  next
    case False
    then obtain run where run: "mc_git g = Some run" by auto
    have c: "topic_effect key a t cmd (CallGit (ag_Cwd a) (gs_Args (cm_Git cmd)))"
      using assms False by (simp add: topic_effect_def git_ok_def)
    have "adds (topic_effect key a t cmd) l (lgi (snd (in_call (noted (CallGit (ag_Cwd a) (gs_Args (cm_Git cmd)))
        (run (ag_Cwd a) (gs_Args (cm_Git cmd)))) (snd (in_now (logged g) i)))))"
      using assms(3) by (intro in_call_adds c) simp
    then show ?thesis using False run
      by (auto simp: gitCommand_def Let_def split_beta split: sum.split intro!: adds_intros res)
  qed
qed

lemma close_question_send [simp]:
  "topic_effect key a t cmd (CallSend ((text_message th s)\<lparr>og_ReplyTo := m, og_Buttons := bs\<rparr>))"
  by simp

lemma askClose_adds:
  assumes "adds (topic_effect key a t cmd) l (lgi i)"
  shows "adds (topic_effect key a t cmd) l (lgi (snd (askClose (logged g) msg key' a' i)))"
proof -
  have "adds (topic_effect key a t cmd) l (lgi (snd (retire_question (logged g) key' i)))"
    using assms by (auto simp: retire_question_def intro!: adds_intros split: option.split)
  then show ?thesis unfolding askClose_def logged_simps by (intro adds_intros) (auto simp: only_fatal_def)
qed

lemma post_screen_adds:
  assumes "adds (topic_effect key a t cmd) l (lgi i)"
  shows "adds (topic_effect key a t cmd) l (lgi (snd (post_screen (logged g) msg key' cmd' i)))"
proof -
  have "adds (topic_effect key a t cmd) l (lgi (snd (in_ScreenAll (logged g) key' i)))"
    using ScreenAll_adds [of "topic_effect key a t cmd" l "in_out i" g key'] assms
    by (simp add: in_ScreenAll_def split_beta)
  moreover have "adds (topic_effect key a t cmd) l (lgi (snd (in_ob (Outbound_Screen (logged g) key' (cm_Lines cmd')) i)))"
    using assms by (intro adds_intros) (auto intro!: Screen_adds)
  ultimately have x: "adds (topic_effect key a t cmd) l (lgi (snd
      (if cm_All cmd' then in_ScreenAll (logged g) key' i else in_ob (Outbound_Screen (logged g) key' (cm_Lines cmd')) i)))"
    by simp
  obtain err i1 where r: "(if cm_All cmd' then in_ScreenAll (logged g) key' i
      else in_ob (Outbound_Screen (logged g) key' (cm_Lines cmd')) i) = (err, i1)" by fastforce
  have "adds (topic_effect key a t cmd) l (lgi i1)" using x unfolding r by simp
  then show ?thesis unfolding post_screen_def r by (auto split: option.split intro!: failed_adds)
qed

lemma send_prompt_adds:
  assumes "cm_Kind cmd = CmdPrompt" "adds (topic_effect key a t cmd) l (lgi i)"
  shows "adds (topic_effect key a t cmd) l (lgi (snd (send_prompt (logged g) msg key (cm_Text cmd) i)))"
proof -
  have c: "topic_effect key a t cmd (CallPrompt (PaneID key) (cm_Text cmd))" using assms(1) by (simp add: topic_effect_def)
  show ?thesis unfolding send_prompt_def logged_simps by (intro adds_intros c assms(2)) (auto intro!: adds_intros)
qed

lemma control_adds:
  assumes "topic_effect key a t cmd (CallKeys (PaneID key) [k])" "adds (topic_effect key a t cmd) l (lgi i)"
  shows "adds (topic_effect key a t cmd) l (lgi (snd (control (logged g) msg key k s i)))"
  unfolding control_def logged_simps by (intro adds_intros assms) (auto intro!: adds_intros)

lemma forward_adds:
  assumes "cm_Kind cmd = CmdForward" "adds (topic_effect key a t cmd) l (lgi i)"
  shows "adds (topic_effect key a t cmd) l (lgi (snd (forward (logged g) msg key a cmd i)))"
proof (cases "forwardRefusal (ag_Status a)")
  case None
  then have c: "topic_effect key a t cmd (CallPrompt (PaneID key) (cm_Text cmd))"
    using assms(1) by (auto simp: topic_effect_def forwardRefusal_def split: if_splits)
  show ?thesis unfolding forward_def logged_simps None option.case
    by (intro adds_intros c assms(2)) (auto intro!: adds_intros)
next
  case (Some hint)
  then show ?thesis using assms by (auto simp: forward_def intro!: adds_intros)
qed

lemma topic_command_adds:
  assumes "git_ok cmd" "adds (topic_effect key a t cmd) l (lgi i)"
  shows "adds (topic_effect key a t cmd) l (lgi (snd (topic_command (logged g) msg key a cmd i)))"
  using assms
  by (cases "cm_Kind cmd")
    (auto simp: topic_command_def Let_def topic_effect_def [of _ _ _ _ "CallKeys _ _"] topic_effect_def [of _ _ _ _ "CallFocus _"]
      intro!: gitCommand_adds forward_adds askClose_adds post_screen_adds send_prompt_adds control_adds herdrCall_adds reply_adds)

lemma typed_adds:
  assumes "\<not> HasPrefix (TrimSpace (ms_Text msg)) ''/''" "adds (topic_effect key a (ms_Text msg) cmd) l (lgi i)"
  shows "adds (topic_effect key a (ms_Text msg) cmd) l (lgi (snd (typed (logged g) msg key wt i)))"
proof -
  have c: "topic_effect key a (ms_Text msg) cmd (CallPrompt (PaneID key) (ms_Text msg))"
    using assms(1) by (simp add: topic_effect_def)
  show ?thesis unfolding typed_def logged_simps by (intro adds_intros c assms(2)) (auto intro!: adds_intros)
qed

lemma topic_text_adds:
  fixes i :: "'w logged Inbound"
  defines "cmd \<equiv> \<lambda>msg a. Route (ms_Text msg) (cf_BotUsername (in_cfg i)) (ag_Status a)"
  shows "adds (topic_effect key a (ms_Text msg) (cmd msg a)) (lgi i) (lgi (snd (topic_text (logged g) msg key a i)))"
proof -
  let ?P = "topic_effect key a (ms_Text msg) (cmd msg a)"
  have run: "adds ?P (lgi i) (lgi i1) \<Longrightarrow> in_cfg i1 = in_cfg i \<Longrightarrow>
      adds ?P (lgi i) (lgi (snd (topic_command (logged g) msg key a
        (Route (ms_Text msg) (cf_BotUsername (in_cfg i1)) (ag_Status a)) i1)))" for i1
    using topic_command_adds [OF git_ok_Route, of key a "ms_Text msg" "ms_Text msg" "cf_BotUsername (in_cfg i)" "ag_Status a" "lgi i" i1 g msg]
    by (simp add: cmd_def)
  show ?thesis
  proof (cases "HasPrefix (TrimSpace (ms_Text msg)) ''/''")
    case True
    obtain err i1 where r: "in_ob (CancelTyping (logged g) key) i = (err, i1)" by fastforce
    have "adds ?P (lgi i) (lgi i1)" "in_cfg i1 = in_cfg i"
      using CancelTyping_adds [of ?P "lgi i" "in_out i" g key] in_frames(2,3) [of "CancelTyping (logged g) key" i] unfolding r by simp_all
    then show ?thesis using True run by (cases err) (simp_all add: topic_text_def r)
  next
    case False
    obtain wt i1 where r: "in_ob (TakeTyping (logged g) key) i = (wt, i1)" by fastforce
    have "adds ?P (lgi i) (lgi i1)" "in_cfg i1 = in_cfg i"
      using TakeTyping_adds [of ?P "lgi i" "in_out i" g key] in_frames(2,3) [of "TakeTyping (logged g) key" i] unfolding r by simp_all
    then show ?thesis using False run typed_adds by (cases wt) (simp_all add: topic_text_def r Let_def)
  qed
qed

text \<open>
  C17: whatever an operator writes into a topic, it reaches at most the agent mapped to that very thread, while that
  agent is alive and its topic is live: prompts, keys and focus go to its pane, git runs in its directory and only
  with an allow-listed, reading command line. A prompt is the message itself or the forwarded command, the latter only
  for an agent that is neither working nor waiting for an answer; keys are those the message was routed to. Nothing
  rings, and no configuration, option, pane or tab is touched.
\<close>

theorem HandleTopic_effect:
  "adds (\<lambda>c. case View_KeyForThread (mc_topics g (inner i)) (ms_ThreadID msg) of
               None \<Rightarrow> False
             | Some key \<Rightarrow>
                 plain_send (ms_ThreadID msg) c
                 \<or> entry_live (View_Entry (mc_topics g (inner i)) key)
                   \<and> (\<exists>a. mc_agent g (inner i) key = Some a
                        \<and> topic_effect key a (ms_Text msg) (Route (ms_Text msg) (cf_BotUsername (in_cfg i)) (ag_Status a)) c))
     (lgi i) (lgi (snd (HandleTopic (logged g) msg i)))"
  (is "adds ?P _ _")
proof (cases "View_KeyForThread (mc_topics g (inner i)) (ms_ThreadID msg)")
  case None
  then show ?thesis by (simp add: HandleTopic_def)
next
  case (Some key)
  have gone: "adds ?P (lgi i) (lgi (snd (reply (logged g) (ms_ThreadID msg) (ms_MessageID msg) agentExited i)))"
    using Some by (intro reply_adds) simp_all
  show ?thesis
  proof (cases "mc_agent g (inner i) key")
    case None
    then show ?thesis using gone Some by (simp add: HandleTopic_def)
  next
    case a: (Some a)
    show ?thesis
    proof (cases "entry_live (View_Entry (mc_topics g (inner i)) key)")
      case True
      have "adds ?P (lgi i) (lgi (snd (topic_text (logged g) msg key a i)))"
        by (rule adds_mono [OF topic_text_adds]) (use Some a True in auto)
      then show ?thesis using Some a True by (simp add: HandleTopic_def)
    next
      case False
      then show ?thesis using gone Some a by (simp add: HandleTopic_def)
    qed
  qed
qed

section \<open>Commands in General\<close>

text \<open>A reply of \<open>HandleGeneral\<close>: into General, quoting the command, without a sound.\<close>

definition general_reply :: "GeneralCommand \<Rightarrow> Call \<Rightarrow> bool" where
  "general_reply cmd c \<longleftrightarrow>
     (\<exists>out. c = CallSend out \<and> og_ThreadID out = 0 \<and> og_ReplyTo out = gc_MessageID cmd \<and> \<not> og_Notify out \<and> og_Buttons out = [])"

text \<open>What an operator's command may do besides: the settings of the program, a tab for a new agent, the panel.\<close>

definition general_effect :: "Config \<Rightarrow> Command \<Rightarrow> Call \<Rightarrow> bool" where
  "general_effect cfg parsed c \<longleftrightarrow>
     (case c of
        CallCreateTab i \<Rightarrow> cm_Kind parsed = CmdNew
      | CallSaveConfig cfg' \<Rightarrow> cm_Kind parsed = CmdObservers \<and> cf_OperatorIDs cfg' = cf_OperatorIDs cfg
      | CallSetAccess ops obs \<Rightarrow> cm_Kind parsed = CmdObservers \<and> ops = cf_OperatorIDs cfg
      | CallSend out \<Rightarrow> og_ThreadID out = 0 \<and> \<not> og_Notify out
      | CallEditButtons m bs \<Rightarrow> cm_Kind parsed = CmdOptions \<and> bs = []
      | _ \<Rightarrow> False)"

lemma general_effect_simps [simp]:
  "general_effect cfg parsed (CallSend out) \<longleftrightarrow> og_ThreadID out = 0 \<and> \<not> og_Notify out"
  "general_effect cfg parsed (CallCreateTab i) \<longleftrightarrow> cm_Kind parsed = CmdNew"
  "general_effect cfg parsed (CallEditButtons m bs) \<longleftrightarrow> cm_Kind parsed = CmdOptions \<and> bs = []"
  "general_effect cfg parsed (CallSetAccess ops obs) \<longleftrightarrow> cm_Kind parsed = CmdObservers \<and> ops = cf_OperatorIDs cfg"
  "general_effect cfg parsed (CallSaveConfig cfg') \<longleftrightarrow> cm_Kind parsed = CmdObservers \<and> cf_OperatorIDs cfg' = cf_OperatorIDs cfg"
  by (simp_all add: general_effect_def)

lemma in_set_access: "in_call (\<lambda>w. ((), mc_SetAccess (logged g) ops obs w)) i =
    in_call (noted (CallSetAccess ops obs) (\<lambda>w. ((), mc_SetAccess g ops obs w))) i"
  by (simp add: in_call_def in_ob_def ob_call_def noted_def)

lemma say_general_adds [adds_intros]:
  "P (CallSend ((text_message 0 t)\<lparr>og_ReplyTo := gc_MessageID cmd\<rparr>)) \<Longrightarrow> adds P l (lgi i)
   \<Longrightarrow> adds P l (lgi (snd (say_general (logged g) cmd t i)))"
  by (simp add: say_general_def reply_adds)

lemma WithObserver_operators:
  "WithObserver c x = Inr c' \<Longrightarrow> cf_OperatorIDs c' = cf_OperatorIDs c"
  "WithoutObserver c x = Inr c' \<Longrightarrow> cf_OperatorIDs c' = cf_OperatorIDs c"
  by (auto simp: WithObserver_def WithoutObserver_def split: if_splits)

lemma changeObserver_adds:
  assumes "cm_Kind parsed = CmdObservers" "adds (general_effect (in_cfg i) parsed) l (lgi i)"
  shows "adds (general_effect (in_cfg i) parsed) l (lgi (snd (changeObserver (logged g) spec i)))"
proof (cases "if ob_Action spec = ObserverAdd then WithObserver (in_cfg i) (ob_ID spec) else WithoutObserver (in_cfg i) (ob_ID spec)")
  case (Inl e)
  then show ?thesis using assms by (simp add: changeObserver_def)
next
  case (Inr cfg')
  then have ops: "cf_OperatorIDs cfg' = cf_OperatorIDs (in_cfg i)"
    using WithObserver_operators by (auto split: if_splits)
  show ?thesis
  proof (cases "mc_SaveConfig g")
    case None
    then show ?thesis using assms by (simp add: changeObserver_def Inr)
  next
    case (Some save)
    let ?r = "in_call (noted (CallSaveConfig cfg') (save cfg')) i"
    have "adds (general_effect (in_cfg i) parsed) l (lgi (snd ?r))"
      using assms ops by (intro in_call_adds) simp_all
    then have "adds (general_effect (in_cfg i) parsed) l (lgi (snd (in_call
        (\<lambda>w. ((), mc_SetAccess (logged g) (cf_OperatorIDs cfg') (cf_ObserverIDs cfg') w)) ((snd ?r)\<lparr>in_cfg := cfg'\<rparr>))))"
      unfolding in_set_access using assms ops by (intro in_call_adds) simp_all
    then show ?thesis using \<open>adds _ l (lgi (snd ?r))\<close> Inr Some
      by (auto simp: changeObserver_def split: prod.split option.split)
  qed
qed

lemma strangerLines_log [simp]: "lgi (snd (strangerLines (logged g) ss i)) = lgi i"
  by (induction "logged g" ss i rule: strangerLines.induct) (simp_all add: strangerLine_def split_beta Let_def)

lemma observersList_log [simp]: "lgi (snd (observersList (logged g) i)) = lgi i"
  by (simp add: observersList_def split_beta Let_def)

lemma general_html_simps [simp]: "og_ThreadID (general_html cmd t) = 0" "og_Notify (general_html cmd t) = False"
  "og_Buttons (general_html cmd t) = []" "og_ReplyTo (general_html cmd t) = gc_MessageID cmd"
  by (simp_all add: general_html_def)

lemma observers_adds:
  assumes "cm_Kind parsed = CmdObservers" "adds (general_effect (in_cfg i) parsed) l (lgi i)"
  shows "adds (general_effect (in_cfg i) parsed) l (lgi (snd (observers (logged g) cmd spec i)))"
  using assms changeObserver_adds [OF assms]
  by (auto simp: observers_def split_beta intro!: adds_intros)

lemma startAgent_adds:
  assumes "cm_Kind parsed = CmdNew" "adds (general_effect cfg parsed) l (lgi i)"
  shows "adds (general_effect cfg parsed) l (lgi (snd (startAgent (logged g) cmd parsed i)))"
proof -
  have s: "adds (general_effect cfg parsed) l (lgi i1)
      \<Longrightarrow> adds (general_effect cfg parsed) l (lgi (snd (start_in (logged g) cmd parsed ws i1)))" for ws i1
    unfolding start_in_def logged_simps Let_def
    by (intro adds_intros) (auto simp: assms split_beta intro!: adds_intros)
  show ?thesis unfolding startAgent_def logged_simps Let_def
    by (intro adds_intros assms(2)) (auto simp: split_beta intro!: adds_intros s)
qed

lemma Panel_Open_log:
  assumes "\<And>m. P (CallEditButtons m [])" "\<And>bs. P (CallSend ((text_message 0 (vw_text renderHome))
             \<lparr>og_HTML := True, og_ReplyTo := m, og_Buttons := bs\<rparr>))"
  shows "adds P (pn_log p) (pn_log (snd (Panel_Open (logged g) m p)))"
proof -
  have s: "adds P (pn_log p) (pn_log q) \<Longrightarrow> adds P (pn_log p) (pn_log (snd (case pn_call (mc_Send (logged g)
      ((text_message 0 (vw_text renderHome))\<lparr>og_HTML := True, og_ReplyTo := m, og_Buttons := vw_buttons renderHome\<rparr>)) q of
      (Inl e, p2) \<Rightarrow> (only_fatal (Some e), p2) | (Inr i, p2) \<Rightarrow> (None, p2\<lparr>pn_lastID := i\<rparr>))))" for q
    using assms(2) by (auto simp: split_beta split: sum.split intro!: adds_Cons)
  show ?thesis
  proof (cases "pn_lastID p = 0")
    case True
    then show ?thesis using s [of p] by (simp add: Panel_Open_def)
  next
    case False
    obtain err q where q: "pn_call (mc_EditButtons (logged g) (pn_lastID p) []) p = (err, q)" by fastforce
    then have "pn_log q = CallEditButtons (pn_lastID p) [] # pn_log p"
      using pn_call_log(1) [of "CallEditButtons (pn_lastID p) []" "mc_EditButtons g (pn_lastID p) []" p] by simp
    then have "adds P (pn_log p) (pn_log q)" using assms(1) by (simp add: adds_Cons)
    then show ?thesis using False q s [of q] by (simp add: Panel_Open_def and_then_def split: option.split)
  qed
qed

lemma on_panel_log: "lgi (snd (on_panel f i)) = pn_log (snd (f \<lparr>pn_lastID = in_panel i, pn_world = in_world i\<rparr>))"
  by (simp add: on_panel_def split_beta)

lemma general_command_adds:
  "adds (general_effect (in_cfg i) parsed) (lgi i) (lgi (snd (general_command (logged g) cmd parsed i)))"
proof (cases "cm_Kind parsed")
  case CmdStatus
  then show ?thesis by (auto simp: general_command_def statusSummary_def split_beta Let_def intro!: adds_intros)
next
  case CmdOptions
  then show ?thesis
    using Panel_Open_log [of "general_effect (in_cfg i) parsed" "gc_MessageID cmd" "\<lparr>pn_lastID = in_panel i, pn_world = in_world i\<rparr>" g]
    by (simp add: general_command_def on_panel_log)
next
  case CmdAway
  have "lgi (snd (away (logged g) d b i)) = lgi i" for d b by (simp add: away_def split_beta)
  then show ?thesis using CmdAway by (auto simp: general_command_def split_beta intro!: adds_intros)
next
  case CmdHere
  have "lgi (snd (here (logged g) b i)) = lgi i" for b by (simp add: here_def split_beta Let_def)
  then show ?thesis using CmdHere by (auto simp: general_command_def split_beta intro!: adds_intros)
next
  case CmdNew
  then show ?thesis using startAgent_adds [OF CmdNew adds_refl, of "in_cfg i" i g cmd]
    by (simp add: general_command_def)
next
  case CmdObservers
  then show ?thesis using observers_adds [OF CmdObservers adds_refl, of i g cmd "cm_Observers parsed"]
    by (simp add: general_command_def)
qed (auto simp: general_command_def intro!: adds_intros)


lemma observer_command_adds:
  assumes "cm_Kind parsed = CmdStatus \<or> cm_Kind parsed = CmdHelp"
  shows "adds (general_reply cmd) (lgi i) (lgi (snd (general_command (logged g) cmd parsed i)))"
  using assms
  by (auto simp: general_command_def statusSummary_def split_beta Let_def general_reply_def text_message_def
      general_html_def intro!: adds_intros)

lemma in_call_frame [simp]: "in_cfg (snd (in_call f i)) = in_cfg i" "in_presence (snd (in_call f i)) = in_presence i"
  "in_panel (snd (in_call f i)) = in_panel i" "in_strangers (snd (in_call f i)) = in_strangers i"
  by (simp_all add: in_call_def in_ob_def split_beta)

lemma in_now_frame [simp]: "in_cfg (snd (in_now g i)) = in_cfg i" "in_presence (snd (in_now g i)) = in_presence i"
  "in_strangers (snd (in_now g i)) = in_strangers i"
  by (simp_all add: in_now_def)



section \<open>The close question\<close>

lemma ui_filter: "adds ui_call l l' \<Longrightarrow> filter (\<lambda>c. \<not> ui_call c) l' = filter (\<lambda>c. \<not> ui_call c) l"
  by (auto simp: adds_def list_all_iff)

lemma and_then_closing:
  "in_closing (snd x) = m \<Longrightarrow> (\<And>i. in_closing i = m \<Longrightarrow> in_closing (snd (k i)) = m) \<Longrightarrow> in_closing (snd (and_then x k)) = m"
  by (cases x; cases "fst x") auto

lemma close_outcome_ui [simp]:
  "filter (\<lambda>c. \<not> ui_call c) (lgi (snd (close_outcome (logged g) ev t toast i))) = filter (\<lambda>c. \<not> ui_call c) (lgi i)"
  "in_closing (snd (close_outcome (logged g) ev t toast i)) = in_closing i"
proof -
  show "filter (\<lambda>c. \<not> ui_call c) (lgi (snd (close_outcome (logged g) ev t toast i))) = filter (\<lambda>c. \<not> ui_call c) (lgi i)"
    unfolding close_outcome_def in_edit_def in_answer_def logged_simps
    by (rule ui_filter) (intro adds_intros; simp)
  show "in_closing (snd (close_outcome (logged g) ev t toast i)) = in_closing i"
    unfolding close_outcome_def in_edit_def in_answer_def by (rule and_then_closing) simp_all
qed

lemma in_stale_ui [simp]:
  "filter (\<lambda>c. \<not> ui_call c) (lgi (snd (in_stale (logged g) ev t i))) = filter (\<lambda>c. \<not> ui_call c) (lgi i)"
  "in_closing (snd (in_stale (logged g) ev t i)) = in_closing i"
  unfolding in_stale_def by (rule ui_filter, intro adds_intros; simp) simp

lemma exited_ui [simp]:
  "filter (\<lambda>c. \<not> ui_call c) (lgi (snd (and_then (in_edit (noted (CallEditButtons m bs) f) i) (in_answer (logged g) ev t))))
     = filter (\<lambda>c. \<not> ui_call c) (lgi i)"
  "in_closing (snd (and_then (in_edit f' i) (in_answer g' ev t))) = in_closing i"
proof -
  show "filter (\<lambda>c. \<not> ui_call c) (lgi (snd (and_then (in_edit (noted (CallEditButtons m bs) f) i) (in_answer (logged g) ev t))))
     = filter (\<lambda>c. \<not> ui_call c) (lgi i)"
    unfolding in_edit_def in_answer_def logged_simps by (rule ui_filter) (intro adds_intros; simp)
  show "in_closing (snd (and_then (in_edit f' i) (in_answer g' ev t))) = in_closing i"
    unfolding in_edit_def in_answer_def by (rule and_then_closing) simp_all
qed

lemma ui_close [simp]: "\<not> ui_call (CallClosePane p)"
  by (simp add: ui_call_def)

lemma close_call:
  "lgi (snd (in_call (noted c f) i)) = c # lgi i" "in_closing (snd (in_call h i)) = in_closing i"
  by (simp_all add: in_call_def lg_call)

text \<open>
  C19: A pane is closed by one thing only: the \<open>Yes\<close> of the latest close question of a topic whose agent still runs. The
  press makes exactly one call besides those on the messages, the one that closes that agent's pane, and no other press on
  a close question makes any. A press on the latest question takes it off the list whatever the answer, so pressing it again
  closes nothing; every other press leaves the open questions as they are.
\<close>

theorem press_close_exact:
  "let i' = snd (PressClose (logged g) ev i);
       other = filter (\<lambda>c. \<not> ui_call c) in
   case View_KeyForThread (mc_topics g (inner i)) (bp_ThreadID ev) of
     None \<Rightarrow> other (lgi i') = other (lgi i) \<and> in_closing i' = in_closing i
   | Some key \<Rightarrow>
       if gm_get (in_closing i) key = Some (bp_MessageID ev)
       then other (lgi i') = (if mc_agent g (inner i) key \<noteq> None \<and> bp_Data ev = closeYes then [CallClosePane (PaneID key)] else [])
              @ other (lgi i)
            \<and> in_closing i' = gm_del key (in_closing i)
       else other (lgi i') = other (lgi i) \<and> in_closing i' = in_closing i"
  by (auto simp: PressClose_def close_pressed_def close_call split_beta Let_def closeYes_def closeNo_def
      split: option.split)


section \<open>Who is let in\<close>

text \<open>The lists the gateway was last told are those of the configuration in memory.\<close>

definition is_access :: "Call \<Rightarrow> bool" where
  "is_access c \<longleftrightarrow> (case c of CallSetAccess _ _ \<Rightarrow> True | _ \<Rightarrow> False)"

definition access_synced :: "Config \<Rightarrow> 'w logged Inbound \<Rightarrow> bool" where
  "access_synced cfg0 i \<longleftrightarrow>
     (case filter is_access (lgi i) of
        [] \<Rightarrow> in_cfg i = cfg0
      | c # _ \<Rightarrow> c = CallSetAccess (cf_OperatorIDs (in_cfg i)) (cf_ObserverIDs (in_cfg i)))"

lemma access_simps [simp]: "is_access (CallSetAccess ops obs)" "\<not> is_access (CallSaveConfig cfg)" "\<not> is_access (CallSend out)"
  by (simp_all add: is_access_def)

lemma access_adds:
  assumes "adds (\<lambda>c. \<not> is_access c) (lgi i) (lgi i')" "in_cfg i' = in_cfg i"
  shows "access_synced cfg0 i' = access_synced cfg0 i"
proof -
  have "filter is_access (lgi i') = filter is_access (lgi i)" using assms(1) by (auto simp: adds_def list_all_iff)
  then show ?thesis by (simp add: access_synced_def assms(2) split: list.split)
qed

lemma set_access_log: "lgi (snd (in_call (\<lambda>w. ((), f w, c # snd w)) i)) = c # lgi i"
  by (simp add: in_call_def in_ob_def ob_call_def)

lemma cfg_and_then [intro!]:
  "in_cfg (snd x) = c \<Longrightarrow> (\<And>i. in_cfg i = c \<Longrightarrow> in_cfg (snd (k i)) = c) \<Longrightarrow> in_cfg (snd (and_then x k)) = c"
  by (cases x; cases "fst x") auto

lemma cfg_blocks [simp]: "in_cfg (snd (in_send g out i)) = in_cfg i" "in_cfg (snd (reply g th m t i)) = in_cfg i"
  "in_cfg (snd (on_panel f i)) = in_cfg i" "in_cfg (snd (say_general g cmd t i)) = in_cfg i"
  by (simp_all add: in_send_def reply_def on_panel_def say_general_def split_beta)

lemma cfg_general:
  assumes "cm_Kind parsed \<noteq> CmdObservers"
  shows "in_cfg (snd (general_command g cmd parsed i)) = in_cfg i"
  using assms
  by (auto simp: general_command_def statusSummary_def away_def here_def startAgent_def start_in_def split_beta Let_def
      split: CommandKind.split sum.split)

lemma say_general_log: "lgi (snd (say_general (logged g) cmd t i)) = CallSend ((text_message 0 t)\<lparr>og_ReplyTo := gc_MessageID cmd\<rparr>) # lgi i"
  by (simp add: say_general_def reply_def in_send_def split_beta close_call)

lemma changeObserver_cases:
  obtains (same) "in_cfg (snd (changeObserver (logged g) spec i)) = in_cfg i"
      "adds (\<lambda>c. \<not> is_access c) (lgi i) (lgi (snd (changeObserver (logged g) spec i)))"
    | (changed) cfg' where "in_cfg (snd (changeObserver (logged g) spec i)) = cfg'" "cf_OperatorIDs cfg' = cf_OperatorIDs (in_cfg i)"
      "lgi (snd (changeObserver (logged g) spec i))
         = CallSetAccess (cf_OperatorIDs cfg') (cf_ObserverIDs cfg') # CallSaveConfig cfg' # lgi i"
proof (cases "if ob_Action spec = ObserverAdd then WithObserver (in_cfg i) (ob_ID spec) else WithoutObserver (in_cfg i) (ob_ID spec)")
  case (Inl e)
  then show ?thesis by (intro same) (simp_all add: changeObserver_def)
next
  case (Inr cfg')
  then have ops: "cf_OperatorIDs cfg' = cf_OperatorIDs (in_cfg i)" using WithObserver_operators by (auto split: if_splits)
  show ?thesis
  proof (cases "mc_SaveConfig g")
    case None
    then show ?thesis using Inr by (intro same) (simp_all add: changeObserver_def)
  next
    case (Some save)
    obtain err i1 where r: "in_call (noted (CallSaveConfig cfg') (save cfg')) i = (err, i1)" by fastforce
    then have i1: "lgi i1 = CallSaveConfig cfg' # lgi i" "in_cfg i1 = in_cfg i"
      by (metis close_call(1) snd_conv, metis in_call_frame(1) snd_conv)
    show ?thesis
    proof (cases err)
      case None
      then show ?thesis using Inr Some r i1 ops
        by (intro changed [of cfg']) (simp_all add: changeObserver_def set_access_log close_call)
    next
      case e: (Some e)
      then show ?thesis using Inr Some r i1
        by (intro same) (simp_all add: changeObserver_def adds_Cons)
    qed
  qed
qed

lemma observersList_cfg: "in_cfg (snd (observersList g i)) = in_cfg i"
proof -
  have "in_cfg (snd (strangerLines g ss j)) = in_cfg j" for ss j
    by (induction g ss j rule: strangerLines.induct) (simp_all add: strangerLine_def split_beta Let_def)
  then show ?thesis by (simp add: observersList_def split_beta Let_def)
qed

lemma observers_synced:
  fixes g :: "'w Machine" and cmd :: GeneralCommand and spec :: ObserversSpec
  assumes "access_synced cfg0 i"
  defines "i' \<equiv> snd (observers (logged g) cmd spec i)"
  shows "access_synced cfg0 i' \<and> cf_OperatorIDs (in_cfg i') = cf_OperatorIDs (in_cfg i)
    \<and> (in_cfg i' = in_cfg i \<or> (\<exists>cs. lgi i' = cs @ lgi i \<and> CallSaveConfig (in_cfg i') \<in> set cs))"
proof (cases "ob_Action spec = ObserverList")
  case True
  have "in_cfg i' = in_cfg i" by (simp add: i'_def True observers_def observersList_cfg split_beta)
  moreover have "adds (\<lambda>c. \<not> is_access c) (lgi i) (lgi i')"
    by (simp add: i'_def True observers_def split_beta in_send_def close_call adds_Cons)
  ultimately show ?thesis using access_adds [of i i' cfg0] assms(1) by simp
next
  case False
  let ?r = "snd (changeObserver (logged g) spec i)"
  have i': "lgi i' = CallSend ((text_message 0 (fst (changeObserver (logged g) spec i)))\<lparr>og_ReplyTo := gc_MessageID cmd\<rparr>) # lgi ?r"
      "in_cfg i' = in_cfg ?r"
    by (simp_all add: i'_def False observers_def split_beta say_general_log)
  show ?thesis
  proof (cases rule: changeObserver_cases [of g spec i])
    case same
    have "adds (\<lambda>c. \<not> is_access c) (lgi i) (lgi i')" unfolding i' by (rule adds_Cons [OF same(2)]) simp
    then show ?thesis using same(1) access_adds [of i i' cfg0] assms(1) i'(2) by simp
  next
    case (changed cfg')
    then show ?thesis by (simp add: i' access_synced_def)
  qed
qed




text \<open>The operator adds observer 42; the config is saved.\<close>

definition saving_machine :: "Desk Machine" where
  "saving_machine = desk_machine\<lparr>mc_SaveConfig := Some (\<lambda>cfg w. (None, w))\<rparr>"

definition desk_config :: Config where
  "desk_config = \<lparr>cf_Version = 1, cf_BotToken = [], cf_BotUsername = ''bot'', cf_ChatID = 5, cf_ChatTitle = [], cf_OperatorIDs = [9],
     cf_ObserverIDs = [], cf_LogLevel = [], cf_ConfiguredAt = 0\<rparr>"

definition add_observer :: GeneralCommand where
  "add_observer = \<lparr>gc_MessageID = 3, gc_FromID = 9, gc_Text = ''/observers add 42'', gc_Role = RoleOperator\<rparr>"


end
