(* ===== verification/Bridge_Safety.thy ===== *)
theory Bridge_Safety
  imports Bridge Inbound_Safety
begin

text \<open>
  What holds in every state the bridge can reach: its queue is bounded, its counters account for every job and the first
  fatal error is the one the daemon reads. Also what its \<open>Submit\<close> never lets through.
\<close>

section \<open>The strangers kept\<close>

abbreviation st :: "'w Inbound \<Rightarrow> StrangerSeen list" where "st i \<equiv> in_strangers i"

named_theorems st_simps \<open>the operations that leave the strangers alone\<close>

lemma st_and_then [intro!]:
  assumes "st (snd x) = l" and "\<And>i. st i = l \<Longrightarrow> st (snd (k i)) = l"
  shows "st (snd (and_then x k)) = l"
proof (cases x)
  case (Pair err i)
  then show ?thesis using assms by (cases err) auto
qed

lemma st_schedule [st_simps]: "st (in_Schedule g key i) = st i" "st (in_ScheduleAfter g key d i) = st i"
  by (simp_all add: in_Schedule_def in_ScheduleAfter_def split_beta Let_def)

lemma st_blocks [st_simps]: "st (snd (in_send g out i)) = st i" "st (snd (reply g th m t i)) = st i"
  "st (snd (failed g msg e i)) = st i" "st (snd (in_edit c i)) = st i" "st (snd (in_answer g ev toast i)) = st i"
  "st (snd (on_panel f i)) = st i" "st (snd (in_stale g ev toast i)) = st i"
  by (simp_all add: in_send_def reply_def failed_def in_edit_def in_answer_def on_panel_def in_stale_def split_beta)

lemma st_herdrCall [st_simps]: "st (snd (herdrCall g msg c i)) = st i"
  by (simp add: herdrCall_def st_simps split_beta split: option.split)

lemma st_typed [st_simps]: "st (snd (typed g msg key wt i)) = st i"
  by (auto simp: typed_def st_simps split_beta split: option.split)

lemma st_control [st_simps]: "st (snd (control g msg key k c i)) = st i"
  by (auto simp: control_def st_simps split_beta split: option.split)

lemma st_askClose [st_simps]: "st (snd (askClose g msg key a i)) = st i"
  by (auto simp: askClose_def retire_question_def st_simps split_beta split: option.split sum.split)

lemma st_forward [st_simps]: "st (snd (forward g msg key a cmd i)) = st i"
  by (auto simp: forward_def st_simps split_beta split: option.split)

lemma st_git [st_simps]: "st (snd (gitCommand g msg a spec i)) = st i"
  by (auto simp: gitCommand_def git_result_def st_simps split_beta Let_def split: option.split sum.split)

lemma st_post [st_simps]: "st (snd (post_screen g msg key cmd i)) = st i" "st (snd (in_ScreenAll g key i)) = st i"
  by (auto simp: post_screen_def in_ScreenAll_def st_simps split_beta Let_def split: option.split sum.split)

lemma st_send_prompt [st_simps]: "st (snd (send_prompt g msg key t i)) = st i"
  by (auto simp: send_prompt_def st_simps split_beta split: option.split)

lemma st_topic_command [st_simps]: "st (snd (topic_command g msg key a cmd i)) = st i"
  by (auto simp: topic_command_def st_simps split: CommandKind.split)

lemma st_HandleTopic [st_simps]: "st (snd (HandleTopic g msg i)) = st i"
  by (auto simp: HandleTopic_def topic_text_def st_simps split_beta Let_def split: option.split)

lemma st_PressClose [st_simps]: "st (snd (PressClose g ev i)) = st i"
  by (auto simp: PressClose_def close_pressed_def close_outcome_def st_simps split_beta Let_def split: option.split)

lemma st_download [st_simps]: "st (startDownload g key th m c ps l i) = st i" "st (fireAlbum g gid i) = st i"
  by (simp_all add: startDownload_def fireAlbum_def split_beta Let_def st_simps split: option.split)

lemma st_HandleAttachment [st_simps]: "st (snd (HandleAttachment g at i)) = st i"
  by (auto simp: HandleAttachment_def accept_attachment_def st_simps Let_def split: option.split)

lemma st_dismiss [st_simps]: "st (snd (dismiss g key f i)) = st i"
  by (auto simp: dismiss_def st_simps split_beta split: option.split)

lemma st_follow_up [st_simps]: "st (snd (follow_up g key f e i)) = st i"
  by (auto simp: follow_up_def st_simps split_beta Let_def split: sum.split)

lemma st_fire [st_simps]: "st (snd (fireSubmit g pane i)) = st i" "st (snd (Inbound_Fire g key i)) = st i"
  by (auto simp: fireSubmit_def Inbound_Fire_def st_simps split_beta Let_def split: sum.split option.split)

lemma st_InboxFinished [st_simps]: "st (snd (InboxFinished g r i)) = st i"
  by (auto simp: InboxFinished_def inbox_deliver_def st_simps split_beta Let_def split: option.split)

lemma st_StartFinished [st_simps]: "st (snd (StartFinished g r i)) = st i"
  by (auto simp: StartFinished_def st_simps split_beta Let_def split: sum.split)

lemma st_observers [st_simps]: "st (snd (changeObserver g spec i)) = st i" "st (snd (observers g cmd spec i)) = st i"
proof -
  show c: "st (snd (changeObserver g spec i)) = st i" for spec
    by (auto simp: changeObserver_def split_beta Let_def split: sum.split option.split)
  have "st (snd (strangerLines g ss j)) = st j" for ss j
    by (induction g ss j rule: strangerLines.induct) (simp_all add: strangerLine_def split_beta Let_def)
  then have "st (snd (observersList g i)) = st i" for i :: "'a Inbound"
    by (simp add: observersList_def split_beta Let_def)
  then show "st (snd (observers g cmd spec i)) = st i"
    by (simp add: observers_def c st_simps say_general_def split_beta Let_def)
qed

lemma st_startAgent [st_simps]: "st (snd (startAgent g cmd parsed i)) = st i"
  by (auto simp: startAgent_def start_in_def say_general_def st_simps split_beta Let_def split: sum.split option.split)

lemma st_HandleGeneral [st_simps]: "st (snd (HandleGeneral g cmd i)) = st i"
  by (auto simp: HandleGeneral_def general_command_def statusSummary_def away_def here_def say_general_def st_simps
      split_beta Let_def split: CommandKind.split)

section \<open>The parts of a step\<close>

lemma br_run_frame [simp]: "br_jobs (br_run f b) = br_jobs b" "br_handled (br_run f b) = br_handled b"
  "br_dropped (br_run f b) = br_dropped b" "br_in (br_run f b) = snd (f (br_in b))"
  by (simp_all add: br_run_def split_beta Let_def split: option.split)

lemma Submit_frame [simp]: "br_in (Submit j b) = br_in b" "br_handled (Submit j b) = br_handled b"
  "br_fatal (Submit j b) = br_fatal b"
  by (simp_all add: Submit_def)

definition publish :: "(Key \<times> string list) list \<Rightarrow> 'w Bridge \<Rightarrow> 'w Bridge" where
  "publish ps b = fold (\<lambda>(key, lines). Submit (JobLive key lines)) ps b"

lemma publish_simps [simp]: "publish [] b = b"
  "publish (p # ps) b = publish ps (Submit (JobLive (fst p) (snd p)) b)"
  by (simp_all add: publish_def split_beta)

lemma flush_publish: "flush_published b = publish (in_published (br_in b)) (b\<lparr>br_in := (br_in b)\<lparr>in_published := []\<rparr>\<rparr>)"
  by (simp add: flush_published_def publish_def)

lemma publish_frame [simp]: "br_in (publish ps b) = br_in b" "br_handled (publish ps b) = br_handled b"
  "br_fatal (publish ps b) = br_fatal b"
  by (induction ps arbitrary: b) simp_all

lemma handle_frame [simp]: "br_jobs (handle g j b) = br_jobs b" "br_handled (handle g j b) = br_handled b"
  "br_dropped (handle g j b) = br_dropped b"
  by (simp_all add: handle_def Let_def split: Job.split)

text \<open>\<open>extends b b'\<close>: the queue of \<open>b'\<close> is that of \<open>b\<close> with jobs appended, within its bound.\<close>

definition extends :: "'w Bridge \<Rightarrow> 'w Bridge \<Rightarrow> bool" where
  "extends b b' \<longleftrightarrow> (\<exists>js. br_jobs b' = br_jobs b @ js \<and> list_all known_job js) \<and> br_dropped b \<le> br_dropped b'
     \<and> (length (br_jobs b) \<le> bridgeBuffer \<longrightarrow> length (br_jobs b') \<le> bridgeBuffer)"

lemma extends_refl [simp]: "br_jobs b' = br_jobs b \<Longrightarrow> br_dropped b' = br_dropped b \<Longrightarrow> extends b b'"
  by (simp add: extends_def)

lemma extends_trans: "extends a b \<Longrightarrow> extends b c \<Longrightarrow> extends a c"
  by (auto simp: extends_def)

lemma extends_Submit [simp]: "extends b (Submit j b)"
  by (simp add: extends_def Submit_def bridgeBuffer_def)

lemma extends_publish [simp]: "extends b (publish ps b)"
proof (induction ps arbitrary: b)
  case (Cons p ps)
  show ?case unfolding publish_simps by (rule extends_trans [OF extends_Submit Cons])
qed simp

lemma extends_flush [simp]: "extends b (flush_published b)"
  unfolding flush_publish by (rule extends_trans [OF extends_refl extends_publish]) simp_all

lemma flush_frame [simp]: "br_handled (flush_published b) = br_handled b" "br_fatal (flush_published b) = br_fatal b"
  "st (br_in (flush_published b)) = st (br_in b)"
  by (simp_all add: flush_publish)

lemma extends_timers [simp]: "extends b (screen_due g key b)" "extends b (command_due g key b)" "extends b (turn_due g key b)"
  unfolding screen_due_def command_due_def turn_due_def
  by (simp_all add: extends_trans [OF extends_refl extends_flush])

lemma extends_finish [simp]: "extends b (finish_task g before t after b)"
  by (simp add: finish_task_def split_beta Let_def extends_trans [OF extends_refl extends_Submit])

lemma others_frame [simp]: "br_handled (screen_due g key b) = br_handled b" "br_handled (command_due g key b) = br_handled b"
  "br_handled (turn_due g key b) = br_handled b" "br_handled (finish_task g before t after b) = br_handled b"
  by (simp_all add: screen_due_def command_due_def turn_due_def finish_task_def split_beta Let_def)

text \<open>Taking a job drops the head; nothing else shortens the queue.\<close>

lemma take_job_extends:
  "br_jobs b = j # js \<Longrightarrow> extends (b\<lparr>br_jobs := js\<rparr>) (take_job g b) \<and> br_handled (take_job g b) = Suc (br_handled b)"
  "br_jobs b = [] \<Longrightarrow> take_job g b = b"
proof -
  assume j: "br_jobs b = j # js"
  let ?c = "handle g j (b\<lparr>br_jobs := js\<rparr>)"
  have "extends (b\<lparr>br_jobs := js\<rparr>) (flush_published ?c)" by (rule extends_trans [OF extends_refl extends_flush]) simp_all
  then have "extends (b\<lparr>br_jobs := js\<rparr>) ((flush_published ?c)\<lparr>br_handled := n\<rparr>)" for n
    by (rule extends_trans) (rule extends_refl; simp)
  then show "extends (b\<lparr>br_jobs := js\<rparr>) (take_job g b) \<and> br_handled (take_job g b) = Suc (br_handled b)"
    using j by (simp add: take_job_def Let_def)
qed (simp add: take_job_def)

section \<open>The queue\<close>

definition fifo :: "'w Bridge \<Rightarrow> 'w Bridge \<Rightarrow> bool" where
  "fifo b b' \<longleftrightarrow> br_handled b \<le> br_handled b' \<and> br_dropped b \<le> br_dropped b'
     \<and> (\<exists>js. br_jobs b' = drop (br_handled b' - br_handled b) (br_jobs b) @ js)"

lemma fifo_extends: "fifo a b \<Longrightarrow> extends b c \<Longrightarrow> br_handled c = br_handled b \<Longrightarrow> fifo a c"
  by (auto simp: fifo_def extends_def)

lemma fifo_take: "fifo a b \<Longrightarrow> fifo a (take_job g b)"
proof (cases "br_jobs b")
  case Nil
  then show "fifo a b \<Longrightarrow> ?thesis" by (simp add: take_job_extends(2))
next
  case (Cons j js)
  assume f: "fifo a b"
  then obtain ks where ks: "br_jobs b = drop (br_handled b - br_handled a) (br_jobs a) @ ks" by (auto simp: fifo_def)
  have "js = tl (br_jobs b)" using Cons by simp
  also have "\<dots> = drop 1 (br_jobs b)" by (simp add: drop_Suc)
  also have "\<dots> = drop (Suc (br_handled b - br_handled a)) (br_jobs a) @ drop (1 - length (drop (br_handled b - br_handled a) (br_jobs a))) ks"
    unfolding ks by simp
  finally show ?thesis using take_job_extends(1) [OF Cons, of g] f
    by (auto simp: fifo_def extends_def Suc_diff_le)
qed

lemma run_fifo: "bridge_run g b0 b \<Longrightarrow> fifo b0 b"
proof (induction rule: bridge_run.induct)
  case start
  then show ?case by (simp add: fifo_def)
next
  case (job b)
  then show ?case by (simp add: fifo_take)
qed (auto elim!: fifo_extends simp: Bridge_SetPresence_def Bridge_SetPagerReachable_def SetStatusSince_def)


text \<open>What every reachable state keeps: the bound of the queue, no stranger in it and none remembered.\<close>

definition bridge_inv :: "'w Bridge \<Rightarrow> bool" where
  "bridge_inv b \<longleftrightarrow> length (br_jobs b) \<le> bridgeBuffer \<and> list_all known_job (br_jobs b) \<and> st (br_in b) = []"

lemma inv_extends: "bridge_inv b \<Longrightarrow> extends b b' \<Longrightarrow> st (br_in b') = [] \<Longrightarrow> bridge_inv b'"
  by (auto simp: bridge_inv_def extends_def)

lemma st_handle: "known_job j \<Longrightarrow> st (br_in (handle g j b)) = st (br_in b)"
  by (simp add: handle_def known_job_def Inbound_Forget_def Let_def st_simps PressPanel_def split: Job.splits)

lemma inv_take: "bridge_inv b \<Longrightarrow> bridge_inv (take_job g b)"
proof (cases "br_jobs b")
  case Nil
  then show "bridge_inv b \<Longrightarrow> ?thesis" by (simp add: take_job_extends(2))
next
  case (Cons j js)
  assume inv: "bridge_inv b"
  then have "bridge_inv (b\<lparr>br_jobs := js\<rparr>)" "known_job j" using Cons by (simp_all add: bridge_inv_def)
  moreover from this have "st (br_in (take_job g b)) = []"
    using Cons by (simp add: take_job_def Let_def st_handle bridge_inv_def)
  ultimately show ?thesis using take_job_extends(1) [OF Cons, of g] inv_extends by blast
qed

lemma inv_init: "bridge_inv (NewBridge cfg cp w)"
  by (simp add: bridge_inv_def NewBridge_def newInbound_def bridgeBuffer_def)

lemma inv_run: "bridge_run g b0 b \<Longrightarrow> bridge_inv b0 \<Longrightarrow> bridge_inv b"
proof (induction rule: bridge_run.induct)
  case (job b)
  then show ?case by (simp add: inv_take)
next
  case (submit b j)
  then have "bridge_inv b" by simp
  then show ?case by (rule inv_extends [OF _ extends_Submit]) (simp add: bridge_inv_def \<open>bridge_inv b\<close>[unfolded bridge_inv_def])
next
  case (screen b key)
  then have "bridge_inv b" by simp
  then show ?case by (rule inv_extends [OF _ extends_timers(1)]) (use \<open>bridge_inv b\<close> in \<open>simp add: bridge_inv_def screen_due_def\<close>)
next
  case (command b key)
  then have "bridge_inv b" by simp
  then show ?case
    by (rule inv_extends [OF _ extends_timers(2)]) (use \<open>bridge_inv b\<close> in \<open>simp add: bridge_inv_def command_due_def st_simps\<close>)
next
  case (turn_end b key)
  then have "bridge_inv b" by simp
  then show ?case by (rule inv_extends [OF _ extends_timers(3)]) (use \<open>bridge_inv b\<close> in \<open>simp add: bridge_inv_def turn_due_def\<close>)
next
  case (task b before t after)
  then have "bridge_inv b" by simp
  then show ?case
    by (rule inv_extends [OF _ extends_finish]) (use \<open>bridge_inv b\<close> in \<open>simp add: bridge_inv_def finish_task_def split_beta Let_def\<close>)
qed (auto simp: bridge_inv_def Bridge_SetPresence_def Bridge_SetPagerReachable_def SetStatusSince_def Inbound_SetPresence_def
      SetSince_def)

text \<open>
  C21: The queue of the bridge is first in, first out and bounded. Whatever the interleaving of submissions, jobs,
timers and background work between two states, the jobs queued in the first are, less the ones taken since, the
first jobs of the second in the same order: a job once accepted is neither lost nor overtaken. The counters never
go back, and a bridge that starts empty never holds more than 256 jobs.\<close>

theorem bridge_queue_fifo:
  assumes "bridge_run g (NewBridge cfg cp w) b" and "bridge_run g b b'"
  shows "length (br_jobs b') \<le> 256 \<and> br_handled b \<le> br_handled b' \<and> br_dropped b \<le> br_dropped b'
    \<and> (\<exists>js. br_jobs b' = drop (br_handled b' - br_handled b) (br_jobs b) @ js)"
  using run_fifo [OF assms(2)] inv_run [OF assms(2) inv_run [OF assms(1) inv_init]]
  by (simp add: fifo_def bridge_inv_def bridgeBuffer_def)



text \<open>Two jobs arrive and the first is served.\<close>

definition two_jobs :: "Desk Bridge" where
  "two_jobs = Submit JobAway (Submit (JobLive desk_key []) (NewBridge desk_config NewCapture desk))"

lemma two_jobs_run: "bridge_run desk_machine (NewBridge desk_config NewCapture desk) two_jobs"
  unfolding two_jobs_def by (intro bridge_run.submit bridge_run.start)

theorem bridge_queue_fifo_witness:
  "(\<exists>js. br_jobs (take_job desk_machine two_jobs) = drop 1 (br_jobs two_jobs) @ js) \<and> br_handled (take_job desk_machine two_jobs) = 1"
proof -
  have h: "br_handled (take_job desk_machine two_jobs) = 1" "br_handled two_jobs = 0" by code_simp+
  show ?thesis
    using bridge_queue_fifo [OF two_jobs_run bridge_run.job [OF bridge_run.start]] unfolding h by simp
qed

definition visitor :: StrangerSeen where
  "visitor = \<lparr>ss_FromID = 77, ss_Name = ''Eve'', ss_Username = [], ss_ThreadID = 0, ss_At = 1000\<rparr>"


section \<open>The fatal error\<close>

lemma br_run_fatal: "br_fatal (br_run f b) = (if br_fatal b = None \<and> fst (f (br_in b)) \<noteq> None \<and> isFatal (the (fst (f (br_in b))))
    then fst (f (br_in b)) else br_fatal b)"
  by (auto simp: br_run_def split_beta Let_def split: option.split)

definition fatal_kept :: "'w Bridge \<Rightarrow> 'w Bridge \<Rightarrow> bool" where
  "fatal_kept b b' \<longleftrightarrow> (case br_fatal b of Some e \<Rightarrow> br_fatal b' = Some e
                       | None \<Rightarrow> (case br_fatal b' of Some e \<Rightarrow> isFatal e | None \<Rightarrow> True))"

lemma fatal_kept_trans: "fatal_kept a b \<Longrightarrow> fatal_kept b c \<Longrightarrow> fatal_kept a c"
  by (auto simp: fatal_kept_def split: option.splits)

lemma fatal_kept_run: "br_fatal b1 = br_fatal b \<Longrightarrow> fatal_kept b (br_run f b1)"
  by (auto simp: fatal_kept_def br_run_fatal split: option.splits)

lemma fatal_kept_same: "br_fatal b' = br_fatal b \<Longrightarrow> fatal_kept b b'"
  by (auto simp: fatal_kept_def split: option.splits)

lemma fatal_kept_handle: "br_fatal b1 = br_fatal b \<Longrightarrow> fatal_kept b (handle g j b1)"
  by (cases j) (simp_all add: handle_def Let_def fatal_kept_run fatal_kept_same)

lemma run_fatal_kept: "bridge_run g b0 b \<Longrightarrow> fatal_kept b0 b"
proof (induction rule: bridge_run.induct)
  case start
  then show ?case by (rule fatal_kept_same) simp
next
  case (job b)
  have "fatal_kept b (take_job g b)"
  proof (cases "br_jobs b")
    case (Cons j js)
    have "fatal_kept b (handle g j (b\<lparr>br_jobs := js\<rparr>))" by (rule fatal_kept_handle) simp
    then show ?thesis by (rule fatal_kept_trans) (simp add: take_job_def Cons Let_def fatal_kept_same)
  qed (simp add: take_job_def fatal_kept_same)
  with job.IH show ?case by (rule fatal_kept_trans)
next
  case (screen b key)
  show ?case unfolding screen_due_def by (rule fatal_kept_trans [OF screen.IH fatal_kept_run]) simp
next
  case (command b key)
  show ?case unfolding command_due_def
    by (rule fatal_kept_trans [OF command.IH fatal_kept_trans [OF fatal_kept_run fatal_kept_same]]) simp_all
next
  case (turn_end b key)
  show ?case unfolding turn_due_def by (rule fatal_kept_trans [OF turn_end.IH fatal_kept_run]) simp
qed (erule fatal_kept_trans, simp add: fatal_kept_same finish_task_def split_beta Let_def
      Bridge_SetPresence_def Bridge_SetPagerReachable_def SetStatusSince_def)+

text \<open>
  C23: The daemon is told one error and it is the first fatal one: an error once held for it is never replaced by a later
  one, and what is held is always fatal (the bot was refused its token, its polling or a right), never an ordinary failure of a job.
\<close>

theorem first_fatal_kept:
  assumes "bridge_run g (NewBridge cfg cp w) b" and "bridge_run g b b'"
  shows "case br_fatal b of
           Some e \<Rightarrow> isFatal e \<and> br_fatal b' = Some e
         | None \<Rightarrow> (case br_fatal b' of None \<Rightarrow> True | Some e \<Rightarrow> isFatal e)"
  using run_fatal_kept [OF assms(1)] run_fatal_kept [OF assms(2)]
  by (auto simp: fatal_kept_def NewBridge_def split: option.splits)

text \<open>A bot whose token was revoked: the reply to \<open>/help\<close> fails.\<close>

definition revoked_machine :: "Desk Machine" where
  "revoked_machine = desk_machine\<lparr>mc_Send := (\<lambda>out w. (Inl ErrBotUnauthorized, w))\<rparr>"

definition revoked :: "Desk Bridge" where
  "revoked = take_job revoked_machine
     (Submit (JobGeneral \<lparr>gc_MessageID = 3, gc_FromID = 9, gc_Text = ''/help'', gc_Role = RoleOperator\<rparr>)
       (NewBridge desk_config NewCapture desk))"

theorem first_fatal_kept_witness:
  "br_fatal (turn_due revoked_machine desk_key revoked) = Some ErrBotUnauthorized"
proof -
  have "bridge_run revoked_machine (NewBridge desk_config NewCapture desk) revoked"
    unfolding revoked_def by (intro bridge_run.job bridge_run.submit bridge_run.start)
  note first_fatal_kept [OF this bridge_run.turn_end [OF bridge_run.start], of desk_key]
  moreover have "br_fatal revoked = Some ErrBotUnauthorized" by code_simp
  ultimately show ?thesis by simp
qed

end
