(* ===== verification/Dashboard_Safety.thy ===== *)
theory Dashboard_Safety
  imports Dashboard Call_Log
begin

text \<open>
  No overview message is lost: whatever the dashboard ever sent is the message it keeps, or Telegram reported it gone,
  deleted it, or it was turned into the \<open>off\<close> note. The calls are recorded with their answers.
\<close>

datatype DashCall =
    DSent Outgoing "int result"
  | DEdited int string "error option"
  | DPinned int "error option"
  | DUnpinned int "error option"
  | DDeleted int "error option"

type_synonym 'w dlogged = "'w \<times> DashCall list"

definition dnoted :: "('r \<Rightarrow> DashCall) \<Rightarrow> ('w \<Rightarrow> 'r \<times> 'w) \<Rightarrow> 'w dlogged \<Rightarrow> 'r \<times> 'w dlogged" where
  "dnoted c f w = (let (x, w') = f (fst w) in (x, (w', c x # snd w)))"

definition unnoted :: "('w \<Rightarrow> 'r \<times> 'w) \<Rightarrow> 'w dlogged \<Rightarrow> 'r \<times> 'w dlogged" where
  "unnoted f w = (let (x, w') = f (fst w) in (x, (w', snd w)))"

definition unnoted_gw :: "'w Gateways \<Rightarrow> 'w dlogged Gateways" where
  "unnoted_gw g =
     \<lparr>gw_CreateTopic = (\<lambda>n s. unnoted (gw_CreateTopic g n s)), gw_EditTopic = (\<lambda>i p. unnoted (gw_EditTopic g i p)),
      gw_CloseTopic = (\<lambda>i. unnoted (gw_CloseTopic g i)), gw_ReopenTopic = (\<lambda>i. unnoted (gw_ReopenTopic g i)),
      gw_DeleteTopic = (\<lambda>i. unnoted (gw_DeleteTopic g i)), gw_Send = (\<lambda>out. unnoted (gw_Send g out)),
      gw_Rename = (\<lambda>p n. unnoted (gw_Rename g p n)), gw_RenameTab = (\<lambda>i n. unnoted (gw_RenameTab g i n)),
      gw_Save = (\<lambda>m. unnoted (gw_Save g m)), gw_Now = unnoted (gw_Now g), gw_paused = (\<lambda>w. gw_paused g (fst w)),
      gw_quiet = (\<lambda>w. gw_quiet g (fst w)), gw_ErrorText = gw_ErrorText g\<rparr>"

definition dlogged :: "'w DashPorts \<Rightarrow> 'w dlogged DashPorts" where
  "dlogged g =
     \<lparr>dp_Send = (\<lambda>out. dnoted (DSent out) (dp_Send g out)), dp_EditText = (\<lambda>i t. dnoted (DEdited i t) (dp_EditText g i t)),
      dp_Pin = (\<lambda>i. dnoted (DPinned i) (dp_Pin g i)), dp_Unpin = (\<lambda>i. dnoted (DUnpinned i) (dp_Unpin g i)),
      dp_DeleteMessage = (\<lambda>i. dnoted (DDeleted i) (dp_DeleteMessage g i)), dp_Now = unnoted (dp_Now g),
      dp_live = (\<lambda>w. dp_live g (fst w)), dp_options = (\<lambda>w. dp_options g (fst w)), dp_presence = (\<lambda>w. dp_presence g (fst w)),
      dp_chatID = dp_chatID g, dp_Format = dp_Format g, dp_hash = dp_hash g, dp_gw = unnoted_gw (dp_gw g)\<rparr>"

lemma dlogged_simps [simp]:
  "dp_Send (dlogged g) out = dnoted (DSent out) (dp_Send g out)" "dp_EditText (dlogged g) i t = dnoted (DEdited i t) (dp_EditText g i t)"
  "dp_Pin (dlogged g) i = dnoted (DPinned i) (dp_Pin g i)" "dp_Unpin (dlogged g) i = dnoted (DUnpinned i) (dp_Unpin g i)"
  "dp_DeleteMessage (dlogged g) i = dnoted (DDeleted i) (dp_DeleteMessage g i)" "dp_Now (dlogged g) = unnoted (dp_Now g)"
  "gw_Save (dp_gw (dlogged g)) m = unnoted (gw_Save (dp_gw g) m)"
  by (simp_all add: dlogged_def unnoted_gw_def)

abbreviation da_log :: "'w dlogged Dashboard \<Rightarrow> DashCall list" where "da_log d \<equiv> snd (da_world d)"

section \<open>What the operations record\<close>

lemma dnoted_log [simp]: "snd (snd (dnoted c f w)) = c (fst (dnoted c f w)) # snd w" "fst (dnoted c f w) = fst (f (fst w))"
  "snd (snd (unnoted f' w)) = snd w"
  by (simp_all add: dnoted_def unnoted_def split_beta Let_def)

lemma da_call_simps [simp]: "fst (da_call f d) = fst (f (da_world d))" "da_world (snd (da_call f d)) = snd (f (da_world d))"
  "da_id (snd (da_call f d)) = da_id d" "da_hasMessage (snd (da_call f d)) = da_hasMessage d"
  "da_since (snd (da_call f d)) = da_since d" "da_last (snd (da_call f d)) = da_last d"
  by (simp_all add: da_call_def split_beta Let_def DashboardID_def)

lemma setID_simps [simp]: "da_id (setID g i d) = i" "da_log (setID (dlogged h) i e) = da_log e"
  "da_hasMessage (setID g i d) = (i \<noteq> 0)" "da_since (setID g i d) = da_since d" "da_last (setID g i d) = da_last d"
  by (simp_all add: setID_def SetDashboardID_def save_def DashboardID_def Let_def)

lemma pin_simps [simp]: "da_log (snd (pin (dlogged g) i d)) = DPinned i (fst (dp_Pin g i (fst (da_world d)))) # da_log d"
  "da_id (snd (pin g' i d')) = da_id d'" "da_hasMessage (snd (pin g' i d')) = da_hasMessage d'"
  "da_since (snd (pin g' i d')) = da_since d'" "da_last (snd (pin g' i d')) = da_last d'"
  by (simp_all add: pin_def split_beta split: option.split)

lemma forget_message_simps [simp]: "da_id (forget_message g d) = 0" "da_log (forget_message (dlogged h) e) = da_log e"
  "da_hasMessage (forget_message g d) = False" "da_since (forget_message g d) = da_since d" "da_last (forget_message g d) = da_last d"
  by (simp_all add: forget_message_def)

section \<open>Accounts\<close>

text \<open>The messages sent, and those that need no further care.\<close>

definition sent :: "DashCall list \<Rightarrow> int \<Rightarrow> bool" where
  "sent l m \<longleftrightarrow> (\<exists>out. DSent out (Inr m) \<in> set l)"

definition settled :: "DashCall list \<Rightarrow> int \<Rightarrow> bool" where
  "settled l m \<longleftrightarrow> (\<exists>t. DEdited m t (Some ErrMessageGone) \<in> set l) \<or> DPinned m (Some ErrMessageGone) \<in> set l
     \<or> DDeleted m None \<in> set l \<or> DDeleted m (Some ErrMessageGone) \<in> set l \<or> (\<exists>r. DEdited m dashboardOffText r \<in> set l)"

text \<open>Every message is the current one or settled; what is sent is silent, into General; the flag mirrors the id.\<close>

definition accounted :: "'w dlogged Dashboard \<Rightarrow> bool" where
  "accounted d \<longleftrightarrow> (\<forall>m. sent (da_log d) m \<longrightarrow> m \<noteq> 0 \<and> (m = da_id d \<or> settled (da_log d) m))
     \<and> (\<forall>out r. DSent out r \<in> set (da_log d) \<longrightarrow> og_ThreadID out = 0 \<and> \<not> og_Notify out)
     \<and> (da_hasMessage d \<longleftrightarrow> da_id d \<noteq> 0) \<and> (\<forall>k. gm_get (da_since d) k \<noteq> None \<longrightarrow> gm_get (da_last d) k \<noteq> None)"

lemma sent_Cons: "sent (c # l) m \<longleftrightarrow> (\<exists>out. c = DSent out (Inr m)) \<or> sent l m"
  by (auto simp: sent_def)

lemma settled_Cons [intro]: "settled l m \<Longrightarrow> settled (c # l) m"
  by (auto simp: settled_def)

text \<open>A step: what it sends becomes the message, and the message it had stays or is settled.\<close>

lemma accounted_step:
  assumes acc: "accounted d" and l: "da_log d' = cs @ da_log d"
    and new: "\<And>out r. DSent out r \<in> set cs \<Longrightarrow> og_ThreadID out = 0 \<and> \<not> og_Notify out \<and> (\<forall>m. r = Inr m \<longrightarrow> m \<noteq> 0 \<and> m = da_id d')"
    and old: "da_id d' = da_id d \<or> da_id d = 0 \<or> settled (da_log d') (da_id d)"
    and flag: "da_hasMessage d' \<longleftrightarrow> da_id d' \<noteq> 0" and "da_since d' = da_since d" "da_last d' = da_last d"
  shows "accounted d'"
proof -
  have mono: "settled (da_log d') m" if "settled (da_log d) m" for m using that l by (auto simp: settled_def)
  have "m \<noteq> 0 \<and> (m = da_id d' \<or> settled (da_log d') m)" if m: "sent (da_log d') m" for m
  proof -
    from m l consider (new) out where "DSent out (Inr m) \<in> set cs" | (old) "sent (da_log d) m" by (auto simp: sent_def)
    then show ?thesis
    proof cases
      case (new out)
      then show ?thesis using assms(3) by blast
    next
      case old
      then have "m \<noteq> 0 \<and> (m = da_id d \<or> settled (da_log d) m)" using acc by (simp add: accounted_def)
      then show ?thesis using assms(4) mono by metis
    qed
  qed
  moreover have "\<forall>out r. DSent out r \<in> set (da_log d') \<longrightarrow> og_ThreadID out = 0 \<and> \<not> og_Notify out"
    using acc l new by (auto simp: accounted_def)
  ultimately show ?thesis using acc assms(5-) by (simp add: accounted_def)
qed

lemma silent_message [simp]: "og_ThreadID ((text_message 0 t)\<lparr>og_HTML := True\<rparr>) = 0" "\<not> og_Notify ((text_message 0 t)\<lparr>og_HTML := True\<rparr>)"
  by (simp_all add: text_message_def)

lemma accounted_create:
  assumes acc: "accounted d" and free: "da_id d = 0 \<or> settled (da_log d) (da_id d)"
    and ids: "\<And>out w m w'. dp_Send g out w = (Inr m, w') \<Longrightarrow> m \<noteq> 0"
  shows "accounted (snd (create_message (dlogged g) t h d))"
proof -
  let ?out = "(text_message 0 t)\<lparr>og_HTML := True\<rparr>"
  obtain r d1 where c: "da_call (dnoted (DSent ?out) (dp_Send g ?out)) d = (r, d1)" by fastforce
  then have d1: "da_log d1 = DSent ?out r # da_log d" "da_id d1 = da_id d" "da_hasMessage d1 = da_hasMessage d"
      "da_since d1 = da_since d" "da_last d1 = da_last d"
    using da_call_simps [of "dnoted (DSent ?out) (dp_Send g ?out)" d] by simp_all
  have r: "r = fst (dp_Send g ?out (fst (da_world d)))" using da_call_simps(1) [of "dnoted (DSent ?out) (dp_Send g ?out)" d] c by simp
  show ?thesis
  proof (cases r)
    case (Inl e)
    show ?thesis
      by (rule accounted_step [OF acc, of _ "[DSent ?out r]"]) (use acc c d1 Inl in \<open>simp_all add: create_message_def accounted_def\<close>)
  next
    case (Inr i)
    then have "i \<noteq> 0" using ids [of ?out "fst (da_world d)" i] r by (metis prod.collapse)
    let ?d = "snd (create_message (dlogged g) t h d)" and ?cs = "[DPinned i (fst (dp_Pin g i (fst (da_world d1)))), DSent ?out r]"
    have l: "da_log ?d = ?cs @ da_log d" and s: "da_id ?d = i" "da_hasMessage ?d = True" "da_since ?d = da_since d" "da_last ?d = da_last d"
      using c d1 Inr \<open>i \<noteq> 0\<close> setID_simps [of "dlogged g" i] by (simp_all add: create_message_def split_beta Let_def DashboardID_def)
    have "settled (da_log ?d) (da_id d)" if "settled (da_log d) (da_id d)" using that unfolding l by (auto simp: settled_def)
    then show ?thesis
      by (intro accounted_step [OF acc l]) (use free s Inr \<open>i \<noteq> 0\<close> in auto)
  qed
qed

lemma mark_off_quiet:
  assumes "accounted d" "i = da_id d" shows "accounted (snd (mark_off (dlogged g) i d))"
proof -
  obtain r d1 where c: "da_call (dnoted (DEdited i dashboardOffText) (dp_EditText g i dashboardOffText)) d = (r, d1)" by fastforce
  then have d1: "da_log d1 = DEdited i dashboardOffText r # da_log d" "da_id d1 = da_id d" "da_hasMessage d1 = da_hasMessage d"
      "da_since d1 = da_since d" "da_last d1 = da_last d"
    using da_call_simps [of "dnoted (DEdited i dashboardOffText) (dp_EditText g i dashboardOffText)" d] by simp_all
  show ?thesis
    by (rule accounted_step [OF assms(1), of _ "[DEdited i dashboardOffText r]"])
      (use c d1 assms in \<open>auto simp: mark_off_def settled_def accounted_def split: option.split\<close>)
qed


text \<open>A call that sends nothing and a change of fields that are not accounted for.\<close>

lemma accounted_call:
  assumes "accounted d" "\<And>x out r. DSent out r \<noteq> c x"
  shows "accounted (snd (da_call (dnoted c f) d))"
proof (rule accounted_step [OF assms(1), of _ "[c (fst (f (fst (da_world d))))]"])
  show "da_log (snd (da_call (dnoted c f) d)) = [c (fst (f (fst (da_world d))))] @ da_log d" by simp
qed (use assms in \<open>simp_all add: accounted_def\<close>)

lemma accounted_same:
  assumes "accounted d" "da_log d' = da_log d" "da_id d' = da_id d" "da_hasMessage d' = da_hasMessage d"
    "da_since d' = da_since d" "da_last d' = da_last d"
  shows "accounted d'"
  by (rule accounted_step [OF assms(1), of _ "[]"]) (use assms in \<open>auto simp: accounted_def\<close>)

lemma accounted_now [simp]: "accounted d \<Longrightarrow> accounted (snd (da_call (unnoted f) d))"
  by (erule accounted_same) simp_all

lemma accounted_forget:
  assumes "accounted d" "settled (da_log d) (da_id d)"
  shows "accounted (forget_message (dlogged g) d)"
  by (rule accounted_step [OF assms(1), of _ "[]"]) (use assms in simp_all)

lemma remove_accounted:
  assumes "accounted d" "i = da_id d" shows "accounted (snd (remove_message (dlogged g) i d))"
proof -
  obtain x d1 where c1: "da_call (dnoted (DUnpinned i) (dp_Unpin g i)) d = (x, d1)" by fastforce
  then have acc1: "accounted d1" and id1: "da_id d1 = i"
    using accounted_call [OF assms(1), of "DUnpinned i" "dp_Unpin g i"] da_call_simps(3) [of "dnoted (DUnpinned i) (dp_Unpin g i)" d] assms(2)
    by simp_all
  obtain r d2 where c2: "da_call (dnoted (DDeleted i) (dp_DeleteMessage g i)) d1 = (r, d2)" by fastforce
  then have acc2: "accounted d2" and id2: "da_id d2 = i" and l2: "da_log d2 = DDeleted i r # da_log d1"
    using accounted_call [OF acc1, of "DDeleted i" "dp_DeleteMessage g i"] da_call_simps [of "dnoted (DDeleted i) (dp_DeleteMessage g i)" d1] id1
    by simp_all
  have f: "accounted (forget_message (dlogged g) d2)" if "r = None \<or> r = Some ErrMessageGone"
    using accounted_forget [OF acc2] that id2 l2 by (auto simp: settled_def)
  show ?thesis using c1 c2 acc2 f mark_off_quiet [OF acc2] id2 by (auto simp: remove_message_def split: option.split)
qed

lemma refresh_accounted:
  assumes acc: "accounted d" and ids: "\<And>out w m w'. dp_Send g out w = (Inr m, w') \<Longrightarrow> m \<noteq> 0"
  shows "accounted (snd (refresh (dlogged g) d))"
proof -
  obtain v d1 where v: "dash_view (dlogged g) d = (v, d1)" by fastforce
  then have d1: "accounted d1" "da_id d1 = da_id d" using acc by (auto simp: dash_view_def Let_def split_beta)
  have edit: "accounted (snd (case da_call (dnoted (DEdited i t) (dp_EditText g i t)) d1 of
                 (None, d2) \<Rightarrow> (None, d2\<lparr>da_hash := h\<rparr>)
               | (Some e, d2) \<Rightarrow> if e = ErrMessageGone then create_message (dlogged g) u h d2 else (da_failed e, d2)))"
    if i: "i = da_id d1" for i t u h
  proof -
    obtain r d2 where c: "da_call (dnoted (DEdited i t) (dp_EditText g i t)) d1 = (r, d2)" by fastforce
    then have acc2: "accounted d2" and l2: "da_log d2 = DEdited i t r # da_log d1" "da_id d2 = da_id d1"
      using accounted_call [OF d1(1), of "DEdited i t" "dp_EditText g i t"] da_call_simps [of "dnoted (DEdited i t) (dp_EditText g i t)" d1]
      by simp_all
    have "accounted (snd (create_message (dlogged g) u h d2))" if "r = Some ErrMessageGone"
      by (rule accounted_create [OF acc2 _ ids]) (use l2 that i in \<open>auto simp: settled_def\<close>)
    moreover have "accounted (d2\<lparr>da_hash := h\<rparr>)" by (rule accounted_same [OF acc2]) simp_all
    ultimately show ?thesis using c acc2 by (auto split: option.split)
  qed
  show ?thesis
  proof (cases "da_enabled (dlogged g) d")
    case False
    then show ?thesis using acc remove_accounted [OF acc] by (simp add: refresh_def Let_def)
  next
    case True
    have "accounted (snd (create_message (dlogged g) u h d1))" if "da_id d = 0" for u h
      by (rule accounted_create [OF d1(1) _ ids]) (simp_all add: d1(2) that)
    then show ?thesis using edit [of "da_id d"] d1 v True by (simp add: refresh_def Let_def)
  qed
qed

lemma Repin_accounted: "accounted d \<Longrightarrow> accounted (Repin (dlogged g) d)"
proof -
  assume acc: "accounted d"
  obtain r d1 where c: "da_call (dnoted (DPinned (da_id d)) (dp_Pin g (da_id d))) d = (r, d1)" by fastforce
  then have acc1: "accounted d1" and l1: "da_log d1 = DPinned (da_id d) r # da_log d" "da_id d1 = da_id d"
    using accounted_call [OF acc, of "DPinned (da_id d)" "dp_Pin g (da_id d)"]
      da_call_simps [of "dnoted (DPinned (da_id d)) (dp_Pin g (da_id d))" d] by simp_all
  have "accounted ((setID (dlogged g) 0 d1)\<lparr>da_hash := []\<rparr>)" if "r = Some ErrMessageGone"
    using accounted_forget [OF acc1, of g] that l1 by (auto simp: settled_def forget_message_def)
  moreover have "accounted (snd (pin (dlogged g) i d1))" for i
    by (rule accounted_step [OF acc1, of _ "[DPinned i (fst (dp_Pin g i (fst (da_world d1))))]"]) (use acc1 in \<open>auto simp: accounted_def\<close>)
  ultimately show ?thesis using acc acc1 c by (auto simp: Repin_def Let_def split: option.split)
qed

lemma Schedule_accounted: "accounted d \<Longrightarrow> accounted (Dashboard_Schedule (dlogged g) d)"
proof -
  assume acc: "accounted d"
  let ?n = "da_call (unnoted (dp_Now g)) d"
  have "accounted ((snd ?n)\<lparr>da_deb := Schedule dashboardKey (fst ?n) (da_deb (snd ?n))\<rparr>)"
    by (rule accounted_same [OF accounted_now [OF acc, of "dp_Now g"]]) simp_all
  then show ?thesis using acc by (simp add: Dashboard_Schedule_def split_beta Let_def)
qed

lemma Observe_accounted: "accounted d \<Longrightarrow> accounted (Dashboard_Observe (dlogged g) ev d)"
proof -
  assume acc: "accounted d"
  have "accounted (note_status (dlogged g) ev d)"
    using acc accounted_now [OF acc, of "dp_Now g"]
    by (cases "ae_Kind ev") (auto simp: note_status_def Let_def split_beta accounted_def update_conv)
  then show ?thesis by (simp add: Dashboard_Observe_def Schedule_accounted)
qed

lemma Stop_accounted: "accounted d \<Longrightarrow> accounted (Dashboard_Stop (dlogged g) d)"
proof -
  assume acc: "accounted d"
  let ?d = "d\<lparr>da_deb := snd (Cancel dashboardKey (da_deb d))\<rparr>"
  have "accounted ?d" by (rule accounted_same [OF acc]) simp_all
  then have "accounted (snd (dash_view (dlogged g) ?d))" by (simp add: dash_view_def Let_def split_beta)
  then show ?thesis using acc
    by (auto simp: Dashboard_Stop_def Let_def split_beta intro!: accounted_call)
qed


section \<open>Runs\<close>

text \<open>
  The states of a dashboard under every interleaving of events, timers, ticks and the start and stop of the daemon;
  \<open>outside\<close> is everything else: the world moves, the timer fires, the reconciler works on the topics.
\<close>

inductive dash_run :: "'w DashPorts \<Rightarrow> 'w dlogged Dashboard \<Rightarrow> 'w dlogged Dashboard \<Rightarrow> bool" for g d0 where
  start: "dash_run g d0 d0"
| observe: "dash_run g d0 d \<Longrightarrow> dash_run g d0 (Dashboard_Observe (dlogged g) ev d)"
| schedule: "dash_run g d0 d \<Longrightarrow> dash_run g d0 (Dashboard_Schedule (dlogged g) d)"
| refresh: "dash_run g d0 d \<Longrightarrow> dash_run g d0 (snd (refresh (dlogged g) d))"
| repin: "dash_run g d0 d \<Longrightarrow> dash_run g d0 (Repin (dlogged g) d)"
| stop: "dash_run g d0 d \<Longrightarrow> dash_run g d0 (Dashboard_Stop (dlogged g) d)"
| outside: "dash_run g d0 d \<Longrightarrow> DashboardID r = da_id d \<Longrightarrow> snd (rc_world r) = da_log d
    \<Longrightarrow> dash_run g d0 (d\<lparr>da_rec := r, da_deb := deb\<rparr>)"

lemma run_accounted:
  assumes ids: "\<And>out w m w'. dp_Send g out w = (Inr m, w') \<Longrightarrow> m \<noteq> 0"
  shows "dash_run g d0 d \<Longrightarrow> accounted d0 \<Longrightarrow> accounted d"
proof (induction rule: dash_run.induct)
  case (outside d r deb)
  then have "accounted d" by simp
  then show ?case by (rule accounted_same) (use outside in simp_all)
qed (simp_all add: Observe_accounted Schedule_accounted refresh_accounted [OF _ ids] Repin_accounted Stop_accounted)


text \<open>A group in which every call succeeds, the overview switched on, one agent at work; the message is lost once.\<close>

definition dash_ports :: "int DashPorts" where
  "dash_ports =
     \<lparr>dp_Send = (\<lambda>out n. (Inr (\<bar>n\<bar> + 1), n)), dp_EditText = (\<lambda>i t n. (if n = 5 then Some ErrMessageGone else None, n + 1)),
      dp_Pin = (\<lambda>i n. (None, n)), dp_Unpin = (\<lambda>i n. (None, n)), dp_DeleteMessage = (\<lambda>i n. (None, n)), dp_Now = (\<lambda>n. (n, n)),
      dp_live = (\<lambda>n. []), dp_options = (\<lambda>n. DefaultOptions\<lparr>op_values := [(OptionSyncDashboard, ''true'')]\<rparr>),
      dp_presence = (\<lambda>n. None), dp_chatID = 5, dp_Format = (\<lambda>l t. []), dp_hash = (\<lambda>t. CHR ''#'' # t),
      dp_gw = \<lparr>gw_CreateTopic = (\<lambda>n s w. (Inl ErrForbidden, w)), gw_EditTopic = (\<lambda>i p w. (None, w)), gw_CloseTopic = (\<lambda>i w. (None, w)),
        gw_ReopenTopic = (\<lambda>i w. (None, w)), gw_DeleteTopic = (\<lambda>i w. (None, w)), gw_Send = (\<lambda>out w. (Inl ErrForbidden, w)),
        gw_Rename = (\<lambda>p n w. (None, w)), gw_RenameTab = (\<lambda>i n w. (None, w)), gw_Save = (\<lambda>m w. (None, w)), gw_Now = (\<lambda>w. (w, w)),
        gw_paused = (\<lambda>w. False), gw_quiet = (\<lambda>w. False), gw_ErrorText = (\<lambda>e. [])\<rparr>\<rparr>"

definition dash_start :: "int dlogged Dashboard" where
  "dash_start = NewDashboard (NewReconciler (NewMapping 5) (5, []))"

definition dash_shown :: "int dlogged Dashboard" where
  "dash_shown = snd (refresh (dlogged dash_ports) dash_start)"


end
