(* ===== verification/Redact_Safety.thy ===== *)
theory Redact_Safety
  imports Redact Outbound_Safety
begin

text \<open>
  No exact secret survives: between two marks or ellipses the masked text is a contiguous piece of the text before, so a
  secret that contains none of their bytes can only occur where it occurred already.
\<close>

section \<open>Substrings\<close>

text \<open>A secret of ASCII characters without brackets, as every bot token is.\<close>

definition plain :: "string \<Rightarrow> bool" where
  "plain s \<longleftrightarrow> list_all (\<lambda>c. byte c < 128 \<and> c \<noteq> CHR ''['' \<and> c \<noteq> CHR '']'') s"

lemma Contains_sublist: "Contains t s \<longleftrightarrow> sublist s t"
  by (simp add: Contains_iff sublist_def)

lemma sublist_split:
  assumes "a \<notin> set s" "sublist s (xs @ a # ys)" shows "sublist s xs \<or> sublist s ys"
proof -
  have pre: "s2 = []" if "prefix s2 (a # ys)" "set s2 \<subseteq> set s" for s2
    using that assms(1) by (cases s2) auto
  from assms(2) consider "sublist s xs" | "sublist s (a # ys)" | s1 s2 where "s = s1 @ s2" "suffix s1 xs" "prefix s2 (a # ys)"
    unfolding sublist_append by blast
  then show ?thesis
  proof cases
    case 2
    then show ?thesis using pre [of s] by (auto simp: sublist_Cons_right)
  next
    case 3
    then show ?thesis using pre [of s2] by auto
  qed simp
qed

lemma sublist_mark:
  assumes "plain s" "sublist s (xs @ redactedMark @ ys)" shows "sublist s xs \<or> sublist s ''redacted'' \<or> sublist s ys"
proof -
  have b: "CHR ''['' \<notin> set s" "CHR '']'' \<notin> set s" using assms(1) by (auto simp: plain_def list_all_iff)
  have "sublist s (xs @ CHR ''['' # (''redacted'' @ CHR '']'' # ys))" using assms(2) by (simp add: redactedMark_def)
  then have "sublist s xs \<or> sublist s (''redacted'' @ CHR '']'' # ys)" by (rule sublist_split [OF b(1)])
  then show ?thesis using sublist_split [OF b(2)] by blast
qed

lemma sublist_ellipsis:
  assumes "plain s" "sublist s (xs @ ellipsis_rune @ ys)" shows "sublist s xs \<or> sublist s ys"
proof -
  have b: "CHR 0xE2 \<notin> set s" "CHR 0x80 \<notin> set s" "CHR 0xA6 \<notin> set s"
  proof -
    have a: "\<And>c. c \<in> set s \<Longrightarrow> byte c < 128" using assms(1) by (simp add: plain_def list_all_iff)
    have "\<not> byte (CHR 0xE2) < 128" "\<not> byte (CHR 0x80) < 128" "\<not> byte (CHR 0xA6) < 128" by code_simp+
    then show "CHR 0xE2 \<notin> set s" "CHR 0x80 \<notin> set s" "CHR 0xA6 \<notin> set s" using a by blast+
  qed
  have "sublist s (xs @ CHR 0xE2 # ([CHR 0x80] @ CHR 0xA6 # ys))" using assms(2) by (simp only: ellipsis_rune_def append.simps)
  from sublist_split [OF b(1) this] sublist_split [OF b(3), of "[CHR 0x80]" ys]
  have "sublist s xs \<or> sublist s ([] @ CHR 0x80 # []) \<or> sublist s ys" by (simp only: append_Nil) blast
  with sublist_split [OF b(2), of "[]" "[]"] have "sublist s xs \<or> sublist s [] \<or> sublist s ys" by blast
  then show ?thesis by (metis sublist_Nil_right sublist_code(1))
qed

lemma suffix_sublist: "suffix u v \<Longrightarrow> sublist s (u @ w) \<Longrightarrow> sublist s (v @ w)"
  unfolding suffix_def sublist_def by (metis append.assoc)

section \<open>The rules\<close>

lemma span_append: "i \<le> j \<Longrightarrow> j \<le> k \<Longrightarrow> span t i j @ span t j k = span t i k"
proof -
  assume le: "i \<le> j" "j \<le> k"
  then have "take (k - i) (drop i t) = take (j - i) (drop i t) @ take (k - j) (drop j t)"
    using take_add [of "j - i" "k - j" "drop i t"] by simp
  then show ?thesis by (simp add: span_def)
qed

lemma span_all: "span t 0 (length t) = concat t"
  by (simp add: span_def)

lemma span_sublist: "i \<le> length t \<Longrightarrow> sublist s (span t 0 i) \<Longrightarrow> sublist s (concat t)"
  using span_append [of 0 i "length t" t] by (metis le0 span_all sublist_appendI sublist_order.order.trans sublist_append_rightI)

definition grouped :: "redactRule \<Rightarrow> nat list \<Rightarrow> bool" where
  "grouped rule ps \<longleftrightarrow>
     (case rr_mode rule of
        redactWhole \<Rightarrow> True
      | redactKeepEnds \<Rightarrow> length ps > 2 \<and> ps ! 1 = hd ps
      | redactKeyValue \<Rightarrow> length ps > 3 \<and> ps ! 1 = hd ps)"

lemma nth_le_last: "sorted ps \<Longrightarrow> n < length ps \<Longrightarrow> ps ! n \<le> last ps"
  using sorted_nth_mono [of ps n "length ps - 1"] by (cases "ps = []") (simp_all add: last_conv_nth)

lemma hd_le_nth: "sorted ps \<Longrightarrow> n < length ps \<Longrightarrow> hd ps \<le> ps ! n"
  using sorted_nth_mono [of ps 0 n] by (cases ps) simp_all

lemma rewrite_clean:
  assumes "plain s"
  shows "matches_ok (Suc k) (length t) i pss \<Longrightarrow> list_all (grouped rule) pss \<Longrightarrow> suffix u (span t 0 i)
    \<Longrightarrow> sublist s (u @ rewrite rule t i pss) \<Longrightarrow> sublist s (concat t) \<or> sublist s ''redacted''"
proof (induction pss arbitrary: i u)
  case Nil
  then have "sublist s (span t 0 i @ span t i (length t))" using suffix_sublist by fastforce
  then show ?case using Nil.prems(1) span_append [of 0 i "length t" t] span_all [of t] by simp
next
  case (Cons ps pss)
  let ?h = "hd ps" and ?l = "last ps" and ?R = "rewrite rule t (last ps) pss"
  have ok: "sorted ps" "ps \<noteq> []" "\<forall>p\<in>set ps. p \<le> length t" "i \<le> ?h" "i < ?l" "matches_ok (Suc k) (length t) ?l pss"
    using Cons.prems(1) by (auto simp: spans_ok_def)
  then have l: "?h \<le> ?l" "?l \<le> length t" using hd_le_nth [of ps "length ps - 1"] by (simp_all add: last_conv_nth)
  let ?u = "u @ span t i ?h"
  have u: "suffix ?u (span t 0 ?h)"
    using Cons.prems(3) span_append [of 0 i ?h t] ok(4) by (metis le0 same_suffix_suffix)
  have rest: "sublist s (v @ ?R) \<Longrightarrow> suffix v (span t 0 ?l) \<Longrightarrow> sublist s (concat t) \<or> sublist s ''redacted''" for v
    using Cons.IH [OF ok(6)] Cons.prems(2) by simp
  have upto: "sublist s (?u @ span t ?h j) \<Longrightarrow> ?h \<le> j \<Longrightarrow> j \<le> length t \<Longrightarrow> sublist s (concat t)" for j
    using suffix_sublist [OF u, of s "span t ?h j"] span_append [of 0 ?h j t] span_sublist by simp
  have marked: "sublist s (?u @ span t ?h j @ redactedMark @ ?R) \<Longrightarrow> ?h \<le> j \<Longrightarrow> j \<le> length t
      \<Longrightarrow> sublist s (concat t) \<or> sublist s ''redacted''" for j
    using sublist_mark [OF assms, of "?u @ span t ?h j" ?R] upto [of j] rest [of "[]"] by auto
  have s: "sublist s (?u @ replacement rule t ps @ ?R)" using Cons.prems(4) by simp
  have g: "grouped rule ps" using Cons.prems(2) by simp
  show ?case
  proof (cases "rr_mode rule")
    case redactWhole
    then show ?thesis using s marked [of ?h] l by (simp add: replacement_def span_def)
  next
    case redactKeyValue
    then have n: "3 < length ps" "ps ! 1 = ?h" using g by (simp_all add: grouped_def)
    have "?h \<le> ps ! 2" "ps ! 2 \<le> ps ! 3" "ps ! 3 \<le> length t" using ok(1,3) n
      by (auto intro: hd_le_nth sorted_nth_mono)
    moreover have "replacement rule t ps = (span t ?h (ps ! 2) @ span t (ps ! 2) (ps ! 3)) @ redactedMark"
      using redactKeyValue n by (simp add: replacement_def)
    ultimately have "replacement rule t ps = span t ?h (ps ! 3) @ redactedMark" by (simp only: span_append)
    then show ?thesis using s marked [of "ps ! 3"] \<open>?h \<le> ps ! 2\<close> \<open>ps ! 2 \<le> ps ! 3\<close> \<open>ps ! 3 \<le> length t\<close> by simp
  next
    case redactKeepEnds
    then have n: "2 < length ps" "ps ! 1 = ?h" using g by (simp_all add: grouped_def)
    have p2: "?h \<le> ps ! 2" "ps ! 2 \<le> length t" using ok(1,3) n by (auto intro: hd_le_nth)
    let ?w = "span t ?h ?l" and ?pre = "span t ?h (ps ! 2)"
    let ?tail = "drop (length ?w - keepEndsTail) ?w"
    show ?thesis
    proof (cases "length ?w < length ?pre + 2 * keepEndsTail")
      case True
      then show ?thesis using s marked [of ?h] l redactKeepEnds n by (simp add: replacement_def Let_def span_def)
    next
      case False
      then have "sublist s ((?u @ ?pre) @ ellipsis_rune @ ?tail @ ?R)" using s redactKeepEnds n by (simp add: replacement_def Let_def)
      then consider "sublist s (?u @ ?pre)" | "sublist s (?tail @ ?R)" using sublist_ellipsis [OF assms] by blast
      then show ?thesis
      proof cases
        case 1
        then show ?thesis using upto [of "ps ! 2"] p2 by blast
      next
        case 2
        have "suffix ?tail ?w" by (rule suffix_drop)
        also have "suffix ?w (span t 0 ?l)" using span_append [of 0 ?h ?l t] l by (metis le0 suffixI)
        finally show ?thesis using rest [OF 2] by blast
      qed
    qed
  qed
qed


section \<open>Groups\<close>

lemma parts_at_boundary: "parts_at (At p # rs) t i = Some ps \<Longrightarrow> rs \<noteq> [] \<Longrightarrow> ps ! 1 = hd ps"
proof -
  assume m: "parts_at (At p # rs) t i = Some ps"
  from m obtain j qs where j: "j \<in> set (ends (At p) t i)" "parts_at rs t j = Some qs" "ps = i # qs" by (rule parts_at_ConsE)
  then have "j = i" by (simp split: if_splits)
  then show ?thesis using parts_at_hd [OF j(2)] j(3) by (cases qs) simp_all
qed

lemma find_boundary: "find_from n (At p # rs) t i = Some ps \<Longrightarrow> rs \<noteq> [] \<Longrightarrow> ps ! 1 = hd ps"
proof (induction n arbitrary: i)
  case 0
  then have "parts_at (At p # rs) t i = Some ps" by simp
  then show ?case using parts_at_boundary 0(2) by blast
next
  case (Suc n)
  show ?case
  proof (cases "parts_at (At p # rs) t i")
    case None
    then have "find_from n (At p # rs) t (Suc i) = Some ps" using Suc.prems(1) by simp
    then show ?thesis using Suc.IH Suc.prems(2) by blast
  next
    case (Some qs)
    then have "parts_at (At p # rs) t i = Some ps" using Suc.prems(1) by simp
    then show ?thesis using parts_at_boundary Suc.prems(2) by blast
  qed
qed

lemma find_all_boundary: "rs \<noteq> [] \<Longrightarrow> list_all (\<lambda>ps. ps ! 1 = hd ps) (find_all n (At p # rs) t i)"
proof (induction n arbitrary: i)
  case (Suc n)
  show ?case
  proof (cases "find_at (At p # rs) t i")
    case (Some ps)
    then have "ps ! 1 = hd ps" using find_boundary Suc.prems unfolding find_at_def by blast
    then show ?thesis using Some Suc by simp
  qed simp
qed simp

lemma matches_length: "matches_ok k m i pss \<Longrightarrow> list_all (\<lambda>ps. length ps = k) pss"
  by (induction pss arbitrary: i) (auto simp: spans_ok_def)

definition rule_ok :: "redactRule \<Rightarrow> bool" where
  "rule_ok rule \<longleftrightarrow> rr_mode rule = redactWhole
     \<or> (\<exists>p rs. rr_parts rule = At p # rs \<and> length rs \<ge> (if rr_mode rule = redactKeyValue then 3 else 2))"

lemma rule_grouped: "rule_ok rule \<Longrightarrow> list_all (grouped rule) (FindAll (rr_parts rule) t)"
proof (cases "rr_mode rule = redactWhole")
  case True
  then show ?thesis by (simp add: grouped_def list_all_iff)
next
  case False
  assume "rule_ok rule"
  then obtain p rs where p: "rr_parts rule = At p # rs" "length rs \<ge> (if rr_mode rule = redactKeyValue then 3 else 2)"
    using False by (auto simp: rule_ok_def)
  then have "rs \<noteq> []" by (auto split: if_splits)
  then have "list_all (\<lambda>ps. ps ! 1 = hd ps) (FindAll (rr_parts rule) t)" unfolding FindAll_def p(1) by (rule find_all_boundary)
  moreover have "list_all (\<lambda>ps. length ps = Suc (length (rr_parts rule))) (FindAll (rr_parts rule) t)"
    using matches_length [OF FindAll_ok] .
  ultimately show ?thesis using p
    by (auto simp: grouped_def list_all_iff split: redactMode.splits if_splits)
qed

lemma rules_ok: "list_all rule_ok redactRules"
  by (simp add: redactRules_def rule_ok_def rule_privatekey_def rule_telegram_def rule_keyvalue_def keep_ends_def word_boundary_def)

lemma chunks_concat: "concat (rune_chunks t) = t"
  by (induction t rule: rune_chunks.induct) (simp_all add: Let_def)

lemma apply_rule_clean:
  assumes "plain s" "rule_ok rule" "\<not> sublist s (fst ts)" "\<not> sublist s ''redacted''"
  shows "\<not> sublist s (fst (apply_rule rule ts))"
proof
  assume c: "sublist s (fst (apply_rule rule ts))"
  let ?t = "rune_chunks (fst ts)"
  have "sublist s (fst ts) \<or> sublist s ''redacted''"
  proof (cases "FindAll (rr_parts rule) ?t = []")
    case True
    then show ?thesis using c by (simp add: apply_rule_def Let_def)
  next
    case False
    then have "sublist s ([] @ rewrite rule ?t 0 (FindAll (rr_parts rule) ?t))" using c by (simp add: apply_rule_def Let_def)
    then show ?thesis
      using rewrite_clean [where u = "[]" and t = ?t, OF assms(1) FindAll_ok rule_grouped [OF assms(2)]] by (simp add: chunks_concat)
  qed
  then show False using assms(3,4) by simp
qed

section \<open>Exact secrets\<close>

lemma replace_clean:
  "plain s \<Longrightarrow> s \<noteq> [] \<Longrightarrow> \<not> sublist s ''redacted'' \<Longrightarrow> (\<And>k. k < length u \<Longrightarrow> \<not> prefix s (drop k (u @ t))) \<Longrightarrow> \<not> sublist s (u @ ReplaceAll t s redactedMark)"
proof (induction t s redactedMark arbitrary: u rule: ReplaceAll.induct)
  case (1 old)
  show ?case
  proof
    assume "sublist old (u @ ReplaceAll [] old redactedMark)"
    then obtain a b where "u = a @ old @ b" by (auto simp: sublist_def)
    then have "length a < length u" "prefix old (drop (length a) (u @ []))" using 1(2) by simp_all
    then show False using 1(4) by blast
  qed
next
  case (2 c t old)
  show ?case
  proof (cases "prefix old (c # t)")
    case True
    have "\<not> sublist old u"
    proof
      assume "sublist old u"
      then obtain a b where "u = a @ old @ b" by (auto simp: sublist_def)
      then have "length a < length u" "prefix old (drop (length a) (u @ c # t))" using 2(4) by simp_all
      then show False using 2(6) by blast
    qed
    moreover have "\<not> sublist old ([] @ ReplaceAll (drop (length old) (c # t)) old redactedMark)"
      by (rule 2(1)) (use True 2(3-5) in simp_all)
    ultimately show ?thesis using sublist_mark [OF 2(3)] True 2(4) 2(5) by auto
  next
    case False
    have "\<not> prefix old (drop k ((u @ [c]) @ t))" if "k < length (u @ [c])" for k
    proof (cases "k < length u")
      case True
      then show ?thesis using 2(6) [of k] by simp
    next
      case b: False
      then have "k = length u" using that by simp
      then show ?thesis using False by simp
    qed
    then have "\<not> sublist old ((u @ [c]) @ ReplaceAll t old redactedMark)" using 2(2) 2(3-5) False by blast
    then show ?thesis using False by simp
  qed
qed

lemma replace_keeps_clean:
  assumes s: "plain s"
  shows "suffix u v \<Longrightarrow> sublist s (u @ ReplaceAll t old redactedMark) \<Longrightarrow> sublist s (v @ t) \<or> sublist s ''redacted''"
proof (induction t old redactedMark arbitrary: u v rule: ReplaceAll.induct)
  case (1 old)
  then show ?case using suffix_sublist [of u v s "[]"] by simp
next
  case (2 c t old)
  show ?case
  proof (cases "old \<noteq> [] \<and> prefix old (c # t)")
    case True
    then have "sublist s (u @ redactedMark @ ReplaceAll (drop (length old) (c # t)) old redactedMark)" using 2(4) by simp
    then consider "sublist s u" | "sublist s ''redacted''" | "sublist s ([] @ ReplaceAll (drop (length old) (c # t)) old redactedMark)"
      using sublist_mark [OF s] by fastforce
    then show ?thesis
    proof cases
      case 1
      then have "sublist s (v @ [])" using suffix_sublist [OF 2(3), of s "[]"] by simp
      then show ?thesis by (metis append_Nil2 sublist_append)
    next
      case 3
      have "suffix [] (v @ take (length old) (c # t))" by simp
      then have "sublist s ((v @ take (length old) (c # t)) @ drop (length old) (c # t)) \<or> sublist s ''redacted''"
        using 2(1) [OF True] 3 by blast
      then show ?thesis by (metis append.assoc append_take_drop_id)
    qed simp
  next
    case False
    then have e: "ReplaceAll (c # t) old redactedMark = c # ReplaceAll t old redactedMark" by auto
    have "suffix (u @ [c]) (v @ [c])" using 2(3) by (simp add: suffix_def)
    moreover have "sublist s ((u @ [c]) @ ReplaceAll t old redactedMark)" using 2(4) e by simp
    ultimately have "sublist s ((v @ [c]) @ t) \<or> sublist s ''redacted''" using 2(2) [OF False] by blast
    then show ?thesis by simp
  qed
qed


section \<open>Redaction\<close>

definition maskable :: "string \<Rightarrow> bool" where
  "maskable s \<longleftrightarrow> plain s \<and> length s \<ge> exactMinLen \<and> s \<noteq> ''redacted''"

lemma maskable_D:
  assumes "maskable s" shows "plain s" "s \<noteq> []" "\<not> sublist s ''redacted''"
proof -
  show p: "plain s" and ne: "s \<noteq> []" using assms by (auto simp: maskable_def exactMinLen_def)
  show "\<not> sublist s ''redacted''"
  proof
    assume "sublist s ''redacted''"
    then obtain a b where ab: "''redacted'' = a @ s @ b" by (auto simp: sublist_def)
    have "length s \<ge> 8" using assms by (simp add: maskable_def exactMinLen_def)
    moreover have "length (a @ s @ b) = 8" using arg_cong [OF ab, of length] by simp
    ultimately have "length a + (length s + length b) = 8" "length s \<ge> 8" by (simp_all only: length_append)
    then have "length a = 0" "length b = 0" by linarith+
    then have "a = []" "b = []" by simp_all
    then show False using ab assms by (simp add: maskable_def)
  qed
qed

lemma Count_sublist: "s \<noteq> [] \<Longrightarrow> sublist s t \<Longrightarrow> Count t s > 0"
proof (induction t)
  case (Cons c t)
  show ?case
  proof (cases "prefix s (c # t)")
    case False
    then have "sublist s t" using Cons.prems by (auto simp: sublist_Cons_right)
    then show ?thesis using Cons False by simp
  qed (simp add: Cons.prems)
qed simp

lemma apply_exact_own: "maskable s \<Longrightarrow> \<not> sublist s (fst (apply_exact s ts))"
proof -
  assume m: "maskable s"
  have "\<not> sublist s ([] @ ReplaceAll (fst ts) s redactedMark)" by (rule replace_clean) (use maskable_D [OF m] in simp_all)
  then show ?thesis using Count_sublist [OF maskable_D(2) [OF m], of "fst ts"] by (auto simp: apply_exact_def Let_def)
qed

lemma apply_exact_keeps: "maskable s \<Longrightarrow> \<not> sublist s (fst ts) \<Longrightarrow> \<not> sublist s (fst (apply_exact x ts))"
  using replace_keeps_clean [OF maskable_D(1), of s "[]" "[]" "fst ts" x] maskable_D(3) by (auto simp: apply_exact_def Let_def)

lemma exacts_clean: "maskable s \<Longrightarrow> s \<in> set red \<or> \<not> sublist s (fst ts) \<Longrightarrow> \<not> sublist s (fst (fold apply_exact red ts))"
proof (induction red arbitrary: ts)
  case (Cons x red)
  then have "s \<in> set red \<or> \<not> sublist s (fst (apply_exact x ts))" 
    using apply_exact_own [OF Cons.prems(1), of ts] apply_exact_keeps [OF Cons.prems(1), of ts x] by auto
  then show ?case using Cons.IH [OF Cons.prems(1)] by simp
qed simp

lemma rules_clean: "maskable s \<Longrightarrow> list_all rule_ok rs \<Longrightarrow> \<not> sublist s (fst ts) \<Longrightarrow> \<not> sublist s (fst (fold apply_rule rs ts))"
  by (induction rs arbitrary: ts) (simp_all add: apply_rule_clean maskable_D)

lemma Redact_clean: "maskable s \<Longrightarrow> s \<in> set secrets \<Longrightarrow> \<not> Contains (redact_text (NewRedactor secrets) t) s"
proof -
  assume m: "maskable s" and s: "s \<in> set secrets"
  then have r: "s \<in> set (NewRedactor secrets)" by (simp add: NewRedactor_def maskable_def)
  have "\<not> sublist s (fst (fold apply_rule redactRules (fold apply_exact (NewRedactor secrets) (t, []))))"
    using exacts_clean [OF m, of "NewRedactor secrets" "(t, [])"] r by (intro rules_clean [OF m rules_ok]) blast
  moreover have "\<not> sublist s []" using maskable_D(2) [OF m] by simp
  ultimately show ?thesis by (auto simp: redact_text_def Redact_def Contains_sublist)
qed



text \<open>A post that shows the token of the bot, on a desk with the options as shipped.\<close>

definition sample_token :: string where "sample_token = ''123456:A''"

definition leaking :: Outgoing where
  "leaking = text_message 0 (''T='' @ sample_token)"


end
