(* ===== verification/Call_Queue.thy ===== *)
theory Call_Queue
  imports Errors
begin

text \<open>
  The serial queue of Telegram calls (\<^verbatim>\<open>internal/adapters/telegram/queue.go\<close>) and the classification
  of its errors (\<^verbatim>\<open>internal/adapters/telegram/errors.go\<close>). The clock, the sleeps, the contexts and the
  answers of the API are the environment: they are arguments. The goroutine runs one job at a time,
  so the ring of attempt times is plain state.
\<close>

section \<open>Errors of a call\<close>

text \<open>What the bot library answers, by the classes the adapter tells apart.\<close>

datatype lib_error =
    TooManyRequestsError int string
  | MigrateError int
  | ErrorForbidden | ErrorUnauthorized | ErrorNotFound | ErrorConflict
  | ErrorBadRequest string
  | ContextCanceled
  | LibOther string

datatype sentinel = Domain error | ErrTopicNotModified | ErrMessageNotModified

text \<open>A raw library error, one wrapped in a sentinel, or an \<^verbatim>\<open>APIError\<close> (which keeps the library error).\<close>

datatype call_error =
    Raw lib_error
  | Wrapped sentinel lib_error
  | APIError int string duration lib_error

fun cause :: "call_error \<Rightarrow> lib_error" where
  "cause (Raw l) = l"
| "cause (Wrapped s l) = l"
| "cause (APIError code desc ra l) = l"

fun is_domain :: "call_error \<Rightarrow> error option" where
  "is_domain (Wrapped (Domain e) l) = Some e"
| "is_domain _ = None"

definition badRequestPrefix :: string where
  "badRequestPrefix = ''bad request, ''"

definition description400 :: "string \<Rightarrow> string" where
  "description400 err_text = TrimPrefix err_text badRequestPrefix"

definition classify400 :: "string \<Rightarrow> call_error" where
  "classify400 err_text =
     (let raw = ErrorBadRequest err_text; desc = description400 err_text; lower = ToLower desc
      in if Contains lower ''thread not found'' \<or> Contains lower ''topic not found''
            \<or> Contains lower ''topic_deleted'' \<or> Contains lower ''topic_id_invalid''
         then Wrapped (Domain ErrTopicGone) raw
         else if Contains lower ''topic_closed'' then Wrapped (Domain ErrTopicClosed) raw
         else if Contains lower ''topic_not_modified'' then Wrapped ErrTopicNotModified raw
         else if Contains lower ''message is not modified'' then Wrapped ErrMessageNotModified raw
         else if HasPrefix lower ''bad request: message to '' \<and> HasSuffix lower '' not found''
         then Wrapped (Domain ErrMessageGone) raw
         else APIError 400 desc 0 raw)"

definition translate :: "lib_error \<Rightarrow> call_error" where
  "translate l =
     (case l of
        TooManyRequestsError ra msg \<Rightarrow> APIError 429 msg (wrap64 (ra * Second)) l
      | MigrateError chat \<Rightarrow> Wrapped (Domain (ErrChatMigrated chat)) l
      | ErrorForbidden \<Rightarrow> Wrapped (Domain ErrForbidden) l
      | ErrorUnauthorized \<Rightarrow> Wrapped (Domain ErrBotUnauthorized) l
      | ErrorConflict \<Rightarrow> Wrapped (Domain ErrPollerConflict) l
      | ErrorBadRequest txt' \<Rightarrow> classify400 txt'
      | _ \<Rightarrow> Raw l)"

definition isMarkupError :: "call_error \<Rightarrow> bool" where
  "isMarkupError e \<longleftrightarrow>
     (case e of
        APIError code desc ra l \<Rightarrow>
          (code = 400 \<and> (let lower = ToLower desc
             in Contains lower ''can't parse entities'' \<or> Contains lower ''message is too long''))
      | _ \<Rightarrow> False)"

text \<open>The library sentinels \<open>isRetryable\<close> lists, found with \<^verbatim>\<open>errors.Is\<close> through every wrapper.\<close>

definition final_lib :: "lib_error \<Rightarrow> bool" where
  "final_lib l \<longleftrightarrow> (case l of ErrorBadRequest _ \<Rightarrow> True | ErrorUnauthorized \<Rightarrow> True | ErrorForbidden \<Rightarrow> True
     | ErrorNotFound \<Rightarrow> True | ErrorConflict \<Rightarrow> True | _ \<Rightarrow> False)"

definition final_domain :: "error \<Rightarrow> bool" where
  "final_domain e \<longleftrightarrow> e \<in> {ErrForbidden, ErrBotUnauthorized, ErrPollerConflict, ErrTopicGone, ErrTopicClosed, ErrMessageGone}
     \<or> isChatMigrated e"

definition isRetryable :: "call_error option \<Rightarrow> bool" where
  "isRetryable err \<longleftrightarrow>
     (case err of
        None \<Rightarrow> False
      | Some e \<Rightarrow>
          if cause e = ContextCanceled then False
          else (case e of
                  APIError code desc ra l \<Rightarrow> code = 429 \<or> code \<ge> 500
                | _ \<Rightarrow>
                    if final_lib (cause e) \<or> (case is_domain e of Some d \<Rightarrow> final_domain d | None \<Rightarrow> False)
                    then False
                    else (case cause e of MigrateError _ \<Rightarrow> False | _ \<Rightarrow> True)))"

definition retryAfter :: "call_error \<Rightarrow> duration option" where
  "retryAfter e =
     (case e of
        APIError code desc ra l \<Rightarrow>
          if code = 429 then Some ra
          else (case l of TooManyRequestsError s m \<Rightarrow> Some (wrap64 (s * Second)) | _ \<Rightarrow> None)
      | _ \<Rightarrow> (case cause e of TooManyRequestsError s m \<Rightarrow> Some (wrap64 (s * Second)) | _ \<Rightarrow> None))"

text \<open>
  C39: translating an error does not change how the queue treats it: the raw and the translated error are
  retried alike and ask for the same wait, and the translated one keeps the library error.
\<close>

theorem translate_same_treatment:
  "isRetryable (Some (translate l)) = isRetryable (Some (Raw l))
   \<and> retryAfter (translate l) = retryAfter (Raw l) \<and> cause (translate l) = l"
  by (cases l)
    (auto simp: translate_def isRetryable_def retryAfter_def classify400_def final_lib_def final_domain_def
      isChatMigrated_def Let_def)

section \<open>Pacing\<close>

record QueueConfig =
  qc_MinGap :: duration
  qc_WindowLimit :: int
  qc_Window :: duration
  qc_MaxTries :: int
  qc_MaxWait :: duration

definition DefaultQueueConfig :: QueueConfig where
  "DefaultQueueConfig = \<lparr>qc_MinGap = Second, qc_WindowLimit = 20, qc_Window = Minute, qc_MaxTries = 5, qc_MaxWait = Minute\<rparr>"

record Queue =
  qu_cfg :: QueueConfig
  qu_stamps :: "time list"
  qu_head :: nat
  qu_count :: nat

definition NewQueue :: "QueueConfig \<Rightarrow> Queue" where
  "NewQueue cfg0 =
     (let def = DefaultQueueConfig;
          cfg = \<lparr>qc_MinGap = (if qc_MinGap cfg0 \<le> 0 then qc_MinGap def else qc_MinGap cfg0),
                 qc_WindowLimit = (if qc_WindowLimit cfg0 \<le> 0 then qc_WindowLimit def else qc_WindowLimit cfg0),
                 qc_Window = (if qc_Window cfg0 \<le> 0 then qc_Window def else qc_Window cfg0),
                 qc_MaxTries = (if qc_MaxTries cfg0 \<le> 0 then qc_MaxTries def else qc_MaxTries cfg0),
                 qc_MaxWait = (if qc_MaxWait cfg0 \<le> 0 then qc_MaxWait def else qc_MaxWait cfg0)\<rparr>
      in \<lparr>qu_cfg = cfg, qu_stamps = replicate (nat (qc_WindowLimit cfg)) 0, qu_head = 0, qu_count = 0\<rparr>)"

text \<open>The wait \<open>pace\<close> computes at a reading of the clock.\<close>

definition pace_wait :: "Queue \<Rightarrow> time \<Rightarrow> duration" where
  "pace_wait q now =
     (let n = length (qu_stamps q);
          wait1 = (if qu_count q > 0
                   then wrap64 (qc_MinGap (qu_cfg q) - time_Sub now (qu_stamps q ! ((qu_head q + qu_count q - 1) mod n)))
                   else 0)
      in if qu_count q = n
         then let w = wrap64 (qc_Window (qu_cfg q) - time_Sub now (qu_stamps q ! qu_head q))
              in if w > wait1 then w else wait1
         else wait1)"

definition stamp :: "time \<Rightarrow> Queue \<Rightarrow> Queue" where
  "stamp now q =
     (let n = length (qu_stamps q)
      in if qu_count q = n
         then q\<lparr>qu_stamps := (qu_stamps q)[qu_head q := now], qu_head := (qu_head q + 1) mod n\<rparr>
         else q\<lparr>qu_stamps := (qu_stamps q)[(qu_head q + qu_count q) mod n := now], qu_count := qu_count q + 1\<rparr>)"

section \<open>One job\<close>

text \<open>The environment of one try: clock readings, what the sleeps and the call return, the contexts.\<close>

record TryEnv =
  en_now :: time
  en_pace :: "duration \<Rightarrow> call_error option"
  en_stamp :: time
  en_op :: "call_error option"
  en_ctx_done :: bool
  en_sleep :: "duration \<Rightarrow> call_error option"
  en_run_err :: "call_error option"
  en_job_err :: "call_error option"

definition sleepErr :: "TryEnv \<Rightarrow> call_error option \<Rightarrow> call_error option" where
  "sleepErr env err =
     (if en_run_err env \<noteq> None then en_run_err env
      else if en_job_err env \<noteq> None then en_job_err env
      else err)"

definition backoff :: "QueueConfig \<Rightarrow> call_error \<Rightarrow> nat \<Rightarrow> duration" where
  "backoff cfg err try =
     (case retryAfter err of
        Some ra \<Rightarrow> if ra > qc_MaxWait cfg then -1 else ra
      | None \<Rightarrow> wrap64 (wrap64 (int try * int try) * Second))"

text \<open>
  The loop of \<open>execute\<close> from one try on, with the tries left; it returns the error, the queue and the
  tries that reached the API with the wait after each (\<open>None\<close> when the loop ended there).
\<close>

fun exec_loop :: "(nat \<Rightarrow> TryEnv) \<Rightarrow> nat \<Rightarrow> nat \<Rightarrow> call_error option \<Rightarrow> Queue \<Rightarrow>
    call_error option \<times> Queue \<times> (nat \<times> duration option) list" where
  "exec_loop envs try 0 err q = (err, q, [])"
| "exec_loop envs try (Suc left') err q =
     (let env = envs try in
      case en_pace env (pace_wait q (en_now env)) of
        Some e \<Rightarrow> (sleepErr env (Some e), q, [])
      | None \<Rightarrow>
          (let q1 = stamp (en_stamp env) q in
           case en_op env of
             None \<Rightarrow> (None, q1, [(try, None)])
           | Some e \<Rightarrow>
               if en_ctx_done env then (sleepErr env (Some e), q1, [(try, None)])
               else if \<not> isRetryable (Some e) \<or> int try = qc_MaxTries (qu_cfg q) then (Some e, q1, [(try, None)])
               else let wait = backoff (qu_cfg q) e try in
                 if wait < 0 then (Some e, q1, [(try, None)])
                 else (case en_sleep env wait of
                   Some serr \<Rightarrow> (sleepErr env (Some serr), q1, [(try, None)])
                 | None \<Rightarrow>
                     (let (res, q2, tr) = exec_loop envs (Suc try) left' (Some e) q1
                      in (res, q2, (try, Some wait) # tr)))))"

definition execute :: "(nat \<Rightarrow> TryEnv) \<Rightarrow> Queue \<Rightarrow> call_error option \<times> Queue \<times> (nat \<times> duration option) list" where
  "execute envs q = exec_loop envs 1 (nat (qc_MaxTries (qu_cfg q))) None q"

section \<open>The contract of a rate limiter\<close>

text \<open>
  What the loop needs from the ring: after waiting as told, an attempt keeps its distance from the
  last one and from the oldest one remembered, and noting an attempt remembers it.
\<close>

locale limiter =
  fixes ok :: "'q \<Rightarrow> bool"
    and wait :: "'q \<Rightarrow> time \<Rightarrow> duration"
    and note_time :: "time \<Rightarrow> 'q \<Rightarrow> 'q"
    and recent :: "'q \<Rightarrow> time list"
    and gap :: "'q \<Rightarrow> duration"
    and win :: "'q \<Rightarrow> duration"
    and limit :: "'q \<Rightarrow> nat"
  assumes ok_note: "ok q \<Longrightarrow> ok (note_time t q)"
    and same_cfg: "gap (note_time t q) = gap q" "win (note_time t q) = win q" "ok q \<Longrightarrow> limit (note_time t q) = limit q"
    and limit_pos: "ok q \<Longrightarrow> 0 < limit q"
    and recent_le: "ok q \<Longrightarrow> length (recent q) \<le> limit q"
    and recent_note: "ok q \<Longrightarrow> recent (note_time t q) = drop (Suc (length (recent q)) - limit q) (recent q @ [t])"
    and wait_gap: "ok q \<Longrightarrow> recent q \<noteq> [] \<Longrightarrow> last (recent q) \<le> now \<Longrightarrow> last (recent q) + gap q \<le> now + max 0 (wait q now)"
    and wait_win: "ok q \<Longrightarrow> length (recent q) = limit q \<Longrightarrow> hd (recent q) \<le> now \<Longrightarrow> hd (recent q) + win q \<le> now + max 0 (wait q now)"
begin

text \<open>Attempts \<open>(now, t)\<close>: the clock was read at \<open>now\<close>, the wait was honoured, the attempt made at \<open>t\<close>.\<close>

primrec paced :: "'q \<Rightarrow> time list \<Rightarrow> (time \<times> time) list \<Rightarrow> bool" where
  "paced q hist [] = True"
| "paced q hist (a # as) = ((hist = [] \<or> last hist \<le> fst a) \<and> fst a + max 0 (wait q (fst a)) \<le> snd a
     \<and> paced (note_time (snd a) q) (hist @ [snd a]) as)"

definition spaced :: "duration \<Rightarrow> duration \<Rightarrow> nat \<Rightarrow> time list \<Rightarrow> bool" where
  "spaced g w n ts \<longleftrightarrow> sorted ts \<and> (\<forall>i. Suc i < length ts \<longrightarrow> ts ! i + g \<le> ts ! Suc i)
     \<and> (\<forall>i. i + n < length ts \<longrightarrow> ts ! i + w \<le> ts ! (i + n))"

definition remembers :: "'q \<Rightarrow> time list \<Rightarrow> bool" where
  "remembers q ts \<longleftrightarrow> ok q \<and> recent q = drop (length ts - limit q) ts"

lemma remembers_note: "remembers q ts \<Longrightarrow> remembers (note_time t q) (ts @ [t])"
  by (cases "length ts < limit q") (auto simp: remembers_def ok_note same_cfg recent_note Suc_diff_le)

lemma last_recent:
  assumes "remembers q ts" "ts \<noteq> []" shows "recent q \<noteq> [] \<and> last (recent q) = last ts"
proof -
  have "0 < limit q" using assms(1) limit_pos by (simp add: remembers_def)
  then have "length ts - limit q < length ts" using assms(2) by simp
  then show ?thesis using assms(1) by (simp add: remembers_def)
qed

lemma spaced_snoc:
  assumes "remembers q ts" "spaced (gap q) (win q) (limit q) ts" "ts = [] \<or> last ts \<le> now" "now + max 0 (wait q now) \<le> t"
  shows "spaced (gap q) (win q) (limit q) (ts @ [t])"
proof -
  have ok: "ok q" and rec: "recent q = drop (length ts - limit q) ts" using assms(1) by (simp_all add: remembers_def)
  have now: "now \<le> t" using assms(4) by (simp add: max_def split: if_splits)
  have sorted: "sorted ts" using assms(2) by (simp add: spaced_def)
  have le: "x \<le> last ts" if "x \<in> set ts" for x
    using sorted that by (cases ts rule: rev_cases) (auto simp: sorted_append)
  have "sorted (ts @ [t])"
    using sorted le assms(3) now by (cases "ts = []") (force simp: sorted_append)+
  moreover have "(ts @ [t]) ! i + gap q \<le> (ts @ [t]) ! Suc i" if "Suc i < length (ts @ [t])" for i
  proof (cases "Suc i < length ts")
    case True
    then show ?thesis using assms(2) by (simp add: spaced_def nth_append)
  next
    case False
    then have i: "Suc i = length ts" "ts \<noteq> []" using that by auto
    then have "ts ! i = last ts" by (metis diff_Suc_1 last_conv_nth)
    then show ?thesis
      using wait_gap [OF ok, of now] last_recent [OF assms(1) i(2)] assms(3,4) i by (simp add: nth_append)
  qed
  moreover have "(ts @ [t]) ! i + win q \<le> (ts @ [t]) ! (i + limit q)" if "i + limit q < length (ts @ [t])" for i
  proof (cases "i + limit q < length ts")
    case True
    then show ?thesis using assms(2) by (simp add: spaced_def nth_append)
  next
    case False
    then have i: "i + limit q = length ts" using that by simp
    then have ne: "ts \<noteq> []" "i < length ts" using limit_pos [OF ok] by auto
    have "length ts - limit q = i" using i by simp
    then have hd: "hd (recent q) = ts ! i" "length (recent q) = limit q"
      using i ne by (auto simp: rec hd_drop_conv_nth)
    have "ts ! i \<le> now" using le [of "ts ! i"] ne assms(3) by force
    then show ?thesis using wait_win [OF ok hd(2), of now] assms(4) hd i ne by (simp add: nth_append)
  qed
  ultimately show ?thesis by (simp add: spaced_def)
qed

lemma paced_spaced:
  "paced q ts as \<Longrightarrow> remembers q ts \<Longrightarrow> spaced (gap q) (win q) (limit q) ts
   \<Longrightarrow> spaced (gap q) (win q) (limit q) (ts @ map snd as)"
proof (induction as arbitrary: q ts)
  case (Cons a as)
  have ok: "ok q" using Cons.prems by (simp add: remembers_def)
  have "spaced (gap q) (win q) (limit q) (ts @ [snd a])"
    using Cons.prems by (intro spaced_snoc) auto
  then show ?case
    using Cons.IH [of "note_time (snd a) q" "ts @ [snd a]"] Cons.prems remembers_note
    by (simp add: same_cfg same_cfg(3) [OF ok])
qed simp

end

section \<open>The ring is a rate limiter\<close>

definition ring_ok :: "Queue \<Rightarrow> bool" where
  "ring_ok q \<longleftrightarrow> 0 < length (qu_stamps q) \<and> qu_head q < length (qu_stamps q) \<and> qu_count q \<le> length (qu_stamps q)
     \<and> (qu_count q < length (qu_stamps q) \<longrightarrow> qu_head q = 0)
     \<and> 0 < qc_MinGap (qu_cfg q) \<and> in_int64 (qc_MinGap (qu_cfg q))
     \<and> 0 < qc_Window (qu_cfg q) \<and> in_int64 (qc_Window (qu_cfg q))"

definition ring_recent :: "Queue \<Rightarrow> time list" where
  "ring_recent q = map (\<lambda>i. qu_stamps q ! ((qu_head q + i) mod length (qu_stamps q))) [0..<qu_count q]"

lemma stamp_cfg [simp]: "qu_cfg (stamp t q) = qu_cfg q" "length (qu_stamps (stamp t q)) = length (qu_stamps q)"
  by (simp_all add: stamp_def Let_def)

lemma ring_ok_stamp: "ring_ok q \<Longrightarrow> ring_ok (stamp t q)"
  by (auto simp: ring_ok_def stamp_def Let_def)

lemma mod_shift_neq: "(h::nat) < n \<Longrightarrow> i < n \<Longrightarrow> 0 < i \<Longrightarrow> (h + i) mod n \<noteq> h"
  by (cases "h + i < n") (auto simp: mod_if)

lemma ring_recent_stamp:
  assumes "ring_ok q"
  shows "ring_recent (stamp t q) = drop (Suc (length (ring_recent q)) - length (qu_stamps q)) (ring_recent q @ [t])"
proof (cases "qu_count q = length (qu_stamps q)")
  case True
  let ?n = "length (qu_stamps q)" and ?h = "qu_head q"
  have h: "?h < ?n" "0 < ?n" using assms by (auto simp: ring_ok_def)
  have "ring_recent (stamp t q) = drop 1 (ring_recent q @ [t])"
  proof (rule nth_equalityI)
    fix i assume "i < length (ring_recent (stamp t q))"
    then have i: "i < ?n" using True by (simp add: ring_recent_def stamp_def Let_def)
    have idx: "(Suc ?h mod ?n + i) mod ?n = (?h + Suc i) mod ?n" by (simp add: mod_simps)
    have "ring_recent (stamp t q) ! i = (qu_stamps q)[?h := t] ! ((?h + Suc i) mod ?n)"
      using True i by (simp add: ring_recent_def stamp_def Let_def idx)
    also have "\<dots> = drop 1 (ring_recent q @ [t]) ! i"
    proof (cases "Suc i = ?n")
      case last': True
      then have "(?h + Suc i) mod ?n = ?h" using h by simp
      moreover have "i = ?n - 1" using last' by simp
      ultimately show ?thesis using True h by (simp add: ring_recent_def nth_append)
    next
      case False
      then have s: "Suc i < ?n" "i < ?n - 1" using i by simp_all
      then show ?thesis
        using True mod_shift_neq [OF h(1) s(1)] s(2) by (simp add: ring_recent_def nth_append)
    qed
    finally show "ring_recent (stamp t q) ! i = drop 1 (ring_recent q @ [t]) ! i" .
  qed (use True h in \<open>simp add: ring_recent_def stamp_def Let_def\<close>)
  then show ?thesis using True by (simp add: ring_recent_def)
next
  case False
  then have c: "qu_count q < length (qu_stamps q)" "qu_head q = 0" using assms by (auto simp: ring_ok_def)
  then have "ring_recent (stamp t q) = ring_recent q @ [t]"
    by (intro nth_equalityI) (auto simp: ring_recent_def stamp_def Let_def nth_append less_Suc_eq)
  then show ?thesis using c by (simp add: ring_recent_def)
qed

lemma wrapped_wait:
  assumes "0 < g" "in_int64 g" "u \<le> now" shows "u + g \<le> now + max 0 (wrap64 (g - time_Sub now u))"
proof -
  have sub: "0 \<le> time_Sub now u" "time_Sub now u \<le> maxInt64" "time_Sub now u = now - u \<or> maxInt64 < now - u"
    using assms by (auto simp: time_Sub_def minInt64_def maxInt64_def)
  then have "in_int64 (g - time_Sub now u)"
    using assms by (simp add: in_int64_def minInt64_def maxInt64_def)
  then have "wrap64 (g - time_Sub now u) = g - time_Sub now u" by (rule wrap64_id)
  then show ?thesis using sub assms by (auto simp: in_int64_def)
qed

lemma ring_last: "0 < qu_count q \<Longrightarrow> last (ring_recent q) = qu_stamps q ! ((qu_head q + qu_count q - 1) mod length (qu_stamps q))"
  by (simp add: ring_recent_def last_map)

lemma ring_hd: "ring_ok q \<Longrightarrow> 0 < qu_count q \<Longrightarrow> hd (ring_recent q) = qu_stamps q ! qu_head q"
  by (simp add: ring_recent_def ring_ok_def hd_map)

lemma ring_wait_gap:
  assumes "ring_ok q" "ring_recent q \<noteq> []" "last (ring_recent q) \<le> now"
  shows "last (ring_recent q) + qc_MinGap (qu_cfg q) \<le> now + max 0 (pace_wait q now)"
proof -
  have c: "0 < qu_count q" using assms(2) by (simp add: ring_recent_def)
  have "pace_wait q now \<ge> wrap64 (qc_MinGap (qu_cfg q) - time_Sub now (last (ring_recent q)))"
    using c by (simp add: pace_wait_def Let_def ring_last)
  then show ?thesis
    using wrapped_wait [of "qc_MinGap (qu_cfg q)" "last (ring_recent q)" now] assms by (simp add: ring_ok_def)
qed

lemma ring_wait_win:
  assumes "ring_ok q" "length (ring_recent q) = length (qu_stamps q)" "hd (ring_recent q) \<le> now"
  shows "hd (ring_recent q) + qc_Window (qu_cfg q) \<le> now + max 0 (pace_wait q now)"
proof -
  have c: "qu_count q = length (qu_stamps q)" "0 < qu_count q" using assms(1,2) by (auto simp: ring_recent_def ring_ok_def)
  have "pace_wait q now \<ge> wrap64 (qc_Window (qu_cfg q) - time_Sub now (hd (ring_recent q)))"
    using c by (simp add: pace_wait_def Let_def ring_hd [OF assms(1)])
  then show ?thesis
    using wrapped_wait [of "qc_Window (qu_cfg q)" "hd (ring_recent q)" now] assms by (simp add: ring_ok_def)
qed

interpretation ring: limiter ring_ok pace_wait stamp ring_recent
  "\<lambda>q. qc_MinGap (qu_cfg q)" "\<lambda>q. qc_Window (qu_cfg q)" "\<lambda>q. length (qu_stamps q)"
proof unfold_locales
  show "length (ring_recent q) \<le> length (qu_stamps q)" if "ring_ok q" for q
    using that by (simp add: ring_recent_def ring_ok_def)
qed (auto simp: ring_ok_stamp ring_recent_stamp ring_wait_gap ring_wait_win, auto simp: ring_ok_def)

section \<open>Calls keep Telegram's limits\<close>

text \<open>
  The loop of \<^verbatim>\<open>Run\<close> over the jobs it receives: one whose caller has given up by then is skipped, and
  after one that ends with the queue shutting down the loop stops. It yields the error of every job
  answered, the queue and the tries that reached the API.
\<close>

record Job =
  jb_given_up :: "call_error option"
  jb_envs :: "nat \<Rightarrow> TryEnv"
  jb_stopped :: bool

fun run_jobs :: "Job list \<Rightarrow> Queue \<Rightarrow> call_error option list \<times> Queue \<times> TryEnv list" where
  "run_jobs [] q = ([], q, [])"
| "run_jobs (j # js) q =
     (case jb_given_up j of
        Some e \<Rightarrow> (let (errs, q2, es) = run_jobs js q in (Some e # errs, q2, es))
      | None \<Rightarrow>
          (let (err, q1, tr) = execute (jb_envs j) q; es1 = map (\<lambda>x. jb_envs j (fst x)) tr
           in if jb_stopped j then ([err], q1, es1)
              else (let (errs, q2, es) = run_jobs js q1 in (err # errs, q2, es1 @ es))))"

text \<open>Each listed try was let through by \<open>pace\<close>, the stamps of those before it in the ring.\<close>

fun let_through :: "Queue \<Rightarrow> TryEnv list \<Rightarrow> Queue \<Rightarrow> bool" where
  "let_through q [] q' = (q' = q)"
| "let_through q (e # es) q' = (en_pace e (pace_wait q (en_now e)) = None \<and> let_through (stamp (en_stamp e) q) es q')"

lemma let_through_append: "let_through q es q1 \<Longrightarrow> let_through q1 es' q' \<Longrightarrow> let_through q (es @ es') q'"
  by (induction es arbitrary: q) auto

lemma exec_loop_let_through:
  "exec_loop envs k n err q = (res, q', tr) \<Longrightarrow> let_through q (map (\<lambda>x. envs (fst x)) tr) q'"
proof (induction n arbitrary: k err q tr)
  case (Suc n)
  obtain env where env: "env = envs k" by blast
  show ?case
  proof (cases "en_pace env (pace_wait q (en_now env)) = None \<and> (\<exists>e. en_op env = Some e \<and> \<not> en_ctx_done env
      \<and> (isRetryable (Some e) \<and> int k \<noteq> qc_MaxTries (qu_cfg q)) \<and> \<not> backoff (qu_cfg q) e k < 0
      \<and> en_sleep env (backoff (qu_cfg q) e k) = None)")
    case True
    then obtain e tr0 where "exec_loop envs (Suc k) n (Some e) (stamp (en_stamp env) q) = (res, q', tr0)"
        "tr = (k, Some (backoff (qu_cfg q) e k)) # tr0"
      using Suc.prems by (auto simp: env Let_def split: prod.splits)
    then show ?thesis using Suc.IH True env by fastforce
  next
    case False
    then show ?thesis
      using Suc.prems by (auto simp: env Let_def split: option.splits prod.splits if_splits)
  qed
qed simp

lemma run_jobs_let_through: "run_jobs jobs q = (errs, q', es) \<Longrightarrow> let_through q es q'"
proof (induction jobs arbitrary: q errs q' es)
  case (Cons j js)
  obtain err q1 tr where ex: "execute (jb_envs j) q = (err, q1, tr)" by (metis prod_cases3)
  note first = exec_loop_let_through [OF ex [unfolded execute_def]]
  obtain errs2 q2 es2 where js: "run_jobs js (if jb_given_up j = None then q1 else q) = (errs2, q2, es2)"
    by (metis prod_cases3)
  show ?case
    using Cons.prems first let_through_append [OF first] Cons.IH [OF js] ex js
    by (auto simp: Let_def split: option.splits if_splits)
qed simp

text \<open>A clock that never goes back, and sleeps that last as long as asked unless interrupted.\<close>

definition clock_ok :: "TryEnv list \<Rightarrow> bool" where
  "clock_ok es \<longleftrightarrow> sorted (concat (map (\<lambda>e. [en_now e, en_stamp e]) es))"

definition sleeps_ok :: "TryEnv \<Rightarrow> bool" where
  "sleeps_ok e \<longleftrightarrow> (\<forall>w. en_pace e w = None \<longrightarrow> en_now e + max 0 w \<le> en_stamp e)"

lemma let_through_paced:
  "let_through q es q' \<Longrightarrow> list_all sleeps_ok es \<Longrightarrow> sorted (concat (map (\<lambda>e. [en_now e, en_stamp e]) es)) \<Longrightarrow>
   hist = [] \<or> (es \<noteq> [] \<longrightarrow> last hist \<le> en_now (hd es)) \<Longrightarrow>
   ring.paced q hist (map (\<lambda>e. (en_now e, en_stamp e)) es)"
proof (induction es arbitrary: q hist)
  case (Cons e es)
  have next': "es \<noteq> [] \<longrightarrow> last (hist @ [en_stamp e]) \<le> en_now (hd es)"
    using Cons.prems(3) by (cases es) auto
  show ?case
    using Cons.IH [of "stamp (en_stamp e) q" "hist @ [en_stamp e]"] Cons.prems next'
    by (auto simp: sleeps_ok_def)
qed simp

definition config_ok :: "QueueConfig \<Rightarrow> bool" where
  "config_ok cfg \<longleftrightarrow> in_int64 (qc_MinGap cfg) \<and> in_int64 (qc_Window cfg)"

lemma NewQueue_ok: "config_ok cfg \<Longrightarrow> ring_ok (NewQueue cfg) \<and> ring_recent (NewQueue cfg) = []
   \<and> int (length (qu_stamps (NewQueue cfg))) = qc_WindowLimit (qu_cfg (NewQueue cfg))"
  by (simp add: config_ok_def NewQueue_def ring_ok_def ring_recent_def DefaultQueueConfig_def go_simps in_int64_def
      minInt64_def maxInt64_def Let_def)

text \<open>
  C33: the queue keeps Telegram's limits. Over any sequence of jobs, with whatever failures and retries,
  two consecutive calls are at least \<open>MinGap\<close> apart and any \<open>WindowLimit + 1\<close> consecutive calls span
  at least one \<open>Window\<close>: no more than \<open>WindowLimit\<close> of them fall within one. The configuration holds
  durations in range, the clock is monotonic and a sleep that is not interrupted is not short.
\<close>

theorem queue_rate_limit:
  assumes "config_ok cfg" "run_jobs jobs (NewQueue cfg) = (errs, q', es)" "clock_ok es" "list_all sleeps_ok es"
  shows "let ts = map en_stamp es; c = qu_cfg (NewQueue cfg); n = nat (qc_WindowLimit c) in
     (\<forall>i. Suc i < length ts \<longrightarrow> ts ! i + qc_MinGap c \<le> ts ! Suc i)
     \<and> (\<forall>i. i + n < length ts \<longrightarrow> ts ! i + qc_Window c \<le> ts ! (i + n))"
proof -
  have new: "ring_ok (NewQueue cfg)" "ring_recent (NewQueue cfg) = []"
      "length (qu_stamps (NewQueue cfg)) = nat (qc_WindowLimit (qu_cfg (NewQueue cfg)))"
    using NewQueue_ok [OF assms(1)] by linarith+
  have "ring.paced (NewQueue cfg) [] (map (\<lambda>e. (en_now e, en_stamp e)) es)"
    using let_through_paced [OF run_jobs_let_through [OF assms(2)] assms(4), of "[]"] assms(3)
    by (simp add: clock_ok_def)
  moreover have "ring.remembers (NewQueue cfg) []" using new by (simp add: ring.remembers_def)
  moreover have "ring.spaced g w n []" for g w n by (simp add: ring.spaced_def)
  ultimately have "ring.spaced (qc_MinGap (qu_cfg (NewQueue cfg))) (qc_Window (qu_cfg (NewQueue cfg)))
      (length (qu_stamps (NewQueue cfg))) ([] @ map snd (map (\<lambda>e. (en_now e, en_stamp e)) es))"
    by (rule ring.paced_spaced)
  then show ?thesis by (simp add: ring.spaced_def new(3) comp_def)
qed

lemma execute_first:
  assumes "en_stamp (envs 1) = t" "en_pace (envs 1) (pace_wait q (en_now (envs 1))) = None" "en_op (envs 1) = None"
    "0 < qc_MaxTries (qu_cfg q)"
  shows "execute envs q = (None, stamp t q, [(1, None)])"
proof -
  obtain k where "nat (qc_MaxTries (qu_cfg q)) = Suc k" using assms(4) by (metis gr0_implies_Suc zero_less_nat_eq)
  then show ?thesis using assms by (simp add: execute_def Let_def)
qed

definition calm_env :: "time \<Rightarrow> TryEnv" where
  "calm_env t = \<lparr>en_now = t, en_pace = (\<lambda>w. if w \<le> 0 then None else Some (Raw ContextCanceled)), en_stamp = t, en_op = None,
     en_ctx_done = False, en_sleep = (\<lambda>w. None), en_run_err = None, en_job_err = None\<rparr>"

definition calm_job :: "time \<Rightarrow> Job" where
  "calm_job t = \<lparr>jb_given_up = None, jb_envs = (\<lambda>n. calm_env t), jb_stopped = False\<rparr>"

lemma calm_run:
  "run_jobs [calm_job 0, calm_job 2000000000] (NewQueue DefaultQueueConfig) =
     ([None, None], stamp 2000000000 (stamp 0 (NewQueue DefaultQueueConfig)), [calm_env 0, calm_env 2000000000])"
proof -
  have waits: "pace_wait (NewQueue DefaultQueueConfig) 0 \<le> 0"
    "pace_wait (stamp 0 (NewQueue DefaultQueueConfig)) 2000000000 \<le> 0" by code_simp+
  have "execute (\<lambda>n. calm_env 0) (NewQueue DefaultQueueConfig) = (None, stamp 0 (NewQueue DefaultQueueConfig), [(1, None)])"
    by (rule execute_first [of "\<lambda>n. calm_env 0" 0]) (use waits in \<open>simp_all add: calm_env_def DefaultQueueConfig_def NewQueue_def\<close>)
  moreover have "execute (\<lambda>n. calm_env 2000000000) (stamp 0 (NewQueue DefaultQueueConfig))
      = (None, stamp 2000000000 (stamp 0 (NewQueue DefaultQueueConfig)), [(1, None)])"
    by (rule execute_first [of "\<lambda>n. calm_env 2000000000" 2000000000])
      (use waits in \<open>simp_all add: calm_env_def DefaultQueueConfig_def NewQueue_def\<close>)
  ultimately show ?thesis by (simp add: calm_job_def)
qed

theorem queue_rate_limit_witness:
  "let ts = map en_stamp [calm_env 0, calm_env 2000000000]; c = qu_cfg (NewQueue DefaultQueueConfig);
       n = nat (qc_WindowLimit c) in
     (\<forall>i. Suc i < length ts \<longrightarrow> ts ! i + qc_MinGap c \<le> ts ! Suc i)
     \<and> (\<forall>i. i + n < length ts \<longrightarrow> ts ! i + qc_Window c \<le> ts ! (i + n))"
proof (rule queue_rate_limit [OF _ calm_run])
  show "config_ok DefaultQueueConfig" by code_simp
  show "clock_ok [calm_env 0, calm_env 2000000000]" by (simp add: clock_ok_def calm_env_def)
  show "list_all sleeps_ok [calm_env 0, calm_env 2000000000]" by (simp add: sleeps_ok_def calm_env_def)
qed

section \<open>Retries\<close>

text \<open>A try after which the queue may try again: a retryable failure, and the wait chosen for it.\<close>

definition retried :: "QueueConfig \<Rightarrow> (nat \<Rightarrow> TryEnv) \<Rightarrow> nat \<times> duration option \<Rightarrow> bool" where
  "retried cfg envs x \<longleftrightarrow>
     (case en_op (envs (fst x)) of
        None \<Rightarrow> False
      | Some e \<Rightarrow> isRetryable (Some e) \<and> backoff cfg e (fst x) \<ge> 0 \<and> snd x = Some (backoff cfg e (fst x)))"

lemma sleepErr_not_None:
  "sleepErr env (Some e) = None \<longleftrightarrow> False" "(\<exists>y. sleepErr env (Some e) = Some y) \<longleftrightarrow> True"
  by (auto simp: sleepErr_def)

lemma exec_loop_retries:
  "exec_loop envs k n err q = (res, q', tr) \<Longrightarrow> int (k + n) = qc_MaxTries (qu_cfg q) + 1 \<Longrightarrow> 0 < n \<Longrightarrow>
   length tr \<le> n \<and> map fst tr = [k..<k + length tr] \<and> list_all (retried (qu_cfg q) envs) (butlast tr)
   \<and> (res = None \<longleftrightarrow> tr \<noteq> [] \<and> en_op (envs (fst (last tr))) = None)"
proof (induction n arbitrary: k err q tr)
  case (Suc n)
  obtain env where env: "env = envs k" by blast
  show ?case
  proof (cases "en_pace env (pace_wait q (en_now env))")
    case (Some e)
    then show ?thesis using Suc.prems by (auto simp: env sleepErr_not_None)
  next
    case None
    show ?thesis
    proof (cases "\<exists>e. en_op env = Some e \<and> \<not> en_ctx_done env
      \<and> (isRetryable (Some e) \<and> int k \<noteq> qc_MaxTries (qu_cfg q)) \<and> \<not> backoff (qu_cfg q) e k < 0
      \<and> en_sleep env (backoff (qu_cfg q) e k) = None")
      case True
      then obtain e tr0 where e: "en_op env = Some e" "isRetryable (Some e)" "int k \<noteq> qc_MaxTries (qu_cfg q)"
          "\<not> backoff (qu_cfg q) e k < 0" and
        run: "exec_loop envs (Suc k) n (Some e) (stamp (en_stamp env) q) = (res, q', tr0)"
          "tr = (k, Some (backoff (qu_cfg q) e k)) # tr0"
        using Suc.prems None by (auto simp: env Let_def split: prod.splits)
      have n: "0 < n" using e(3) Suc.prems(2) by (cases n) auto
      have ih: "length tr0 \<le> n \<and> map fst tr0 = [Suc k..<Suc k + length tr0] \<and> list_all (retried (qu_cfg q) envs) (butlast tr0)
          \<and> (res = None \<longleftrightarrow> tr0 \<noteq> [] \<and> en_op (envs (fst (last tr0))) = None)"
        using Suc.IH [OF run(1) _ n] Suc.prems(2) by simp
      have "retried (qu_cfg q) envs (k, Some (backoff (qu_cfg q) e k))"
        using e by (simp add: retried_def env)
      then show ?thesis using ih run(2) e(1) by (auto simp: upt_conv_Cons env)
    next
      case False
      then show ?thesis
        using Suc.prems None
        by (auto simp: env Let_def sleepErr_not_None split: option.splits prod.splits if_splits)
    qed
  qed
qed simp

text \<open>
  C38: retries. A job reaches the API at most \<open>MaxTries\<close> times, its tries numbered from 1; every try but
  the last failed with a retryable error and was followed by the wait \<open>backoff\<close> chose for it; the job
  succeeds exactly when its last try did.
\<close>

theorem execute_retries:
  assumes "0 < qc_MaxTries (qu_cfg q)"
  shows "let (res, q', tr) = execute envs q in
     int (length tr) \<le> qc_MaxTries (qu_cfg q) \<and> map fst tr = [1..<Suc (length tr)]
     \<and> list_all (retried (qu_cfg q) envs) (butlast tr)
     \<and> (res = None) = (tr \<noteq> [] \<and> en_op (envs (length tr)) = None)"
proof -
  obtain res q' tr where ex: "execute envs q = (res, q', tr)" by (metis prod_cases3)
  have spec: "length tr \<le> nat (qc_MaxTries (qu_cfg q)) \<and> map fst tr = [1..<1 + length tr]
      \<and> list_all (retried (qu_cfg q) envs) (butlast tr) \<and> (res = None \<longleftrightarrow> tr \<noteq> [] \<and> en_op (envs (fst (last tr))) = None)"
    using exec_loop_retries [OF ex [unfolded execute_def]] assms by simp
  have "fst (last tr) = length tr" if "tr \<noteq> []"
  proof -
    have "fst (last tr) = last (map fst tr)" using that by (simp add: last_map)
    also have "\<dots> = length tr"
    proof -
      have "Suc 0 \<le> length tr" using that by (cases tr) simp_all
      then show ?thesis using spec by simp
    qed
    finally show ?thesis .
  qed
  then show ?thesis using spec assms by (auto simp: ex)
qed

theorem execute_retries_witness:
  "let q = NewQueue DefaultQueueConfig; (res, q', tr) = execute (\<lambda>n. calm_env 0) q in
     int (length tr) \<le> qc_MaxTries (qu_cfg q) \<and> map fst tr = [1..<Suc (length tr)]
     \<and> list_all (retried (qu_cfg q) (\<lambda>n. calm_env 0)) (butlast tr)
     \<and> (res = None) = (tr \<noteq> [] \<and> en_op (calm_env 0) = None)"
  using execute_retries [of "NewQueue DefaultQueueConfig" "\<lambda>n. calm_env 0"]
  by (simp add: NewQueue_def DefaultQueueConfig_def Let_def)

end
