(* ===== verification/Convergence.thy ===== *)
theory Convergence
  imports Fakes
begin

text \<open>
  What a whole pass of the reconciler achieves. The locale \<open>calm_forum\<close> extends the contract of the forum by
  worlds in which writes are on and every call on an existing topic is accepted; there one \<open>Reconcile\<close> brings
  the forum in line with the live agents, and a second one does nothing at all.
\<close>

section \<open>A forum that accepts every call\<close>

locale calm_forum = forum +
  fixes calm :: "'a \<Rightarrow> bool"
  assumes calm_on: "calm w \<Longrightarrow> \<not> gw_paused g w \<and> \<not> gw_quiet g w"
    and calm_create: "calm w \<Longrightarrow> \<exists>t w'. gw_CreateTopic g name status w = (Inr t, w') \<and> calm w'"
    and calm_edit: "calm w \<Longrightarrow> topic w th \<noteq> None \<Longrightarrow> \<exists>w'. gw_EditTopic g th p w = (None, w') \<and> calm w'"
    and calm_close: "calm w \<Longrightarrow> topic w th \<noteq> None \<Longrightarrow> \<exists>w'. gw_CloseTopic g th w = (None, w') \<and> calm w'"
    and calm_reopen: "calm w \<Longrightarrow> topic w th \<noteq> None \<Longrightarrow> \<exists>w'. gw_ReopenTopic g th w = (None, w') \<and> calm w'"
    and calm_others: "calm w \<Longrightarrow> calm (snd (gw_Save g m w))" "calm w \<Longrightarrow> calm (snd (gw_Now g w))"

definition fake_calm :: "FakeWorld \<Rightarrow> bool" where
  "fake_calm w \<longleftrightarrow> \<not> fw_paused w \<and> \<not> fw_quiet w \<and> ft_failNext (fw_tg w) = []"

lemma fake_record_calm: "ft_failNext f = [] \<Longrightarrow> fake_record method call f = (None, f\<lparr>ft_calls := ft_calls f @ [call]\<rparr>)"
  by (simp add: fake_record_def)

interpretation fake: calm_forum fakes fake_topic fake_used fake_icon fake_calm
proof unfold_locales
  fix w :: FakeWorld and th p
  assume "fake_calm w" "fake_topic w th \<noteq> None"
  then show "\<exists>w'. gw_EditTopic fakes th p w = (None, w') \<and> fake_calm w'"
    by (auto simp: fake_calm_def fake_call_defs fake_EditTopic_patched fake_record_calm on_topic_def)
qed (auto simp: fake_calm_def fake_call_defs fake_CreateTopic_def fake_CloseTopic_def fake_ReopenTopic_def
    store_Save_def fake_record_calm on_topic_def Let_def split: option.split prod.split)

section \<open>Effects of the steps\<close>

definition all_exist :: "(int \<Rightarrow> Topic option) \<Rightarrow> Mapping \<Rightarrow> bool" where
  "all_exist T m \<longleftrightarrow> (\<forall>s e. gm_get (mp_Topics m) s = Some e \<longrightarrow> T (te_ThreadID e) \<noteq> None)"

text \<open>A step on one key: the other entries and the settings of the reconciler stay.\<close>

definition only :: "Key \<Rightarrow> 'w Reconciler \<Rightarrow> 'w Reconciler \<Rightarrow> bool" where
  "only key r r' \<longleftrightarrow>
     (\<forall>s. s \<noteq> Key_String key \<longrightarrow> gm_get (mp_Topics (rc_mapping r')) s = gm_get (mp_Topics (rc_mapping r)) s)
     \<and> rc_rightsLost r' = rc_rightsLost r \<and> rc_force r' = rc_force r \<and> rc_agents r' = rc_agents r"

lemma only_refl [simp]: "only key r r"
  by (simp add: only_def)

lemma only_trans: "only key r r1 \<Longrightarrow> only key r1 r2 \<Longrightarrow> only key r r2"
  by (simp add: only_def)

lemma each_settles:
  assumes "I s" "distinct (map (\<lambda>x. Key_String (\<kappa> x)) xs)"
    and "\<And>x s. x \<in> set xs \<Longrightarrow> I s \<Longrightarrow> pre x (TopicFor (rc_mapping s) (\<kappa> x)) \<Longrightarrow>
      \<exists>s'. f x s = (None, s') \<and> I s' \<and> only (\<kappa> x) s s' \<and> post x (TopicFor (rc_mapping s') (\<kappa> x))"
    and "\<And>x. x \<in> set xs \<Longrightarrow> pre x (TopicFor (rc_mapping s) (\<kappa> x))"
  shows "\<exists>s'. each f xs s = (None, s') \<and> I s' \<and> (\<forall>x\<in>set xs. post x (TopicFor (rc_mapping s') (\<kappa> x)))
    \<and> (\<forall>t. t \<notin> (\<lambda>x. Key_String (\<kappa> x)) ` set xs \<longrightarrow> gm_get (mp_Topics (rc_mapping s')) t = gm_get (mp_Topics (rc_mapping s)) t)
    \<and> rc_rightsLost s' = rc_rightsLost s \<and> rc_force s' = rc_force s \<and> rc_agents s' = rc_agents s"
  using assms
proof (induction xs arbitrary: s)
  case (Cons x xs)
  obtain s1 where s1: "f x s = (None, s1)" "I s1" "only (\<kappa> x) s s1" "post x (TopicFor (rc_mapping s1) (\<kappa> x))"
    using Cons.prems(1,3,4) by (meson list.set_intros(1))
  have same: "TopicFor (rc_mapping s1) (\<kappa> y) = TopicFor (rc_mapping s) (\<kappa> y)" if "y \<in> set xs" for y
  proof -
    have "Key_String (\<kappa> y) \<noteq> Key_String (\<kappa> x)" using that Cons.prems(2) by (auto simp: image_iff)
    with s1(3) show ?thesis by (simp add: only_def TopicFor_def)
  qed
  have "\<exists>s'. each f xs s1 = (None, s') \<and> I s' \<and> (\<forall>x\<in>set xs. post x (TopicFor (rc_mapping s') (\<kappa> x)))
    \<and> (\<forall>t. t \<notin> (\<lambda>x. Key_String (\<kappa> x)) ` set xs \<longrightarrow> gm_get (mp_Topics (rc_mapping s')) t = gm_get (mp_Topics (rc_mapping s1)) t)
    \<and> rc_rightsLost s' = rc_rightsLost s1 \<and> rc_force s' = rc_force s1 \<and> rc_agents s' = rc_agents s1"
  proof (rule Cons.IH)
    show "distinct (map (\<lambda>x. Key_String (\<kappa> x)) xs)" using Cons.prems(2) by simp
    show "\<exists>s'. f y t = (None, s') \<and> I s' \<and> only (\<kappa> y) t s' \<and> post y (TopicFor (rc_mapping s') (\<kappa> y))"
      if "y \<in> set xs" "I t" "pre y (TopicFor (rc_mapping t) (\<kappa> y))" for y t
      using Cons.prems(3) [of y t] that by simp
    show "pre y (TopicFor (rc_mapping s1) (\<kappa> y))" if "y \<in> set xs" for y
      using Cons.prems(4) [of y] same [OF that] that by simp
  qed (rule s1(2))
  then obtain s' where s': "each f xs s1 = (None, s')" "I s'" "\<forall>x\<in>set xs. post x (TopicFor (rc_mapping s') (\<kappa> x))"
    "\<forall>t. t \<notin> (\<lambda>x. Key_String (\<kappa> x)) ` set xs \<longrightarrow> gm_get (mp_Topics (rc_mapping s')) t = gm_get (mp_Topics (rc_mapping s1)) t"
    "rc_rightsLost s' = rc_rightsLost s1 \<and> rc_force s' = rc_force s1 \<and> rc_agents s' = rc_agents s1" by blast
  have "Key_String (\<kappa> x) \<notin> (\<lambda>x. Key_String (\<kappa> x)) ` set xs" using Cons.prems(2) by simp
  then have "post x (TopicFor (rc_mapping s') (\<kappa> x))" using s'(4) s1(4) by (simp add: TopicFor_def)
  with s' s1 show ?case by (intro exI [of _ s']) (auto simp: only_def)
qed simp

text \<open>After a step for a live agent its entry is live, and muted or as desired.\<close>

definition current :: "Agent \<Rightarrow> TopicEntry option \<Rightarrow> bool" where
  "current a oe \<longleftrightarrow> (\<exists>e. oe = Some e \<and> Live (te_Status e) \<and> (te_Muted e \<or> (te_Name e, te_Status e) = Desired a))"

context calm_forum
begin

abbreviation full :: "'a Reconciler \<Rightarrow> bool" where
  "full r \<equiv> ok r \<and> calm (rc_world r) \<and> \<not> rc_rightsLost r \<and> all_exist (topic (rc_world r)) (rc_mapping r)"

lemma full_not_blocked: "calm (rc_world r) \<Longrightarrow> \<not> rc_rightsLost r \<Longrightarrow> \<not> blocked g r"
  using calm_on [of "rc_world r"] by (simp add: blocked_def blockedReason_def)

lemma full_exists: "full r \<Longrightarrow> TopicFor (rc_mapping r) key = Some e \<Longrightarrow> topic (rc_world r) (te_ThreadID e) \<noteq> None"
  by (simp add: all_exist_def TopicFor_def)

text \<open>An accepted call on a topic, recorded and saved.\<close>

lemma write_effect:
  fixes f :: "time \<Rightarrow> TopicEntry \<Rightarrow> TopicEntry"
  assumes e: "TopicFor (rc_mapping r) key = Some e" and w: "calm w" "\<And>th. topic (rc_world r) th \<noteq> None \<Longrightarrow> topic w th \<noteq> None"
    and all: "all_exist (topic (rc_world r)) (rc_mapping r)" "\<And>now. te_ThreadID (f now e) = te_ThreadID e"
  defines "r' \<equiv> save g (stamped g (\<lambda>m now. adjust_entry m key (f now)) (r\<lparr>rc_world := w\<rparr>))"
  shows "only key r r'" "calm (rc_world r')" "all_exist (topic (rc_world r')) (rc_mapping r')"
    "rc_rightsLost r' = rc_rightsLost r" "topic (rc_world r') = topic w"
    "\<exists>now. TopicFor (rc_mapping r') key = Some (f now e)"
proof -
  obtain now w' where now: "gw_Now g w = (now, w')" by fastforce
  have calm': "calm w'" using calm_others(2) [OF w(1)] now by simp
  have m: "rc_mapping r' = adjust_entry (rc_mapping r) key (f now)" by (simp add: r'_def stamped_def now)
  have world: "topic (rc_world r') = topic w"
    by (simp add: r'_def save_def stamped_def now others now_frame [OF now] Let_def)
  show "only key r r'" by (simp add: only_def m gm_get_adjust_entry) (simp add: r'_def save_def stamped_def now Let_def)
  show "calm (rc_world r')" using calm_others(1) [OF calm'] by (simp add: r'_def save_def stamped_def now Let_def)
  show "all_exist (topic (rc_world r')) (rc_mapping r')"
    using all w(2) e by (auto simp: all_exist_def m world gm_get_adjust_entry TopicFor_def)
  show "rc_rightsLost r' = rc_rightsLost r" by (simp add: r'_def save_def stamped_def now Let_def)
  show "topic (rc_world r') = topic w" by (rule world)
  show "\<exists>now. TopicFor (rc_mapping r') key = Some (f now e)" using e by (auto simp: m TopicFor_adjust_entry)
qed

lemma calm_close_step:
  assumes r: "full r" and e: "TopicFor (rc_mapping r) key = Some e" and dead: "\<not> Live (te_Status e)"
  shows "\<exists>r' e'. Reconciler_close g key r = (None, r') \<and> full r' \<and> only key r r'
    \<and> TopicFor (rc_mapping r') key = Some e' \<and> te_Closed e' \<and> te_Status e' = te_Status e \<and> te_Muted e' = te_Muted e"
proof (cases "te_Closed e")
  case True
  then show ?thesis using r e by (simp add: Reconciler_close_def)
next
  case False
  obtain w where w: "gw_CloseTopic g (te_ThreadID e) (rc_world r) = (None, w)" "calm w"
    using calm_close [of "rc_world r" "te_ThreadID e"] full_exists [OF r e] r by blast
  have T: "topic (rc_world r) th \<noteq> None \<Longrightarrow> topic w th \<noteq> None" for th
    using close_ok [OF w(1)] by auto
  let ?r' = "save g (stamped g (\<lambda>m now. MarkClosed m key now) (r\<lparr>rc_world := w\<rparr>))"
  have c: "Reconciler_close g key r = (None, ?r')"
    using e False w r by (simp add: Reconciler_close_def full_not_blocked)
  have "ok ?r'" using ok_close [of r key] r e dead c by simp
  moreover note eff = write_effect [OF e w(2) T, of "\<lambda>now e. e\<lparr>te_Closed := True, te_UpdatedAt := now\<rparr>", folded MarkClosed_def]
  ultimately show ?thesis using c r by auto
qed

lemma edit_exists: "gw_EditTopic g th p w = (None, w') \<Longrightarrow> \<not> TopicPatch_Empty p \<Longrightarrow> topic w x \<noteq> None \<Longrightarrow> topic w' x \<noteq> None"
  using edit_ok [of th p w w'] by auto

lemma calm_exit_step:
  assumes r: "full r" and e: "TopicFor (rc_mapping r) key = Some e" and alive: "Live (te_Status e)" "\<not> te_Muted e"
  shows "\<exists>r' e'. Reconciler_exit g key r = (None, r') \<and> full r' \<and> only key r r'
    \<and> TopicFor (rc_mapping r') key = Some e' \<and> \<not> Live (te_Status e') \<and> te_Closed e' \<and> \<not> te_Muted e'"
proof -
  let ?p = "\<lparr>pt_Name = None, pt_Status = Some StatusExited\<rparr>"
  have ne: "\<not> TopicPatch_Empty ?p" by (simp add: TopicPatch_Empty_def)
  obtain w where w: "gw_EditTopic g (te_ThreadID e) ?p (rc_world r) = (None, w)" "calm w"
    using calm_edit [of "rc_world r" "te_ThreadID e" ?p] full_exists [OF r e] r by blast
  let ?r1 = "save g (stamped g (\<lambda>m now. MarkExited m key now) (r\<lparr>rc_world := w\<rparr>))"
  have T: "\<And>th. topic (rc_world r) th \<noteq> None \<Longrightarrow> topic w th \<noteq> None" using edit_exists [OF w(1) ne] .
  note eff = write_effect [OF e w(2) T, of "\<lambda>now e. e\<lparr>te_Status := StatusExited, te_UpdatedAt := now\<rparr>", folded MarkExited_def]
  have "ok ?r1"
  proof -
    obtain t where t: "used w = used (rc_world r)" "topic (rc_world r) (te_ThreadID e) = Some t"
        "topic w = (topic (rc_world r))(te_ThreadID e \<mapsto> patched icon ?p t)"
      using edit_ok [OF w(1) ne] by blast
    show ?thesis
      unfolding ok_save MarkExited_def using ok_entry [of r key e] r e t(2) alive
      by (intro ok_call [OF conjunct1 [OF r] e t(1,3)]) (auto simp: entry_ok_def agrees_def t(3) patched_def Live_def)
  qed
  then have full1: "full ?r1" and only1: "only key r ?r1" using eff r by auto
  obtain e1 where e1: "TopicFor (rc_mapping ?r1) key = Some e1" "\<not> Live (te_Status e1)" "\<not> te_Muted e1"
    using eff(6) r alive by (auto simp: Live_def)
  have "Reconciler_exit g key r = Reconciler_close g key ?r1"
    using e alive w r by (simp add: Reconciler_exit_def mark_and_close_def full_not_blocked)
  then show ?thesis
    using calm_close_step [OF full1 e1(1,2)] e1 only_trans [OF only1] by (metis (lifting))
qed

lemma calm_createTopic:
  assumes r: "full r" and a: "agent_ok a"
  shows "\<exists>r'. createTopic g a r = (None, r') \<and> full r' \<and> only (ag_Key a) r r' \<and> current a (TopicFor (rc_mapping r') (ag_Key a))"
proof -
  let ?n = "fst (Desired a)" and ?s = "snd (Desired a)"
  obtain t w where c: "gw_CreateTopic g ?n ?s (rc_world r) = (Inr t, w)" "calm w"
    using calm_create [of "rc_world r" ?n ?s] r by blast
  note law = create_ok [OF c(1)]
  let ?r' = "save g (stamped g (\<lambda>m now. Link m (ag_Key a) t a now) (r\<lparr>rc_world := w\<rparr>))"
  have r': "createTopic g a r = (None, ?r')" using c by (simp add: createTopic_def split_beta)
  have ok': "ok ?r'" using ok_createTopic [of r a] r a r' by simp
  obtain now w' where now: "gw_Now g w = (now, w')" by fastforce
  have get: "gm_get (mp_Topics (Link m (ag_Key a) t a now)) = (gm_get (mp_Topics m))(Key_String (ag_Key a) \<mapsto>
      \<lparr>te_ThreadID = tp_ThreadID t, te_Name = ?n, te_Status = ?s, te_Closed = False, te_Muted = False, te_UpdatedAt = now\<rparr>)" for m
    using law by (auto simp: Link_def Desired_def gm.get_put)
  have m: "rc_mapping ?r' = Link (rc_mapping r) (ag_Key a) t a now" by (simp add: stamped_def now)
  have world: "topic (rc_world ?r') = topic w"
    by (simp add: save_def stamped_def now others now_frame [OF now] Let_def)
  have "calm (rc_world ?r')" using calm_others [of w] calm_others(1) [of w'] c(2) now by (simp add: save_def stamped_def Let_def)
  moreover have "all_exist (topic (rc_world ?r')) (rc_mapping ?r')"
    using r law unfolding all_exist_def m world get by auto
  moreover have "only (ag_Key a) r ?r'" unfolding only_def m get by (simp add: save_def stamped_def now Let_def)
  moreover have "current a (TopicFor (rc_mapping ?r') (ag_Key a))"
    using a unfolding current_def TopicFor_def m get by (simp add: agent_ok_def Desired_def)
  moreover have "\<not> rc_rightsLost ?r'" using r by (simp add: save_def stamped_def now Let_def)
  ultimately show ?thesis using r' ok' by blast
qed

lemma calm_revive_open:
  assumes r: "calm (rc_world r)" "\<not> rc_rightsLost r" "all_exist (topic (rc_world r)) (rc_mapping r)"
    and e: "TopicFor (rc_mapping r) (ag_Key a) = Some e" and a: "agent_ok a"
  shows "\<exists>r'. revive_open g a e r = (None, r') \<and> calm (rc_world r') \<and> \<not> rc_rightsLost r'
    \<and> all_exist (topic (rc_world r')) (rc_mapping r') \<and> only (ag_Key a) r r' \<and> current a (TopicFor (rc_mapping r') (ag_Key a))"
proof -
  let ?key = "ag_Key a"
  let ?p = "\<lparr>pt_Name = (if fst (Desired a) \<noteq> te_Name e then Some (fst (Desired a)) else None),
              pt_Status = Some (snd (Desired a))\<rparr>"
  have ne: "\<not> TopicPatch_Empty ?p" by (simp add: TopicPatch_Empty_def)
  let ?r1 = "save g (stamped g (\<lambda>m now. MarkReopened (Unmute m ?key now) ?key now) r)"
  let ?f = "\<lambda>now e. e\<lparr>te_Muted := False, te_Closed := False, te_UpdatedAt := now\<rparr>"
  have r1: "?r1 = save g (stamped g (\<lambda>m now. adjust_entry m ?key (?f now)) (r\<lparr>rc_world := rc_world r\<rparr>))"
    by (simp add: reopen_entry)
  have same: "te_ThreadID (?f now e) = te_ThreadID e" for now by simp
  have id: "topic (rc_world r) th \<noteq> None \<Longrightarrow> topic (rc_world r) th \<noteq> None" for th .
  note eff1 = write_effect [where f = ?f, OF e r(1) id r(3) same, folded r1]
  have eff: "only ?key r ?r1" "calm (rc_world ?r1)" "all_exist (topic (rc_world ?r1)) (rc_mapping ?r1)"
      "rc_rightsLost ?r1 = rc_rightsLost r"
    using eff1 by blast+
  obtain now where e1: "TopicFor (rc_mapping ?r1) ?key = Some (?f now e)" (is "_ = Some ?e1") using eff1(6) by blast
  have there: "topic (rc_world ?r1) (te_ThreadID e) \<noteq> None"
  proof -
    have "topic (rc_world ?r1) (te_ThreadID (?f now e)) \<noteq> None"
      using eff(3) e1 unfolding all_exist_def TopicFor_def by blast
    then show ?thesis by simp
  qed
  obtain w where w: "gw_EditTopic g (te_ThreadID e) ?p (rc_world ?r1) = (None, w)" "calm w"
    using calm_edit [OF eff(2) there] by blast
  let ?r2 = "save g (stamped g (\<lambda>m now. Apply m ?key ?p now) (?r1\<lparr>rc_world := w\<rparr>))"
  have r2: "revive_open g a e r = (None, ?r2)" using w by (simp add: revive_open_def Let_def split_beta)
  note eff2 = write_effect [OF e1 w(2) edit_exists [OF w(1) ne] eff(3),
      of "\<lambda>now e. let e1 = (case pt_Name ?p of Some n \<Rightarrow> e\<lparr>te_Name := n\<rparr> | None \<Rightarrow> e);
          e2 = (case pt_Status ?p of Some s \<Rightarrow> e1\<lparr>te_Status := s\<rparr> | None \<Rightarrow> e1) in e2\<lparr>te_UpdatedAt := now\<rparr>",
      folded Apply_def]
  have eff': "only ?key ?r1 ?r2" "calm (rc_world ?r2)" "all_exist (topic (rc_world ?r2)) (rc_mapping ?r2)"
      "rc_rightsLost ?r2 = rc_rightsLost ?r1"
    using eff2 by auto
  have "current a (TopicFor (rc_mapping ?r2) ?key)"
    using eff2(6) a by (auto simp: current_def agent_ok_def Desired_def)
  then show ?thesis using r2 eff eff' r only_trans [OF eff(1) eff'(1)] by auto
qed

lemma calm_revive:
  assumes r: "calm (rc_world r)" "\<not> rc_rightsLost r" "all_exist (topic (rc_world r)) (rc_mapping r)"
    and e: "TopicFor (rc_mapping r) (ag_Key a) = Some e" and a: "agent_ok a"
  shows "\<exists>r'. revive g a e r = (None, r') \<and> calm (rc_world r') \<and> \<not> rc_rightsLost r'
    \<and> all_exist (topic (rc_world r')) (rc_mapping r') \<and> only (ag_Key a) r r' \<and> current a (TopicFor (rc_mapping r') (ag_Key a))"
proof (cases "te_Closed e")
  case False
  then show ?thesis using calm_revive_open [OF r e a] by (simp add: revive_def)
next
  case True
  have "topic (rc_world r) (te_ThreadID e) \<noteq> None"
    using r(3) e unfolding all_exist_def TopicFor_def by blast
  then obtain w where w: "gw_ReopenTopic g (te_ThreadID e) (rc_world r) = (None, w)" "calm w"
    using calm_reopen [OF r(1)] by blast
  have "all_exist (topic w) (rc_mapping r)"
    using r(3) reopen_ok [OF w(1)] unfolding all_exist_def by auto
  then show ?thesis
    using calm_revive_open [of "r\<lparr>rc_world := w\<rparr>" a e] w r e a True by (simp add: revive_def only_def)
qed

lemma calm_edit_step:
  assumes r: "full r" "\<not> rc_force r" and a: "agent_ok a" "gm_get (rc_agents r) (ag_Key a) = Some a"
    and e: "TopicFor (rc_mapping r) (ag_Key a) = Some e" "Live (te_Status e)"
  shows "\<exists>r'. Reconciler_edit g (ag_Key a) r = (None, r') \<and> full r' \<and> only (ag_Key a) r r'
    \<and> current a (TopicFor (rc_mapping r') (ag_Key a))"
proof (cases "te_Muted e")
  case True
  then show ?thesis using r a e by (simp add: Reconciler_edit_def current_def)
next
  case heard: False
  show ?thesis
  proof (cases "Diff (rc_mapping r) (ag_Key a) a")
    case None
    then have "(te_Name e, te_Status e) = Desired a" using e by (simp add: Diff_None_iff)
    then show ?thesis using None r a e heard by (simp add: Reconciler_edit_def edit_patch_def current_def)
  next
    case (Some p)
    note D = Diff_Some [OF Some]
    have ne: "\<not> TopicPatch_Empty p" using D by (auto simp: TopicPatch_Empty_def)
    obtain w where w: "gw_EditTopic g (te_ThreadID e) p (rc_world r) = (None, w)" "calm w"
      using calm_edit [of "rc_world r" "te_ThreadID e" p] full_exists [OF r(1) e(1)] r by blast
    let ?f = "\<lambda>now e. let e1 = (case pt_Name p of Some n \<Rightarrow> e\<lparr>te_Name := n\<rparr> | None \<Rightarrow> e);
          e2 = (case pt_Status p of Some s \<Rightarrow> e1\<lparr>te_Status := s\<rparr> | None \<Rightarrow> e1) in e2\<lparr>te_UpdatedAt := now\<rparr>"
    let ?r' = "save g (stamped g (\<lambda>m now. Apply m (ag_Key a) p now) (r\<lparr>rc_world := w\<rparr>))"
    have r': "Reconciler_edit g (ag_Key a) r = (None, ?r')"
      using a e heard r w Some by (simp add: Reconciler_edit_def edit_patch_def full_not_blocked)
    have all: "all_exist (topic (rc_world r)) (rc_mapping r)" using r(1) by blast
    have same: "te_ThreadID (?f now e) = te_ThreadID e" for now by (simp add: Let_def split: option.split)
    note eff = write_effect [where f = ?f, OF e(1) w(2) edit_exists [OF w(1) ne] all same, folded Apply_def]
    have "ok ?r'" using ok_edit [of r "ag_Key a"] r r' by simp
    moreover have "current a (TopicFor (rc_mapping ?r') (ag_Key a))"
      using eff(6) D a(1) e by (auto simp: current_def Desired_def agent_ok_def Let_def split: option.splits)
    ultimately show ?thesis using r' eff r by auto
  qed
qed

lemma calm_live_step:
  assumes r: "full r" "\<not> rc_force r" and a: "agent_ok a" "gm_get (rc_agents r) (ag_Key a) = Some a"
  shows "\<exists>r'. live_step g a r = (None, r') \<and> full r' \<and> only (ag_Key a) r r'
    \<and> current a (TopicFor (rc_mapping r') (ag_Key a))"
proof (cases "TopicFor (rc_mapping r) (ag_Key a)")
  case None
  then show ?thesis
    using calm_createTopic [OF r(1) a(1)] r by (simp add: live_step_def Reconciler_create_def full_not_blocked)
next
  case e: (Some e)
  show ?thesis
  proof (cases "Live (te_Status e)")
    case True
    have "full (rc_Cancel (ag_Key a) r)" "\<not> rc_force (rc_Cancel (ag_Key a) r)"
      "gm_get (rc_agents (rc_Cancel (ag_Key a) r)) (ag_Key a) = Some a"
      "TopicFor (rc_mapping (rc_Cancel (ag_Key a) r)) (ag_Key a) = Some e"
      using r a e by (simp_all add: rc_Cancel_def in_step_def)
    from calm_edit_step [OF this(1,2) a(1) this(3,4) True] show ?thesis
      using e True by (simp add: live_step_def only_def rc_Cancel_def)
  next
    case False
    have l: "live_step g a r = revive g a e r"
      using e False r by (simp add: live_step_def Reconciler_create_def full_not_blocked)
    obtain r' where r': "revive g a e r = (None, r')" "calm (rc_world r') \<and> \<not> rc_rightsLost r'
        \<and> all_exist (topic (rc_world r')) (rc_mapping r') \<and> only (ag_Key a) r r'
        \<and> current a (TopicFor (rc_mapping r') (ag_Key a))"
      using calm_revive [OF _ _ _ e a(1)] r by blast
    moreover have "ok r'" using ok_revive [OF _ e a(1) False] r r'(1) by (metis snd_conv)
    ultimately show ?thesis using l by auto
  qed
qed

end

section \<open>A whole pass\<close>

text \<open>The mapping after a pass: every live agent's topic is current, every other one muted or finished and closed.\<close>

definition settled :: "Agent list \<Rightarrow> Mapping \<Rightarrow> bool" where
  "settled live m \<longleftrightarrow> mapping_ok m
     \<and> (\<forall>a\<in>set live. current a (TopicFor m (ag_Key a)))
     \<and> (\<forall>k e. key_ok k \<longrightarrow> TopicFor m k = Some e \<longrightarrow> k \<notin> ag_Key ` set live \<longrightarrow>
          te_Muted e \<or> \<not> Live (te_Status e) \<and> te_Closed e)"

lemma DedupeThreads_id:
  assumes "mirrors icon T U m" shows "DedupeThreads m = (m, 0)"
proof -
  have "thread_best m (te_ThreadID e) = Some s" if e: "(s, e) \<in> set (mp_Topics m)" for s e
  proof -
    have get: "gm_get (mp_Topics m) s = Some e"
      using mirrorsD(1) [OF assms] e by (simp add: mapping_ok_def gm_get_in)
    then have "thread_best m (te_ThreadID e) \<noteq> None" using thread_best_None by blast
    then obtain s' where s': "thread_best m (te_ThreadID e) = Some s'" by blast
    then obtain e' where "gm_get (mp_Topics m) s' = Some e'" "te_ThreadID e' = te_ThreadID e"
      using thread_best_Some by metis
    then have "s' = s" using assms get unfolding mirrors_def by metis
    with s' show ?thesis by simp
  qed
  then have "filter (\<lambda>(key, e). thread_best m (te_ThreadID e) = Some key) (mp_Topics m) = mp_Topics m"
    by (auto simp: filter_id_conv)
  then show ?thesis by (simp add: DedupeThreads_def Let_def)
qed

lemma Prune_id:
  assumes "int (length (mp_Topics m)) \<le> cap \<or> (\<forall>k e. gm_get (mp_Topics m) k = Some e \<longrightarrow> Live (te_Status e))"
    and "mapping_ok m"
  shows "Prune m cap = (m, 0)"
proof (cases "int (length (mp_Topics m)) \<le> cap")
  case False
  then have "\<forall>(k, e)\<in>set (mp_Topics m). Live (te_Status e)"
    using assms by (auto simp: mapping_ok_def gm_get_in)
  then have "filter (\<lambda>(key, e). \<not> Live (te_Status e)) (mp_Topics m) = []" by (auto simp: filter_empty_conv)
  then have "exited_by_age (mp_Topics m) = []" by (simp add: exited_by_age_def)
  then show ?thesis by (simp add: Prune_def)
qed (simp add: Prune_def)

lemma Prune_settled:
  assumes "settled live m" "0 < cap"
  shows "settled live (fst (Prune m cap))" "Prune (fst (Prune m cap)) cap = (fst (Prune m cap), 0)"
proof -
  have ok: "mapping_ok m" using assms(1) by (simp add: settled_def)
  note F = Prune_facts [OF ok assms(2)]
  note sub = F [THEN conjunct2, THEN conjunct1, rule_format]
    and keep = F [THEN conjunct2, THEN conjunct2, THEN conjunct1, rule_format, OF conjI]
    and small = F [THEN conjunct2, THEN conjunct2, THEN conjunct2, THEN conjunct1]
  note cur = assms(1) [unfolded settled_def, THEN conjunct2, THEN conjunct1, rule_format]
    and fin = assms(1) [unfolded settled_def, THEN conjunct2, THEN conjunct2, rule_format]
  have ok': "mapping_ok (fst (Prune m cap))" using ok by (rule inv_intros)
  have "current a (TopicFor (fst (Prune m cap)) (ag_Key a))" if a: "a \<in> set live" for a
  proof -
    obtain e where e: "TopicFor m (ag_Key a) = Some e" "Live (te_Status e)" "te_Muted e \<or> (te_Name e, te_Status e) = Desired a"
      using cur [OF a] unfolding current_def by blast
    have "TopicFor (fst (Prune m cap)) (ag_Key a) = Some e"
      using keep [OF e(1) [unfolded TopicFor_def] e(2)] by (fold TopicFor_def)
    then show ?thesis using e(2,3) unfolding current_def by blast
  qed
  moreover have "te_Muted e \<or> \<not> Live (te_Status e) \<and> te_Closed e"
    if "key_ok k" "TopicFor (fst (Prune m cap)) k = Some e" "k \<notin> ag_Key ` set live" for k e
  proof -
    have "TopicFor m k = Some e" by (rule sub [OF that(2) [unfolded TopicFor_def], folded TopicFor_def])
    from fin [OF that(1) this that(3)] show ?thesis .
  qed
  ultimately show "settled live (fst (Prune m cap))" using ok' by (simp add: settled_def)
  show "Prune (fst (Prune m cap)) cap = (fst (Prune m cap), 0)"
    by (rule Prune_id [OF small ok'])
qed

lemma settled_lists:
  assumes "settled live m" "\<And>a. a \<in> set live \<Longrightarrow> key_ok (ag_Key a)"
  shows "Orphans m (map ag_Key live) = []" "Unclosed m = []"
proof -
  have fin: "te_Muted e \<or> \<not> Live (te_Status e) \<and> te_Closed e"
    if "k \<in> set (Keys m)" "TopicFor m k = Some e" "k \<notin> ag_Key ` set live" for k e
    using assms(1) that by (auto simp: settled_def set_Keys)
  then show "Orphans m (map ag_Key live) = []"
    by (fastforce simp: Orphans_def filter_empty_conv split: option.splits)
  have "Live (te_Status e)" if "TopicFor m k = Some e" "k \<in> ag_Key ` set live" for k e
    using assms(1) that by (auto simp: settled_def current_def)
  with fin show "Unclosed m = []"
    by (fastforce simp: Unclosed_def filter_empty_conv split: option.splits)
qed

context calm_forum
begin

lemma calm_orphans:
  assumes r: "full r"
  shows "\<exists>r'. each (orphan_step g) (Orphans (rc_mapping r) ks) r = (None, r') \<and> full r'
    \<and> (\<forall>k\<in>set (Orphans (rc_mapping r) ks). \<exists>e. TopicFor (rc_mapping r') k = Some e \<and> \<not> Live (te_Status e) \<and> te_Closed e)
    \<and> (\<forall>t. t \<notin> Key_String ` set (Orphans (rc_mapping r) ks) \<longrightarrow>
         gm_get (mp_Topics (rc_mapping r')) t = gm_get (mp_Topics (rc_mapping r)) t)
    \<and> rc_rightsLost r' = rc_rightsLost r \<and> rc_force r' = rc_force r \<and> rc_agents r' = rc_agents r"
proof (rule each_settles [where \<kappa> = "\<lambda>k. k"
      and pre = "\<lambda>k oe. \<exists>e. oe = Some e \<and> Live (te_Status e) \<and> \<not> te_Muted e"
      and post = "\<lambda>k oe. \<exists>e. oe = Some e \<and> \<not> Live (te_Status e) \<and> te_Closed e", where I = full])
  show "full r" by (rule r)
  have "mapping_ok (rc_mapping r)" using r by (simp add: in_step_def mirrors_def)
  then show "distinct (map Key_String (Orphans (rc_mapping r) ks))"
    using distinct_Keys by (auto simp: Orphans_def distinct_map set_Keys Key_String_inj inj_on_def)
next
  fix k s assume s: "full s" and pre: "\<exists>e. TopicFor (rc_mapping s) k = Some e \<and> Live (te_Status e) \<and> \<not> te_Muted e"
  have full': "full (rc_Cancel k s)" using s by (simp add: rc_Cancel_def in_step_def)
  obtain e where e: "TopicFor (rc_mapping (rc_Cancel k s)) k = Some e" "Live (te_Status e)" "\<not> te_Muted e"
    using pre by (auto simp: rc_Cancel_def)
  from calm_exit_step [OF full' e]
  show "\<exists>s'. orphan_step g k s = (None, s') \<and> full s' \<and> only k s s'
      \<and> (\<exists>e. TopicFor (rc_mapping s') k = Some e \<and> \<not> Live (te_Status e) \<and> te_Closed e)"
    by (auto simp: orphan_step_def only_def rc_Cancel_def)
next
  fix k assume "k \<in> set (Orphans (rc_mapping r) ks)"
  then show "\<exists>e. TopicFor (rc_mapping r) k = Some e \<and> Live (te_Status e) \<and> \<not> te_Muted e"
    by (auto simp: Orphans_def split: option.splits)
qed

lemma calm_unclosed:
  assumes r: "full r"
  shows "\<exists>r'. each (Reconciler_close g) (Unclosed (rc_mapping r)) r = (None, r') \<and> full r'
    \<and> (\<forall>k\<in>set (Unclosed (rc_mapping r)). \<exists>e. TopicFor (rc_mapping r') k = Some e \<and> \<not> Live (te_Status e) \<and> te_Closed e)
    \<and> (\<forall>t. t \<notin> Key_String ` set (Unclosed (rc_mapping r)) \<longrightarrow>
         gm_get (mp_Topics (rc_mapping r')) t = gm_get (mp_Topics (rc_mapping r)) t)
    \<and> rc_rightsLost r' = rc_rightsLost r \<and> rc_force r' = rc_force r \<and> rc_agents r' = rc_agents r"
proof (rule each_settles [where \<kappa> = "\<lambda>k. k"
      and pre = "\<lambda>k oe. \<exists>e. oe = Some e \<and> \<not> Live (te_Status e)"
      and post = "\<lambda>k oe. \<exists>e. oe = Some e \<and> \<not> Live (te_Status e) \<and> te_Closed e", where I = full])
  show "full r" by (rule r)
  have "mapping_ok (rc_mapping r)" using r by (simp add: in_step_def mirrors_def)
  then show "distinct (map Key_String (Unclosed (rc_mapping r)))"
    using distinct_Keys by (auto simp: Unclosed_def distinct_map set_Keys Key_String_inj inj_on_def)
next
  fix k s assume s: "full s" and "\<exists>e. TopicFor (rc_mapping s) k = Some e \<and> \<not> Live (te_Status e)"
  then obtain e where "TopicFor (rc_mapping s) k = Some e" "\<not> Live (te_Status e)" by blast
  from calm_close_step [OF s this]
  show "\<exists>s'. Reconciler_close g k s = (None, s') \<and> full s' \<and> only k s s'
      \<and> (\<exists>e. TopicFor (rc_mapping s') k = Some e \<and> \<not> Live (te_Status e) \<and> te_Closed e)"
    using \<open>\<not> Live (te_Status e)\<close> by metis
next
  fix k assume "k \<in> set (Unclosed (rc_mapping r))"
  then show "\<exists>e. TopicFor (rc_mapping r) k = Some e \<and> \<not> Live (te_Status e)"
    by (auto simp: Unclosed_def split: option.splits)
qed

lemma calm_live:
  assumes r: "full r" "\<not> rc_force r" and live: "\<forall>a\<in>set xs. agent_ok a"
    and agents: "\<forall>a\<in>set xs. gm_get (rc_agents r) (ag_Key a) = Some a"
    and dist: "distinct (map (\<lambda>a. Key_String (ag_Key a)) xs)"
  shows "\<exists>r'. each (live_step g) xs r = (None, r') \<and> (full r' \<and> \<not> rc_force r' \<and> rc_agents r' = rc_agents r)
    \<and> (\<forall>a\<in>set xs. current a (TopicFor (rc_mapping r') (ag_Key a)))
    \<and> (\<forall>t. t \<notin> (\<lambda>a. Key_String (ag_Key a)) ` set xs \<longrightarrow>
         gm_get (mp_Topics (rc_mapping r')) t = gm_get (mp_Topics (rc_mapping r)) t)
    \<and> rc_rightsLost r' = rc_rightsLost r \<and> rc_force r' = rc_force r \<and> rc_agents r' = rc_agents r"
proof (rule each_settles [where \<kappa> = ag_Key and pre = "\<lambda>a oe. True" and post = "\<lambda>a oe. current a oe",
      where I = "\<lambda>s. full s \<and> \<not> rc_force s \<and> rc_agents s = rc_agents r"])
  fix a s assume "a \<in> set xs" and s: "full s \<and> \<not> rc_force s \<and> rc_agents s = rc_agents r"
  then have "\<exists>s'. live_step g a s = (None, s') \<and> full s' \<and> only (ag_Key a) s s' \<and> current a (TopicFor (rc_mapping s') (ag_Key a))"
    using live agents by (intro calm_live_step) auto
  then show "\<exists>s'. live_step g a s = (None, s') \<and> (full s' \<and> \<not> rc_force s' \<and> rc_agents s' = rc_agents r)
      \<and> only (ag_Key a) s s' \<and> current a (TopicFor (rc_mapping s') (ag_Key a))"
    using s by (metis only_def)
qed (use r dist in simp_all)

lemma prune_step_full:
  assumes r: "full r"
  shows "full (prune_step g r)" "rc_mapping (prune_step g r) = fst (Prune (rc_mapping r) mappingMaxEntries)"
    "rc_force (prune_step g r) = rc_force r"
proof -
  let ?m = "fst (Prune (rc_mapping r) mappingMaxEntries)"
  have ok: "mapping_ok (rc_mapping r)" using r by (simp add: in_step_def mirrors_def)
  have cap: "0 < mappingMaxEntries" by (simp add: mappingMaxEntries_def)
  note sub = Prune_facts [OF ok cap, THEN conjunct2, THEN conjunct1, rule_format]
  show m: "rc_mapping (prune_step g r) = ?m" by (simp add: prune_step_def split_beta Let_def)
  show "rc_force (prune_step g r) = rc_force r" by (simp add: prune_step_def split_beta Let_def save_def)
  have T: "topic (rc_world (prune_step g r)) = topic (rc_world r)"
    by (simp add: prune_step_def split_beta Let_def save_def others)
  have "all_exist (topic (rc_world (prune_step g r))) (rc_mapping (prune_step g r))"
    unfolding all_exist_def T m
  proof (intro allI impI)
    fix s e assume "gm_get (mp_Topics ?m) s = Some e"
    then have "gm_get (mp_Topics (rc_mapping r)) s = Some e" by (rule sub)
    then show "topic (rc_world r) (te_ThreadID e) \<noteq> None" using r by (simp add: all_exist_def)
  qed
  moreover have "calm (rc_world (prune_step g r))" "\<not> rc_rightsLost (prune_step g r)"
    using r calm_others(1) by (simp_all add: prune_step_def split_beta Let_def save_def)
  ultimately show "full (prune_step g r)" using ok_prune_step [of r] r by blast
qed

lemma agent_map_other:
  "k \<notin> ag_Key ` set live \<Longrightarrow> gm_get (fold (\<lambda>a m. gm_put (ag_Key a) a m) live as) k = gm_get as k"
  by (induction live arbitrary: as) (simp_all add: update_conv')

lemma agent_map_get:
  assumes "distinct (map ag_Key live)" "a \<in> set live"
  shows "gm_get (agent_map live) (ag_Key a) = Some a"
proof -
  have "gm_get (fold (\<lambda>a m. gm_put (ag_Key a) a m) live as) (ag_Key a) = Some a" for as
    using assms
  proof (induction live arbitrary: as)
    case (Cons b live)
    then show ?case by (cases "a = b") (auto simp: agent_map_other update_conv')
  qed simp
  then show ?thesis by (simp add: agent_map_def)
qed

lemma pass_settles:
  assumes r: "full r" "\<not> rc_force r" and live: "\<And>a. a \<in> set live \<Longrightarrow> agent_ok a" and dist: "distinct (map ag_Key live)"
  shows "\<exists>r'. Reconcile g live r = (None, r') \<and> full r' \<and> \<not> rc_force r' \<and> settled live (rc_mapping r')
    \<and> Prune (rc_mapping r') mappingMaxEntries = (rc_mapping r', 0)"
proof -
  let ?r1 = "r\<lparr>rc_agents := agent_map live\<rparr>"
  have keys: "key_ok (ag_Key a)" if "a \<in> set live" for a using live [OF that] by (simp add: agent_ok_def)
  have d: "dedupe_step g r = r"
    using DedupeThreads_id r by (auto simp: dedupe_step_def in_step_def)
  have full1: "full ?r1" using ok_agents [OF _ agents_ok_agent_map [OF live]] r by simp
  let ?O = "Orphans (rc_mapping ?r1) (map ag_Key live)"
  obtain r2 where r2: "each (orphan_step g) ?O ?r1 = (None, r2)" "full r2"
      "\<forall>k\<in>set ?O. \<exists>e. TopicFor (rc_mapping r2) k = Some e \<and> \<not> Live (te_Status e) \<and> te_Closed e"
      "\<forall>t. t \<notin> Key_String ` set ?O \<longrightarrow> gm_get (mp_Topics (rc_mapping r2)) t = gm_get (mp_Topics (rc_mapping ?r1)) t"
      "rc_force r2 = rc_force ?r1 \<and> rc_agents r2 = rc_agents ?r1"
    using calm_orphans [OF full1, of "map ag_Key live"] by (elim exE conjE) (rule that; (intro conjI)?; assumption)
  let ?U = "Unclosed (rc_mapping r2)"
  obtain r3 where r3: "each (Reconciler_close g) ?U r2 = (None, r3)" "full r3"
      "\<forall>k\<in>set ?U. \<exists>e. TopicFor (rc_mapping r3) k = Some e \<and> \<not> Live (te_Status e) \<and> te_Closed e"
      "\<forall>t. t \<notin> Key_String ` set ?U \<longrightarrow> gm_get (mp_Topics (rc_mapping r3)) t = gm_get (mp_Topics (rc_mapping r2)) t"
      "rc_force r3 = rc_force r2 \<and> rc_agents r3 = rc_agents r2"
    using calm_unclosed [OF r2(2)] by (elim exE conjE) (rule that; (intro conjI)?; assumption)
  let ?L = "sort_key (\<lambda>a. Key_String (ag_Key a)) live"
  have inj: "Key_String (ag_Key a) = Key_String k \<longleftrightarrow> ag_Key a = k" if "a \<in> set live" "key_ok k" for a k
    using Key_String_inj [OF keys [OF that(1)] that(2)] .
  have "inj_on (\<lambda>a. Key_String (ag_Key a)) (set live)"
  proof (rule inj_onI)
    fix a b assume "a \<in> set live" "b \<in> set live" "Key_String (ag_Key a) = Key_String (ag_Key b)"
    then have "ag_Key a = ag_Key b" using inj keys by blast
    then show "a = b" using dist \<open>a \<in> set live\<close> \<open>b \<in> set live\<close> by (simp add: distinct_map inj_on_def)
  qed
  moreover have "distinct live" using dist by (simp add: distinct_map)
  ultimately have distL: "distinct (map (\<lambda>a. Key_String (ag_Key a)) ?L)"
    by (simp add: distinct_map)
  have agents: "\<forall>a\<in>set ?L. gm_get (rc_agents r3) (ag_Key a) = Some a"
    using agent_map_get [OF dist] r2(5) r3(5) by simp
  have force3: "\<not> rc_force r3" using r2(5) r3(5) r(2) by simp
  have live3: "\<forall>a\<in>set ?L. agent_ok a" using live by simp
  obtain r4 where r4: "each (live_step g) ?L r3 = (None, r4)" "full r4" "\<not> rc_force r4"
      "\<forall>a\<in>set ?L. current a (TopicFor (rc_mapping r4) (ag_Key a))"
      "\<forall>t. t \<notin> (\<lambda>a. Key_String (ag_Key a)) ` set ?L \<longrightarrow> gm_get (mp_Topics (rc_mapping r4)) t = gm_get (mp_Topics (rc_mapping r3)) t"
    using calm_live [OF r3(2) force3 live3 agents distL] by (elim exE conjE) (rule that; (intro conjI)?; assumption)
  have "settled live (rc_mapping r4)"
    unfolding settled_def
  proof (intro conjI ballI allI impI)
    show "mapping_ok (rc_mapping r4)" using r4(2) by (simp add: in_step_def mirrors_def)
    show "current a (TopicFor (rc_mapping r4) (ag_Key a))" if "a \<in> set live" for a using r4(4) that by simp
    fix k e assume k: "key_ok k" and e: "TopicFor (rc_mapping r4) k = Some e" and gone: "k \<notin> ag_Key ` set live"
    have "Key_String k \<notin> (\<lambda>a. Key_String (ag_Key a)) ` set ?L" using inj k gone by fastforce
    then have e3: "TopicFor (rc_mapping r3) k = Some e" using r4(5) e by (simp add: TopicFor_def)
    show "te_Muted e \<or> \<not> Live (te_Status e) \<and> te_Closed e"
    proof (cases "k \<in> set ?U")
      case True
      then show ?thesis using r3(3) e3 by fastforce
    next
      case notU: False
      have "k \<in> set ?U" if "Key_String k \<in> Key_String ` set ?U"
        using that k Key_String_inj by (auto simp: Unclosed_def set_Keys)
      then have e2: "TopicFor (rc_mapping r2) k = Some e" using r3(4) notU e3 unfolding TopicFor_def by metis
      show ?thesis
      proof (cases "k \<in> set ?O")
        case True
        then show ?thesis using r2(3) e2 by fastforce
      next
        case notO: False
        have "k \<in> set ?O" if "Key_String k \<in> Key_String ` set ?O"
          using that k Key_String_inj by (auto simp: Orphans_def set_Keys)
        then have e1: "TopicFor (rc_mapping ?r1) k = Some e" using r2(4) notO e2 unfolding TopicFor_def by metis
        then have "k \<in> set (Keys (rc_mapping ?r1))" "k \<in> set (Keys (rc_mapping r2))"
          using k e2 by (simp_all add: set_Keys)
        then show ?thesis using notO notU e1 e2 gone by (auto simp: Orphans_def Unclosed_def)
      qed
    qed
  qed
  then have s: "settled live (rc_mapping (prune_step g r4))"
      "Prune (rc_mapping (prune_step g r4)) mappingMaxEntries = (rc_mapping (prune_step g r4), 0)"
    using Prune_settled [of live "rc_mapping r4" mappingMaxEntries] prune_step_full(2) [OF r4(2)]
    by (simp_all add: mappingMaxEntries_def)
  have "Reconcile g live r = (None, prune_step g r4)"
    using r d r2(1) r3(1) r4(1) by (simp add: Reconcile_def full_not_blocked Let_def)
  then show ?thesis using s prune_step_full [OF r4(2)] r4(3) by auto
qed

lemma settled_step:
  assumes "settled live (rc_mapping r)" "a \<in> set live" "\<not> rc_force r" "gm_get (rc_agents r) (ag_Key a) = Some a"
  shows "live_step g a r = (None, rc_Cancel (ag_Key a) r)"
proof -
  obtain e where e: "TopicFor (rc_mapping r) (ag_Key a) = Some e" "Live (te_Status e)"
      "te_Muted e \<or> (te_Name e, te_Status e) = Desired a"
    using assms(1,2) by (auto simp: settled_def current_def)
  have "Diff (rc_mapping r) (ag_Key a) a = None" if "\<not> te_Muted e" using e that by (simp add: Diff_None_iff)
  with e assms(3,4) show ?thesis
    by (simp add: live_step_def Reconciler_edit_def edit_patch_def rc_Cancel_def)
qed

lemma pass_again:
  assumes r: "full r" "\<not> rc_force r" and live: "\<And>a. a \<in> set live \<Longrightarrow> agent_ok a" and dist: "distinct (map ag_Key live)"
    and s: "settled live (rc_mapping r)" "Prune (rc_mapping r) mappingMaxEntries = (rc_mapping r, 0)"
  shows "\<exists>r'. Reconcile g live r = (None, r') \<and> rc_world r' = rc_world r \<and> rc_mapping r' = rc_mapping r"
proof -
  let ?r1 = "r\<lparr>rc_agents := agent_map live\<rparr>" and ?L = "sort_key (\<lambda>a. Key_String (ag_Key a)) live"
  have keys: "key_ok (ag_Key a)" if "a \<in> set live" for a using live [OF that] by (simp add: agent_ok_def)
  have d: "dedupe_step g r = r"
    using DedupeThreads_id r by (auto simp: dedupe_step_def in_step_def)
  note lists = settled_lists [OF s(1) keys]
  have "\<exists>r'. each (live_step g) xs t = (None, r') \<and> rc_world r' = rc_world t \<and> rc_mapping r' = rc_mapping t"
    if "set xs \<subseteq> set live" "rc_mapping t = rc_mapping r" "rc_agents t = agent_map live" "\<not> rc_force t" for xs t
    using that
  proof (induction xs arbitrary: t)
    case (Cons a xs)
    have "live_step g a t = (None, rc_Cancel (ag_Key a) t)"
      using Cons.prems s(1) agent_map_get [OF dist] by (intro settled_step) auto
    then show ?case using Cons.IH [of "rc_Cancel (ag_Key a) t"] Cons.prems by (simp add: rc_Cancel_def)
  qed simp
  from this [of ?L ?r1] obtain r' where r': "each (live_step g) ?L ?r1 = (None, r')"
      "rc_world r' = rc_world r" "rc_mapping r' = rc_mapping r"
    using r by auto
  have "prune_step g r' = r'" using s(2) r' by (simp add: prune_step_def)
  then show ?thesis
    using r d lists r' by (simp add: Reconcile_def full_not_blocked)
qed

end

section \<open>A sample pass\<close>

lemma sample_ok: "agent_ok (sample_agent ''p1'' ''ann'' StatusWorking)" "agent_ok (sample_agent ''p2'' ''bob'' StatusIdle)"
  by code_simp+

lemma sample_run: "forum_run fakes fake_topic fake_used fake_icon sample_recon"
  unfolding sample_recon_def
  by (rule forum_run.start) (simp add: mirrors_def NewMapping_def mapping_ok_def)

text \<open>The first pass over two new agents leaves the second with a topic.\<close>

lemma sample_pass:
  defines "b \<equiv> sample_agent ''p2'' ''bob'' StatusIdle"
  defines "r \<equiv> snd (Reconcile fakes [sample_agent ''p1'' ''ann'' StatusWorking, b] sample_recon)"
  obtains e where "TopicFor (rc_mapping r) (ag_Key b) = Some e" "fake_topic (rc_world r) (te_ThreadID e) \<noteq> None"
proof -
  let ?live = "[sample_agent ''p1'' ''ann'' StatusWorking, b]"
  have "in_step fake_topic fake_used fake_icon sample_recon"
    using fake.forum_axioms sample_run by (rule forum_run_in_step)
  moreover have "fake_calm (rc_world sample_recon)" "\<not> rc_rightsLost sample_recon" "\<not> rc_force sample_recon"
    "all_exist (fake_topic (rc_world sample_recon)) (rc_mapping sample_recon)"
    by (simp_all add: sample_recon_def NewReconciler_def fake_calm_def fake_world_def NewFakeTelegram_def all_exist_def NewMapping_def)
  moreover have "agent_ok a" if "a \<in> set ?live" for a using that sample_ok by (auto simp: b_def)
  moreover have "distinct (map ag_Key ?live)" by (simp add: sample_agent_def b_def)
  ultimately obtain r' where r': "Reconcile fakes ?live sample_recon = (None, r')" "settled ?live (rc_mapping r')"
      "all_exist (fake_topic (rc_world r')) (rc_mapping r')"
    using fake.pass_settles [of sample_recon ?live] by blast
  have "current b (TopicFor (rc_mapping r') (ag_Key b))" using r'(2) by (simp add: settled_def)
  then obtain e where e: "TopicFor (rc_mapping r') (ag_Key b) = Some e" by (auto simp: current_def)
  moreover have "r = r'" using r'(1) by (simp add: r_def)
  moreover have "fake_topic (rc_world r') (te_ThreadID e) \<noteq> None"
    using r'(3) e unfolding all_exist_def TopicFor_def by blast
  ultimately show ?thesis using that by blast
qed

section \<open>Properties\<close>





end
